(* ===== verification/Linko_Prelude.thy ===== *)
theory Linko_Prelude
  imports Main "HOL-Library.Word" "HOL-Library.Char_ord" "HOL-Library.List_Lexorder"
begin

text \<open>
  Shared vocabulary of the development: machine-level type names, the ways a C++ operation
  can fail, the effect type of a method that mutates its object and may throw, and the
  generic lemmas on lists and words that the component theories rely on.
\<close>

named_theorems linko_defs \<open>definitions unfolded when an operation is evaluated\<close>
named_theorems eff_simps \<open>evaluation of the exception-and-state effect\<close>
named_theorems bytes_simps \<open>byte-level views of machine words\<close>

section \<open>Machine types\<close>

type_synonym byte = "8 word"
type_synonym u16 = "16 word"
type_synonym u32 = "32 word"
type_synonym u64 = "64 word"

text \<open>
  Subtraction of two \<^verbatim>\<open>size_t\<close> values kept as naturals below \<open>2 ^ 64\<close>: the result wraps
  around where the C++ expression does.
\<close>

definition usub64 :: "nat \<Rightarrow> nat \<Rightarrow> nat" where
  "usub64 a b = (if b \<le> a then a - b else a + 2 ^ 64 - b)"

lemma usub64_le [simp]: "b \<le> a \<Longrightarrow> usub64 a b = a - b"
  by (simp add: usub64_def)

lemma usub64_self [simp]: "usub64 a a = 0"
  by simp

section \<open>Failures and effects\<close>

text \<open>
  \<open>Undefined\<close> stands for undefined behaviour (a null dereference, an access outside a block, a
  division by zero), \<open>Diverges\<close> for a loop that never ends, \<open>Assertion\<close> for a failed
  \<^verbatim>\<open>LINKO_ASSERT\<close>; the other constructors are the standard exceptions the code throws.
\<close>

datatype cpp_error =
    Out_of_range
  | Logic_error
  | Invalid_argument
  | Runtime_error
  | Assertion
  | Undefined
  | Diverges

text \<open>
  A method with effects maps the object's state to its outcome and the state it leaves, also
  when it throws: a C++ exception does not undo the assignments made before it.
\<close>

type_synonym ('s, 'a) eff = "'s \<Rightarrow> (cpp_error + 'a) \<times> 's"

definition eff_return :: "'a \<Rightarrow> ('s, 'a) eff" where
  "eff_return x s = (Inr x, s)"

definition eff_throw :: "cpp_error \<Rightarrow> ('s, 'a) eff" where
  "eff_throw e s = (Inl e, s)"

definition eff_bind :: "('s, 'a) eff \<Rightarrow> ('a \<Rightarrow> ('s, 'b) eff) \<Rightarrow> ('s, 'b) eff" where
  "eff_bind m f s = (case m s of (Inl e, s') \<Rightarrow> (Inl e, s') | (Inr x, s') \<Rightarrow> f x s')"

lemma eff_return_app [eff_simps, simp]: "eff_return x s = (Inr x, s)"
  by (simp add: eff_return_def)

lemma eff_throw_app [eff_simps, simp]: "eff_throw e s = (Inl e, s)"
  by (simp add: eff_throw_def)

lemma eff_bind_Inr [eff_simps]: "m s = (Inr x, s') \<Longrightarrow> eff_bind m f s = f x s'"
  by (simp add: eff_bind_def)

lemma eff_bind_Inl [eff_simps]: "m s = (Inl e, s') \<Longrightarrow> eff_bind m f s = (Inl e, s')"
  by (simp add: eff_bind_def)

lemma eff_bind_assoc: "eff_bind (eff_bind m f) g = eff_bind m (\<lambda>x. eff_bind (f x) g)"
  by (auto simp: eff_bind_def fun_eq_iff split: prod.splits sum.splits)

lemma eff_bind_InrE:
  assumes "eff_bind m f s = (Inr y, t)"
  obtains x s' where "m s = (Inr x, s')" "f x s' = (Inr y, t)"
  using assms by (auto simp: eff_bind_def split: prod.splits sum.splits)

section \<open>Lists\<close>

text \<open>Overwriting the part of a block that starts at \<open>off\<close>, what \<^verbatim>\<open>memcpy\<close> does to its target.\<close>

definition overwrite :: "'a list \<Rightarrow> nat \<Rightarrow> 'a list \<Rightarrow> 'a list" where
  "overwrite xs off ys = take off xs @ ys @ drop (off + length ys) xs"

lemma length_overwrite [simp]: "off + length ys \<le> length xs \<Longrightarrow> length (overwrite xs off ys) = length xs"
  by (simp add: overwrite_def)

lemma overwrite_Nil [simp]: "overwrite xs off [] = xs"
  by (simp add: overwrite_def)

lemma overwrite_append_left:
  "off + length ys \<le> length xs \<Longrightarrow> overwrite (xs @ zs) off ys = overwrite xs off ys @ zs"
  by (simp add: overwrite_def)

lemma overwrite_append_right:
  "overwrite (xs @ zs) (length xs + off) ys = xs @ overwrite zs off ys"
  by (simp add: overwrite_def add.assoc)

lemma overwrite_overwrite_adjacent:
  assumes "off + length ys + length zs \<le> length xs"
  shows "overwrite (overwrite xs off ys) (off + length ys) zs = overwrite xs off (ys @ zs)"
  using assms by (auto simp: overwrite_def min_absorb2 add_ac)

lemma take_drop_overwrite:
  "off + length ys \<le> length xs \<Longrightarrow> take (length ys) (drop off (overwrite xs off ys)) = ys"
  by (simp add: overwrite_def min_def)

lemma take_overwrite: "off \<le> length xs \<Longrightarrow> take off (overwrite xs off ys) = take off xs"
  by (simp add: overwrite_def)

lemma drop_overwrite:
  "off + length ys \<le> length xs \<Longrightarrow> drop (off + length ys) (overwrite xs off ys) = drop (off + length ys) xs"
  by (simp add: overwrite_def)

lemma concat_nth_split:
  "i < length xss \<Longrightarrow> concat xss = concat (take i xss) @ xss ! i @ concat (drop (Suc i) xss)"
  by (metis concat.simps(2) concat_append id_take_nth_drop)

lemma length_concat_const:
  "(\<And>xs. xs \<in> set xss \<Longrightarrow> length xs = k) \<Longrightarrow> length (concat xss) = length xss * k"
  by (induction xss) auto

text \<open>Blocks of one size laid end to end: writing into a block is writing into the whole.\<close>

lemma concat_update_overwrite:
  assumes len: "\<And>xs. xs \<in> set xss \<Longrightarrow> length xs = k" and i: "i < length xss" and off: "off + length ys \<le> k"
  shows "concat (xss[i := overwrite (xss ! i) off ys]) = overwrite (concat xss) (i * k + off) ys"
proof -
  let ?A = "concat (take i xss)" and ?B = "xss ! i" and ?C = "concat (drop (Suc i) xss)"
  have A: "length ?A = i * k"
    using i len by (subst length_concat_const [where k = k]) (auto dest: in_set_takeD)
  have B: "length ?B = k" using i len by simp
  have "overwrite (concat xss) (i * k + off) ys = overwrite (?A @ ?B @ ?C) (length ?A + off) ys"
    using concat_nth_split [OF i] A by simp
  also have "\<dots> = ?A @ overwrite ?B off ys @ ?C"
    using off B by (simp add: overwrite_append_right overwrite_append_left)
  also have "\<dots> = concat (xss[i := overwrite ?B off ys])"
    using i by (simp add: upd_conv_take_nth_drop)
  finally show ?thesis ..
qed

lemma take_drop_concat:
  assumes len: "\<And>xs. xs \<in> set xss \<Longrightarrow> length xs = k" and i: "i < length xss" and off: "off + n \<le> k"
  shows "take n (drop off (xss ! i)) = take n (drop (i * k + off) (concat xss))"
proof -
  let ?A = "concat (take i xss)" and ?B = "xss ! i" and ?C = "concat (drop (Suc i) xss)"
  have A: "length ?A = i * k"
    using i len by (subst length_concat_const [where k = k]) (auto dest: in_set_takeD)
  have B: "length ?B = k" using i len by simp
  have "take n (drop (i * k + off) (concat xss)) = take n (drop (length ?A + off) (?A @ ?B @ ?C))"
    using concat_nth_split [OF i] A by simp
  also have "\<dots> = take n (drop off ?B)" using off B by simp
  finally show ?thesis ..
qed

text \<open>How many elements satisfy a test, after one of them has been replaced.\<close>

lemma length_filter_update:
  "i < length xs \<Longrightarrow>
     of_nat (length (filter P (xs[i := y]))) =
       (of_nat (length (filter P xs)) - of_bool (P (xs ! i)) + of_bool (P y) :: 'a::ring_1)"
proof (induction xs arbitrary: i)
  case (Cons x xs)
  show ?case
  proof (cases i)
    case (Suc j)
    then have "of_nat (length (filter P (xs[j := y]))) =
        (of_nat (length (filter P xs)) - of_bool (P (xs ! j)) + of_bool (P y) :: 'a)"
      using Cons by simp
    then show ?thesis using Suc by simp
  qed simp
qed simp

end
