(* ===== verification/Endian.thy ===== *)
theory Endian
  imports Linko_Prelude
begin

unbundle bit_operations_syntax

text \<open>
  Byte order (\<^verbatim>\<open>linko/endian.h\<close>): the two order constants, \<^verbatim>\<open>byteswap\<close> for the 16, 32 and 64 bit
  integers, the two conditional swaps, and the bytes of an integer in the memory of a host.
  The order of the host (\<^verbatim>\<open>LINKO_BYTE_ORDER\<close>, fixed by the preprocessor) is an argument.
\<close>

section \<open>Definitions\<close>

datatype byte_order = LINKO_LITTLE_ENDIAN | LINKO_BIG_ENDIAN

text \<open>The bytes of a word, least significant first, and the word with given bytes.\<close>

definition bytes_le :: "'a::len word \<Rightarrow> byte list" where
  "bytes_le w = map (\<lambda>i. ucast (drop_bit (8 * i) w)) [0..<LENGTH('a) div 8]"

definition bytes_be :: "'a::len word \<Rightarrow> byte list" where
  "bytes_be w = rev (bytes_le w)"

fun word_of_le :: "byte list \<Rightarrow> 'a::len word" where
  "word_of_le [] = 0"
| "word_of_le (b # bs) = ucast b OR push_bit 8 (word_of_le bs)"

definition word_of_be :: "byte list \<Rightarrow> 'a::len word" where
  "word_of_be bs = word_of_le (rev bs)"

text \<open>\<^verbatim>\<open>byteswap\<close> is \<^verbatim>\<open>bswap_16\<close>, \<^verbatim>\<open>bswap_32\<close> or \<^verbatim>\<open>bswap_64\<close>, chosen by the size of its argument.\<close>

definition byteswap :: "'a::len word \<Rightarrow> 'a word" where
  "byteswap w = word_of_le (rev (bytes_le w))"

definition byteswapOnLittleEndian :: "byte_order \<Rightarrow> 'a::len word \<Rightarrow> 'a word" where
  "byteswapOnLittleEndian host t = (case host of LINKO_BIG_ENDIAN \<Rightarrow> t | LINKO_LITTLE_ENDIAN \<Rightarrow> byteswap t)"

definition byteswapOnBigEndian :: "byte_order \<Rightarrow> 'a::len word \<Rightarrow> 'a word" where
  "byteswapOnBigEndian host t = (case host of LINKO_BIG_ENDIAN \<Rightarrow> byteswap t | LINKO_LITTLE_ENDIAN \<Rightarrow> t)"

text \<open>The representation of an integer in the memory of the host, which \<^verbatim>\<open>memcpy\<close> copies.\<close>

definition mem_bytes :: "byte_order \<Rightarrow> 'a::len word \<Rightarrow> byte list" where
  "mem_bytes host w = (case host of LINKO_LITTLE_ENDIAN \<Rightarrow> bytes_le w | LINKO_BIG_ENDIAN \<Rightarrow> bytes_be w)"

definition mem_value :: "byte_order \<Rightarrow> byte list \<Rightarrow> 'a::len word" where
  "mem_value host bs = (case host of LINKO_LITTLE_ENDIAN \<Rightarrow> word_of_le bs | LINKO_BIG_ENDIAN \<Rightarrow> word_of_be bs)"

definition bytes_in_order :: "byte_order \<Rightarrow> 'a::len word \<Rightarrow> byte list" where
  "bytes_in_order order w = (case order of LINKO_LITTLE_ENDIAN \<Rightarrow> bytes_le w | LINKO_BIG_ENDIAN \<Rightarrow> bytes_be w)"

section \<open>Words and their bytes\<close>

lemma length_bytes_le [simp]: "length (bytes_le (w :: 'a::len word)) = LENGTH('a) div 8"
  by (simp add: bytes_le_def)

lemma length_bytes_be [simp]: "length (bytes_be (w :: 'a::len word)) = LENGTH('a) div 8"
  by (simp add: bytes_be_def)

lemma length_mem_bytes [simp]: "length (mem_bytes host (w :: 'a::len word)) = LENGTH('a) div 8"
  by (simp add: mem_bytes_def split: byte_order.split)

lemma bit_word_of_le:
  "bit (word_of_le bs :: 'a::len word) n \<longleftrightarrow>
     n < LENGTH('a) \<and> n div 8 < length bs \<and> bit (bs ! (n div 8)) (n mod 8)"
proof (induction bs arbitrary: n)
  case Nil
  then show ?case by simp
next
  case (Cons b bs)
  show ?case
  proof (cases "n < 8")
    case True
    then show ?thesis by (auto simp: bit_or_iff bit_push_bit_iff bit_ucast_iff)
  next
    case False
    then have b: "\<not> bit b n" and div: "n div 8 = Suc ((n - 8) div 8)" and mod: "(n - 8) mod 8 = n mod 8"
      by (auto simp: bit_word.rep_eq le_div_geq le_mod_geq dest: bit_imp_le_length)
    show ?thesis using False
      by (auto simp: bit_or_iff bit_push_bit_iff bit_ucast_iff Cons.IH b div mod)
  qed
qed

lemma bit_bytes_le:
  "i < LENGTH('a) div 8 \<Longrightarrow> k < 8 \<Longrightarrow> bit (bytes_le (w :: 'a::len word) ! i) k = bit w (8 * i + k)"
  by (simp add: bytes_le_def bit_ucast_iff bit_drop_bit_eq)

lemma word_of_le_bytes_le:
  assumes "8 dvd LENGTH('a)"
  shows "word_of_le (bytes_le w) = (w :: 'a::len word)"
proof (rule bit_eqI)
  fix n assume "possible_bit TYPE('a word) n"
  then have n: "n < LENGTH('a)" by simp
  with assms have "n div 8 < LENGTH('a) div 8"
    by (simp add: div_less_iff_less_mult dvd_div_mult_self less_eq_div_iff_mult_less_eq)
  with n show "bit (word_of_le (bytes_le w) :: 'a word) n = bit w n"
    by (simp add: bit_word_of_le bit_bytes_le mult_div_mod_eq)
qed

lemma bytes_le_word_of_le:
  assumes "length bs = LENGTH('a) div 8"
  shows "bytes_le (word_of_le bs :: 'a::len word) = bs"
proof (rule nth_equalityI)
  show "length (bytes_le (word_of_le bs :: 'a word)) = length bs" by (simp add: assms)
  fix i assume "i < length (bytes_le (word_of_le bs :: 'a word))"
  then have i: "i < LENGTH('a) div 8" by simp
  show "bytes_le (word_of_le bs :: 'a word) ! i = bs ! i"
  proof (rule bit_eqI)
    fix k assume "possible_bit TYPE(8 word) k"
    then have k: "k < 8" by simp
    with i have "8 * i + k < LENGTH('a)" by linarith
    with i k show "bit (bytes_le (word_of_le bs :: 'a word) ! i) k = bit (bs ! i) k"
      by (simp add: bit_bytes_le bit_word_of_le assms)
  qed
qed

lemma bytes_le_byteswap: "bytes_le (byteswap w) = rev (bytes_le (w :: 'a::len word))"
  by (simp add: byteswap_def bytes_le_word_of_le)

lemma byteswap_byteswap:
  assumes "8 dvd LENGTH('a)"
  shows "byteswap (byteswap w) = (w :: 'a::len word)"
proof -
  have "byteswap (byteswap w) = word_of_le (rev (bytes_le (byteswap w)))"
    by (simp add: byteswap_def [of "byteswap w"])
  also have "\<dots> = w" using assms by (simp add: bytes_le_byteswap word_of_le_bytes_le)
  finally show ?thesis .
qed

section \<open>Memory representations\<close>

lemma mem_value_mem_bytes:
  "8 dvd LENGTH('a) \<Longrightarrow> mem_value host (mem_bytes host w) = (w :: 'a::len word)"
  by (simp add: mem_value_def mem_bytes_def bytes_be_def word_of_be_def word_of_le_bytes_le
      split: byte_order.split)

text \<open>Swapping when the wanted order is not the host's makes the bytes independent of the host.\<close>

lemma mem_bytes_swapped [bytes_simps]:
  "mem_bytes host (if order \<noteq> host then byteswap w else w) = bytes_in_order order (w :: 'a::len word)"
  by (cases host; cases order)
    (simp_all add: mem_bytes_def bytes_in_order_def bytes_be_def bytes_le_byteswap)

lemma mem_value_swapped [bytes_simps]:
  assumes "8 dvd LENGTH('a)"
  shows "(if order = host then mem_value host (bytes_in_order order w)
          else byteswap (mem_value host (bytes_in_order order w))) = (w :: 'a::len word)"
proof -
  have eq: "bytes_in_order order w = mem_bytes host (if order \<noteq> host then byteswap w else w)"
    by (simp only: mem_bytes_swapped)
  show ?thesis using assms unfolding eq
    by (cases "order = host") (simp_all add: mem_value_mem_bytes byteswap_byteswap)
qed

lemma length_bytes_in_order [simp]:
  "length (bytes_in_order order (w :: 'a::len word)) = LENGTH('a) div 8"
  by (simp add: bytes_in_order_def split: byte_order.split)

lemma byteswapOnLittleEndian_twice:
  "8 dvd LENGTH('a) \<Longrightarrow> byteswapOnLittleEndian host (byteswapOnLittleEndian host w) = (w :: 'a::len word)"
  by (simp add: byteswapOnLittleEndian_def byteswap_byteswap split: byte_order.split)

text \<open>Network byte order: the swapped integer has its most significant byte first in memory.\<close>

lemma mem_bytes_byteswapOnLittleEndian:
  "mem_bytes host (byteswapOnLittleEndian host w) = bytes_be (w :: 'a::len word)"
  by (simp add: mem_bytes_def byteswapOnLittleEndian_def bytes_be_def bytes_le_byteswap
      split: byte_order.split)

end
