(* ===== verification/Codec.thy ===== *)
theory Codec
  imports Endian
begin

unbundle bit_operations_syntax

text \<open>
  The integer encodings of \<^verbatim>\<open>linko/bytearray.cc\<close>: zigzag, the variable-length integers, and the
  typed reads as programs over a reader of \<open>n\<close> raw bytes.  The locale \<open>byte_stream\<close> is the
  contract such a reader must meet, and the client lemmas about typed reads are proved in it.
\<close>

section \<open>Zigzag\<close>

text \<open>
  \<^verbatim>\<open>v >> 31\<close> of a signed integer is the arithmetic shift, \<^verbatim>\<open>v >> 1\<close> of an unsigned one the
  logical shift. The 64 bit encoder shifts by 31 as the source does.
\<close>

definition EncodeZigzag32 :: "u32 \<Rightarrow> u32" where
  "EncodeZigzag32 v = push_bit 1 v XOR signed_drop_bit 31 v"

definition EncodeZigzag64 :: "u64 \<Rightarrow> u64" where
  "EncodeZigzag64 v = push_bit 1 v XOR signed_drop_bit 31 v"

definition DecodeZigzag32 :: "u32 \<Rightarrow> u32" where
  "DecodeZigzag32 v = drop_bit 1 v XOR (- (v AND 1))"

definition DecodeZigzag64 :: "u64 \<Rightarrow> u64" where
  "DecodeZigzag64 v = drop_bit 1 v XOR (- (v AND 1))"

section \<open>Variable-length integers\<close>

lemma unat_shift7: "unat (drop_bit 7 (w :: 'a::len word)) = unat w div 128"
  by (subst unat_drop_bit_eq) (simp add: drop_bit_eq_div)

text \<open>The bytes that the loop of \<^verbatim>\<open>writeUint32\<close> and \<^verbatim>\<open>writeUint64\<close> stores into \<^verbatim>\<open>tmp\<close>.\<close>

function varint_bytes :: "'a::len word \<Rightarrow> byte list" where
  "varint_bytes value =
     (if 0x80 \<le> unat value
      then (ucast (value AND 0x7F) OR 0x80) # varint_bytes (drop_bit 7 value)
      else [ucast value])"
  by pat_completeness auto
termination
  by (relation "measure unat", rule wf_measure, unfold in_measure unat_shift7, simp)

declare varint_bytes.simps [simp del]

section \<open>Typed reads over a raw reader\<close>

type_synonym 's reader = "nat \<Rightarrow> ('s, byte list) eff"

text \<open>\<^verbatim>\<open>readFint8\<close> and \<^verbatim>\<open>readFuint8\<close>: one raw byte, whatever the byte order.\<close>

definition read_byte :: "'s reader \<Rightarrow> ('s, byte) eff" where
  "read_byte rd = eff_bind (rd 1) (\<lambda>bs. eff_return (hd bs))"

text \<open>The body of the macro \<^verbatim>\<open>XX(type)\<close> of the fixed-width reads.\<close>

definition read_fixed :: "byte_order \<Rightarrow> ('s \<Rightarrow> byte_order) \<Rightarrow> 's reader \<Rightarrow> ('s, 'a::len word) eff" where
  "read_fixed host endian rd = eff_bind (rd (LENGTH('a) div 8))
     (\<lambda>bs s. let v = mem_value host bs :: 'a word
             in eff_return (if endian s = host then v else byteswap v) s)"

text \<open>The loop of \<^verbatim>\<open>readUint32\<close> (\<open>bits = 32\<close>) and \<^verbatim>\<open>readUint64\<close> (\<open>bits = 64\<close>).\<close>

function read_varint :: "'s reader \<Rightarrow> nat \<Rightarrow> nat \<Rightarrow> 'a::len word \<Rightarrow> ('s, 'a word) eff" where
  "read_varint rd bits i result =
     (if i < bits
      then eff_bind (read_byte rd) (\<lambda>b.
             if b < 0x80 then eff_return (result OR push_bit i (ucast b))
             else read_varint rd bits (i + 7) (result OR push_bit i (ucast (b AND 0x7F))))
      else eff_return result)"
  by pat_completeness auto
termination
  by (relation "measure (\<lambda>(rd, bits, i, result). bits - i)") auto

declare read_varint.simps [simp del]

section \<open>Zigzag round trips\<close>

lemma bit_neg_lsb:
  "bit (- (v AND 1) :: 'a::len word) n \<longleftrightarrow> n < LENGTH('a) \<and> bit v 0"
proof -
  have "v AND 1 = (if bit v 0 then 1 else 0)"
    by (simp add: and_one_eq bit_0 odd_iff_mod_2_eq_one)
  then show ?thesis by (auto dest: bit_imp_le_length)
qed

lemma DecodeZigzag32_bit:
  "bit (DecodeZigzag32 v) n \<longleftrightarrow> n < 32 \<and> (bit v (Suc n) \<noteq> bit v 0)"
  by (auto simp: DecodeZigzag32_def bit_xor_iff bit_drop_bit_eq bit_neg_lsb dest: bit_imp_le_length)

lemma EncodeZigzag32_bit:
  "bit (EncodeZigzag32 v) n \<longleftrightarrow> n < 32 \<and> ((0 < n \<and> bit v (n - 1)) \<noteq> bit v 31)"
proof -
  have "bit (push_bit 1 v) n \<longleftrightarrow> 0 < n \<and> n < 32 \<and> bit v (n - 1)"
    by (subst bit_push_bit_iff) (auto dest: bit_imp_le_length)
  moreover have "bit (signed_drop_bit 31 v) n \<longleftrightarrow> n < 32 \<and> bit v 31"
    by (cases "n = 0") (auto simp: bit_signed_drop_bit_iff dest: bit_imp_le_length)
  ultimately show ?thesis by (auto simp: EncodeZigzag32_def bit_xor_iff)
qed

lemma zigzag32_roundtrip_bits: "DecodeZigzag32 (EncodeZigzag32 v) = v"
proof (rule bit_eqI)
  fix n assume "possible_bit TYPE(u32) n"
  then have "n < 32" by simp
  then show "bit (DecodeZigzag32 (EncodeZigzag32 v)) n = bit v n"
    by (cases "n = 31") (auto simp: DecodeZigzag32_bit EncodeZigzag32_bit)
qed

text \<open>
  The 64 bit encoder shifts the sign by 31 places instead of 63, so it loses every value that
  does not fit in 32 bits.
\<close>

lemma DecodeZigzag64_bit:
  "bit (DecodeZigzag64 v) n \<longleftrightarrow> n < 64 \<and> (bit v (Suc n) \<noteq> bit v 0)"
  by (auto simp: DecodeZigzag64_def bit_xor_iff bit_drop_bit_eq bit_neg_lsb dest: bit_imp_le_length)

lemma EncodeZigzag64_bit:
  "bit (EncodeZigzag64 v) n \<longleftrightarrow> n < 64 \<and> ((0 < n \<and> bit v (n - 1)) \<noteq> bit v (min (31 + n) 63))"
proof -
  have "bit (push_bit 1 v) n \<longleftrightarrow> 0 < n \<and> n < 64 \<and> bit v (n - 1)"
    by (subst bit_push_bit_iff) (auto dest: bit_imp_le_length)
  moreover have "bit (signed_drop_bit 31 v) n \<longleftrightarrow> n < 64 \<and> bit v (min (31 + n) 63)"
  proof (cases "n < 33")
    case True
    then show ?thesis by (simp add: bit_signed_drop_bit_iff)
  next
    case False
    then have "min (31 + n) 63 = 63" by simp
    with False show ?thesis
      using bit_imp_le_length [of v "31 + n"]
      by (cases "n < 64") (auto simp: bit_signed_drop_bit_iff)
  qed
  ultimately show ?thesis by (auto simp: EncodeZigzag64_def bit_xor_iff)
qed

lemma fits32_iff_bits:
  "- (2 ^ 31) \<le> sint (v :: u64) \<and> sint v < 2 ^ 31 \<longleftrightarrow> (\<forall>n. 31 \<le> n \<and> n < 64 \<longrightarrow> bit v n = bit v 31)"
proof -
  have "- (2 ^ 31) \<le> sint v \<and> sint v < 2 ^ 31 \<longleftrightarrow> signed_take_bit 31 (sint v) = sint v"
    by (simp add: signed_take_bit_int_eq_self_iff)
  also have "\<dots> \<longleftrightarrow> (\<forall>n. bit (sint v) (min 31 n) = bit (sint v) n)"
    by (auto simp: bit_eq_iff bit_signed_take_bit_iff)
  also have "\<dots> \<longleftrightarrow> (\<forall>n. bit v (min 31 n) = bit v (min 63 n))"
  proof -
    have "bit (sint v) n = bit v (min 63 n)" for n
      using bit_imp_le_length [of v n]
      by (cases "n < 63"; cases "n = 63") (auto simp: bit_sint_iff)
    then show ?thesis by simp
  qed
  also have "\<dots> \<longleftrightarrow> (\<forall>n. 31 \<le> n \<and> n < 64 \<longrightarrow> bit v n = bit v 31)"
  proof
    assume *: "\<forall>n. bit v (min 31 n) = bit v (min 63 n)"
    show "\<forall>n. 31 \<le> n \<and> n < 64 \<longrightarrow> bit v n = bit v 31"
    proof (intro allI impI)
      fix n :: nat assume "31 \<le> n \<and> n < 64"
      then have "min 31 n = 31" "min 63 n = n" by auto
      with spec [OF *, of n] show "bit v n = bit v 31" by simp
    qed
  next
    assume *: "\<forall>n. 31 \<le> n \<and> n < 64 \<longrightarrow> bit v n = bit v 31"
    show "\<forall>n. bit v (min 31 n) = bit v (min 63 n)"
    proof
      fix n
      show "bit v (min 31 n) = bit v (min 63 n)"
      proof (cases "n < 31")
        case False
        then have "31 \<le> min 63 n \<and> min 63 n < 64" "min 31 n = 31" by linarith+
        with * show ?thesis by metis
      qed simp
    qed
  qed
  finally show ?thesis .
qed

lemma zigzag64_bits_iff:
  "DecodeZigzag64 (EncodeZigzag64 v) = v \<longleftrightarrow> (\<forall>n. 31 \<le> n \<and> n < 64 \<longrightarrow> bit v n = bit v 31)"
proof -
  have bit: "bit (DecodeZigzag64 (EncodeZigzag64 v)) n = bit v n \<longleftrightarrow> bit v (min (32 + n) 63) = bit v 31"
    if "n < 64" for n
  proof (cases "n = 63")
    case True
    then show ?thesis by (simp add: DecodeZigzag64_bit EncodeZigzag64_bit) blast
  next
    case False
    with that have "bit (EncodeZigzag64 v) (Suc n) = (bit v n \<noteq> bit v (min (32 + n) 63))"
      by (simp add: EncodeZigzag64_bit)
    moreover have "bit (EncodeZigzag64 v) 0 = bit v 31" by (simp add: EncodeZigzag64_bit)
    ultimately show ?thesis using that by (simp only: DecodeZigzag64_bit) blast
  qed
  have "DecodeZigzag64 (EncodeZigzag64 v) = v \<longleftrightarrow>
      (\<forall>n < 64. bit (DecodeZigzag64 (EncodeZigzag64 v)) n = bit v n)"
    by (simp add: bit_eq_iff)
  also have "\<dots> \<longleftrightarrow> (\<forall>n < 64. bit v (min (32 + n) 63) = bit v 31)"
    by (simp add: bit cong: imp_cong)
  also have "\<dots> \<longleftrightarrow> (\<forall>n. 31 \<le> n \<and> n < 64 \<longrightarrow> bit v n = bit v 31)" (is "?L = ?R")
  proof
    assume L: ?L
    show ?R
    proof (intro allI impI)
      fix n :: nat assume n: "31 \<le> n \<and> n < 64"
      show "bit v n = bit v 31"
      proof (cases "n = 31")
        case False
        with n have "n - 32 < 64" and eq: "min (32 + (n - 32)) 63 = n" by auto
        then have "bit v (min (32 + (n - 32)) 63) = bit v 31" using L by blast
        then show ?thesis by (simp only: eq)
      qed simp
    qed
  next
    assume R: ?R
    show ?L
    proof (intro allI impI)
      fix n :: nat
      have "31 \<le> min (32 + n) 63 \<and> min (32 + n) 63 < 64" by linarith
      with R show "bit v (min (32 + n) 63) = bit v 31" by metis
    qed
  qed
  finally show ?thesis .
qed

section \<open>Variable-length integers: size and bytes\<close>

text \<open>Seven bits per byte: the encoding fits \<^verbatim>\<open>tmp[5]\<close> for 32 bits and \<^verbatim>\<open>tmp[10]\<close> for 64.\<close>

lemma length_varint_bytes_le:
  "unat (v :: 'a::len word) < 2 ^ (7 * Suc k) \<Longrightarrow> length (varint_bytes v) \<le> Suc k"
proof (induction k arbitrary: v)
  case 0
  then show ?case by (simp add: varint_bytes.simps [of v])
next
  case (Suc k)
  have "unat v div 128 < 2 ^ (7 * Suc k)"
    using Suc.prems by (simp add: div_less_iff_less_mult power_add mult.commute)
  with Suc.IH [of "drop_bit 7 v"] have "length (varint_bytes (drop_bit 7 v)) \<le> Suc k"
    by (simp only: unat_shift7)
  then show ?case by (simp add: varint_bytes.simps [of v])
qed

lemma varint_bytes_not_Nil [simp]: "varint_bytes v \<noteq> []"
  by (simp add: varint_bytes.simps [of v])

text \<open>The bit-level facts that one iteration of the read loop needs.\<close>

lemma continuation_byte:
  fixes w :: "'a::len word"
  assumes "8 \<le> LENGTH('a)"
  shows "\<not> (ucast (w AND 0x7F) OR 0x80 :: byte) < 0x80"
    and "(ucast ((ucast (w AND 0x7F) OR 0x80 :: byte) AND 0x7F) :: 'a word) = take_bit 7 w"
proof -
  have "(0x80 :: byte) \<le> 0x80 OR ucast (w AND 0x7F)" by (rule le_word_or2)
  then show "\<not> (ucast (w AND 0x7F) OR 0x80 :: byte) < 0x80" by (simp add: or.commute not_less)
  have m: "(0x7F :: byte) = mask 7" "(0x7F :: 'a word) = mask 7"
    by (simp_all add: mask_eq_exp_minus_1)
  have e: "bit (0x80 :: byte) n \<longleftrightarrow> n = 7" for n
    using bit_exp_iff [where 'a = byte, of 7 n] by auto
  have e': "bit (0x80 :: 'a word) n \<longleftrightarrow> n = 7" for n
    using assms bit_exp_iff [where 'a = "'a word", of 7 n] by auto
  have e'': "bit (0x80 :: int) n \<longleftrightarrow> n = 7" "bit (0x80 :: nat) n \<longleftrightarrow> n = 7" for n
    using bit_exp_iff [where 'a = int, of 7 n] bit_exp_iff [where 'a = nat, of 7 n] by auto
  show "(ucast ((ucast (w AND 0x7F) OR 0x80 :: byte) AND 0x7F) :: 'a word) = take_bit 7 w"
    using assms unfolding m
    by (intro bit_eqI) (auto simp: bit_ucast_iff bit_and_iff bit_or_iff bit_mask_iff bit_take_bit_iff e e' e'')
qed

lemma final_byte:
  fixes w :: "'a::len word"
  assumes "8 \<le> LENGTH('a)" "unat w < 0x80"
  shows "(ucast w :: byte) < 0x80" and "(ucast (ucast w :: byte) :: 'a word) = w"
proof -
  have u: "unat (ucast w :: byte) = unat w"
    using assms(2) by (simp add: unsigned_ucast_eq unsigned_take_bit_eq take_bit_nat_eq_self_iff)
  then show "(ucast w :: byte) < 0x80" using assms(2) by (simp add: word_less_nat_alt)
  show "(ucast (ucast w :: byte) :: 'a word) = w"
    using assms u
    by (simp add: word_unat_eq_iff unsigned_ucast_eq unsigned_take_bit_eq take_bit_nat_eq_self_iff)
qed

lemma take_bit_extend:
  "take_bit i w OR push_bit i (take_bit 7 (drop_bit i w)) = take_bit (i + 7) (w :: 'a::len word)"
  by (rule bit_eqI) (auto simp: bit_or_iff bit_take_bit_iff bit_push_bit_iff bit_drop_bit_eq)

lemma take_bit_or_rest: "take_bit i w OR push_bit i (drop_bit i w) = (w :: 'a::len word)"
proof (rule bit_eqI)
  fix n assume "possible_bit TYPE('a word) n"
  then show "bit (take_bit i w OR push_bit i (drop_bit i w)) n = bit w n"
    by (cases "n < i") (auto simp: bit_or_iff bit_take_bit_iff bit_push_bit_iff bit_drop_bit_eq)
qed

section \<open>The contract of a raw reader\<close>

text \<open>
  A raw reader delivers the next bytes of what remains and advances past them, or throws and
  changes nothing when too few bytes remain.  Nothing is promised for a read of no bytes.
\<close>

locale byte_stream =
  fixes rd :: "'s reader"
    and inv :: "'s \<Rightarrow> bool"
    and remaining :: "'s \<Rightarrow> byte list"
    and endian :: "'s \<Rightarrow> byte_order"
  assumes rd_enough: "inv s \<Longrightarrow> 0 < n \<Longrightarrow> n \<le> length (remaining s) \<Longrightarrow>
      \<exists>s'. rd n s = (Inr (take n (remaining s)), s') \<and> inv s' \<and>
           remaining s' = drop n (remaining s) \<and> endian s' = endian s"
    and rd_short: "inv s \<Longrightarrow> length (remaining s) < n \<Longrightarrow> rd n s = (Inl Out_of_range, s)"
begin

lemma read_byte_ok:
  assumes "inv s" "remaining s = b # rest"
  shows "\<exists>s'. read_byte rd s = (Inr b, s') \<and> inv s' \<and> remaining s' = rest \<and> endian s' = endian s"
proof -
  from rd_enough [of s 1] assms obtain s' where
    "rd 1 s = (Inr [b], s')" "inv s'" "remaining s' = rest" "endian s' = endian s"
    by auto
  then show ?thesis by (simp add: read_byte_def eff_bind_def)
qed

lemma read_fixed_ok:
  fixes w :: "'a::len word"
  assumes "inv s" "8 dvd LENGTH('a)" "remaining s = bytes_in_order (endian s) w @ rest"
  shows "\<exists>s'. read_fixed host endian rd s = (Inr w, s') \<and> inv s' \<and> remaining s' = rest \<and> endian s' = endian s"
proof -
  have "0 < LENGTH('a) div 8"
    using dvd_imp_le [OF assms(2)] by (simp add: div_greater_zero_iff)
  moreover have "take (LENGTH('a) div 8) (remaining s) = bytes_in_order (endian s) w"
    using assms(3) by simp
  ultimately obtain s' where s': "rd (LENGTH('a) div 8) s = (Inr (bytes_in_order (endian s) w), s')"
      "inv s'" "remaining s' = rest" "endian s' = endian s"
    using rd_enough [of s "LENGTH('a) div 8"] assms by auto
  then show ?thesis
    using mem_value_swapped [OF assms(2), of "endian s" host w]
    by (simp add: read_fixed_def eff_bind_def Let_def)
qed

lemma read_varint_from:
  fixes V :: "'a::len word"
  assumes "8 \<le> LENGTH('a)" "inv s" "i < LENGTH('a)" "remaining s = varint_bytes (drop_bit i V) @ rest"
  shows "\<exists>s'. read_varint rd (LENGTH('a)) i (take_bit i V) s = (Inr V, s') \<and>
              inv s' \<and> remaining s' = rest \<and> endian s' = endian s"
  using assms(2-)
proof (induction "LENGTH('a) - i" arbitrary: i s rule: less_induct)
  case less
  let ?w = "drop_bit i V"
  show ?case
  proof (cases "0x80 \<le> unat ?w")
    case True
    let ?b = "ucast (?w AND 0x7F) OR 0x80 :: byte"
    have bytes: "remaining s = ?b # varint_bytes (drop_bit (i + 7) V) @ rest"
      using less.prems(3) True by (simp add: varint_bytes.simps [of ?w] drop_bit_drop_bit add.commute)
    from read_byte_ok [OF less.prems(1) bytes] obtain s1 where s1:
      "read_byte rd s = (Inr ?b, s1)" "inv s1" "remaining s1 = varint_bytes (drop_bit (i + 7) V) @ rest"
      "endian s1 = endian s" by blast
    have "i + 7 < LENGTH('a)"
    proof (rule ccontr)
      assume "\<not> ?thesis"
      then have "drop_bit 7 ?w = 0" by (simp add: drop_bit_drop_bit)
      then have "unat ?w div 128 = 0" using unat_shift7 [of ?w] by simp
      with True show False by simp
    qed
    moreover have "LENGTH('a) - (i + 7) < LENGTH('a) - i" using less.prems(2) by simp
    ultimately obtain s' where "read_varint rd (LENGTH('a)) (i + 7) (take_bit (i + 7) V) s1 = (Inr V, s')"
      "inv s'" "remaining s' = rest" "endian s' = endian s1"
      using less.hyps s1 by blast
    then show ?thesis
      using s1 less.prems(2) continuation_byte [OF assms(1), of ?w] take_bit_extend [of i V]
      by (simp add: read_varint.simps [of rd _ i] eff_bind_def)
  next
    case False
    have bytes: "remaining s = ucast ?w # rest"
      using less.prems(3) False by (simp add: varint_bytes.simps [of ?w])
    from read_byte_ok [OF less.prems(1) bytes] obtain s1 where
      "read_byte rd s = (Inr (ucast ?w), s1)" "inv s1" "remaining s1 = rest" "endian s1 = endian s"
      by blast
    then show ?thesis
      using less.prems(2) final_byte [OF assms(1), of ?w] False take_bit_or_rest [of i V]
      by (simp add: read_varint.simps [of rd _ i] eff_bind_def)
  qed
qed

lemma read_varint_ok:
  fixes V :: "'a::len word"
  assumes "8 \<le> LENGTH('a)" "inv s" "remaining s = varint_bytes V @ rest"
  shows "\<exists>s'. read_varint rd (LENGTH('a)) 0 (0 :: 'a word) s = (Inr V, s') \<and>
              inv s' \<and> remaining s' = rest \<and> endian s' = endian s"
  using read_varint_from [of s 0 V rest] assms by simp

end

end
