(* ===== verification/ByteArray.thy ===== *)
theory ByteArray
  imports Codec
begin

text \<open>
  The chained byte buffer of \<^verbatim>\<open>linko/bytearray.{h,cc}\<close>.  The chain of blocks that starts at
  \<^verbatim>\<open>m_root\<close> is the list of its nodes in \<^verbatim>\<open>next\<close> order and a node pointer is the position of the
  node in that list, \<open>None\<close> being \<^verbatim>\<open>nullptr\<close>.  A dereference of \<^verbatim>\<open>nullptr\<close>, an access outside a
  block and a division by zero are the outcome \<open>Undefined\<close>.  The bytes a fresh block holds
  before it is written are indeterminate: they come from the arbitrary function \<open>m_heap\<close>.
  \<^verbatim>\<open>size_t\<close> values are naturals; the differences that can wrap around do (\<open>usub64\<close>).
\<close>

section \<open>State\<close>

record node =
  nptr :: "byte list"
  nsize :: nat

record bytearray =
  m_baseSize :: nat
  m_position :: nat
  m_capacity :: nat
  m_size :: nat
  m_endian :: byte_order
  m_root :: "node list"
  m_cur :: "nat option"
  m_heap :: "nat \<Rightarrow> nat \<Rightarrow> byte"

definition Node :: "(nat \<Rightarrow> nat \<Rightarrow> byte) \<Rightarrow> nat \<Rightarrow> nat \<Rightarrow> node" where
  "Node heap k s = \<lparr>nptr = map (heap k) [0..<s], nsize = s\<rparr>"

definition ByteArray_new :: "(nat \<Rightarrow> nat \<Rightarrow> byte) \<Rightarrow> nat \<Rightarrow> bytearray" where
  "ByteArray_new heap base_size =
     \<lparr>m_baseSize = base_size, m_position = 0, m_capacity = base_size, m_size = 0,
      m_endian = LINKO_BIG_ENDIAN, m_root = [Node heap 0 base_size], m_cur = Some 0, m_heap = heap\<rparr>"

text \<open>\<^verbatim>\<open>p->next\<close> for the node at position \<open>i\<close>, and the node a pointer denotes.\<close>

definition next_node :: "bytearray \<Rightarrow> nat \<Rightarrow> nat option" where
  "next_node ba i = (if Suc i < length (m_root ba) then Some (Suc i) else None)"

definition deref :: "bytearray \<Rightarrow> nat option \<Rightarrow> (nat \<times> node) option" where
  "deref ba p = (case p of None \<Rightarrow> None
     | Some i \<Rightarrow> if i < length (m_root ba) then Some (i, m_root ba ! i) else None)"

lemma deref_SomeD: "deref ba p = Some (i, nd) \<Longrightarrow> p = Some i \<and> i < length (m_root ba) \<and> nd = m_root ba ! i"
  by (auto simp: deref_def split: option.splits if_splits)

section \<open>Positions, sizes and byte order\<close>

definition isLittleEndian :: "bytearray \<Rightarrow> bool" where
  "isLittleEndian ba \<longleftrightarrow> m_endian ba = LINKO_LITTLE_ENDIAN"

definition setIsLittleEndian :: "bool \<Rightarrow> bytearray \<Rightarrow> bytearray" where
  "setIsLittleEndian val ba =
     ba\<lparr>m_endian := (if val then LINKO_LITTLE_ENDIAN else LINKO_BIG_ENDIAN)\<rparr>"

definition getReadSize :: "bytearray \<Rightarrow> nat" where
  "getReadSize ba = usub64 (m_size ba) (m_position ba)"

definition getCapacity :: "bytearray \<Rightarrow> nat" where
  "getCapacity ba = usub64 (m_capacity ba) (m_position ba)"

section \<open>Growing the chain\<close>

text \<open>The \<^verbatim>\<open>for\<close> loop of \<^verbatim>\<open>addCapacity\<close>: append \<open>count\<close> nodes of the base size.\<close>

fun addNodes :: "nat \<Rightarrow> bytearray \<Rightarrow> bytearray" where
  "addNodes 0 ba = ba"
| "addNodes (Suc count) ba = addNodes count
     (ba\<lparr>m_root := m_root ba @ [Node (m_heap ba) (length (m_root ba)) (m_baseSize ba)],
         m_capacity := m_capacity ba + m_baseSize ba\<rparr>)"

definition addCapacity :: "nat \<Rightarrow> (bytearray, unit) eff" where
  "addCapacity sz ba =
     (if sz = 0 then (Inr (), ba)
      else let old_cap = getCapacity ba in
        if sz \<le> old_cap then (Inr (), ba)
        else if m_baseSize ba = 0 then (Inl Undefined, ba)
        else let sz' = sz - old_cap;
                 count = sz' div m_baseSize ba + (if 0 < sz' mod m_baseSize ba then 1 else 0);
                 first = (if count = 0 then None else Some (length (m_root ba)));
                 ba' = addNodes count ba
             in (Inr (), if old_cap = 0 then ba'\<lparr>m_cur := first\<rparr> else ba'))"

section \<open>Raw writes\<close>

text \<open>\<^verbatim>\<open>memcpy\<close> into the block of the node at position \<open>i\<close>.\<close>

definition store :: "nat \<Rightarrow> nat \<Rightarrow> byte list \<Rightarrow> bytearray \<Rightarrow> bytearray" where
  "store i npos bs ba =
     ba\<lparr>m_root := (m_root ba)[i := (m_root ba ! i)\<lparr>nptr := overwrite (nptr (m_root ba ! i)) npos bs\<rparr>]\<rparr>"

text \<open>The \<^verbatim>\<open>while (size > 0)\<close> loop of \<^verbatim>\<open>write\<close>, with its local variables as arguments.\<close>

function write_loop :: "byte list \<Rightarrow> nat \<Rightarrow> nat \<Rightarrow> nat \<Rightarrow> nat \<Rightarrow> (bytearray, unit) eff" where
  "write_loop buf bpos sz npos ncap ba =
     (if sz = 0 then (Inr (), ba)
      else case deref ba (m_cur ba) of
        None \<Rightarrow> (Inl Undefined, ba)
      | Some (i, nd) \<Rightarrow>
          if sz \<le> ncap then
            if length (nptr nd) < npos + sz then (Inl Undefined, ba)
            else let ba1 = store i npos (take sz (drop bpos buf)) ba;
                     ba2 = (if nsize nd = npos + sz then ba1\<lparr>m_cur := next_node ba1 i\<rparr> else ba1)
                 in (Inr (), ba2\<lparr>m_position := m_position ba2 + sz\<rparr>)
          else if length (nptr nd) < npos + ncap then (Inl Undefined, ba)
            else let ba1 = store i npos (take ncap (drop bpos buf)) ba;
                     ba2 = ba1\<lparr>m_position := m_position ba1 + ncap, m_cur := next_node ba1 i\<rparr>
                 in (case deref ba2 (m_cur ba2) of
                       None \<Rightarrow> (Inl Undefined, ba2)
                     | Some (j, nd2) \<Rightarrow> write_loop buf (bpos + ncap) (sz - ncap) 0 (nsize nd2) ba2))"
  by pat_completeness auto
termination
  by (relation "measure (\<lambda>(buf, bpos, sz, npos, ncap, ba).
        case m_cur ba of None \<Rightarrow> 0 | Some i \<Rightarrow> length (m_root ba) - i)")
    (auto simp: store_def next_node_def dest!: deref_SomeD split: if_splits)

declare write_loop.simps [simp del]

definition ba_write :: "byte list \<Rightarrow> (bytearray, unit) eff" where
  "ba_write buf ba =
     (if length buf = 0 then (Inr (), ba)
      else eff_bind (addCapacity (length buf)) (\<lambda>_ ba.
        if m_baseSize ba = 0 then (Inl Undefined, ba)
        else let npos = m_position ba mod m_baseSize ba in
          case deref ba (m_cur ba) of
            None \<Rightarrow> (Inl Undefined, ba)
          | Some (i, nd) \<Rightarrow>
              eff_bind (write_loop buf 0 (length buf) npos (usub64 (nsize nd) npos)) (\<lambda>_ ba.
                (Inr (), if m_size ba < m_position ba then ba\<lparr>m_size := m_position ba\<rparr> else ba)) ba) ba)"

section \<open>Raw reads\<close>

text \<open>
  The loop of \<^verbatim>\<open>read(buf, size)\<close>; the bytes it copies are the result.  In its last iteration
  the position moves by \<^verbatim>\<open>ncap\<close>, the rest of the block, and not by \<^verbatim>\<open>size\<close>.
\<close>

function read_loop :: "nat \<Rightarrow> nat \<Rightarrow> nat \<Rightarrow> (bytearray, byte list) eff" where
  "read_loop sz npos ncap ba =
     (if sz = 0 then (Inr [], ba)
      else case deref ba (m_cur ba) of
        None \<Rightarrow> (Inl Undefined, ba)
      | Some (i, nd) \<Rightarrow>
          if sz \<le> ncap then
            if length (nptr nd) < npos + sz then (Inl Undefined, ba)
            else let ba1 = (if nsize nd = npos + sz then ba\<lparr>m_cur := next_node ba i\<rparr> else ba)
                 in (Inr (take sz (drop npos (nptr nd))), ba1\<lparr>m_position := m_position ba1 + ncap\<rparr>)
          else if length (nptr nd) < npos + ncap then (Inl Undefined, ba)
            else let ba1 = ba\<lparr>m_position := m_position ba + ncap, m_cur := next_node ba i\<rparr>
                 in (case deref ba1 (m_cur ba1) of
                       None \<Rightarrow> (Inl Undefined, ba1)
                     | Some (j, nd2) \<Rightarrow>
                         (case read_loop (sz - ncap) 0 (nsize nd2) ba1 of
                            (Inl e, ba2) \<Rightarrow> (Inl e, ba2)
                          | (Inr bs, ba2) \<Rightarrow> (Inr (take ncap (drop npos (nptr nd)) @ bs), ba2))))"
  by pat_completeness auto
termination
  by (relation "measure (\<lambda>(sz, npos, ncap, ba).
        case m_cur ba of None \<Rightarrow> 0 | Some i \<Rightarrow> length (m_root ba) - i)")
    (auto simp: next_node_def dest!: deref_SomeD split: if_splits)

declare read_loop.simps [simp del]

definition ba_read :: "nat \<Rightarrow> (bytearray, byte list) eff" where
  "ba_read sz ba =
     (if getReadSize ba < sz then (Inl Out_of_range, ba)
      else if m_baseSize ba = 0 then (Inl Undefined, ba)
      else let npos = m_position ba mod m_baseSize ba in
        case deref ba (m_cur ba) of
          None \<Rightarrow> (Inl Undefined, ba)
        | Some (i, nd) \<Rightarrow> read_loop sz npos (usub64 (nsize nd) npos) ba)"

text \<open>
  \<^verbatim>\<open>read(buf, size, position) const\<close> walks a local copy of \<^verbatim>\<open>m_cur\<close> and leaves the object
  alone; its local \<^verbatim>\<open>position\<close> is not used after the first statement.
\<close>

definition read_at :: "nat \<Rightarrow> nat \<Rightarrow> bytearray \<Rightarrow> cpp_error + byte list" where
  "read_at sz position ba =
     (if getReadSize ba < sz then Inl Out_of_range
      else if m_baseSize ba = 0 then Inl Undefined
      else let npos = position mod m_baseSize ba in
        case deref ba (m_cur ba) of
          None \<Rightarrow> Inl Undefined
        | Some (i, nd) \<Rightarrow> fst (read_loop sz npos (usub64 (nsize nd) npos) ba))"

section \<open>Positioning\<close>

text \<open>The walk of \<^verbatim>\<open>setPosition\<close> from \<^verbatim>\<open>m_root\<close> to the block that holds offset \<open>v\<close>.\<close>

function seek :: "bytearray \<Rightarrow> nat \<Rightarrow> nat option \<Rightarrow> cpp_error + nat option" where
  "seek ba v cur =
     (case deref ba cur of
        None \<Rightarrow> Inl Undefined
      | Some (i, nd) \<Rightarrow>
          if nsize nd < v then seek ba (v - nsize nd) (next_node ba i)
          else if v = nsize nd then Inr (next_node ba i) else Inr (Some i))"
  by pat_completeness auto
termination
  by (relation "measure (\<lambda>(ba, v, cur). case cur of None \<Rightarrow> 0 | Some i \<Rightarrow> length (m_root ba) - i)")
    (auto simp: next_node_def dest!: deref_SomeD split: if_splits)

declare seek.simps [simp del]

definition setPosition :: "nat \<Rightarrow> (bytearray, unit) eff" where
  "setPosition v ba =
     (if m_capacity ba < v then (Inl Out_of_range, ba)
      else let ba1 = ba\<lparr>m_position := v\<rparr>;
               ba2 = (if m_size ba1 < v then ba1\<lparr>m_size := v\<rparr> else ba1)
           in (case seek ba2 v (Some 0) of
                 Inl e \<Rightarrow> (Inl e, ba2)
               | Inr cur \<Rightarrow> (Inr (), ba2\<lparr>m_cur := cur\<rparr>)))"

definition clear :: "bytearray \<Rightarrow> bytearray" where
  "clear ba = ba\<lparr>m_position := 0, m_size := 0, m_capacity := m_baseSize ba,
                m_root := take 1 (m_root ba), m_cur := Some 0\<rparr>"

section \<open>Typed writes\<close>

text \<open>
  A signed integer and the unsigned integer of the same width are the same bits, so both are
  words. \<open>host\<close> is the byte order of the machine, \<^verbatim>\<open>LINKO_BYTE_ORDER\<close>.
\<close>

definition writeFint8 :: "byte \<Rightarrow> (bytearray, unit) eff" where
  "writeFint8 value = ba_write [value]"

definition writeFuint8 :: "byte \<Rightarrow> (bytearray, unit) eff" where
  "writeFuint8 value = ba_write [value]"

definition writeFint16 :: "byte_order \<Rightarrow> u16 \<Rightarrow> (bytearray, unit) eff" where
  "writeFint16 host value ba =
     (let value' = (if m_endian ba \<noteq> host then byteswap value else value) in ba_write (mem_bytes host value') ba)"

definition writeFuint16 :: "byte_order \<Rightarrow> u16 \<Rightarrow> (bytearray, unit) eff" where
  "writeFuint16 host value ba =
     (let value' = (if m_endian ba \<noteq> host then byteswap value else value) in ba_write (mem_bytes host value') ba)"

definition writeFint32 :: "byte_order \<Rightarrow> u32 \<Rightarrow> (bytearray, unit) eff" where
  "writeFint32 host value ba =
     (let value' = (if m_endian ba \<noteq> host then byteswap value else value) in ba_write (mem_bytes host value') ba)"

definition writeFuint32 :: "byte_order \<Rightarrow> u32 \<Rightarrow> (bytearray, unit) eff" where
  "writeFuint32 host value ba =
     (let value' = (if m_endian ba \<noteq> host then byteswap value else value) in ba_write (mem_bytes host value') ba)"

definition writeFint64 :: "byte_order \<Rightarrow> u64 \<Rightarrow> (bytearray, unit) eff" where
  "writeFint64 host value ba =
     (let value' = (if m_endian ba \<noteq> host then byteswap value else value) in ba_write (mem_bytes host value') ba)"

definition writeFuint64 :: "byte_order \<Rightarrow> u64 \<Rightarrow> (bytearray, unit) eff" where
  "writeFuint64 host value ba =
     (let value' = (if m_endian ba \<noteq> host then byteswap value else value) in ba_write (mem_bytes host value') ba)"

definition writeUint32 :: "u32 \<Rightarrow> (bytearray, unit) eff" where
  "writeUint32 value = ba_write (varint_bytes value)"

definition writeInt32 :: "u32 \<Rightarrow> (bytearray, unit) eff" where
  "writeInt32 value = writeUint32 (EncodeZigzag32 value)"

definition writeUint64 :: "u64 \<Rightarrow> (bytearray, unit) eff" where
  "writeUint64 value = ba_write (varint_bytes value)"

definition writeInt64 :: "u64 \<Rightarrow> (bytearray, unit) eff" where
  "writeInt64 value = writeUint64 (EncodeZigzag64 value)"

text \<open>A \<^verbatim>\<open>float\<close> and a \<^verbatim>\<open>double\<close> are their bit patterns, which the code copies with \<^verbatim>\<open>memcpy\<close>.\<close>

definition writeFloat :: "byte_order \<Rightarrow> u32 \<Rightarrow> (bytearray, unit) eff" where
  "writeFloat host value = writeFuint32 host value"

definition writeDouble :: "byte_order \<Rightarrow> u64 \<Rightarrow> (bytearray, unit) eff" where
  "writeDouble host value = writeFuint64 host value"

definition writeStringF16 :: "byte_order \<Rightarrow> byte list \<Rightarrow> (bytearray, unit) eff" where
  "writeStringF16 host value =
     eff_bind (writeFint16 host (of_nat (length value))) (\<lambda>_. ba_write value)"

definition writeStringF32 :: "byte_order \<Rightarrow> byte list \<Rightarrow> (bytearray, unit) eff" where
  "writeStringF32 host value =
     eff_bind (writeFint32 host (of_nat (length value))) (\<lambda>_. ba_write value)"

definition writeStringF64 :: "byte_order \<Rightarrow> byte list \<Rightarrow> (bytearray, unit) eff" where
  "writeStringF64 host value =
     eff_bind (writeFint64 host (of_nat (length value))) (\<lambda>_. ba_write value)"

definition writeStringVint :: "byte_order \<Rightarrow> byte list \<Rightarrow> (bytearray, unit) eff" where
  "writeStringVint host value =
     eff_bind (writeFint64 host (of_nat (length value))) (\<lambda>_. ba_write value)"

definition writeStringWithoutLength :: "byte list \<Rightarrow> (bytearray, unit) eff" where
  "writeStringWithoutLength value = ba_write value"

section \<open>Typed reads\<close>

definition readFint8 :: "(bytearray, byte) eff" where
  "readFint8 = read_byte ba_read"

definition readFuint8 :: "(bytearray, byte) eff" where
  "readFuint8 = read_byte ba_read"

definition readFint16 :: "byte_order \<Rightarrow> (bytearray, u16) eff" where
  "readFint16 host = read_fixed host m_endian ba_read"

definition readFuint16 :: "byte_order \<Rightarrow> (bytearray, u16) eff" where
  "readFuint16 host = read_fixed host m_endian ba_read"

definition readFint32 :: "byte_order \<Rightarrow> (bytearray, u32) eff" where
  "readFint32 host = read_fixed host m_endian ba_read"

definition readFuint32 :: "byte_order \<Rightarrow> (bytearray, u32) eff" where
  "readFuint32 host = read_fixed host m_endian ba_read"

definition readFint64 :: "byte_order \<Rightarrow> (bytearray, u64) eff" where
  "readFint64 host = read_fixed host m_endian ba_read"

definition readFuint64 :: "byte_order \<Rightarrow> (bytearray, u64) eff" where
  "readFuint64 host = read_fixed host m_endian ba_read"

definition readUint32 :: "(bytearray, u32) eff" where
  "readUint32 = read_varint ba_read 32 0 0"

definition readInt32 :: "(bytearray, u32) eff" where
  "readInt32 = eff_bind readUint32 (\<lambda>v. eff_return (DecodeZigzag32 v))"

definition readUint64 :: "(bytearray, u64) eff" where
  "readUint64 = read_varint ba_read 64 0 0"

definition readInt64 :: "(bytearray, u64) eff" where
  "readInt64 = eff_bind readUint64 (\<lambda>v. eff_return (DecodeZigzag64 v))"

definition readFloat :: "(bytearray, u32) eff" where
  "readFloat = readUint32"

definition readDouble :: "(bytearray, u64) eff" where
  "readDouble = readUint64"

definition readStringF16 :: "byte_order \<Rightarrow> (bytearray, byte list) eff" where
  "readStringF16 host = eff_bind (readFuint16 host) (\<lambda>len. ba_read (unat len))"

definition readStringF32 :: "byte_order \<Rightarrow> (bytearray, byte list) eff" where
  "readStringF32 host = eff_bind (readFuint32 host) (\<lambda>len. ba_read (unat len))"

definition readStringF64 :: "byte_order \<Rightarrow> (bytearray, byte list) eff" where
  "readStringF64 host = eff_bind (readFuint64 host) (\<lambda>len. ba_read (unat len))"

definition readStringFVint :: "(bytearray, byte list) eff" where
  "readStringFVint = eff_bind readUint64 (\<lambda>len. ba_read (unat len))"

section \<open>Whole-buffer operations\<close>

definition ba_toString :: "bytearray \<Rightarrow> cpp_error + byte list" where
  "ba_toString ba =
     (if getReadSize ba = 0 then Inr [] else read_at (getReadSize ba) (m_position ba) ba)"

definition hex_digit :: "nat \<Rightarrow> char" where
  "hex_digit n = ''0123456789abcdef'' ! n"

text \<open>Two lower-case hexadecimal digits and a blank per byte, a new line before every 32nd.\<close>

fun hex_from :: "nat \<Rightarrow> byte list \<Rightarrow> string" where
  "hex_from i [] = []"
| "hex_from i (b # bs) =
     (if 0 < i \<and> i mod 32 = 0 then [CHR 0x0A] else [])
     @ [hex_digit (unat b div 16), hex_digit (unat b mod 16), CHR '' ''] @ hex_from (Suc i) bs"

definition ba_toHexString :: "bytearray \<Rightarrow> cpp_error + string" where
  "ba_toHexString ba = (case ba_toString ba of Inl e \<Rightarrow> Inl e | Inr str \<Rightarrow> Inr (hex_from 0 str))"

text \<open>
  The file operations, up to the file system: \<open>writeToFile\<close> gives \<open>None\<close> when the file cannot be
  opened (the C++ returns \<^verbatim>\<open>false\<close>) and otherwise the bytes it passes to the stream.  Its
  \<^verbatim>\<open>read_size\<close> is the signed reading of \<open>getReadSize\<close>; \<^verbatim>\<open>int diff\<close> is exact for base sizes
  below \<open>2 ^ 31\<close>.
\<close>

definition as_int64 :: "nat \<Rightarrow> int" where
  "as_int64 n = (if n < 2 ^ 63 then int n else int n - 2 ^ 64)"

function writeToFile_loop :: "bytearray \<Rightarrow> int \<Rightarrow> nat \<Rightarrow> nat option \<Rightarrow> cpp_error + byte list" where
  "writeToFile_loop ba read_size pos cur =
     (if read_size \<le> 0 then Inr []
      else if m_baseSize ba = 0 then Inl Undefined
      else let diff = pos mod m_baseSize ba;
               len = (if nat read_size + diff > m_baseSize ba then m_baseSize ba - diff else nat read_size)
           in (case deref ba cur of
                 None \<Rightarrow> Inl Undefined
               | Some (i, nd) \<Rightarrow>
                   if length (nptr nd) < diff + len then Inl Undefined
                   else (case writeToFile_loop ba (read_size - int len) (pos + len)
                             (if len + diff = m_baseSize ba then next_node ba i else Some i) of
                           Inl e \<Rightarrow> Inl e
                         | Inr bs \<Rightarrow> Inr (take len (drop diff (nptr nd)) @ bs))))"
  by pat_completeness auto
termination
  by (relation "measure (\<lambda>(ba, read_size, pos, cur). nat read_size)") (auto simp: Let_def split: if_splits)

declare writeToFile_loop.simps [simp del]

definition writeToFile :: "bool \<Rightarrow> bytearray \<Rightarrow> cpp_error + byte list option" where
  "writeToFile opened ba =
     (if \<not> opened then Inr None
      else map_sum id Some (writeToFile_loop ba (as_int64 (getReadSize ba)) (m_position ba) (m_cur ba)))"

text \<open>
  \<^verbatim>\<open>readFromFile\<close> reads blocks of the base size until a read comes up short, which sets
  \<^verbatim>\<open>eof\<close>; with base size 0 no read ever does.
\<close>

function readFromFile_loop :: "byte list \<Rightarrow> (bytearray, bool) eff" where
  "readFromFile_loop file ba =
     (if m_baseSize ba = 0 then (Inl Diverges, ba)
      else case ba_write (take (m_baseSize ba) file) ba of
        (Inl e, ba') \<Rightarrow> (Inl e, ba')
      | (Inr _, ba') \<Rightarrow>
          if length file < m_baseSize ba then (Inr True, ba')
          else readFromFile_loop (drop (m_baseSize ba) file) ba')"
  by pat_completeness auto
termination
  by (relation "measure (\<lambda>(file, ba). length file)") auto

declare readFromFile_loop.simps [simp del]

definition readFromFile :: "byte list option \<Rightarrow> (bytearray, bool) eff" where
  "readFromFile file ba = (case file of None \<Rightarrow> (Inr False, ba) | Some bs \<Rightarrow> readFromFile_loop bs ba)"

section \<open>Scatter and gather buffers\<close>

text \<open>An \<^verbatim>\<open>iovec\<close>: the node and the offset \<^verbatim>\<open>iov_base\<close> points to, and \<^verbatim>\<open>iov_len\<close>.\<close>

record iovec =
  iov_node :: nat
  iov_off :: nat
  iov_len :: nat

text \<open>
  The loops of the two \<^verbatim>\<open>getReadBuffers\<close>: after a full block they do not move \<^verbatim>\<open>cur\<close> on.
  With an empty block they would run forever.
\<close>

function readBuffers_loop :: "nat \<Rightarrow> node \<Rightarrow> nat \<Rightarrow> nat \<Rightarrow> nat \<Rightarrow> cpp_error + iovec list" where
  "readBuffers_loop i nd len npos ncap =
     (if len = 0 then Inr []
      else if len \<le> ncap then Inr [\<lparr>iov_node = i, iov_off = npos, iov_len = len\<rparr>]
      else if ncap = 0 \<and> nsize nd = 0 then Inl Diverges
      else case readBuffers_loop i nd (len - ncap) 0 (nsize nd) of
        Inl e \<Rightarrow> Inl e
      | Inr iovs \<Rightarrow> Inr (\<lparr>iov_node = i, iov_off = npos, iov_len = ncap\<rparr> # iovs))"
  by pat_completeness auto
termination
  by (relation "measures [\<lambda>(i, nd, len, npos, ncap). len, \<lambda>(i, nd, len, npos, ncap). if ncap = 0 then 1 else 0]")
    auto

declare readBuffers_loop.simps [simp del]

definition getReadBuffers :: "nat \<Rightarrow> bytearray \<Rightarrow> cpp_error + nat \<times> iovec list" where
  "getReadBuffers len ba =
     (let len' = min len (getReadSize ba) in
      if len' = 0 then Inr (0, [])
      else if m_baseSize ba = 0 then Inl Undefined
      else let npos = m_position ba mod m_baseSize ba in
        case deref ba (m_cur ba) of
          None \<Rightarrow> Inl Undefined
        | Some (i, nd) \<Rightarrow> map_sum id (\<lambda>iovs. (len', iovs))
            (readBuffers_loop i nd len' npos (usub64 (nsize nd) npos)))"

definition getReadBuffers_at :: "nat \<Rightarrow> nat \<Rightarrow> bytearray \<Rightarrow> cpp_error + nat \<times> iovec list" where
  "getReadBuffers_at len position ba =
     (let len' = min len (getReadSize ba) in
      if len' = 0 then Inr (0, [])
      else if m_baseSize ba = 0 then Inl Undefined
      else let npos = position mod m_baseSize ba; count = position div m_baseSize ba in
        case deref ba (Some count) of
          None \<Rightarrow> Inl Undefined
        | Some (i, nd) \<Rightarrow> map_sum id (\<lambda>iovs. (len', iovs))
            (readBuffers_loop i nd len' npos (usub64 (nsize nd) npos)))"

function writeBuffers_loop :: "bytearray \<Rightarrow> nat option \<Rightarrow> nat \<Rightarrow> nat \<Rightarrow> nat \<Rightarrow> cpp_error + iovec list" where
  "writeBuffers_loop ba cur len npos ncap =
     (if len = 0 then Inr []
      else case deref ba cur of
        None \<Rightarrow> Inl Undefined
      | Some (i, nd) \<Rightarrow>
          if len \<le> ncap then Inr [\<lparr>iov_node = i, iov_off = npos, iov_len = len\<rparr>]
          else case deref ba (next_node ba i) of
            None \<Rightarrow> Inl Undefined
          | Some (j, nd2) \<Rightarrow>
              (case writeBuffers_loop ba (next_node ba i) (len - ncap) 0 (nsize nd2) of
                 Inl e \<Rightarrow> Inl e
               | Inr iovs \<Rightarrow> Inr (\<lparr>iov_node = i, iov_off = npos, iov_len = ncap\<rparr> # iovs)))"
  by pat_completeness auto
termination
  by (relation "measure (\<lambda>(ba, cur, len, npos, ncap). case cur of None \<Rightarrow> 0 | Some i \<Rightarrow> length (m_root ba) - i)")
    (auto simp: next_node_def dest!: deref_SomeD split: if_splits)

declare writeBuffers_loop.simps [simp del]

definition getWriteBuffers :: "nat \<Rightarrow> (bytearray, nat \<times> iovec list) eff" where
  "getWriteBuffers len ba =
     (if len = 0 then (Inr (0, []), ba)
      else eff_bind (addCapacity len) (\<lambda>_ ba.
        if m_baseSize ba = 0 then (Inl Undefined, ba)
        else let npos = m_position ba mod m_baseSize ba in
          case deref ba (m_cur ba) of
            None \<Rightarrow> (Inl Undefined, ba)
          | Some (i, nd) \<Rightarrow>
              (map_sum id (\<lambda>iovs. (len, iovs))
                 (writeBuffers_loop ba (m_cur ba) len npos (usub64 (nsize nd) npos)), ba)) ba)"

end
