(* ===== verification/ByteArray_Correct.thy ===== *)
theory ByteArray_Correct
  imports ByteArray
begin

text \<open>
  Correctness of the byte buffer.  \<open>contents\<close> is the chain as one sequence of bytes; \<open>ba_inv\<close> is the
  representation invariant.  Raw writes implement overwriting at the position, raw reads
  return the bytes at the position, and the position after a read is exact when the read ends
  on a block boundary.
\<close>

section \<open>Abstraction and invariant\<close>

definition contents :: "bytearray \<Rightarrow> byte list" where
  "contents ba = concat (map nptr (m_root ba))"

definition ba_shape :: "bytearray \<Rightarrow> bool" where
  "ba_shape ba \<longleftrightarrow> 0 < m_baseSize ba \<and> m_root ba \<noteq> []
     \<and> (\<forall>nd \<in> set (m_root ba). nsize nd = m_baseSize ba \<and> length (nptr nd) = m_baseSize ba)
     \<and> m_capacity ba = length (m_root ba) * m_baseSize ba"

definition ba_at :: "bytearray \<Rightarrow> bool" where
  "ba_at ba \<longleftrightarrow> m_position ba \<le> m_capacity ba
     \<and> m_cur ba = (if m_position ba < m_capacity ba then Some (m_position ba div m_baseSize ba) else None)"

definition ba_inv :: "bytearray \<Rightarrow> bool" where
  "ba_inv ba \<longleftrightarrow> ba_shape ba \<and> ba_at ba \<and> m_position ba \<le> m_size ba \<and> m_size ba \<le> m_capacity ba"

text \<open>The fields that moving data about does not touch.\<close>

definition same_frame :: "bytearray \<Rightarrow> bytearray \<Rightarrow> bool" where
  "same_frame ba ba' \<longleftrightarrow> m_baseSize ba' = m_baseSize ba \<and> m_capacity ba' = m_capacity ba
     \<and> m_size ba' = m_size ba \<and> m_endian ba' = m_endian ba"

lemma same_frame_refl [simp]: "same_frame ba ba"
  by (simp add: same_frame_def)

lemma same_frame_trans: "same_frame a b \<Longrightarrow> same_frame b c \<Longrightarrow> same_frame a c"
  by (simp add: same_frame_def)

lemma ba_shape_nth:
  "ba_shape ba \<Longrightarrow> i < length (m_root ba) \<Longrightarrow>
     nsize (m_root ba ! i) = m_baseSize ba \<and> length (nptr (m_root ba ! i)) = m_baseSize ba"
  by (simp add: ba_shape_def)

lemma ba_shape_blocks: "ba_shape ba \<Longrightarrow> xs \<in> set (map nptr (m_root ba)) \<Longrightarrow> length xs = m_baseSize ba"
  by (auto simp: ba_shape_def)

lemma length_contents: "ba_shape ba \<Longrightarrow> length (contents ba) = m_capacity ba"
  using length_concat_const [of "map nptr (m_root ba)" "m_baseSize ba"]
  by (auto simp: contents_def ba_shape_def)

lemma deref_Some [simp]: "i < length (m_root ba) \<Longrightarrow> deref ba (Some i) = Some (i, m_root ba ! i)"
  by (simp add: deref_def)

lemma position_in_block:
  assumes "ba_shape ba" "i < length (m_root ba)" "off \<le> m_baseSize ba"
  shows "i * m_baseSize ba + off \<le> m_capacity ba"
proof -
  have "Suc i * m_baseSize ba \<le> length (m_root ba) * m_baseSize ba"
    using assms(2) by (intro mult_le_mono1) simp
  then show ?thesis using assms by (simp add: ba_shape_def)
qed

lemma ba_at_block:
  assumes "ba_shape ba" "ba_at ba" "m_position ba < m_capacity ba"
  defines "i \<equiv> m_position ba div m_baseSize ba" and "npos \<equiv> m_position ba mod m_baseSize ba"
  shows "m_cur ba = Some i" "i < length (m_root ba)" "npos < m_baseSize ba"
    "m_position ba = i * m_baseSize ba + npos"
  using assms by (auto simp: ba_at_def ba_shape_def div_less_iff_less_mult)

text \<open>After the last byte of block \<open>i\<close> the current pointer is the next node.\<close>

lemma next_node_at:
  assumes "ba_shape ba" "i < length (m_root ba)"
  shows "next_node ba i = (if Suc i * m_baseSize ba < m_capacity ba then Some (Suc i) else None)"
  using assms by (auto simp: next_node_def ba_shape_def simp del: mult_Suc)

section \<open>Storing into the chain\<close>

lemma store_fields [simp]:
  "m_baseSize (store i npos bs ba) = m_baseSize ba" "m_position (store i npos bs ba) = m_position ba"
  "m_capacity (store i npos bs ba) = m_capacity ba" "m_size (store i npos bs ba) = m_size ba"
  "m_endian (store i npos bs ba) = m_endian ba" "m_cur (store i npos bs ba) = m_cur ba"
  "length (m_root (store i npos bs ba)) = length (m_root ba)"
  by (simp_all add: store_def)

lemma next_node_store [simp]: "next_node (store i npos bs ba) = next_node ba"
  by (simp add: next_node_def fun_eq_iff)

lemma ba_shape_store:
  assumes "ba_shape ba" "i < length (m_root ba)" "npos + length bs \<le> m_baseSize ba"
  shows "ba_shape (store i npos bs ba)"
proof -
  have "nsize nd = m_baseSize ba \<and> length (nptr nd) = m_baseSize ba"
    if "nd \<in> set (m_root (store i npos bs ba))" for nd
    using that assms ba_shape_nth [OF assms(1,2)]
    by (auto simp: store_def ba_shape_def dest!: set_update_subset_insert [THEN subsetD])
  then show ?thesis using assms(1) by (auto simp: ba_shape_def) (simp add: store_def)
qed

lemma contents_store:
  assumes "ba_shape ba" "i < length (m_root ba)" "npos + length bs \<le> m_baseSize ba"
  shows "contents (store i npos bs ba) = overwrite (contents ba) (i * m_baseSize ba + npos) bs"
  using concat_update_overwrite [of "map nptr (m_root ba)" "m_baseSize ba" i npos bs]
    ba_shape_blocks [OF assms(1)] assms
  by (simp add: contents_def store_def map_update)

lemma write_loop_ok:
  assumes "ba_shape ba" "m_cur ba = Some i" "i < length (m_root ba)" "npos < m_baseSize ba"
    "m_position ba = i * m_baseSize ba + npos" "ncap = m_baseSize ba - npos"
    "0 < sz" "bpos + sz = length buf" "m_position ba + sz \<le> m_capacity ba"
  shows "\<exists>ba'. write_loop buf bpos sz npos ncap ba = (Inr (), ba') \<and> ba_shape ba' \<and> ba_at ba' \<and>
     contents ba' = overwrite (contents ba) (m_position ba) (drop bpos buf) \<and>
     m_position ba' = m_position ba + sz \<and> same_frame ba ba'"
  using assms
proof (induction "length (m_root ba) - i" arbitrary: i npos ncap sz bpos ba rule: less_induct)
  case less
  note shape = less.prems(1) and cur = less.prems(2) and i = less.prems(3) and npos = less.prems(4)
    and pos = less.prems(5) and ncap = less.prems(6) and sz = less.prems(7) and buf = less.prems(8)
    and cap = less.prems(9)
  note nd = ba_shape_nth [OF shape i]
  show ?case
  proof (cases "sz \<le> ncap")
    case True
    let ?ba1 = "store i npos (take sz (drop bpos buf)) ba"
    let ?ba2 = "(if npos + sz = m_baseSize ba then ?ba1\<lparr>m_cur := next_node ba i\<rparr> else ?ba1)"
    let ?ba' = "?ba2\<lparr>m_position := m_position ba + sz\<rparr>"
    have fit: "npos + length (take sz (drop bpos buf)) \<le> m_baseSize ba" using True ncap npos buf by simp
    have run: "write_loop buf bpos sz npos ncap ba = (Inr (), ?ba')"
      using sz True ncap npos nd cur i
      by (auto simp: write_loop.simps [of buf bpos sz] Let_def)
    have "contents ?ba' = contents ?ba1" by (simp add: contents_def)
    then have c: "contents ?ba' = overwrite (contents ba) (m_position ba) (drop bpos buf)"
      using contents_store [OF shape i fit] pos buf by simp
    have s: "ba_shape ?ba'" using ba_shape_store [OF shape i fit] by (simp add: ba_shape_def)
    have a: "ba_at ?ba'"
    proof (cases "npos + sz = m_baseSize ba")
      case at_end: True
      then have "m_position ba + sz = Suc i * m_baseSize ba" using pos by simp
      then show ?thesis using at_end cap next_node_at [OF shape i] npos by (simp add: ba_at_def)
    next
      case False
      with True ncap npos have "npos + sz < m_baseSize ba" by simp
      moreover have "i * m_baseSize ba + m_baseSize ba \<le> m_capacity ba"
        using position_in_block [OF shape i, of "m_baseSize ba"] by simp
      ultimately show ?thesis using False pos cur cap by (simp add: ba_at_def add.assoc)
    qed
    show ?thesis using run c s a by (auto simp: same_frame_def)
  next
    case False
    let ?bs = "take ncap (drop bpos buf)"
    let ?ba1 = "store i npos ?bs ba"
    let ?ba2 = "?ba1\<lparr>m_position := m_position ba + ncap, m_cur := next_node ba i\<rparr>"
    have fit: "npos + length ?bs \<le> m_baseSize ba" and len: "length ?bs = ncap"
      using False ncap npos buf by simp_all
    have pos': "m_position ba + ncap = Suc i * m_baseSize ba" using pos ncap npos by simp
    have "Suc i * m_baseSize ba < m_capacity ba" using pos' cap False by simp
    then have nxt: "next_node ba i = Some (Suc i)" using next_node_at [OF shape i] by simp
    then have i': "Suc i < length (m_root ba)" by (auto simp: next_node_def split: if_splits)
    have shape2: "ba_shape ?ba2" using ba_shape_store [OF shape i fit] by (simp add: ba_shape_def)
    have nd2: "nsize (m_root ?ba1 ! Suc i) = m_baseSize ba"
      using ba_shape_nth [OF shape2, of "Suc i"] i' by simp
    have run: "write_loop buf bpos sz npos ncap ba =
        write_loop buf (bpos + ncap) (sz - ncap) 0 (m_baseSize ba) ?ba2"
      using sz False ncap npos nd cur i i' nxt nd2
      by (simp add: write_loop.simps [of buf bpos sz] Let_def)
    have "\<exists>ba'. write_loop buf (bpos + ncap) (sz - ncap) 0 (m_baseSize ba) ?ba2 = (Inr (), ba') \<and>
       ba_shape ba' \<and> ba_at ba' \<and>
       contents ba' = overwrite (contents ?ba2) (m_position ?ba2) (drop (bpos + ncap) buf) \<and>
       m_position ba' = m_position ?ba2 + (sz - ncap) \<and> same_frame ?ba2 ba'"
      using shape2 i i' nxt pos' False buf cap ncap npos
      by (intro less.hyps [of ?ba2 "Suc i"]) auto
    then obtain ba' where ba': "write_loop buf (bpos + ncap) (sz - ncap) 0 (m_baseSize ba) ?ba2 = (Inr (), ba')"
      "ba_shape ba'" "ba_at ba'"
      "contents ba' = overwrite (contents ?ba2) (m_position ?ba2) (drop (bpos + ncap) buf)"
      "m_position ba' = m_position ?ba2 + (sz - ncap)" "same_frame ?ba2 ba'" by blast
    have "contents ?ba2 = overwrite (contents ba) (m_position ba) ?bs"
      using contents_store [OF shape i fit] pos by (simp add: contents_def)
    then have "contents ba' = overwrite (contents ba) (m_position ba) (?bs @ drop (bpos + ncap) buf)"
      using ba'(4) overwrite_overwrite_adjacent [of "m_position ba" ?bs "drop (bpos + ncap) buf" "contents ba"]
        len length_contents [OF shape] cap buf False by simp
    moreover have "?bs @ drop (bpos + ncap) buf = drop bpos buf"
      by (metis append_take_drop_id drop_drop add.commute)
    ultimately show ?thesis
      using run ba' False by (auto simp: same_frame_def)
  qed
qed

section \<open>Growing\<close>

lemma addNodes_fields [simp]:
  "m_baseSize (addNodes n ba) = m_baseSize ba" "m_position (addNodes n ba) = m_position ba"
  "m_size (addNodes n ba) = m_size ba" "m_endian (addNodes n ba) = m_endian ba"
  "m_cur (addNodes n ba) = m_cur ba"
  "m_capacity (addNodes n ba) = m_capacity ba + n * m_baseSize ba"
  by (induction n arbitrary: ba) auto

lemma length_addNodes [simp]: "length (m_root (addNodes n ba)) = length (m_root ba) + n"
  by (induction n arbitrary: ba) auto

lemma ba_shape_addNodes: "ba_shape ba \<Longrightarrow> ba_shape (addNodes n ba)"
proof (induction n arbitrary: ba)
  case (Suc n)
  let ?ba = "ba\<lparr>m_root := m_root ba @ [Node (m_heap ba) (length (m_root ba)) (m_baseSize ba)],
     m_capacity := m_capacity ba + m_baseSize ba\<rparr>"
  have "ba_shape ?ba" using Suc.prems by (auto simp: Node_def ba_shape_def)
  then show ?case by (simp add: Suc.IH)
qed simp

lemma contents_addNodes: "\<exists>junk. contents (addNodes n ba) = contents ba @ junk"
proof (induction n arbitrary: ba)
  case (Suc n)
  let ?ba = "ba\<lparr>m_root := m_root ba @ [Node (m_heap ba) (length (m_root ba)) (m_baseSize ba)],
     m_capacity := m_capacity ba + m_baseSize ba\<rparr>"
  obtain junk where "contents (addNodes n ?ba) = contents ?ba @ junk" using Suc.IH by blast
  then show ?case by (auto simp: contents_def)
qed simp

text \<open>After \<open>addCapacity\<close> the requested bytes fit behind the position; nothing stored is lost.\<close>

lemma addCapacity_ok:
  assumes "ba_shape ba" "ba_at ba"
  shows "\<exists>ba' junk. addCapacity sz ba = (Inr (), ba') \<and> ba_shape ba' \<and> ba_at ba' \<and>
     contents ba' = contents ba @ junk \<and> m_position ba + sz \<le> m_capacity ba' \<and>
     m_capacity ba \<le> m_capacity ba' \<and> m_position ba' = m_position ba \<and> m_size ba' = m_size ba \<and>
     m_baseSize ba' = m_baseSize ba \<and> m_endian ba' = m_endian ba"
proof (cases "sz \<le> getCapacity ba")
  case True
  have "m_position ba + sz \<le> m_capacity ba"
    using True assms(2) by (auto simp: getCapacity_def ba_at_def)
  then show ?thesis using assms True by (auto simp: addCapacity_def)
next
  case False
  let ?B = "m_baseSize ba"
  have B: "0 < ?B" using assms(1) by (simp add: ba_shape_def)
  have old: "getCapacity ba = m_capacity ba - m_position ba" "m_position ba \<le> m_capacity ba"
    using assms(2) by (auto simp: getCapacity_def ba_at_def)
  define need where "need = sz - getCapacity ba"
  define count where "count = need div ?B + (if 0 < need mod ?B then 1 else 0)"
  have "need mod ?B \<le> (if 0 < need mod ?B then ?B else 0)" using B by (simp add: less_imp_le)
  moreover have "count * ?B = need div ?B * ?B + (if 0 < need mod ?B then ?B else 0)"
    by (simp only: count_def add_mult_distrib) simp
  ultimately have enough: "need \<le> count * ?B" using div_mult_mod_eq [of need ?B] by linarith
  have "0 < need" using False by (simp add: need_def)
  with enough have "0 < count" by (cases count) auto
  obtain junk where junk: "contents (addNodes count ba) = contents ba @ junk"
    using contents_addNodes by blast
  let ?ba' = "if getCapacity ba = 0 then (addNodes count ba)\<lparr>m_cur := Some (length (m_root ba))\<rparr>
              else addNodes count ba"
  have run: "addCapacity sz ba = (Inr (), ?ba')"
    using False B \<open>0 < count\<close>
    unfolding addCapacity_def Let_def need_def [symmetric] count_def [symmetric] by simp
  have "ba_shape ?ba'" using ba_shape_addNodes [OF assms(1), of count] by (simp add: ba_shape_def)
  moreover have "ba_at ?ba'"
  proof (cases "getCapacity ba = 0")
    case True
    then have "m_position ba = length (m_root ba) * ?B" using old assms(1) by (simp add: ba_shape_def)
    then have "m_position ba div ?B = length (m_root ba)" using B by simp
    then show ?thesis using True B \<open>0 < count\<close> old by (simp add: ba_at_def)
  next
    case False
    then show ?thesis using assms(2) old by (auto simp: ba_at_def)
  qed
  moreover have "contents ?ba' = contents ba @ junk" using junk by (simp add: contents_def)
  moreover have "m_position ba + sz \<le> m_capacity ?ba'" using enough old by (auto simp: need_def)
  ultimately show ?thesis using run by (intro exI [of _ ?ba'] exI [of _ junk]) simp
qed

section \<open>Raw writes\<close>

text \<open>
  \<open>written ba\<close> is the data of the buffer: the first \<open>m_size\<close> bytes of the chain.  Writing replaces
  the bytes from the position on and extends the data where it runs past its end.
\<close>

definition written :: "bytearray \<Rightarrow> byte list" where
  "written ba = take (m_size ba) (contents ba)"

lemma length_written: "ba_inv ba \<Longrightarrow> length (written ba) = m_size ba"
  by (simp add: written_def ba_inv_def length_contents)

lemma take_overwrite_extend:
  assumes "pos \<le> n" "n \<le> length xs" "pos + length ys \<le> length xs"
  shows "take (max n (pos + length ys)) (overwrite xs pos ys)
       = take pos (take n xs) @ ys @ drop (pos + length ys) (take n xs)"
proof (cases "pos + length ys \<le> n")
  case True
  then show ?thesis using assms by (simp add: overwrite_def max_def drop_take)
next
  case False
  then show ?thesis using assms by (simp add: overwrite_def max_def)
qed

lemma ba_write_ok:
  assumes inv: "ba_inv ba"
  shows "\<exists>ba'. ba_write bs ba = (Inr (), ba') \<and> ba_inv ba' \<and>
     written ba' = take (m_position ba) (written ba) @ bs @ drop (m_position ba + length bs) (written ba) \<and>
     m_position ba' = m_position ba + length bs \<and> m_size ba' = max (m_size ba) (m_position ba + length bs) \<and>
     m_baseSize ba' = m_baseSize ba \<and> m_endian ba' = m_endian ba"
proof (cases "bs = []")
  case True
  then show ?thesis using inv by (auto simp: ba_write_def ba_inv_def max_def)
next
  case False
  from inv have shape: "ba_shape ba" and at: "ba_at ba" and le: "m_position ba \<le> m_size ba" "m_size ba \<le> m_capacity ba"
    by (auto simp: ba_inv_def)
  obtain ba1 junk where add: "addCapacity (length bs) ba = (Inr (), ba1)" and s1: "ba_shape ba1" and a1: "ba_at ba1"
    and c1: "contents ba1 = contents ba @ junk" and fit: "m_position ba + length bs \<le> m_capacity ba1"
    and f1: "m_capacity ba \<le> m_capacity ba1" "m_position ba1 = m_position ba" "m_size ba1 = m_size ba"
      "m_baseSize ba1 = m_baseSize ba" "m_endian ba1 = m_endian ba"
    using addCapacity_ok [OF shape at, of "length bs"] by blast
  have "m_position ba1 < m_capacity ba1" using fit False f1(2) by (cases bs) auto
  note blk = ba_at_block [OF s1 a1 this]
  obtain ba2 where loop: "write_loop bs 0 (length bs) (m_position ba1 mod m_baseSize ba1)
        (m_baseSize ba1 - m_position ba1 mod m_baseSize ba1) ba1 = (Inr (), ba2)"
    and s2: "ba_shape ba2" and a2: "ba_at ba2" and c2: "contents ba2 = overwrite (contents ba1) (m_position ba1) bs"
    and p2: "m_position ba2 = m_position ba1 + length bs" and f2: "same_frame ba1 ba2"
    using write_loop_ok [OF s1 blk(1,2,3,4) refl, of "length bs" 0 bs] False fit f1(2) by auto
  let ?ba' = "if m_size ba2 < m_position ba2 then ba2\<lparr>m_size := m_position ba2\<rparr> else ba2"
  have run: "ba_write bs ba = (Inr (), ?ba')"
    using False add loop blk(1,2,3) ba_shape_nth [OF s1 blk(2)]
    by (simp add: ba_write_def eff_bind_def Let_def)
  have msize: "m_size ?ba' = max (m_size ba) (m_position ba + length bs)"
    using f1 f2 p2 by (auto simp: same_frame_def max_def)
  have "written ?ba' = take (max (m_size ba) (m_position ba + length bs)) (overwrite (contents ba1) (m_position ba) bs)"
    using msize c2 f1(2) by (simp add: written_def contents_def)
  also have "\<dots> = take (m_position ba) (written ba) @ bs @ drop (m_position ba + length bs) (written ba)"
  proof -
    have "take (m_size ba) (contents ba1) = written ba"
      using c1 le length_contents [OF shape] by (simp add: written_def)
    then show ?thesis
      using take_overwrite_extend [of "m_position ba" "m_size ba" "contents ba1" bs]
        le fit f1(1) length_contents [OF s1] by simp
  qed
  finally have w: "written ?ba' = take (m_position ba) (written ba) @ bs @ drop (m_position ba + length bs) (written ba)" .
  have "ba_inv ?ba'"
    using s2 a2 msize p2 f1 f2 fit le by (auto simp: ba_inv_def ba_shape_def ba_at_def same_frame_def)
  then show ?thesis using run w msize p2 f1 f2 by (auto simp: same_frame_def)
qed

section \<open>Positioning\<close>

lemma seek_ok:
  assumes "ba_shape ba" "i < length (m_root ba)" "i * m_baseSize ba + v \<le> m_capacity ba"
  shows "seek ba v (Some i) =
     Inr (if i * m_baseSize ba + v < m_capacity ba then Some (i + v div m_baseSize ba) else None)"
  using assms
proof (induction "length (m_root ba) - i" arbitrary: i v rule: less_induct)
  case less
  let ?B = "m_baseSize ba"
  note shape = less.prems(1) and i = less.prems(2) and le = less.prems(3)
  note nd = ba_shape_nth [OF shape i]
  have B: "0 < ?B" and cap: "m_capacity ba = length (m_root ba) * ?B" using shape by (simp_all add: ba_shape_def)
  show ?case
  proof (cases "?B < v")
    case True
    then have "Suc i * ?B < m_capacity ba" using le by simp
    then have nxt: "next_node ba i = Some (Suc i)" using next_node_at [OF shape i] by simp
    then have i': "Suc i < length (m_root ba)" by (auto simp: next_node_def split: if_splits)
    have "v div ?B = Suc ((v - ?B) div ?B)" using True B by (simp add: le_div_geq)
    moreover have "seek ba v (Some i) = seek ba (v - ?B) (Some (Suc i))"
      using i nd True nxt by (simp add: seek.simps [of ba v])
    ultimately show ?thesis
      using less.hyps [of "Suc i" "v - ?B"] shape i i' le True by simp
  next
    case False
    have "i * ?B + ?B \<le> m_capacity ba" using position_in_block [OF shape i, of ?B] by simp
    then show ?thesis
      using i nd False B next_node_at [OF shape i] by (auto simp: seek.simps [of ba v])
  qed
qed

lemma setPosition_ok:
  assumes "ba_shape ba" "v \<le> m_capacity ba" "m_size ba \<le> m_capacity ba"
  shows "\<exists>ba'. setPosition v ba = (Inr (), ba') \<and> ba_inv ba' \<and> m_position ba' = v \<and>
     m_size ba' = max (m_size ba) v \<and> contents ba' = contents ba \<and> m_baseSize ba' = m_baseSize ba \<and>
     m_endian ba' = m_endian ba"
proof -
  let ?ba2 = "if m_size ba < v then ba\<lparr>m_position := v, m_size := v\<rparr> else ba\<lparr>m_position := v\<rparr>"
  let ?cur = "if v < m_capacity ba then Some (v div m_baseSize ba) else None"
  have "seek ?ba2 v (Some 0) = Inr ?cur"
    using seek_ok [of ?ba2 0 v] assms by (simp add: ba_shape_def)
  then have run: "setPosition v ba = (Inr (), ?ba2\<lparr>m_cur := ?cur\<rparr>)"
    using assms(2) by (simp add: setPosition_def)
  show ?thesis
    using assms by (simp add: run ba_inv_def ba_shape_def ba_at_def contents_def max_def)
qed

section \<open>Raw reads\<close>

text \<open>
  A read of \<open>sz\<close> bytes returns the bytes at the position.  It leaves the position at \<open>round_up\<close> of the
  end of the read: the end itself on a block boundary, the next boundary otherwise.
\<close>

definition round_up :: "nat \<Rightarrow> nat \<Rightarrow> nat" where
  "round_up b n = (if n mod b = 0 then n else (n div b + 1) * b)"

lemma round_up_in_block:
  "0 < off \<Longrightarrow> off \<le> b \<Longrightarrow> round_up b (i * b + off) = Suc i * b"
  by (cases "off = b") (simp_all add: round_up_def)

lemma read_loop_ok:
  assumes "ba_shape ba" "m_cur ba = Some i" "i < length (m_root ba)" "npos < m_baseSize ba"
    "m_position ba = i * m_baseSize ba + npos" "ncap = m_baseSize ba - npos"
    "0 < sz" "m_position ba + sz \<le> m_capacity ba"
  shows "\<exists>ba'. read_loop sz npos ncap ba = (Inr (take sz (drop (m_position ba) (contents ba))), ba') \<and>
     m_position ba' = round_up (m_baseSize ba) (m_position ba + sz) \<and>
     m_cur ba' = (if m_position ba + sz < m_capacity ba then Some ((m_position ba + sz) div m_baseSize ba) else None) \<and>
     m_root ba' = m_root ba \<and> same_frame ba ba'"
  using assms
proof (induction "length (m_root ba) - i" arbitrary: i npos ncap sz ba rule: less_induct)
  case less
  let ?B = "m_baseSize ba"
  note shape = less.prems(1) and cur = less.prems(2) and i = less.prems(3) and npos = less.prems(4)
    and pos = less.prems(5) and ncap = less.prems(6) and sz = less.prems(7) and cap = less.prems(8)
  note nd = ba_shape_nth [OF shape i]
  have block: "take n (drop npos (nptr (m_root ba ! i))) = take n (drop (m_position ba) (contents ba))"
    if "npos + n \<le> ?B" for n
    using take_drop_concat [of "map nptr (m_root ba)" ?B i npos n] ba_shape_blocks [OF shape] that i pos
    by (simp add: contents_def)
  show ?case
  proof (cases "sz \<le> ncap")
    case True
    let ?ba1 = "if npos + sz = ?B then ba\<lparr>m_cur := next_node ba i\<rparr> else ba"
    have run: "read_loop sz npos ncap ba =
        (Inr (take sz (drop (m_position ba) (contents ba))), ?ba1\<lparr>m_position := m_position ba + ncap\<rparr>)"
      using sz True ncap npos nd cur i block [of sz] by (auto simp: read_loop.simps [of sz] Let_def)
    have "m_position ba + ncap = Suc i * ?B" using pos ncap npos by simp
    moreover have "round_up ?B (m_position ba + sz) = Suc i * ?B"
      using round_up_in_block [of "npos + sz" ?B i] pos sz True ncap npos by (simp add: add.assoc)
    moreover have "m_cur ?ba1 = (if m_position ba + sz < m_capacity ba then Some ((m_position ba + sz) div ?B) else None)"
    proof (cases "npos + sz = ?B")
      case at_end: True
      then have "m_position ba + sz = Suc i * ?B" using pos by simp
      moreover have "(Suc i * ?B) div ?B = Suc i" using npos by (simp del: mult_Suc)
      ultimately show ?thesis using at_end next_node_at [OF shape i] by simp
    next
      case False
      with True ncap npos have "npos + sz < ?B" by simp
      moreover have "i * ?B + ?B \<le> m_capacity ba" using position_in_block [OF shape i, of ?B] by simp
      ultimately show ?thesis using False pos cur by (simp add: add.assoc)
    qed
    ultimately show ?thesis using run by (auto simp: same_frame_def)
  next
    case False
    let ?ba1 = "ba\<lparr>m_position := m_position ba + ncap, m_cur := next_node ba i\<rparr>"
    have pos': "m_position ba + ncap = Suc i * ?B" using pos ncap npos by simp
    then have "Suc i * ?B < m_capacity ba" using cap False by simp
    then have nxt: "next_node ba i = Some (Suc i)" using next_node_at [OF shape i] by simp
    then have i': "Suc i < length (m_root ba)" by (auto simp: next_node_def split: if_splits)
    have shape1: "ba_shape ?ba1" using shape by (simp add: ba_shape_def)
    have "\<exists>ba'. read_loop (sz - ncap) 0 ?B ?ba1 =
        (Inr (take (sz - ncap) (drop (m_position ?ba1) (contents ?ba1))), ba') \<and>
       m_position ba' = round_up (m_baseSize ?ba1) (m_position ?ba1 + (sz - ncap)) \<and>
       m_cur ba' = (if m_position ?ba1 + (sz - ncap) < m_capacity ?ba1
                    then Some ((m_position ?ba1 + (sz - ncap)) div m_baseSize ?ba1) else None) \<and>
       m_root ba' = m_root ?ba1 \<and> same_frame ?ba1 ba'"
      using shape1 i i' nxt pos' False cap ncap npos by (intro less.hyps [of ?ba1 "Suc i"]) auto
    then obtain ba' where ba': "read_loop (sz - ncap) 0 ?B ?ba1 =
        (Inr (take (sz - ncap) (drop (m_position ba + ncap) (contents ba))), ba')"
      "m_position ba' = round_up ?B (m_position ba + sz)"
      "m_cur ba' = (if m_position ba + sz < m_capacity ba then Some ((m_position ba + sz) div ?B) else None)"
      "m_root ba' = m_root ba" "same_frame ba ba'"
      using False by (auto simp: contents_def same_frame_def)
    have nd2: "nsize (m_root ba ! Suc i) = ?B" using ba_shape_nth [OF shape i'] by simp
    have "read_loop sz npos ncap ba =
        (Inr (take ncap (drop (m_position ba) (contents ba))
              @ take (sz - ncap) (drop (m_position ba + ncap) (contents ba))), ba')"
      using sz False ncap npos nd cur i i' nxt nd2 ba'(1) block [of ncap]
      by (simp add: read_loop.simps [of sz] Let_def)
    moreover have "take ncap (drop (m_position ba) (contents ba))
              @ take (sz - ncap) (drop (m_position ba + ncap) (contents ba))
            = take sz (drop (m_position ba) (contents ba))"
      using False take_add [of ncap "sz - ncap" "drop (m_position ba) (contents ba)"]
      by (simp add: add.commute)
    ultimately show ?thesis using ba' by auto
  qed
qed

definition unread :: "bytearray \<Rightarrow> byte list" where
  "unread ba = drop (m_position ba) (written ba)"

lemma length_unread: "ba_inv ba \<Longrightarrow> length (unread ba) = m_size ba - m_position ba"
  by (simp add: unread_def length_written)

lemma getReadSize_unread: "ba_inv ba \<Longrightarrow> getReadSize ba = length (unread ba)"
  by (simp add: getReadSize_def length_unread ba_inv_def)

lemma ba_read_ok:
  assumes inv: "ba_inv ba" and sz: "0 < sz" "sz \<le> length (unread ba)"
  shows "\<exists>ba'. ba_read sz ba = (Inr (take sz (unread ba)), ba') \<and>
     m_position ba' = round_up (m_baseSize ba) (m_position ba + sz) \<and>
     m_cur ba' = (if m_position ba + sz < m_capacity ba then Some ((m_position ba + sz) div m_baseSize ba) else None) \<and>
     m_root ba' = m_root ba \<and> same_frame ba ba'"
proof -
  from inv have shape: "ba_shape ba" and at: "ba_at ba" and le: "m_position ba \<le> m_size ba" "m_size ba \<le> m_capacity ba"
    by (auto simp: ba_inv_def)
  have fit: "m_position ba + sz \<le> m_size ba" using sz(2) length_unread [OF inv] le(1) by simp
  then have "m_position ba < m_capacity ba" using sz(1) le(2) by simp
  note blk = ba_at_block [OF shape at this]
  have "ba_read sz ba = read_loop sz (m_position ba mod m_baseSize ba)
      (m_baseSize ba - m_position ba mod m_baseSize ba) ba"
    using sz(2) getReadSize_unread [OF inv] blk(1,2,3) ba_shape_nth [OF shape blk(2)]
    by (simp add: ba_read_def Let_def)
  moreover have "take sz (drop (m_position ba) (contents ba)) = take sz (unread ba)"
    using fit by (simp add: unread_def written_def drop_take)
  ultimately show ?thesis
    using read_loop_ok [OF shape blk(1,2,3,4) refl sz(1)] fit le(2) by simp
qed

lemma ba_read_short:
  "ba_inv ba \<Longrightarrow> length (unread ba) < sz \<Longrightarrow> ba_read sz ba = (Inl Out_of_range, ba)"
  by (simp add: ba_read_def getReadSize_unread)

lemma ba_read_boundary:
  assumes inv: "ba_inv ba" and sz: "0 < sz" "sz \<le> length (unread ba)"
    and boundary: "(m_position ba + sz) mod m_baseSize ba = 0"
  shows "\<exists>ba'. ba_read sz ba = (Inr (take sz (unread ba)), ba') \<and> ba_inv ba' \<and>
     m_position ba' = m_position ba + sz \<and> unread ba' = drop sz (unread ba) \<and>
     written ba' = written ba \<and> same_frame ba ba'"
proof -
  obtain ba' where ba': "ba_read sz ba = (Inr (take sz (unread ba)), ba')"
    "m_position ba' = round_up (m_baseSize ba) (m_position ba + sz)"
    "m_cur ba' = (if m_position ba + sz < m_capacity ba then Some ((m_position ba + sz) div m_baseSize ba) else None)"
    "m_root ba' = m_root ba" "same_frame ba ba'"
    using ba_read_ok [OF inv sz] by blast
  have pos: "m_position ba' = m_position ba + sz" using ba'(2) boundary by (simp add: round_up_def)
  have fit: "m_position ba + sz \<le> m_size ba" using sz length_unread [OF inv] by simp
  have "ba_inv ba'"
    using inv ba' pos fit by (auto simp: ba_inv_def ba_shape_def ba_at_def same_frame_def)
  moreover have "written ba' = written ba"
    using ba'(4,5) by (simp add: written_def contents_def same_frame_def)
  moreover have "unread ba' = drop sz (unread ba)"
    using pos \<open>written ba' = written ba\<close> by (simp add: unread_def add.commute)
  ultimately show ?thesis using ba' pos by auto
qed

section \<open>Buffers of one-byte blocks\<close>

text \<open>
  With base size 1 every position is a block boundary, and the buffer is a byte stream in the
  sense of the codec layer.  This is the configuration of the repository's own tests.
\<close>

definition ba_inv1 :: "bytearray \<Rightarrow> bool" where
  "ba_inv1 ba \<longleftrightarrow> ba_inv ba \<and> m_baseSize ba = 1"

interpretation ba_stream: byte_stream ba_read ba_inv1 unread m_endian
proof
  fix s :: bytearray and n :: nat
  assume "ba_inv1 s" "0 < n" "n \<le> length (unread s)"
  then show "\<exists>s'. ba_read n s = (Inr (take n (unread s)), s') \<and> ba_inv1 s' \<and>
      unread s' = drop n (unread s) \<and> m_endian s' = m_endian s"
    using ba_read_boundary [of s n] by (auto simp: ba_inv1_def same_frame_def)
next
  fix s :: bytearray and n :: nat
  assume "ba_inv1 s" "length (unread s) < n"
  then show "ba_read n s = (Inl Out_of_range, s)" by (simp add: ba_inv1_def ba_read_short)
qed

lemma ba_inv_new: "0 < b \<Longrightarrow> ba_inv (ByteArray_new heap b)"
  by (simp add: ba_inv_def ba_shape_def ba_at_def ByteArray_new_def Node_def)

lemma unread_new: "unread (ByteArray_new heap b) = []" "written (ByteArray_new heap b) = []"
  by (simp_all add: unread_def written_def ByteArray_new_def)

lemma ba_write_inv1:
  assumes "ba_inv1 ba"
  shows "\<exists>ba'. ba_write bs ba = (Inr (), ba') \<and> ba_inv1 ba' \<and>
     written ba' = take (m_position ba) (written ba) @ bs @ drop (m_position ba + length bs) (written ba) \<and>
     m_position ba' = m_position ba + length bs \<and> m_endian ba' = m_endian ba"
  using ba_write_ok [of ba bs] assms by (auto simp: ba_inv1_def)

lemma setPosition_inv1:
  assumes "ba_inv1 ba" "v \<le> m_size ba"
  shows "\<exists>ba'. setPosition v ba = (Inr (), ba') \<and> ba_inv1 ba' \<and> m_position ba' = v \<and>
     written ba' = written ba \<and> m_endian ba' = m_endian ba"
proof -
  from assms have "ba_shape ba" "v \<le> m_capacity ba" "m_size ba \<le> m_capacity ba" "m_baseSize ba = 1"
    by (auto simp: ba_inv1_def ba_inv_def)
  from setPosition_ok [OF this(1-3)] this(4) assms(2) show ?thesis
    by (auto simp: ba_inv1_def written_def max_def)
qed

end
