(* ===== verification/ByteArray_Codecs.thy ===== *)
theory ByteArray_Codecs
  imports ByteArray_Correct
begin

text \<open>
  The typed writes and reads of the byte buffer, paired up.  The locale \<open>ba_codec\<close> states when
  a typed write and a typed read belong together; its client lemma is the round trip that the
  repository's own test performs: write a list of values into a fresh buffer of base size 1,
  go back to position 0 and read them all.  Every pair of \<^verbatim>\<open>bytearray.cc\<close> that agrees on its
  encoding is an interpretation.
\<close>

section \<open>The write-then-read program\<close>

fun write_all :: "('a \<Rightarrow> (bytearray, unit) eff) \<Rightarrow> 'a list \<Rightarrow> (bytearray, unit) eff" where
  "write_all write_fun [] = eff_return ()"
| "write_all write_fun (v # vs) = eff_bind (write_fun v) (\<lambda>_. write_all write_fun vs)"

fun read_all :: "(bytearray, 'a) eff \<Rightarrow> nat \<Rightarrow> (bytearray, 'a list) eff" where
  "read_all read_fun 0 = eff_return []"
| "read_all read_fun (Suc n) =
     eff_bind read_fun (\<lambda>v. eff_bind (read_all read_fun n) (\<lambda>vs. eff_return (v # vs)))"

text \<open>The body of the macro \<^verbatim>\<open>XX\<close> of the test: the values read back and the final read size.\<close>

definition write_then_read ::
  "('a \<Rightarrow> (bytearray, unit) eff) \<Rightarrow> (bytearray, 'a) eff \<Rightarrow> 'a list \<Rightarrow> (bytearray, 'a list \<times> nat) eff" where
  "write_then_read write_fun read_fun vec =
     eff_bind (write_all write_fun vec) (\<lambda>_.
     eff_bind (setPosition 0) (\<lambda>_.
     eff_bind (read_all read_fun (length vec)) (\<lambda>vs ba. (Inr (vs, getReadSize ba), ba))))"

section \<open>The contract of a matching write and read\<close>

text \<open>\<open>wrote bs ba ba'\<close>: \<open>ba'\<close> is \<open>ba\<close> after the bytes \<open>bs\<close> have been written at its position.\<close>

definition wrote :: "byte list \<Rightarrow> bytearray \<Rightarrow> bytearray \<Rightarrow> bool" where
  "wrote bs ba ba' \<longleftrightarrow> ba_inv1 ba' \<and>
     written ba' = take (m_position ba) (written ba) @ bs @ drop (m_position ba + length bs) (written ba) \<and>
     m_position ba' = m_position ba + length bs \<and> m_endian ba' = m_endian ba"

lemma ba_write_wrote: "ba_inv1 ba \<Longrightarrow> \<exists>ba'. ba_write bs ba = (Inr (), ba') \<and> wrote bs ba ba'"
  using ba_write_inv1 [of ba bs] by (auto simp: wrote_def)

lemma wrote_trans:
  assumes "ba_inv1 ba" "wrote xs ba ba'" "wrote ys ba' ba''"
  shows "wrote (xs @ ys) ba ba''"
proof -
  have "m_position ba \<le> length (written ba)"
    using assms(1) length_written [of ba] by (simp add: ba_inv1_def ba_inv_def)
  then have "take (m_position ba + length xs)
      (take (m_position ba) (written ba) @ xs @ drop (m_position ba + length xs) (written ba))
      = take (m_position ba) (written ba) @ xs" by simp
  moreover have "drop (m_position ba + length xs + length ys)
      (take (m_position ba) (written ba) @ xs @ drop (m_position ba + length xs) (written ba))
      = drop (m_position ba + length xs + length ys) (written ba)"
    using \<open>m_position ba \<le> length (written ba)\<close> by (simp add: add_ac)
  ultimately show ?thesis using assms(2,3) by (simp add: wrote_def add.assoc)
qed

locale ba_codec =
  fixes wr :: "'a \<Rightarrow> (bytearray, unit) eff"
    and rdv :: "(bytearray, 'a) eff"
    and enc :: "byte_order \<Rightarrow> 'a \<Rightarrow> byte list"
    and ok :: "'a \<Rightarrow> bool"
  assumes wr_enc: "ba_inv1 ba \<Longrightarrow> ok v \<Longrightarrow>
      \<exists>ba'. wr v ba = (Inr (), ba') \<and> wrote (enc (m_endian ba) v) ba ba'"
    and rd_enc: "ba_inv1 ba \<Longrightarrow> ok v \<Longrightarrow> unread ba = enc (m_endian ba) v @ rest \<Longrightarrow>
      \<exists>ba'. rdv ba = (Inr v, ba') \<and> ba_inv1 ba' \<and> unread ba' = rest \<and> m_endian ba' = m_endian ba"
begin

definition enc_all :: "byte_order \<Rightarrow> 'a list \<Rightarrow> byte list" where
  "enc_all e vs = concat (map (enc e) vs)"

lemma write_all_ok:
  assumes "ba_inv1 ba" "list_all ok vs"
  shows "\<exists>ba'. write_all wr vs ba = (Inr (), ba') \<and> wrote (enc_all (m_endian ba) vs) ba ba'"
  using assms
proof (induction vs arbitrary: ba)
  case Nil
  then show ?case by (simp add: wrote_def enc_all_def)
next
  case (Cons v vs)
  then obtain ba1 where ba1: "wr v ba = (Inr (), ba1)" "wrote (enc (m_endian ba) v) ba ba1"
    using wr_enc [of ba v] by auto
  then have inv1: "ba_inv1 ba1" and e1: "m_endian ba1 = m_endian ba" by (auto simp: wrote_def)
  obtain ba2 where "write_all wr vs ba1 = (Inr (), ba2)" "wrote (enc_all (m_endian ba) vs) ba1 ba2"
    using Cons.IH [OF inv1] Cons.prems(2) e1 by auto
  then show ?case
    using ba1 wrote_trans [OF Cons.prems(1) ba1(2)] by (simp add: eff_bind_def enc_all_def)
qed

lemma read_all_ok:
  assumes "ba_inv1 ba" "list_all ok vs" "unread ba = enc_all (m_endian ba) vs @ rest"
  shows "\<exists>ba'. read_all rdv (length vs) ba = (Inr vs, ba') \<and> ba_inv1 ba' \<and> unread ba' = rest"
  using assms
proof (induction vs arbitrary: ba)
  case Nil
  then show ?case by (simp add: enc_all_def)
next
  case (Cons v vs)
  then obtain ba1 where ba1: "rdv ba = (Inr v, ba1)" "ba_inv1 ba1"
    "unread ba1 = enc_all (m_endian ba) vs @ rest" "m_endian ba1 = m_endian ba"
    using rd_enc [of ba v "enc_all (m_endian ba) vs @ rest"] by (auto simp: enc_all_def)
  then show ?case using Cons.IH [of ba1] Cons.prems(2) by (auto simp: eff_bind_def)
qed

lemma roundtrip:
  assumes ok: "list_all ok vs" and inv: "ba_inv1 ba" and empty: "written ba = []"
  shows "\<exists>ba'. write_then_read wr rdv vs ba = (Inr (vs, 0), ba')"
proof -
  obtain ba1 where ba1: "write_all wr vs ba = (Inr (), ba1)" "wrote (enc_all (m_endian ba) vs) ba ba1"
    using write_all_ok [OF inv ok] by blast
  have inv1: "ba_inv1 ba1" and w1: "written ba1 = enc_all (m_endian ba) vs" and e1: "m_endian ba1 = m_endian ba"
    using ba1(2) empty by (auto simp: wrote_def)
  obtain ba2 where ba2: "setPosition 0 ba1 = (Inr (), ba2)" "ba_inv1 ba2" "m_position ba2 = 0"
    "written ba2 = written ba1" "m_endian ba2 = m_endian ba1"
    using setPosition_inv1 [OF inv1, of 0] by auto
  have "unread ba2 = enc_all (m_endian ba2) vs @ []" using ba2 w1 e1 by (simp add: unread_def)
  then obtain ba3 where ba3: "read_all rdv (length vs) ba2 = (Inr vs, ba3)" "ba_inv1 ba3" "unread ba3 = []"
    using read_all_ok [OF ba2(2) ok] by blast
  then have "getReadSize ba3 = 0" using getReadSize_unread [of ba3] by (simp add: ba_inv1_def)
  then show ?thesis using ba1(1) ba2(1) ba3(1) by (simp add: write_then_read_def eff_bind_def)
qed

lemma roundtrip_new:
  assumes "list_all ok vs"
  shows "fst (write_then_read wr rdv vs (setIsLittleEndian b (ByteArray_new heap 1))) = Inr (vs, 0)"
proof -
  let ?ba = "setIsLittleEndian b (ByteArray_new heap 1)"
  have "ba_inv1 ?ba"
    by (simp add: ba_inv1_def ba_inv_def ba_shape_def ba_at_def setIsLittleEndian_def ByteArray_new_def Node_def)
  moreover have "written ?ba = []" by (simp add: written_def setIsLittleEndian_def ByteArray_new_def)
  ultimately show ?thesis using roundtrip [OF assms, of ?ba] by auto
qed

end

section \<open>The pairs of the source\<close>

lemma fixed_codec:
  fixes wr :: "'a::len word \<Rightarrow> (bytearray, unit) eff"
  assumes "8 dvd LENGTH('a)"
    and "\<And>v ba. wr v ba = ba_write (bytes_in_order (m_endian ba) v) ba"
    and "rdv = read_fixed host m_endian ba_read"
  shows "ba_codec wr rdv bytes_in_order (\<lambda>_. True)"
  using ba_write_wrote ba_stream.read_fixed_ok [OF _ assms(1)]
  by unfold_locales (simp_all add: assms(2,3))

lemma varint_codec:
  fixes wr :: "'a::len word \<Rightarrow> (bytearray, unit) eff"
  assumes "8 \<le> LENGTH('a)" and "wr = (\<lambda>v. ba_write (varint_bytes v))"
    and "rdv = read_varint ba_read (LENGTH('a)) 0 0"
  shows "ba_codec wr rdv (\<lambda>_. varint_bytes) (\<lambda>_. True)"
  using ba_write_wrote ba_stream.read_varint_ok [OF assms(1)]
  by unfold_locales (simp_all add: assms(2,3))

text \<open>A value sent through a bijection on the accepted values, as the signed varints are.\<close>

lemma mapped_codec:
  assumes "ba_codec wr rdv enc ok" and "\<And>v. ok' v \<Longrightarrow> ok (f v) \<and> g (f v) = v"
  shows "ba_codec (\<lambda>v. wr (f v)) (eff_bind rdv (\<lambda>v. eff_return (g v))) (\<lambda>e v. enc e (f v)) ok'"
proof
  fix ba :: bytearray and v
  assume "ba_inv1 ba" "ok' v"
  then show "\<exists>ba'. wr (f v) ba = (Inr (), ba') \<and> wrote (enc (m_endian ba) (f v)) ba ba'"
    using assms(2) ba_codec.wr_enc [OF assms(1)] by blast
next
  fix ba :: bytearray and v rest
  assume "ba_inv1 ba" "ok' v" "unread ba = enc (m_endian ba) (f v) @ rest"
  then obtain ba' where "rdv ba = (Inr (f v), ba')" "ba_inv1 ba'" "unread ba' = rest" "m_endian ba' = m_endian ba"
    using assms(2) ba_codec.rd_enc [OF assms(1)] by blast
  then show "\<exists>ba'. eff_bind rdv (\<lambda>v. eff_return (g v)) ba = (Inr v, ba') \<and> ba_inv1 ba' \<and>
      unread ba' = rest \<and> m_endian ba' = m_endian ba"
    using assms(2) [OF \<open>ok' v\<close>] by (auto simp: eff_bind_def)
qed

text \<open>A length header followed by the bytes; the header must be able to hold the length.\<close>

lemma string_codec:
  fixes hw :: "'a::len word \<Rightarrow> (bytearray, unit) eff"
  assumes "ba_codec hw hr enc (\<lambda>_. True)"
  shows "ba_codec (\<lambda>s. eff_bind (hw (of_nat (length s))) (\<lambda>_. ba_write s))
     (eff_bind hr (\<lambda>len. ba_read (unat len)))
     (\<lambda>e s. enc e (of_nat (length s)) @ s) (\<lambda>s. s \<noteq> [] \<and> length s < 2 ^ LENGTH('a))"
proof
  fix ba :: bytearray and s :: "byte list"
  let ?n = "of_nat (length s) :: 'a word"
  assume inv: "ba_inv1 ba"
  obtain ba1 where ba1: "hw ?n ba = (Inr (), ba1)" "wrote (enc (m_endian ba) ?n) ba ba1"
    using ba_codec.wr_enc [OF assms inv, of ?n] by blast
  then obtain ba2 where "ba_write s ba1 = (Inr (), ba2)" "wrote s ba1 ba2"
    using ba_write_wrote [of ba1 s] by (auto simp: wrote_def)
  then show "\<exists>ba'. eff_bind (hw ?n) (\<lambda>_. ba_write s) ba = (Inr (), ba') \<and>
      wrote (enc (m_endian ba) ?n @ s) ba ba'"
    using ba1 wrote_trans [OF inv ba1(2)] by (simp add: eff_bind_def)
next
  fix ba :: bytearray and s rest :: "byte list"
  let ?n = "of_nat (length s) :: 'a word"
  assume inv: "ba_inv1 ba" and s: "s \<noteq> [] \<and> length s < 2 ^ LENGTH('a)"
    and un: "unread ba = (enc (m_endian ba) ?n @ s) @ rest"
  obtain ba1 where ba1: "hr ba = (Inr ?n, ba1)" "ba_inv1 ba1" "unread ba1 = s @ rest" "m_endian ba1 = m_endian ba"
    using ba_codec.rd_enc [OF assms inv, of ?n "s @ rest"] un by auto
  have "unat ?n = length s" using s by (simp add: unsigned_of_nat take_bit_nat_eq_self_iff)
  then show "\<exists>ba'. eff_bind hr (\<lambda>len. ba_read (unat len)) ba = (Inr s, ba') \<and> ba_inv1 ba' \<and>
      unread ba' = rest \<and> m_endian ba' = m_endian ba"
    using ba1 s ba_stream.rd_enough [OF ba1(2), of "length s"] by (auto simp: eff_bind_def)
qed

lemmas fixed_write_defs = writeFint16_def writeFuint16_def writeFint32_def writeFuint32_def
  writeFint64_def writeFuint64_def
lemmas fixed_read_defs = readFint16_def readFuint16_def readFint32_def readFuint32_def
  readFint64_def readFuint64_def

lemma byte_codec: "ba_codec (\<lambda>v. ba_write [v]) (read_byte ba_read) (\<lambda>_ v. [v]) (\<lambda>_. True)"
  using ba_write_wrote ba_stream.read_byte_ok by unfold_locales simp_all

interpretation fint8: ba_codec writeFint8 readFint8 "\<lambda>_ v. [v]" "\<lambda>_. True"
  using byte_codec by (simp add: writeFint8_def [abs_def] readFint8_def)

interpretation fuint8: ba_codec writeFuint8 readFuint8 "\<lambda>_ v. [v]" "\<lambda>_. True"
  using byte_codec by (simp add: writeFuint8_def [abs_def] readFuint8_def)

interpretation fint16: ba_codec "writeFint16 host" "readFint16 host" bytes_in_order "\<lambda>_. True" for host
  by (rule fixed_codec [of _ _ host]) (simp_all add: fixed_write_defs fixed_read_defs mem_bytes_swapped Let_def)

interpretation fuint16: ba_codec "writeFuint16 host" "readFuint16 host" bytes_in_order "\<lambda>_. True" for host
  by (rule fixed_codec [of _ _ host]) (simp_all add: fixed_write_defs fixed_read_defs mem_bytes_swapped Let_def)

interpretation fint32: ba_codec "writeFint32 host" "readFint32 host" bytes_in_order "\<lambda>_. True" for host
  by (rule fixed_codec [of _ _ host]) (simp_all add: fixed_write_defs fixed_read_defs mem_bytes_swapped Let_def)

interpretation fuint32: ba_codec "writeFuint32 host" "readFuint32 host" bytes_in_order "\<lambda>_. True" for host
  by (rule fixed_codec [of _ _ host]) (simp_all add: fixed_write_defs fixed_read_defs mem_bytes_swapped Let_def)

interpretation fint64: ba_codec "writeFint64 host" "readFint64 host" bytes_in_order "\<lambda>_. True" for host
  by (rule fixed_codec [of _ _ host]) (simp_all add: fixed_write_defs fixed_read_defs mem_bytes_swapped Let_def)

interpretation fuint64: ba_codec "writeFuint64 host" "readFuint64 host" bytes_in_order "\<lambda>_. True" for host
  by (rule fixed_codec [of _ _ host]) (simp_all add: fixed_write_defs fixed_read_defs mem_bytes_swapped Let_def)

interpretation uint32: ba_codec writeUint32 readUint32 "\<lambda>_. varint_bytes" "\<lambda>_. True"
  by (rule varint_codec) (simp_all add: writeUint32_def [abs_def] readUint32_def)

interpretation uint64: ba_codec writeUint64 readUint64 "\<lambda>_. varint_bytes" "\<lambda>_. True"
  by (rule varint_codec) (simp_all add: writeUint64_def [abs_def] readUint64_def)

interpretation int32: ba_codec writeInt32 readInt32 "\<lambda>_ v. varint_bytes (EncodeZigzag32 v)" "\<lambda>_. True"
  using mapped_codec [OF uint32.ba_codec_axioms, of "\<lambda>_. True" DecodeZigzag32 EncodeZigzag32]
  by (simp add: writeInt32_def [abs_def] readInt32_def zigzag32_roundtrip_bits)

text \<open>The 64 bit zigzag pair carries exactly the values of 32 bits.\<close>

definition fits_int32 :: "u64 \<Rightarrow> bool" where
  "fits_int32 v \<longleftrightarrow> - (2 ^ 31) \<le> sint v \<and> sint v < 2 ^ 31"

lemma zigzag64_roundtrip_iff: "DecodeZigzag64 (EncodeZigzag64 v) = v \<longleftrightarrow> fits_int32 v"
  by (simp only: zigzag64_bits_iff fits_int32_def fits32_iff_bits)

interpretation int64: ba_codec writeInt64 readInt64 "\<lambda>_ v. varint_bytes (EncodeZigzag64 v)" fits_int32
  using mapped_codec [OF uint64.ba_codec_axioms, of fits_int32 DecodeZigzag64 EncodeZigzag64]
  by (simp add: writeInt64_def [abs_def] readInt64_def zigzag64_roundtrip_iff)

text \<open>What the pair does to any list of values: each comes back as the decoder makes it.\<close>

lemma read_all_mapped:
  "read_all (eff_bind rdv (\<lambda>v. eff_return (g v))) n ba =
     (case read_all rdv n ba of (Inl e, ba') \<Rightarrow> (Inl e, ba') | (Inr vs, ba') \<Rightarrow> (Inr (map g vs), ba'))"
  by (induction n arbitrary: ba) (auto simp: eff_bind_def split: prod.splits sum.splits)

lemma write_all_mapped: "write_all (\<lambda>v. wr (f v)) vs = write_all wr (map f vs)"
  by (induction vs) simp_all

lemma int64_roundtrip_new:
  "fst (write_then_read writeInt64 readInt64 vs (setIsLittleEndian b (ByteArray_new heap 1))) = Inr (vs, 0) \<longleftrightarrow>
     list_all fits_int32 vs"
proof -
  let ?ba = "setIsLittleEndian b (ByteArray_new heap 1)"
  have "write_all writeInt64 vs = write_all writeUint64 (map EncodeZigzag64 vs)"
    using write_all_mapped [of writeUint64 EncodeZigzag64 vs] by (simp add: writeInt64_def [abs_def])
  moreover have "fst (write_then_read writeUint64 readUint64 (map EncodeZigzag64 vs) ?ba) = Inr (map EncodeZigzag64 vs, 0)"
    by (rule uint64.roundtrip_new) (simp add: list_all_iff)
  ultimately have "fst (write_then_read writeInt64 readInt64 vs ?ba) =
      Inr (map (\<lambda>v. DecodeZigzag64 (EncodeZigzag64 v)) vs, 0)"
    by (auto simp: write_then_read_def readInt64_def eff_bind_def read_all_mapped comp_def split: prod.splits sum.splits)
  moreover have "map (\<lambda>v. DecodeZigzag64 (EncodeZigzag64 v)) vs = vs \<longleftrightarrow> list_all fits_int32 vs"
    by (induction vs) (simp_all add: zigzag64_roundtrip_iff)
  ultimately show ?thesis by simp
qed

text \<open>
  With larger blocks a read leaves the position at a block end, so only one value can be read back;
  that one is right for every block size.
\<close>

lemma fixed_one:
  fixes wr :: "'a::len word \<Rightarrow> (bytearray, unit) eff"
  assumes "8 dvd LENGTH('a)"
    and "\<And>v ba. wr v ba = ba_write (bytes_in_order (m_endian ba) v) ba"
    and "rdv = read_fixed host m_endian ba_read"
  shows "\<exists>r. fst (write_then_read wr rdv [v] (setIsLittleEndian b (ByteArray_new heap (Suc n)))) = Inr ([v], r)"
proof -
  let ?ba = "setIsLittleEndian b (ByteArray_new heap (Suc n))"
  let ?bs = "bytes_in_order (m_endian ?ba) v"
  have "ba_inv ?ba"
    by (simp add: ba_inv_def ba_shape_def ba_at_def setIsLittleEndian_def ByteArray_new_def Node_def)
  moreover have "written ?ba = []" "m_position ?ba = 0"
    by (simp_all add: written_def setIsLittleEndian_def ByteArray_new_def)
  ultimately obtain ba1 where ba1: "wr v ?ba = (Inr (), ba1)" "ba_inv ba1" "written ba1 = ?bs" "m_endian ba1 = m_endian ?ba"
    using ba_write_ok [of ?ba ?bs] by (auto simp: assms(2))
  then obtain ba2 where ba2: "setPosition 0 ba1 = (Inr (), ba2)" "ba_inv ba2" "m_position ba2 = 0"
      "m_size ba2 = m_size ba1" "contents ba2 = contents ba1" "m_endian ba2 = m_endian ?ba"
    using setPosition_ok [of ba1 0] by (auto simp: ba_inv_def)
  have un: "unread ba2 = ?bs" using ba1 ba2 by (simp add: unread_def written_def)
  have "0 < LENGTH('a) div 8" using dvd_imp_le [OF assms(1)] by (simp add: div_greater_zero_iff)
  then obtain ba3 where "ba_read (LENGTH('a) div 8) ba2 = (Inr ?bs, ba3)" "m_endian ba3 = m_endian ?ba"
    using ba_read_ok [OF ba2(2), of "LENGTH('a) div 8"] ba2(6) unfolding un by (auto simp: same_frame_def)
  then have "rdv ba2 = (Inr v, ba3)"
    using mem_value_swapped [OF assms(1), of "m_endian ?ba" host v]
    by (simp add: assms(3) read_fixed_def eff_bind_def Let_def)
  then show ?thesis using ba1(1) ba2(1) by (simp add: write_then_read_def eff_bind_def)
qed

lemmas fixed_pair_defs = fixed_write_defs fixed_read_defs mem_bytes_swapped Let_def

lemma fixed_one_pairs:
  "\<exists>r. fst (write_then_read (writeFint16 host) (readFint16 host) [x3] (setIsLittleEndian b (ByteArray_new heap (Suc n)))) = Inr ([x3], r)"
  "\<exists>r. fst (write_then_read (writeFuint16 host) (readFuint16 host) [x4] (setIsLittleEndian b (ByteArray_new heap (Suc n)))) = Inr ([x4], r)"
  "\<exists>r. fst (write_then_read (writeFint32 host) (readFint32 host) [x5] (setIsLittleEndian b (ByteArray_new heap (Suc n)))) = Inr ([x5], r)"
  "\<exists>r. fst (write_then_read (writeFuint32 host) (readFuint32 host) [x6] (setIsLittleEndian b (ByteArray_new heap (Suc n)))) = Inr ([x6], r)"
  "\<exists>r. fst (write_then_read (writeFint64 host) (readFint64 host) [x7] (setIsLittleEndian b (ByteArray_new heap (Suc n)))) = Inr ([x7], r)"
  "\<exists>r. fst (write_then_read (writeFuint64 host) (readFuint64 host) [x8] (setIsLittleEndian b (ByteArray_new heap (Suc n)))) = Inr ([x8], r)"
  by (rule fixed_one [where host = host]; simp add: fixed_pair_defs)+

interpretation stringF16: ba_codec "writeStringF16 host" "readStringF16 host"
  "\<lambda>e s. bytes_in_order e (of_nat (length s) :: u16) @ s" "\<lambda>s. s \<noteq> [] \<and> length s < 2 ^ 16" for host
  using string_codec [OF fint16.ba_codec_axioms, of host]
  by (simp add: writeStringF16_def [abs_def] readStringF16_def readFuint16_def readFint16_def)

interpretation stringF32: ba_codec "writeStringF32 host" "readStringF32 host"
  "\<lambda>e s. bytes_in_order e (of_nat (length s) :: u32) @ s" "\<lambda>s. s \<noteq> [] \<and> length s < 2 ^ 32" for host
  using string_codec [OF fint32.ba_codec_axioms, of host]
  by (simp add: writeStringF32_def [abs_def] readStringF32_def readFuint32_def readFint32_def)

interpretation stringF64: ba_codec "writeStringF64 host" "readStringF64 host"
  "\<lambda>e s. bytes_in_order e (of_nat (length s) :: u64) @ s" "\<lambda>s. s \<noteq> [] \<and> length s < 2 ^ 64" for host
  using string_codec [OF fint64.ba_codec_axioms, of host]
  by (simp add: writeStringF64_def [abs_def] readStringF64_def readFuint64_def readFint64_def)

end
