(* ===== verification/ByteArray_IO.thy ===== *)
theory ByteArray_IO
  imports ByteArray_Correct
begin

text \<open>
  The bulk interfaces of the byte buffer: \<^verbatim>\<open>toString\<close>, the file operations, \<^verbatim>\<open>clear\<close> and the
  scatter/gather buffers.  They agree with the data the buffer holds, with the exception of
  \<^verbatim>\<open>getReadBuffers\<close> past the end of a block.
\<close>

section \<open>Whole-buffer reads\<close>

lemma ba_toString_unread:
  assumes "ba_inv ba"
  shows "ba_toString ba = Inr (unread ba)"
proof (cases "unread ba = []")
  case True
  then show ?thesis using getReadSize_unread [OF assms] by (simp add: ba_toString_def)
next
  case False
  then obtain ba' where run: "ba_read (length (unread ba)) ba = (Inr (unread ba), ba')"
    using ba_read_ok [OF assms, of "length (unread ba)"] by auto
  have "read_at (length (unread ba)) (m_position ba) ba = fst (ba_read (length (unread ba)) ba)"
    by (simp add: read_at_def ba_read_def Let_def split: option.split)
  then show ?thesis using False run getReadSize_unread [OF assms] by (simp add: ba_toString_def)
qed

lemma length_hex_from: "length (hex_from i bs) = 3 * length bs + card {j \<in> {i..<i + length bs}. 0 < j \<and> j mod 32 = 0}"
proof (induction bs arbitrary: i)
  case (Cons b bs)
  let ?P = "\<lambda>j. 0 < j \<and> j mod 32 = 0"
  have "{j \<in> {i..<i + length (b # bs)}. ?P j} = {j \<in> {Suc i..<Suc i + length bs}. ?P j} \<union> (if ?P i then {i} else {})"
    by (auto simp: le_less)
  moreover have "card ({j \<in> {Suc i..<Suc i + length bs}. ?P j} \<union> (if ?P i then {i} else {}))
      = card {j \<in> {Suc i..<Suc i + length bs}. ?P j} + (if ?P i then 1 else 0)"
    by (subst card_Un_disjoint) auto
  ultimately show ?case using Cons.IH [of "Suc i"] by simp
qed simp

section \<open>Files\<close>

lemma writeToFile_loop_ok:
  assumes "ba_shape ba" "pos + n \<le> m_capacity ba"
    "cur = (if pos < m_capacity ba then Some (pos div m_baseSize ba) else None)"
  shows "writeToFile_loop ba (int n) pos cur = Inr (take n (drop pos (contents ba)))"
  using assms(2,3)
proof (induction n arbitrary: pos cur rule: less_induct)
  case (less n)
  let ?B = "m_baseSize ba" and ?i = "pos div m_baseSize ba" and ?d = "pos mod m_baseSize ba"
  have B: "0 < ?B" and cap: "m_capacity ba = length (m_root ba) * ?B"
    using assms(1) by (auto simp: ba_shape_def)
  show ?case
  proof (cases "n = 0")
    case True
    then show ?thesis by (simp add: writeToFile_loop.simps [of ba])
  next
    case False
    then have pos: "pos < m_capacity ba" using less.prems(1) by simp
    then have i: "?i < length (m_root ba)" using B cap by (simp add: div_less_iff_less_mult)
    define len where "len = (if n + ?d > ?B then ?B - ?d else n)"
    have d: "?d < ?B" using B by simp
    then have len: "0 < len" "len \<le> n" "?d + len \<le> ?B" using False by (auto simp: len_def)
    let ?cur' = "if len + ?d = ?B then next_node ba ?i else Some ?i"
    have split: "pos = ?i * ?B + ?d" by simp
    have "?cur' = (if pos + len < m_capacity ba then Some ((pos + len) div ?B) else None)"
    proof (cases "len + ?d = ?B")
      case True
      then have end': "pos + len = Suc ?i * ?B" using split unfolding mult_Suc by linarith
      then have "(pos + len) div ?B = Suc ?i" using B by (simp del: mult_Suc)
      then show ?thesis using True next_node_at [OF assms(1) i] end' by simp
    next
      case False
      with len have lt: "?d + len < ?B" by simp
      have "pos + len = ?i * ?B + (?d + len)" using split by linarith
      then have "(pos + len) div ?B = ?i" using lt B by (metis div_mult_self3 add.commute div_less add_cancel_right_right not_less_zero neq0_conv)
      moreover have "pos + len < m_capacity ba"
        using position_in_block [OF assms(1) i, of ?B] lt split by linarith
      ultimately show ?thesis using False by simp
    qed
    moreover have "pos + len + (n - len) \<le> m_capacity ba" using less.prems(1) len by simp
    ultimately have IH: "writeToFile_loop ba (int (n - len)) (pos + len) ?cur'
        = Inr (take (n - len) (drop (pos + len) (contents ba)))"
      using less.IH [of "n - len"] len False by simp
    have blk: "take len (drop ?d (nptr (m_root ba ! ?i))) = take len (drop pos (contents ba))"
      using take_drop_concat [of "map nptr (m_root ba)" ?B ?i ?d len] ba_shape_blocks [OF assms(1)] i len
      by (simp add: contents_def)
    have nd: "\<not> length (nptr (m_root ba ! ?i)) < ?d + len" using ba_shape_nth [OF assms(1) i] len by simp
    have lenE: "(if nat (int n) + ?d > ?B then ?B - ?d else nat (int n)) = len" by (simp add: len_def)
    have sub: "int n - int len = int (n - len)" using len by simp
    have "writeToFile_loop ba (int n) pos cur
        = Inr (take len (drop pos (contents ba)) @ take (n - len) (drop (pos + len) (contents ba)))"
      using False B i nd pos IH blk less.prems(2)
      unfolding writeToFile_loop.simps [of ba "int n"] Let_def lenE sub by simp
    moreover have "take len (drop pos (contents ba)) @ take (n - len) (drop (pos + len) (contents ba))
        = take n (drop pos (contents ba))"
      using len take_add [of len "n - len" "drop pos (contents ba)"] by (simp add: add.commute)
    ultimately show ?thesis by simp
  qed
qed

lemma writeToFile_unread:
  assumes "ba_inv ba" "m_size ba < 2 ^ 63"
  shows "writeToFile True ba = Inr (Some (unread ba))"
proof -
  have "as_int64 (getReadSize ba) = int (length (unread ba))"
    using getReadSize_unread [OF assms(1)] length_unread [OF assms(1)] assms(2) by (simp add: as_int64_def)
  moreover have "take (length (unread ba)) (drop (m_position ba) (contents ba)) = unread ba"
    using length_unread [OF assms(1)] by (simp add: unread_def written_def drop_take)
  ultimately show ?thesis
    using assms(1) writeToFile_loop_ok [of ba "m_position ba" "length (unread ba)" "m_cur ba"] length_unread [OF assms(1)]
    by (simp add: writeToFile_def ba_inv_def ba_at_def)
qed

lemma readFromFile_ok:
  assumes "ba_inv ba"
  shows "\<exists>ba'. readFromFile (Some fbs) ba = (Inr True, ba') \<and> ba_inv ba' \<and>
     written ba' = take (m_position ba) (written ba) @ fbs @ drop (m_position ba + length fbs) (written ba) \<and>
     m_position ba' = m_position ba + length fbs"
  unfolding readFromFile_def option.case
  using assms
proof (induction "length fbs" arbitrary: fbs ba rule: less_induct)
  case less
  let ?B = "m_baseSize ba"
  have B: "0 < ?B" using less.prems by (simp add: ba_inv_def ba_shape_def)
  obtain ba1 where ba1: "ba_write (take ?B fbs) ba = (Inr (), ba1)" "ba_inv ba1" "m_baseSize ba1 = ?B"
    "written ba1 = take (m_position ba) (written ba) @ take ?B fbs @ drop (m_position ba + length (take ?B fbs)) (written ba)"
    "m_position ba1 = m_position ba + length (take ?B fbs)"
    using ba_write_ok [OF less.prems, of "take ?B fbs"] by blast
  show ?case
  proof (cases "length fbs < ?B")
    case True
    then show ?thesis using B ba1 by (simp add: readFromFile_loop.simps [of fbs])
  next
    case False
    then have "length (drop ?B fbs) < length fbs" using B by simp
    then obtain ba2 where ba2: "readFromFile_loop (drop ?B fbs) ba1 = (Inr True, ba2)" "ba_inv ba2"
      "written ba2 = take (m_position ba1) (written ba1) @ drop ?B fbs @ drop (m_position ba1 + length (drop ?B fbs)) (written ba1)"
      "m_position ba2 = m_position ba1 + length (drop ?B fbs)"
      using less.hyps [OF _ ba1(2)] by blast
    have le: "m_position ba \<le> length (written ba)"
      using less.prems length_written [OF less.prems] by (simp add: ba_inv_def)
    have p1: "m_position ba1 = m_position ba + ?B" using ba1(5) False by simp
    have "take (m_position ba1) (written ba1) = take (m_position ba) (written ba) @ take ?B fbs"
      using ba1(4) p1 le False by simp
    moreover have "drop (m_position ba1 + length (drop ?B fbs)) (written ba1) = drop (m_position ba + length fbs) (written ba)"
      using ba1(4) p1 le False by (simp add: add_ac)
    ultimately have "written ba2 = take (m_position ba) (written ba) @ fbs @ drop (m_position ba + length fbs) (written ba)"
      using ba2(3) append_take_drop_id [of ?B fbs] by (metis append_assoc)
    then show ?thesis using B False ba1(1) ba2 p1 by (simp add: readFromFile_loop.simps [of fbs])
  qed
qed

lemma clear_inv: "ba_inv ba \<Longrightarrow> ba_inv (clear ba) \<and> written (clear ba) = []"
  by (cases "m_root ba") (auto simp: ba_inv_def ba_shape_def ba_at_def clear_def written_def)

section \<open>Scatter and gather buffers\<close>

text \<open>
  \<open>iovs_cover ba pos len iovs\<close>: the buffers \<open>iovs\<close> lie inside blocks of the chain and denote,
  one after the other, exactly the \<open>len\<close> bytes from offset \<open>pos\<close> on.
\<close>

fun iovs_cover :: "bytearray \<Rightarrow> nat \<Rightarrow> nat \<Rightarrow> iovec list \<Rightarrow> bool" where
  "iovs_cover ba pos len [] \<longleftrightarrow> len = 0"
| "iovs_cover ba pos len (v # iovs) \<longleftrightarrow>
     iov_node v < length (m_root ba) \<and> iov_off v + iov_len v \<le> m_baseSize ba \<and>
     iov_node v * m_baseSize ba + iov_off v = pos \<and> iov_len v \<le> len \<and>
     iovs_cover ba (pos + iov_len v) (len - iov_len v) iovs"

lemma writeBuffers_loop_ok:
  assumes "ba_shape ba" "i < length (m_root ba)" "npos \<le> m_baseSize ba"
    "i * m_baseSize ba + npos + len \<le> m_capacity ba"
  shows "\<exists>iovs. writeBuffers_loop ba (Some i) len npos (m_baseSize ba - npos) = Inr iovs \<and>
     iovs_cover ba (i * m_baseSize ba + npos) len iovs"
  using assms
proof (induction "length (m_root ba) - i" arbitrary: i len npos rule: less_induct)
  case less
  let ?B = "m_baseSize ba"
  note shape = less.prems(1) and i = less.prems(2) and npos = less.prems(3) and cap = less.prems(4)
  consider "len = 0" | "0 < len" "len \<le> ?B - npos" | "?B - npos < len" by linarith
  then show ?case
  proof cases
    case 1
    then show ?thesis by (simp add: writeBuffers_loop.simps [of ba])
  next
    case 2
    then show ?thesis using i npos by (simp add: writeBuffers_loop.simps [of ba "Some i" len])
  next
    case 3
    have pos': "i * ?B + npos + (?B - npos) = Suc i * ?B" using npos by simp
    have "i * ?B + npos + (?B - npos) < m_capacity ba" using 3 cap by linarith
    then have "Suc i * ?B < m_capacity ba" by (simp only: pos')
    then have nxt: "next_node ba i = Some (Suc i)" using next_node_at [OF shape i] by simp
    then have i': "Suc i < length (m_root ba)" by (auto simp: next_node_def split: if_splits)
    have "i * ?B + npos + (?B - npos) + 0 + (len - (?B - npos)) \<le> m_capacity ba" using 3 cap by linarith
    then have "Suc i * ?B + 0 + (len - (?B - npos)) \<le> m_capacity ba" by (simp only: pos')
    then obtain iovs where "writeBuffers_loop ba (Some (Suc i)) (len - (?B - npos)) 0 ?B = Inr iovs"
      "iovs_cover ba (Suc i * ?B) (len - (?B - npos)) iovs"
      using less.hyps [of "Suc i" 0 "len - (?B - npos)"] shape i i' by (metis add_0_right diff_less_mono2 diff_zero lessI less_or_eq_imp_le zero_le)
    then show ?thesis
      using 3 i npos nxt i' ba_shape_nth [OF shape i']
      by (simp add: writeBuffers_loop.simps [of ba "Some i" len] add.commute)
  qed
qed

lemma getWriteBuffers_ok:
  assumes "ba_inv ba"
  shows "\<exists>iovs ba'. getWriteBuffers len ba = (Inr (len, iovs), ba') \<and> ba_inv ba' \<and>
     written ba' = written ba \<and> m_position ba' = m_position ba \<and> iovs_cover ba' (m_position ba) len iovs"
proof (cases "len = 0")
  case True
  then show ?thesis using assms by (simp add: getWriteBuffers_def)
next
  case False
  from assms have inv: "ba_shape ba" "ba_at ba" "m_position ba \<le> m_size ba" "m_size ba \<le> m_capacity ba"
    by (auto simp: ba_inv_def)
  obtain ba1 junk where ba1: "addCapacity len ba = (Inr (), ba1)" "ba_shape ba1" "ba_at ba1"
    "contents ba1 = contents ba @ junk" "m_position ba + len \<le> m_capacity ba1" "m_capacity ba \<le> m_capacity ba1"
    "m_position ba1 = m_position ba" "m_size ba1 = m_size ba"
    using addCapacity_ok [OF inv(1,2), of len] by blast
  have lt: "m_position ba1 < m_capacity ba1" using ba1(5,7) False by simp
  note blk = ba_at_block [OF ba1(2,3) lt]
  let ?i = "m_position ba1 div m_baseSize ba1" and ?npos = "m_position ba1 mod m_baseSize ba1"
  obtain iovs where iovs: "writeBuffers_loop ba1 (Some ?i) len ?npos (m_baseSize ba1 - ?npos) = Inr iovs"
    "iovs_cover ba1 (m_position ba1) len iovs"
    using writeBuffers_loop_ok [OF ba1(2) blk(2), of ?npos len] blk(3,4) ba1(5,7) by auto
  have "0 < m_baseSize ba1" using ba1(2) by (simp add: ba_shape_def)
  then have "getWriteBuffers len ba = (Inr (len, iovs), ba1)"
    using False ba1(1) blk(1,2,3) iovs(1) ba_shape_nth [OF ba1(2) blk(2)]
    by (simp add: getWriteBuffers_def eff_bind_def Let_def)
  moreover have "written ba1 = written ba"
    using ba1(4,8) inv(4) length_contents [OF inv(1)] by (simp add: written_def)
  moreover have "ba_inv ba1" using ba1 inv by (simp add: ba_inv_def)
  ultimately show ?thesis using iovs(2) ba1(7) by auto
qed

text \<open>Within the current block the read buffers are right as well.\<close>

lemma getReadBuffers_in_block:
  assumes "ba_inv ba" "len \<le> length (unread ba)" "m_position ba mod m_baseSize ba + len \<le> m_baseSize ba"
  shows "\<exists>iovs. getReadBuffers len ba = Inr (len, iovs) \<and> iovs_cover ba (m_position ba) len iovs"
proof (cases "len = 0")
  case True
  then show ?thesis by (simp add: getReadBuffers_def)
next
  case False
  from assms(1) have inv: "ba_shape ba" "ba_at ba" "m_size ba \<le> m_capacity ba" by (auto simp: ba_inv_def)
  have "m_position ba < m_capacity ba" using assms(2) False length_unread [OF assms(1)] inv(3) by linarith
  note blk = ba_at_block [OF inv(1,2) this]
  have "len = min len (getReadSize ba)" using assms(2) getReadSize_unread [OF assms(1)] by simp
  moreover have "0 < m_baseSize ba" using inv(1) by (simp add: ba_shape_def)
  ultimately show ?thesis
    using False blk assms(3) ba_shape_nth [OF inv(1) blk(2)]
    by (auto simp: getReadBuffers_def Let_def readBuffers_loop.simps [of _ _ len])
qed

end
