(* ===== verification/Cpp_Containers.thy ===== *)
theory Cpp_Containers
  imports Linko_Prelude
begin

text \<open>
  The ordered containers of the standard library as the source uses them: \<^verbatim>\<open>std::set\<close> and
  \<^verbatim>\<open>std::map\<close> are lists kept in the order of the container's comparator, and two elements are
  the same to the container when neither is less than the other.  The locale
  \<open>strict_weak_order\<close> is what the standard asks of a comparator; the container lemmas are proved
  from it, and each component interprets it on its own comparator.
\<close>

section \<open>std::set\<close>

fun set_insert :: "('a \<Rightarrow> 'a \<Rightarrow> bool) \<Rightarrow> 'a \<Rightarrow> 'a list \<Rightarrow> 'a list" where
  "set_insert lt x [] = [x]"
| "set_insert lt x (y # ys) =
     (if lt x y then x # y # ys else if lt y x then y # set_insert lt x ys else y # ys)"

fun set_find :: "('a \<Rightarrow> 'a \<Rightarrow> bool) \<Rightarrow> 'a \<Rightarrow> 'a list \<Rightarrow> 'a option" where
  "set_find lt x [] = None"
| "set_find lt x (y # ys) = (if \<not> lt x y \<and> \<not> lt y x then Some y else set_find lt x ys)"

fun set_erase :: "('a \<Rightarrow> 'a \<Rightarrow> bool) \<Rightarrow> 'a \<Rightarrow> 'a list \<Rightarrow> 'a list" where
  "set_erase lt x [] = []"
| "set_erase lt x (y # ys) = (if \<not> lt x y \<and> \<not> lt y x then ys else y # set_erase lt x ys)"

text \<open>The elements before \<^verbatim>\<open>lower_bound(x)\<close> and those from it on.\<close>

definition before_lower_bound :: "('a \<Rightarrow> 'a \<Rightarrow> bool) \<Rightarrow> 'a \<Rightarrow> 'a list \<Rightarrow> 'a list" where
  "before_lower_bound lt x xs = takeWhile (\<lambda>y. lt y x) xs"

definition from_lower_bound :: "('a \<Rightarrow> 'a \<Rightarrow> bool) \<Rightarrow> 'a \<Rightarrow> 'a list \<Rightarrow> 'a list" where
  "from_lower_bound lt x xs = dropWhile (\<lambda>y. lt y x) xs"

section \<open>std::map\<close>

type_synonym ('k, 'v) cpp_map = "('k \<times> 'v) list"

fun map_find :: "('k \<Rightarrow> 'k \<Rightarrow> bool) \<Rightarrow> 'k \<Rightarrow> ('k, 'v) cpp_map \<Rightarrow> 'v option" where
  "map_find lt k [] = None"
| "map_find lt k ((k', v) # m) = (if \<not> lt k k' \<and> \<not> lt k' k then Some v else map_find lt k m)"

text \<open>\<^verbatim>\<open>m[k] = v\<close>: an equivalent key that is already there stays and gets the new value.\<close>

fun map_assign :: "('k \<Rightarrow> 'k \<Rightarrow> bool) \<Rightarrow> 'k \<Rightarrow> 'v \<Rightarrow> ('k, 'v) cpp_map \<Rightarrow> ('k, 'v) cpp_map" where
  "map_assign lt k v [] = [(k, v)]"
| "map_assign lt k v ((k', v') # m) =
     (if lt k k' then (k, v) # (k', v') # m
      else if lt k' k then (k', v') # map_assign lt k v m else (k', v) # m)"

text \<open>\<^verbatim>\<open>m.insert({k, v})\<close>: nothing happens when an equivalent key is there.\<close>

fun map_insert :: "('k \<Rightarrow> 'k \<Rightarrow> bool) \<Rightarrow> 'k \<Rightarrow> 'v \<Rightarrow> ('k, 'v) cpp_map \<Rightarrow> ('k, 'v) cpp_map" where
  "map_insert lt k v [] = [(k, v)]"
| "map_insert lt k v ((k', v') # m) =
     (if lt k k' then (k, v) # (k', v') # m
      else if lt k' k then (k', v') # map_insert lt k v m else (k', v') # m)"

fun map_erase :: "('k \<Rightarrow> 'k \<Rightarrow> bool) \<Rightarrow> 'k \<Rightarrow> ('k, 'v) cpp_map \<Rightarrow> ('k, 'v) cpp_map" where
  "map_erase lt k [] = []"
| "map_erase lt k ((k', v) # m) = (if \<not> lt k k' \<and> \<not> lt k' k then m else (k', v) # map_erase lt k m)"

section \<open>What a comparator must satisfy\<close>

locale strict_weak_order =
  fixes lt :: "'a \<Rightarrow> 'a \<Rightarrow> bool"
  assumes lt_irrefl: "\<not> lt x x"
    and lt_trans: "lt x y \<Longrightarrow> lt y z \<Longrightarrow> lt x z"
    and incomp_trans: "\<not> lt x y \<Longrightarrow> \<not> lt y x \<Longrightarrow> \<not> lt y z \<Longrightarrow> \<not> lt z y \<Longrightarrow> \<not> lt x z \<and> \<not> lt z x"
begin

definition same :: "'a \<Rightarrow> 'a \<Rightarrow> bool" where
  "same x y \<longleftrightarrow> \<not> lt x y \<and> \<not> lt y x"

definition keys_sorted :: "('a, 'v) cpp_map \<Rightarrow> bool" where
  "keys_sorted m \<longleftrightarrow> sorted_wrt lt (map fst m)"

lemma lt_asym: "lt x y \<Longrightarrow> \<not> lt y x"
  using lt_irrefl lt_trans by blast

lemma same_refl [simp]: "same x x"
  by (simp add: same_def lt_irrefl)

lemma same_sym: "same x y \<longleftrightarrow> same y x"
  by (auto simp: same_def)

lemma same_trans: "same x y \<Longrightarrow> same y z \<Longrightarrow> same x z"
  using incomp_trans unfolding same_def by blast

lemma lt_same_right: "lt x y \<Longrightarrow> same y z \<Longrightarrow> lt x z"
  unfolding same_def using incomp_trans lt_trans lt_asym by metis

lemma lt_same_left: "same x y \<Longrightarrow> lt y z \<Longrightarrow> lt x z"
  unfolding same_def using incomp_trans lt_trans lt_asym by metis

lemma not_same_cases: "\<not> same x y \<longleftrightarrow> lt x y \<or> lt y x"
  by (auto simp: same_def)

lemma set_set_insert:
  "sorted_wrt lt xs \<Longrightarrow>
     set (set_insert lt x xs) = (if \<exists>y \<in> set xs. same x y then set xs else insert x (set xs))"
proof (induction xs)
  case (Cons y ys)
  consider "lt x y" | "lt y x" "\<not> lt x y" | "same x y" by (auto simp: same_def)
  then show ?case
  proof cases
    case 1
    then have "\<not> same x z" if "z \<in> set (y # ys)" for z
      using Cons.prems that lt_trans by (auto simp: same_def)
    with 1 show ?thesis by auto
  next
    case 2
    then show ?thesis using Cons by (auto simp: same_def)
  next
    case 3
    then show ?thesis by (auto simp: same_def)
  qed
qed simp

lemma sorted_set_insert:
  "sorted_wrt lt xs \<Longrightarrow> sorted_wrt lt (set_insert lt x xs)"
proof (induction xs)
  case (Cons y ys)
  consider "lt x y" | "lt y x" "\<not> lt x y" | "\<not> lt x y" "\<not> lt y x" by blast
  then show ?case
  proof cases
    case 1
    then show ?thesis using Cons.prems lt_trans by auto
  next
    case 2
    then have "lt y z" if "z \<in> set (set_insert lt x ys)" for z
      using that set_set_insert [of ys x] Cons.prems by (auto split: if_splits)
    then show ?thesis using Cons 2 by simp
  next
    case 3
    then show ?thesis using Cons.prems by simp
  qed
qed simp

lemma set_find_Some:
  "set_find lt x xs = Some y \<Longrightarrow> y \<in> set xs \<and> same x y"
  by (induction xs) (auto simp: same_def split: if_splits)

lemma set_find_None: "set_find lt x xs = None \<longleftrightarrow> (\<forall>y \<in> set xs. \<not> same x y)"
  by (induction xs) (auto simp: same_def)

lemma set_erase_filter:
  "sorted_wrt lt xs \<Longrightarrow> set_erase lt x xs = filter (\<lambda>y. \<not> same x y) xs"
proof (induction xs)
  case (Cons y ys)
  show ?case
  proof (cases "same x y")
    case True
    then have "\<not> same x z" if "z \<in> set ys" for z
      using that Cons.prems same_trans same_sym by (metis list.set_intros(2) not_same_cases sorted_wrt.simps(2))
    then show ?thesis using True by (simp add: same_def [of x y] filter_id_conv)
  next
    case False
    then show ?thesis using Cons by (auto simp: same_def [of x y])
  qed
qed simp

lemma sorted_set_erase: "sorted_wrt lt xs \<Longrightarrow> sorted_wrt lt (set_erase lt x xs)"
  by (simp add: set_erase_filter sorted_wrt_filter)

lemma sorted_distinct: "sorted_wrt lt xs \<Longrightarrow> distinct xs"
  using lt_irrefl by (induction xs) auto

text \<open>In a sorted list a downward closed test holds exactly on a prefix.\<close>

lemma takeWhile_eq_filter:
  assumes "sorted_wrt lt xs" "\<And>y z. lt y z \<Longrightarrow> P z \<Longrightarrow> P y"
  shows "takeWhile P xs = filter P xs"
  using assms(1)
proof (induction xs)
  case (Cons a xs)
  then have "\<not> P a \<Longrightarrow> filter P xs = []" using assms(2) by (auto simp: filter_empty_conv)
  with Cons show ?case by auto
qed simp

lemma dropWhile_eq_filter:
  assumes "sorted_wrt lt xs" "\<And>y z. lt y z \<Longrightarrow> P z \<Longrightarrow> P y"
  shows "dropWhile P xs = filter (\<lambda>y. \<not> P y) xs"
  using assms(1)
proof (induction xs)
  case (Cons a xs)
  then have "\<not> P a \<Longrightarrow> filter (\<lambda>y. \<not> P y) xs = xs" using assms(2) by (auto simp: filter_id_conv)
  with Cons show ?case by auto
qed simp

subsection \<open>Maps\<close>

lemma keys_sorted_Nil [simp]: "keys_sorted []"
  by (simp add: keys_sorted_def)

lemma map_find_Cons:
  "map_find lt k (p # m) = (if same k (fst p) then Some (snd p) else map_find lt k m)"
  by (cases p) (simp add: same_def)

lemma map_find_same: "same k k' \<Longrightarrow> map_find lt k m = map_find lt k' m"
proof (induction m)
  case (Cons p m)
  have "same k (fst p) \<longleftrightarrow> same k' (fst p)" using Cons.prems same_trans same_sym by blast
  then show ?case using Cons by (cases p) (auto simp: same_def)
qed simp

lemma map_find_None: "map_find lt k m = None \<longleftrightarrow> (\<forall>k' \<in> fst ` set m. \<not> same k k')"
  by (induction m) (auto simp: map_find_Cons)

lemma fst_map_assign: "map fst (map_assign lt k v m) = set_insert lt k (map fst m)"
  by (induction lt k v m rule: map_assign.induct) auto

lemma fst_map_insert: "map fst (map_insert lt k v m) = set_insert lt k (map fst m)"
  by (induction lt k v m rule: map_insert.induct) auto

lemma fst_map_erase: "map fst (map_erase lt k m) = set_erase lt k (map fst m)"
  by (induction lt k m rule: map_erase.induct) auto

lemma keys_sorted_assign: "keys_sorted m \<Longrightarrow> keys_sorted (map_assign lt k v m)"
  by (simp add: keys_sorted_def fst_map_assign sorted_set_insert)

lemma keys_sorted_insert: "keys_sorted m \<Longrightarrow> keys_sorted (map_insert lt k v m)"
  by (simp add: keys_sorted_def fst_map_insert sorted_set_insert)

lemma keys_sorted_erase: "keys_sorted m \<Longrightarrow> keys_sorted (map_erase lt k m)"
  by (simp add: keys_sorted_def fst_map_erase sorted_set_erase)

lemma keys_sorted_Cons: "keys_sorted (p # m) \<longleftrightarrow> (\<forall>k \<in> fst ` set m. lt (fst p) k) \<and> keys_sorted m"
  by (auto simp: keys_sorted_def)

lemma map_find_below: "keys_sorted m \<Longrightarrow> (\<And>k'. k' \<in> fst ` set m \<Longrightarrow> lt k k') \<Longrightarrow> map_find lt k m = None"
  by (auto simp: map_find_None same_def)

text \<open>What a lookup returns after an assignment, an insertion and an erasure.\<close>

lemma map_find_assign:
  "keys_sorted m \<Longrightarrow> map_find lt k' (map_assign lt k v m) = (if same k k' then Some v else map_find lt k' m)"
proof (induction m)
  case Nil
  then show ?case by (auto simp: same_def)
next
  case (Cons p m)
  obtain k1 v1 where p: "p = (k1, v1)" by (cases p)
  have IH: "map_find lt k' (map_assign lt k v m) = (if same k k' then Some v else map_find lt k' m)"
    using Cons by (simp add: keys_sorted_Cons)
  consider "lt k k1" | "lt k1 k" "\<not> lt k k1" | "same k k1" by (auto simp: same_def)
  then show ?case
  proof cases
    case 1
    then show ?thesis by (auto simp: p same_def)
  next
    case 2
    then have "same k' k1 \<Longrightarrow> \<not> same k k'" using same_trans by (metis same_def)
    with 2 IH show ?thesis by (auto simp: p map_find_Cons simp del: map_find.simps(2))
  next
    case 3
    then have "same k' k1 \<longleftrightarrow> same k k'" using same_trans same_sym by blast
    with 3 show ?thesis by (auto simp: p map_find_Cons same_def [of k k1] simp del: map_find.simps(2))
  qed
qed

lemma map_find_insert:
  "keys_sorted m \<Longrightarrow> map_find lt k' (map_insert lt k v m) =
     (if same k k' \<and> map_find lt k m = None then Some v else map_find lt k' m)"
proof (induction m)
  case Nil
  then show ?case by (auto simp: same_def)
next
  case (Cons p m)
  obtain k1 v1 where p: "p = (k1, v1)" by (cases p)
  have IH: "map_find lt k' (map_insert lt k v m) =
      (if same k k' \<and> map_find lt k m = None then Some v else map_find lt k' m)"
    using Cons by (simp add: keys_sorted_Cons)
  consider "lt k k1" | "lt k1 k" "\<not> lt k k1" | "same k k1" by (auto simp: same_def)
  then show ?case
  proof cases
    case 1
    then have "map_find lt k m = None" "\<not> same k k1"
      using Cons.prems lt_trans by (auto simp: p keys_sorted_Cons map_find_None same_def)
    with 1 show ?thesis by (auto simp: p same_def)
  next
    case 2
    then have "same k' k1 \<Longrightarrow> \<not> same k k'" "\<not> same k k1" using same_trans by (metis same_def)+
    with 2 IH show ?thesis by (auto simp: p map_find_Cons simp del: map_find.simps(2))
  next
    case 3
    then show ?thesis by (simp add: p map_find_Cons same_def [of k k1])
  qed
qed

lemma map_find_erase:
  "keys_sorted m \<Longrightarrow> map_find lt k' (map_erase lt k m) = (if same k k' then None else map_find lt k' m)"
proof (induction m)
  case (Cons p m)
  obtain k1 v1 where p: "p = (k1, v1)" by (cases p)
  have IH: "map_find lt k' (map_erase lt k m) = (if same k k' then None else map_find lt k' m)"
    using Cons by (simp add: keys_sorted_Cons)
  show ?case
  proof (cases "same k k1")
    case True
    have "same k1 k' \<Longrightarrow> map_find lt k' m = None"
      using Cons.prems lt_same_left same_sym by (auto simp: p keys_sorted_Cons map_find_None not_same_cases)
    moreover have "same k' k1 \<longleftrightarrow> same k k'" using True same_trans same_sym by blast
    moreover have "map_erase lt k (p # m) = m" using True by (simp add: p same_def)
    ultimately show ?thesis using same_sym by (auto simp: p map_find_Cons simp del: map_find.simps(2))
  next
    case False
    then have "same k' k1 \<Longrightarrow> \<not> same k k'" using same_trans by blast
    moreover have "map_erase lt k (p # m) = p # map_erase lt k m" using False by (auto simp: p same_def)
    ultimately show ?thesis using IH by (auto simp: p map_find_Cons simp del: map_find.simps(2))
  qed
qed simp

end

text \<open>A comparator under which only equal elements are equivalent.\<close>

locale strict_total_order = strict_weak_order +
  assumes lt_total: "x \<noteq> y \<Longrightarrow> lt x y \<or> lt y x"
begin

lemma same_iff_eq [simp]: "same x y \<longleftrightarrow> x = y"
  using lt_total lt_irrefl by (auto simp: same_def)

lemma set_insert_total: "sorted_wrt lt xs \<Longrightarrow> set (set_insert lt x xs) = insert x (set xs)"
  by (auto simp: set_set_insert)

lemma set_erase_total: "sorted_wrt lt xs \<Longrightarrow> set (set_erase lt x xs) = set xs - {x}"
  by (auto simp: set_erase_filter)

lemma set_find_total: "set_find lt x xs = (if x \<in> set xs then Some x else None)"
proof (cases "set_find lt x xs")
  case None
  then have "x \<notin> set xs" by (auto simp: set_find_None)
  with None show ?thesis by simp
next
  case (Some y)
  then show ?thesis using set_find_Some [OF Some] by simp
qed

text \<open>The first element of the container is below all others.\<close>

lemma hd_least: "sorted_wrt lt xs \<Longrightarrow> x \<in> set xs \<Longrightarrow> x = hd xs \<or> lt (hd xs) x"
  by (cases xs) auto

end

end
