(* ===== verification/Timer.thy ===== *)
theory Timer
  imports Cpp_Containers State_Machine
begin

text \<open>
  The timers of \<^verbatim>\<open>linko/timer.{h,cc}\<close>.  \<^verbatim>\<open>Timer\<close> objects live in a store from addresses to
  records; the ordered set \<^verbatim>\<open>m_timers\<close> holds addresses and its comparator reads the store, as the
  C++ comparator reads through the shared pointers.  The current time and the address of a
  new object are arguments.  A method that calls the virtual \<^verbatim>\<open>onTimerInsertedAtFront\<close> returns
  whether it does.  Every method runs under the manager's mutex.
\<close>

section \<open>State\<close>

record 'cb timer =
  t_recurring :: bool
  t_ms :: u64
  t_next :: u64
  t_cb :: "'cb option"

record 'cb timer_manager =
  tm_store :: "nat \<Rightarrow> 'cb timer option"
  m_timers :: "nat list"
  m_tickled :: bool
  m_previousTime :: u64

definition timer_at :: "(nat \<Rightarrow> 'cb timer option) \<Rightarrow> nat \<Rightarrow> 'cb timer" where
  "timer_at h a = (case h a of Some t \<Rightarrow> t
     | None \<Rightarrow> \<lparr>t_recurring = False, t_ms = 0, t_next = 0, t_cb = None\<rparr>)"

lemma timer_at_upd [simp]: "timer_at (h(a \<mapsto> t)) b = (if b = a then t else timer_at h b)"
  by (simp add: timer_at_def)

text \<open>\<^verbatim>\<open>Timer::Comparator\<close>, with \<open>None\<close> for an empty pointer.\<close>

definition Comparator :: "(nat \<Rightarrow> 'cb timer option) \<Rightarrow> nat option \<Rightarrow> nat option \<Rightarrow> bool" where
  "Comparator h lhs rhs =
     (case (lhs, rhs) of
        (None, None) \<Rightarrow> False
      | (None, Some _) \<Rightarrow> True
      | (Some _, None) \<Rightarrow> False
      | (Some l, Some r) \<Rightarrow>
          if t_next (timer_at h l) < t_next (timer_at h r) then True
          else if t_next (timer_at h r) < t_next (timer_at h l) then False
          else l < r)"

abbreviation timer_less :: "(nat \<Rightarrow> 'cb timer option) \<Rightarrow> nat \<Rightarrow> nat \<Rightarrow> bool" where
  "timer_less h l r \<equiv> Comparator h (Some l) (Some r)"

definition Timer_new :: "u64 \<Rightarrow> u64 \<Rightarrow> 'cb option \<Rightarrow> bool \<Rightarrow> 'cb timer" where
  "Timer_new now ms cb recurring = \<lparr>t_recurring = recurring, t_ms = ms, t_next = now + ms, t_cb = cb\<rparr>"

definition Timer_key :: "u64 \<Rightarrow> 'cb timer" where
  "Timer_key nxt = \<lparr>t_recurring = False, t_ms = 0, t_next = nxt, t_cb = None\<rparr>"

definition TimerManager_new :: "u64 \<Rightarrow> 'cb timer_manager" where
  "TimerManager_new now = \<lparr>tm_store = (\<lambda>_. None), m_timers = [], m_tickled = False, m_previousTime = now\<rparr>"

section \<open>Operations\<close>

text \<open>\<^verbatim>\<open>erase(it)\<close> with \<^verbatim>\<open>it == end()\<close> is undefined; the source does not check it here.\<close>

definition cancel :: "nat \<Rightarrow> ('cb timer_manager, bool) eff" where
  "cancel a tm =
     (if t_cb (timer_at (tm_store tm) a) \<noteq> None then
        let tm1 = tm\<lparr>tm_store := (tm_store tm)(a \<mapsto> (timer_at (tm_store tm) a)\<lparr>t_cb := None\<rparr>)\<rparr>;
            lt = timer_less (tm_store tm1)
        in (case set_find lt a (m_timers tm1) of
              None \<Rightarrow> (Inl Undefined, tm1)
            | Some b \<Rightarrow> (Inr True, tm1\<lparr>m_timers := set_erase lt b (m_timers tm1)\<rparr>))
      else (Inr False, tm))"

definition refresh :: "u64 \<Rightarrow> nat \<Rightarrow> 'cb timer_manager \<Rightarrow> bool \<times> 'cb timer_manager" where
  "refresh now a tm =
     (let t = timer_at (tm_store tm) a; lt = timer_less (tm_store tm) in
      if t_cb t = None then (False, tm)
      else case set_find lt a (m_timers tm) of
        None \<Rightarrow> (False, tm)
      | Some b \<Rightarrow>
          let ts = set_erase lt b (m_timers tm);
              h = (tm_store tm)(a \<mapsto> t\<lparr>t_next := now + t_ms t\<rparr>)
          in (True, tm\<lparr>tm_store := h, m_timers := set_insert (timer_less h) a ts\<rparr>))"

text \<open>The protected \<^verbatim>\<open>addTimer(val, lock)\<close>; the result says whether \<^verbatim>\<open>onTimerInsertedAtFront\<close> is called.\<close>

definition addTimer_locked :: "nat \<Rightarrow> 'cb timer_manager \<Rightarrow> bool \<times> 'cb timer_manager" where
  "addTimer_locked a tm =
     (let lt = timer_less (tm_store tm);
          ts = set_insert lt a (m_timers tm);
          it = set_find lt a ts;
          at_front = (it = Some (hd ts)) \<and> \<not> m_tickled tm
      in (at_front, tm\<lparr>m_timers := ts, m_tickled := (if at_front then True else m_tickled tm)\<rparr>))"

text \<open>The first component is the C++ result, the second whether the front notification is sent.\<close>

definition reset :: "u64 \<Rightarrow> u64 \<Rightarrow> bool \<Rightarrow> nat \<Rightarrow> 'cb timer_manager \<Rightarrow> (bool \<times> bool) \<times> 'cb timer_manager" where
  "reset now ms from_now a tm =
     (let t = timer_at (tm_store tm) a; lt = timer_less (tm_store tm) in
      if ms = t_ms t \<and> \<not> from_now then ((True, False), tm)
      else if t_cb t = None then ((False, False), tm)
      else case set_find lt a (m_timers tm) of
        None \<Rightarrow> ((False, False), tm)
      | Some b \<Rightarrow>
          let ts = set_erase lt b (m_timers tm);
              start = (if from_now then now else t_next t - t_ms t);
              tm1 = tm\<lparr>tm_store := (tm_store tm)(a \<mapsto> t\<lparr>t_ms := ms, t_next := start + ms\<rparr>), m_timers := ts\<rparr>;
              (notify, tm2) = addTimer_locked a tm1
          in ((True, notify), tm2))"

definition addTimer :: "u64 \<Rightarrow> nat \<Rightarrow> u64 \<Rightarrow> 'cb option \<Rightarrow> bool \<Rightarrow> 'cb timer_manager \<Rightarrow> bool \<times> 'cb timer_manager" where
  "addTimer now a ms cb recurring tm =
     addTimer_locked a (tm\<lparr>tm_store := (tm_store tm)(a \<mapsto> Timer_new now ms cb recurring)\<rparr>)"

text \<open>
  Callbacks: a plain function, or one bound to a weak reference with \<^verbatim>\<open>OnTimer\<close>.
  \<open>run_callback\<close> is the function that is called in the end, if any; \<open>alive\<close> says which weak
  references can still be locked.
\<close>

datatype ('w, 'f) callback = Plain 'f | OnTimer 'w 'f

definition run_callback :: "('w \<Rightarrow> bool) \<Rightarrow> ('w, 'f) callback \<Rightarrow> 'f option" where
  "run_callback alive c = (case c of Plain cb \<Rightarrow> Some cb
     | OnTimer weak_cond cb \<Rightarrow> if alive weak_cond then Some cb else None)"

definition addConditionTimer ::
  "u64 \<Rightarrow> nat \<Rightarrow> u64 \<Rightarrow> 'f \<Rightarrow> 'w \<Rightarrow> bool \<Rightarrow> ('w, 'f) callback timer_manager \<Rightarrow> bool \<times> ('w, 'f) callback timer_manager" where
  "addConditionTimer now a ms cb weak_cond recurring tm =
     addTimer now a ms (Some (OnTimer weak_cond cb)) recurring tm"

definition getNextTimer :: "u64 \<Rightarrow> 'cb timer_manager \<Rightarrow> u64 \<times> 'cb timer_manager" where
  "getNextTimer now tm =
     (let tm1 = tm\<lparr>m_tickled := False\<rparr> in
      case m_timers tm1 of
        [] \<Rightarrow> (-1, tm1)
      | a # _ \<Rightarrow> let next = t_next (timer_at (tm_store tm1) a) in
          if next \<le> now then (0, tm1) else (next - now, tm1))"

definition detectClockRollover :: "u64 \<Rightarrow> 'cb timer_manager \<Rightarrow> bool \<times> 'cb timer_manager" where
  "detectClockRollover now_ms tm =
     (now_ms < m_previousTime tm \<and> now_ms < m_previousTime tm - 60 * 60 * 1000,
      tm\<lparr>m_previousTime := now_ms\<rparr>)"

text \<open>The loop over \<^verbatim>\<open>expired\<close>: it collects the callbacks and re-arms the recurring timers.\<close>

fun expire_loop :: "u64 \<Rightarrow> nat list \<Rightarrow> 'cb timer_manager \<Rightarrow> 'cb option list \<times> 'cb timer_manager" where
  "expire_loop now_ms [] tm = ([], tm)"
| "expire_loop now_ms (a # expired) tm =
     (let t = timer_at (tm_store tm) a;
          tm1 = (if t_recurring t
                 then let h = (tm_store tm)(a \<mapsto> t\<lparr>t_next := now_ms + t_ms t\<rparr>)
                      in tm\<lparr>tm_store := h, m_timers := set_insert (timer_less h) a (m_timers tm)\<rparr>
                 else tm\<lparr>tm_store := (tm_store tm)(a \<mapsto> t\<lparr>t_cb := None\<rparr>)\<rparr>);
          (cbs, tm2) = expire_loop now_ms expired tm1
      in (t_cb t # cbs, tm2))"

text \<open>\<open>k\<close> is the address of the temporary \<^verbatim>\<open>now_timer\<close>, which is gone when the method returns.\<close>

definition listExpiredCb :: "u64 \<Rightarrow> nat \<Rightarrow> 'cb timer_manager \<Rightarrow> 'cb option list \<times> 'cb timer_manager" where
  "listExpiredCb now_ms k tm =
     (if m_timers tm = [] then ([], tm)
      else let (rollover, tm1) = detectClockRollover now_ms tm in
        if \<not> rollover \<and> now_ms < t_next (timer_at (tm_store tm1) (hd (m_timers tm1))) then ([], tm1)
        else let h = (tm_store tm1)(k \<mapsto> Timer_key now_ms);
                 before = (if rollover then m_timers tm1 else before_lower_bound (timer_less h) k (m_timers tm1));
                 from = (if rollover then [] else from_lower_bound (timer_less h) k (m_timers tm1));
                 due = takeWhile (\<lambda>a. t_next (timer_at (tm_store tm1) a) = now_ms) from;
                 rest = dropWhile (\<lambda>a. t_next (timer_at (tm_store tm1) a) = now_ms) from
             in expire_loop now_ms (before @ due) (tm1\<lparr>m_timers := rest\<rparr>))"

definition hasTimer :: "'cb timer_manager \<Rightarrow> bool" where
  "hasTimer tm \<longleftrightarrow> m_timers tm \<noteq> []"

section \<open>The comparator\<close>

lemma timer_less_iff:
  "timer_less h l r \<longleftrightarrow> t_next (timer_at h l) < t_next (timer_at h r) \<or>
     t_next (timer_at h l) = t_next (timer_at h r) \<and> l < r"
  by (auto simp: Comparator_def)

interpretation timer_order: strict_total_order "timer_less h" for h :: "nat \<Rightarrow> 'cb timer option"
  by unfold_locales (auto simp: timer_less_iff)

text \<open>With empty pointers the comparator is still a strict total order, the empty one first.\<close>

lemma Comparator_null [simp]: "Comparator h None rhs \<longleftrightarrow> rhs \<noteq> None" "\<not> Comparator h lhs None"
  by (cases rhs; simp add: Comparator_def) (cases lhs; simp add: Comparator_def)

interpretation timer_ptr_order: strict_total_order "Comparator h" for h :: "nat \<Rightarrow> 'cb timer option"
proof
  fix x y z :: "nat option"
  show "\<not> Comparator h x x" by (cases x) (simp_all add: timer_order.lt_irrefl)
  show "Comparator h x y \<Longrightarrow> Comparator h y z \<Longrightarrow> Comparator h x z"
    using timer_order.lt_trans by (cases x; cases y; cases z) auto
  show "\<not> Comparator h x y \<Longrightarrow> \<not> Comparator h y x \<Longrightarrow> \<not> Comparator h y z \<Longrightarrow> \<not> Comparator h z y \<Longrightarrow>
      \<not> Comparator h x z \<and> \<not> Comparator h z x"
    using timer_order.incomp_trans by (cases x; cases y; cases z) auto
  show "x \<noteq> y \<Longrightarrow> Comparator h x y \<or> Comparator h y x"
    using timer_order.lt_total by (cases x; cases y) auto
qed

lemma sorted_timers_cong:
  assumes "\<And>a. a \<in> set xs \<Longrightarrow> t_next (timer_at h' a) = t_next (timer_at h a)"
  shows "sorted_wrt (timer_less h') xs \<longleftrightarrow> sorted_wrt (timer_less h) xs"
  using assms by (induction xs) (simp_all add: timer_less_iff)

section \<open>Invariant\<close>

text \<open>
  The set is sorted by the present execution times, holds only live objects, and every timer
  that still has a callback is in it.  The last part is what makes the unchecked
  \<^verbatim>\<open>erase(find(...))\<close> of \<^verbatim>\<open>cancel\<close> safe.
\<close>

definition tm_inv :: "'cb timer_manager \<Rightarrow> bool" where
  "tm_inv tm \<longleftrightarrow> sorted_wrt (timer_less (tm_store tm)) (m_timers tm)
     \<and> set (m_timers tm) \<subseteq> dom (tm_store tm)
     \<and> (\<forall>a. t_cb (timer_at (tm_store tm) a) \<noteq> None \<longrightarrow> a \<in> set (m_timers tm))"

lemma tm_inv_new: "tm_inv (TimerManager_new now)"
  by (simp add: tm_inv_def TimerManager_new_def timer_at_def)

lemma tm_invD:
  assumes "tm_inv tm"
  shows "sorted_wrt (timer_less (tm_store tm)) (m_timers tm)" "distinct (m_timers tm)"
    "set (m_timers tm) \<subseteq> dom (tm_store tm)"
    "t_cb (timer_at (tm_store tm) a) \<noteq> None \<Longrightarrow> a \<in> set (m_timers tm)"
  using assms timer_order.sorted_distinct by (auto simp: tm_inv_def)

lemma cancel_ok:
  assumes "tm_inv tm"
  shows "\<exists>tm'. cancel a tm = (Inr (t_cb (timer_at (tm_store tm) a) \<noteq> None), tm') \<and> tm_inv tm' \<and>
     t_cb (timer_at (tm_store tm') a) = None \<and>
     set (m_timers tm') = set (m_timers tm) - (if t_cb (timer_at (tm_store tm) a) \<noteq> None then {a} else {}) \<and>
     (\<forall>b. b \<noteq> a \<longrightarrow> tm_store tm' b = tm_store tm b)"
proof (cases "t_cb (timer_at (tm_store tm) a) = None")
  case True
  then show ?thesis using assms by (simp add: cancel_def)
next
  case False
  let ?h = "(tm_store tm)(a \<mapsto> (timer_at (tm_store tm) a)\<lparr>t_cb := None\<rparr>)"
  note inv = tm_invD [OF assms]
  have a: "a \<in> set (m_timers tm)" using inv(4) False by simp
  have sorted: "sorted_wrt (timer_less ?h) (m_timers tm)"
    using inv(1) by (subst sorted_timers_cong [of _ _ "tm_store tm"]) auto
  have run: "cancel a tm = (Inr True, tm\<lparr>tm_store := ?h, m_timers := set_erase (timer_less ?h) a (m_timers tm)\<rparr>)"
    using False a by (simp add: cancel_def Let_def timer_order.set_find_total)
  have "tm_inv (tm\<lparr>tm_store := ?h, m_timers := set_erase (timer_less ?h) a (m_timers tm)\<rparr>)"
    using inv timer_order.sorted_set_erase [OF sorted] timer_order.set_erase_total [OF sorted]
    by (auto simp: tm_inv_def)
  then show ?thesis using run False timer_order.set_erase_total [OF sorted] by auto
qed

text \<open>Putting an object that is not in the set (or is, with another time) back into it.\<close>

lemma rearm_inv:
  fixes tm :: "'cb timer_manager" and a :: nat and t :: "'cb timer"
  assumes "tm_inv tm"
  defines "ts \<equiv> set_erase (timer_less (tm_store tm)) a (m_timers tm)"
  defines "h \<equiv> (tm_store tm)(a \<mapsto> t)"
  shows "tm_inv (tm\<lparr>tm_store := h, m_timers := set_insert (timer_less h) a ts\<rparr>)"
    "set (set_insert (timer_less h) a ts) = insert a (set (m_timers tm))"
    "sorted_wrt (timer_less h) ts" "set ts = set (m_timers tm) - {a}"
proof -
  note inv = tm_invD [OF assms(1)]
  show s: "set ts = set (m_timers tm) - {a}" using timer_order.set_erase_total [OF inv(1)] by (simp add: ts_def)
  have "sorted_wrt (timer_less (tm_store tm)) ts" using timer_order.sorted_set_erase [OF inv(1)] by (simp add: ts_def)
  then show sorted: "sorted_wrt (timer_less h) ts"
    using s by (subst sorted_timers_cong [of _ _ "tm_store tm"]) (auto simp: h_def)
  show "set (set_insert (timer_less h) a ts) = insert a (set (m_timers tm))"
    using timer_order.set_insert_total [OF sorted] s by auto
  then show "tm_inv (tm\<lparr>tm_store := h, m_timers := set_insert (timer_less h) a ts\<rparr>)"
    using inv timer_order.sorted_set_insert [OF sorted] by (auto simp: tm_inv_def h_def split: if_splits)
qed

lemma refresh_ok:
  assumes "tm_inv tm"
  shows "fst (refresh now a tm) = (t_cb (timer_at (tm_store tm) a) \<noteq> None)" "tm_inv (snd (refresh now a tm))"
    "t_cb (timer_at (tm_store tm) a) \<noteq> None \<Longrightarrow>
       t_next (timer_at (tm_store (snd (refresh now a tm))) a) = now + t_ms (timer_at (tm_store tm) a)"
    "set (m_timers (snd (refresh now a tm))) = set (m_timers tm)"
  using assms tm_invD(4) [OF assms, of a] rearm_inv [OF assms, of a]
  by (auto simp: refresh_def Let_def timer_order.set_find_total insert_absorb)

lemma addTimer_locked_fields:
  "m_timers (snd (addTimer_locked a tm)) = set_insert (timer_less (tm_store tm)) a (m_timers tm)"
  "tm_store (snd (addTimer_locked a tm)) = tm_store tm"
  "m_previousTime (snd (addTimer_locked a tm)) = m_previousTime tm"
  by (simp_all add: addTimer_locked_def Let_def)

lemma tm_inv_cong: "m_timers tm = m_timers tm' \<Longrightarrow> tm_store tm = tm_store tm' \<Longrightarrow> tm_inv tm = tm_inv tm'"
  by (simp add: tm_inv_def)

lemma reset_run:
  fixes tm :: "'cb timer_manager" and now ms :: u64
  assumes "tm_inv tm" "t_cb (timer_at (tm_store tm) a) \<noteq> None" "\<not> (ms = t_ms (timer_at (tm_store tm) a) \<and> \<not> from_now)"
  defines "start \<equiv> if from_now then now else t_next (timer_at (tm_store tm) a) - t_ms (timer_at (tm_store tm) a)"
  defines "h \<equiv> (tm_store tm)(a \<mapsto> (timer_at (tm_store tm) a)\<lparr>t_ms := ms, t_next := start + ms\<rparr>)"
  shows "reset now ms from_now a tm =
    (let (notify, tm') = addTimer_locked a
           (tm\<lparr>tm_store := h, m_timers := set_erase (timer_less (tm_store tm)) a (m_timers tm)\<rparr>)
     in ((True, notify), tm'))"
proof -
  obtain cb where "t_cb (timer_at (tm_store tm) a) = Some cb" using assms(2) by blast
  then show ?thesis
    using assms(3) tm_invD(4) [OF assms(1,2)]
    by (cases from_now) (simp_all add: reset_def Let_def timer_order.set_find_total start_def h_def)
qed

lemma reset_ok:
  assumes "tm_inv tm"
  shows "tm_inv (snd (reset now ms from_now a tm)) \<and>
    (fst (fst (reset now ms from_now a tm)) \<longleftrightarrow>
       (ms = t_ms (timer_at (tm_store tm) a) \<and> \<not> from_now) \<or> t_cb (timer_at (tm_store tm) a) \<noteq> None) \<and>
    set (m_timers (snd (reset now ms from_now a tm))) = set (m_timers tm)"
proof (cases "t_cb (timer_at (tm_store tm) a) \<noteq> None \<and> \<not> (ms = t_ms (timer_at (tm_store tm) a) \<and> \<not> from_now)")
  case True
  let ?t = "timer_at (tm_store tm) a"
  define h where "h = (tm_store tm)(a \<mapsto> ?t\<lparr>t_ms := ms, t_next := (if from_now then now else t_next ?t - t_ms ?t) + ms\<rparr>)"
  let ?tm1 = "tm\<lparr>tm_store := h, m_timers := set_erase (timer_less (tm_store tm)) a (m_timers tm)\<rparr>"
  have "reset now ms from_now a tm = ((True, fst (addTimer_locked a ?tm1)), snd (addTimer_locked a ?tm1))"
    using reset_run [OF assms, of a ms from_now now] True by (simp add: h_def Let_def case_prod_beta)
  moreover have "tm_inv (snd (addTimer_locked a ?tm1))" "set (m_timers (snd (addTimer_locked a ?tm1))) = insert a (set (m_timers tm))"
    using rearm_inv(1,2) [OF assms, where a = a and t = "the (h a)"]
    by (simp_all add: addTimer_locked_fields tm_inv_def h_def)
  moreover have "a \<in> set (m_timers tm)" using tm_invD(4) [OF assms] True by blast
  ultimately show ?thesis using True by auto
next
  case False
  then show ?thesis using assms by (auto simp: reset_def Let_def)
qed

lemma addTimer_ok:
  assumes "tm_inv tm" "tm_store tm a = None"
  shows "tm_inv (snd (addTimer now a ms cb recurring tm))"
    "set (m_timers (snd (addTimer now a ms cb recurring tm))) = insert a (set (m_timers tm))"
    "tm_store (snd (addTimer now a ms cb recurring tm)) = (tm_store tm)(a \<mapsto> Timer_new now ms cb recurring)"
proof -
  have a: "a \<notin> set (m_timers tm)" using tm_invD(3) [OF assms(1)] assms(2) by auto
  then have "set_erase (timer_less (tm_store tm)) a (m_timers tm) = m_timers tm"
    using timer_order.set_erase_filter [OF tm_invD(1) [OF assms(1)]] by (auto simp: filter_id_conv)
  then show "tm_inv (snd (addTimer now a ms cb recurring tm))"
    "set (m_timers (snd (addTimer now a ms cb recurring tm))) = insert a (set (m_timers tm))"
    "tm_store (snd (addTimer now a ms cb recurring tm)) = (tm_store tm)(a \<mapsto> Timer_new now ms cb recurring)"
    using rearm_inv(1,2) [OF assms(1), of a "Timer_new now ms cb recurring"]
    by (simp_all add: addTimer_def addTimer_locked_fields tm_inv_def)
qed

section \<open>Expiry\<close>

text \<open>What becomes of an expired timer.\<close>

definition expired_timer :: "u64 \<Rightarrow> 'cb timer \<Rightarrow> 'cb timer" where
  "expired_timer now_ms t =
     (if t_recurring t then t\<lparr>t_next := now_ms + t_ms t\<rparr> else t\<lparr>t_cb := None\<rparr>)"

lemma expire_loop_ok:
  assumes "sorted_wrt (timer_less (tm_store tm)) (m_timers tm)" "distinct ts" "set ts \<inter> set (m_timers tm) = {}"
    "expire_loop now_ms ts tm = (cbs, tm')"
  shows "cbs = map (\<lambda>a. t_cb (timer_at (tm_store tm) a)) ts \<and>
    (\<forall>a. tm_store tm' a = (if a \<in> set ts then Some (expired_timer now_ms (timer_at (tm_store tm) a)) else tm_store tm a)) \<and>
    set (m_timers tm') = set (m_timers tm) \<union> {a \<in> set ts. t_recurring (timer_at (tm_store tm) a)} \<and>
    sorted_wrt (timer_less (tm_store tm')) (m_timers tm') \<and> m_previousTime tm' = m_previousTime tm"
  using assms
proof (induction ts arbitrary: tm cbs)
  case Nil
  then show ?case by auto
next
  case (Cons a ts)
  let ?t = "timer_at (tm_store tm) a"
  let ?h = "(tm_store tm)(a \<mapsto> expired_timer now_ms ?t)"
  define tm1 where "tm1 = tm\<lparr>tm_store := ?h, m_timers := (if t_recurring ?t then set_insert (timer_less ?h) a (m_timers tm) else m_timers tm)\<rparr>"
  obtain cbs1 where run: "expire_loop now_ms ts tm1 = (cbs1, tm')" and cbs: "cbs = t_cb ?t # cbs1"
    using Cons.prems(4) by (auto simp: tm1_def expired_timer_def Let_def split: prod.splits if_splits)
  have a: "a \<notin> set (m_timers tm)" "a \<notin> set ts" using Cons.prems(2,3) by auto
  have sorted: "sorted_wrt (timer_less ?h) (m_timers tm)"
    using Cons.prems(1) a by (subst sorted_timers_cong [of _ _ "tm_store tm"]) auto
  have set1: "set (m_timers tm1) = set (m_timers tm) \<union> (if t_recurring ?t then {a} else {})"
    using timer_order.set_insert_total [OF sorted] by (simp add: tm1_def)
  have "sorted_wrt (timer_less (tm_store tm1)) (m_timers tm1)"
    using timer_order.sorted_set_insert [OF sorted] sorted by (simp add: tm1_def)
  moreover have "set ts \<inter> set (m_timers tm1) = {}" using set1 Cons.prems(3) a by auto
  ultimately have IH: "cbs1 = map (\<lambda>a. t_cb (timer_at (tm_store tm1) a)) ts"
    "\<And>a. tm_store tm' a = (if a \<in> set ts then Some (expired_timer now_ms (timer_at (tm_store tm1) a)) else tm_store tm1 a)"
    "set (m_timers tm') = set (m_timers tm1) \<union> {a \<in> set ts. t_recurring (timer_at (tm_store tm1) a)}"
    "sorted_wrt (timer_less (tm_store tm')) (m_timers tm')" "m_previousTime tm' = m_previousTime tm1"
    using Cons.IH [OF _ _ _ run] Cons.prems(2) by auto
  have same: "timer_at (tm_store tm1) b = timer_at (tm_store tm) b" if "b \<in> set ts" for b
    using that a by (auto simp: tm1_def)
  then have rec: "{b \<in> set ts. t_recurring (timer_at (tm_store tm1) b)} = {b \<in> set ts. t_recurring (timer_at (tm_store tm) b)}"
    by auto
  show ?case
  proof (intro conjI allI)
    show "cbs = map (\<lambda>a. t_cb (timer_at (tm_store tm) a)) (a # ts)" using cbs IH(1) same by simp
    show "m_previousTime tm' = m_previousTime tm" using IH(5) by (simp add: tm1_def)
    show "sorted_wrt (timer_less (tm_store tm')) (m_timers tm')" by (rule IH(4))
    show "set (m_timers tm') = set (m_timers tm) \<union> {b \<in> set (a # ts). t_recurring (timer_at (tm_store tm) b)}"
      unfolding IH(3) rec set1 by auto
    show "tm_store tm' b = (if b \<in> set (a # ts) then Some (expired_timer now_ms (timer_at (tm_store tm) b)) else tm_store tm b)" for b
      using IH(2) [of b] same [of b] a by (auto simp: tm1_def)
  qed
qed

text \<open>
  The timers that \<^verbatim>\<open>listExpiredCb\<close> takes out: all of them after a clock rollover, and otherwise
  those whose time has come, in order.
\<close>

definition due_timers :: "u64 \<Rightarrow> 'cb timer_manager \<Rightarrow> nat list" where
  "due_timers now_ms tm =
     (if fst (detectClockRollover now_ms tm) then m_timers tm
      else filter (\<lambda>a. t_next (timer_at (tm_store tm) a) \<le> now_ms) (m_timers tm))"

lemma split_at_lower_bound:
  fixes h :: "nat \<Rightarrow> 'cb timer option" and now_ms :: u64
  assumes sorted: "sorted_wrt (timer_less h) xs" and k: "k \<notin> set xs"
  defines "h' \<equiv> h(k \<mapsto> Timer_key now_ms)"
  shows "before_lower_bound (timer_less h') k xs
      @ takeWhile (\<lambda>a. t_next (timer_at h a) = now_ms) (from_lower_bound (timer_less h') k xs)
      = filter (\<lambda>a. t_next (timer_at h a) \<le> now_ms) xs" (is ?eq1)
    and "dropWhile (\<lambda>a. t_next (timer_at h a) = now_ms) (from_lower_bound (timer_less h') k xs)
      = filter (\<lambda>a. \<not> t_next (timer_at h a) \<le> now_ms) xs" (is ?eq2)
proof -
  let ?n = "\<lambda>a. t_next (timer_at h a)"
  let ?P = "\<lambda>a. timer_less h' a k"
  have s': "sorted_wrt (timer_less h') xs"
    using sorted k by (subst sorted_timers_cong [of _ _ h]) (auto simp: h'_def)
  have P: "?P a \<longleftrightarrow> ?n a < now_ms \<or> ?n a = now_ms \<and> a < k" if "a \<in> set xs" for a
    using that k by (auto simp: timer_less_iff h'_def Timer_key_def)
  have b: "before_lower_bound (timer_less h') k xs = filter ?P xs"
    unfolding before_lower_bound_def
    by (rule timer_order.takeWhile_eq_filter [OF s']) (rule timer_order.lt_trans)
  have f: "from_lower_bound (timer_less h') k xs = filter (\<lambda>a. \<not> ?P a) xs"
    unfolding from_lower_bound_def
    by (rule timer_order.dropWhile_eq_filter [OF s']) (rule timer_order.lt_trans)
  have sf: "sorted_wrt (timer_less h) (filter (\<lambda>a. \<not> ?P a) xs)" using sorted by (rule sorted_wrt_filter)
  have le: "takeWhile (\<lambda>a. ?n a = now_ms) (filter (\<lambda>a. \<not> ?P a) xs) = filter (\<lambda>a. ?n a \<le> now_ms) (filter (\<lambda>a. \<not> ?P a) xs)"
    "dropWhile (\<lambda>a. ?n a = now_ms) (filter (\<lambda>a. \<not> ?P a) xs) = filter (\<lambda>a. \<not> ?n a \<le> now_ms) (filter (\<lambda>a. \<not> ?P a) xs)"
  proof -
    have eq: "?n a = now_ms \<longleftrightarrow> ?n a \<le> now_ms" if "a \<in> set (filter (\<lambda>a. \<not> ?P a) xs)" for a
      using that P [of a] by auto
    have down: "timer_less h y z \<Longrightarrow> ?n z \<le> now_ms \<Longrightarrow> ?n y \<le> now_ms" for y z
      by (auto simp: timer_less_iff)
    show "takeWhile (\<lambda>a. ?n a = now_ms) (filter (\<lambda>a. \<not> ?P a) xs) = filter (\<lambda>a. ?n a \<le> now_ms) (filter (\<lambda>a. \<not> ?P a) xs)"
      by (subst takeWhile_cong [OF refl eq], assumption)
        (rule timer_order.takeWhile_eq_filter [OF sf], rule down)
    show "dropWhile (\<lambda>a. ?n a = now_ms) (filter (\<lambda>a. \<not> ?P a) xs) = filter (\<lambda>a. \<not> ?n a \<le> now_ms) (filter (\<lambda>a. \<not> ?P a) xs)"
      by (subst dropWhile_cong [OF refl eq], assumption)
        (rule timer_order.dropWhile_eq_filter [OF sf], rule down)
  qed
  show ?eq2 unfolding f le(2) using P by (auto simp: filter_filter intro!: filter_cong)
  have "filter ?P xs @ filter (\<lambda>a. ?n a \<le> now_ms) (filter (\<lambda>a. \<not> ?P a) xs) = filter (\<lambda>a. ?n a \<le> now_ms) xs"
  proof -
    have "filter (\<lambda>a. ?n a \<le> now_ms) xs = takeWhile ?P (filter (\<lambda>a. ?n a \<le> now_ms) xs) @ dropWhile ?P (filter (\<lambda>a. ?n a \<le> now_ms) xs)"
      by simp
    also have "takeWhile ?P (filter (\<lambda>a. ?n a \<le> now_ms) xs) = filter ?P (filter (\<lambda>a. ?n a \<le> now_ms) xs)"
      by (rule timer_order.takeWhile_eq_filter [OF sorted_wrt_filter [OF s']]) (rule timer_order.lt_trans)
    also have "dropWhile ?P (filter (\<lambda>a. ?n a \<le> now_ms) xs) = filter (\<lambda>a. \<not> ?P a) (filter (\<lambda>a. ?n a \<le> now_ms) xs)"
      by (rule timer_order.dropWhile_eq_filter [OF sorted_wrt_filter [OF s']]) (rule timer_order.lt_trans)
    also have "filter ?P (filter (\<lambda>a. ?n a \<le> now_ms) xs) = filter ?P xs"
      using P by (auto simp: filter_filter intro!: filter_cong)
    finally show ?thesis by (simp add: filter_filter conj_commute)
  qed
  then show ?eq1 unfolding b f le(1) .
qed

lemma listExpiredCb_ok:
  assumes inv: "tm_inv tm" and k: "k \<notin> set (m_timers tm)"
    and run: "listExpiredCb now_ms k tm = (cbs, tm')"
  shows "cbs = map (\<lambda>a. t_cb (timer_at (tm_store tm) a)) (due_timers now_ms tm) \<and> tm_inv tm' \<and>
    (\<forall>a. timer_at (tm_store tm') a = (if a \<in> set (due_timers now_ms tm)
        then expired_timer now_ms (timer_at (tm_store tm) a) else timer_at (tm_store tm) a)) \<and>
    set (m_timers tm') = (set (m_timers tm) - set (due_timers now_ms tm)) \<union>
        {a \<in> set (due_timers now_ms tm). t_recurring (timer_at (tm_store tm) a)}"
proof -
  note I = tm_invD [OF inv]
  let ?roll = "fst (detectClockRollover now_ms tm)" and ?tm1 = "snd (detectClockRollover now_ms tm)"
  let ?due = "due_timers now_ms tm"
  have d: "detectClockRollover now_ms tm = (?roll, ?tm1)" by simp
  have f1: "m_timers ?tm1 = m_timers tm" "tm_store ?tm1 = tm_store tm" by (simp_all add: detectClockRollover_def)
  consider "m_timers tm = []"
    | "m_timers tm \<noteq> []" "\<not> ?roll \<and> now_ms < t_next (timer_at (tm_store tm) (hd (m_timers tm)))"
    | "m_timers tm \<noteq> []" "\<not> (\<not> ?roll \<and> now_ms < t_next (timer_at (tm_store tm) (hd (m_timers tm))))" by blast
  then show ?thesis
  proof cases
    case 1
    then have "?due = []" "cbs = []" "tm' = tm" using run by (simp_all add: due_timers_def listExpiredCb_def)
    then show ?thesis using inv by simp
  next
    case 2
    then have "cbs = [] \<and> tm' = ?tm1" using run f1 by (simp add: listExpiredCb_def d [symmetric] case_prod_beta)
    moreover have "?due = []"
    proof -
      have "now_ms < t_next (timer_at (tm_store tm) a)" if "a \<in> set (m_timers tm)" for a
        using timer_order.hd_least [OF I(1) that] 2(2) by (auto simp: timer_less_iff)
      then show ?thesis using 2(2) by (auto simp: due_timers_def filter_empty_conv not_le)
    qed
    ultimately show ?thesis using inv f1 by (simp add: tm_inv_def)
  next
    case 3
    define rest where "rest = filter (\<lambda>a. a \<notin> set ?due) (m_timers tm)"
    have due_sub: "set ?due \<subseteq> set (m_timers tm)" by (auto simp: due_timers_def)
    have "expire_loop now_ms ?due (?tm1\<lparr>m_timers := rest\<rparr>) = (cbs, tm')"
    proof (cases ?roll)
      case True
      then have "?due = m_timers tm" "rest = []" by (auto simp: rest_def due_timers_def filter_empty_conv)
      then show ?thesis using run 3 True f1 by (simp add: listExpiredCb_def case_prod_beta)
    next
      case False
      then have "rest = filter (\<lambda>a. \<not> t_next (timer_at (tm_store tm) a) \<le> now_ms) (m_timers tm)"
        by (auto simp: rest_def due_timers_def intro!: filter_cong)
      moreover have "?due = filter (\<lambda>a. t_next (timer_at (tm_store tm) a) \<le> now_ms) (m_timers tm)"
        using False by (simp add: due_timers_def)
      ultimately show ?thesis
        using run 3 False f1 split_at_lower_bound [OF I(1) k, of now_ms]
        by (simp add: listExpiredCb_def case_prod_beta Let_def)
    qed
    moreover have "sorted_wrt (timer_less (tm_store tm)) rest" using I(1) by (simp add: rest_def sorted_wrt_filter)
    moreover have "distinct ?due" using I(2) by (auto simp: due_timers_def)
    moreover have "set ?due \<inter> set rest = {}" by (auto simp: rest_def)
    ultimately have L: "cbs = map (\<lambda>a. t_cb (timer_at (tm_store tm) a)) ?due"
      "\<And>a. tm_store tm' a = (if a \<in> set ?due then Some (expired_timer now_ms (timer_at (tm_store tm) a)) else tm_store tm a)"
      "set (m_timers tm') = set rest \<union> {a \<in> set ?due. t_recurring (timer_at (tm_store tm) a)}"
      "sorted_wrt (timer_less (tm_store tm')) (m_timers tm')"
      using expire_loop_ok [of "?tm1\<lparr>m_timers := rest\<rparr>" ?due now_ms cbs tm'] f1 by auto
    have at: "timer_at (tm_store tm') a = (if a \<in> set ?due then expired_timer now_ms (timer_at (tm_store tm) a) else timer_at (tm_store tm) a)" for a
      by (simp add: timer_at_def L(2))
    have set': "set (m_timers tm') = (set (m_timers tm) - set ?due) \<union> {a \<in> set ?due. t_recurring (timer_at (tm_store tm) a)}"
      using L(3) by (auto simp: rest_def)
    have "tm_inv tm'"
      unfolding tm_inv_def
    proof (intro conjI allI impI)
      show "sorted_wrt (timer_less (tm_store tm')) (m_timers tm')" by (rule L(4))
      show "set (m_timers tm') \<subseteq> dom (tm_store tm')" using set' I(3) L(2) by (auto simp: dom_def split: if_splits)
      fix a assume "t_cb (timer_at (tm_store tm') a) \<noteq> None"
      then show "a \<in> set (m_timers tm')"
        using I(4) [of a] due_sub by (auto simp: at set' expired_timer_def split: if_splits)
    qed
    then show ?thesis using L(1) at set' by blast
  qed
qed

section \<open>The manager as a transition system\<close>

inductive timer_step :: "'cb timer_manager \<Rightarrow> 'cb timer_manager \<Rightarrow> bool" where
  step_add: "tm_store tm a = None \<Longrightarrow> timer_step tm (snd (addTimer now a ms cb recurring tm))"
| step_cancel: "timer_step tm (snd (cancel a tm))"
| step_refresh: "timer_step tm (snd (refresh now a tm))"
| step_reset: "timer_step tm (snd (reset now ms from_now a tm))"
| step_next: "timer_step tm (snd (getNextTimer now tm))"
| step_expire: "k \<notin> set (m_timers tm) \<Longrightarrow> timer_step tm (snd (listExpiredCb now k tm))"

definition timer_init :: "'cb timer_manager \<Rightarrow> bool" where
  "timer_init tm \<longleftrightarrow> (\<exists>now. tm = TimerManager_new now)"

lemma getNextTimer_fields:
  "tm_store (snd (getNextTimer now tm)) = tm_store tm" "m_timers (snd (getNextTimer now tm)) = m_timers tm"
  by (auto simp: getNextTimer_def Let_def split: list.split)

lemma timer_step_inv: "timer_step tm tm' \<Longrightarrow> tm_inv tm \<Longrightarrow> tm_inv tm'"
proof (induction rule: timer_step.induct)
  case (step_cancel tm a)
  then show ?case using cancel_ok [of tm a] by auto
next
  case (step_expire k tm now)
  then show ?case using listExpiredCb_ok [of tm k now] by (metis prod.collapse)
next
  case (step_next tm now)
  then show ?case using tm_inv_cong getNextTimer_fields by metis
qed (auto simp: addTimer_ok refresh_ok reset_ok)

interpretation timer_system: invariant_system timer_init timer_step tm_inv
  by unfold_locales (auto simp: timer_init_def tm_inv_new timer_step_inv)

lemma getNextTimer_least:
  assumes "tm_inv tm"
  shows "fst (getNextTimer now tm) =
    (if m_timers tm = [] then - 1
     else if \<exists>a \<in> set (m_timers tm). t_next (timer_at (tm_store tm) a) \<le> now then 0
     else Min ((\<lambda>a. t_next (timer_at (tm_store tm) a)) ` set (m_timers tm)) - now)"
proof (cases "m_timers tm")
  case Nil
  then show ?thesis by (simp add: getNextTimer_def)
next
  case (Cons a ts)
  let ?n = "\<lambda>a. t_next (timer_at (tm_store tm) a)"
  have least: "?n a \<le> ?n b" if "b \<in> set (m_timers tm)" for b
    using timer_order.hd_least [OF tm_invD(1) [OF assms] that] Cons by (auto simp: timer_less_iff)
  then have "Min (?n ` set (m_timers tm)) = ?n a" using Cons by (intro Min_eqI) auto
  moreover have "(\<exists>b \<in> set (m_timers tm). ?n b \<le> now) \<longleftrightarrow> ?n a \<le> now"
    using least Cons by (metis dual_order.trans list.set_intros(1))
  ultimately show ?thesis by (simp add: getNextTimer_def Cons)
qed

end
