(* ===== verification/Fiber.thy ===== *)
theory Fiber
  imports Linko_Prelude State_Machine
begin

text \<open>
  The fibers of \<^verbatim>\<open>linko/fiber.{h,cc}\<close>.  Fiber objects live in a store that all threads share;
  a thread has its thread-local pointers and the fiber whose context it is executing.
  \<^verbatim>\<open>swapcontext\<close> moves the execution to another context, and a context switch through a null
  pointer is undefined.  Fibers are created at an address the allocator chooses, an argument.
\<close>

section \<open>State\<close>

datatype fiber_state = INIT | HOLD | EXEC | TERM_st | READY | EXCEPT

text \<open>The function a context starts in, as \<^verbatim>\<open>makecontext\<close> set it; the main fiber has none.\<close>

datatype fiber_entry = No_entry | MainFunc | CallerMainFunc

record 'cb fiber =
  f_id :: u64
  f_stacksize :: u32
  f_state :: fiber_state
  f_entry :: fiber_entry
  f_stack :: bool
  f_cb :: "'cb option"

record 'cb fiber_world =
  fw_fibers :: "nat \<Rightarrow> 'cb fiber option"
  s_fiber_id :: u64
  s_fiber_count :: u64

text \<open>
  \<open>t_fiber\<close> and \<open>t_threadFiber\<close> are the thread-local variables of \<^verbatim>\<open>fiber.cc\<close>, \<open>t_schedFiber\<close> is
  \<^verbatim>\<open>t_fiber\<close> of \<^verbatim>\<open>scheduler.cc\<close>, what \<^verbatim>\<open>Scheduler::GetMainFiber\<close> returns.
\<close>

record fiber_tls =
  t_fiber :: "nat option"
  t_threadFiber :: "nat option"
  t_schedFiber :: "nat option"
  t_ctx :: "nat option"

type_synonym ('cb, 'a) fiber_op = "('cb fiber_world \<times> fiber_tls, 'a) eff"

definition fiber_world_init :: "'cb fiber_world" where
  "fiber_world_init = \<lparr>fw_fibers = (\<lambda>_. None), s_fiber_id = 0, s_fiber_count = 0\<rparr>"

definition fiber_tls_init :: fiber_tls where
  "fiber_tls_init = \<lparr>t_fiber = None, t_threadFiber = None, t_schedFiber = None, t_ctx = None\<rparr>"

definition set_fiber :: "nat \<Rightarrow> 'cb fiber \<Rightarrow> 'cb fiber_world \<Rightarrow> 'cb fiber_world" where
  "set_fiber a f w = w\<lparr>fw_fibers := (fw_fibers w)(a \<mapsto> f)\<rparr>"

text \<open>A method call on the fiber at \<open>a\<close>; there is none to call on a null or dangling pointer.\<close>

definition on_fiber :: "nat \<Rightarrow> ('cb fiber \<Rightarrow> ('cb, 'a) fiber_op) \<Rightarrow> ('cb, 'a) fiber_op" where
  "on_fiber a m s = (case fw_fibers (fst s) a of None \<Rightarrow> (Inl Undefined, s) | Some f \<Rightarrow> m f s)"

definition LINKO_ASSERT :: "bool \<Rightarrow> ('s, unit) eff" where
  "LINKO_ASSERT x s = (if x then (Inr (), s) else (Inl Assertion, s))"

section \<open>Construction and destruction\<close>

definition SetThis :: "nat option \<Rightarrow> ('cb, unit) fiber_op" where
  "SetThis f = (\<lambda>(w, l). (Inr (), (w, l\<lparr>t_fiber := f\<rparr>)))"

text \<open>The private constructor of a thread's main fiber. Its context is the running one.\<close>

definition Fiber_main :: "nat \<Rightarrow> ('cb, unit) fiber_op" where
  "Fiber_main a = (\<lambda>(w, l).
     (Inr (), (set_fiber a \<lparr>f_id = 0, f_stacksize = 0, f_state = EXEC, f_entry = No_entry, f_stack = False, f_cb = None\<rparr>
                 (w\<lparr>s_fiber_count := s_fiber_count w + 1\<rparr>),
               l\<lparr>t_fiber := Some a, t_ctx := Some a\<rparr>)))"

definition GetThis :: "nat \<Rightarrow> ('cb, nat) fiber_op" where
  "GetThis a = (\<lambda>(w, l). case t_fiber l of
       Some f \<Rightarrow> (Inr f, (w, l))
     | None \<Rightarrow> eff_bind (Fiber_main a) (\<lambda>_ (w, l).
         if t_fiber l \<noteq> Some a then (Inl Assertion, (w, l))
         else (Inr a, (w, l\<lparr>t_threadFiber := Some a\<rparr>))) (w, l))"

definition Fiber_new :: "u32 \<Rightarrow> nat \<Rightarrow> 'cb option \<Rightarrow> u64 \<Rightarrow> bool \<Rightarrow> ('cb, unit) fiber_op" where
  "Fiber_new g_fiber_stack_size a cb stacksize use_caller = (\<lambda>(w, l).
     let w1 = w\<lparr>s_fiber_id := s_fiber_id w + 1, s_fiber_count := s_fiber_count w + 1\<rparr> in
     (Inr (), (set_fiber a
        \<lparr>f_id = s_fiber_id w1,
         f_stacksize = (if stacksize \<noteq> 0 then ucast stacksize else g_fiber_stack_size),
         f_state = INIT,
         f_entry = (if use_caller then CallerMainFunc else MainFunc),
         f_stack = True, f_cb = cb\<rparr> w1, l)))"

definition Fiber_destroy :: "nat \<Rightarrow> ('cb, unit) fiber_op" where
  "Fiber_destroy a = on_fiber a (\<lambda>f (w, l).
     let w1 = w\<lparr>s_fiber_count := s_fiber_count w - 1\<rparr>;
         w2 = w1\<lparr>fw_fibers := (fw_fibers w1)(a := None)\<rparr>
     in if f_stack f then
          if f_state f = TERM_st \<or> f_state f = EXCEPT \<or> f_state f = INIT then (Inr (), (w2, l))
          else (Inl Assertion, (w1, l))
        else if f_cb f \<noteq> None \<or> f_state f \<noteq> EXEC then (Inl Assertion, (w1, l))
        else (Inr (), (w2, if t_fiber l = Some a then l\<lparr>t_fiber := None\<rparr> else l)))"

definition Fiber_reset :: "nat \<Rightarrow> 'cb option \<Rightarrow> ('cb, unit) fiber_op" where
  "Fiber_reset a cb = on_fiber a (\<lambda>f (w, l).
     if \<not> f_stack f then (Inl Assertion, (w, l))
     else if \<not> (f_state f = TERM_st \<or> f_state f = EXCEPT \<or> f_state f = INIT) then (Inl Assertion, (w, l))
     else (Inr (), (set_fiber a (f\<lparr>f_cb := cb, f_entry := MainFunc, f_state := INIT\<rparr>) w, l)))"

section \<open>Switching\<close>

text \<open>\<^verbatim>\<open>swapcontext(&from->m_ctx, &to->m_ctx)\<close>: \<open>from\<close> holds the suspended context afterwards.\<close>

definition swapcontext :: "nat option \<Rightarrow> nat option \<Rightarrow> ('cb, unit) fiber_op" where
  "swapcontext from to = (\<lambda>(w, l).
     if from = None \<or> to = None then (Inl Undefined, (w, l)) else (Inr (), (w, l\<lparr>t_ctx := to\<rparr>)))"

definition enter_fiber :: "nat \<Rightarrow> ('cb, unit) fiber_op" where
  "enter_fiber a = on_fiber a (\<lambda>f (w, l).
     let l1 = l\<lparr>t_fiber := Some a\<rparr> in
     if f_state f = EXEC then (Inl Assertion, (w, l1))
     else (Inr (), (set_fiber a (f\<lparr>f_state := EXEC\<rparr>) w, l1)))"

definition fiber_call :: "nat \<Rightarrow> ('cb, unit) fiber_op" where
  "fiber_call a = eff_bind (enter_fiber a) (\<lambda>_ (w, l). swapcontext (t_threadFiber l) (Some a) (w, l))"

definition fiber_back :: "nat \<Rightarrow> ('cb, unit) fiber_op" where
  "fiber_back a = (\<lambda>(w, l). swapcontext (Some a) (t_threadFiber l) (w, l\<lparr>t_fiber := t_threadFiber l\<rparr>))"

definition swapIn :: "nat \<Rightarrow> ('cb, unit) fiber_op" where
  "swapIn a = eff_bind (enter_fiber a) (\<lambda>_ (w, l). swapcontext (t_schedFiber l) (Some a) (w, l))"

definition swapOut :: "nat \<Rightarrow> ('cb, unit) fiber_op" where
  "swapOut a = (\<lambda>(w, l). swapcontext (Some a) (t_schedFiber l) (w, l\<lparr>t_fiber := t_schedFiber l\<rparr>))"

definition set_state :: "nat \<Rightarrow> fiber_state \<Rightarrow> ('cb, unit) fiber_op" where
  "set_state a st = on_fiber a (\<lambda>f (w, l). (Inr (), (set_fiber a (f\<lparr>f_state := st\<rparr>) w, l)))"

definition YieldToReady :: "nat \<Rightarrow> ('cb, unit) fiber_op" where
  "YieldToReady fresh = eff_bind (GetThis fresh) (\<lambda>cur. eff_bind (set_state cur READY) (\<lambda>_. swapOut cur))"

definition YieldToHold :: "nat \<Rightarrow> ('cb, unit) fiber_op" where
  "YieldToHold fresh = eff_bind (GetThis fresh) (\<lambda>cur. eff_bind (set_state cur HOLD) (\<lambda>_. swapOut cur))"

definition TotalFibers :: "'cb fiber_world \<Rightarrow> u64" where
  "TotalFibers w = s_fiber_count w"

definition GetFiberId :: "'cb fiber_world \<times> fiber_tls \<Rightarrow> cpp_error + u64" where
  "GetFiberId s = (case t_fiber (snd s) of None \<Rightarrow> Inr 0
     | Some a \<Rightarrow> (case fw_fibers (fst s) a of None \<Rightarrow> Inl Undefined | Some f \<Rightarrow> Inr (f_id f)))"

text \<open>
  \<^verbatim>\<open>MainFunc\<close> and \<^verbatim>\<open>CallerMainFunc\<close> from the return of the callback on: \<open>threw\<close> says whether it
  ended with an exception.
\<close>

definition finish_state :: "bool \<Rightarrow> 'cb fiber \<Rightarrow> 'cb fiber" where
  "finish_state threw f = (if threw then f\<lparr>f_state := EXCEPT\<rparr> else f\<lparr>f_cb := None, f_state := TERM_st\<rparr>)"

definition MainFunc_end :: "bool \<Rightarrow> nat \<Rightarrow> ('cb, unit) fiber_op" where
  "MainFunc_end threw fresh = eff_bind (GetThis fresh) (\<lambda>cur.
     eff_bind (on_fiber cur (\<lambda>f (w, l). (Inr (), (set_fiber cur (finish_state threw f) w, l)))) (\<lambda>_.
     swapOut cur))"

definition CallerMainFunc_end :: "bool \<Rightarrow> nat \<Rightarrow> ('cb, unit) fiber_op" where
  "CallerMainFunc_end threw fresh = eff_bind (GetThis fresh) (\<lambda>cur.
     eff_bind (on_fiber cur (\<lambda>f (w, l). (Inr (), (set_fiber cur (finish_state threw f) w, l)))) (\<lambda>_.
     fiber_back cur))"

section \<open>Behaviour\<close>

lemmas fiber_op_defs = on_fiber_def SetThis_def Fiber_main_def GetThis_def Fiber_new_def Fiber_destroy_def
  Fiber_reset_def swapcontext_def enter_fiber_def fiber_call_def fiber_back_def swapIn_def swapOut_def
  set_state_def YieldToReady_def YieldToHold_def MainFunc_end_def CallerMainFunc_end_def set_fiber_def
  finish_state_def eff_bind_def

text \<open>Resuming a fiber that is not running from the scheduler's fiber gives it the thread.\<close>

lemma swapIn_ok:
  assumes "fw_fibers w a = Some f" "f_state f \<noteq> EXEC" "t_schedFiber l = Some m"
  shows "swapIn a (w, l) = (Inr (), (set_fiber a (f\<lparr>f_state := EXEC\<rparr>) w, l\<lparr>t_fiber := Some a, t_ctx := Some a\<rparr>))"
  using assms by (simp add: fiber_op_defs)

lemma swapIn_running: "fw_fibers w a = Some f \<Longrightarrow> f_state f = EXEC \<Longrightarrow> fst (swapIn a (w, l)) = Inl Assertion"
  by (simp add: fiber_op_defs)

text \<open>Yielding and finishing return the thread to the scheduler's fiber and record the state.\<close>

lemma yield_ok:
  assumes "t_fiber l = Some a" "fw_fibers w a = Some f" "t_schedFiber l = Some m"
  shows "YieldToReady fresh (w, l) = (Inr (), (set_fiber a (f\<lparr>f_state := READY\<rparr>) w, l\<lparr>t_fiber := Some m, t_ctx := Some m\<rparr>))"
    "YieldToHold fresh (w, l) = (Inr (), (set_fiber a (f\<lparr>f_state := HOLD\<rparr>) w, l\<lparr>t_fiber := Some m, t_ctx := Some m\<rparr>))"
    "MainFunc_end threw fresh (w, l) = (Inr (), (set_fiber a (finish_state threw f) w, l\<lparr>t_fiber := Some m, t_ctx := Some m\<rparr>))"
  using assms by (simp_all add: fiber_op_defs)

section \<open>Counting fibers\<close>

text \<open>
  \<^verbatim>\<open>s_fiber_count\<close> is the number of live fibers, and the ids handed out are below the counter,
  as long as no more than \<open>2 ^ 64\<close> fibers exist.
\<close>

definition fiber_count_ok :: "'cb fiber_world \<Rightarrow> bool" where
  "fiber_count_ok w \<longleftrightarrow> finite (dom (fw_fibers w)) \<and> s_fiber_count w = of_nat (card (dom (fw_fibers w)))"

inductive fiber_step :: "'cb fiber_world \<times> fiber_tls \<Rightarrow> 'cb fiber_world \<times> fiber_tls \<Rightarrow> bool" where
  st_this: "fw_fibers w a = None \<Longrightarrow> GetThis a (w, l) = (r, s') \<Longrightarrow> fiber_step (w, l) s'"
| st_new: "fw_fibers w a = None \<Longrightarrow> fiber_step (w, l) (snd (Fiber_new g a cb stk use_caller (w, l)))"
| st_destroy: "Fiber_destroy a (w, l) = (Inr (), s') \<Longrightarrow> fiber_step (w, l) s'"
| st_reset: "fiber_step (w, l) (snd (Fiber_reset a cb (w, l)))"
| st_call: "fiber_step (w, l) (snd (fiber_call a (w, l)))"
| st_back: "fiber_step (w, l) (snd (fiber_back a (w, l)))"
| st_swapIn: "fiber_step (w, l) (snd (swapIn a (w, l)))"
| st_swapOut: "fiber_step (w, l) (snd (swapOut a (w, l)))"
| st_set_state: "fiber_step (w, l) (snd (set_state a st (w, l)))"
| st_sched: "fiber_step (w, l) (w, l\<lparr>t_schedFiber := m\<rparr>)"
| st_ready: "fw_fibers w a = None \<Longrightarrow> fiber_step (w, l) (snd (YieldToReady a (w, l)))"
| st_hold: "fw_fibers w a = None \<Longrightarrow> fiber_step (w, l) (snd (YieldToHold a (w, l)))"
| st_end: "fw_fibers w a = None \<Longrightarrow> fiber_step (w, l) (snd (MainFunc_end threw a (w, l)))"
| st_caller_end: "fw_fibers w a = None \<Longrightarrow> fiber_step (w, l) (snd (CallerMainFunc_end threw a (w, l)))"

definition fiber_start :: "'cb fiber_world \<times> fiber_tls \<Rightarrow> bool" where
  "fiber_start s \<longleftrightarrow> s = (fiber_world_init, fiber_tls_init)"

text \<open>Every operation but creation and destruction keeps the set of live fibers and the counters.\<close>

definition same_census :: "'cb fiber_world \<Rightarrow> 'cb fiber_world \<Rightarrow> bool" where
  "same_census w w' \<longleftrightarrow> dom (fw_fibers w') = dom (fw_fibers w) \<and> s_fiber_count w' = s_fiber_count w"

lemma census_simple:
  "same_census w (fst (snd (Fiber_reset a cb (w, l))))" "same_census w (fst (snd (fiber_call a (w, l))))"
  "same_census w (fst (snd (fiber_back a (w, l))))" "same_census w (fst (snd (swapIn a (w, l))))"
  "same_census w (fst (snd (swapOut a (w, l))))" "same_census w (fst (snd (set_state a st (w, l))))"
  by (auto simp: same_census_def fiber_op_defs Let_def split: option.splits)

lemma fiber_count_new:
  "fiber_count_ok w \<Longrightarrow> fw_fibers w a = None \<Longrightarrow> fiber_count_ok (w\<lparr>fw_fibers := (fw_fibers w)(a \<mapsto> f), s_fiber_count := s_fiber_count w + 1\<rparr>)"
  by (auto simp: fiber_count_ok_def domIff)

lemma fiber_count_census: "fiber_count_ok w \<Longrightarrow> same_census w w' \<Longrightarrow> fiber_count_ok w'"
  by (simp add: fiber_count_ok_def same_census_def)

lemma GetThis_count:
  assumes "fiber_count_ok w" "fw_fibers w a = None"
  shows "fiber_count_ok (fst (snd (GetThis a (w, l))))"
  using assms fiber_count_new [OF assms]
  by (auto simp: GetThis_def Fiber_main_def eff_bind_def set_fiber_def split: option.splits) (simp add: fiber_count_ok_def domIff)+

lemma count_bind_GetThis:
  assumes "fiber_count_ok w" "fw_fibers w a = None"
    and "\<And>cur w' l'. same_census w' (fst (snd (f cur (w', l'))))"
  shows "fiber_count_ok (fst (snd (eff_bind (GetThis a) f (w, l))))"
proof -
  obtain r w' l' where run: "GetThis a (w, l) = (r, (w', l'))" by (metis surj_pair)
  then have "fiber_count_ok w'" using GetThis_count [OF assms(1,2), of l] by simp
  then show ?thesis using run fiber_count_census [OF _ assms(3)] by (cases r) (auto simp: eff_bind_def)
qed

lemma same_census_trans: "same_census a b \<Longrightarrow> same_census b c \<Longrightarrow> same_census a c"
  by (simp add: same_census_def)

lemma census_bind:
  assumes "\<And>w l. same_census w (fst (snd (m (w, l))))" "\<And>x w l. same_census w (fst (snd (f x (w, l))))"
  shows "same_census w (fst (snd (eff_bind m f (w, l))))"
proof -
  obtain r w' l' where run: "m (w, l) = (r, (w', l'))" by (metis surj_pair)
  then show ?thesis
    using assms(1) [of w l] same_census_trans [OF _ assms(2)] by (cases r) (auto simp: eff_bind_def)
qed

lemma census_finish: "same_census w (fst (snd (on_fiber cur (\<lambda>f (w, l). (Inr (), (set_fiber cur (finish_state threw f) w, l))) (w, l))))"
  by (auto simp: same_census_def fiber_op_defs split: option.splits)

lemma fiber_count_destroy:
  assumes "fiber_count_ok w" "Fiber_destroy a (w, l) = (Inr (), (w', l'))"
  shows "fiber_count_ok w'"
proof -
  from assms(2) obtain f where a: "fw_fibers w a = Some f" and w': "dom (fw_fibers w') = dom (fw_fibers w) - {a}"
    "s_fiber_count w' = s_fiber_count w - 1"
    by (auto simp: Fiber_destroy_def on_fiber_def Let_def split: option.splits if_splits)
  then have "a \<in> dom (fw_fibers w)" by auto
  moreover from this have "0 < card (dom (fw_fibers w))" using assms(1) by (auto simp: fiber_count_ok_def card_gt_0_iff)
  ultimately show ?thesis using assms(1) w' by (simp add: fiber_count_ok_def of_nat_diff)
qed

lemma fiber_step_count: "fiber_step s s' \<Longrightarrow> fiber_count_ok (fst s) \<Longrightarrow> fiber_count_ok (fst s')"
proof (induction rule: fiber_step.induct)
  case (st_this w a l r s')
  then show ?case using GetThis_count [of w a l] by simp
next
  case (st_new w a l g cb stk use_caller)
  then show ?case
    using fiber_count_new [of w a] by (simp add: Fiber_new_def Let_def set_fiber_def fiber_count_ok_def)
next
  case (st_destroy a w l s')
  then show ?case using fiber_count_destroy by (cases s') auto
next
  case (st_ready w a l)
  then show ?case unfolding YieldToReady_def fst_conv
    by (intro count_bind_GetThis census_bind census_simple)
next
  case (st_hold w a l)
  then show ?case unfolding YieldToHold_def fst_conv
    by (intro count_bind_GetThis census_bind census_simple)
next
  case (st_end w a l threw)
  then show ?case unfolding MainFunc_end_def fst_conv
    by (intro count_bind_GetThis census_bind census_simple census_finish)
next
  case (st_caller_end w a l threw)
  then show ?case unfolding CallerMainFunc_end_def fst_conv
    by (intro count_bind_GetThis census_bind census_simple census_finish)
qed (auto intro: fiber_count_census [OF _ census_simple(1)] fiber_count_census [OF _ census_simple(2)]
    fiber_count_census [OF _ census_simple(3)] fiber_count_census [OF _ census_simple(4)]
    fiber_count_census [OF _ census_simple(5)] fiber_count_census [OF _ census_simple(6)])

interpretation fiber_system: invariant_system fiber_start fiber_step "\<lambda>s. fiber_count_ok (fst s)"
proof
  fix s s' :: "'a fiber_world \<times> fiber_tls"
  show "fiber_start s \<Longrightarrow> fiber_count_ok (fst s)"
    by (simp add: fiber_start_def fiber_world_init_def fiber_count_ok_def)
  show "fiber_count_ok (fst s) \<Longrightarrow> fiber_step s s' \<Longrightarrow> fiber_count_ok (fst s')"
    by (rule fiber_step_count)
qed

end
