(* ===== verification/Scheduler.thy ===== *)
theory Scheduler
  imports Fiber
begin

text \<open>
  The fiber scheduler of \<^verbatim>\<open>linko/scheduler.{h,cc}\<close>.  The scheduler's own state is a record; every
  worker thread has a program counter in \<^verbatim>\<open>run()\<close>, its two local fibers and its thread-local
  pointers.  \<^verbatim>\<open>run()\<close> is cut where other threads can interfere: the search for a task is one step,
  because it holds the mutex, and outside the mutex every change of a counter, every test of a
  fiber's state and every call of \<^verbatim>\<open>schedule\<close> is a step of its own.  The system is the
  interleaving of these steps with what running fibers do and with calls of \<^verbatim>\<open>schedule\<close> and \<^verbatim>\<open>stop\<close>.
\<close>

section \<open>State\<close>

record 'cb FiberAndThread =
  ft_fiber :: "nat option"
  ft_cb :: "'cb option"
  ft_thread :: int

record 'cb scheduler =
  m_fibers :: "'cb FiberAndThread list"
  m_threads :: "int list"
  m_rootFiber :: "nat option"
  m_threadIds :: "int list"
  m_threadCount :: nat
  m_activeThreadCount :: u64
  m_idleThreadCount :: u64
  m_stopping :: bool
  m_autoStop :: bool
  m_rootThread :: int

text \<open>
  Where a thread is in \<^verbatim>\<open>run()\<close>: at the head of the loop, with a task taken or with none found,
  inside a fiber, a callback fiber or the idle fiber, between two of the statements after the
  switch out of one of these (named by what has been found out or done so far), or done.
\<close>

datatype 'cb run_pc = Loop | Picked "'cb FiberAndThread"
  | In_fiber nat | Fiber_left nat | Fiber_ready nat | Fiber_not_ready nat | Fiber_not_term nat | Fiber_to_hold nat
  | In_cb | Cb_left | Cb_ready | Cb_not_ready | Cb_not_except | Cb_ended | Cb_to_hold
  | No_task | Idle_chosen | Idle_counted | In_idle | Idle_left | Idle_not_term | Idle_to_hold | Done

record 'cb worker =
  w_tid :: int
  w_pc :: "'cb run_pc"
  w_idle_fiber :: nat
  w_cb_fiber :: "nat option"
  w_tls :: fiber_tls

type_synonym 'cb view = "'cb scheduler \<times> 'cb fiber_world \<times> 'cb worker"

definition FiberAndThread_fiber :: "nat option \<Rightarrow> int \<Rightarrow> 'cb FiberAndThread" where
  "FiberAndThread_fiber f thr = \<lparr>ft_fiber = f, ft_cb = None, ft_thread = thr\<rparr>"

definition FiberAndThread_cb :: "'cb option \<Rightarrow> int \<Rightarrow> 'cb FiberAndThread" where
  "FiberAndThread_cb f thr = \<lparr>ft_fiber = None, ft_cb = f, ft_thread = thr\<rparr>"

section \<open>Construction, start and stop\<close>

text \<open>
  \<open>this_tid\<close> is the calling thread, \<open>has_scheduler\<close> whether \<^verbatim>\<open>GetThis()\<close> is already set there, and
  \<open>root\<close> the address of the new root fiber.
\<close>

definition Scheduler_new :: "nat \<Rightarrow> bool \<Rightarrow> int \<Rightarrow> bool \<Rightarrow> nat \<Rightarrow> cpp_error + 'cb scheduler" where
  "Scheduler_new threads use_caller this_tid has_scheduler root =
     (if threads = 0 then Inl Assertion
      else if use_caller \<and> has_scheduler then Inl Assertion
      else Inr \<lparr>m_fibers = [], m_threads = [], m_rootFiber = (if use_caller then Some root else None),
             m_threadIds = (if use_caller then [this_tid] else []),
             m_threadCount = (if use_caller then threads - 1 else threads),
             m_activeThreadCount = 0, m_idleThreadCount = 0, m_stopping = True, m_autoStop = False,
             m_rootThread = (if use_caller then this_tid else - 1)\<rparr>)"

text \<open>\<open>new_tids\<close> are the ids of the threads that \<^verbatim>\<open>start\<close> creates.\<close>

definition start :: "int list \<Rightarrow> ('cb scheduler, unit) eff" where
  "start new_tids sc =
     (if \<not> m_stopping sc then (Inr (), sc)
      else let sc1 = sc\<lparr>m_stopping := False\<rparr> in
        if m_threads sc1 \<noteq> [] then (Inl Assertion, sc1)
        else let ids = take (m_threadCount sc1) new_tids in
          (Inr (), sc1\<lparr>m_threads := ids, m_threadIds := m_threadIds sc1 @ ids\<rparr>))"

definition stopping :: "'cb scheduler \<Rightarrow> bool" where
  "stopping sc \<longleftrightarrow> m_autoStop sc \<and> m_stopping sc \<and> m_fibers sc = [] \<and> m_activeThreadCount sc = 0"

text \<open>
  \<^verbatim>\<open>stop()\<close>: \<open>state\<close> is the state of a fiber, \<open>is_this\<close> whether \<^verbatim>\<open>GetThis() == this\<close>, \<open>stopping'\<close> the
  virtual \<^verbatim>\<open>stopping\<close>.  The result is the number of \<^verbatim>\<open>tickle\<close> calls, whether the root fiber is
  called, and the threads to join.
\<close>

definition stop :: "('cb scheduler \<Rightarrow> bool) \<Rightarrow> (nat \<Rightarrow> fiber_state) \<Rightarrow> bool \<Rightarrow> ('cb scheduler, nat \<times> bool \<times> int list) eff" where
  "stop stopping' state is_this sc =
     (let sc1 = sc\<lparr>m_autoStop := True\<rparr>;
          idle_root = (case m_rootFiber sc1 of None \<Rightarrow> False
             | Some r \<Rightarrow> m_threadCount sc1 = 0 \<and> (state r = TERM_st \<or> state r = INIT));
          sc2 = (if idle_root then sc1\<lparr>m_stopping := True\<rparr> else sc1)
      in if idle_root \<and> stopping' sc2 then (Inr (0, False, []), sc2)
         else if (m_rootThread sc2 \<noteq> - 1) \<noteq> is_this then (Inl Assertion, sc2)
         else let sc3 = sc2\<lparr>m_stopping := True\<rparr>;
                  tickles = m_threadCount sc3 + (if m_rootFiber sc3 \<noteq> None then 1 else 0);
                  call_root = m_rootFiber sc3 \<noteq> None \<and> \<not> stopping' sc3
              in (Inr (tickles, call_root, m_threads sc3), sc3\<lparr>m_threads := []\<rparr>))"

section \<open>Scheduling\<close>

definition scheduleNoLock :: "'cb FiberAndThread \<Rightarrow> 'cb scheduler \<Rightarrow> bool \<times> 'cb scheduler" where
  "scheduleNoLock ft sc =
     (m_fibers sc = [],
      if ft_fiber ft \<noteq> None \<or> ft_cb ft \<noteq> None then sc\<lparr>m_fibers := m_fibers sc @ [ft]\<rparr> else sc)"

text \<open>\<^verbatim>\<open>schedule\<close> of one task and of a range; the result says whether \<^verbatim>\<open>tickle\<close> is called.\<close>

definition schedule :: "'cb FiberAndThread \<Rightarrow> 'cb scheduler \<Rightarrow> bool \<times> 'cb scheduler" where
  "schedule ft sc = scheduleNoLock ft sc"

fun schedule_range :: "'cb FiberAndThread list \<Rightarrow> 'cb scheduler \<Rightarrow> bool \<times> 'cb scheduler" where
  "schedule_range [] sc = (False, sc)"
| "schedule_range (ft # fts) sc =
     (let (n1, sc1) = scheduleNoLock ft sc; (n2, sc2) = schedule_range fts sc1 in (n1 \<or> n2, sc2))"

definition state_of :: "'cb fiber_world \<Rightarrow> nat \<Rightarrow> fiber_state" where
  "state_of w a = (case fw_fibers w a of Some f \<Rightarrow> f_state f | None \<Rightarrow> INIT)"

text \<open>
  The search for a task in \<^verbatim>\<open>run()\<close>: tasks of other threads are skipped and ask for a \<^verbatim>\<open>tickle\<close>,
  fibers that are still executing are skipped.
\<close>

fun take_task :: "int \<Rightarrow> (nat \<Rightarrow> fiber_state) \<Rightarrow> 'cb FiberAndThread list \<Rightarrow>
    cpp_error + bool \<times> 'cb FiberAndThread option \<times> 'cb FiberAndThread list" where
  "take_task tid st [] = Inr (False, None, [])"
| "take_task tid st (it # rest) =
     (if ft_thread it \<noteq> - 1 \<and> ft_thread it \<noteq> tid
      then (case take_task tid st rest of Inl e \<Rightarrow> Inl e
            | Inr (_, ft, rest') \<Rightarrow> Inr (True, ft, it # rest'))
      else if ft_fiber it = None \<and> ft_cb it = None then Inl Assertion
      else if (case ft_fiber it of Some f \<Rightarrow> st f = EXEC | None \<Rightarrow> False)
      then (case take_task tid st rest of Inl e \<Rightarrow> Inl e
            | Inr (tickle_me, ft, rest') \<Rightarrow> Inr (tickle_me, ft, it # rest'))
      else Inr (False, Some it, rest))"

section \<open>The worker loop\<close>

text \<open>Running a fiber operation on the shared store and the worker's thread-local pointers.\<close>

definition fiber_do :: "('cb, unit) fiber_op \<Rightarrow> ('cb view, unit) eff" where
  "fiber_do m = (\<lambda>(sc, w, wk). case m (w, w_tls wk) of (r, (w', l')) \<Rightarrow> (r, (sc, w', wk\<lparr>w_tls := l'\<rparr>)))"

text \<open>
  The statements before the loop: a thread that is not the caller's makes its own main fiber at
  \<open>main_addr\<close>, and every thread makes an idle fiber at \<open>idle_addr\<close> that runs the callback \<open>idle_cb\<close>.
\<close>

definition run_prologue :: "u32 \<Rightarrow> nat \<Rightarrow> nat \<Rightarrow> 'cb \<Rightarrow> ('cb view, unit) eff" where
  "run_prologue g main_addr idle_addr idle_cb = (\<lambda>(sc, w, wk).
     let m = (if w_tid wk \<noteq> m_rootThread sc
              then eff_bind (GetThis main_addr) (\<lambda>f (w, l). (Inr (), (w, l\<lparr>t_schedFiber := Some f\<rparr>)))
              else eff_return ())
     in eff_bind (fiber_do (eff_bind m (\<lambda>_. Fiber_new g idle_addr (Some idle_cb) 0 False)))
          (\<lambda>_ (sc, w, wk). (Inr (), (sc, w, wk\<lparr>w_idle_fiber := idle_addr, w_cb_fiber := None, w_pc := Loop\<rparr>)))
          (sc, w, wk))"

text \<open>
  From the head of the loop to the release of the mutex: a task is taken and the thread counted as
  active, or none is found.  The result says whether \<^verbatim>\<open>tickle\<close> is called.
\<close>

definition run_take :: "('cb view, bool) eff" where
  "run_take = (\<lambda>(sc, w, wk).
     case take_task (w_tid wk) (state_of w) (m_fibers sc) of
       Inl e \<Rightarrow> (Inl e, (sc, w, wk))
     | Inr (tickle_me, Some ft, rest) \<Rightarrow>
         (Inr tickle_me,
          (sc\<lparr>m_fibers := rest, m_activeThreadCount := m_activeThreadCount sc + 1\<rparr>, w, wk\<lparr>w_pc := Picked ft\<rparr>))
     | Inr (tickle_me, None, rest) \<Rightarrow> (Inr tickle_me, (sc, w, wk\<lparr>w_pc := No_task\<rparr>)))"

text \<open>
  Without a task: the loop ends when the idle fiber has terminated, and otherwise the thread
  counts itself as idle and enters the idle fiber.
\<close>

definition run_idle :: "('cb view, bool) eff" where
  "run_idle = (\<lambda>(sc, w, wk).
     case w_pc wk of
       No_task \<Rightarrow> if state_of w (w_idle_fiber wk) = TERM_st then (Inr True, (sc, w, wk\<lparr>w_pc := Done\<rparr>))
          else (Inr False, (sc, w, wk\<lparr>w_pc := Idle_chosen\<rparr>))
     | Idle_chosen \<Rightarrow> (Inr False, (sc\<lparr>m_idleThreadCount := m_idleThreadCount sc + 1\<rparr>, w, wk\<lparr>w_pc := Idle_counted\<rparr>))
     | Idle_counted \<Rightarrow> eff_bind (fiber_do (swapIn (w_idle_fiber wk))) (\<lambda>_ v. (Inr False, v)) (sc, w, wk\<lparr>w_pc := In_idle\<rparr>)
     | _ \<Rightarrow> (Inr False, (sc, w, wk)))"

text \<open>Switching into the task that was taken; \<open>fresh\<close> is where a new callback fiber goes.\<close>

definition run_dispatch :: "u32 \<Rightarrow> nat \<Rightarrow> 'cb FiberAndThread \<Rightarrow> ('cb view, unit) eff" where
  "run_dispatch g fresh ft = (\<lambda>(sc, w, wk).
     case (case ft_fiber ft of Some f \<Rightarrow> if state_of w f \<noteq> TERM_st \<and> state_of w f \<noteq> EXCEPT then Some f else None
           | None \<Rightarrow> None) of
       Some f \<Rightarrow> fiber_do (swapIn f) (sc, w, wk\<lparr>w_pc := In_fiber f\<rparr>)
     | None \<Rightarrow>
         (case ft_cb ft of
            None \<Rightarrow> (Inr (), (sc\<lparr>m_activeThreadCount := m_activeThreadCount sc - 1\<rparr>, w, wk\<lparr>w_pc := Loop\<rparr>))
          | Some cb \<Rightarrow>
              (case w_cb_fiber wk of
                 Some c \<Rightarrow> eff_bind (fiber_do (Fiber_reset c (Some cb))) (\<lambda>_. fiber_do (swapIn c))
                             (sc, w, wk\<lparr>w_pc := In_cb\<rparr>)
               | None \<Rightarrow> eff_bind (fiber_do (Fiber_new g fresh (Some cb) 0 False)) (\<lambda>_. fiber_do (swapIn fresh))
                             (sc, w, wk\<lparr>w_pc := In_cb, w_cb_fiber := Some fresh\<rparr>))))"

text \<open>
  The statements after \<^verbatim>\<open>swapIn\<close> has returned, for a fiber, a callback fiber and the idle fiber, one
  at a time: the program counter says which is next.  The counter is decremented first, and only
  later, with other threads running in between, is the fiber put back into the queue or its state
  set.  The result says whether \<^verbatim>\<open>tickle\<close> is called.
\<close>

definition after_fiber :: "('cb view, bool) eff" where
  "after_fiber = (\<lambda>(sc, w, wk).
     case w_pc wk of
       In_fiber f \<Rightarrow>
         (Inr False, (sc\<lparr>m_activeThreadCount := m_activeThreadCount sc - 1\<rparr>, w, wk\<lparr>w_pc := Fiber_left f\<rparr>))
     | Fiber_left f \<Rightarrow>
         (Inr False, (sc, w, wk\<lparr>w_pc := (if state_of w f = READY then Fiber_ready f else Fiber_not_ready f)\<rparr>))
     | Fiber_ready f \<Rightarrow>
         let (tick, sc1) = schedule (FiberAndThread_fiber (Some f) (- 1)) sc in (Inr tick, (sc1, w, wk\<lparr>w_pc := Loop\<rparr>))
     | Fiber_not_ready f \<Rightarrow>
         (Inr False, (sc, w, wk\<lparr>w_pc := (if state_of w f \<noteq> TERM_st then Fiber_not_term f else Loop)\<rparr>))
     | Fiber_not_term f \<Rightarrow>
         (Inr False, (sc, w, wk\<lparr>w_pc := (if state_of w f \<noteq> EXCEPT then Fiber_to_hold f else Loop)\<rparr>))
     | Fiber_to_hold f \<Rightarrow>
         eff_bind (fiber_do (set_state f HOLD)) (\<lambda>_ v. (Inr False, v)) (sc, w, wk\<lparr>w_pc := Loop\<rparr>)
     | _ \<Rightarrow> (Inr False, (sc, w, wk)))"

definition after_cb :: "nat \<Rightarrow> ('cb view, bool) eff" where
  "after_cb c = (\<lambda>(sc, w, wk).
     case w_pc wk of
       In_cb \<Rightarrow>
         (Inr False, (sc\<lparr>m_activeThreadCount := m_activeThreadCount sc - 1\<rparr>, w, wk\<lparr>w_pc := Cb_left\<rparr>))
     | Cb_left \<Rightarrow>
         (Inr False, (sc, w, wk\<lparr>w_pc := (if state_of w c = READY then Cb_ready else Cb_not_ready)\<rparr>))
     | Cb_ready \<Rightarrow>
         let (tick, sc1) = schedule (FiberAndThread_fiber (Some c) (- 1)) sc
         in (Inr tick, (sc1, w, wk\<lparr>w_pc := Loop, w_cb_fiber := None\<rparr>))
     | Cb_not_ready \<Rightarrow>
         (Inr False, (sc, w, wk\<lparr>w_pc := (if state_of w c = EXCEPT then Cb_ended else Cb_not_except)\<rparr>))
     | Cb_not_except \<Rightarrow>
         (Inr False, (sc, w, wk\<lparr>w_pc := (if state_of w c = TERM_st then Cb_ended else Cb_to_hold)\<rparr>))
     | Cb_ended \<Rightarrow>
         eff_bind (fiber_do (Fiber_reset c None)) (\<lambda>_ v. (Inr False, v)) (sc, w, wk\<lparr>w_pc := Loop\<rparr>)
     | Cb_to_hold \<Rightarrow>
         eff_bind (fiber_do (set_state c HOLD)) (\<lambda>_ v. (Inr False, v)) (sc, w, wk\<lparr>w_pc := Loop, w_cb_fiber := None\<rparr>)
     | _ \<Rightarrow> (Inr False, (sc, w, wk)))"

definition after_idle :: "('cb view, bool) eff" where
  "after_idle = (\<lambda>(sc, w, wk).
     case w_pc wk of
       In_idle \<Rightarrow>
         (Inr False, (sc\<lparr>m_idleThreadCount := m_idleThreadCount sc - 1\<rparr>, w, wk\<lparr>w_pc := Idle_left\<rparr>))
     | Idle_left \<Rightarrow>
         (Inr False, (sc, w, wk\<lparr>w_pc := (if state_of w (w_idle_fiber wk) \<noteq> TERM_st then Idle_not_term else Loop)\<rparr>))
     | Idle_not_term \<Rightarrow>
         (Inr False, (sc, w, wk\<lparr>w_pc := (if state_of w (w_idle_fiber wk) \<noteq> EXCEPT then Idle_to_hold else Loop)\<rparr>))
     | Idle_to_hold \<Rightarrow>
         eff_bind (fiber_do (set_state (w_idle_fiber wk) HOLD)) (\<lambda>_ v. (Inr False, v)) (sc, w, wk\<lparr>w_pc := Loop\<rparr>)
     | _ \<Rightarrow> (Inr False, (sc, w, wk)))"

text \<open>One pass of the base class's \<^verbatim>\<open>idle()\<close> loop: yield, or return when the scheduler stops.\<close>

definition idle_pass :: "nat \<Rightarrow> ('cb view, unit) eff" where
  "idle_pass fresh = (\<lambda>(sc, w, wk).
     if stopping sc then fiber_do (MainFunc_end False fresh) (sc, w, wk)
     else fiber_do (YieldToHold fresh) (sc, w, wk))"

section \<open>The system of worker threads\<close>

type_synonym 'cb sys = "'cb scheduler \<times> 'cb fiber_world \<times> 'cb worker list"

text \<open>What a fiber that has the thread can do to give it back.\<close>

definition gives_back :: "nat \<Rightarrow> ('cb, unit) fiber_op \<Rightarrow> bool" where
  "gives_back fresh m \<longleftrightarrow> m = YieldToReady fresh \<or> m = YieldToHold fresh \<or> m = MainFunc_end False fresh
     \<or> m = MainFunc_end True fresh \<or> (\<exists>a. m = swapOut a)"

text \<open>
  The steps of the system.  A worker moves by one of the functions above, and the code of a fiber
  runs only while the thread's context is not the scheduler's.  The switch of a context is one
  step.  \<^verbatim>\<open>stop()\<close> sets two flags and asks \<^verbatim>\<open>stopping()\<close> without holding the mutex over both, so its two
  assignments are also steps of their own.
\<close>

definition at_scheduler :: "'cb worker \<Rightarrow> bool" where
  "at_scheduler wk \<longleftrightarrow> t_ctx (w_tls wk) = t_schedFiber (w_tls wk)"

inductive sched_step :: "'cb sys \<Rightarrow> 'cb sys \<Rightarrow> bool" where
  take: "i < length ws \<Longrightarrow> w_pc (ws ! i) = Loop \<Longrightarrow> run_take (sc, w, ws ! i) = (Inr t, (sc', w', wk')) \<Longrightarrow>
     sched_step (sc, w, ws) (sc', w', ws[i := wk'])"
| dispatch: "i < length ws \<Longrightarrow> w_pc (ws ! i) = Picked ft \<Longrightarrow> fw_fibers w fresh = None \<Longrightarrow>
     run_dispatch g fresh ft (sc, w, ws ! i) = (Inr u, (sc', w', wk')) \<Longrightarrow>
     sched_step (sc, w, ws) (sc', w', ws[i := wk'])"
| goes_idle: "i < length ws \<Longrightarrow> run_idle (sc, w, ws ! i) = (Inr t, (sc', w', wk')) \<Longrightarrow>
     sched_step (sc, w, ws) (sc', w', ws[i := wk'])"
| resume_fiber: "i < length ws \<Longrightarrow> at_scheduler (ws ! i) \<Longrightarrow>
     after_fiber (sc, w, ws ! i) = (Inr t, (sc', w', wk')) \<Longrightarrow> sched_step (sc, w, ws) (sc', w', ws[i := wk'])"
| resume_cb: "i < length ws \<Longrightarrow> w_cb_fiber (ws ! i) = Some c \<Longrightarrow> at_scheduler (ws ! i) \<Longrightarrow>
     after_cb c (sc, w, ws ! i) = (Inr t, (sc', w', wk')) \<Longrightarrow> sched_step (sc, w, ws) (sc', w', ws[i := wk'])"
| resume_idle: "i < length ws \<Longrightarrow> at_scheduler (ws ! i) \<Longrightarrow>
     after_idle (sc, w, ws ! i) = (Inr t, (sc', w', wk')) \<Longrightarrow> sched_step (sc, w, ws) (sc', w', ws[i := wk'])"
| idle_runs: "i < length ws \<Longrightarrow> w_pc (ws ! i) = In_idle \<Longrightarrow> \<not> at_scheduler (ws ! i) \<Longrightarrow>
     fw_fibers w fresh = None \<Longrightarrow> idle_pass fresh (sc, w, ws ! i) = (Inr u, (sc', w', wk')) \<Longrightarrow>
     sched_step (sc, w, ws) (sc', w', ws[i := wk'])"
| fiber_runs: "i < length ws \<Longrightarrow> \<not> at_scheduler (ws ! i) \<Longrightarrow>
     fw_fibers w fresh = None \<Longrightarrow> gives_back fresh m \<Longrightarrow>
     fiber_do m (sc, w, ws ! i) = (Inr u, (sc', w', wk')) \<Longrightarrow> sched_step (sc, w, ws) (sc', w', ws[i := wk'])"
| creates: "fw_fibers w a = None \<Longrightarrow> sched_step (sc, w, ws) (sc, fst (snd (Fiber_new g a cb stk False (w, l))), ws)"
| schedules: "sched_step (sc, w, ws) (snd (schedule ft sc), w, ws)"
| schedules_range: "sched_step (sc, w, ws) (snd (schedule_range fts sc), w, ws)"
| stops: "stop stopping (state_of w) is_this sc = (Inr r, sc') \<Longrightarrow> sched_step (sc, w, ws) (sc', w, ws)"
| stop_autoStop: "sched_step (sc, w, ws) (sc\<lparr>m_autoStop := True\<rparr>, w, ws)"
| stop_stopping: "sched_step (sc, w, ws) (sc\<lparr>m_stopping := True\<rparr>, w, ws)"

text \<open>Initially nothing is queued or counted and every thread is at the head of its loop.\<close>

definition sched_init :: "'cb sys \<Rightarrow> bool" where
  "sched_init = (\<lambda>(sc, w, ws). m_fibers sc = [] \<and> m_activeThreadCount sc = 0 \<and> m_idleThreadCount sc = 0
     \<and> (\<forall>wk \<in> set ws. w_pc wk = Loop))"

text \<open>
  The threads that \<^verbatim>\<open>m_activeThreadCount\<close> counts hold a task that they are going to run or are
  running; those that \<^verbatim>\<open>m_idleThreadCount\<close> counts enter or are in the idle fiber.
\<close>

definition busy :: "'cb worker \<Rightarrow> bool" where
  "busy wk \<longleftrightarrow> (case w_pc wk of Picked _ \<Rightarrow> True | In_fiber _ \<Rightarrow> True | In_cb \<Rightarrow> True | _ \<Rightarrow> False)"

definition idling :: "'cb worker \<Rightarrow> bool" where
  "idling wk \<longleftrightarrow> w_pc wk = Idle_counted \<or> w_pc wk = In_idle"

text \<open>
  The two counters count threads, and the queue holds only tasks with a fiber or a callback.
\<close>

definition sched_inv :: "'cb sys \<Rightarrow> bool" where
  "sched_inv = (\<lambda>(sc, w, ws).
     m_activeThreadCount sc = of_nat (length (filter busy ws)) \<and>
     m_idleThreadCount sc = of_nat (length (filter idling ws)) \<and>
     (\<forall>ft \<in> set (m_fibers sc). ft_fiber ft \<noteq> None \<or> ft_cb ft \<noteq> None))"

section \<open>Taking a task\<close>

definition eligible :: "int \<Rightarrow> (nat \<Rightarrow> fiber_state) \<Rightarrow> 'cb FiberAndThread \<Rightarrow> bool" where
  "eligible tid st it \<longleftrightarrow> (ft_thread it = - 1 \<or> ft_thread it = tid) \<and> (\<forall>f. ft_fiber it = Some f \<longrightarrow> st f \<noteq> EXEC)"

lemma take_task_first:
  assumes "\<forall>ft \<in> set q. ft_fiber ft \<noteq> None \<or> ft_cb ft \<noteq> None"
  shows "\<exists>tick ft rest. take_task tid st q = Inr (tick, ft, rest) \<and>
     (case ft of
        None \<Rightarrow> rest = q \<and> (\<forall>it \<in> set q. \<not> eligible tid st it) \<and>
          (tick \<longleftrightarrow> (\<exists>it \<in> set q. ft_thread it \<noteq> - 1 \<and> ft_thread it \<noteq> tid))
      | Some it \<Rightarrow> \<exists>pre post. q = pre @ it # post \<and> rest = pre @ post \<and> eligible tid st it \<and>
          (\<forall>x \<in> set pre. \<not> eligible tid st x) \<and>
          (tick \<longleftrightarrow> (\<exists>x \<in> set pre. ft_thread x \<noteq> - 1 \<and> ft_thread x \<noteq> tid)))"
  using assms
proof (induction q)
  case (Cons it q)
  then obtain tick ft rest where IH: "take_task tid st q = Inr (tick, ft, rest)"
    "case ft of
        None \<Rightarrow> rest = q \<and> (\<forall>it \<in> set q. \<not> eligible tid st it) \<and>
          (tick \<longleftrightarrow> (\<exists>it \<in> set q. ft_thread it \<noteq> - 1 \<and> ft_thread it \<noteq> tid))
      | Some it \<Rightarrow> \<exists>pre post. q = pre @ it # post \<and> rest = pre @ post \<and> eligible tid st it \<and>
          (\<forall>x \<in> set pre. \<not> eligible tid st x) \<and>
          (tick \<longleftrightarrow> (\<exists>x \<in> set pre. ft_thread x \<noteq> - 1 \<and> ft_thread x \<noteq> tid))"
    by auto
  show ?case
  proof (cases "eligible tid st it")
    case True
    then have "take_task tid st (it # q) = Inr (False, Some it, q)"
      using Cons.prems by (auto simp: eligible_def split: option.split)
    then show ?thesis using True by (intro exI [of _ False] exI [of _ "Some it"] exI [of _ q]) (auto intro: exI [of _ "[]"])
  next
    case False
    define tick' where "tick' = (tick \<or> (ft_thread it \<noteq> - 1 \<and> ft_thread it \<noteq> tid))"
    have run: "take_task tid st (it # q) = Inr (tick', ft, it # rest)"
      using False Cons.prems IH(1) by (auto simp: eligible_def tick'_def split: option.split)
    show ?thesis
    proof (cases ft)
      case None
      then show ?thesis using run IH(2) False by (auto simp: tick'_def)
    next
      case (Some x)
      with IH(2) obtain pre post where "q = pre @ x # post" "rest = pre @ post" "eligible tid st x"
        "\<forall>y \<in> set pre. \<not> eligible tid st y" "tick \<longleftrightarrow> (\<exists>y \<in> set pre. ft_thread y \<noteq> - 1 \<and> ft_thread y \<noteq> tid)"
        by auto
      then have "\<exists>pre post. it # q = pre @ x # post \<and> it # rest = pre @ post \<and> eligible tid st x \<and>
          (\<forall>y \<in> set pre. \<not> eligible tid st y) \<and>
          (tick' \<longleftrightarrow> (\<exists>y \<in> set pre. ft_thread y \<noteq> - 1 \<and> ft_thread y \<noteq> tid))"
        using False by (intro exI [of _ "it # pre"] exI [of _ post]) (auto simp: tick'_def)
      then show ?thesis using run Some by (simp del: take_task.simps)
    qed
  qed
qed auto

section \<open>The counters\<close>

lemma fiber_do_frame:
  assumes "fiber_do m (sc, w, wk) = (r, (sc', w', wk'))"
  shows "sc' = sc \<and> w_pc wk' = w_pc wk"
  using assms by (auto simp: fiber_do_def split: prod.splits)

lemma fiber_do_bind_frame:
  assumes "eff_bind (fiber_do m) (\<lambda>_. fiber_do m') (sc, w, wk) = (r, (sc', w', wk'))"
  shows "sc' = sc \<and> w_pc wk' = w_pc wk"
  using assms by (auto simp: eff_bind_def dest!: fiber_do_frame split: prod.splits sum.splits)

lemma fiber_do_ret_frame:
  assumes "eff_bind (fiber_do m) (\<lambda>_ v. (Inr t, v)) (sc, w, wk) = (r, (sc', w', wk'))"
  shows "sc' = sc \<and> w_pc wk' = w_pc wk"
  using assms by (auto simp: eff_bind_def dest!: fiber_do_frame split: prod.splits sum.splits)

text \<open>
  The effect of a worker's step on the counters: the change of each counter is the change of
  what the thread's program counter contributes.
\<close>

definition counts_move :: "'cb view \<Rightarrow> 'cb view \<Rightarrow> bool" where
  "counts_move = (\<lambda>(sc, w, wk) (sc', w', wk').
     m_activeThreadCount sc' = m_activeThreadCount sc - of_bool (busy wk) + of_bool (busy wk') \<and>
     m_idleThreadCount sc' = m_idleThreadCount sc - of_bool (idling wk) + of_bool (idling wk') \<and>
     (\<forall>ft \<in> set (m_fibers sc'). ft \<in> set (m_fibers sc) \<or> ft_fiber ft \<noteq> None \<or> ft_cb ft \<noteq> None))"

lemma counts_move_inv:
  assumes "sched_inv (sc, w, ws)" "i < length ws" "counts_move (sc, w, ws ! i) (sc', w', wk')"
  shows "sched_inv (sc', w', ws[i := wk'])"
  using assms length_filter_update [of i ws busy wk', where 'a = u64]
    length_filter_update [of i ws idling wk', where 'a = u64]
  by (auto simp: sched_inv_def counts_move_def)

lemma take_task_subset: "take_task tid st q = Inr (t, ft, rest) \<Longrightarrow> set rest \<subseteq> set q"
proof (induction q arbitrary: t ft rest)
  case (Cons it q)
  show ?case
  proof (cases "take_task tid st q")
    case (Inr x)
    obtain t1 ft1 rest1 where "x = (t1, ft1, rest1)" by (cases x)
    then have "set rest1 \<subseteq> set q" using Cons.IH Inr by simp
    then show ?thesis
      using Cons.prems Inr \<open>x = _\<close> by (auto split: if_splits)
  qed (use Cons.prems in \<open>auto split: if_splits\<close>)
qed simp

lemma run_take_counts:
  assumes "w_pc wk = Loop" "run_take (sc, w, wk) = (Inr t, v)"
  shows "counts_move (sc, w, wk) v"
proof -
  obtain sc' w' wk' where v: "v = (sc', w', wk')" by (cases v)
  show ?thesis
    using assms unfolding v run_take_def
    by (auto simp: counts_move_def busy_def idling_def split: sum.splits option.splits prod.splits if_splits
        dest: take_task_subset [THEN subsetD] dest!: fiber_do_ret_frame)
qed

lemma run_dispatch_counts:
  assumes "w_pc wk = Picked ft" "run_dispatch g fresh ft (sc, w, wk) = (Inr u, v)"
  shows "counts_move (sc, w, wk) v"
proof -
  obtain sc' w' wk' where v: "v = (sc', w', wk')" by (cases v)
  show ?thesis
    using assms unfolding v run_dispatch_def
    by (auto simp: counts_move_def busy_def idling_def split: option.splits if_splits
        dest!: fiber_do_frame fiber_do_bind_frame)
qed

lemma run_idle_counts:
  assumes "run_idle (sc, w, wk) = (Inr t, v)"
  shows "counts_move (sc, w, wk) v"
proof -
  obtain sc' w' wk' where v: "v = (sc', w', wk')" by (cases v)
  show ?thesis
    using assms unfolding v run_idle_def
    by (cases "w_pc wk") (auto simp: counts_move_def busy_def idling_def split: if_splits dest!: fiber_do_ret_frame)
qed

lemma after_counts:
  assumes "v = (sc', w', wk')"
  shows "after_fiber (sc, w, wk) = (Inr t, v) \<Longrightarrow> counts_move (sc, w, wk) v"
    "after_cb c (sc, w, wk) = (Inr t, v) \<Longrightarrow> counts_move (sc, w, wk) v"
    "after_idle (sc, w, wk) = (Inr t, v) \<Longrightarrow> counts_move (sc, w, wk) v"
  unfolding assms after_fiber_def after_cb_def after_idle_def
  by (cases "w_pc wk"; auto simp: counts_move_def busy_def idling_def Let_def schedule_def scheduleNoLock_def
      FiberAndThread_fiber_def split: if_splits dest!: fiber_do_ret_frame)+

lemma same_pc_counts: "w_pc wk' = w_pc wk \<Longrightarrow> counts_move (sc, w, wk) (sc, w', wk')"
  by (simp add: counts_move_def busy_def idling_def)

lemma schedule_range_fields:
  "m_activeThreadCount (snd (schedule_range fts sc)) = m_activeThreadCount sc"
  "m_idleThreadCount (snd (schedule_range fts sc)) = m_idleThreadCount sc"
  "m_fibers (snd (schedule_range fts sc)) = m_fibers sc @ filter (\<lambda>ft. ft_fiber ft \<noteq> None \<or> ft_cb ft \<noteq> None) fts"
  by (induction fts arbitrary: sc) (auto simp: scheduleNoLock_def Let_def case_prod_beta)

lemma stop_fields:
  "stop st' st is_this sc = (Inr r, sc') \<Longrightarrow> m_activeThreadCount sc' = m_activeThreadCount sc \<and>
     m_idleThreadCount sc' = m_idleThreadCount sc \<and> m_fibers sc' = m_fibers sc"
  by (auto simp: stop_def Let_def split: if_splits option.splits)

lemma sched_step_inv: "sched_step s s' \<Longrightarrow> sched_inv s \<Longrightarrow> sched_inv s'"
proof (induction rule: sched_step.induct)
  case (idle_runs i ws w fresh sc u sc' w' wk')
  then have "sc' = sc" "w_pc wk' = w_pc (ws ! i)"
    by (auto simp: idle_pass_def dest: fiber_do_frame split: if_splits)
  then show ?case using counts_move_inv same_pc_counts idle_runs by metis
next
  case (fiber_runs i ws w fresh m sc u sc' w' wk')
  then show ?case using counts_move_inv same_pc_counts fiber_do_frame by metis
next
  case (schedules sc w ws ft)
  then show ?case by (auto simp: sched_inv_def schedule_def scheduleNoLock_def)
next
  case (schedules_range sc w ws fts)
  then show ?case by (auto simp: sched_inv_def schedule_range_fields)
next
  case (stops w is_this sc r sc' ws)
  then show ?case using stop_fields by (fastforce simp: sched_inv_def)
next
  case (creates w a sc ws g cb stk l)
  then show ?case by (simp add: sched_inv_def)
next
  case (stop_autoStop sc w ws)
  then show ?case by (simp add: sched_inv_def)
next
  case (stop_stopping sc w ws)
  then show ?case by (simp add: sched_inv_def)
qed (blast intro: counts_move_inv run_take_counts run_dispatch_counts run_idle_counts after_counts [OF refl])+

interpretation sched_system: invariant_system sched_init sched_step sched_inv
proof
  show "sched_init s \<Longrightarrow> sched_inv s" for s :: "'a sys"
    by (auto simp: sched_init_def sched_inv_def busy_def idling_def filter_empty_conv split: prod.splits)
  show "sched_inv s \<Longrightarrow> sched_step s s' \<Longrightarrow> sched_inv s'" for s s' :: "'a sys"
    by (rule sched_step_inv)
qed

section \<open>A fiber that no counter and no queue shows\<close>

text \<open>
  A run with one worker: fiber 5 is scheduled, taken, entered, yields with \<^verbatim>\<open>YieldToReady\<close>, and
  \<^verbatim>\<open>stop()\<close> is called by another thread; the worker has decremented the counter and seen that the
  fiber is READY, but not yet called \<^verbatim>\<open>schedule\<close>.
\<close>

definition race_fiber :: "fiber_state \<Rightarrow> unit fiber" where
  "race_fiber st = \<lparr>f_id = 1, f_stacksize = 1024, f_state = st, f_entry = MainFunc, f_stack = True, f_cb = Some ()\<rparr>"

definition race_world :: "fiber_state \<Rightarrow> unit fiber_world" where
  "race_world st = \<lparr>fw_fibers = [5 \<mapsto> race_fiber st], s_fiber_id = 1, s_fiber_count = 1\<rparr>"

definition race_worker :: "unit run_pc \<Rightarrow> nat \<Rightarrow> unit worker" where
  "race_worker pc ctx = \<lparr>w_tid = 7, w_pc = pc, w_idle_fiber = 2, w_cb_fiber = None,
     w_tls = \<lparr>t_fiber = Some ctx, t_threadFiber = Some 1, t_schedFiber = Some 1, t_ctx = Some ctx\<rparr>\<rparr>"

definition race_sched :: "unit FiberAndThread list \<Rightarrow> u64 \<Rightarrow> bool \<Rightarrow> unit scheduler" where
  "race_sched q active stopped = \<lparr>m_fibers = q, m_threads = (if stopped then [] else [7]), m_rootFiber = None, m_threadIds = [7],
     m_threadCount = 1, m_activeThreadCount = active, m_idleThreadCount = 0, m_stopping = stopped,
     m_autoStop = stopped, m_rootThread = - 1\<rparr>"

lemmas race_defs = race_fiber_def race_world_def race_worker_def race_sched_def state_of_def FiberAndThread_fiber_def at_scheduler_def

text \<open>The steps of a system with one worker.\<close>

lemma one_worker_steps:
  "w_pc wk = Loop \<Longrightarrow> run_take (sc, w, wk) = (Inr t, (sc', w', wk')) \<Longrightarrow> sched_step (sc, w, [wk]) (sc', w', [wk'])"
  "w_pc wk = Picked ft \<Longrightarrow> fw_fibers w fresh = None \<Longrightarrow> run_dispatch g fresh ft (sc, w, wk) = (Inr u, (sc', w', wk')) \<Longrightarrow>
     sched_step (sc, w, [wk]) (sc', w', [wk'])"
  "\<not> at_scheduler wk \<Longrightarrow> fw_fibers w fresh = None \<Longrightarrow> gives_back fresh m \<Longrightarrow>
     fiber_do m (sc, w, wk) = (Inr u, (sc', w', wk')) \<Longrightarrow> sched_step (sc, w, [wk]) (sc', w', [wk'])"
  "at_scheduler wk \<Longrightarrow> after_fiber (sc, w, wk) = (Inr t, (sc', w', wk')) \<Longrightarrow> sched_step (sc, w, [wk]) (sc', w', [wk'])"
  using take [of 0 "[wk]"] dispatch [of 0 "[wk]"] fiber_runs [of 0 "[wk]"] resume_fiber [of 0 "[wk]"]
  by simp_all

lemma stopping_before_requeue:
  defines "ft \<equiv> FiberAndThread_fiber (Some 5) (- 1) :: unit FiberAndThread"
  shows "reachable sched_init sched_step (race_sched [] 0 True, race_world READY, [race_worker (Fiber_ready 5) 1])"
proof -
  let ?I = "(race_sched [] 0 False, race_world INIT, [race_worker Loop 1])"
  have "reachable sched_init sched_step ?I" by (intro reachable_init) (simp add: sched_init_def race_defs)
  moreover have "sched_step ?I (race_sched [ft] 0 False, race_world INIT, [race_worker Loop 1])"
    using schedules [of "race_sched [] 0 False" _ _ ft] by (simp add: schedule_def scheduleNoLock_def ft_def race_defs)
  moreover have "sched_step (race_sched [ft] 0 False, race_world INIT, [race_worker Loop 1])
      (race_sched [] 1 False, race_world INIT, [race_worker (Picked ft) 1])"
    by (rule one_worker_steps(1) [where t = False]) (simp_all add: run_take_def ft_def race_defs)
  moreover have "sched_step (race_sched [] 1 False, race_world INIT, [race_worker (Picked ft) 1])
      (race_sched [] 1 False, race_world EXEC, [race_worker (In_fiber 5) 5])"
    by (rule one_worker_steps(2) [where fresh = 9 and ft = ft])
      (simp_all add: run_dispatch_def fiber_do_def ft_def race_defs swapIn_ok set_fiber_def)
  moreover have "sched_step (race_sched [] 1 False, race_world EXEC, [race_worker (In_fiber 5) 5])
      (race_sched [] 1 False, race_world READY, [race_worker (In_fiber 5) 1])"
    by (rule one_worker_steps(3) [where fresh = 9 and m = "YieldToReady 9"])
      (simp_all add: gives_back_def fiber_do_def race_defs yield_ok set_fiber_def)
  moreover have "sched_step (race_sched [] 1 False, race_world READY, [race_worker (In_fiber 5) 1])
      (race_sched [] 1 True, race_world READY, [race_worker (In_fiber 5) 1])"
    by (rule stops [where is_this = False]) (simp add: stop_def race_defs)
  moreover have "sched_step (race_sched [] 1 True, race_world READY, [race_worker (In_fiber 5) 1])
      (race_sched [] 0 True, race_world READY, [race_worker (Fiber_left 5) 1])"
    by (rule one_worker_steps(4) [where t = False]) (simp_all add: after_fiber_def race_defs)
  moreover have "sched_step (race_sched [] 0 True, race_world READY, [race_worker (Fiber_left 5) 1])
      (race_sched [] 0 True, race_world READY, [race_worker (Fiber_ready 5) 1])"
    by (rule one_worker_steps(4) [where t = False]) (simp_all add: after_fiber_def race_defs)
  ultimately show ?thesis by (meson reachable_step)
qed

end
