(* ===== verification/IOManager.thy ===== *)
theory IOManager
  imports Scheduler Timer
begin

unbundle bit_operations_syntax

text \<open>
  The epoll event loop of \<^verbatim>\<open>linko/iomanager.{h,cc}\<close>.  The descriptor contexts are a list indexed
  by descriptor; the kernel's interest list is a map from descriptors to event masks, and
  whether an \<^verbatim>\<open>epoll_ctl\<close> call succeeds is an input.  Scheduling a task on the scheduler an event
  belongs to appends it to a log of such calls.  The operations on one descriptor run under that
  descriptor's mutex and the pending counter is atomic, so each operation is one step.
\<close>

section \<open>Events and contexts\<close>

definition NONE :: u32 where "NONE = 0x0"
definition READ :: u32 where "READ = 0x1"
definition WRITE :: u32 where "WRITE = 0x4"

definition EPOLLIN :: u32 where "EPOLLIN = 0x1"
definition EPOLLOUT :: u32 where "EPOLLOUT = 0x4"
definition EPOLLERR :: u32 where "EPOLLERR = 0x8"
definition EPOLLHUP :: u32 where "EPOLLHUP = 0x10"
definition EPOLLET :: u32 where "EPOLLET = 0x80000000"

lemmas event_defs = NONE_def READ_def WRITE_def EPOLLIN_def EPOLLOUT_def EPOLLERR_def EPOLLHUP_def EPOLLET_def

record 'cb EventContext =
  ec_scheduler :: "nat option"
  ec_fiber :: "nat option"
  ec_cb :: "'cb option"

record 'cb FdContext =
  fc_read :: "'cb EventContext"
  fc_write :: "'cb EventContext"
  fc_fd :: nat
  fc_events :: u32

record 'cb iomanager =
  m_fdContexts :: "'cb FdContext list"
  m_pendingEventCount :: u64
  io_epoll :: "nat \<Rightarrow> u32 option"
  io_scheduled :: "(nat \<times> 'cb FiberAndThread) list"

definition empty_ctx :: "'cb EventContext" where
  "empty_ctx = \<lparr>ec_scheduler = None, ec_fiber = None, ec_cb = None\<rparr>"

definition FdContext_new :: "nat \<Rightarrow> 'cb FdContext" where
  "FdContext_new fd = \<lparr>fc_read = empty_ctx, fc_write = empty_ctx, fc_fd = fd, fc_events = NONE\<rparr>"

text \<open>\<^verbatim>\<open>getContext\<close> returns a reference: a reading and a writing half.\<close>

definition getContext :: "u32 \<Rightarrow> 'cb FdContext \<Rightarrow> cpp_error + 'cb EventContext" where
  "getContext event c = (if event = READ then Inr (fc_read c) else if event = WRITE then Inr (fc_write c) else Inl Assertion)"

definition setContext :: "u32 \<Rightarrow> 'cb EventContext \<Rightarrow> 'cb FdContext \<Rightarrow> 'cb FdContext" where
  "setContext event ec c = (if event = READ then c\<lparr>fc_read := ec\<rparr> else c\<lparr>fc_write := ec\<rparr>)"

definition resetContext :: "'cb EventContext \<Rightarrow> 'cb EventContext" where
  "resetContext ctx = ctx\<lparr>ec_scheduler := None, ec_cb := None, ec_fiber := None\<rparr>"

text \<open>
  \<^verbatim>\<open>triggerEvent\<close>: the scheduled task is the result; passing pointers to \<^verbatim>\<open>schedule\<close> empties the
  callback or the fiber of the context.
\<close>

definition triggerEvent :: "u32 \<Rightarrow> 'cb FdContext \<Rightarrow> cpp_error + (nat \<times> 'cb FiberAndThread) \<times> 'cb FdContext" where
  "triggerEvent event c =
     (if fc_events c AND event = 0 then Inl Assertion
      else let c1 = c\<lparr>fc_events := fc_events c AND NOT event\<rparr> in
        case getContext event c1 of
          Inl e \<Rightarrow> Inl e
        | Inr ctx \<Rightarrow>
            (case ec_scheduler ctx of
               None \<Rightarrow> Inl Undefined
             | Some sch \<Rightarrow>
                 if ec_cb ctx \<noteq> None
                 then Inr ((sch, FiberAndThread_cb (ec_cb ctx) (- 1)), setContext event (ctx\<lparr>ec_cb := None, ec_scheduler := None\<rparr>) c1)
                 else Inr ((sch, FiberAndThread_fiber (ec_fiber ctx) (- 1)), setContext event (ctx\<lparr>ec_fiber := None, ec_scheduler := None\<rparr>) c1)))"

section \<open>Operations\<close>

definition contextResize :: "nat \<Rightarrow> 'cb iomanager \<Rightarrow> 'cb iomanager" where
  "contextResize sz io = io\<lparr>m_fdContexts := take sz (m_fdContexts io) @ map FdContext_new [length (m_fdContexts io)..<sz]\<rparr>"

definition IOManager_new :: "'cb iomanager" where
  "IOManager_new = contextResize 32 \<lparr>m_fdContexts = [], m_pendingEventCount = 0, io_epoll = (\<lambda>_. None), io_scheduled = []\<rparr>"

text \<open>\<^verbatim>\<open>epoll_ctl\<close> with a zero mask stands for \<^verbatim>\<open>EPOLL_CTL_DEL\<close>: the code deletes exactly then.\<close>

definition epoll_set :: "nat \<Rightarrow> u32 \<Rightarrow> 'cb iomanager \<Rightarrow> 'cb iomanager" where
  "epoll_set fd events io =
     io\<lparr>io_epoll := (io_epoll io)(fd := (if events = 0 then None else Some (EPOLLET OR events)))\<rparr>"

definition put_ctx :: "nat \<Rightarrow> 'cb FdContext \<Rightarrow> 'cb iomanager \<Rightarrow> 'cb iomanager" where
  "put_ctx fd c io = io\<lparr>m_fdContexts := (m_fdContexts io)[fd := c]\<rparr>"

text \<open>
  \<open>this_sched\<close> is \<^verbatim>\<open>Scheduler::GetThis()\<close> of the calling thread, \<open>this_fiber\<close> its current fiber and
  whether that is in state \<^verbatim>\<open>EXEC\<close>.  A negative descriptor becomes a huge \<^verbatim>\<open>size_t\<close>.
\<close>

definition addEvent :: "bool \<Rightarrow> nat option \<Rightarrow> nat \<times> bool \<Rightarrow> int \<Rightarrow> u32 \<Rightarrow> 'cb option \<Rightarrow> ('cb iomanager, int) eff" where
  "addEvent ctl_ok this_sched this_fiber fd event cb io =
     (let n = length (m_fdContexts io);
          io1 = (if 0 \<le> fd \<and> fd < int n then io else contextResize (n * 3 div 2) io)
      in if fd < 0 \<or> int (length (m_fdContexts io1)) \<le> fd then (Inl Undefined, io1)
         else let i = nat fd; c = m_fdContexts io1 ! i in
           if fc_events c AND event \<noteq> 0 then (Inl Assertion, io1)
           else if \<not> ctl_ok then (Inr (- 1), io1)
           else let io2 = epoll_set i (fc_events c OR event) io1;
                    io3 = io2\<lparr>m_pendingEventCount := m_pendingEventCount io2 + 1\<rparr>;
                    c1 = c\<lparr>fc_events := fc_events c OR event\<rparr>;
                    io4 = put_ctx i c1 io3
                in case getContext event c1 of
                     Inl e \<Rightarrow> (Inl e, io4)
                   | Inr ctx \<Rightarrow>
                       if ec_scheduler ctx \<noteq> None \<or> ec_fiber ctx \<noteq> None \<or> ec_cb ctx \<noteq> None then (Inl Assertion, io4)
                       else if cb \<noteq> None
                       then (Inr 0, put_ctx i (setContext event (ctx\<lparr>ec_scheduler := this_sched, ec_cb := cb\<rparr>) c1) io4)
                       else let io5 = put_ctx i (setContext event (ctx\<lparr>ec_scheduler := this_sched, ec_fiber := Some (fst this_fiber)\<rparr>) c1) io4
                            in if snd this_fiber then (Inr 0, io5) else (Inl Assertion, io5))"

definition delEvent :: "bool \<Rightarrow> int \<Rightarrow> u32 \<Rightarrow> ('cb iomanager, bool) eff" where
  "delEvent ctl_ok fd event io =
     (if fd < 0 \<or> int (length (m_fdContexts io)) \<le> fd then (Inr False, io)
      else let i = nat fd; c = m_fdContexts io ! i in
        if fc_events c AND event = 0 then (Inr False, io)
        else let new_events = fc_events c AND NOT event in
          if \<not> ctl_ok then (Inr False, io)
          else let io1 = epoll_set i new_events io;
                   io2 = io1\<lparr>m_pendingEventCount := m_pendingEventCount io1 - 1\<rparr>;
                   c1 = c\<lparr>fc_events := new_events\<rparr>
               in case getContext event c1 of
                    Inl e \<Rightarrow> (Inl e, put_ctx i c1 io2)
                  | Inr ctx \<Rightarrow> (Inr True, put_ctx i (setContext event (resetContext ctx) c1) io2))"

text \<open>\<^verbatim>\<open>triggerEvent\<close> followed by \<^verbatim>\<open>--m_pendingEventCount\<close>, which three callers do.\<close>

definition fire :: "nat \<Rightarrow> u32 \<Rightarrow> ('cb iomanager, unit) eff" where
  "fire i event io =
     (case triggerEvent event (m_fdContexts io ! i) of
        Inl e \<Rightarrow> (Inl e, io)
      | Inr (task, c') \<Rightarrow>
          let io1 = put_ctx i c' (io\<lparr>io_scheduled := io_scheduled io @ [task]\<rparr>)
          in (Inr (), io1\<lparr>m_pendingEventCount := m_pendingEventCount io1 - 1\<rparr>))"

definition cancelEvent :: "bool \<Rightarrow> int \<Rightarrow> u32 \<Rightarrow> ('cb iomanager, bool) eff" where
  "cancelEvent ctl_ok fd event io =
     (if fd < 0 \<or> int (length (m_fdContexts io)) \<le> fd then (Inr False, io)
      else let i = nat fd; c = m_fdContexts io ! i in
        if fc_events c AND event = 0 then (Inr False, io)
        else let new_events = fc_events c AND NOT event in
          if \<not> ctl_ok then (Inr False, io)
          else eff_bind (fire i event) (\<lambda>_. eff_return True) (epoll_set i new_events io))"

definition cancelAll :: "bool \<Rightarrow> int \<Rightarrow> ('cb iomanager, bool) eff" where
  "cancelAll ctl_ok fd io =
     (if fd < 0 \<or> int (length (m_fdContexts io)) \<le> fd then (Inr False, io)
      else let i = nat fd; c = m_fdContexts io ! i in
        if fc_events c = 0 then (Inr False, io)
        else if \<not> ctl_ok then (Inr False, io)
        else eff_bind (\<lambda>io. if fc_events (m_fdContexts io ! i) AND READ \<noteq> 0 then fire i READ io else (Inr (), io)) (\<lambda>_.
             eff_bind (\<lambda>io. if fc_events (m_fdContexts io ! i) AND WRITE \<noteq> 0 then fire i WRITE io else (Inr (), io)) (\<lambda>_ io.
               if fc_events (m_fdContexts io ! i) \<noteq> 0 then (Inl Assertion, io) else (Inr True, io)))
             (epoll_set i 0 io))"

section \<open>The idle loop\<close>

definition io_tickle :: "'cb scheduler \<Rightarrow> bool" where
  "io_tickle sc \<longleftrightarrow> m_idleThreadCount sc > 0"

definition io_stopping :: "u64 \<Rightarrow> 'cb timer_manager \<Rightarrow> 'cb iomanager \<Rightarrow> 'cb scheduler \<Rightarrow> (bool \<times> u64) \<times> 'cb timer_manager" where
  "io_stopping now tm io sc =
     (let (timeout, tm') = getNextTimer now tm
      in ((timeout = - 1 \<and> m_pendingEventCount io = 0 \<and> stopping sc, timeout), tm'))"

text \<open>
  The time passed to \<^verbatim>\<open>epoll_wait\<close>: the comparison is on the truncation of the 64 bit timeout to
  \<^verbatim>\<open>int\<close>, and so is the argument.
\<close>

definition MAX_TIMEOUT :: u64 where "MAX_TIMEOUT = 3000"

definition idle_timeout :: "u64 \<Rightarrow> int" where
  "idle_timeout next_timeout =
     (let t = (if next_timeout \<noteq> - 1
               then if sint (ucast next_timeout :: u32) > 3000 then MAX_TIMEOUT else next_timeout
               else MAX_TIMEOUT)
      in sint (ucast t :: u32))"

text \<open>
  The body of the loop over the returned events, for an event of descriptor \<open>i\<close>: errors and
  hang-ups count as whatever is registered.
\<close>

definition process_event :: "bool \<Rightarrow> nat \<Rightarrow> u32 \<Rightarrow> ('cb iomanager, unit) eff" where
  "process_event ctl_ok i revents io =
     (let c = m_fdContexts io ! i;
          ev = (if revents AND (EPOLLERR OR EPOLLHUP) \<noteq> 0
                then revents OR ((EPOLLIN OR EPOLLOUT) AND fc_events c) else revents);
          real_events = (if ev AND EPOLLIN \<noteq> 0 then READ else NONE) OR (if ev AND EPOLLOUT \<noteq> 0 then WRITE else NONE)
      in if fc_events c AND real_events = NONE then (Inr (), io)
         else let left_events = fc_events c AND NOT real_events in
           if \<not> ctl_ok then (Inr (), io)
           else eff_bind (\<lambda>io. if real_events AND READ \<noteq> 0 then fire i READ io else (Inr (), io)) (\<lambda>_ io.
                  if real_events AND WRITE \<noteq> 0 then fire i WRITE io else (Inr (), io))
                (epoll_set i left_events io))"

end
