(* ===== verification/IOManager_Correct.thy ===== *)
theory IOManager_Correct
  imports IOManager
begin

unbundle bit_operations_syntax

text \<open>
  Invariant of the event loop: the registered bits of a descriptor, its two event contexts, the
  kernel's interest list and the pending counter always agree, and an operation hands exactly
  the registered callback or fiber to the scheduler it was registered with.
\<close>

section \<open>Invariant\<close>

definition armed :: "'cb EventContext \<Rightarrow> bool" where
  "armed ctx \<longleftrightarrow> ec_scheduler ctx \<noteq> None \<and> (ec_cb ctx \<noteq> None) \<noteq> (ec_fiber ctx \<noteq> None)"

definition half_ok :: "bool \<Rightarrow> 'cb EventContext \<Rightarrow> bool" where
  "half_ok registered ctx \<longleftrightarrow> (if registered then armed ctx else ctx = empty_ctx)"

definition fdc_ok :: "nat \<Rightarrow> 'cb FdContext \<Rightarrow> bool" where
  "fdc_ok i c \<longleftrightarrow> fc_fd c = i \<and> fc_events c \<in> {NONE, READ, WRITE, READ OR WRITE} \<and>
     half_ok (fc_events c AND READ \<noteq> 0) (fc_read c) \<and> half_ok (fc_events c AND WRITE \<noteq> 0) (fc_write c)"

definition evcount :: "'cb FdContext \<Rightarrow> u64" where
  "evcount c = of_bool (fc_events c AND READ \<noteq> 0) + of_bool (fc_events c AND WRITE \<noteq> 0)"

definition io_core :: "'cb iomanager \<Rightarrow> bool" where
  "io_core io \<longleftrightarrow> (\<forall>i < length (m_fdContexts io). fdc_ok i (m_fdContexts io ! i)) \<and>
     m_pendingEventCount io = sum_list (map evcount (m_fdContexts io))"

definition interest :: "'cb iomanager \<Rightarrow> nat \<Rightarrow> u32 option" where
  "interest io i = (if i < length (m_fdContexts io) \<and> fc_events (m_fdContexts io ! i) \<noteq> 0
     then Some (EPOLLET OR fc_events (m_fdContexts io ! i)) else None)"

definition io_inv :: "'cb iomanager \<Rightarrow> bool" where
  "io_inv io \<longleftrightarrow> io_core io \<and> io_epoll io = interest io"

lemma sum_list_update_u64:
  "i < length xs \<Longrightarrow> sum_list (map f (xs[i := y])) = sum_list (map f xs) - f (xs ! i) + (f y :: u64)"
  by (induction xs arbitrary: i) (auto simp: nth_Cons split: nat.splits)

lemma io_core_put:
  assumes "io_core io" "i < length (m_fdContexts io)" "fdc_ok i c"
    "m_fdContexts io' = (m_fdContexts io)[i := c]"
    "m_pendingEventCount io' = m_pendingEventCount io - evcount (m_fdContexts io ! i) + evcount c"
  shows "io_core io'"
  using assms by (auto simp: io_core_def sum_list_update_u64 nth_list_update)

lemma event_cases:
  assumes "fdc_ok i c"
  obtains "fc_events c = 0" | "fc_events c = 1" | "fc_events c = 4" | "fc_events c = 5"
  using assms by (auto simp: fdc_ok_def event_defs)

section \<open>Triggering\<close>

definition task_of :: "'cb EventContext \<Rightarrow> nat \<times> 'cb FiberAndThread" where
  "task_of ctx = (the (ec_scheduler ctx),
     if ec_cb ctx \<noteq> None then FiberAndThread_cb (ec_cb ctx) (- 1) else FiberAndThread_fiber (ec_fiber ctx) (- 1))"

definition half :: "u32 \<Rightarrow> 'cb FdContext \<Rightarrow> 'cb EventContext" where
  "half event c = (if event = READ then fc_read c else fc_write c)"

lemma triggerEvent_ok:
  assumes "fdc_ok i c" "event = READ \<or> event = WRITE" "fc_events c AND event \<noteq> 0"
  shows "\<exists>c'. triggerEvent event c = Inr (task_of (half event c), c') \<and> fdc_ok i c' \<and>
     fc_events c' = fc_events c AND NOT event \<and> evcount c' = evcount c - 1 \<and>
     (\<forall>e. e \<noteq> event \<longrightarrow> (e = READ \<or> e = WRITE) \<longrightarrow> half e c' = half e c)"
proof -
  let ?ctx = "half event c"
  let ?c' = "setContext event empty_ctx (c\<lparr>fc_events := fc_events c AND NOT event\<rparr>)"
  have arm: "armed ?ctx" using assms unfolding fdc_ok_def half_ok_def half_def by metis
  have empty: "ec_cb ?ctx \<noteq> None \<Longrightarrow> ?ctx\<lparr>ec_cb := None, ec_scheduler := None\<rparr> = empty_ctx"
    "ec_cb ?ctx = None \<Longrightarrow> ?ctx\<lparr>ec_fiber := None, ec_scheduler := None\<rparr> = empty_ctx"
    using arm by (cases ?ctx; simp add: armed_def empty_ctx_def)+
  have get: "getContext event (c\<lparr>fc_events := fc_events c AND NOT event\<rparr>) = Inr ?ctx"
    using assms(2) by (auto simp: getContext_def half_def READ_def WRITE_def)
  obtain sch where "ec_scheduler ?ctx = Some sch" using arm by (auto simp: armed_def)
  then have "triggerEvent event c = Inr (task_of ?ctx, ?c')"
    using assms(3) empty unfolding triggerEvent_def Let_def get by (auto simp: task_of_def)
  moreover have "fdc_ok i ?c' \<and> evcount ?c' = evcount c - 1" (is ?P)
  proof (rule event_cases [OF assms(1)])
    show "fc_events c = 0 \<Longrightarrow> ?P" using assms(3) by simp
    show "fc_events c = 1 \<Longrightarrow> ?P" using assms
      by (elim disjE) (simp_all add: fdc_ok_def evcount_def setContext_def half_ok_def event_defs)
    show "fc_events c = 4 \<Longrightarrow> ?P" using assms
      by (elim disjE) (simp_all add: fdc_ok_def evcount_def setContext_def half_ok_def event_defs)
    show "fc_events c = 5 \<Longrightarrow> ?P" using assms
      by (elim disjE) (simp_all add: fdc_ok_def evcount_def setContext_def half_ok_def event_defs)
  qed
  moreover have "fc_events ?c' = fc_events c AND NOT event" by (simp add: setContext_def)
  moreover have "\<forall>e. e \<noteq> event \<longrightarrow> (e = READ \<or> e = WRITE) \<longrightarrow> half e ?c' = half e c"
    using assms(2) by (auto simp: half_def setContext_def)
  ultimately show ?thesis by blast
qed

lemma fire_ok:
  assumes "io_core io" "i < length (m_fdContexts io)" "event = READ \<or> event = WRITE"
    "fc_events (m_fdContexts io ! i) AND event \<noteq> 0"
  shows "\<exists>io' c'. fire i event io = (Inr (), io') \<and> io_core io' \<and>
     m_fdContexts io' = (m_fdContexts io)[i := c'] \<and> fc_events c' = fc_events (m_fdContexts io ! i) AND NOT event \<and>
     io_epoll io' = io_epoll io \<and> io_scheduled io' = io_scheduled io @ [task_of (half event (m_fdContexts io ! i))] \<and>
     m_pendingEventCount io' = m_pendingEventCount io - 1 \<and>
     (\<forall>e. e \<noteq> event \<longrightarrow> (e = READ \<or> e = WRITE) \<longrightarrow> half e c' = half e (m_fdContexts io ! i))"
proof -
  let ?c = "m_fdContexts io ! i"
  have "fdc_ok i ?c" using assms(1,2) by (simp add: io_core_def)
  from triggerEvent_ok [OF this assms(3,4)] obtain c' where c': "triggerEvent event ?c = Inr (task_of (half event ?c), c')"
    "fdc_ok i c'" "fc_events c' = fc_events ?c AND NOT event" "evcount c' = evcount ?c - 1"
    "\<forall>e. e \<noteq> event \<longrightarrow> (e = READ \<or> e = WRITE) \<longrightarrow> half e c' = half e ?c" by blast
  let ?io' = "io\<lparr>m_fdContexts := (m_fdContexts io)[i := c'], m_pendingEventCount := m_pendingEventCount io - 1,
      io_scheduled := io_scheduled io @ [task_of (half event ?c)]\<rparr>"
  have "fire i event io = (Inr (), ?io')" using c'(1) by (simp add: fire_def put_ctx_def Let_def)
  moreover have "io_core ?io'" by (rule io_core_put [OF assms(1,2) c'(2)]) (simp_all add: c'(4))
  ultimately show ?thesis using c' by (intro exI [of _ ?io'] exI [of _ c']) simp
qed

lemma interest_put:
  assumes "io_epoll io = interest io" "i < length (m_fdContexts io)"
    "m_fdContexts io' = (m_fdContexts io)[i := c]"
    "io_epoll io' = (io_epoll io)(i := if fc_events c = 0 then None else Some (EPOLLET OR fc_events c))"
  shows "io_epoll io' = interest io'"
  using assms by (auto simp: interest_def fun_eq_iff nth_list_update)

section \<open>The operations preserve the invariant\<close>

lemma contextResize_ok:
  assumes "io_inv io" "length (m_fdContexts io) \<le> n"
  shows "io_inv (contextResize n io)" "length (m_fdContexts (contextResize n io)) = n"
    "i < length (m_fdContexts io) \<Longrightarrow> m_fdContexts (contextResize n io) ! i = m_fdContexts io ! i"
proof -
  have new: "fdc_ok i (FdContext_new i)" "evcount (FdContext_new i) = 0" "fc_events (FdContext_new i) = 0" for i
    by (simp_all add: fdc_ok_def FdContext_new_def half_ok_def evcount_def NONE_def)
  have nth: "m_fdContexts (contextResize n io) ! i = (if i < length (m_fdContexts io) then m_fdContexts io ! i else FdContext_new i)"
    if "i < n" for i using that assms(2) by (simp add: contextResize_def nth_append)
  show len: "length (m_fdContexts (contextResize n io)) = n" using assms(2) by (simp add: contextResize_def)
  have zero: "sum_list (map evcount (map FdContext_new [a..<b])) = 0" for a b
    by (induction b) (auto simp: new)
  have "io_core (contextResize n io)"
    using assms new nth len zero [of "length (m_fdContexts io)" n]
    by (auto simp: io_inv_def io_core_def) (simp_all add: contextResize_def)
  moreover have "io_epoll (contextResize n io) = interest (contextResize n io)"
    using assms nth len new by (auto simp: io_inv_def interest_def fun_eq_iff) (auto simp: contextResize_def interest_def)
  ultimately show "io_inv (contextResize n io)" by (simp add: io_inv_def)
  show "i < length (m_fdContexts io) \<Longrightarrow> m_fdContexts (contextResize n io) ! i = m_fdContexts io ! i"
    using nth assms(2) by simp
qed

lemma io_inv_new: "io_inv IOManager_new"
proof -
  let ?io = "\<lparr>m_fdContexts = [], m_pendingEventCount = 0, io_epoll = (\<lambda>_. None), io_scheduled = []\<rparr>"
  have "io_inv ?io" by (simp add: io_inv_def io_core_def interest_def fun_eq_iff)
  from contextResize_ok(1) [OF this, of 32] show ?thesis by (simp add: IOManager_new_def)
qed

lemma io_inv_nth: "io_inv io \<Longrightarrow> i < length (m_fdContexts io) \<Longrightarrow> fdc_ok i (m_fdContexts io ! i)"
  by (simp add: io_inv_def io_core_def)

text \<open>Replacing a context together with its interest mask and its share of the counter.\<close>

lemma io_inv_put:
  assumes "io_inv io" "i < length (m_fdContexts io)" "fdc_ok i c"
    "m_fdContexts io' = (m_fdContexts io)[i := c]"
    "m_pendingEventCount io' = m_pendingEventCount io - evcount (m_fdContexts io ! i) + evcount c"
    "io_epoll io' = (io_epoll io)(i := if fc_events c = 0 then None else Some (EPOLLET OR fc_events c))"
  shows "io_inv io'"
  using io_core_put [OF _ assms(2-5)] interest_put [OF _ assms(2,4,6)] assms(1) by (simp add: io_inv_def)

definition event_ctx :: "nat option \<Rightarrow> nat \<Rightarrow> 'cb option \<Rightarrow> 'cb EventContext" where
  "event_ctx sched f cb = \<lparr>ec_scheduler = sched, ec_fiber = (if cb = None then Some f else None), ec_cb = cb\<rparr>"

lemma fdc_add:
  assumes "fdc_ok i c" "event = READ \<or> event = WRITE" "fc_events c AND event = 0" "armed ctx"
  shows "fdc_ok i (setContext event ctx (c\<lparr>fc_events := fc_events c OR event\<rparr>)) \<and>
    evcount (setContext event ctx (c\<lparr>fc_events := fc_events c OR event\<rparr>)) = evcount c + 1 \<and>
    fc_events c OR event \<noteq> 0" (is ?P)
proof (rule event_cases [OF assms(1)])
  show "fc_events c = 0 \<Longrightarrow> ?P" using assms
    by (elim disjE) (simp_all add: fdc_ok_def evcount_def setContext_def half_ok_def event_defs)
  show "fc_events c = 1 \<Longrightarrow> ?P" using assms
    by (elim disjE) (simp_all add: fdc_ok_def evcount_def setContext_def half_ok_def event_defs)
  show "fc_events c = 4 \<Longrightarrow> ?P" using assms
    by (elim disjE) (simp_all add: fdc_ok_def evcount_def setContext_def half_ok_def event_defs)
  show "fc_events c = 5 \<Longrightarrow> ?P" using assms
    by (elim disjE) (simp_all add: event_defs)
qed

lemma half_unregistered:
  assumes "fdc_ok i c" "event = READ \<or> event = WRITE" "fc_events c AND event = 0"
  shows "half event c = empty_ctx"
  using assms unfolding fdc_ok_def half_ok_def half_def by metis

lemma getContext_half:
  "event = READ \<or> event = WRITE \<Longrightarrow> getContext event c = Inr (half event c)"
  by (auto simp: getContext_def half_def READ_def WRITE_def)

text \<open>\<^verbatim>\<open>addEvent\<close> on a descriptor the vector can hold, possibly after one resize.\<close>

lemma addEvent_ok:
  assumes inv: "io_inv io" and ev: "event = READ \<or> event = WRITE"
    and fd: "0 \<le> fd" "fd < max (int (length (m_fdContexts io))) (int (length (m_fdContexts io) * 3 div 2))"
    and env: "this_sched = Some sch" "this_fiber = (f, True)"
  defines "io1 \<equiv> if fd < int (length (m_fdContexts io)) then io else contextResize (length (m_fdContexts io) * 3 div 2) io"
  defines "c \<equiv> m_fdContexts io1 ! nat fd"
  shows "io_inv io1 \<and>
    (if fc_events c AND event \<noteq> 0 then addEvent ctl_ok this_sched this_fiber fd event cb io = (Inl Assertion, io1)
     else if \<not> ctl_ok then addEvent ctl_ok this_sched this_fiber fd event cb io = (Inr (- 1), io1)
     else \<exists>io'. addEvent ctl_ok this_sched this_fiber fd event cb io = (Inr 0, io') \<and> io_inv io' \<and>
       io_scheduled io' = io_scheduled io \<and> m_pendingEventCount io' = m_pendingEventCount io + 1 \<and>
       m_fdContexts io' = (m_fdContexts io1)[nat fd :=
         setContext event (event_ctx (Some sch) f cb) (c\<lparr>fc_events := fc_events c OR event\<rparr>)])"
proof -
  let ?n = "length (m_fdContexts io)"
  have inv1: "io_inv io1" and len: "fd < int (length (m_fdContexts io1))"
    using inv fd contextResize_ok(1,2) [OF inv, of "?n * 3 div 2"] by (auto simp: io1_def)
  have same: "m_pendingEventCount io1 = m_pendingEventCount io" "io_scheduled io1 = io_scheduled io"
    by (simp_all add: io1_def contextResize_def)
  have i: "nat fd < length (m_fdContexts io1)" using len fd(1) by simp
  have c: "fdc_ok (nat fd) c" using io_inv_nth [OF inv1 i] by (simp add: c_def)
  have start: "(if 0 \<le> fd \<and> fd < int ?n then io else contextResize (?n * 3 div 2) io) = io1"
    using fd(1) by (simp add: io1_def)
  consider "fc_events c AND event \<noteq> 0" | "fc_events c AND event = 0" "\<not> ctl_ok" | "fc_events c AND event = 0" ctl_ok by blast
  then show ?thesis
  proof cases
    case 1
    then show ?thesis using inv1 fd(1) len unfolding addEvent_def Let_def start c_def by simp
  next
    case 2
    then show ?thesis using inv1 fd(1) len unfolding addEvent_def Let_def start c_def by simp
  next
    case 3
    let ?c' = "setContext event (event_ctx (Some sch) f cb) (c\<lparr>fc_events := fc_events c OR event\<rparr>)"
    let ?io' = "put_ctx (nat fd) ?c' ((epoll_set (nat fd) (fc_events c OR event) io1)\<lparr>m_pendingEventCount := m_pendingEventCount io1 + 1\<rparr>)"
    have halfc: "half event (c\<lparr>fc_events := fc_events c OR event\<rparr>) = empty_ctx"
      using half_unregistered [OF c ev 3(1)] by (auto simp: half_def split: if_splits)
    have run: "addEvent ctl_ok this_sched this_fiber fd event cb io = (Inr 0, ?io')"
      using fd(1) len 3 env halfc unfolding addEvent_def Let_def start c_def [symmetric] getContext_half [OF ev]
      by (cases cb) (simp_all add: empty_ctx_def event_ctx_def put_ctx_def epoll_set_def)
    have arm: "armed (event_ctx (Some sch) f cb)" by (simp add: armed_def event_ctx_def)
    note add = fdc_add [OF c ev 3(1) arm]
    have "io_inv ?io'"
    proof (rule io_inv_put [OF inv1 i])
      show "fdc_ok (nat fd) ?c'" using add by blast
      show "m_pendingEventCount ?io' = m_pendingEventCount io1 - evcount (m_fdContexts io1 ! nat fd) + evcount ?c'"
        using add by (simp add: put_ctx_def c_def)
      show "io_epoll ?io' = (io_epoll io1)(nat fd := if fc_events ?c' = 0 then None else Some (EPOLLET OR fc_events ?c'))"
        by (simp add: put_ctx_def epoll_set_def setContext_def)
    qed (simp add: put_ctx_def epoll_set_def)
    then show ?thesis using run 3 inv1 same by (simp add: put_ctx_def epoll_set_def)
  qed
qed

lemma fdc_del:
  assumes "fdc_ok i c" "event = READ \<or> event = WRITE" "fc_events c AND event \<noteq> 0"
  shows "fdc_ok i (setContext event empty_ctx (c\<lparr>fc_events := fc_events c AND NOT event\<rparr>)) \<and>
    evcount (setContext event empty_ctx (c\<lparr>fc_events := fc_events c AND NOT event\<rparr>)) = evcount c - 1" (is ?P)
proof (rule event_cases [OF assms(1)])
  show "fc_events c = 0 \<Longrightarrow> ?P" using assms by (elim disjE) (simp_all add: event_defs)
  show "fc_events c = 1 \<Longrightarrow> ?P" using assms
    by (elim disjE) (simp_all add: fdc_ok_def evcount_def setContext_def half_ok_def event_defs)
  show "fc_events c = 4 \<Longrightarrow> ?P" using assms
    by (elim disjE) (simp_all add: fdc_ok_def evcount_def setContext_def half_ok_def event_defs)
  show "fc_events c = 5 \<Longrightarrow> ?P" using assms
    by (elim disjE) (simp_all add: fdc_ok_def evcount_def setContext_def half_ok_def event_defs)
qed

lemma resetContext_empty [simp]: "resetContext ctx = empty_ctx"
  by (cases ctx) (simp add: resetContext_def empty_ctx_def)

lemma delEvent_inv:
  assumes inv: "io_inv io" and ev: "event = READ \<or> event = WRITE"
  shows "\<exists>b io'. delEvent ctl_ok fd event io = (Inr b, io') \<and> io_inv io' \<and> io_scheduled io' = io_scheduled io"
proof (cases "0 \<le> fd \<and> fd < int (length (m_fdContexts io)) \<and> fc_events (m_fdContexts io ! nat fd) AND event \<noteq> 0 \<and> ctl_ok")
  case False
  then show ?thesis using inv by (auto simp: delEvent_def Let_def)
next
  case True
  then have i: "nat fd < length (m_fdContexts io)" by linarith
  let ?c = "m_fdContexts io ! nat fd"
  let ?c' = "setContext event empty_ctx (?c\<lparr>fc_events := fc_events ?c AND NOT event\<rparr>)"
  let ?io' = "put_ctx (nat fd) ?c' ((epoll_set (nat fd) (fc_events ?c AND NOT event) io)\<lparr>m_pendingEventCount := m_pendingEventCount io - 1\<rparr>)"
  note del = fdc_del [OF io_inv_nth [OF inv i] ev]
  have "delEvent ctl_ok fd event io = (Inr True, ?io')"
    using True unfolding delEvent_def Let_def getContext_half [OF ev] by (simp add: epoll_set_def)
  moreover have "io_inv ?io'"
  proof (rule io_inv_put [OF inv i])
    show "fdc_ok (nat fd) ?c'" using del True by blast
    show "m_pendingEventCount ?io' = m_pendingEventCount io - evcount ?c + evcount ?c'"
      using del True by (simp add: put_ctx_def)
    show "io_epoll ?io' = (io_epoll io)(nat fd := if fc_events ?c' = 0 then None else Some (EPOLLET OR fc_events ?c'))"
      by (simp add: put_ctx_def epoll_set_def setContext_def)
  qed (simp add: put_ctx_def epoll_set_def)
  ultimately show ?thesis by (auto simp: put_ctx_def epoll_set_def)
qed

section \<open>Cancelling and readiness\<close>

definition fire_if :: "bool \<Rightarrow> nat \<Rightarrow> u32 \<Rightarrow> ('cb iomanager, unit) eff" where
  "fire_if b i event io = (if b then fire i event io else (Inr (), io))"

definition fired :: "bool \<Rightarrow> bool \<Rightarrow> 'cb FdContext \<Rightarrow> (nat \<times> 'cb FiberAndThread) list" where
  "fired r w c = (if r then [task_of (fc_read c)] else []) @ (if w then [task_of (fc_write c)] else [])"

definition remaining_events :: "bool \<Rightarrow> bool \<Rightarrow> u32 \<Rightarrow> u32" where
  "remaining_events r w e = (e AND NOT (if r then READ else 0)) AND NOT (if w then WRITE else 0)"

lemma half_simps [simp]: "half READ c = fc_read c" "half WRITE c = fc_write c"
  by (simp_all add: half_def READ_def WRITE_def)

lemma fire_if_ok:
  assumes "io_core io" "i < length (m_fdContexts io)" "event = READ \<or> event = WRITE"
    "b \<Longrightarrow> fc_events (m_fdContexts io ! i) AND event \<noteq> 0"
  shows "\<exists>io' c'. fire_if b i event io = (Inr (), io') \<and> io_core io' \<and> m_fdContexts io' = (m_fdContexts io)[i := c'] \<and>
     fc_events c' = fc_events (m_fdContexts io ! i) AND NOT (if b then event else 0) \<and> io_epoll io' = io_epoll io \<and>
     io_scheduled io' = io_scheduled io @ (if b then [task_of (half event (m_fdContexts io ! i))] else []) \<and>
     m_pendingEventCount io' = m_pendingEventCount io - of_bool b \<and>
     (\<forall>e. e \<noteq> event \<longrightarrow> (e = READ \<or> e = WRITE) \<longrightarrow> half e c' = half e (m_fdContexts io ! i))"
proof (cases b)
  case True
  then show ?thesis using fire_ok [OF assms(1-3)] assms(4) by (auto simp: fire_if_def)
next
  case False
  have id: "(m_fdContexts io)[i := m_fdContexts io ! i] = m_fdContexts io" by simp
  show ?thesis using False assms(1)
    by (intro exI [of _ io] exI [of _ "m_fdContexts io ! i"]) (simp add: fire_if_def)
qed

text \<open>Firing the reading and then the writing event of one descriptor.\<close>

lemma fire_pair_ok:
  assumes core: "io_core io" and i: "i < length (m_fdContexts io)"
    and r: "r \<Longrightarrow> fc_events (m_fdContexts io ! i) AND READ \<noteq> 0"
    and w: "w \<Longrightarrow> fc_events (m_fdContexts io ! i) AND WRITE \<noteq> 0"
  shows "\<exists>io1 io' c'. fire_if r i READ io = (Inr (), io1) \<and> fire_if w i WRITE io1 = (Inr (), io') \<and>
     fc_events (m_fdContexts io1 ! i) = fc_events (m_fdContexts io ! i) AND NOT (if r then READ else 0) \<and>
     io_core io' \<and> m_fdContexts io' = (m_fdContexts io)[i := c'] \<and>
     fc_events c' = remaining_events r w (fc_events (m_fdContexts io ! i)) \<and> io_epoll io' = io_epoll io \<and>
     io_scheduled io' = io_scheduled io @ fired r w (m_fdContexts io ! i) \<and>
     m_pendingEventCount io' = m_pendingEventCount io - of_bool r - of_bool w"
proof -
  let ?c = "m_fdContexts io ! i"
  obtain io1 c1 where 1: "fire_if r i READ io = (Inr (), io1)" "io_core io1" "m_fdContexts io1 = (m_fdContexts io)[i := c1]"
    "fc_events c1 = fc_events ?c AND NOT (if r then READ else 0)" "io_epoll io1 = io_epoll io"
    "io_scheduled io1 = io_scheduled io @ (if r then [task_of (fc_read ?c)] else [])"
    "m_pendingEventCount io1 = m_pendingEventCount io - of_bool r" "fc_write c1 = fc_write ?c"
    using fire_if_ok [OF core i, of READ r] r by (auto simp: half_def READ_def WRITE_def)
  have nth: "m_fdContexts io1 ! i = c1" "i < length (m_fdContexts io1)" using 1(3) i by simp_all
  have keep: "fc_events c1 AND WRITE = fc_events ?c AND WRITE"
    unfolding 1(4) by (auto simp: READ_def WRITE_def and.assoc)
  obtain io' c' where 2: "fire_if w i WRITE io1 = (Inr (), io')" "io_core io'" "m_fdContexts io' = (m_fdContexts io1)[i := c']"
    "fc_events c' = fc_events c1 AND NOT (if w then WRITE else 0)" "io_epoll io' = io_epoll io1"
    "io_scheduled io' = io_scheduled io1 @ (if w then [task_of (fc_write c1)] else [])"
    "m_pendingEventCount io' = m_pendingEventCount io1 - of_bool w"
    using fire_if_ok [OF 1(2) nth(2), of WRITE w, unfolded nth(1)] w unfolding keep half_simps by blast
  show ?thesis
    using 1 2 nth by (intro exI [of _ io1] exI [of _ io'] exI [of _ c']) (simp add: remaining_events_def fired_def)
qed

lemma epoll_set_core:
  "io_core (epoll_set i e io) = io_core io" "m_fdContexts (epoll_set i e io) = m_fdContexts io"
  "m_pendingEventCount (epoll_set i e io) = m_pendingEventCount io" "io_scheduled (epoll_set i e io) = io_scheduled io"
  by (simp_all add: epoll_set_def io_core_def)

lemma io_inv_fired:
  assumes "io_inv io" "i < length (m_fdContexts io)" "io_core io'" "m_fdContexts io' = (m_fdContexts io)[i := c']"
    "io_epoll io' = io_epoll (epoll_set i (fc_events c') io)"
  shows "io_inv io'"
  using assms interest_put [OF _ assms(2,4)] by (simp add: io_inv_def epoll_set_def)

lemma cancelEvent_ok:
  assumes inv: "io_inv io" and ev: "event = READ \<or> event = WRITE"
  shows "\<exists>io'. cancelEvent ctl_ok fd event io =
     (Inr (0 \<le> fd \<and> fd < int (length (m_fdContexts io)) \<and> fc_events (m_fdContexts io ! nat fd) AND event \<noteq> 0 \<and> ctl_ok), io') \<and>
     io_inv io' \<and>
     (if 0 \<le> fd \<and> fd < int (length (m_fdContexts io)) \<and> fc_events (m_fdContexts io ! nat fd) AND event \<noteq> 0 \<and> ctl_ok
      then io_scheduled io' = io_scheduled io @ [task_of (half event (m_fdContexts io ! nat fd))] \<and>
        m_pendingEventCount io' = m_pendingEventCount io - 1 \<and>
        (\<exists>c'. m_fdContexts io' = (m_fdContexts io)[nat fd := c'] \<and> fc_events c' = fc_events (m_fdContexts io ! nat fd) AND NOT event)
      else io' = io)" (is "\<exists>io'. _ = (Inr ?hit, io') \<and> _ \<and> _ io'")
proof (cases ?hit)
  case False
  then show ?thesis using inv by (auto simp: cancelEvent_def Let_def)
next
  case True
  then have i: "nat fd < length (m_fdContexts io)" by linarith
  let ?io0 = "epoll_set (nat fd) (fc_events (m_fdContexts io ! nat fd) AND NOT event) io"
  have "io_core ?io0" using inv by (simp add: io_inv_def epoll_set_core)
  from fire_ok [OF this _ ev, of "nat fd"] i True obtain io' c' where
    f: "fire (nat fd) event ?io0 = (Inr (), io')" "io_core io'" "m_fdContexts io' = (m_fdContexts io)[nat fd := c']"
    "fc_events c' = fc_events (m_fdContexts io ! nat fd) AND NOT event" "io_epoll io' = io_epoll ?io0"
    "io_scheduled io' = io_scheduled io @ [task_of (half event (m_fdContexts io ! nat fd))]"
    "m_pendingEventCount io' = m_pendingEventCount io - 1"
    by (auto simp: epoll_set_core)
  have "cancelEvent ctl_ok fd event io = (Inr True, io')"
    using True f(1) by (auto simp: cancelEvent_def Let_def eff_bind_def)
  moreover have "io_inv io'" using io_inv_fired [OF inv i f(2,3)] f(4,5) by simp
  ultimately show ?thesis using True f by auto
qed

lemma events_remaining_none:
  "fdc_ok i c \<Longrightarrow> remaining_events (fc_events c AND READ \<noteq> 0) (fc_events c AND WRITE \<noteq> 0) (fc_events c) = 0"
  by (erule event_cases) (simp_all add: remaining_events_def READ_def WRITE_def)

lemma and_not_read_write: "(e AND NOT (if r then READ else 0)) AND WRITE = e AND WRITE"
  by (auto simp: READ_def WRITE_def and.assoc)

lemma cancelAll_ok:
  assumes inv: "io_inv io"
  shows "\<exists>io'. cancelAll ctl_ok fd io =
     (Inr (0 \<le> fd \<and> fd < int (length (m_fdContexts io)) \<and> fc_events (m_fdContexts io ! nat fd) \<noteq> 0 \<and> ctl_ok), io') \<and>
     io_inv io' \<and>
     (if 0 \<le> fd \<and> fd < int (length (m_fdContexts io)) \<and> fc_events (m_fdContexts io ! nat fd) \<noteq> 0 \<and> ctl_ok
      then io_scheduled io' = io_scheduled io @ fired (fc_events (m_fdContexts io ! nat fd) AND READ \<noteq> 0)
             (fc_events (m_fdContexts io ! nat fd) AND WRITE \<noteq> 0) (m_fdContexts io ! nat fd) \<and>
        fc_events (m_fdContexts io' ! nat fd) = 0
      else io' = io)" (is "\<exists>io'. _ = (Inr ?hit, io') \<and> _ \<and> _ io'")
proof (cases ?hit)
  case False
  then show ?thesis using inv by (auto simp: cancelAll_def Let_def)
next
  case True
  then have i: "nat fd < length (m_fdContexts io)" by linarith
  let ?c = "m_fdContexts io ! nat fd" and ?io0 = "epoll_set (nat fd) 0 io"
  have "io_core ?io0" using inv by (simp add: io_inv_def epoll_set_core)
  from fire_pair_ok [OF this, of "nat fd" "fc_events ?c AND READ \<noteq> 0" "fc_events ?c AND WRITE \<noteq> 0"] i
  obtain io1 io' c' where
    f: "fire_if (fc_events ?c AND READ \<noteq> 0) (nat fd) READ ?io0 = (Inr (), io1)"
    "fire_if (fc_events ?c AND WRITE \<noteq> 0) (nat fd) WRITE io1 = (Inr (), io')"
    "fc_events (m_fdContexts io1 ! nat fd) = fc_events ?c AND NOT (if fc_events ?c AND READ \<noteq> 0 then READ else 0)"
    "io_core io'" "m_fdContexts io' = (m_fdContexts io)[nat fd := c']" "io_epoll io' = io_epoll ?io0"
    "fc_events c' = remaining_events (fc_events ?c AND READ \<noteq> 0) (fc_events ?c AND WRITE \<noteq> 0) (fc_events ?c)"
    "io_scheduled io' = io_scheduled io @ fired (fc_events ?c AND READ \<noteq> 0) (fc_events ?c AND WRITE \<noteq> 0) ?c"
    by (auto simp: epoll_set_core)
  have none: "fc_events c' = 0" using f(7) events_remaining_none [OF io_inv_nth [OF inv i]] by simp
  have w: "fc_events (m_fdContexts io1 ! nat fd) AND WRITE = fc_events ?c AND WRITE"
    unfolding f(3) by (rule and_not_read_write)
  have "cancelAll ctl_ok fd io = (Inr True, io')"
    using True f(1,2,5) none w i
    by (auto simp: cancelAll_def Let_def eff_bind_def epoll_set_core fire_if_def split: if_splits)
  moreover have "io_inv io'" using io_inv_fired [OF inv i f(4,5)] f(6) none by simp
  ultimately show ?thesis using True f(5,8) none i by auto
qed

text \<open>
  Readiness of a descriptor.  \<open>ready_read\<close> and \<open>ready_write\<close> are what the loop computes from the
  returned mask; it is safe when they are registered, which holds unless another thread
  removed one of them after \<^verbatim>\<open>epoll_wait\<close> returned.
\<close>

definition effective :: "u32 \<Rightarrow> u32 \<Rightarrow> u32" where
  "effective revents events =
     (if revents AND (EPOLLERR OR EPOLLHUP) \<noteq> 0 then revents OR ((EPOLLIN OR EPOLLOUT) AND events) else revents)"

definition ready_read :: "u32 \<Rightarrow> u32 \<Rightarrow> bool" where
  "ready_read revents events \<longleftrightarrow> effective revents events AND EPOLLIN \<noteq> 0"

definition ready_write :: "u32 \<Rightarrow> u32 \<Rightarrow> bool" where
  "ready_write revents events \<longleftrightarrow> effective revents events AND EPOLLOUT \<noteq> 0"

lemma process_event_ok:
  fixes io :: "'cb iomanager" and revents :: u32
  assumes inv: "io_inv io" and i: "i < length (m_fdContexts io)"
  defines "c \<equiv> m_fdContexts io ! i"
  defines "r \<equiv> ready_read revents (fc_events c)" and "w \<equiv> ready_write revents (fc_events c)"
  assumes safe: "r \<Longrightarrow> fc_events c AND READ \<noteq> 0" "w \<Longrightarrow> fc_events c AND WRITE \<noteq> 0"
  shows "\<exists>io'. process_event True i revents io = (Inr (), io') \<and> io_inv io' \<and>
    io_scheduled io' = io_scheduled io @ fired r w c \<and>
    m_pendingEventCount io' = m_pendingEventCount io - of_bool r - of_bool w \<and>
    fc_events (m_fdContexts io' ! i) = remaining_events r w (fc_events c)"
proof -
  let ?real = "(if r then READ else NONE) OR (if w then WRITE else NONE)"
  have real: "?real AND READ \<noteq> 0 \<longleftrightarrow> r" "?real AND WRITE \<noteq> 0 \<longleftrightarrow> w"
    by (auto simp: event_defs)
  have hit: "fc_events c AND ?real = NONE \<longleftrightarrow> \<not> r \<and> \<not> w"
    by (rule event_cases [of i c]) (use inv i safe in \<open>auto simp: c_def io_inv_nth event_defs split: if_splits\<close>)
  have left_eq: "fc_events c AND NOT ?real = remaining_events r w (fc_events c)"
    by (auto simp: remaining_events_def event_defs and.assoc)
  have start: "process_event True i revents io =
     (if fc_events c AND ?real = NONE then (Inr (), io)
      else eff_bind (fire_if (?real AND READ \<noteq> 0) i READ) (\<lambda>_. fire_if (?real AND WRITE \<noteq> 0) i WRITE)
             (epoll_set i (fc_events c AND NOT ?real) io))"
    unfolding process_event_def Let_def r_def w_def c_def ready_read_def ready_write_def effective_def fire_if_def [abs_def]
    by simp
  show ?thesis
  proof (cases "r \<or> w")
    case False
    then show ?thesis using inv start hit by (simp add: c_def fired_def remaining_events_def)
  next
    case True
    let ?io0 = "epoll_set i (remaining_events r w (fc_events c)) io"
    have "io_core ?io0" using inv by (simp add: io_inv_def epoll_set_core)
    from fire_pair_ok [OF this, of i r w] i safe obtain io1 io' c' where
      f: "fire_if r i READ ?io0 = (Inr (), io1)" "fire_if w i WRITE io1 = (Inr (), io')" "io_core io'"
      "m_fdContexts io' = (m_fdContexts io)[i := c']" "fc_events c' = remaining_events r w (fc_events c)"
      "io_epoll io' = io_epoll ?io0" "io_scheduled io' = io_scheduled io @ fired r w c"
      "m_pendingEventCount io' = m_pendingEventCount io - of_bool r - of_bool w"
      by (auto simp: epoll_set_core c_def)
    have "process_event True i revents io = (Inr (), io')"
      using True f(1,2) unfolding start real hit left_eq by (auto simp: eff_bind_def)
    moreover have "io_inv io'" using io_inv_fired [OF inv i f(3,4)] f(5,6) by simp
    ultimately show ?thesis using f i by auto
  qed
qed

text \<open>An event that is no longer registered fails the assertion of \<^verbatim>\<open>triggerEvent\<close>.\<close>

lemma fire_unregistered:
  "fc_events (m_fdContexts io ! i) AND event = 0 \<Longrightarrow> fire i event io = (Inl Assertion, io)"
  by (simp add: fire_def triggerEvent_def)

lemma process_event_cases:
  fixes io :: "'cb iomanager" and revents :: u32
  assumes inv: "io_inv io" and i: "i < length (m_fdContexts io)"
  defines "c \<equiv> m_fdContexts io ! i"
  defines "r \<equiv> ready_read revents (fc_events c)" and "w \<equiv> ready_write revents (fc_events c)"
  shows "if (r \<and> fc_events c AND READ \<noteq> 0) \<or> (w \<and> fc_events c AND WRITE \<noteq> 0)
    then if (r \<longrightarrow> fc_events c AND READ \<noteq> 0) \<and> (w \<longrightarrow> fc_events c AND WRITE \<noteq> 0)
      then \<exists>io'. process_event True i revents io = (Inr (), io') \<and> io_inv io' \<and>
        io_scheduled io' = io_scheduled io @ fired r w c \<and>
        m_pendingEventCount io' = m_pendingEventCount io - of_bool r - of_bool w \<and>
        fc_events (m_fdContexts io' ! i) = remaining_events r w (fc_events c)
      else fst (process_event True i revents io) = Inl Assertion
    else process_event True i revents io = (Inr (), io)"
proof -
  let ?real = "(if r then READ else NONE) OR (if w then WRITE else NONE)"
  have real: "?real AND READ \<noteq> 0 \<longleftrightarrow> r" "?real AND WRITE \<noteq> 0 \<longleftrightarrow> w" by (auto simp: event_defs)
  have ok: "fdc_ok i c" using inv i by (simp add: c_def io_inv_nth)
  have hit: "fc_events c AND ?real \<noteq> NONE \<longleftrightarrow> (r \<and> fc_events c AND READ \<noteq> 0) \<or> (w \<and> fc_events c AND WRITE \<noteq> 0)"
    by (rule event_cases [OF ok]) (auto simp: event_defs)
  have start: "process_event True i revents io =
     (if fc_events c AND ?real = NONE then (Inr (), io)
      else eff_bind (fire_if (?real AND READ \<noteq> 0) i READ) (\<lambda>_. fire_if (?real AND WRITE \<noteq> 0) i WRITE)
             (epoll_set i (fc_events c AND NOT ?real) io))"
    unfolding process_event_def Let_def r_def w_def c_def ready_read_def ready_write_def effective_def fire_if_def [abs_def]
    by simp
  let ?io0 = "epoll_set i (fc_events c AND NOT ?real) io"
  have c0: "m_fdContexts ?io0 ! i = c" by (simp add: epoll_set_core c_def)
  have stale: "fst (process_event True i revents io) = Inl Assertion"
    if h: "fc_events c AND ?real \<noteq> NONE" and bad: "(r \<and> fc_events c AND READ = 0) \<or> (w \<and> fc_events c AND WRITE = 0)"
  proof (cases "r \<and> fc_events c AND READ = 0")
    case True
    then show ?thesis using h fire_unregistered [of ?io0 i READ] unfolding start real c0
      by (simp add: eff_bind_def fire_if_def)
  next
    case False
    have "io_core ?io0" using inv by (simp add: io_inv_def epoll_set_core)
    then obtain io1 c1 where 1: "fire_if r i READ ?io0 = (Inr (), io1)" "m_fdContexts io1 = (m_fdContexts ?io0)[i := c1]"
      "fc_events c1 = fc_events c AND NOT (if r then READ else 0)"
      using fire_if_ok [of ?io0 i READ r] i False c0 by (auto simp: epoll_set_core)
    have "m_fdContexts io1 ! i = c1" using 1(2) i by (simp add: epoll_set_core)
    then have "fc_events (m_fdContexts io1 ! i) AND WRITE = 0" using 1(3) and_not_read_write bad False by metis
    then have "fire_if w i WRITE io1 = (Inl Assertion, io1)"
      using bad False fire_unregistered [of io1 i WRITE] by (auto simp: fire_if_def)
    moreover have "process_event True i revents io = eff_bind (fire_if r i READ) (\<lambda>_. fire_if w i WRITE) ?io0"
      unfolding start real using h by simp
    ultimately show ?thesis using 1(1) by (simp only: eff_bind_def prod.case sum.case fst_conv)
  qed
  show ?thesis
    using process_event_ok [OF inv i, of revents, folded c_def, folded r_def w_def] stale hit start by auto
qed

section \<open>Reachable states\<close>

inductive io_step :: "'cb iomanager \<Rightarrow> 'cb iomanager \<Rightarrow> bool" where
  add: "event = READ \<or> event = WRITE \<Longrightarrow> 0 \<le> fd \<Longrightarrow>
     fd < max (int (length (m_fdContexts io))) (int (length (m_fdContexts io) * 3 div 2)) \<Longrightarrow>
     addEvent ctl_ok (Some sch) (f, True) fd event cb io = (Inr rt, io') \<Longrightarrow> io_step io io'"
| del: "event = READ \<or> event = WRITE \<Longrightarrow> delEvent ctl_ok fd event io = (Inr b, io') \<Longrightarrow> io_step io io'"
| cancel_one: "event = READ \<or> event = WRITE \<Longrightarrow> cancelEvent ctl_ok fd event io = (Inr b, io') \<Longrightarrow> io_step io io'"
| cancel_all: "cancelAll ctl_ok fd io = (Inr b, io') \<Longrightarrow> io_step io io'"
| ready: "i < length (m_fdContexts io) \<Longrightarrow> process_event ctl_ok i revents io = (Inr (), io') \<Longrightarrow> io_step io io'"

definition io_init :: "'cb iomanager \<Rightarrow> bool" where
  "io_init io \<longleftrightarrow> io = IOManager_new"

lemma io_step_inv: "io_step io io' \<Longrightarrow> io_inv io \<Longrightarrow> io_inv io'"
proof (induction rule: io_step.induct)
  case (add event fd io ctl_ok sch f cb rt io')
  then show ?case using addEvent_ok [OF add.prems add.hyps(1-3), of "Some sch" sch "(f, True)" f ctl_ok cb]
    by (auto split: if_splits)
next
  case (del event ctl_ok fd io b io')
  then show ?case using delEvent_inv [OF del.prems del.hyps(1), of ctl_ok fd] by auto
next
  case (cancel_one event ctl_ok fd io b io')
  then show ?case using cancelEvent_ok [OF cancel_one.prems cancel_one.hyps(1), of ctl_ok fd] by auto
next
  case (cancel_all ctl_ok fd io b io')
  then show ?case using cancelAll_ok [OF cancel_all.prems, of ctl_ok fd] by auto
next
  case (ready i io ctl_ok revents io')
  show ?case
  proof (cases ctl_ok)
    case True
    then show ?thesis using process_event_cases [OF ready.prems ready.hyps(1), of revents] ready.hyps(2) ready.prems
      by (auto split: if_splits)
  next
    case False
    then have "io' = io" using ready.hyps(2) by (auto simp: process_event_def Let_def split: if_splits)
    then show ?thesis using ready.prems by simp
  qed
qed

interpretation io_system: invariant_system io_init io_step io_inv
  by unfold_locales (simp_all add: io_init_def io_inv_new io_step_inv)

section \<open>The idle timeout\<close>

lemma idle_timeout_bounds:
  assumes "t < 2 ^ 31 \<or> t = - 1"
  shows "0 \<le> idle_timeout t \<and> idle_timeout t \<le> 3000 \<and> (t \<le> 3000 \<longrightarrow> idle_timeout t = uint t)"
proof (cases "t = - 1")
  case True
  moreover have "\<not> (- 1 :: u64) \<le> 3000" by code_simp
  ultimately show ?thesis by (simp add: idle_timeout_def MAX_TIMEOUT_def)
next
  case False
  then have lt: "uint t < 2 ^ 31" using assms by (simp add: word_less_def)
  have u: "uint (ucast t :: u32) = uint t"
    using lt by (simp add: unsigned_ucast_eq take_bit_int_eq_self_iff)
  then have s: "sint (ucast t :: u32) = uint t"
    using lt order_trans [OF _ uint_ge_0, of "- 2147483648" t] by (simp add: sint_uint signed_take_bit_int_eq_self_iff)
  show ?thesis using False s by (simp add: idle_timeout_def MAX_TIMEOUT_def word_le_def)
qed

end
