(* ===== verification/Fd_Manager.thy ===== *)
theory Fd_Manager
  imports Linko_Prelude
begin

unbundle bit_operations_syntax

text \<open>
  File descriptor contexts of \<^verbatim>\<open>linko/fd_manager.{h,cc}\<close>.  The contexts are objects in a store, the
  manager's vector holds their addresses.  The kernel is what \<^verbatim>\<open>fstat\<close> says about a descriptor,
  the descriptor's status flags, which \<^verbatim>\<open>fcntl\<close> reads, and a function for what \<^verbatim>\<open>F_SETFL\<close> does to them:
  from the descriptor, the present flags and the argument it makes the new flags, or refuses.
\<close>

section \<open>State\<close>

record kernel =
  k_stat :: "int \<Rightarrow> bool option"
  k_flags :: "int \<Rightarrow> u32"
  k_setfl :: "int \<Rightarrow> u32 \<Rightarrow> u32 \<Rightarrow> u32 option"

definition O_NONBLOCK :: u32 where
  "O_NONBLOCK = 0x800"

record fdctx =
  m_isInit :: bool
  m_isSocket :: bool
  m_sysNonblock :: bool
  m_userNonblock :: bool
  m_isClosed :: bool
  m_fd :: int
  m_recvTimeout :: u64
  m_sendTimeout :: u64

record fd_manager =
  fm_store :: "nat \<Rightarrow> fdctx option"
  m_datas :: "nat option list"

text \<open>\<^verbatim>\<open>fcntl_f(fd, F_SETFL, arg)\<close>: the call of the C library on this kernel.\<close>

definition kernel_setfl :: "int \<Rightarrow> u32 \<Rightarrow> kernel \<Rightarrow> int \<times> kernel" where
  "kernel_setfl fd arg k =
     (case k_setfl k fd (k_flags k fd) arg of
        None \<Rightarrow> (- 1, k)
      | Some f \<Rightarrow> (0, k\<lparr>k_flags := (k_flags k)(fd := f)\<rparr>))"

text \<open>
  What the manual page of \<^verbatim>\<open>fcntl\<close> promises of \<^verbatim>\<open>F_SETFL\<close>: only a fixed set of flags can be changed,
  \<^verbatim>\<open>O_NONBLOCK\<close> (bit 11) among them, all others (the access mode in particular) keep their values, and a
  refusal has nothing to do with \<^verbatim>\<open>O_NONBLOCK\<close>.
\<close>

definition setfl_documented :: "int \<Rightarrow> kernel \<Rightarrow> bool" where
  "setfl_documented fd k \<longleftrightarrow> (\<exists>mask. bit mask 11 \<and>
     (\<forall>old arg f. k_setfl k fd old arg = Some f \<longrightarrow> f = (old AND NOT mask) OR (arg AND mask)) \<and>
     (\<forall>old arg. k_setfl k fd old (arg OR O_NONBLOCK) = None \<longleftrightarrow> k_setfl k fd old arg = None))"

text \<open>Linux changes \<^verbatim>\<open>O_APPEND\<close>, \<^verbatim>\<open>O_ASYNC\<close>, \<^verbatim>\<open>O_DIRECT\<close>, \<^verbatim>\<open>O_NOATIME\<close> and \<^verbatim>\<open>O_NONBLOCK\<close>, and a socket refuses \<^verbatim>\<open>O_DIRECT\<close>.\<close>

definition linux_setfl :: "int \<Rightarrow> u32 \<Rightarrow> u32 \<Rightarrow> u32 option" where
  "linux_setfl fd old arg =
     (if arg AND 0x4000 \<noteq> 0 then None else Some ((old AND NOT 0x46C00) OR (arg AND 0x46C00)))"

lemma O_NONBLOCK_bit: "bit O_NONBLOCK n \<longleftrightarrow> n = 11"
  using bit_exp_iff [where 'a = u32, of 11 n] by (auto simp: O_NONBLOCK_def)

lemma O_DIRECT_bit: "bit (0x4000 :: u32) n \<longleftrightarrow> n = 14"
  using bit_exp_iff [where 'a = u32, of 14 n] by auto

lemma O_DIRECT_nonblock: "(arg OR O_NONBLOCK) AND 0x4000 = arg AND 0x4000"
  by (rule bit_eqI) (auto simp only: bit_and_iff bit_or_iff O_NONBLOCK_bit O_DIRECT_bit)

lemma linux_setfl_documented:
  assumes "k_setfl k = linux_setfl"
  shows "setfl_documented fd k"
  unfolding setfl_documented_def assms
proof (intro exI [of _ "0x46C00"] conjI allI impI)
  show "bit (0x46C00 :: u32) 11" by code_simp
  show "f = (old AND NOT 0x46C00) OR (arg AND 0x46C00)" if "linux_setfl fd old arg = Some f" for old arg f
    using that unfolding linux_setfl_def by (simp only: option.inject option.distinct split: if_splits)
  show "(linux_setfl fd old (arg OR O_NONBLOCK) = None) = (linux_setfl fd old arg = None)" for old arg
    unfolding linux_setfl_def O_DIRECT_nonblock by (simp only: option.distinct split: if_split) simp
qed

section \<open>One context\<close>

text \<open>
  \<^verbatim>\<open>fstat\<close> tells whether the descriptor exists and is a socket; a socket is switched to non-blocking
  mode in the kernel.
\<close>

definition FdCtx_init :: "kernel \<Rightarrow> fdctx \<Rightarrow> bool \<times> kernel \<times> fdctx" where
  "FdCtx_init k c =
     (if m_isInit c then (True, k, c)
      else let c1 = c\<lparr>m_recvTimeout := - 1, m_sendTimeout := - 1\<rparr>;
               c2 = (case k_stat k (m_fd c1) of
                       None \<Rightarrow> c1\<lparr>m_isInit := False, m_isSocket := False\<rparr>
                     | Some sock \<Rightarrow> c1\<lparr>m_isInit := True, m_isSocket := sock\<rparr>);
               flags = k_flags k (m_fd c2);
               k' = (if m_isSocket c2 \<and> flags AND O_NONBLOCK = 0
                     then snd (kernel_setfl (m_fd c2) (flags OR O_NONBLOCK) k) else k);
               c3 = c2\<lparr>m_sysNonblock := m_isSocket c2, m_userNonblock := False, m_isClosed := False\<rparr>
           in (m_isInit c3, k', c3))"

definition FdCtx_new :: "kernel \<Rightarrow> int \<Rightarrow> kernel \<times> fdctx" where
  "FdCtx_new k fd =
     snd (FdCtx_init k \<lparr>m_isInit = False, m_isSocket = False, m_sysNonblock = False, m_userNonblock = False,
            m_isClosed = False, m_fd = fd, m_recvTimeout = - 1, m_sendTimeout = - 1\<rparr>)"

definition SO_RCVTIMEO :: int where
  "SO_RCVTIMEO = 20"

definition SO_SNDTIMEO :: int where
  "SO_SNDTIMEO = 21"

definition setTimeout :: "int \<Rightarrow> u64 \<Rightarrow> fdctx \<Rightarrow> fdctx" where
  "setTimeout type v c = (if type = SO_RCVTIMEO then c\<lparr>m_recvTimeout := v\<rparr> else c\<lparr>m_sendTimeout := v\<rparr>)"

definition getTimeout :: "int \<Rightarrow> fdctx \<Rightarrow> u64" where
  "getTimeout type c = (if type = SO_RCVTIMEO then m_recvTimeout c else m_sendTimeout c)"

section \<open>The manager\<close>

definition FdManager_new :: fd_manager where
  "FdManager_new = \<lparr>fm_store = (\<lambda>_. None), m_datas = replicate 64 None\<rparr>"

definition resize :: "nat \<Rightarrow> 'a option list \<Rightarrow> 'a option list" where
  "resize n xs = take n xs @ replicate (n - length xs) None"

text \<open>
  \<^verbatim>\<open>m_datas[fd]\<close> outside the vector is undefined.  \<^verbatim>\<open>fd * 1.5\<close> is computed exactly and truncated.
  \<open>a\<close> is the address of a new context.
\<close>

definition get_new :: "nat \<Rightarrow> int \<Rightarrow> (kernel \<times> fd_manager, nat option) eff" where
  "get_new a fd = (\<lambda>(k, fm).
     let (k', ctx) = FdCtx_new k fd;
         store = (fm_store fm)(a \<mapsto> ctx);
         datas = (if int (length (m_datas fm)) \<le> fd then resize (nat (fd * 3 div 2)) (m_datas fm) else m_datas fm)
     in if fd < 0 \<or> int (length datas) \<le> fd then (Inl Undefined, (k', fm\<lparr>fm_store := store, m_datas := datas\<rparr>))
        else (Inr (Some a), (k', fm\<lparr>fm_store := store, m_datas := datas[nat fd := Some a]\<rparr>)))"

definition fd_get :: "nat \<Rightarrow> int \<Rightarrow> bool \<Rightarrow> (kernel \<times> fd_manager, nat option) eff" where
  "fd_get a fd auto_create = (\<lambda>(k, fm).
     if fd = - 1 then (Inr None, (k, fm))
     else if int (length (m_datas fm)) \<le> fd then
       if \<not> auto_create then (Inr None, (k, fm)) else get_new a fd (k, fm)
     else if fd < 0 then (Inl Undefined, (k, fm))
     else if m_datas fm ! nat fd \<noteq> None \<or> \<not> auto_create then (Inr (m_datas fm ! nat fd), (k, fm))
     else get_new a fd (k, fm))"

definition fd_del :: "int \<Rightarrow> (fd_manager, unit) eff" where
  "fd_del fd fm =
     (if int (length (m_datas fm)) \<le> fd then (Inr (), fm)
      else if fd < 0 then (Inl Undefined, fm)
      else (Inr (), fm\<lparr>m_datas := (m_datas fm)[nat fd := None]\<rparr>))"

section \<open>A fresh context\<close>

text \<open>
  A context of a socket has put the descriptor into non-blocking mode, if the kernel does not refuse
  it, and changed no other flag; one of anything else has left the flags alone; both start without
  timeouts.
\<close>

lemma nonblock_flag: "f AND O_NONBLOCK \<noteq> 0 \<longleftrightarrow> bit f 11"
  by (auto simp: bit_eq_iff [where 'a = u32] bit_and_iff O_NONBLOCK_bit dest: bit_imp_le_length)

lemma setfl_nonblock:
  assumes "setfl_documented fd k" "k_setfl k fd old (old OR O_NONBLOCK) = Some f"
  shows "f = old OR O_NONBLOCK"
proof -
  obtain mask where m: "bit mask 11" "f = (old AND NOT mask) OR ((old OR O_NONBLOCK) AND mask)"
    using assms by (auto simp: setfl_documented_def)
  show ?thesis unfolding m(2)
    using m(1) by (intro bit_eqI) (auto simp: bit_and_iff bit_or_iff bit_not_iff O_NONBLOCK_bit)
qed

lemma FdCtx_new_ok:
  assumes "FdCtx_new k fd = (k', c)"
  shows "m_fd c = fd" "m_isInit c = (k_stat k fd \<noteq> None)" "m_isSocket c = (k_stat k fd = Some True)"
    "m_sysNonblock c = m_isSocket c" "\<not> m_userNonblock c" "\<not> m_isClosed c"
    "m_recvTimeout c = - 1" "m_sendTimeout c = - 1" "k_stat k' = k_stat k" "k_setfl k' = k_setfl k"
    "setfl_documented fd k \<Longrightarrow> k_setfl k fd (k_flags k fd) (k_flags k fd OR O_NONBLOCK) \<noteq> None \<Longrightarrow>
       k_flags k' = (if m_isSocket c then (k_flags k)(fd := k_flags k fd OR O_NONBLOCK) else k_flags k)"
proof -
  have same: "f OR O_NONBLOCK = f" if "f AND O_NONBLOCK \<noteq> 0" for f
    using that by (intro bit_eqI) (auto simp: nonblock_flag bit_or_iff O_NONBLOCK_bit)
  show "m_fd c = fd" "m_isInit c = (k_stat k fd \<noteq> None)" "m_isSocket c = (k_stat k fd = Some True)"
    "m_sysNonblock c = m_isSocket c" "\<not> m_userNonblock c" "\<not> m_isClosed c"
    "m_recvTimeout c = - 1" "m_sendTimeout c = - 1" "k_stat k' = k_stat k" "k_setfl k' = k_setfl k"
    using assms by (auto simp: FdCtx_new_def FdCtx_init_def kernel_setfl_def Let_def split: option.splits if_splits)
  assume doc: "setfl_documented fd k" and "k_setfl k fd (k_flags k fd) (k_flags k fd OR O_NONBLOCK) \<noteq> None"
  then obtain f where f: "k_setfl k fd (k_flags k fd) (k_flags k fd OR O_NONBLOCK) = Some f" by blast
  show "k_flags k' = (if m_isSocket c then (k_flags k)(fd := k_flags k fd OR O_NONBLOCK) else k_flags k)"
    using assms same [of "k_flags k fd"] f setfl_nonblock [OF doc f]
    by (auto simp: FdCtx_new_def FdCtx_init_def kernel_setfl_def Let_def fun_eq_iff split: option.splits if_splits)
qed

section \<open>The manager is a map from descriptors to contexts\<close>

definition fd_lookup :: "fd_manager \<Rightarrow> int \<Rightarrow> nat option" where
  "fd_lookup fm fd = (if 0 \<le> fd \<and> fd < int (length (m_datas fm)) then m_datas fm ! nat fd else None)"

definition fm_inv :: "fd_manager \<Rightarrow> bool" where
  "fm_inv fm \<longleftrightarrow> 64 \<le> length (m_datas fm)"

lemma fm_inv_new: "fm_inv FdManager_new" "fd_lookup FdManager_new fd = None"
  by (auto simp: fm_inv_def FdManager_new_def fd_lookup_def)

lemma length_resize [simp]: "length (resize n xs) = n"
  by (simp add: resize_def)

lemma nth_resize: "i < n \<Longrightarrow> resize n xs ! i = (if i < length xs then xs ! i else None)"
  by (auto simp: resize_def nth_append)

text \<open>The vector is never too small: a descriptor beyond it is at least 64, so growing by half reaches it.\<close>

lemma get_new_ok:
  assumes "fm_inv fm" "0 \<le> fd"
  shows "\<exists>k' fm' ctx. get_new a fd (k, fm) = (Inr (Some a), (k', fm')) \<and> fm_inv fm' \<and> FdCtx_new k fd = (k', ctx) \<and>
     fm_store fm' = (fm_store fm)(a \<mapsto> ctx) \<and> fd_lookup fm' = (fd_lookup fm)(fd := Some a)"
proof -
  obtain k' ctx where new: "FdCtx_new k fd = (k', ctx)" by fastforce
  define datas where "datas = (if int (length (m_datas fm)) \<le> fd then resize (nat (fd * 3 div 2)) (m_datas fm) else m_datas fm)"
  have big: "fd < int (length datas)" "64 \<le> length datas" using assms by (auto simp: datas_def fm_inv_def)
  have grow: "length (m_datas fm) \<le> length datas" using assms by (auto simp: datas_def fm_inv_def)
  have keep: "datas ! nat i = (if i < int (length (m_datas fm)) then m_datas fm ! nat i else None)"
    if "0 \<le> i" "i < int (length datas)" for i
    using that by (auto simp: datas_def nth_resize split: if_splits)
  let ?fm = "fm\<lparr>fm_store := (fm_store fm)(a \<mapsto> ctx), m_datas := datas[nat fd := Some a]\<rparr>"
  have run: "get_new a fd (k, fm) = (Inr (Some a), (k', ?fm))"
    using big assms(2) unfolding get_new_def by (simp add: new Let_def datas_def)
  have "fd_lookup ?fm = (fd_lookup fm)(fd := Some a)"
  proof
    fix i
    show "fd_lookup ?fm i = ((fd_lookup fm)(fd := Some a)) i"
    proof (cases "0 \<le> i \<and> i < int (length datas)")
      case True
      then show ?thesis using keep [of i] big assms(2) by (auto simp: fd_lookup_def nth_list_update)
    next
      case False
      then show ?thesis using big grow assms(2) by (auto simp: fd_lookup_def)
    qed
  qed
  then show ?thesis using run new big by (auto simp: fm_inv_def)
qed

lemma fd_get_ok:
  assumes "fm_inv fm" "0 \<le> fd"
  shows "case fd_lookup fm fd of
      Some b \<Rightarrow> fd_get a fd auto_create (k, fm) = (Inr (Some b), (k, fm))
    | None \<Rightarrow> if auto_create then fd_get a fd auto_create (k, fm) = get_new a fd (k, fm)
              else fd_get a fd auto_create (k, fm) = (Inr None, (k, fm))"
  using assms by (auto simp: fd_get_def fd_lookup_def split: option.split)

lemma fd_del_ok:
  assumes "fm_inv fm" "0 \<le> fd"
  shows "\<exists>fm'. fd_del fd fm = (Inr (), fm') \<and> fm_inv fm' \<and> fd_lookup fm' = (fd_lookup fm)(fd := None) \<and> fm_store fm' = fm_store fm"
  using assms by (auto simp: fd_del_def fd_lookup_def fm_inv_def fun_eq_iff nth_list_update)

end
