(* ===== verification/Hook.thy ===== *)
theory Hook
  imports Fd_Manager IOManager
begin

unbundle bit_operations_syntax

text \<open>
  The system call wrappers of \<^verbatim>\<open>linko/hook.cc\<close>.  The original functions belong to the C library:
  the results of their successive calls are inputs (\<open>(n, errno)\<close> pairs), and so is what happens
  while the fiber waits.  \<open>do_io\<close> yields the result that the caller sees and the sequence of things
  the wrapper does.  For \<^verbatim>\<open>fcntl\<close> and \<^verbatim>\<open>ioctl\<close> the kernel's status flags are part of the state.
\<close>

section \<open>Errors and the context of a descriptor\<close>

definition EINTR :: int where "EINTR = 4"
definition EBADF :: int where "EBADF = 9"
definition EAGAIN :: int where "EAGAIN = 11"
definition ETIMEDOUT :: int where "ETIMEDOUT = 110"
definition EINPROGRESS :: int where "EINPROGRESS = 115"

lemmas errno_defs = EINTR_def EBADF_def EAGAIN_def ETIMEDOUT_def EINPROGRESS_def

text \<open>\<^verbatim>\<open>FdMgr::GetInstance()->get(fd)\<close>, with the object the pointer denotes.\<close>

definition get_ctx :: "int \<Rightarrow> kernel \<times> fd_manager \<Rightarrow> cpp_error + (nat \<times> fdctx) option" where
  "get_ctx fd s = (case fst (fd_get 0 fd False s) of
       Inl e \<Rightarrow> Inl e
     | Inr None \<Rightarrow> Inr None
     | Inr (Some a) \<Rightarrow> (case fm_store (snd s) a of None \<Rightarrow> Inl Undefined | Some c \<Rightarrow> Inr (Some (a, c))))"

definition put_fdctx :: "nat \<Rightarrow> fdctx \<Rightarrow> kernel \<times> fd_manager \<Rightarrow> kernel \<times> fd_manager" where
  "put_fdctx a c s = (fst s, (snd s)\<lparr>fm_store := (fm_store (snd s))(a \<mapsto> c)\<rparr>)"

section \<open>Blocking calls\<close>

datatype io_action = Call | Add_timer u64 | Cancel_timer | Add_event | Yield

text \<open>
  What happens after \<^verbatim>\<open>EAGAIN\<close>: \<^verbatim>\<open>addEvent\<close> fails and leaves an \<^verbatim>\<open>errno\<close>, or the fiber yields and is
  woken; the flag says whether the condition timer fired before that.
\<close>

datatype io_wait = Add_failed int | Woken bool

text \<open>The condition timer's callback: what it sets \<^verbatim>\<open>cancelled\<close> to and whether it cancels the event.\<close>

definition timeout_cb :: "bool \<Rightarrow> int \<Rightarrow> int \<times> bool" where
  "timeout_cb alive cancelled = (if \<not> alive \<or> cancelled \<noteq> 0 then (cancelled, False) else (ETIMEDOUT, True))"

text \<open>
  From the label \<^verbatim>\<open>retry\<close> on; \<open>None\<close> when the inputs end while the call or the wait is pending.
\<close>

fun do_io_retry :: "u64 \<Rightarrow> (int \<times> int) list \<Rightarrow> io_wait list \<Rightarrow> (int \<times> int) option \<times> io_action list" where
  "do_io_retry timeout [] ws = (None, [])"
| "do_io_retry timeout ((n, err) # rs) ws =
     (if n = - 1 \<and> err = EINTR then
        (let (r, acts) = do_io_retry timeout rs ws in (r, Call # acts))
      else if n = - 1 \<and> err = EAGAIN then
        (let timer = (if timeout \<noteq> - 1 then [Add_timer timeout] else []);
             cancel = (if timeout \<noteq> - 1 then [Cancel_timer] else [])
         in case ws of
              [] \<Rightarrow> (None, Call # timer @ [Add_event, Yield])
            | Add_failed e # _ \<Rightarrow> (Some (n, e), Call # timer @ [Add_event] @ cancel)
            | Woken fired # ws' \<Rightarrow>
                let cancelled = (if timeout \<noteq> - 1 \<and> fired then fst (timeout_cb True 0) else 0)
                in if cancelled \<noteq> 0
                   then (Some (- 1, cancelled), Call # timer @ [Add_event, Yield] @ cancel)
                   else (let (r, acts) = do_io_retry timeout rs ws'
                         in (r, Call # timer @ [Add_event, Yield] @ cancel @ acts)))
      else (Some (n, err), [Call]))"

definition do_io :: "bool \<Rightarrow> fdctx option \<Rightarrow> int \<Rightarrow> (int \<times> int) list \<Rightarrow> io_wait list \<Rightarrow> (int \<times> int) option \<times> io_action list" where
  "do_io t_hook_enable ctx timeout_so rs ws =
     (let plain = (case rs of [] \<Rightarrow> (None, []) | r # _ \<Rightarrow> (Some r, [Call])) in
      if \<not> t_hook_enable then plain
      else case ctx of
        None \<Rightarrow> plain
      | Some c \<Rightarrow>
          if m_isClosed c then (Some (- 1, EBADF), [])
          else if \<not> m_isSocket c \<or> m_userNonblock c then plain
          else do_io_retry (getTimeout timeout_so c) rs ws)"

text \<open>
  \<^verbatim>\<open>connect_with_timeout\<close>: \<open>conn\<close> is the result of \<^verbatim>\<open>connect_f\<close>, \<open>wait\<close> what follows \<^verbatim>\<open>EINPROGRESS\<close>,
  \<open>so_error\<close> the outcome of the final \<^verbatim>\<open>getsockopt\<close> (\<open>None\<close> when it fails, with \<^verbatim>\<open>errno\<close> unchanged).
\<close>

definition connect_with_timeout ::
  "bool \<Rightarrow> fdctx option \<Rightarrow> u64 \<Rightarrow> int \<times> int \<Rightarrow> io_wait \<Rightarrow> int option \<Rightarrow> (int \<times> int) \<times> io_action list" where
  "connect_with_timeout t_hook_enable ctx timeout_ms conn wait so_error =
     (if \<not> t_hook_enable then (conn, [Call])
      else case ctx of
        None \<Rightarrow> ((- 1, EBADF), [])
      | Some c \<Rightarrow>
          if m_isClosed c then ((- 1, EBADF), [])
          else if \<not> m_isSocket c then (conn, [Call])
          else if m_userNonblock c then (conn, [Call])
          else let (n, err) = conn in
            if n = 0 then ((0, err), [Call])
            else if n \<noteq> - 1 \<or> err \<noteq> EINPROGRESS then ((n, err), [Call])
            else let timer = (if timeout_ms \<noteq> - 1 then [Add_timer timeout_ms] else []);
                     cancel = (if timeout_ms \<noteq> - 1 then [Cancel_timer] else []);
                     finish = (\<lambda>err. case so_error of None \<Rightarrow> (- 1, err)
                       | Some e \<Rightarrow> if e = 0 then (0, err) else (- 1, e))
                 in case wait of
                      Woken fired \<Rightarrow>
                        let cancelled = (if timeout_ms \<noteq> - 1 \<and> fired then fst (timeout_cb True 0) else 0);
                            acts = Call # timer @ [Add_event, Yield] @ cancel
                        in if cancelled \<noteq> 0 then ((- 1, cancelled), acts) else (finish err, acts)
                    | Add_failed e \<Rightarrow> (finish e, Call # timer @ [Add_event] @ cancel))"

section \<open>Sleeping\<close>

text \<open>
  The timer that a sleep arms, in milliseconds: \<^verbatim>\<open>seconds * 1000\<close> is an \<^verbatim>\<open>unsigned int\<close>, the value of
  \<^verbatim>\<open>nanosleep\<close> an \<^verbatim>\<open>int\<close> that becomes a 64 bit unsigned one.  With hooks off \<^verbatim>\<open>nanosleep\<close> calls itself.
\<close>

definition sleep_ms :: "bool \<Rightarrow> u32 \<Rightarrow> u64 option" where
  "sleep_ms t_hook_enable seconds = (if \<not> t_hook_enable then None else Some (ucast (seconds * 1000)))"

definition usleep_ms :: "bool \<Rightarrow> u32 \<Rightarrow> u64 option" where
  "usleep_ms t_hook_enable usec = (if \<not> t_hook_enable then None else Some (ucast (usec div 1000)))"

definition nanosleep_ms :: "bool \<Rightarrow> int \<Rightarrow> int \<Rightarrow> cpp_error + u64" where
  "nanosleep_ms t_hook_enable tv_sec tv_nsec =
     (if \<not> t_hook_enable then Inl Diverges
      else Inr (scast (word_of_int (tv_sec * 1000 + tv_nsec div 1000 div 1000) :: u32)))"

section \<open>Descriptors\<close>

text \<open>\<^verbatim>\<open>socket\<close> and \<^verbatim>\<open>accept\<close> enter the new descriptor, \<^verbatim>\<open>close\<close> wakes its waiters and removes it.\<close>

definition hook_socket :: "bool \<Rightarrow> nat \<Rightarrow> int \<Rightarrow> (kernel \<times> fd_manager, int) eff" where
  "hook_socket t_hook_enable a fd s =
     (if \<not> t_hook_enable then (Inr fd, s)
      else if fd = - 1 then (Inr fd, s)
      else eff_bind (fd_get a fd True) (\<lambda>_. eff_return fd) s)"

definition hook_accept :: "nat \<Rightarrow> int \<Rightarrow> (kernel \<times> fd_manager, int) eff" where
  "hook_accept a fd s = (if 0 \<le> fd then eff_bind (fd_get a fd True) (\<lambda>_. eff_return fd) s else (Inr fd, s))"

definition hook_close :: "bool \<Rightarrow> bool \<Rightarrow> bool \<Rightarrow> int \<Rightarrow> ((kernel \<times> fd_manager) \<times> 'cb iomanager, unit) eff" where
  "hook_close t_hook_enable has_iom ctl_ok fd = (\<lambda>(s, io).
     if \<not> t_hook_enable then (Inr (), (s, io))
     else case fst (fd_get 0 fd False s) of
       Inl e \<Rightarrow> (Inl e, (s, io))
     | Inr None \<Rightarrow> (Inr (), (s, io))
     | Inr (Some _) \<Rightarrow>
         (case (if has_iom then cancelAll ctl_ok fd io else (Inr False, io)) of
            (Inl e, io') \<Rightarrow> (Inl e, (s, io'))
          | (Inr _, io') \<Rightarrow>
              (case fd_del fd (snd s) of (r, fm') \<Rightarrow> (r, ((fst s, fm'), io')))))"

section \<open>Status flags\<close>

text \<open>\<^verbatim>\<open>fcntl_f(fd, F_SETFL, arg)\<close>, with its result.\<close>

definition fcntl_f_setfl :: "int \<Rightarrow> u32 \<Rightarrow> (kernel \<times> fd_manager, int) eff" where
  "fcntl_f_setfl fd arg s = (case kernel_setfl fd arg (fst s) of (r, k) \<Rightarrow> (Inr r, (k, snd s)))"

definition fcntl_setfl :: "int \<Rightarrow> u32 \<Rightarrow> (kernel \<times> fd_manager, int) eff" where
  "fcntl_setfl fd arg s =
     (case get_ctx fd s of
        Inl e \<Rightarrow> (Inl e, s)
      | Inr None \<Rightarrow> fcntl_f_setfl fd arg s
      | Inr (Some (a, c)) \<Rightarrow>
          if m_isClosed c \<or> \<not> m_isSocket c then fcntl_f_setfl fd arg s
          else let c' = c\<lparr>m_userNonblock := arg AND O_NONBLOCK \<noteq> 0\<rparr>;
                   arg' = (if m_sysNonblock c' then arg OR O_NONBLOCK else arg AND NOT O_NONBLOCK)
               in fcntl_f_setfl fd arg' (put_fdctx a c' s))"

definition fcntl_getfl :: "int \<Rightarrow> kernel \<times> fd_manager \<Rightarrow> cpp_error + u32" where
  "fcntl_getfl fd s =
     (let arg = k_flags (fst s) fd in
      case get_ctx fd s of
        Inl e \<Rightarrow> Inl e
      | Inr None \<Rightarrow> Inr arg
      | Inr (Some (a, c)) \<Rightarrow>
          if m_isClosed c \<or> \<not> m_isSocket c then Inr arg
          else if m_userNonblock c then Inr (arg OR O_NONBLOCK) else Inr (arg AND NOT O_NONBLOCK))"

text \<open>\<^verbatim>\<open>ioctl(fd, FIONBIO, &v)\<close>: the kernel sets or clears its flag by \<open>v\<close>.\<close>

definition kernel_fionbio :: "int \<Rightarrow> bool \<Rightarrow> kernel \<times> fd_manager \<Rightarrow> kernel \<times> fd_manager" where
  "kernel_fionbio fd v s =
     ((fst s)\<lparr>k_flags := (k_flags (fst s))(fd :=
        (if v then k_flags (fst s) fd OR O_NONBLOCK else k_flags (fst s) fd AND NOT O_NONBLOCK))\<rparr>, snd s)"

definition ioctl_fionbio :: "int \<Rightarrow> bool \<Rightarrow> (kernel \<times> fd_manager, unit) eff" where
  "ioctl_fionbio fd user_nonblock s =
     (case get_ctx fd s of
        Inl e \<Rightarrow> (Inl e, s)
      | Inr None \<Rightarrow> (Inr (), kernel_fionbio fd user_nonblock s)
      | Inr (Some (a, c)) \<Rightarrow>
          if m_isClosed c \<or> \<not> m_isSocket c then (Inr (), kernel_fionbio fd user_nonblock s)
          else (Inr (), kernel_fionbio fd user_nonblock (put_fdctx a (c\<lparr>m_userNonblock := user_nonblock\<rparr>) s)))"

definition SOL_SOCKET :: int where "SOL_SOCKET = 1"

definition hook_setsockopt :: "bool \<Rightarrow> int \<Rightarrow> int \<Rightarrow> int \<Rightarrow> int \<times> int \<Rightarrow> (kernel \<times> fd_manager, unit) eff" where
  "hook_setsockopt t_hook_enable sockfd level optname tv s =
     (if \<not> t_hook_enable then (Inr (), s)
      else if level = SOL_SOCKET \<and> (optname = SO_RCVTIMEO \<or> optname = SO_SNDTIMEO) then
        (case get_ctx sockfd s of
           Inl e \<Rightarrow> (Inl e, s)
         | Inr None \<Rightarrow> (Inr (), s)
         | Inr (Some (a, c)) \<Rightarrow>
             (Inr (), put_fdctx a (setTimeout optname (word_of_int (fst tv * 1000 + snd tv div 1000)) c) s))
      else (Inr (), s))"

section \<open>Blocking behaviour\<close>

definition blocked :: "int \<times> int \<Rightarrow> bool" where
  "blocked r \<longleftrightarrow> r = (- 1, EINTR) \<or> r = (- 1, EAGAIN)"

text \<open>
  While the waits succeed without the timer firing, the caller gets the first result that is
  neither interrupted nor would block, as from a blocking call.
\<close>

lemma do_io_retry_transparent:
  assumes "\<forall>r \<in> set pre. blocked r" "\<not> blocked r" "length (filter (\<lambda>r. r = (- 1, EAGAIN)) pre) \<le> length ws"
    "\<forall>w \<in> set ws. w = Woken False"
  shows "fst (do_io_retry timeout (pre @ r # rest) ws) = Some r"
  using assms
proof (induction pre arbitrary: ws)
  case Nil
  then show ?case by (cases r) (auto simp: blocked_def)
next
  case (Cons p pre)
  have p: "p = (- 1, EINTR) \<or> p = (- 1, EAGAIN)" using Cons.prems(1) by (simp add: blocked_def)
  then show ?case
  proof
    assume "p = (- 1, EINTR)"
    then show ?thesis using Cons by (simp add: case_prod_beta errno_defs)
  next
    assume p: "p = (- 1, EAGAIN)"
    then obtain w ws' where ws: "ws = w # ws'" using Cons.prems(3) by (cases ws) auto
    then have w: "w = Woken False" using Cons.prems(4) by simp
    have "fst (do_io_retry timeout (pre @ r # rest) ws') = Some r"
      using Cons.IH [of ws'] Cons.prems p ws by simp
    then show ?thesis using p ws w by (simp add: case_prod_beta Let_def errno_defs)
  qed
qed

text \<open>
  Whatever the calls and waits do: the call never reports an interruption, reports that it would
  block only after a failed registration, reports a timeout only when a timeout is set, and every
  timer it arms is cancelled before it returns.
\<close>

lemma do_io_retry_results:
  assumes "do_io_retry timeout rs ws = (Some (n, err), acts)"
  shows "((n, err) \<in> set rs \<and> \<not> blocked (n, err)) \<or> (n = - 1 \<and> Add_failed err \<in> set ws) \<or>
     (n = - 1 \<and> err = ETIMEDOUT \<and> timeout \<noteq> - 1 \<and> Woken True \<in> set ws)"
  using assms
proof (induction timeout rs ws arbitrary: acts rule: do_io_retry.induct)
  case (2 timeout n1 err1 rs ws)
  consider "n1 = - 1 \<and> err1 = EINTR" | "n1 = - 1 \<and> err1 = EAGAIN" | "\<not> blocked (n1, err1)"
    by (auto simp: blocked_def)
  then show ?case
  proof cases
    case 1
    then have "fst (do_io_retry timeout rs ws) = Some (n, err)" using 2(3) by (auto simp: case_prod_beta)
    then show ?thesis using 2(1) [of "snd (do_io_retry timeout rs ws)"] 1 by (auto simp: prod_eq_iff)
  next
    case 2
    then show ?thesis using "2.prems" "2.IH"(2)
      by (fastforce simp: Let_def errno_defs timeout_cb_def case_prod_beta prod_eq_iff split: list.splits io_wait.splits if_splits)
  next
    case 3
    then show ?thesis using "2.prems" by (auto simp: blocked_def split: if_splits)
  qed
qed simp

lemma do_io_retry_timers:
  assumes "do_io_retry timeout rs ws = (Some r, acts)"
  shows "length (filter (\<lambda>a. a = Cancel_timer) acts) = length (filter (\<lambda>a. \<exists>t. a = Add_timer t) acts)"
  using assms
proof (induction timeout rs ws arbitrary: acts rule: do_io_retry.induct)
  case (2 timeout n err rs ws)
  then show ?case
    by (auto simp: Let_def split: list.splits io_wait.splits if_splits prod.splits)
qed simp

section \<open>The user's view of the status flags\<close>

lemma fd_get_False: "fst (fd_get 0 fd False (k, fm)) = fst (fd_get 0 fd False (k', fm'))"
  if "m_datas fm = m_datas fm'"
  using that by (simp add: fd_get_def)

lemma get_ctx_put:
  assumes "get_ctx fd s = Inr (Some (a, c))" "snd s' = snd (put_fdctx a c' s)"
  shows "get_ctx fd s' = Inr (Some (a, c'))"
proof -
  have "fst (fd_get 0 fd False s') = fst (fd_get 0 fd False s)"
    using assms(2) unfolding put_fdctx_def by (cases s; cases s') (simp add: fd_get_def)
  then show ?thesis using assms
    by (auto simp: get_ctx_def put_fdctx_def split: sum.splits option.splits)
qed

text \<open>
  The kernel makes of \<open>arg OR O_NONBLOCK\<close> what it makes of \<open>arg\<close>, with \<^verbatim>\<open>O_NONBLOCK\<close> set, whatever the
  flag was before; clearing or setting the flag by the user's wish gives back what it makes of \<open>arg\<close>.
\<close>

lemma setfl_or_nonblock:
  assumes "setfl_documented fd k" "k_setfl k fd old arg = Some g"
  shows "k_setfl k fd old (arg OR O_NONBLOCK) = Some (g OR O_NONBLOCK)" "bit g 11 = bit arg 11"
proof -
  obtain mask where m: "bit mask 11"
      "\<forall>old arg f. k_setfl k fd old arg = Some f \<longrightarrow> f = (old AND NOT mask) OR (arg AND mask)"
      "\<forall>old arg. k_setfl k fd old (arg OR O_NONBLOCK) = None \<longleftrightarrow> k_setfl k fd old arg = None"
    using assms(1) unfolding setfl_documented_def by blast
  have "k_setfl k fd old (arg OR O_NONBLOCK) \<noteq> None" using m(3) assms(2) by simp
  then obtain h where h: "k_setfl k fd old (arg OR O_NONBLOCK) = Some h" by blast
  have g: "g = (old AND NOT mask) OR (arg AND mask)" using m(2) assms(2) by blast
  have h_eq: "h = (old AND NOT mask) OR ((arg OR O_NONBLOCK) AND mask)" using m(2) h by blast
  have "h = g OR O_NONBLOCK"
    unfolding h_eq g
    using m(1) by (intro bit_eqI) (auto simp: bit_and_iff bit_or_iff bit_not_iff O_NONBLOCK_bit)
  with h show "k_setfl k fd old (arg OR O_NONBLOCK) = Some (g OR O_NONBLOCK)" by simp
  show "bit g 11 = bit arg 11"
    unfolding g using m(1) by (simp add: bit_and_iff bit_or_iff bit_not_iff)
qed

lemma flags_roundtrip:
  "(if bit g 11 then (g OR O_NONBLOCK) OR O_NONBLOCK else (g OR O_NONBLOCK) AND NOT O_NONBLOCK) = (g :: u32)"
  by (auto simp: bit_eq_iff [where 'a = u32] bit_or_iff bit_and_iff bit_not_iff O_NONBLOCK_bit dest: bit_imp_le_length)

lemma fcntl_roundtrip:
  assumes ctx: "get_ctx fd s = Inr (Some (a, c))" and c: "m_isSocket c" "\<not> m_isClosed c" "m_sysNonblock c"
    and k: "setfl_documented fd (fst s)" "k_setfl (fst s) fd (k_flags (fst s) fd) arg = Some g"
  shows "\<exists>s'. fcntl_setfl fd arg s = (Inr 0, s') \<and> fcntl_getfl fd s' = Inr g \<and>
     k_flags (fst s') = (k_flags (fst s))(fd := g OR O_NONBLOCK) \<and>
     get_ctx fd s' = Inr (Some (a, c\<lparr>m_userNonblock := arg AND O_NONBLOCK \<noteq> 0\<rparr>))"
proof -
  let ?c' = "c\<lparr>m_userNonblock := arg AND O_NONBLOCK \<noteq> 0\<rparr>"
  let ?s' = "((fst s)\<lparr>k_flags := (k_flags (fst s))(fd := g OR O_NONBLOCK)\<rparr>, snd (put_fdctx a ?c' s))"
  have run: "fcntl_setfl fd arg s = (Inr 0, ?s')"
    using ctx c setfl_or_nonblock(1) [OF k]
    by (simp add: fcntl_setfl_def fcntl_f_setfl_def kernel_setfl_def put_fdctx_def)
  have get: "get_ctx fd ?s' = Inr (Some (a, ?c'))" by (rule get_ctx_put [OF ctx]) simp
  have "fcntl_getfl fd ?s' = Inr g"
    using c flags_roundtrip [of g] setfl_or_nonblock(2) [OF k] unfolding fcntl_getfl_def get Let_def
    by (cases "bit arg 11") (simp_all add: nonblock_flag)
  then show ?thesis using run get by (intro exI [of _ ?s']) simp
qed

text \<open>A refusal by the kernel reaches the caller, but the user's view of the flag has changed already.\<close>

lemma fcntl_refused:
  assumes ctx: "get_ctx fd s = Inr (Some (a, c))" and c: "m_isSocket c" "\<not> m_isClosed c" "m_sysNonblock c"
    and k: "setfl_documented fd (fst s)" "k_setfl (fst s) fd (k_flags (fst s) fd) arg = None"
  shows "\<exists>s'. fcntl_setfl fd arg s = (Inr (- 1), s') \<and> fst s' = fst s \<and>
     get_ctx fd s' = Inr (Some (a, c\<lparr>m_userNonblock := arg AND O_NONBLOCK \<noteq> 0\<rparr>))"
proof -
  let ?c' = "c\<lparr>m_userNonblock := arg AND O_NONBLOCK \<noteq> 0\<rparr>"
  have none: "k_setfl (fst s) fd (k_flags (fst s) fd) (arg OR O_NONBLOCK) = None"
    using k by (auto simp: setfl_documented_def)
  have "fcntl_setfl fd arg s = (Inr (- 1), put_fdctx a ?c' s)"
    using ctx c none by (simp add: fcntl_setfl_def fcntl_f_setfl_def kernel_setfl_def put_fdctx_def)
  moreover have "get_ctx fd (put_fdctx a ?c' s) = Inr (Some (a, ?c'))" by (rule get_ctx_put [OF ctx refl])
  ultimately show ?thesis by (intro exI [of _ "put_fdctx a ?c' s"]) (simp add: put_fdctx_def)
qed

text \<open>\<^verbatim>\<open>ioctl\<close> with \<^verbatim>\<open>FIONBIO\<close> and value 0 takes the socket out of non-blocking mode in the kernel.\<close>

lemma ioctl_fionbio_blocks:
  assumes "get_ctx fd s = Inr (Some (a, c))" "m_isSocket c" "\<not> m_isClosed c"
  shows "k_flags (fst (snd (ioctl_fionbio fd False s))) fd AND O_NONBLOCK = 0"
  using assms by (simp add: ioctl_fionbio_def kernel_fionbio_def and.assoc)

text \<open>A timeout set with \<^verbatim>\<open>setsockopt\<close> is what \<^verbatim>\<open>do_io\<close> uses, in milliseconds, for its direction only.\<close>

lemma setsockopt_timeout:
  assumes "get_ctx fd s = Inr (Some (a, c))" "optname = SO_RCVTIMEO \<or> optname = SO_SNDTIMEO"
  shows "\<exists>s' c'. hook_setsockopt True fd SOL_SOCKET optname (sec, usec) s = (Inr (), s') \<and>
    get_ctx fd s' = Inr (Some (a, c')) \<and> getTimeout optname c' = word_of_int (sec * 1000 + usec div 1000) \<and>
    (\<forall>o'. o' \<in> {SO_RCVTIMEO, SO_SNDTIMEO} - {optname} \<longrightarrow> getTimeout o' c' = getTimeout o' c)"
proof -
  let ?c' = "setTimeout optname (word_of_int (sec * 1000 + usec div 1000)) c"
  have "get_ctx fd (put_fdctx a ?c' s) = Inr (Some (a, ?c'))"
    by (rule get_ctx_put [OF assms(1) refl])
  moreover have "hook_setsockopt True fd SOL_SOCKET optname (sec, usec) s = (Inr (), put_fdctx a ?c' s)"
    using assms by (auto simp: hook_setsockopt_def)
  ultimately show ?thesis using assms(2)
    by (intro exI [of _ "put_fdctx a ?c' s"] exI [of _ ?c'])
      (auto simp: setTimeout_def getTimeout_def SO_RCVTIMEO_def SO_SNDTIMEO_def)
qed

end
