(* ===== verification/Cpp_Strings.thy ===== *)
theory Cpp_Strings
  imports Linko_Prelude
begin

text \<open>
  Strings as the source uses them: \<^verbatim>\<open>std::string\<close> is a list of characters, \<^verbatim>\<open>c_str()\<close> its part
  before the first zero character, and the C functions \<^verbatim>\<open>strcmp\<close>, \<^verbatim>\<open>strncmp\<close> and \<^verbatim>\<open>strcasecmp\<close>
  (in the C locale) work on such parts.
\<close>

definition NUL :: char where "NUL = CHR 0x00"

text \<open>The part of a character array up to its terminating zero.\<close>

definition cstr :: "string \<Rightarrow> string" where
  "cstr s = takeWhile (\<lambda>c. c \<noteq> NUL) s"

section \<open>Printing numbers\<close>

fun digits :: "nat \<Rightarrow> nat \<Rightarrow> nat \<Rightarrow> string" where
  "digits 0 b n = []"
| "digits (Suc k) b n = (if n < b then [] else digits k b (n div b)) @ [''0123456789abcdef'' ! (n mod b)]"

text \<open>Decimal and hexadecimal output of an unsigned number below \<open>2 ^ 64\<close>.\<close>

definition dec :: "nat \<Rightarrow> string" where "dec n = digits 20 10 n"
definition hex :: "nat \<Rightarrow> string" where "hex n = digits 16 16 n"

lemma digits_numeral [simp]:
  "digits (numeral k) b n = (if n < b then [] else digits (pred_numeral k) b (n div b)) @ [''0123456789abcdef'' ! (n mod b)]"
  by (simp add: numeral_eq_Suc)

section \<open>Zero terminated parts\<close>

lemma NUL_notin_cstr [simp]: "NUL \<notin> set (cstr s)"
  by (auto simp: cstr_def dest: set_takeWhileD)

lemma cstr_id: "NUL \<notin> set s \<Longrightarrow> cstr s = s"
  by (auto simp: cstr_def takeWhile_eq_all_conv)

lemma cstr_cstr [simp]: "cstr (cstr s) = cstr s"
  by (simp add: cstr_id)

section \<open>Comparison\<close>

text \<open>\<^verbatim>\<open>strncmp(a, b, n) == 0\<close>: equal up to \<open>n\<close> characters or to the terminating zero.\<close>

fun strn_eq :: "string \<Rightarrow> string \<Rightarrow> nat \<Rightarrow> bool" where
  "strn_eq a b 0 \<longleftrightarrow> True"
| "strn_eq [] [] (Suc n) \<longleftrightarrow> True"
| "strn_eq [] (b # bs) (Suc n) \<longleftrightarrow> b = NUL"
| "strn_eq (a # as) [] (Suc n) \<longleftrightarrow> a = NUL"
| "strn_eq (a # as) (b # bs) (Suc n) \<longleftrightarrow> a = b \<and> (a = NUL \<or> strn_eq as bs n)"

lemma strn_eq_prefix:
  "NUL \<notin> set a \<Longrightarrow> NUL \<notin> set b \<Longrightarrow> strn_eq a b n \<longleftrightarrow> take n a = take n b"
  by (induction a b n rule: strn_eq.induct) auto

text \<open>The code of a character after \<^verbatim>\<open>tolower\<close>.\<close>

definition low :: "char \<Rightarrow> nat" where
  "low c = (let n = of_char c in if 65 \<le> n \<and> n \<le> 90 then n + 32 else n)"

fun strcasecmp :: "string \<Rightarrow> string \<Rightarrow> int" where
  "strcasecmp [] [] = 0"
| "strcasecmp [] (y # ys) = - int (low y)"
| "strcasecmp (x # xs) [] = int (low x)"
| "strcasecmp (x # xs) (y # ys) = (if low x = low y then strcasecmp xs ys else int (low x) - int (low y))"

definition lower :: "string \<Rightarrow> nat list" where
  "lower s = map low (cstr s)"

lemma low_eq_0 [simp]: "low c = 0 \<longleftrightarrow> c = NUL"
proof
  assume "low c = 0"
  then have "of_char c = (0 :: nat)" by (auto simp: low_def Let_def split: if_splits)
  then have "c = char_of (0 :: nat)" using char_of_char [of c, where 'a = nat] by simp
  then show "c = NUL" by (simp add: NUL_def char_of_def)
next
  assume "c = NUL"
  then show "low c = 0" by (simp add: NUL_def low_def)
qed

lemma strcasecmp_less:
  "NUL \<notin> set xs \<Longrightarrow> NUL \<notin> set ys \<Longrightarrow> strcasecmp xs ys < 0 \<longleftrightarrow> map low xs < map low ys"
  by (induction xs ys rule: strcasecmp.induct) (auto simp flip: neq0_conv)

lemma strcasecmp_eq:
  "NUL \<notin> set xs \<Longrightarrow> NUL \<notin> set ys \<Longrightarrow> strcasecmp xs ys = 0 \<longleftrightarrow> map low xs = map low ys"
  by (induction xs ys rule: strcasecmp.induct) (auto simp flip: neq0_conv)

section \<open>Reading numbers\<close>

definition isspace :: "char \<Rightarrow> bool" where
  "isspace c \<longleftrightarrow> c \<in> {CHR '' '', CHR 0x09, CHR 0x0A, CHR 0x0B, CHR 0x0C, CHR 0x0D}"

definition digit_val :: "char \<Rightarrow> nat" where
  "digit_val c = (let n = of_char c in
     if 48 \<le> n \<and> n \<le> 57 then n - 48 else if 97 \<le> n \<and> n \<le> 122 then n - 87
     else if 65 \<le> n \<and> n \<le> 90 then n - 55 else 255)"

text \<open>The number of the longest prefix of digits, 0 without any.\<close>

definition number_at :: "nat \<Rightarrow> string \<Rightarrow> nat" where
  "number_at b s = foldl (\<lambda>a c. a * b + digit_val c) 0 (takeWhile (\<lambda>c. digit_val c < b) s)"

text \<open>
  \<^verbatim>\<open>strtol(s, NULL, b)\<close> for a zero terminated \<open>s\<close>: leading blanks, a sign, the prefix of base 16, digits; the value
  is cut to the range of \<^verbatim>\<open>long\<close>.  \<^verbatim>\<open>atoi\<close> is \<^verbatim>\<open>(int) strtol(s, NULL, 10)\<close>, as in the GNU C library.
\<close>

definition strtol :: "nat \<Rightarrow> string \<Rightarrow> int" where
  "strtol b s =
     (let s = dropWhile isspace s;
          (neg, s) = (case s of c # t \<Rightarrow> if c = CHR ''-'' then (True, t) else if c = CHR ''+'' then (False, t) else (False, s) | [] \<Rightarrow> (False, s));
          s = (case s of z # x # d # t \<Rightarrow> if b = 16 \<and> z = CHR ''0'' \<and> x \<in> {CHR ''x'', CHR ''X''} \<and> digit_val d < 16 then d # t else s | _ \<Rightarrow> s);
          v = int (number_at b s)
      in if neg then max (- (2 ^ 63)) (- v) else min (2 ^ 63 - 1) v)"

definition int32_of :: "int \<Rightarrow> int" where
  "int32_of i = sint (word_of_int i :: u32)"

definition atoi :: "string \<Rightarrow> int" where
  "atoi s = int32_of (strtol 10 s)"

text \<open>\<^verbatim>\<open>std::to_string\<close> of a signed number.\<close>

definition to_string :: "int \<Rightarrow> string" where
  "to_string i = (if i < 0 then ''-'' @ dec (nat (- i)) else dec (nat i))"

text \<open>Printed numbers read back.\<close>

lemma digit_val_digit: "n < 16 \<Longrightarrow> digit_val (''0123456789abcdef'' ! n) = n"
proof -
  assume "n < 16"
  then have "n \<in> {0, 1, 2, 3, 4, 5, 6, 7, 8, 9, 10, 11, 12, 13, 14, 15}" by simp arith
  then show ?thesis by (elim insertE emptyE) (simp_all add: digit_val_def)
qed

lemma digits_read:
  assumes "2 \<le> b" "b \<le> 16" "n < b ^ k" "0 < k"
  shows "foldl (\<lambda>a c. a * b + digit_val c) 0 (digits k b n) = n"
  using assms
proof (induction k arbitrary: n)
  case (Suc k)
  have d: "digit_val (''0123456789abcdef'' ! (n mod b)) = n mod b"
    using Suc.prems by (intro digit_val_digit) (rule less_le_trans [OF mod_less_divisor], simp_all)
  show ?case
  proof (cases "n < b")
    case True
    then show ?thesis using d by simp
  next
    case False
    then have "0 < k" using Suc.prems by (cases k) auto
    moreover have "n div b < b ^ k" using Suc.prems by (simp add: less_mult_imp_div_less mult.commute)
    ultimately show ?thesis using Suc False d by (simp add: mult.commute)
  qed
qed simp

lemma digits_digit: "2 \<le> b \<Longrightarrow> b \<le> 16 \<Longrightarrow> c \<in> set (digits k b n) \<Longrightarrow> digit_val c < b"
proof (induction k arbitrary: n)
  case (Suc k)
  have "digit_val (''0123456789abcdef'' ! (n mod b)) = n mod b"
    using Suc.prems by (intro digit_val_digit) (rule less_le_trans [OF mod_less_divisor], simp_all)
  then show ?case using Suc by (auto split: if_splits)
qed simp

lemma digits_nonempty: "0 < k \<Longrightarrow> digits k b n \<noteq> []"
  by (cases k) simp_all

lemma strtol_dec:
  assumes "n < 2 ^ 63" "rest = [] \<or> 10 \<le> digit_val (hd rest)"
  shows "strtol 10 (dec n @ rest) = int n"
proof -
  have "dec n \<noteq> []" unfolding dec_def by (rule digits_nonempty) simp
  then obtain c cs where dec: "dec n = c # cs" by (cases "dec n") auto
  have all: "\<forall>d \<in> set (dec n). digit_val d < 10" 
    by (intro ballI) (unfold dec_def, rule digits_digit, auto simp del: digits_numeral)
  then have c: "digit_val c < 10" using dec by simp
  have "\<not> isspace c" "c \<noteq> CHR ''-''" "c \<noteq> CHR ''+''"
    using c by (auto simp: isspace_def digit_val_def)
  moreover have "takeWhile (\<lambda>c. digit_val c < 10) (dec n @ rest) = dec n"
  proof -
    have "takeWhile (\<lambda>c. digit_val c < 10) rest = []" using assms(2) by (cases rest) auto
      then show ?thesis using all by (subst takeWhile_append2) auto
  qed
  then have "number_at 10 (dec n @ rest) = n"
    using digits_read [of 10 n 20] assms(1) by (simp add: number_at_def dec_def del: digits_numeral)
  ultimately show ?thesis using dec assms(1)
    by (auto simp: strtol_def Let_def split: list.split)
qed

lemma atoi_dec:
  assumes "n < 2 ^ 31" "rest = [] \<or> 10 \<le> digit_val (hd rest)"
  shows "atoi (dec n @ rest) = int n"
proof -
  have "strtol 10 (dec n @ rest) = int n" using assms by (intro strtol_dec) simp_all
  moreover have "int n < 2 ^ 31" using assms by simp
  ultimately show ?thesis by (simp add: atoi_def int32_of_def signed_of_nat signed_take_bit_int_eq_self)
qed

end
