(* ===== verification/Address.thy ===== *)
theory Address
  imports Endian Cpp_Containers Cpp_Strings
begin

unbundle bit_operations_syntax

text \<open>
  The socket addresses of \<^verbatim>\<open>linko/address.{h,cc}\<close>.  The structures of \<^verbatim>\<open>netinet/in.h\<close> and \<^verbatim>\<open>sys/un.h\<close>
  are records of their fields as they lie in memory; \<open>host\<close> is the byte order of the machine.
  The resolver (\<^verbatim>\<open>getaddrinfo\<close>) and \<^verbatim>\<open>inet_pton\<close> are arguments.
\<close>

section \<open>Masks\<close>

text \<open>
  \<^verbatim>\<open>~(1 << n) - 1\<close> on \<^verbatim>\<open>int\<close>, converted to \<open>T\<close>; a shift by the width of \<^verbatim>\<open>int\<close> or more is undefined, and
  \<open>bits\<close> beyond the width of \<open>T\<close> makes the shift count wrap around to such a value.
\<close>

definition CreateMask :: "nat \<Rightarrow> cpp_error + 'a::len word" where
  "CreateMask bits =
     (if LENGTH('a) < bits \<or> 32 \<le> LENGTH('a) - bits then Inl Undefined
      else Inr (ucast (NOT (push_bit (LENGTH('a) - bits) (1 :: 32 word)) - 1)))"

lemma word_and_decr_less: "value \<noteq> 0 \<Longrightarrow> unat (value AND (value - 1)) < unat (value :: 'a::len word)"
proof -
  assume "value \<noteq> 0"
  then have "unat (value - 1) < unat value" by (simp add: unat_minus_one unat_gt_0 diff_less)
  moreover have "value AND (value - 1) \<le> value - 1" by (rule word_and_le1)
  ultimately show ?thesis by (simp add: word_le_nat_alt)
qed

function CountBytes :: "'a::len word \<Rightarrow> nat" where
  "CountBytes value = (if value = 0 then 0 else CountBytes (value AND (value - 1)) + 1)"
  by pat_completeness auto
termination
  by (relation "measure unat") (simp_all add: word_and_decr_less)

declare CountBytes.simps [simp del]

section \<open>Address structures\<close>

definition AF_UNSPEC :: nat where "AF_UNSPEC = 0"
definition AF_UNIX :: nat where "AF_UNIX = 1"
definition AF_INET :: nat where "AF_INET = 2"
definition AF_INET6 :: nat where "AF_INET6 = 10"

record sockaddr_in =
  sin_family :: u16
  sin_port :: u16
  s_addr :: u32
  sin_zero :: "byte list"

record sockaddr_in6 =
  sin6_family :: u16
  sin6_port :: u16
  sin6_flowinfo :: u32
  s6_addr :: "byte list"
  sin6_scope_id :: u32

record sockaddr_un =
  sun_family :: u16
  sun_path :: string
  un_length :: nat

datatype address =
    IPv4Address sockaddr_in
  | IPv6Address sockaddr_in6
  | UnixAddress sockaddr_un
  | UnknownAddress u16 "byte list"

text \<open>
  The structure \<^verbatim>\<open>getAddr\<close> points to, and \<^verbatim>\<open>getAddrLen\<close>: its size, but for a Unix address a number that \<^verbatim>\<open>setAddrLen\<close> can
  make larger than it.
\<close>

definition addr_object :: "byte_order \<Rightarrow> address \<Rightarrow> byte list" where
  "addr_object host a = (case a of
     IPv4Address s \<Rightarrow> mem_bytes host (sin_family s) @ mem_bytes host (sin_port s) @ mem_bytes host (s_addr s) @ sin_zero s
   | IPv6Address s \<Rightarrow> mem_bytes host (sin6_family s) @ mem_bytes host (sin6_port s) @ mem_bytes host (sin6_flowinfo s)
       @ s6_addr s @ mem_bytes host (sin6_scope_id s)
   | UnixAddress s \<Rightarrow> mem_bytes host (sun_family s) @ map of_char (sun_path s)
   | UnknownAddress f d \<Rightarrow> mem_bytes host f @ d)"

definition getAddrLen :: "byte_order \<Rightarrow> address \<Rightarrow> nat" where
  "getAddrLen host a = (case a of UnixAddress s \<Rightarrow> un_length s | _ \<Rightarrow> length (addr_object host a))"

definition getFamily :: "address \<Rightarrow> u16" where
  "getFamily a = (case a of IPv4Address s \<Rightarrow> sin_family s | IPv6Address s \<Rightarrow> sin6_family s
     | UnixAddress s \<Rightarrow> sun_family s | UnknownAddress f d \<Rightarrow> f)"

section \<open>Comparison\<close>

text \<open>\<^verbatim>\<open>memcmp\<close>: negative, zero or positive; reading behind one of the structures is undefined.\<close>

fun memcmp :: "byte list \<Rightarrow> byte list \<Rightarrow> int" where
  "memcmp (x # xs) (y # ys) = (if x < y then - 1 else if y < x then 1 else memcmp xs ys)"
| "memcmp _ _ = 0"

definition addr_memcmp :: "byte_order \<Rightarrow> nat \<Rightarrow> address \<Rightarrow> address \<Rightarrow> cpp_error + int" where
  "addr_memcmp host n l r =
     (if length (addr_object host l) < n \<or> length (addr_object host r) < n then Inl Undefined
      else Inr (memcmp (take n (addr_object host l)) (take n (addr_object host r))))"

definition address_less :: "byte_order \<Rightarrow> address \<Rightarrow> address \<Rightarrow> cpp_error + bool" where
  "address_less host l r =
     (let minlen = min (getAddrLen host l) (getAddrLen host r)
      in case addr_memcmp host minlen l r of
        Inl e \<Rightarrow> Inl e
      | Inr result \<Rightarrow> Inr (if result < 0 then True else if 0 < result then False
          else getAddrLen host l < getAddrLen host r))"

definition address_eq :: "byte_order \<Rightarrow> address \<Rightarrow> address \<Rightarrow> cpp_error + bool" where
  "address_eq host l r =
     (if getAddrLen host l \<noteq> getAddrLen host r then Inr False
      else case addr_memcmp host (getAddrLen host l) l r of Inl e \<Rightarrow> Inl e | Inr result \<Rightarrow> Inr (result = 0))"

section \<open>IPv4\<close>

definition IPv4_new :: "byte_order \<Rightarrow> u32 \<Rightarrow> u16 \<Rightarrow> sockaddr_in" where
  "IPv4_new host address port =
     \<lparr>sin_family = of_nat AF_INET, sin_port = byteswapOnLittleEndian host port,
      s_addr = byteswapOnLittleEndian host address, sin_zero = replicate 8 0\<rparr>"

text \<open>\<open>inet_pton\<close> gives the value stored at \<^verbatim>\<open>sin_addr\<close>, or nothing when the text is no address.\<close>

definition IPv4_Create :: "byte_order \<Rightarrow> (string \<Rightarrow> u32 option) \<Rightarrow> string \<Rightarrow> u16 \<Rightarrow> sockaddr_in option" where
  "IPv4_Create host inet_pton address port =
     (case inet_pton address of None \<Rightarrow> None
      | Some v \<Rightarrow> Some ((IPv4_new host 0 0)\<lparr>sin_port := byteswapOnLittleEndian host port, s_addr := v\<rparr>))"

definition IPv4_insert :: "byte_order \<Rightarrow> sockaddr_in \<Rightarrow> string" where
  "IPv4_insert host s =
     (let addr = byteswapOnLittleEndian host (s_addr s) in
      dec (unat (drop_bit 24 addr AND 0xff)) @ ''.'' @ dec (unat (drop_bit 16 addr AND 0xff)) @ ''.''
      @ dec (unat (drop_bit 8 addr AND 0xff)) @ ''.'' @ dec (unat (addr AND 0xff))
      @ '':'' @ dec (unat (byteswapOnLittleEndian host (sin_port s))))"

definition IPv4_broadcastAddress :: "byte_order \<Rightarrow> nat \<Rightarrow> sockaddr_in \<Rightarrow> cpp_error + sockaddr_in option" where
  "IPv4_broadcastAddress host prefix_len s =
     (if 32 < prefix_len then Inr None
      else case CreateMask prefix_len of Inl e \<Rightarrow> Inl e
        | Inr m \<Rightarrow> Inr (Some (s\<lparr>s_addr := s_addr s OR NOT (byteswapOnLittleEndian host m)\<rparr>)))"

definition IPv4_networdAddress :: "byte_order \<Rightarrow> nat \<Rightarrow> sockaddr_in \<Rightarrow> cpp_error + sockaddr_in option" where
  "IPv4_networdAddress host prefix_len s =
     (if 32 < prefix_len then Inr None
      else case CreateMask prefix_len of Inl e \<Rightarrow> Inl e
        | Inr m \<Rightarrow> Inr (Some (s\<lparr>s_addr := s_addr s AND byteswapOnLittleEndian host m\<rparr>)))"

definition IPv4_subnetMask :: "byte_order \<Rightarrow> nat \<Rightarrow> cpp_error + sockaddr_in" where
  "IPv4_subnetMask host prefix_len =
     (case CreateMask prefix_len of Inl e \<Rightarrow> Inl e
      | Inr m \<Rightarrow> Inr \<lparr>sin_family = of_nat AF_INET, sin_port = 0, s_addr = byteswapOnLittleEndian host m,
                   sin_zero = replicate 8 0\<rparr>)"

definition IPv4_getPort :: "byte_order \<Rightarrow> sockaddr_in \<Rightarrow> nat" where
  "IPv4_getPort host s = unat (byteswapOnLittleEndian host (sin_port s))"

definition IPv4_setPort :: "byte_order \<Rightarrow> u16 \<Rightarrow> sockaddr_in \<Rightarrow> sockaddr_in" where
  "IPv4_setPort host v s = s\<lparr>sin_port := byteswapOnLittleEndian host v\<rparr>"

section \<open>IPv6\<close>

definition IPv6_new :: "byte_order \<Rightarrow> byte list \<Rightarrow> u16 \<Rightarrow> sockaddr_in6" where
  "IPv6_new host address port =
     \<lparr>sin6_family = of_nat AF_INET6, sin6_port = byteswapOnLittleEndian host port, sin6_flowinfo = 0,
      s6_addr = address, sin6_scope_id = 0\<rparr>"

definition IPv6_Create :: "byte_order \<Rightarrow> (string \<Rightarrow> byte list option) \<Rightarrow> string \<Rightarrow> u16 \<Rightarrow> sockaddr_in6 option" where
  "IPv6_Create host inet_pton address port = map_option (\<lambda>a. IPv6_new host a port) (inet_pton address)"

text \<open>The eight 16 bit groups as they lie in memory.\<close>

definition groups :: "byte_order \<Rightarrow> byte list \<Rightarrow> u16 list" where
  "groups host bs = map (\<lambda>i. mem_value host (take 2 (drop (2 * i) bs))) [0..<8]"

text \<open>The loop of \<^verbatim>\<open>insert\<close>; \<open>prev\<close> is the group before the current one.\<close>

fun insert_groups :: "byte_order \<Rightarrow> u16 option \<Rightarrow> bool \<Rightarrow> u16 list \<Rightarrow> string \<times> bool" where
  "insert_groups host prev used_zeros [] = ([], used_zeros)"
| "insert_groups host prev used_zeros (g # gs) =
     (if g = 0 \<and> \<not> used_zeros then insert_groups host (Some g) used_zeros gs
      else let gap = prev = Some 0 \<and> \<not> used_zeros;
               (rest, used) = insert_groups host (Some g) (used_zeros \<or> gap) gs
           in ((if gap then '':'' else []) @ (if prev \<noteq> None then '':'' else [])
               @ hex (unat (byteswapOnLittleEndian host g)) @ rest, used))"

definition IPv6_insert :: "byte_order \<Rightarrow> sockaddr_in6 \<Rightarrow> string" where
  "IPv6_insert host s =
     (let gs = groups host (s6_addr s); (text, used_zeros) = insert_groups host None False gs
      in ''['' @ text @ (if \<not> used_zeros \<and> gs ! 7 = 0 then ''::'' else [])
         @ '']:'' @ dec (unat (byteswapOnLittleEndian host (sin6_port s))))"

text \<open>Bytes from position \<open>i\<close> on are all set to \<open>v\<close>; byte 16 lies outside the array.\<close>

definition fill_from :: "nat \<Rightarrow> byte \<Rightarrow> byte list \<Rightarrow> byte list" where
  "fill_from i v bs = take i bs @ replicate (length bs - i) v"

definition IPv6_broadcastAddress :: "nat \<Rightarrow> sockaddr_in6 \<Rightarrow> cpp_error + sockaddr_in6" where
  "IPv6_broadcastAddress prefix_len s =
     (let i = prefix_len div 8 in
      if 16 \<le> i then Inl Undefined
      else case CreateMask (prefix_len mod 8) of Inl e \<Rightarrow> Inl e
        | Inr m \<Rightarrow> Inr (s\<lparr>s6_addr := fill_from (i + 1) 0xff ((s6_addr s)[i := (s6_addr s ! i) OR NOT m])\<rparr>))"

definition IPv6_networdAddress :: "nat \<Rightarrow> sockaddr_in6 \<Rightarrow> cpp_error + sockaddr_in6" where
  "IPv6_networdAddress prefix_len s =
     (let i = prefix_len div 8 in
      if 16 \<le> i then Inl Undefined
      else case CreateMask (prefix_len mod 8) of Inl e \<Rightarrow> Inl e
        | Inr m \<Rightarrow> Inr (s\<lparr>s6_addr := fill_from (i + 1) 0 ((s6_addr s)[i := (s6_addr s ! i) AND m])\<rparr>))"

definition IPv6_subnetMask :: "nat \<Rightarrow> cpp_error + sockaddr_in6" where
  "IPv6_subnetMask prefix_len =
     (let i = prefix_len div 8 in
      if 16 \<le> i then Inl Undefined
      else case CreateMask (prefix_len mod 8) of Inl e \<Rightarrow> Inl e
        | Inr m \<Rightarrow> Inr \<lparr>sin6_family = of_nat AF_INET6, sin6_port = 0, sin6_flowinfo = 0,
             s6_addr = replicate i 0xff @ [m] @ replicate (15 - i) 0, sin6_scope_id = 0\<rparr>)"

definition IPv6_getPort :: "byte_order \<Rightarrow> sockaddr_in6 \<Rightarrow> nat" where
  "IPv6_getPort host s = unat (byteswapOnLittleEndian host (sin6_port s))"

definition IPv6_setPort :: "byte_order \<Rightarrow> u16 \<Rightarrow> sockaddr_in6 \<Rightarrow> sockaddr_in6" where
  "IPv6_setPort host v s = s\<lparr>sin6_port := byteswapOnLittleEndian host v\<rparr>"

section \<open>Unix domain and unknown addresses\<close>

definition sun_path_size :: nat where "sun_path_size = 108"
definition sun_path_offset :: nat where "sun_path_offset = 2"
definition MAX_PATH_LEN :: nat where "MAX_PATH_LEN = sun_path_size - 1"

definition Unix_new :: sockaddr_un where
  "Unix_new = \<lparr>sun_family = of_nat AF_UNIX, sun_path = replicate sun_path_size NUL, un_length = sun_path_offset + MAX_PATH_LEN\<rparr>"

definition Unix_path :: "string \<Rightarrow> cpp_error + sockaddr_un" where
  "Unix_path path =
     (let len = length path + 1;
          len' = (if path \<noteq> [] \<and> hd path = NUL then len - 1 else len)
      in if sun_path_size < len' then Inl Logic_error
         else Inr \<lparr>sun_family = of_nat AF_UNIX,
                sun_path = overwrite (replicate sun_path_size NUL) 0 (take len' (path @ [NUL])),
                un_length = len' + sun_path_offset\<rparr>)"

definition setAddrLen :: "nat \<Rightarrow> sockaddr_un \<Rightarrow> sockaddr_un" where
  "setAddrLen v s = s\<lparr>un_length := v\<rparr>"

text \<open>A length within the structure is assumed here, and a terminated path in a named address: the code would read on behind it.\<close>

definition Unix_insert :: "sockaddr_un \<Rightarrow> string" where
  "Unix_insert s =
     (if sun_path_offset < un_length s \<and> sun_path s ! 0 = NUL
      then [CHR 0x5C, CHR ''0''] @ take (un_length s - sun_path_offset - 1) (drop 1 (sun_path s))
      else cstr (sun_path s))"

definition Unknown_insert :: "u16 \<Rightarrow> string" where
  "Unknown_insert f = ''[UnknownAddress family='' @ dec (unat f) @ '']''"

definition address_toString :: "byte_order \<Rightarrow> address \<Rightarrow> string" where
  "address_toString host a = (case a of IPv4Address s \<Rightarrow> IPv4_insert host s | IPv6Address s \<Rightarrow> IPv6_insert host s
     | UnixAddress s \<Rightarrow> Unix_insert s | UnknownAddress f d \<Rightarrow> Unknown_insert f)"

section \<open>Creation and lookup\<close>

text \<open>A \<^verbatim>\<open>sockaddr\<close> as the system hands it out: by family, in its own structure.\<close>

datatype sockaddr = Sa_in sockaddr_in | Sa_in6 sockaddr_in6 | Sa_other u16 "byte list"

definition Address_Create :: "sockaddr option \<Rightarrow> address option" where
  "Address_Create addr = (case addr of None \<Rightarrow> None
     | Some (Sa_in s) \<Rightarrow> Some (IPv4Address s)
     | Some (Sa_in6 s) \<Rightarrow> Some (IPv6Address s)
     | Some (Sa_other f d) \<Rightarrow> Some (UnknownAddress f d))"

fun memchr :: "char \<Rightarrow> string \<Rightarrow> nat option" where
  "memchr c [] = None"
| "memchr c (x # xs) = (if x = c then Some 0 else map_option Suc (memchr c xs))"

text \<open>
  The split of a host text into node and service.  \<open>service\<close> is a pointer into the text, so it runs
  to the text's end, and the character behind the text is the terminating zero.
\<close>

definition split_host :: "string \<Rightarrow> string \<times> string option" where
  "split_host host =
     (let (node, service) =
        (if host \<noteq> [] \<and> hd host = CHR ''['' then
           (case memchr (CHR '']'') (tl host) of
              None \<Rightarrow> ([], None)
            | Some k \<Rightarrow> let e = k + 1 in
                (take (e - 1) (drop 1 host),
                 if e + 1 < length host \<and> host ! (e + 1) = CHR '':'' then Some (drop (e + 2) host) else None))
         else ([], None));
      (node, service) =
        (if node = [] then
           (case memchr (CHR '':'') host of
              None \<Rightarrow> (node, None)
            | Some k \<Rightarrow>
                if memchr (CHR '':'') (drop (k + 1) host) = None then (take k host, Some (drop (k + 1) host))
                else (node, Some (drop k host)))
         else (node, service))
      in (if node = [] then host else node, service))"

text \<open>\<open>gai\<close> is \<^verbatim>\<open>getaddrinfo\<close>: the error or the list of results for a node and a service.\<close>

definition Address_Lookup :: "(string \<Rightarrow> string option \<Rightarrow> sockaddr list option) \<Rightarrow> string \<Rightarrow> address option list option" where
  "Address_Lookup gai host =
     (let (node, service) = split_host host in
      case gai (cstr node) (map_option cstr service) of None \<Rightarrow> None
      | Some results \<Rightarrow> Some (map (\<lambda>s. Address_Create (Some s)) results))"

definition LookupAny :: "(string \<Rightarrow> string option \<Rightarrow> sockaddr list option) \<Rightarrow> string \<Rightarrow> cpp_error + address option" where
  "LookupAny gai host = (case Address_Lookup gai host of None \<Rightarrow> Inr None
     | Some [] \<Rightarrow> Inl Undefined | Some (a # _) \<Rightarrow> Inr a)"

definition is_ip :: "address option \<Rightarrow> bool" where
  "is_ip a = (case a of Some (IPv4Address _) \<Rightarrow> True | Some (IPv6Address _) \<Rightarrow> True | _ \<Rightarrow> False)"

definition LookupAnyIPAddress :: "(string \<Rightarrow> string option \<Rightarrow> sockaddr list option) \<Rightarrow> string \<Rightarrow> address option" where
  "LookupAnyIPAddress gai host = (case Address_Lookup gai host of None \<Rightarrow> None
     | Some as \<Rightarrow> (case List.find is_ip as of Some a \<Rightarrow> a | None \<Rightarrow> None))"

definition setPort_any :: "byte_order \<Rightarrow> u16 \<Rightarrow> address \<Rightarrow> address" where
  "setPort_any host v a = (case a of IPv4Address s \<Rightarrow> IPv4Address (IPv4_setPort host v s)
     | IPv6Address s \<Rightarrow> IPv6Address (IPv6_setPort host v s) | _ \<Rightarrow> a)"

definition IPAddress_Create :: "byte_order \<Rightarrow> (string \<Rightarrow> string option \<Rightarrow> sockaddr list option) \<Rightarrow> string \<Rightarrow> u16 \<Rightarrow> cpp_error + address option" where
  "IPAddress_Create host gai address port =
     (case gai address None of None \<Rightarrow> Inr None
      | Some [] \<Rightarrow> Inl Undefined
      | Some (s # _) \<Rightarrow> (let r = Address_Create (Some s) in
          Inr (if is_ip r then map_option (setPort_any host port) r else None)))"

text \<open>
  \<^verbatim>\<open>GetInterfaceAddress\<close> over the list of \<^verbatim>\<open>getifaddrs\<close>: names, addresses and netmasks (the
  netmask's \<^verbatim>\<open>s_addr\<close> or 16 bytes).  The result is the multimap's content in insertion order.
\<close>

datatype netmask = Mask4 u32 | Mask6 "byte list" | No_mask

definition iface_entry :: "string \<times> sockaddr \<times> netmask \<Rightarrow> (string \<times> address option \<times> nat) list" where
  "iface_entry e = (case e of
     (name, Sa_in s, Mask4 m) \<Rightarrow> [(name, Address_Create (Some (Sa_in s)), CountBytes m)]
   | (name, Sa_in6 s, Mask6 bs) \<Rightarrow> [(name, Address_Create (Some (Sa_in6 s)), sum_list (map CountBytes bs))]
   | _ \<Rightarrow> [])"

definition sa_family :: "sockaddr \<Rightarrow> u16" where
  "sa_family s = (case s of Sa_in s \<Rightarrow> sin_family s | Sa_in6 s \<Rightarrow> sin6_family s | Sa_other f _ \<Rightarrow> f)"

definition GetInterfaceAddress :: "(string \<times> sockaddr \<times> netmask) list option \<Rightarrow> nat \<Rightarrow> (string \<times> address option \<times> nat) list option" where
  "GetInterfaceAddress ifaddrs family =
     map_option (\<lambda>es. concat (map iface_entry
       (filter (\<lambda>(_, s, _). family = AF_UNSPEC \<or> of_nat family = sa_family s) es))) ifaddrs"

definition GetInterfaceAddress_of ::
  "byte_order \<Rightarrow> (string \<times> sockaddr \<times> netmask) list option \<Rightarrow> string \<Rightarrow> nat \<Rightarrow> bool \<times> (address option \<times> nat) list" where
  "GetInterfaceAddress_of host ifaddrs iface family =
     (let any = (if iface = [] \<or> iface = ''*''
        then (if family = AF_INET \<or> family = AF_UNSPEC then [(Some (IPv4Address (IPv4_new host 0 0)), 0)] else [])
           @ (if family = AF_INET6 \<or> family = AF_UNSPEC then [(Some (IPv6Address (IPv6_new host (replicate 16 0) 0)), 0)] else [])
        else [])
      in case GetInterfaceAddress ifaddrs family of
           None \<Rightarrow> (False, any)
         | Some results \<Rightarrow> (True, any @ map snd (filter (\<lambda>(name, _). name = iface) results)))"

end
