(* ===== verification/Address_Correct.thy ===== *)
theory Address_Correct
  imports Address
begin

unbundle bit_operations_syntax

text \<open>
  What the address operations compute: the masks exactly (they are not prefix masks), the bit
  count, ports and texts independent of the host's byte order, the order of addresses, the
  split of a host text and the path of a Unix address.
\<close>

section \<open>Masks and bit counts\<close>

lemma CreateMask_u32:
  assumes "1 \<le> bits" "bits \<le> 32"
  shows "CreateMask bits = (Inr (- (2 ^ (32 - bits)) - 2) :: cpp_error + u32)"
proof -
  have "NOT (push_bit (32 - bits) (1 :: u32)) - 1 = - (2 ^ (32 - bits)) - 2"
    by (simp add: push_bit_eq_mult not_eq_complement)
  then show ?thesis using assms by (simp add: CreateMask_def)
qed

lemma CreateMask_zero: "CreateMask 0 = (Inl Undefined :: cpp_error + u32)"
  by (simp add: CreateMask_def)

lemma lowest_bit_split:
  "0 < n \<Longrightarrow> n AND (n - 1) < n \<and> card {i. bit (n :: nat) i} = Suc (card {i. bit (n AND (n - 1)) i})"
proof (induction n rule: less_induct)
  case (less n)
  show ?case
  proof (cases "even n")
    case True
    then obtain m where m: "n = 2 * m" by (elim evenE)
    then have pos: "0 < m" "m < n" using less.prems by auto
    have "n - 1 = 2 * (m - 1) + 1" using m pos by simp
    then have eq: "n AND (n - 1) = 2 * (m AND (m - 1))"
      using m by (simp add: and_rec [of "2 * m"])
    have shift: "{i. bit (2 * k) i} = Suc ` {i. bit k i}" for k :: nat
    proof -
      have "bit (2 * k) i \<longleftrightarrow> (\<exists>j. i = Suc j \<and> bit k j)" for i by (cases i) (simp_all add: bit_0 bit_Suc)
      then show ?thesis by auto
    qed
    have "card {i. bit n i} = card {i. bit m i}" "card {i. bit (n AND (n - 1)) i} = card {i. bit (m AND (m - 1)) i}"
      unfolding eq unfolding m shift by (simp_all add: card_image)
    moreover have "n AND (n - 1) < n" unfolding eq using less.IH [OF pos(2,1)] m by simp
    ultimately show ?thesis using less.IH [OF pos(2,1)] by simp
  next
    case False
    then obtain m where m: "n = 2 * m + 1" by (elim oddE)
    then have eq: "n AND (n - 1) = 2 * m" using and_rec [of "Suc (2 * m)" "2 * m"] by simp
    have "{i. bit n i} = insert 0 {i. bit (2 * m) i}" "0 \<notin> {i. bit (2 * m) i}" "finite {i. bit (2 * m) i}"
    proof -
      show "{i. bit n i} = insert 0 {i. bit (2 * m) i}"
      proof (intro equalityI subsetI)
        fix i assume "i \<in> {i. bit n i}"
        then show "i \<in> insert 0 {i. bit (2 * m) i}" unfolding m by (cases i) (simp_all add: bit_Suc)
      next
        fix i assume "i \<in> insert 0 {i. bit (2 * m) i}"
        then show "i \<in> {i. bit n i}" unfolding m by (cases i) (simp_all add: bit_Suc bit_0)
      qed
      show "0 \<notin> {i. bit (2 * m) i}" by (simp add: bit_0)
      show "finite {i. bit (2 * m) i}"
      proof (rule finite_subset)
        show "{i. bit (2 * m) i} \<subseteq> {..2 * m}"
        proof
          fix i assume "i \<in> {i. bit (2 * m) i}"
          then have "2 ^ i \<le> 2 * m" by (auto simp: bit_iff_odd dest!: odd_pos intro: div_greater_zero_iff [THEN iffD1, THEN conjunct1])
          then show "i \<in> {..2 * m}" using order_less_le_trans [OF less_exp [of i]] by (simp add: less_imp_le)
        qed
      qed simp
    qed
    then show ?thesis unfolding eq by (simp add: m)
  qed
qed

lemma unat_and_decr: "v \<noteq> 0 \<Longrightarrow> unat (v AND (v - 1)) = unat v AND (unat (v :: 'a::len word) - 1)"
  by (simp add: unsigned_and_eq unat_minus_one)

lemma CountBytes_card: "CountBytes (v :: 'a::len word) = card {i. bit v i}"
proof -
  have "CountBytes v = card {i. bit (unat v) i}"
  proof (induction v rule: CountBytes.induct)
    case (1 v)
    show ?case
    proof (cases "v = 0")
      case False
      then show ?thesis
        using 1 lowest_bit_split [of "unat v"] unat_and_decr [OF False]
        by (simp add: CountBytes.simps [of v] unat_gt_0)
    qed (simp add: CountBytes.simps)
  qed
  moreover have "bit (unat v) i = bit v i" for i by (simp add: bit_unsigned_iff bit_imp_le_length)
  ultimately show ?thesis by simp
qed

section \<open>Ports and texts\<close>

lemma port_roundtrips:
  "IPv4_getPort host (IPv4_setPort host v s) = unat v" "IPv6_getPort host (IPv6_setPort host v s6) = unat v"
  by (simp_all add: IPv4_getPort_def IPv4_setPort_def IPv6_getPort_def IPv6_setPort_def byteswapOnLittleEndian_twice)

lemma IPv4_insert_new:
  "IPv4_insert host (IPv4_new host address port) =
     dec (unat (drop_bit 24 address AND 0xff)) @ ''.'' @ dec (unat (drop_bit 16 address AND 0xff)) @ ''.''
     @ dec (unat (drop_bit 8 address AND 0xff)) @ ''.'' @ dec (unat (address AND 0xff)) @ '':'' @ dec (unat port)"
  by (simp add: IPv4_insert_def IPv4_new_def byteswapOnLittleEndian_twice)

section \<open>The order of addresses\<close>

lemma memcmp_zero_iff: "length xs = length ys \<Longrightarrow> memcmp xs ys = 0 \<longleftrightarrow> xs = ys"
  by (induction xs ys rule: list_induct2) auto

lemma memcmp_range: "memcmp xs ys = - 1 \<or> memcmp xs ys = 0 \<or> memcmp xs ys = 1"
  by (induction xs ys rule: memcmp.induct) auto

text \<open>The comparison as one of byte sequences.\<close>

definition bytes_less :: "byte list \<Rightarrow> byte list \<Rightarrow> bool" where
  "bytes_less l r =
     (let minlen = min (length l) (length r);
          result = memcmp (take minlen l) (take minlen r)
      in if result < 0 then True else if 0 < result then False
         else length l < length r)"

lemma bytes_less_Cons:
  "bytes_less (x # xs) (y # ys) \<longleftrightarrow> x < y \<or> x = y \<and> bytes_less xs ys"
  by (auto simp: bytes_less_def Let_def)

lemma bytes_less_Nil [simp]: "bytes_less [] ys \<longleftrightarrow> ys \<noteq> []" "\<not> bytes_less xs []"
  by (auto simp: bytes_less_def Let_def)

lemma bytes_less_lex: "bytes_less xs ys \<longleftrightarrow> xs < ys"
proof (induction xs arbitrary: ys)
  case (Cons x xs)
  then show ?case by (cases ys) (auto simp: bytes_less_Cons)
next
  case Nil
  then show ?case by (cases ys) auto
qed

text \<open>Byte sequences are totally ordered; addresses whose length is within their structure are ordered by their bytes.\<close>

interpretation bytes_order: strict_total_order bytes_less
  by unfold_locales (auto simp: bytes_less_lex)

definition addr_within :: "byte_order \<Rightarrow> address \<Rightarrow> bool" where
  "addr_within host a \<longleftrightarrow> getAddrLen host a \<le> length (addr_object host a)"

definition addr_bytes :: "byte_order \<Rightarrow> address \<Rightarrow> byte list" where
  "addr_bytes host a = take (getAddrLen host a) (addr_object host a)"

lemma length_addr_bytes [simp]: "addr_within host a \<Longrightarrow> length (addr_bytes host a) = getAddrLen host a"
  by (simp add: addr_within_def addr_bytes_def)

lemma address_less_bytes:
  assumes "addr_within host l" "addr_within host r"
  shows "address_less host l r = Inr (bytes_less (addr_bytes host l) (addr_bytes host r))"
proof -
  let ?n = "min (getAddrLen host l) (getAddrLen host r)"
  have "take ?n (addr_bytes host a) = take ?n (addr_object host a)" if "a = l \<or> a = r" for a
    using that by (auto simp: addr_bytes_def)
  then show ?thesis using assms
    by (auto simp: address_less_def addr_memcmp_def bytes_less_def Let_def addr_within_def [of host] min_def)
qed

lemma address_eq_bytes:
  assumes "addr_within host l" "addr_within host r"
  shows "address_eq host l r = Inr (addr_bytes host l = addr_bytes host r)"
proof (cases "getAddrLen host l = getAddrLen host r")
  case True
  then show ?thesis using assms memcmp_zero_iff [of "addr_bytes host l" "addr_bytes host r"]
    by (simp add: address_eq_def addr_memcmp_def addr_bytes_def addr_within_def)
next
  case False
  then have "addr_bytes host l \<noteq> addr_bytes host r" using assms by (metis length_addr_bytes)
  then show ?thesis using False by (simp add: address_eq_def)
qed

text \<open>Every address but a Unix address with another length is within its structure.\<close>

lemma addr_within_cases:
  "addr_within host (IPv4Address s4)" "addr_within host (IPv6Address s6)" "addr_within host (UnknownAddress f d)"
  "addr_within host (UnixAddress Unix_new)" "Unix_path path = Inr u \<Longrightarrow> addr_within host (UnixAddress u)"
  by (auto simp: addr_within_def getAddrLen_def addr_object_def Unix_new_def Unix_path_def Let_def MAX_PATH_LEN_def
      sun_path_offset_def overwrite_def length_mem_bytes split: if_splits)

section \<open>Host texts\<close>

lemma memchr_None: "memchr c s = None \<longleftrightarrow> c \<notin> set s"
  by (induction s) auto

lemma memchr_append: "c \<notin> set s \<Longrightarrow> memchr c (s @ c # t) = Some (length s)"
  by (induction s) auto

lemma split_host_v4:
  assumes "node \<noteq> []" "hd node \<noteq> CHR ''[''" "CHR '':'' \<notin> set node" "CHR '':'' \<notin> set port"
  shows "split_host (node @ '':'' @ port) = (node, Some port)" "split_host node = (node, None)"
  using assms memchr_append [of "CHR '':''" node port]
  by (auto simp: split_host_def Let_def memchr_None memchr_None [THEN iffD2] hd_append)

lemma split_host_v6:
  assumes "node \<noteq> []" "CHR '']'' \<notin> set node"
  shows "split_host (''['' @ node @ '']:'' @ port) = (node, Some port)" "split_host (''['' @ node @ '']'') = (node, None)"
  using assms memchr_append [of "CHR '']''" node "CHR '':'' # port"] memchr_append [of "CHR '']''" node "[]"]
  by (auto simp: split_host_def Let_def nth_append)

text \<open>A plain IPv6 address gets its own tail as the service.\<close>

lemma split_host_plain_v6: "split_host ''::1'' = (''::1'', Some ''::1'')"
  by code_simp

section \<open>Unix paths\<close>

lemma Unix_path_text:
  assumes "path \<noteq> []" "NUL \<notin> set path" "length path < sun_path_size"
  shows "\<exists>s. Unix_path path = Inr s \<and> Unix_insert s = path \<and> un_length s = length path + 3"
proof -
  let ?s = "\<lparr>sun_family = of_nat AF_UNIX, sun_path = path @ NUL # drop (length path + 1) (replicate sun_path_size NUL),
     un_length = length path + 1 + sun_path_offset\<rparr>"
  have "hd path \<noteq> NUL" using assms by (cases path) auto
  then have "Unix_path path = Inr ?s"
    using assms(3) by (simp add: Unix_path_def Let_def overwrite_def)
  moreover have "Unix_insert ?s = path"
    using assms \<open>hd path \<noteq> NUL\<close>
    by (auto simp: Unix_insert_def cstr_def takeWhile_append hd_conv_nth nth_append)
  ultimately show ?thesis by (auto simp: sun_path_offset_def)
qed

lemma Unix_path_too_long:
  "sun_path_size \<le> length path \<Longrightarrow> NUL \<notin> set path \<Longrightarrow> Unix_path path = Inl Logic_error"
  by (cases path) (auto simp: Unix_path_def Let_def sun_path_size_def)

section \<open>IPv6 texts\<close>

text \<open>
  The text of eight groups: hexadecimal groups separated by colons, the first run of zero groups
  written as two colons.
\<close>

definition join_groups :: "u16 list \<Rightarrow> string" where
  "join_groups gs = (case gs of [] \<Rightarrow> [] | g # gs \<Rightarrow> hex (unat g) @ concat (map (\<lambda>g. '':'' @ hex (unat g)) gs))"

definition ipv6_text :: "u16 list \<Rightarrow> string" where
  "ipv6_text gs =
     (let pre = takeWhile (\<lambda>g. g \<noteq> 0) gs; rest = dropWhile (\<lambda>g. g \<noteq> 0) gs in
      if rest = [] then join_groups pre
      else join_groups pre @ ''::'' @ join_groups (dropWhile (\<lambda>g. g = 0) rest))"

definition net_groups :: "byte list \<Rightarrow> u16 list" where
  "net_groups bs = map (\<lambda>i. word_of_be (take 2 (drop (2 * i) bs))) [0..<8]"

lemma byteswap_mem_value:
  assumes "length bs = LENGTH('a) div 8"
  shows "byteswapOnLittleEndian host (mem_value host bs) = (word_of_be bs :: 'a::len word)"
  using assms by (cases host) (simp_all add: byteswapOnLittleEndian_def mem_value_def byteswap_def bytes_le_word_of_le word_of_be_def)

lemma net_groups_swap:
  "length bs = 16 \<Longrightarrow> net_groups bs = map (byteswapOnLittleEndian host) (groups host bs)"
  by (simp add: net_groups_def groups_def byteswap_mem_value)

lemma byteswap_zero_iff: "byteswapOnLittleEndian host (g :: u16) = 0 \<longleftrightarrow> g = 0"
proof
  assume "byteswapOnLittleEndian host g = 0"
  then have "byteswapOnLittleEndian host (byteswapOnLittleEndian host g) = byteswapOnLittleEndian host 0" by simp
  then show "g = 0" by (cases host) (simp_all add: byteswapOnLittleEndian_twice, simp_all add: byteswapOnLittleEndian_def byteswap_def bytes_le_def upt_rec)
next
  assume "g = 0"
  then show "byteswapOnLittleEndian host g = 0"
    by (cases host) (simp_all add: byteswapOnLittleEndian_def byteswap_def bytes_le_def upt_rec)
qed

definition swap_hex :: "byte_order \<Rightarrow> u16 \<Rightarrow> string" where
  "swap_hex host g = hex (unat (byteswapOnLittleEndian host g))"

lemma insert_after_zeros:
  "insert_groups host (Some p) True gs = (concat (map (\<lambda>g. '':'' @ swap_hex host g) gs), True)"
  by (induction gs arbitrary: p) (simp_all add: swap_hex_def)

definition joined :: "byte_order \<Rightarrow> u16 list \<Rightarrow> string" where
  "joined host gs = (case gs of [] \<Rightarrow> [] | g # gs \<Rightarrow> swap_hex host g @ concat (map (\<lambda>g. '':'' @ swap_hex host g) gs))"

lemma insert_zeros:
  assumes "gs \<noteq> []" "hd gs = 0" "post = dropWhile (\<lambda>g. g = 0) gs"
  shows "insert_groups host prev False gs = (if post = [] then ([], False) else (''::'' @ joined host post, True))"
  using assms
proof (induction gs arbitrary: prev)
  case (Cons g gs)
  then have g: "g = 0" by simp
  show ?case
  proof (cases gs)
    case Nil
    then show ?thesis using g Cons.prems by simp
  next
    case (Cons x xs)
    show ?thesis
    proof (cases "x = 0")
      case True
      then have "insert_groups host (Some g) False gs = (if post = [] then ([], False) else (''::'' @ joined host post, True))"
        using Cons.IH [of "Some g"] Cons.prems g local.Cons by simp
      then show ?thesis using g by simp
    next
      case False
      then show ?thesis using g Cons.prems local.Cons
        by (simp add: insert_after_zeros joined_def swap_hex_def)
    qed
  qed
qed simp

lemma insert_nonzeros:
  assumes "\<forall>g \<in> set pre. g \<noteq> 0" "prev \<noteq> Some 0" "rest = [] \<or> hd rest = 0"
  shows "\<exists>prev'. insert_groups host prev False (pre @ rest) =
     ((if prev = None then joined host pre else concat (map (\<lambda>g. '':'' @ swap_hex host g) pre))
      @ fst (insert_groups host prev' False rest), snd (insert_groups host prev' False rest))"
  using assms
proof (induction pre arbitrary: prev)
  case Nil
  then show ?case by (intro exI [of _ prev]) (simp add: joined_def)
next
  case (Cons g pre)
  then obtain prev' where "insert_groups host (Some g) False (pre @ rest) =
      (concat (map (\<lambda>g. '':'' @ swap_hex host g) pre) @ fst (insert_groups host prev' False rest),
       snd (insert_groups host prev' False rest))"
    using Cons.IH [of "Some g"] by auto
  then show ?case using Cons.prems by (intro exI [of _ prev']) (auto simp: joined_def swap_hex_def)
qed

lemma joined_swap: "joined host gs = join_groups (map (byteswapOnLittleEndian host) gs)"
  by (cases gs) (simp_all add: joined_def join_groups_def swap_hex_def comp_def)

lemma takeWhile_map_zero:
  "takeWhile (\<lambda>g. g \<noteq> 0) (map (byteswapOnLittleEndian host) gs) = map (byteswapOnLittleEndian host) (takeWhile (\<lambda>g :: u16. g \<noteq> 0) gs)"
  "dropWhile (\<lambda>g. g \<noteq> 0) (map (byteswapOnLittleEndian host) gs) = map (byteswapOnLittleEndian host) (dropWhile (\<lambda>g :: u16. g \<noteq> 0) gs)"
  "dropWhile (\<lambda>g. g = 0) (map (byteswapOnLittleEndian host) gs) = map (byteswapOnLittleEndian host) (dropWhile (\<lambda>g :: u16. g = 0) gs)"
  by (simp_all add: takeWhile_map dropWhile_map comp_def byteswap_zero_iff)

lemma IPv6_insert_text:
  assumes "length (s6_addr s) = 16"
  shows "IPv6_insert host s = ''['' @ ipv6_text (net_groups (s6_addr s)) @ '']:'' @ dec (IPv6_getPort host s)"
proof -
  define gs where "gs = groups host (s6_addr s)"
  define pre where "pre = takeWhile (\<lambda>g. g \<noteq> 0) gs"
  define rest where "rest = dropWhile (\<lambda>g. g \<noteq> 0) gs"
  define post where "post = dropWhile (\<lambda>g. g = 0) rest"
  have len: "length gs = 8" by (simp add: gs_def groups_def)
  have gs: "gs = pre @ rest" by (simp add: pre_def rest_def)
  have nz: "\<forall>g \<in> set pre. g \<noteq> 0" by (auto simp: pre_def dest: set_takeWhileD)
  have hd0: "rest = [] \<or> hd rest = 0" unfolding rest_def by (metis (mono_tags) hd_dropWhile)
  obtain prev' where run: "insert_groups host None False gs =
      (joined host pre @ fst (insert_groups host prev' False rest), snd (insert_groups host prev' False rest))"
    using insert_nonzeros [OF nz _ hd0, of None host] gs by auto
  have ne: "gs \<noteq> []" using len by auto
  then have last: "gs ! 7 = last gs" by (simp add: last_conv_nth len)
  have shown: "ipv6_text (net_groups (s6_addr s)) =
      (if rest = [] then joined host pre else joined host pre @ ''::'' @ joined host post)"
    unfolding ipv6_text_def net_groups_swap [OF assms, of host] gs_def [symmetric] takeWhile_map_zero
      Let_def pre_def [symmetric] rest_def [symmetric] joined_swap post_def by simp
  consider "rest = []" | "rest \<noteq> []" "post = []" | "rest \<noteq> []" "post \<noteq> []" by blast
  then have "(fst (insert_groups host None False gs)) @
      (if \<not> snd (insert_groups host None False gs) \<and> gs ! 7 = 0 then ''::'' else []) = ipv6_text (net_groups (s6_addr s))"
  proof cases
    case 1
    then have "last gs \<in> set pre" using gs ne by auto
    then have "gs ! 7 \<noteq> 0" using nz last by simp
    then show ?thesis using 1 run shown by simp
  next
    case 2
    then have "\<forall>g \<in> set rest. g = 0" by (auto simp: post_def dropWhile_eq_Nil_conv)
    then have "gs ! 7 = 0" using last gs 2 by (simp add: last_append)
    then show ?thesis using 2 run shown insert_zeros [OF 2(1) _ post_def] hd0 by (simp add: joined_def)
  next
    case 3
    then show ?thesis using run shown insert_zeros [OF 3(1) _ post_def] hd0 by simp
  qed
  then show ?thesis by (simp add: IPv6_insert_def gs_def [symmetric] case_prod_beta Let_def IPv6_getPort_def)
qed

end
