(* ===== verification/Http.thy ===== *)
theory Http
  imports Cpp_Containers Cpp_Strings
begin

text \<open>
  Requests and responses of \<^verbatim>\<open>linko/http/http.{h,cc}\<close>: the tables of methods and status codes, the
  header maps ordered by \<^verbatim>\<open>CaseInsensitiveLess\<close>, the operations of \<^verbatim>\<open>HttpRequest\<close> and \<^verbatim>\<open>HttpResponse\<close> and
  their texts.  \<^verbatim>\<open>boost::lexical_cast\<close> is an argument: the value of a text, or nothing when it throws.
\<close>

section \<open>Methods and status codes\<close>

datatype HttpMethod =
    DELETE | GET | HEAD | POST | PUT | CONNECT | OPTIONS | TRACE
  | COPY | LOCK | MKCOL | MOVE | PROPFIND | PROPPATCH | SEARCH | UNLOCK
  | BIND | REBIND | UNBIND | ACL | REPORT | MKACTIVITY | CHECKOUT | MERGE
  | MSEARCH | NOTIFY | SUBSCRIBE | UNSUBSCRIBE | PATCH | PURGE | MKCALENDAR | LINK
  | UNLINK | SOURCE | INVALID_METHOD

text \<open>The table \<^verbatim>\<open>HTTP_METHOD_MAP\<close>; an entry's position is its number.\<close>

definition HTTP_METHOD_MAP :: "(HttpMethod \<times> string) list" where
  "HTTP_METHOD_MAP =
    [(DELETE, ''DELETE''), (GET, ''GET''), (HEAD, ''HEAD''), (POST, ''POST''),
     (PUT, ''PUT''), (CONNECT, ''CONNECT''), (OPTIONS, ''OPTIONS''), (TRACE, ''TRACE''),
     (COPY, ''COPY''), (LOCK, ''LOCK''), (MKCOL, ''MKCOL''), (MOVE, ''MOVE''),
     (PROPFIND, ''PROPFIND''), (PROPPATCH, ''PROPPATCH''), (SEARCH, ''SEARCH''), (UNLOCK, ''UNLOCK''),
     (BIND, ''BIND''), (REBIND, ''REBIND''), (UNBIND, ''UNBIND''), (ACL, ''ACL''),
     (REPORT, ''REPORT''), (MKACTIVITY, ''MKACTIVITY''), (CHECKOUT, ''CHECKOUT''), (MERGE, ''MERGE''),
     (MSEARCH, ''M-SEARCH''), (NOTIFY, ''NOTIFY''), (SUBSCRIBE, ''SUBSCRIBE''), (UNSUBSCRIBE, ''UNSUBSCRIBE''),
     (PATCH, ''PATCH''), (PURGE, ''PURGE''), (MKCALENDAR, ''MKCALENDAR''), (LINK, ''LINK''),
     (UNLINK, ''UNLINK''), (SOURCE, ''SOURCE'')]"

text \<open>A status is its code: the parser casts any integer to \<^verbatim>\<open>HttpStatus\<close>.\<close>

type_synonym HttpStatus = int

definition HTTP_STATUS_MAP :: "(HttpStatus \<times> string) list" where
  "HTTP_STATUS_MAP =
    [(100, ''Continue''), (101, ''Switching Protocols''), (102, ''Processing''),
     (200, ''OK''), (201, ''Created''), (202, ''Accepted''),
     (203, ''Non-Authoritative Information''), (204, ''No Content''), (205, ''Reset Content''),
     (206, ''Partial Content''), (207, ''Multi-Status''), (208, ''Already Reported''),
     (226, ''IM Used''), (300, ''Multiple Choices''), (301, ''Moved Permanently''),
     (302, ''Found''), (303, ''See Other''), (304, ''Not Modified''),
     (305, ''Use Proxy''), (307, ''Temporary Redirect''), (308, ''Permanent Redirect''),
     (400, ''Bad Request''), (401, ''Unauthorized''), (402, ''Payment Required''),
     (403, ''Forbidden''), (404, ''Not Found''), (405, ''Method Not Allowed''),
     (406, ''Not Acceptable''), (407, ''Proxy Authentication Required''), (408, ''Request Timeout''),
     (409, ''Conflict''), (410, ''Gone''), (411, ''Length Required''),
     (412, ''Precondition Failed''), (413, ''Payload Too Large''), (414, ''URI Too Long''),
     (415, ''Unsupported Media Type''), (416, ''Range Not Satisfiable''), (417, ''Expectation Failed''),
     (421, ''Misdirected Request''), (422, ''Unprocessable Entity''), (423, ''Locked''),
     (424, ''Failed Dependency''), (426, ''Upgrade Required''), (428, ''Precondition Required''),
     (429, ''Too Many Requests''), (431, ''Request Header Fields Too Large''), (451, ''Unavailable For Legal Reasons''),
     (500, ''Internal Server Error''), (501, ''Not Implemented''), (502, ''Bad Gateway''),
     (503, ''Service Unavailable''), (504, ''Gateway Timeout''), (505, ''HTTP Version Not Supported''),
     (506, ''Variant Also Negotiates''), (507, ''Insufficient Storage''), (508, ''Loop Detected''),
     (510, ''Not Extended''), (511, ''Network Authentication Required'')]"

definition status_OK :: HttpStatus where "status_OK = 200"
definition status_NOT_FOUND :: HttpStatus where "status_NOT_FOUND = 404"

text \<open>The first entry whose name the test accepts, or \<^verbatim>\<open>INVALID_METHOD\<close>.\<close>

fun first_method :: "(string \<Rightarrow> bool) \<Rightarrow> (HttpMethod \<times> string) list \<Rightarrow> HttpMethod" where
  "first_method test [] = INVALID_METHOD"
| "first_method test ((name, text) # entries) = (if test text then name else first_method test entries)"

definition StringToHttpMethod :: "string \<Rightarrow> HttpMethod" where
  "StringToHttpMethod m = first_method (\<lambda>text. text = cstr m) HTTP_METHOD_MAP"

text \<open>Only the method's own length is compared, so any text that starts with a method is that method.\<close>

definition CharsToHttpMethod :: "string \<Rightarrow> HttpMethod" where
  "CharsToHttpMethod m = first_method (\<lambda>text. strn_eq text m (length text)) HTTP_METHOD_MAP"

definition HttpMethodToString :: "HttpMethod \<Rightarrow> string" where
  "HttpMethodToString m = (case map_of HTTP_METHOD_MAP m of Some text \<Rightarrow> text | None \<Rightarrow> ''<unknown>'')"

definition HttpStatusToString :: "HttpStatus \<Rightarrow> string" where
  "HttpStatusToString s = (case map_of HTTP_STATUS_MAP s of Some text \<Rightarrow> text | None \<Rightarrow> ''<unknown>'')"

section \<open>Case insensitive maps\<close>

definition CaseInsensitiveLess :: "string \<Rightarrow> string \<Rightarrow> bool" where
  "CaseInsensitiveLess lhs rhs \<longleftrightarrow> strcasecmp (cstr lhs) (cstr rhs) < 0"

type_synonym MapType = "(string, string) cpp_map"

abbreviation hfind :: "string \<Rightarrow> MapType \<Rightarrow> string option" where "hfind \<equiv> map_find CaseInsensitiveLess"
abbreviation hassign :: "string \<Rightarrow> string \<Rightarrow> MapType \<Rightarrow> MapType" where "hassign \<equiv> map_assign CaseInsensitiveLess"
abbreviation herase :: "string \<Rightarrow> MapType \<Rightarrow> MapType" where "herase \<equiv> map_erase CaseInsensitiveLess"

definition checkGetAs :: "(string \<Rightarrow> 'a option) \<Rightarrow> MapType \<Rightarrow> string \<Rightarrow> 'a \<Rightarrow> bool \<times> 'a" where
  "checkGetAs lexical_cast m key def =
     (case hfind key m of None \<Rightarrow> (False, def)
      | Some text \<Rightarrow> (case lexical_cast text of None \<Rightarrow> (False, def) | Some v \<Rightarrow> (True, v)))"

definition getAs :: "(string \<Rightarrow> 'a option) \<Rightarrow> MapType \<Rightarrow> string \<Rightarrow> 'a \<Rightarrow> 'a" where
  "getAs lexical_cast m key def =
     (case hfind key m of None \<Rightarrow> def
      | Some text \<Rightarrow> (case lexical_cast text of None \<Rightarrow> def | Some v \<Rightarrow> v))"

section \<open>HttpRequest\<close>

text \<open>The constructor does not set \<open>rq_status\<close>; \<open>None\<close> stands for an indeterminate value.\<close>

record HttpRequest =
  rq_method :: HttpMethod
  rq_status :: "HttpStatus option"
  rq_version :: byte
  rq_close :: bool
  rq_path :: string
  rq_query :: string
  rq_fragment :: string
  rq_body :: string
  rq_headers :: MapType
  rq_params :: MapType
  rq_cookies :: MapType

definition new_HttpRequest :: "byte \<Rightarrow> bool \<Rightarrow> HttpRequest" where
  "new_HttpRequest version close =
     \<lparr>rq_method = GET, rq_status = None, rq_version = version, rq_close = close, rq_path = ''/'', rq_query = [],
      rq_fragment = [], rq_body = [], rq_headers = [], rq_params = [], rq_cookies = []\<rparr>"

definition setMethod :: "HttpMethod \<Rightarrow> HttpRequest \<Rightarrow> HttpRequest" where "setMethod v r = r\<lparr>rq_method := v\<rparr>"
definition setVersion :: "byte \<Rightarrow> HttpRequest \<Rightarrow> HttpRequest" where "setVersion v r = r\<lparr>rq_version := v\<rparr>"
definition setPath :: "string \<Rightarrow> HttpRequest \<Rightarrow> HttpRequest" where "setPath v r = r\<lparr>rq_path := v\<rparr>"
definition setQuery :: "string \<Rightarrow> HttpRequest \<Rightarrow> HttpRequest" where "setQuery v r = r\<lparr>rq_query := v\<rparr>"
definition setFragment :: "string \<Rightarrow> HttpRequest \<Rightarrow> HttpRequest" where "setFragment v r = r\<lparr>rq_fragment := v\<rparr>"
definition setBody :: "string \<Rightarrow> HttpRequest \<Rightarrow> HttpRequest" where "setBody v r = r\<lparr>rq_body := v\<rparr>"
definition setClose :: "bool \<Rightarrow> HttpRequest \<Rightarrow> HttpRequest" where "setClose v r = r\<lparr>rq_close := v\<rparr>"

definition map_get :: "MapType \<Rightarrow> string \<Rightarrow> string \<Rightarrow> string" where
  "map_get m key def = (case hfind key m of None \<Rightarrow> def | Some v \<Rightarrow> v)"

definition getHeader :: "string \<Rightarrow> string \<Rightarrow> HttpRequest \<Rightarrow> string" where "getHeader key def r = map_get (rq_headers r) key def"
definition getParam :: "string \<Rightarrow> string \<Rightarrow> HttpRequest \<Rightarrow> string" where "getParam key def r = map_get (rq_params r) key def"
definition getCookie :: "string \<Rightarrow> string \<Rightarrow> HttpRequest \<Rightarrow> string" where "getCookie key def r = map_get (rq_cookies r) key def"

definition setHeader :: "string \<Rightarrow> string \<Rightarrow> HttpRequest \<Rightarrow> HttpRequest" where
  "setHeader key val r = r\<lparr>rq_headers := hassign key val (rq_headers r)\<rparr>"
definition setParam :: "string \<Rightarrow> string \<Rightarrow> HttpRequest \<Rightarrow> HttpRequest" where
  "setParam key val r = r\<lparr>rq_params := hassign key val (rq_params r)\<rparr>"
definition setCookie :: "string \<Rightarrow> string \<Rightarrow> HttpRequest \<Rightarrow> HttpRequest" where
  "setCookie key val r = r\<lparr>rq_cookies := hassign key val (rq_cookies r)\<rparr>"

definition delHeader :: "string \<Rightarrow> HttpRequest \<Rightarrow> HttpRequest" where
  "delHeader key r = r\<lparr>rq_headers := herase key (rq_headers r)\<rparr>"
definition delParam :: "string \<Rightarrow> HttpRequest \<Rightarrow> HttpRequest" where
  "delParam key r = r\<lparr>rq_params := herase key (rq_params r)\<rparr>"
definition delCookie :: "string \<Rightarrow> HttpRequest \<Rightarrow> HttpRequest" where
  "delCookie key r = r\<lparr>rq_cookies := herase key (rq_cookies r)\<rparr>"

text \<open>\<open>hasHeader\<close> and its likes: whether the key is there, and the value stored through \<open>val\<close> (none for a null pointer).\<close>

definition map_has :: "MapType \<Rightarrow> string \<Rightarrow> string option \<Rightarrow> bool \<times> string option" where
  "map_has m key val = (case hfind key m of None \<Rightarrow> (False, val) | Some v \<Rightarrow> (True, if val = None then None else Some v))"

definition hasHeader :: "string \<Rightarrow> string option \<Rightarrow> HttpRequest \<Rightarrow> bool \<times> string option" where
  "hasHeader key val r = map_has (rq_headers r) key val"
definition hasParam :: "string \<Rightarrow> string option \<Rightarrow> HttpRequest \<Rightarrow> bool \<times> string option" where
  "hasParam key val r = map_has (rq_params r) key val"
definition hasCookie :: "string \<Rightarrow> string option \<Rightarrow> HttpRequest \<Rightarrow> bool \<times> string option" where
  "hasCookie key val r = map_has (rq_cookies r) key val"

section \<open>Texts\<close>

definition crlf :: string where "crlf = [CHR 0x0D, CHR 0x0A]"

definition version_text :: "byte \<Rightarrow> string" where
  "version_text v = dec (unat v div 16) @ ''.'' @ dec (unat v mod 16)"

text \<open>All headers but \<open>connection\<close>, which is printed from the close flag; \<open>sep\<close> is printed after a name.\<close>

definition is_connection :: "string \<Rightarrow> bool" where
  "is_connection name \<longleftrightarrow> strcasecmp (cstr name) ''connection'' = 0"

definition header_lines :: "string \<Rightarrow> MapType \<Rightarrow> string" where
  "header_lines sep m = concat (map (\<lambda>(name, val). name @ sep @ val @ crlf) (filter (\<lambda>(name, _). \<not> is_connection name) m))"

definition connection_line :: "bool \<Rightarrow> string" where
  "connection_line close = ''connection:'' @ (if close then ''close'' else ''keep-alive'') @ crlf"

definition body_text :: "string \<Rightarrow> string" where
  "body_text body = (if body \<noteq> [] then ''content-length:'' @ dec (length body) @ crlf @ crlf @ body else crlf)"

definition request_dump :: "HttpRequest \<Rightarrow> string" where
  "request_dump r =
     HttpMethodToString (rq_method r) @ '' '' @ rq_path r
     @ (if rq_query r = [] then [] else ''?'') @ rq_query r
     @ (if rq_fragment r = [] then [] else ''#'') @ rq_fragment r
     @ '' HTTP/'' @ version_text (rq_version r) @ crlf
     @ connection_line (rq_close r) @ header_lines '':'' (rq_headers r) @ body_text (rq_body r)"

section \<open>HttpResponse\<close>

record HttpResponse =
  rs_status :: HttpStatus
  rs_version :: byte
  rs_close :: bool
  rs_body :: string
  rs_reason :: string
  rs_headers :: MapType

definition new_HttpResponse :: "byte \<Rightarrow> bool \<Rightarrow> HttpResponse" where
  "new_HttpResponse version close =
     \<lparr>rs_status = status_OK, rs_version = version, rs_close = close, rs_body = [], rs_reason = [], rs_headers = []\<rparr>"

definition rs_setStatus :: "HttpStatus \<Rightarrow> HttpResponse \<Rightarrow> HttpResponse" where "rs_setStatus v r = r\<lparr>rs_status := v\<rparr>"
definition rs_setVersion :: "byte \<Rightarrow> HttpResponse \<Rightarrow> HttpResponse" where "rs_setVersion v r = r\<lparr>rs_version := v\<rparr>"
definition rs_setBody :: "string \<Rightarrow> HttpResponse \<Rightarrow> HttpResponse" where "rs_setBody v r = r\<lparr>rs_body := v\<rparr>"
definition rs_setReason :: "string \<Rightarrow> HttpResponse \<Rightarrow> HttpResponse" where "rs_setReason v r = r\<lparr>rs_reason := v\<rparr>"
definition rs_getHeader :: "string \<Rightarrow> string \<Rightarrow> HttpResponse \<Rightarrow> string" where
  "rs_getHeader key def r = map_get (rs_headers r) key def"
definition rs_setHeader :: "string \<Rightarrow> string \<Rightarrow> HttpResponse \<Rightarrow> HttpResponse" where
  "rs_setHeader key val r = r\<lparr>rs_headers := hassign key val (rs_headers r)\<rparr>"
definition rs_delHeader :: "string \<Rightarrow> HttpResponse \<Rightarrow> HttpResponse" where
  "rs_delHeader key r = r\<lparr>rs_headers := herase key (rs_headers r)\<rparr>"

text \<open>The status line starts with a blank and has no status code.\<close>

definition response_dump :: "HttpResponse \<Rightarrow> string" where
  "response_dump r =
     '' HTTP/'' @ version_text (rs_version r) @ '' ''
     @ (if rs_reason r = [] then HttpStatusToString (rs_status r) else rs_reason r) @ crlf
     @ header_lines '': '' (rs_headers r) @ connection_line (rs_close r) @ body_text (rs_body r)"

end
