(* ===== verification/Ragel.thy ===== *)
theory Ragel
  imports Cpp_Strings "HOL-Library.Multiset"
begin

text \<open>
  The machines of the generated parsers (\<^verbatim>\<open>*.rl.cc\<close>).  The generated code is a \<^verbatim>\<open>switch\<close> with one
  \<^verbatim>\<open>case N:\<close> per state, which compares the current character and jumps to a state (\<^verbatim>\<open>goto stN\<close>) or to a
  labelled transition (\<^verbatim>\<open>trN: actions; goto stM\<close>).  Both kinds of blocks are items of a list in the
  order of the code; \<open>run\<close> is the control flow the blocks share.
\<close>

section \<open>Items\<close>

datatype label = ST nat | TR nat

text \<open>
  \<open>St n wide rs\<close> is \<^verbatim>\<open>case n:\<close> with the ranges it compares the character with, in ascending order; where \<open>wide\<close>, the
  code first widens the characters \<open>^\<close>, \<open>{\<close> and \<open>}\<close> by a condition (\<^verbatim>\<open>_widec\<close>).  \<open>Tr k acts n\<close> is \<^verbatim>\<open>trk:\<close>.
\<close>

datatype 'a item = St nat bool "(int \<times> int \<times> label) list" | Tr nat "'a list" nat

text \<open>\<^verbatim>\<open>*p\<close> for a pointer to (signed) \<^verbatim>\<open>char\<close>, and \<^verbatim>\<open>_widec\<close>.\<close>

definition schar :: "char \<Rightarrow> int" where
  "schar c = (let n = of_char c in if n < 128 then n else n - 256)"

definition widec :: "bool \<Rightarrow> int \<Rightarrow> int" where
  "widec cond x = (if x \<in> {94, 123, 125} then 256 + x + (if cond then 256 else 0) else x)"

fun find_label :: "(int \<times> int \<times> label) list \<Rightarrow> int \<Rightarrow> label" where
  "find_label [] x = ST 0"
| "find_label ((lo, hi, l) # rs) x = (if lo \<le> x \<and> x \<le> hi then l else find_label rs x)"

fun find_state :: "nat \<Rightarrow> 'a item list \<Rightarrow> (bool \<times> (int \<times> int \<times> label) list) option" where
  "find_state s [] = None"
| "find_state s (St n wide rs # items) = (if n = s then Some (wide, rs) else find_state s items)"
| "find_state s (Tr k acts n # items) = find_state s items"

fun find_trans :: "nat \<Rightarrow> 'a item list \<Rightarrow> ('a list \<times> nat) option" where
  "find_trans t [] = None"
| "find_trans t (St n wide rs # items) = find_trans t items"
| "find_trans t (Tr k acts n # items) = (if k = t then Some (acts, n) else find_trans t items)"

text \<open>The actions and the state a label leads to; a state without items is the error state.\<close>

definition follow :: "'a item list \<Rightarrow> label \<Rightarrow> 'a list \<times> nat" where
  "follow items l = (case l of ST n \<Rightarrow> ([], n)
     | TR k \<Rightarrow> (case find_trans k items of Some at \<Rightarrow> at | None \<Rightarrow> ([], 0)))"

definition next_label :: "'a item list \<Rightarrow> bool \<Rightarrow> nat \<Rightarrow> char \<Rightarrow> label" where
  "next_label items cond s c = (case find_state s items of None \<Rightarrow> ST 0
     | Some (wide, rs) \<Rightarrow> find_label rs (if wide then widec cond (schar c) else schar c))"

definition move :: "'a item list \<Rightarrow> bool \<Rightarrow> nat \<Rightarrow> char \<Rightarrow> 'a list \<times> nat" where
  "move items cond s c = follow items (next_label items cond s c)"

section \<open>Runs\<close>

text \<open>
  \<open>ex a p x\<close> is the effect of an action at pointer \<open>p\<close>; an action with \<open>brk a\<close> ends in
  \<^verbatim>\<open>{p++; cs = n; goto _out;}\<close>, where \<open>n\<close> is the transition's own target.  The result is \<^verbatim>\<open>cs\<close>, \<^verbatim>\<open>p\<close> and the effects: the error state keeps the pointer at the
  offending character, and at the end of the buffer \<^verbatim>\<open>cs\<close> is the state reached.
\<close>

definition breaks :: "('a \<Rightarrow> bool) \<Rightarrow> 'a list \<Rightarrow> bool" where
  "breaks brk acts = list_ex brk acts"

fun run :: "'a item list \<Rightarrow> bool \<Rightarrow> ('a \<Rightarrow> bool) \<Rightarrow> ('a \<Rightarrow> nat \<Rightarrow> 'x \<Rightarrow> 'x) \<Rightarrow>
    nat \<Rightarrow> string \<Rightarrow> nat \<Rightarrow> 'x \<Rightarrow> nat \<times> nat \<times> 'x" where
  "run items cond brk ex p [] cs x = (cs, p, x)"
| "run items cond brk ex p (c # text) cs x =
     (let (acts, n) = move items cond cs c; x' = fold (\<lambda>a. ex a p) acts x
      in if breaks brk acts then (n, Suc p, x')
         else if n = 0 then (0, p, x') else run items cond brk ex (Suc p) text n x')"

section \<open>Runs in parts\<close>

text \<open>A run that consumes a whole text without breaking: the state and effects it ends with.\<close>

fun steps :: "'a item list \<Rightarrow> bool \<Rightarrow> ('a \<Rightarrow> bool) \<Rightarrow> ('a \<Rightarrow> nat \<Rightarrow> 'x \<Rightarrow> 'x) \<Rightarrow>
    nat \<Rightarrow> string \<Rightarrow> nat \<Rightarrow> 'x \<Rightarrow> (nat \<times> 'x) option" where
  "steps items cond brk ex p [] cs x = Some (cs, x)"
| "steps items cond brk ex p (c # text) cs x =
     (let (acts, n) = move items cond cs c
      in if \<not> breaks brk acts \<and> n \<noteq> 0
         then steps items cond brk ex (Suc p) text n (fold (\<lambda>a. ex a p) acts x) else None)"

lemma run_steps:
  "steps items cond brk ex p xs cs x = Some (cs', x') \<Longrightarrow>
     run items cond brk ex p (xs @ ys) cs x = run items cond brk ex (p + length xs) ys cs' x'"
  by (induction xs arbitrary: p cs x) (auto simp: Let_def split: prod.splits if_splits)

lemma steps_append:
  "steps items cond brk ex p (xs @ ys) cs x =
     (case steps items cond brk ex p xs cs x of None \<Rightarrow> None
      | Some (cs', x') \<Rightarrow> steps items cond brk ex (p + length xs) ys cs' x')"
proof (induction xs arbitrary: p cs x)
  case (Cons c rest)
  show ?case by (cases "move items cond cs c") (simp add: Cons.IH split: option.split)
qed simp

lemma steps_then:
  "steps items cond brk ex p xs cs x = Some (cs', x') \<Longrightarrow>
     steps items cond brk ex p (xs @ ys) cs x = steps items cond brk ex (p + length xs) ys cs' x'"
  by (simp add: steps_append)

text \<open>A loop: every character of the text moves the state to itself without an action.\<close>

lemma steps_loop:
  "(\<And>c. c \<in> set xs \<Longrightarrow> move items cond s c = ([], s)) \<Longrightarrow> s \<noteq> 0 \<Longrightarrow>
     steps items cond brk ex p xs s x = Some (s, x)"
  by (induction xs arbitrary: p) (auto simp: breaks_def)

text \<open>A run stays within the text.\<close>

lemma run_bounds:
  assumes "run items cond brk ex p text cs x = (cs', p', x')"
  shows "p \<le> p' \<and> p' \<le> p + length text"
  using assms
proof (induction "text" arbitrary: p cs x)
  case (Cons c rest)
  obtain acts n where mv: "move items cond cs c = (acts, n)" by (cases "move items cond cs c")
  show ?case
  proof (cases "breaks brk acts \<or> n = 0")
    case True
    then show ?thesis using Cons.prems mv by (auto simp: Let_def split: if_splits)
  next
    case False
    then have "run items cond brk ex (Suc p) rest n (fold (\<lambda>a. ex a p) acts x) = (cs', p', x')"
      using Cons.prems mv by (simp add: Let_def)
    then show ?thesis using Cons.IH by force
  qed
qed simp

text \<open>What the actions keep at every pointer holds at the end.\<close>

lemma run_invariant:
  assumes "run items cond brk ex p text cs x = (cs', p', x')" "I p x" "p + length text \<le> bound"
    and "\<And>a q y. q < bound \<Longrightarrow> I q y \<Longrightarrow> I q (ex a q y)" "\<And>q y. I q y \<Longrightarrow> I (Suc q) y"
  shows "I p' x'"
  using assms(1-3)
proof (induction "text" arbitrary: p cs x)
  case (Cons c rest)
  obtain acts n where mv: "move items cond cs c = (acts, n)" by (cases "move items cond cs c")
  have "I p (fold (\<lambda>a. ex a p) acts y)" if "I p y" for y
    using that Cons.prems(3) assms(4) by (induction acts arbitrary: y) auto
  then have x: "I p (fold (\<lambda>a. ex a p) acts x)" using Cons.prems(2) by blast
  show ?case
  proof (cases "breaks brk acts \<or> n = 0")
    case True
    then show ?thesis using Cons.prems(1) mv x assms(5) by (auto simp: Let_def split: if_splits)
  next
    case False
    then have "run items cond brk ex (Suc p) rest n (fold (\<lambda>a. ex a p) acts x) = (cs', p', x')"
      using Cons.prems mv by (simp add: Let_def)
    from Cons.IH [OF this] show ?thesis using x assms(5) Cons.prems(3) by simp
  qed
qed simp

section \<open>Classes of characters\<close>

text \<open>
  Whether every value from \<open>lo\<close> to \<open>hi\<close> leads to a label with \<open>P\<close>: the interval is cut along the ranges of the
  block, so that the check only compares numerals.
\<close>

fun row_all :: "(label \<Rightarrow> bool) \<Rightarrow> (int \<times> int \<times> label) list \<Rightarrow> int \<Rightarrow> int \<Rightarrow> bool" where
  "row_all P [] lo hi \<longleftrightarrow> hi < lo \<or> P (ST 0)"
| "row_all P ((a, b, l) # rs) lo hi \<longleftrightarrow>
     (if hi < lo then True
      else if b < a \<or> b < lo \<or> hi < a then row_all P rs lo hi
      else P l \<and> (a \<le> lo \<or> row_all P rs lo (a - 1)) \<and> (hi \<le> b \<or> row_all P rs (b + 1) hi))"

lemma row_all_label: "row_all P rs lo hi \<Longrightarrow> lo \<le> x \<Longrightarrow> x \<le> hi \<Longrightarrow> P (find_label rs x)"
proof (induction P rs lo hi rule: row_all.induct)
  case (2 P a b l rs lo hi)
  show ?case
  proof (cases "b < a \<or> b < lo \<or> hi < a")
    case True
    then show ?thesis using 2 by (auto split: if_splits)
  next
    case False
    then show ?thesis using 2 by (cases "x < a"; cases "b < x") (auto split: if_splits)
  qed
qed auto

definition in_ranges :: "(int \<times> int) list \<Rightarrow> int \<Rightarrow> bool" where
  "in_ranges rgs x \<longleftrightarrow> list_ex (\<lambda>(lo, hi). lo \<le> x \<and> x \<le> hi) rgs"

text \<open>Every character with a code in the ranges moves each of the states without an action to a state with \<open>Q\<close>.\<close>

definition moves_within :: "'a item list \<Rightarrow> (int \<times> int) list \<Rightarrow> (nat \<Rightarrow> bool) \<Rightarrow> nat \<Rightarrow> bool" where
  "moves_within items rgs Q s = (case find_state s items of None \<Rightarrow> False
     | Some (wide, rs) \<Rightarrow> \<not> wide \<and> list_all (\<lambda>(lo, hi). row_all (\<lambda>l. case l of ST t \<Rightarrow> Q t | TR _ \<Rightarrow> False) rs lo hi) rgs)"

lemma moves_within:
  assumes "moves_within items rgs Q s" "in_ranges rgs (schar c)"
  shows "fst (move items cond s c) = [] \<and> Q (snd (move items cond s c))"
proof -
  obtain rs where rs: "find_state s items = Some (False, rs)"
    and all: "list_all (\<lambda>(lo, hi). row_all (\<lambda>l. case l of ST t \<Rightarrow> Q t | TR _ \<Rightarrow> False) rs lo hi) rgs"
    using assms(1) by (auto simp: moves_within_def split: option.splits)
  obtain lo hi where "(lo, hi) \<in> set rgs" "lo \<le> schar c" "schar c \<le> hi"
    using assms(2) by (auto simp: in_ranges_def list_ex_iff)
  then have "case find_label rs (schar c) of ST t \<Rightarrow> Q t | TR _ \<Rightarrow> False"
    using all by (auto simp: list_all_iff intro: row_all_label)
  then show ?thesis using rs by (auto simp: move_def next_label_def follow_def split: label.splits)
qed

section \<open>Closed machines\<close>

text \<open>The states are numbered from 1, and every jump of the code leads to a label and a state that the code has.\<close>

definition state_numbers :: "'a item list \<Rightarrow> nat list" where
  "state_numbers items = concat (map (\<lambda>i. case i of St n _ _ \<Rightarrow> [n] | Tr _ _ _ \<Rightarrow> []) items)"

definition trans_numbers :: "'a item list \<Rightarrow> nat list" where
  "trans_numbers items = concat (map (\<lambda>i. case i of St _ _ _ \<Rightarrow> [] | Tr k _ _ \<Rightarrow> [k]) items)"

definition item_closed :: "nat \<Rightarrow> nat list \<Rightarrow> 'a item \<Rightarrow> bool" where
  "item_closed N trs i = (case i of
     St n wide rs \<Rightarrow> list_all (\<lambda>(_, _, l). case l of ST m \<Rightarrow> 0 < m \<and> m \<le> N | TR k \<Rightarrow> List.member trs k) rs
   | Tr k acts n \<Rightarrow> 0 < n \<and> n \<le> N)"

definition machine_closed :: "nat \<Rightarrow> 'a item list \<Rightarrow> bool" where
  "machine_closed N items \<longleftrightarrow> sort (state_numbers items) = [1..<Suc N] \<and> list_all (item_closed N (trans_numbers items)) items"

text \<open>Machines are concatenations of parts; the lookup skips the parts that do not have the state.\<close>

lemma numbers_append [simp]:
  "state_numbers (xs @ ys) = state_numbers xs @ state_numbers ys"
  "trans_numbers (xs @ ys) = trans_numbers xs @ trans_numbers ys"
  by (simp_all add: state_numbers_def trans_numbers_def)

lemma mset_upt_join: "a \<le> b \<Longrightarrow> b \<le> c \<Longrightarrow> mset [a..<b] + mset [b..<c] = mset [a..<c]"
proof -
  assume "a \<le> b" "b \<le> c"
  then have "[a..<c] = [a..<b] @ [b..<c]" using upt_add_eq_append [of a b "c - b"] by simp
  then show ?thesis by (simp only: mset_append)
qed

lemma find_state_append: "find_state s (xs @ ys) = (case find_state s xs of None \<Rightarrow> find_state s ys | Some r \<Rightarrow> Some r)"
  by (induction s xs rule: find_state.induct) auto

lemma find_trans_append: "find_trans k (xs @ ys) = (case find_trans k xs of None \<Rightarrow> find_trans k ys | Some r \<Rightarrow> Some r)"
  by (induction k xs rule: find_trans.induct) auto

lemma find_state_absent: "s \<notin> set (state_numbers xs) \<Longrightarrow> find_state s xs = None"
  by (induction s xs rule: find_state.induct) (auto simp: state_numbers_def)

lemma find_trans_absent: "k \<notin> set (trans_numbers xs) \<Longrightarrow> find_trans k xs = None"
  by (induction k xs rule: find_trans.induct) (auto simp: trans_numbers_def)

lemmas machine_lookup = find_state_append find_trans_append find_state_absent find_trans_absent

lemma find_state_Some: "find_state s items = Some (wide, rs) \<Longrightarrow> St s wide rs \<in> set items"
  by (induction s items rule: find_state.induct) (auto split: if_splits)

lemma find_trans_Some: "find_trans k items = Some (acts, n) \<Longrightarrow> Tr k acts n \<in> set items"
  by (induction k items rule: find_trans.induct) (auto split: if_splits)

lemma find_label_in: "find_label rs x = l \<Longrightarrow> l = ST 0 \<or> (\<exists>lo hi. (lo, hi, l) \<in> set rs)"
  by (induction rs x rule: find_label.induct) (auto split: if_splits)

lemma find_label_range: "find_label rs x = ST 0 \<or> (\<exists>lo hi. (lo, hi, find_label rs x) \<in> set rs \<and> lo \<le> x \<and> x \<le> hi)"
  by (induction rs x rule: find_label.induct) auto

text \<open>The error state is entered without actions: no transition of a closed machine leads there.\<close>

lemma move_error:
  assumes "machine_closed N items" "move items cond s c = (acts, 0)"
  shows "acts = []"
proof (rule ccontr)
  assume "acts \<noteq> []"
  then obtain k where "find_trans k items = Some (acts, 0)"
    using assms(2) by (auto simp: move_def follow_def split: label.splits option.splits)
  then have "Tr k acts 0 \<in> set items" by (rule find_trans_Some)
  then show False using assms(1) by (auto simp: machine_closed_def list_all_iff item_closed_def)
qed

lemma move_closed:
  assumes "machine_closed N items" "move items cond s c = (acts, n)"
  shows "n \<le> N"
proof -
  have closed: "item_closed N (trans_numbers items) i" if "i \<in> set items" for i
    using assms(1) that by (auto simp: machine_closed_def list_all_iff)
  let ?l = "next_label items cond s c"
  have l: "?l = ST m \<Longrightarrow> m \<le> N" for m
  proof (cases "find_state s items")
    case (Some wr)
    assume m: "?l = ST m"
    obtain wide rs where wr: "find_state s items = Some (wide, rs)" using Some by (cases wr) auto
    then have "?l = find_label rs (if wide then widec cond (schar c) else schar c)" by (simp add: next_label_def)
    then have "?l = ST 0 \<or> (\<exists>lo hi. (lo, hi, ?l) \<in> set rs)" by (rule find_label_in [OF sym])
    then show "m \<le> N" using m closed [OF find_state_Some [OF wr]] by (auto simp: item_closed_def list_all_iff)
  qed (simp add: next_label_def)
  show ?thesis
  proof (cases ?l)
    case (ST m)
    then show ?thesis using l assms(2) by (auto simp: move_def follow_def)
  next
    case (TR k)
    show ?thesis
    proof (cases "find_trans k items")
      case (Some an)
      then have "find_trans k items = Some (acts, n)" using TR assms(2) by (simp add: move_def follow_def)
      then show ?thesis using closed [OF find_trans_Some] by (auto simp: item_closed_def)
    qed (use TR assms(2) in \<open>simp add: move_def follow_def\<close>)
  qed
qed

text \<open>Every state has its block.\<close>

lemma state_has_block:
  assumes "machine_closed N items" "0 < s" "s \<le> N"
  shows "find_state s items \<noteq> None"
proof -
  have "s \<in> set (sort (state_numbers items))"
    using assms unfolding machine_closed_def by simp arith
  then have "s \<in> set (state_numbers items)" by simp
  moreover have "s \<in> set (state_numbers ys) \<Longrightarrow> find_state s ys \<noteq> None" for ys :: "'a item list"
    by (induction s ys rule: find_state.induct) (auto simp: state_numbers_def)
  ultimately show ?thesis by blast
qed

text \<open>The states that transitions with a breaking action end in.\<close>

definition final_states :: "('a \<Rightarrow> bool) \<Rightarrow> 'a item list \<Rightarrow> nat list" where
  "final_states brk items =
     concat (map (\<lambda>i. case i of St _ _ _ \<Rightarrow> [] | Tr k acts n \<Rightarrow> if breaks brk acts then [n] else []) items)"

lemma breaking_move:
  assumes "move items cond s c = (acts, n)" "breaks brk acts"
  shows "n \<in> set (final_states brk items)"
proof -
  have "acts \<noteq> []" using assms(2) by (auto simp: breaks_def)
  then obtain k where "find_trans k items = Some (acts, n)"
    using assms(1) by (auto simp: move_def follow_def split: label.splits option.splits)
  then have "Tr k acts n \<in> set items" by (rule find_trans_Some)
  then show ?thesis using assms(2) by (force simp: final_states_def)
qed

text \<open>
  What a parser relies on: a closed machine never leaves its states, and a run that stops before the
  end of the text is in the error state or in a final state.
\<close>

locale ragel_machine =
  fixes items :: "'a item list" and N :: nat and brk :: "'a \<Rightarrow> bool" and first_final :: nat
  assumes closed: "machine_closed N items"
    and finals: "list_all (\<lambda>n. first_final \<le> n) (final_states brk items)"
begin

lemma run_outcome:
  assumes "run items cond brk ex p text cs x = (cs', p', x')" "cs \<le> N"
  shows "cs' \<le> N \<and>
    (p' < p + length text \<longrightarrow> cs' = 0 \<or> first_final \<le> cs')"
  using assms
proof (induction "text" arbitrary: p cs x)
  case (Cons c rest)
  obtain acts n where mv: "move items cond cs c = (acts, n)" by (cases "move items cond cs c")
  then have n: "n \<le> N" using move_closed [OF closed] by auto
  consider "breaks brk acts" | "\<not> breaks brk acts" "n = 0" | "\<not> breaks brk acts" "n \<noteq> 0" by blast
  then show ?case
  proof cases
    case 1
    then show ?thesis using Cons.prems mv n breaking_move [OF mv 1] finals by (auto simp: Let_def list_all_iff)
  next
    case 3
    then have "run items cond brk ex (Suc p) rest n (fold (\<lambda>a. ex a p) acts x) = (cs', p', x')"
      using Cons.prems mv by (simp add: Let_def)
    from Cons.IH [OF this n] show ?thesis by simp
  qed (use Cons.prems mv in \<open>simp add: Let_def\<close>)
qed auto

end

end
