(* ===== verification/Http11_Machine.thy ===== *)
theory Http11_Machine
  imports Ragel
begin

text \<open>
  The state machine of the request parser, \<^verbatim>\<open>linko/http/http11_parser.rl.cc\<close>: its blocks in the order of the file.
\<close>

datatype http_action =
    A_mark
  | A_start_field
  | A_write_field
  | A_write_value
  | A_request_method
  | A_request_uri
  | A_fragment
  | A_start_query
  | A_query_string
  | A_http_version
  | A_request_path
  | A_done
  | A_xml
  | A_json

definition http11_items_1 :: "http_action item list" where
  "http11_items_1 =
    [St 1 False [(48, 57, TR 0), (60, 60, TR 2), (64, 64, TR 3), (65, 90, TR 0)],
     Tr 0 [A_mark] 2,
     St 2 False [(32, 32, TR 4), (48, 57, ST 175), (65, 90, ST 175)],
     Tr 4 [A_request_method] 3,
     St 3 True [(32, 32, TR 6), (33, 33, TR 7), (35, 35, TR 8), (36, 36, TR 7), (37, 37, TR 9), (38, 46, TR 7),
       (47, 47, TR 10), (48, 57, TR 7), (59, 59, TR 7), (61, 61, TR 7), (63, 63, TR 11), (64, 64, TR 7),
       (65, 90, TR 12), (95, 95, TR 7), (97, 122, TR 12), (126, 126, TR 7), (606, 606, TR 7), (635, 635, TR 7),
       (637, 637, TR 7)],
     Tr 6 [A_mark, A_request_path, A_request_uri] 4,
     Tr 37 [A_request_path, A_request_uri] 4,
     Tr 43 [A_mark, A_fragment] 4,
     Tr 46 [A_fragment] 4,
     Tr 53 [A_start_query, A_query_string, A_request_uri] 4]"

definition http11_items_2 :: "http_action item list" where
  "http11_items_2 =
    [Tr 57 [A_query_string, A_request_uri] 4,
     St 4 False [(72, 72, TR 13)],
     Tr 13 [A_mark] 5,
     St 5 False [(84, 84, ST 6)],
     St 6 False [(84, 84, ST 7)],
     St 7 False [(80, 80, ST 8)],
     St 8 False [(47, 47, ST 9)],
     St 9 False [(49, 49, ST 10)],
     St 10 False [(46, 46, ST 11)],
     St 11 False [(48, 49, ST 12)],
     St 12 False [(10, 10, TR 21), (13, 13, TR 22)],
     Tr 21 [A_http_version] 13,
     Tr 30 [A_mark, A_write_value] 13,
     Tr 33 [A_write_value] 13,
     St 13 False [(1, 8, TR 23), (10, 10, TR 24), (11, 12, TR 23), (13, 13, TR 25), (14, 31, TR 23),
       (33, 33, TR 23), (35, 39, TR 23), (42, 43, TR 23), (45, 46, TR 23), (48, 57, TR 23), (65, 90, TR 23),
       (94, 122, TR 23), (124, 124, TR 23), (126, 126, TR 23)],
     Tr 23 [A_start_field] 14]"

definition http11_items_3 :: "http_action item list" where
  "http11_items_3 =
    [St 14 False [(1, 8, ST 14), (10, 31, ST 14), (33, 33, ST 14), (35, 39, ST 14), (42, 43, ST 14),
       (45, 46, ST 14), (48, 57, ST 14), (58, 58, TR 27), (65, 90, ST 14), (94, 122, ST 14), (124, 124, ST 14),
       (126, 126, ST 14)],
     Tr 27 [A_write_field] 15,
     Tr 29 [A_mark] 15,
     St 15 False [(- 128, - 1, TR 28), (1, 8, TR 28), (9, 9, TR 29), (10, 10, TR 30), (11, 12, TR 28),
       (13, 13, TR 31), (14, 31, TR 28), (32, 32, TR 29), (33, 126, TR 28)],
     Tr 28 [A_mark] 16,
     St 16 False [(- 128, - 1, ST 16), (1, 9, ST 16), (10, 10, TR 33), (11, 12, ST 16), (13, 13, TR 34),
       (14, 126, ST 16)],
     Tr 22 [A_http_version] 17,
     Tr 31 [A_mark, A_write_value] 17,
     Tr 34 [A_write_value] 17,
     St 17 False [(10, 10, ST 13)],
     Tr 24 [A_start_field, A_done] 348,
     Tr 36 [A_done] 348]"

definition http11_items_4 :: "http_action item list" where
  "http11_items_4 =
    [St 348 False [(1, 8, ST 14), (10, 31, ST 14), (33, 33, ST 14), (35, 39, ST 14), (42, 43, ST 14),
       (45, 46, ST 14), (48, 57, ST 14), (58, 58, TR 27), (65, 90, ST 14), (94, 122, ST 14), (124, 124, ST 14),
       (126, 126, ST 14)],
     Tr 25 [A_start_field] 18,
     St 18 False [(1, 8, ST 14), (10, 10, TR 36), (11, 31, ST 14), (33, 33, ST 14), (35, 39, ST 14),
       (42, 43, ST 14), (45, 46, ST 14), (48, 57, ST 14), (58, 58, TR 27), (65, 90, ST 14), (94, 122, ST 14),
       (124, 124, ST 14), (126, 126, ST 14)],
     Tr 7 [A_mark] 19,
     St 19 True [(32, 32, TR 37), (33, 33, ST 19), (35, 35, TR 39), (36, 36, ST 19), (37, 37, ST 24),
       (38, 46, ST 19), (47, 47, ST 26), (48, 57, ST 19), (59, 59, ST 19), (61, 61, ST 19), (63, 63, TR 42),
       (64, 90, ST 19), (95, 95, ST 19), (97, 122, ST 19), (126, 126, ST 19), (606, 606, ST 19), (635, 635, ST 19),
       (637, 637, ST 19)],
     Tr 8 [A_mark, A_request_path, A_request_uri] 20]"

definition http11_items_5 :: "http_action item list" where
  "http11_items_5 =
    [Tr 39 [A_request_path, A_request_uri] 20,
     Tr 55 [A_start_query, A_query_string, A_request_uri] 20,
     Tr 59 [A_query_string, A_request_uri] 20,
     St 20 True [(32, 32, TR 43), (33, 33, TR 44), (36, 36, TR 44), (37, 37, TR 45), (38, 59, TR 44),
       (61, 61, TR 44), (63, 90, TR 44), (95, 95, TR 44), (97, 122, TR 44), (126, 126, TR 44), (606, 606, TR 44),
       (635, 635, TR 44), (637, 637, TR 44)],
     Tr 44 [A_mark] 21,
     St 21 True [(32, 32, TR 46), (33, 33, ST 21), (36, 36, ST 21), (37, 37, ST 22), (38, 59, ST 21),
       (61, 61, ST 21), (63, 90, ST 21), (95, 95, ST 21), (97, 122, ST 21), (126, 126, ST 21), (606, 606, ST 21),
       (635, 635, ST 21), (637, 637, ST 21)],
     Tr 45 [A_mark] 22]"

definition http11_items_6 :: "http_action item list" where
  "http11_items_6 =
    [St 22 False [(48, 57, ST 23), (65, 70, ST 23), (97, 102, ST 23)],
     St 23 False [(48, 57, ST 21), (65, 70, ST 21), (97, 102, ST 21)],
     Tr 9 [A_mark] 24,
     St 24 False [(48, 57, ST 25), (65, 70, ST 25), (97, 102, ST 25)],
     St 25 False [(48, 57, ST 19), (65, 70, ST 19), (97, 102, ST 19)],
     Tr 203 [A_mark] 26,
     St 26 True [(32, 32, TR 37), (33, 33, ST 26), (35, 35, TR 39), (36, 36, ST 26), (37, 37, ST 27),
       (38, 59, ST 26), (61, 61, ST 26), (63, 63, TR 42), (64, 90, ST 26), (95, 95, ST 26), (97, 122, ST 26),
       (126, 126, ST 26), (606, 606, ST 26), (635, 635, ST 26), (637, 637, ST 26)],
     Tr 204 [A_mark] 27,
     St 27 False [(48, 57, ST 28), (65, 70, ST 28), (97, 102, ST 28)],
     St 28 False [(48, 57, ST 26), (65, 70, ST 26), (97, 102, ST 26)],
     Tr 11 [A_mark, A_request_path] 29]"

definition http11_items_7 :: "http_action item list" where
  "http11_items_7 =
    [Tr 42 [A_request_path] 29,
     St 29 True [(32, 32, TR 53), (33, 33, TR 54), (35, 35, TR 55), (36, 36, TR 54), (37, 37, TR 56),
       (38, 59, TR 54), (61, 61, TR 54), (63, 90, TR 54), (95, 95, TR 54), (97, 122, TR 54), (126, 126, TR 54),
       (606, 606, TR 54), (635, 635, TR 54), (637, 637, TR 54)],
     Tr 54 [A_start_query] 30,
     St 30 True [(32, 32, TR 57), (33, 33, ST 30), (35, 35, TR 59), (36, 36, ST 30), (37, 37, ST 31),
       (38, 59, ST 30), (61, 61, ST 30), (63, 90, ST 30), (95, 95, ST 30), (97, 122, ST 30), (126, 126, ST 30),
       (606, 606, ST 30), (635, 635, ST 30), (637, 637, ST 30)],
     Tr 56 [A_start_query] 31,
     St 31 False [(48, 57, ST 32), (65, 70, ST 32), (97, 102, ST 32)],
     St 32 False [(48, 57, ST 30), (65, 70, ST 30), (97, 102, ST 30)],
     Tr 10 [A_mark] 33]"

definition http11_items_8 :: "http_action item list" where
  "http11_items_8 =
    [St 33 True [(32, 32, TR 37), (33, 33, ST 26), (35, 35, TR 39), (36, 36, ST 26), (37, 37, ST 27),
       (38, 46, ST 26), (47, 47, ST 34), (48, 59, ST 26), (61, 61, ST 26), (63, 63, TR 42), (64, 90, ST 26),
       (95, 95, ST 26), (97, 122, ST 26), (126, 126, ST 26), (606, 606, ST 26), (635, 635, ST 26), (637, 637, ST 26)],
     St 34 True [(32, 32, TR 37), (33, 33, ST 35), (35, 35, TR 39), (36, 36, ST 35), (37, 37, ST 36),
       (38, 46, ST 35), (47, 47, ST 26), (48, 57, ST 35), (58, 58, ST 38), (59, 59, ST 35), (61, 61, ST 35),
       (63, 63, TR 42), (64, 64, ST 42), (65, 90, ST 35), (91, 91, ST 47), (95, 95, ST 35), (97, 122, ST 35),
       (126, 126, ST 35), (606, 606, ST 35), (635, 635, ST 35), (637, 637, ST 35)],
     St 35 True [(32, 32, TR 37), (33, 33, ST 35), (35, 35, TR 39), (36, 36, ST 35), (37, 37, ST 36),
       (38, 46, ST 35), (47, 47, ST 26), (48, 57, ST 35), (58, 58, ST 38), (59, 59, ST 35), (61, 61, ST 35),
       (63, 63, TR 42), (64, 64, ST 42), (65, 90, ST 35), (95, 95, ST 35), (97, 122, ST 35), (126, 126, ST 35),
       (606, 606, ST 35), (635, 635, ST 35), (637, 637, ST 35)]]"

definition http11_items_9 :: "http_action item list" where
  "http11_items_9 =
    [St 36 False [(48, 57, ST 37), (65, 70, ST 37), (97, 102, ST 37)],
     St 37 False [(48, 57, ST 35), (65, 70, ST 35), (97, 102, ST 35)],
     St 38 True [(32, 32, TR 37), (33, 33, ST 39), (35, 35, TR 39), (36, 36, ST 39), (37, 37, ST 40),
       (38, 46, ST 39), (47, 47, ST 26), (48, 57, ST 38), (58, 59, ST 39), (61, 61, ST 39), (63, 63, TR 42),
       (64, 64, ST 42), (65, 90, ST 39), (95, 95, ST 39), (97, 122, ST 39), (126, 126, ST 39), (606, 606, ST 39),
       (635, 635, ST 39), (637, 637, ST 39)],
     St 39 True [(33, 33, ST 39), (36, 36, ST 39), (37, 37, ST 40), (38, 46, ST 39), (48, 59, ST 39),
       (61, 61, ST 39), (64, 64, ST 42), (65, 90, ST 39), (95, 95, ST 39), (97, 122, ST 39), (126, 126, ST 39),
       (606, 606, ST 39), (635, 635, ST 39), (637, 637, ST 39)],
     St 40 False [(48, 57, ST 41), (65, 70, ST 41), (97, 102, ST 41)]]"

definition http11_items_10 :: "http_action item list" where
  "http11_items_10 =
    [St 41 False [(48, 57, ST 39), (65, 70, ST 39), (97, 102, ST 39)],
     St 42 True [(32, 32, TR 37), (33, 33, ST 43), (35, 35, TR 39), (36, 36, ST 43), (37, 37, ST 44),
       (38, 46, ST 43), (47, 47, ST 26), (48, 57, ST 43), (58, 58, ST 46), (59, 59, ST 43), (61, 61, ST 43),
       (63, 63, TR 42), (65, 90, ST 43), (91, 91, ST 47), (95, 95, ST 43), (97, 122, ST 43), (126, 126, ST 43),
       (606, 606, ST 43), (635, 635, ST 43), (637, 637, ST 43)],
     St 43 True [(32, 32, TR 37), (33, 33, ST 43), (35, 35, TR 39), (36, 36, ST 43), (37, 37, ST 44),
       (38, 46, ST 43), (47, 47, ST 26), (48, 57, ST 43), (58, 58, ST 46), (59, 59, ST 43), (61, 61, ST 43),
       (63, 63, TR 42), (65, 90, ST 43), (95, 95, ST 43), (97, 122, ST 43), (126, 126, ST 43), (606, 606, ST 43),
       (635, 635, ST 43), (637, 637, ST 43)],
     St 44 False [(48, 57, ST 45), (65, 70, ST 45), (97, 102, ST 45)],
     St 45 False [(48, 57, ST 43), (65, 70, ST 43), (97, 102, ST 43)]]"

definition http11_items_11 :: "http_action item list" where
  "http11_items_11 =
    [St 46 False [(32, 32, TR 37), (35, 35, TR 39), (47, 47, ST 26), (48, 57, ST 46), (63, 63, TR 42)],
     St 47 False [(6, 6, ST 48), (48, 57, ST 91), (58, 58, ST 167), (65, 70, ST 91), (97, 102, ST 91),
       (118, 118, ST 169)],
     St 48 False [(48, 57, ST 49), (65, 70, ST 49), (97, 102, ST 49)],
     St 49 False [(48, 57, ST 50), (58, 58, ST 53), (65, 70, ST 50), (97, 102, ST 50)],
     St 50 False [(48, 57, ST 51), (58, 58, ST 53), (65, 70, ST 51), (97, 102, ST 51)],
     St 51 False [(48, 57, ST 52), (58, 58, ST 53), (65, 70, ST 52), (97, 102, ST 52)],
     St 52 False [(58, 58, ST 53)],
     St 53 False [(48, 48, ST 54), (49, 49, ST 84), (50, 50, ST 87), (51, 57, ST 54), (65, 70, ST 90),
       (97, 102, ST 90)],
     St 54 False [(46, 46, ST 55), (48, 57, ST 77), (58, 58, ST 80), (65, 70, ST 77), (97, 102, ST 77)],
     St 55 False [(48, 48, ST 56), (49, 49, ST 72), (50, 50, ST 74), (51, 57, ST 56)],
     St 56 False [(46, 46, ST 57)]]"

definition http11_items_12 :: "http_action item list" where
  "http11_items_12 =
    [St 57 False [(48, 48, ST 58), (49, 49, ST 67), (50, 50, ST 69), (51, 57, ST 58)],
     St 58 False [(46, 46, ST 59)],
     St 59 False [(48, 48, ST 60), (49, 49, ST 62), (50, 50, ST 64), (51, 57, ST 60)],
     St 60 False [(93, 93, ST 61)],
     St 61 False [(32, 32, TR 37), (35, 35, TR 39), (47, 47, ST 26), (58, 58, ST 46), (63, 63, TR 42)],
     St 62 False [(48, 57, ST 63), (93, 93, ST 61)],
     St 63 False [(48, 57, ST 60), (93, 93, ST 61)],
     St 64 False [(48, 48, ST 65), (53, 53, ST 66), (93, 93, ST 61)],
     St 65 False [(48, 57, ST 60)],
     St 66 False [(48, 48, ST 60)],
     St 67 False [(46, 46, ST 59), (48, 57, ST 68)],
     St 68 False [(46, 46, ST 59), (48, 57, ST 58)],
     St 69 False [(46, 46, ST 59), (48, 48, ST 70), (53, 53, ST 71)],
     St 70 False [(48, 57, ST 58)],
     St 71 False [(48, 48, ST 58)],
     St 72 False [(46, 46, ST 57), (48, 57, ST 73)],
     St 73 False [(46, 46, ST 57), (48, 57, ST 56)]]"

definition http11_items_13 :: "http_action item list" where
  "http11_items_13 =
    [St 74 False [(46, 46, ST 57), (48, 48, ST 75), (53, 53, ST 76)],
     St 75 False [(48, 57, ST 56)],
     St 76 False [(48, 48, ST 56)],
     St 77 False [(48, 57, ST 78), (58, 58, ST 80), (65, 70, ST 78), (97, 102, ST 78)],
     St 78 False [(48, 57, ST 79), (58, 58, ST 80), (65, 70, ST 79), (97, 102, ST 79)],
     St 79 False [(58, 58, ST 80)],
     St 80 False [(48, 57, ST 81), (65, 70, ST 81), (97, 102, ST 81)],
     St 81 False [(48, 57, ST 82), (65, 70, ST 82), (93, 93, ST 61), (97, 102, ST 82)],
     St 82 False [(48, 57, ST 83), (65, 70, ST 83), (93, 93, ST 61), (97, 102, ST 83)],
     St 83 False [(48, 57, ST 60), (65, 70, ST 60), (93, 93, ST 61), (97, 102, ST 60)],
     St 84 False [(46, 46, ST 55), (48, 57, ST 85), (58, 58, ST 80), (65, 70, ST 77), (97, 102, ST 77)]]"

definition http11_items_14 :: "http_action item list" where
  "http11_items_14 =
    [St 85 False [(46, 46, ST 55), (48, 57, ST 86), (58, 58, ST 80), (65, 70, ST 78), (97, 102, ST 78)],
     St 86 False [(46, 46, ST 55), (48, 57, ST 79), (58, 58, ST 80), (65, 70, ST 79), (97, 102, ST 79)],
     St 87 False [(46, 46, ST 55), (48, 48, ST 88), (49, 52, ST 77), (53, 53, ST 89), (54, 57, ST 77),
       (58, 58, ST 80), (65, 70, ST 77), (97, 102, ST 77)],
     St 88 False [(48, 57, ST 86), (58, 58, ST 80), (65, 70, ST 78), (97, 102, ST 78)],
     St 89 False [(48, 48, ST 86), (49, 57, ST 78), (58, 58, ST 80), (65, 70, ST 78), (97, 102, ST 78)],
     St 90 False [(48, 57, ST 77), (58, 58, ST 80), (65, 70, ST 77), (97, 102, ST 77)],
     St 91 False [(48, 57, ST 92), (58, 58, ST 95), (65, 70, ST 92), (97, 102, ST 92)],
     St 92 False [(48, 57, ST 93), (58, 58, ST 95), (65, 70, ST 93), (97, 102, ST 93)],
     St 93 False [(48, 57, ST 94), (58, 58, ST 95), (65, 70, ST 94), (97, 102, ST 94)]]"

definition http11_items_15 :: "http_action item list" where
  "http11_items_15 =
    [St 94 False [(58, 58, ST 95)],
     St 95 False [(48, 57, ST 96), (58, 58, ST 166), (65, 70, ST 96), (97, 102, ST 96)],
     St 96 False [(48, 57, ST 97), (58, 58, ST 100), (65, 70, ST 97), (97, 102, ST 97)],
     St 97 False [(48, 57, ST 98), (58, 58, ST 100), (65, 70, ST 98), (97, 102, ST 98)],
     St 98 False [(48, 57, ST 99), (58, 58, ST 100), (65, 70, ST 99), (97, 102, ST 99)],
     St 99 False [(58, 58, ST 100)],
     St 100 False [(48, 57, ST 101), (58, 58, ST 165), (65, 70, ST 101), (97, 102, ST 101)],
     St 101 False [(48, 57, ST 102), (58, 58, ST 105), (65, 70, ST 102), (97, 102, ST 102)],
     St 102 False [(48, 57, ST 103), (58, 58, ST 105), (65, 70, ST 103), (97, 102, ST 103)],
     St 103 False [(48, 57, ST 104), (58, 58, ST 105), (65, 70, ST 104), (97, 102, ST 104)],
     St 104 False [(58, 58, ST 105)]]"

definition http11_items_16 :: "http_action item list" where
  "http11_items_16 =
    [St 105 False [(48, 57, ST 106), (58, 58, ST 164), (65, 70, ST 106), (97, 102, ST 106)],
     St 106 False [(48, 57, ST 107), (58, 58, ST 110), (65, 70, ST 107), (97, 102, ST 107)],
     St 107 False [(48, 57, ST 108), (58, 58, ST 110), (65, 70, ST 108), (97, 102, ST 108)],
     St 108 False [(48, 57, ST 109), (58, 58, ST 110), (65, 70, ST 109), (97, 102, ST 109)],
     St 109 False [(58, 58, ST 110)],
     St 110 False [(48, 57, ST 111), (58, 58, ST 163), (65, 70, ST 111), (97, 102, ST 111)],
     St 111 False [(48, 57, ST 112), (58, 58, ST 115), (65, 70, ST 112), (97, 102, ST 112)],
     St 112 False [(48, 57, ST 113), (58, 58, ST 115), (65, 70, ST 113), (97, 102, ST 113)],
     St 113 False [(48, 57, ST 114), (58, 58, ST 115), (65, 70, ST 114), (97, 102, ST 114)],
     St 114 False [(58, 58, ST 115)],
     St 115 False [(48, 57, ST 116), (58, 58, ST 151), (65, 70, ST 116), (97, 102, ST 116)]]"

definition http11_items_17 :: "http_action item list" where
  "http11_items_17 =
    [St 116 False [(48, 57, ST 117), (58, 58, ST 120), (65, 70, ST 117), (97, 102, ST 117)],
     St 117 False [(48, 57, ST 118), (58, 58, ST 120), (65, 70, ST 118), (97, 102, ST 118)],
     St 118 False [(48, 57, ST 119), (58, 58, ST 120), (65, 70, ST 119), (97, 102, ST 119)],
     St 119 False [(58, 58, ST 120)],
     St 120 False [(48, 57, ST 121), (58, 58, ST 150), (65, 70, ST 121), (97, 102, ST 121)],
     St 121 False [(48, 57, ST 122), (58, 58, ST 125), (65, 70, ST 122), (97, 102, ST 122)],
     St 122 False [(48, 57, ST 123), (58, 58, ST 125), (65, 70, ST 123), (97, 102, ST 123)],
     St 123 False [(48, 57, ST 124), (58, 58, ST 125), (65, 70, ST 124), (97, 102, ST 124)],
     St 124 False [(58, 58, ST 125)],
     St 125 False [(48, 57, ST 121), (58, 58, ST 126), (65, 70, ST 121), (97, 102, ST 121)]]"

definition http11_items_18 :: "http_action item list" where
  "http11_items_18 =
    [St 126 False [(2, 3, ST 48), (48, 48, ST 127), (49, 49, ST 143), (50, 50, ST 146), (51, 57, ST 127),
       (65, 70, ST 149), (93, 93, ST 61), (97, 102, ST 149)],
     St 127 False [(46, 46, ST 55), (48, 57, ST 128), (58, 58, ST 131), (65, 70, ST 128), (93, 93, ST 61),
       (97, 102, ST 128)],
     St 128 False [(48, 57, ST 129), (58, 58, ST 131), (65, 70, ST 129), (93, 93, ST 61), (97, 102, ST 129)],
     St 129 False [(48, 57, ST 130), (58, 58, ST 131), (65, 70, ST 130), (93, 93, ST 61), (97, 102, ST 130)],
     St 130 False [(58, 58, ST 131), (93, 93, ST 61)],
     St 131 False [(48, 48, ST 132), (49, 49, ST 136), (50, 50, ST 139), (51, 57, ST 132), (65, 70, ST 142),
       (97, 102, ST 142)],
     St 132 False [(46, 46, ST 55), (48, 57, ST 133), (58, 58, ST 80), (65, 70, ST 133), (93, 93, ST 61),
       (97, 102, ST 133)],
     St 133 False [(48, 57, ST 134), (58, 58, ST 80), (65, 70, ST 134), (93, 93, ST 61), (97, 102, ST 134)]]"

definition http11_items_19 :: "http_action item list" where
  "http11_items_19 =
    [St 134 False [(48, 57, ST 135), (58, 58, ST 80), (65, 70, ST 135), (93, 93, ST 61), (97, 102, ST 135)],
     St 135 False [(58, 58, ST 80), (93, 93, ST 61)],
     St 136 False [(46, 46, ST 55), (48, 57, ST 137), (58, 58, ST 80), (65, 70, ST 133), (93, 93, ST 61),
       (97, 102, ST 133)],
     St 137 False [(46, 46, ST 55), (48, 57, ST 138), (58, 58, ST 80), (65, 70, ST 134), (93, 93, ST 61),
       (97, 102, ST 134)],
     St 138 False [(46, 46, ST 55), (48, 57, ST 135), (58, 58, ST 80), (65, 70, ST 135), (93, 93, ST 61),
       (97, 102, ST 135)],
     St 139 False [(46, 46, ST 55), (48, 48, ST 140), (49, 52, ST 133), (53, 53, ST 141), (54, 57, ST 133),
       (58, 58, ST 80), (65, 70, ST 133), (93, 93, ST 61), (97, 102, ST 133)],
     St 140 False [(48, 57, ST 138), (58, 58, ST 80), (65, 70, ST 134), (93, 93, ST 61), (97, 102, ST 134)],
     St 141 False [(48, 48, ST 138), (49, 57, ST 134), (58, 58, ST 80), (65, 70, ST 134), (93, 93, ST 61),
       (97, 102, ST 134)]]"

definition http11_items_20 :: "http_action item list" where
  "http11_items_20 =
    [St 142 False [(48, 57, ST 133), (58, 58, ST 80), (65, 70, ST 133), (93, 93, ST 61), (97, 102, ST 133)],
     St 143 False [(46, 46, ST 55), (48, 57, ST 144), (58, 58, ST 131), (65, 70, ST 128), (93, 93, ST 61),
       (97, 102, ST 128)],
     St 144 False [(46, 46, ST 55), (48, 57, ST 145), (58, 58, ST 131), (65, 70, ST 129), (93, 93, ST 61),
       (97, 102, ST 129)],
     St 145 False [(46, 46, ST 55), (48, 57, ST 130), (58, 58, ST 131), (65, 70, ST 130), (93, 93, ST 61),
       (97, 102, ST 130)],
     St 146 False [(46, 46, ST 55), (48, 48, ST 147), (49, 52, ST 128), (53, 53, ST 148), (54, 57, ST 128),
       (58, 58, ST 131), (65, 70, ST 128), (93, 93, ST 61), (97, 102, ST 128)],
     St 147 False [(48, 57, ST 145), (58, 58, ST 131), (65, 70, ST 129), (93, 93, ST 61), (97, 102, ST 129)],
     St 148 False [(48, 48, ST 145), (49, 57, ST 129), (58, 58, ST 131), (65, 70, ST 129), (93, 93, ST 61),
       (97, 102, ST 129)],
     St 149 False [(48, 57, ST 128), (58, 58, ST 131), (65, 70, ST 128), (93, 93, ST 61), (97, 102, ST 128)]]"

definition http11_items_21 :: "http_action item list" where
  "http11_items_21 =
    [St 150 False [(2, 3, ST 48), (48, 48, ST 127), (49, 49, ST 143), (50, 50, ST 146), (51, 57, ST 127),
       (65, 70, ST 149), (97, 102, ST 149)],
     St 151 False [(2, 3, ST 48), (48, 48, ST 152), (49, 49, ST 156), (50, 50, ST 159), (51, 57, ST 152),
       (65, 70, ST 162), (97, 102, ST 162)],
     St 152 False [(46, 46, ST 55), (48, 57, ST 153), (58, 58, ST 131), (65, 70, ST 153), (97, 102, ST 153)],
     St 153 False [(48, 57, ST 154), (58, 58, ST 131), (65, 70, ST 154), (97, 102, ST 154)],
     St 154 False [(48, 57, ST 155), (58, 58, ST 131), (65, 70, ST 155), (97, 102, ST 155)],
     St 155 False [(58, 58, ST 131)],
     St 156 False [(46, 46, ST 55), (48, 57, ST 157), (58, 58, ST 131), (65, 70, ST 153), (97, 102, ST 153)],
     St 157 False [(46, 46, ST 55), (48, 57, ST 158), (58, 58, ST 131), (65, 70, ST 154), (97, 102, ST 154)],
     St 158 False [(46, 46, ST 55), (48, 57, ST 155), (58, 58, ST 131), (65, 70, ST 155), (97, 102, ST 155)]]"

definition http11_items_22 :: "http_action item list" where
  "http11_items_22 =
    [St 159 False [(46, 46, ST 55), (48, 48, ST 160), (49, 52, ST 153), (53, 53, ST 161), (54, 57, ST 153),
       (58, 58, ST 131), (65, 70, ST 153), (97, 102, ST 153)],
     St 160 False [(48, 57, ST 158), (58, 58, ST 131), (65, 70, ST 154), (97, 102, ST 154)],
     St 161 False [(48, 48, ST 158), (49, 57, ST 154), (58, 58, ST 131), (65, 70, ST 154), (97, 102, ST 154)],
     St 162 False [(48, 57, ST 153), (58, 58, ST 131), (65, 70, ST 153), (97, 102, ST 153)],
     St 163 False [(2, 3, ST 48), (48, 57, ST 49), (65, 70, ST 49), (97, 102, ST 49)],
     St 164 False [(2, 3, ST 48)],
     St 165 False [(3, 3, ST 48)],
     St 166 False [(4, 4, ST 48)],
     St 167 False [(58, 58, ST 168)],
     St 168 False [(2, 5, ST 48), (48, 48, ST 127), (49, 49, ST 143), (50, 50, ST 146), (51, 57, ST 127),
       (65, 70, ST 149), (93, 93, ST 61), (97, 102, ST 149)],
     St 169 False [(48, 57, ST 170), (65, 70, ST 170), (97, 102, ST 170)]]"

definition http11_items_23 :: "http_action item list" where
  "http11_items_23 =
    [St 170 False [(46, 46, ST 171), (48, 57, ST 170), (65, 70, ST 170), (97, 102, ST 170)],
     St 171 True [(33, 33, ST 172), (36, 36, ST 172), (38, 46, ST 172), (48, 59, ST 172), (61, 61, ST 172),
       (65, 90, ST 172), (95, 95, ST 172), (97, 122, ST 172), (126, 126, ST 172), (606, 606, ST 172),
       (635, 635, ST 172), (637, 637, ST 172)],
     St 172 True [(33, 33, ST 172), (36, 36, ST 172), (38, 46, ST 172), (48, 59, ST 172), (61, 61, ST 172),
       (65, 90, ST 172), (93, 93, ST 61), (95, 95, ST 172), (97, 122, ST 172), (126, 126, ST 172),
       (606, 606, ST 172), (635, 635, ST 172), (637, 637, ST 172)],
     Tr 12 [A_mark] 173]"

definition http11_items_24 :: "http_action item list" where
  "http11_items_24 =
    [St 173 True [(32, 32, TR 37), (33, 33, ST 19), (35, 35, TR 39), (36, 36, ST 19), (37, 37, ST 24),
       (38, 42, ST 19), (43, 43, ST 173), (44, 44, ST 19), (45, 46, ST 173), (47, 47, ST 26), (48, 57, ST 173),
       (58, 58, ST 174), (59, 59, ST 19), (61, 61, ST 19), (63, 63, TR 42), (64, 64, ST 19), (65, 90, ST 173),
       (95, 95, ST 19), (97, 122, ST 173), (126, 126, ST 19), (606, 606, ST 19), (635, 635, ST 19), (637, 637, ST 19)],
     St 174 True [(32, 32, TR 6), (33, 33, TR 203), (35, 35, TR 8), (36, 36, TR 203), (37, 37, TR 204),
       (38, 46, TR 203), (47, 47, TR 10), (48, 59, TR 203), (61, 61, TR 203), (63, 63, TR 11), (64, 90, TR 203),
       (95, 95, TR 203), (97, 122, TR 203), (126, 126, TR 203), (606, 606, TR 203), (635, 635, TR 203),
       (637, 637, TR 203)],
     St 175 False [(32, 32, TR 4), (48, 57, ST 176), (65, 90, ST 176)],
     St 176 False [(32, 32, TR 4), (48, 57, ST 177), (65, 90, ST 177)],
     St 177 False [(32, 32, TR 4), (48, 57, ST 178), (65, 90, ST 178)]]"

definition http11_items_25 :: "http_action item list" where
  "http11_items_25 =
    [St 178 False [(32, 32, TR 4), (48, 57, ST 179), (65, 90, ST 179)],
     St 179 False [(32, 32, TR 4), (48, 57, ST 180), (65, 90, ST 180)],
     St 180 False [(32, 32, TR 4), (48, 57, ST 181), (65, 90, ST 181)],
     St 181 False [(32, 32, TR 4), (48, 57, ST 182), (65, 90, ST 182)],
     St 182 False [(32, 32, TR 4), (48, 57, ST 183), (65, 90, ST 183)],
     St 183 False [(32, 32, TR 4), (48, 57, ST 184), (65, 90, ST 184)],
     St 184 False [(32, 32, TR 4), (48, 57, ST 185), (65, 90, ST 185)],
     St 185 False [(32, 32, TR 4), (48, 57, ST 186), (65, 90, ST 186)],
     St 186 False [(32, 32, TR 4), (48, 57, ST 187), (65, 90, ST 187)],
     St 187 False [(32, 32, TR 4), (48, 57, ST 188), (65, 90, ST 188)],
     St 188 False [(32, 32, TR 4), (48, 57, ST 189), (65, 90, ST 189)],
     St 189 False [(32, 32, TR 4), (48, 57, ST 190), (65, 90, ST 190)]]"

definition http11_items_26 :: "http_action item list" where
  "http11_items_26 =
    [St 190 False [(32, 32, TR 4), (48, 57, ST 191), (65, 90, ST 191)],
     St 191 False [(32, 32, TR 4), (48, 57, ST 192), (65, 90, ST 192)],
     St 192 False [(32, 32, TR 4), (48, 57, ST 193), (65, 90, ST 193)],
     St 193 False [(32, 32, TR 4)],
     Tr 2 [A_mark] 194,
     St 194 False [(45, 46, ST 195), (48, 57, ST 195), (65, 90, ST 195), (97, 122, ST 195)],
     St 195 False [(9, 13, TR 224), (32, 32, TR 224), (45, 46, ST 195), (47, 47, TR 224), (48, 57, ST 195),
       (62, 62, TR 224), (65, 90, ST 195), (97, 122, ST 195)],
     Tr 224 [A_request_path] 196,
     St 196 False [(- 128, 61, ST 196), (62, 62, ST 197), (63, 127, ST 196)],
     St 197 False [(- 128, - 1, ST 196), (0, 0, TR 227), (1, 61, ST 196), (62, 62, ST 197), (63, 127, ST 196)],
     Tr 227 [A_xml, A_done] 349]"

definition http11_items_27 :: "http_action item list" where
  "http11_items_27 =
    [Tr 235 [A_json, A_done] 349,
     St 349 False [],
     Tr 3 [A_mark] 198,
     St 198 True [(32, 32, TR 228), (33, 33, ST 202), (36, 36, ST 202), (37, 37, ST 203), (38, 46, ST 202),
       (47, 47, ST 208), (48, 57, ST 202), (59, 59, ST 202), (61, 61, ST 202), (64, 90, ST 202), (95, 95, ST 202),
       (97, 122, ST 202), (126, 126, ST 202), (606, 606, ST 202), (635, 635, ST 202), (637, 637, ST 202)],
     Tr 228 [A_request_path] 199,
     St 199 False [(123, 123, TR 232)],
     Tr 232 [A_mark] 200,
     St 200 False [(- 128, 124, ST 200), (125, 125, ST 201), (126, 127, ST 200)],
     St 201 False [(- 128, - 1, ST 200), (0, 0, TR 235), (1, 124, ST 200), (125, 125, ST 201), (126, 127, ST 200)]]"

definition http11_items_28 :: "http_action item list" where
  "http11_items_28 =
    [St 202 True [(32, 32, TR 228), (33, 33, ST 202), (36, 36, ST 202), (37, 37, ST 203), (38, 46, ST 202),
       (47, 47, ST 205), (48, 57, ST 202), (59, 59, ST 202), (61, 61, ST 202), (64, 90, ST 202), (95, 95, ST 202),
       (97, 122, ST 202), (126, 126, ST 202), (606, 606, ST 202), (635, 635, ST 202), (637, 637, ST 202)],
     St 203 False [(48, 57, ST 204), (65, 70, ST 204), (97, 102, ST 204)],
     St 204 False [(48, 57, ST 202), (65, 70, ST 202), (97, 102, ST 202)],
     St 205 True [(32, 32, TR 228), (33, 33, ST 205), (36, 36, ST 205), (37, 37, ST 206), (38, 59, ST 205),
       (61, 61, ST 205), (64, 90, ST 205), (95, 95, ST 205), (97, 122, ST 205), (126, 126, ST 205),
       (606, 606, ST 205), (635, 635, ST 205), (637, 637, ST 205)],
     St 206 False [(48, 57, ST 207), (65, 70, ST 207), (97, 102, ST 207)],
     St 207 False [(48, 57, ST 205), (65, 70, ST 205), (97, 102, ST 205)]]"

definition http11_items_29 :: "http_action item list" where
  "http11_items_29 =
    [St 208 True [(32, 32, TR 228), (33, 33, ST 205), (36, 36, ST 205), (37, 37, ST 206), (38, 46, ST 205),
       (47, 47, ST 209), (48, 59, ST 205), (61, 61, ST 205), (64, 90, ST 205), (95, 95, ST 205), (97, 122, ST 205),
       (126, 126, ST 205), (606, 606, ST 205), (635, 635, ST 205), (637, 637, ST 205)],
     St 209 True [(32, 32, TR 228), (33, 33, ST 210), (36, 36, ST 210), (37, 37, ST 211), (38, 46, ST 210),
       (47, 47, ST 205), (48, 57, ST 210), (58, 58, ST 213), (59, 59, ST 210), (61, 61, ST 210), (64, 64, ST 217),
       (65, 90, ST 210), (91, 91, ST 222), (95, 95, ST 210), (97, 122, ST 210), (126, 126, ST 210),
       (606, 606, ST 210), (635, 635, ST 210), (637, 637, ST 210)],
     St 210 True [(32, 32, TR 228), (33, 33, ST 210), (36, 36, ST 210), (37, 37, ST 211), (38, 46, ST 210),
       (47, 47, ST 205), (48, 57, ST 210), (58, 58, ST 213), (59, 59, ST 210), (61, 61, ST 210), (64, 64, ST 217),
       (65, 90, ST 210), (95, 95, ST 210), (97, 122, ST 210), (126, 126, ST 210), (606, 606, ST 210),
       (635, 635, ST 210), (637, 637, ST 210)]]"

definition http11_items_30 :: "http_action item list" where
  "http11_items_30 =
    [St 211 False [(48, 57, ST 212), (65, 70, ST 212), (97, 102, ST 212)],
     St 212 False [(48, 57, ST 210), (65, 70, ST 210), (97, 102, ST 210)],
     St 213 True [(32, 32, TR 228), (33, 33, ST 214), (36, 36, ST 214), (37, 37, ST 215), (38, 46, ST 214),
       (47, 47, ST 205), (48, 57, ST 213), (58, 59, ST 214), (61, 61, ST 214), (64, 64, ST 217), (65, 90, ST 214),
       (95, 95, ST 214), (97, 122, ST 214), (126, 126, ST 214), (606, 606, ST 214), (635, 635, ST 214),
       (637, 637, ST 214)],
     St 214 True [(33, 33, ST 214), (36, 36, ST 214), (37, 37, ST 215), (38, 46, ST 214), (48, 59, ST 214),
       (61, 61, ST 214), (64, 64, ST 217), (65, 90, ST 214), (95, 95, ST 214), (97, 122, ST 214),
       (126, 126, ST 214), (606, 606, ST 214), (635, 635, ST 214), (637, 637, ST 214)],
     St 215 False [(48, 57, ST 216), (65, 70, ST 216), (97, 102, ST 216)]]"

definition http11_items_31 :: "http_action item list" where
  "http11_items_31 =
    [St 216 False [(48, 57, ST 214), (65, 70, ST 214), (97, 102, ST 214)],
     St 217 True [(32, 32, TR 228), (33, 33, ST 218), (36, 36, ST 218), (37, 37, ST 219), (38, 46, ST 218),
       (47, 47, ST 205), (48, 57, ST 218), (58, 58, ST 221), (59, 59, ST 218), (61, 61, ST 218), (65, 90, ST 218),
       (91, 91, ST 222), (95, 95, ST 218), (97, 122, ST 218), (126, 126, ST 218), (606, 606, ST 218),
       (635, 635, ST 218), (637, 637, ST 218)],
     St 218 True [(32, 32, TR 228), (33, 33, ST 218), (36, 36, ST 218), (37, 37, ST 219), (38, 46, ST 218),
       (47, 47, ST 205), (48, 57, ST 218), (58, 58, ST 221), (59, 59, ST 218), (61, 61, ST 218), (65, 90, ST 218),
       (95, 95, ST 218), (97, 122, ST 218), (126, 126, ST 218), (606, 606, ST 218), (635, 635, ST 218),
       (637, 637, ST 218)],
     St 219 False [(48, 57, ST 220), (65, 70, ST 220), (97, 102, ST 220)],
     St 220 False [(48, 57, ST 218), (65, 70, ST 218), (97, 102, ST 218)],
     St 221 False [(32, 32, TR 228), (47, 47, ST 205), (48, 57, ST 221)]]"

definition http11_items_32 :: "http_action item list" where
  "http11_items_32 =
    [St 222 False [(6, 6, ST 223), (48, 57, ST 266), (58, 58, ST 342), (65, 70, ST 266), (97, 102, ST 266),
       (118, 118, ST 344)],
     St 223 False [(48, 57, ST 224), (65, 70, ST 224), (97, 102, ST 224)],
     St 224 False [(48, 57, ST 225), (58, 58, ST 228), (65, 70, ST 225), (97, 102, ST 225)],
     St 225 False [(48, 57, ST 226), (58, 58, ST 228), (65, 70, ST 226), (97, 102, ST 226)],
     St 226 False [(48, 57, ST 227), (58, 58, ST 228), (65, 70, ST 227), (97, 102, ST 227)],
     St 227 False [(58, 58, ST 228)],
     St 228 False [(48, 48, ST 229), (49, 49, ST 259), (50, 50, ST 262), (51, 57, ST 229), (65, 70, ST 265),
       (97, 102, ST 265)],
     St 229 False [(46, 46, ST 230), (48, 57, ST 252), (58, 58, ST 255), (65, 70, ST 252), (97, 102, ST 252)],
     St 230 False [(48, 48, ST 231), (49, 49, ST 247), (50, 50, ST 249), (51, 57, ST 231)],
     St 231 False [(46, 46, ST 232)],
     St 232 False [(48, 48, ST 233), (49, 49, ST 242), (50, 50, ST 244), (51, 57, ST 233)]]"

definition http11_items_33 :: "http_action item list" where
  "http11_items_33 =
    [St 233 False [(46, 46, ST 234)],
     St 234 False [(48, 48, ST 235), (49, 49, ST 237), (50, 50, ST 239), (51, 57, ST 235)],
     St 235 False [(93, 93, ST 236)],
     St 236 False [(32, 32, TR 228), (47, 47, ST 205), (58, 58, ST 221)],
     St 237 False [(48, 57, ST 238), (93, 93, ST 236)],
     St 238 False [(48, 57, ST 235), (93, 93, ST 236)],
     St 239 False [(48, 48, ST 240), (53, 53, ST 241), (93, 93, ST 236)],
     St 240 False [(48, 57, ST 235)],
     St 241 False [(48, 48, ST 235)],
     St 242 False [(46, 46, ST 234), (48, 57, ST 243)],
     St 243 False [(46, 46, ST 234), (48, 57, ST 233)],
     St 244 False [(46, 46, ST 234), (48, 48, ST 245), (53, 53, ST 246)],
     St 245 False [(48, 57, ST 233)],
     St 246 False [(48, 48, ST 233)],
     St 247 False [(46, 46, ST 232), (48, 57, ST 248)],
     St 248 False [(46, 46, ST 232), (48, 57, ST 231)],
     St 249 False [(46, 46, ST 232), (48, 48, ST 250), (53, 53, ST 251)]]"

definition http11_items_34 :: "http_action item list" where
  "http11_items_34 =
    [St 250 False [(48, 57, ST 231)],
     St 251 False [(48, 48, ST 231)],
     St 252 False [(48, 57, ST 253), (58, 58, ST 255), (65, 70, ST 253), (97, 102, ST 253)],
     St 253 False [(48, 57, ST 254), (58, 58, ST 255), (65, 70, ST 254), (97, 102, ST 254)],
     St 254 False [(58, 58, ST 255)],
     St 255 False [(48, 57, ST 256), (65, 70, ST 256), (97, 102, ST 256)],
     St 256 False [(48, 57, ST 257), (65, 70, ST 257), (93, 93, ST 236), (97, 102, ST 257)],
     St 257 False [(48, 57, ST 258), (65, 70, ST 258), (93, 93, ST 236), (97, 102, ST 258)],
     St 258 False [(48, 57, ST 235), (65, 70, ST 235), (93, 93, ST 236), (97, 102, ST 235)],
     St 259 False [(46, 46, ST 230), (48, 57, ST 260), (58, 58, ST 255), (65, 70, ST 252), (97, 102, ST 252)],
     St 260 False [(46, 46, ST 230), (48, 57, ST 261), (58, 58, ST 255), (65, 70, ST 253), (97, 102, ST 253)]]"

definition http11_items_35 :: "http_action item list" where
  "http11_items_35 =
    [St 261 False [(46, 46, ST 230), (48, 57, ST 254), (58, 58, ST 255), (65, 70, ST 254), (97, 102, ST 254)],
     St 262 False [(46, 46, ST 230), (48, 48, ST 263), (49, 52, ST 252), (53, 53, ST 264), (54, 57, ST 252),
       (58, 58, ST 255), (65, 70, ST 252), (97, 102, ST 252)],
     St 263 False [(48, 57, ST 261), (58, 58, ST 255), (65, 70, ST 253), (97, 102, ST 253)],
     St 264 False [(48, 48, ST 261), (49, 57, ST 253), (58, 58, ST 255), (65, 70, ST 253), (97, 102, ST 253)],
     St 265 False [(48, 57, ST 252), (58, 58, ST 255), (65, 70, ST 252), (97, 102, ST 252)],
     St 266 False [(48, 57, ST 267), (58, 58, ST 270), (65, 70, ST 267), (97, 102, ST 267)],
     St 267 False [(48, 57, ST 268), (58, 58, ST 270), (65, 70, ST 268), (97, 102, ST 268)],
     St 268 False [(48, 57, ST 269), (58, 58, ST 270), (65, 70, ST 269), (97, 102, ST 269)],
     St 269 False [(58, 58, ST 270)],
     St 270 False [(48, 57, ST 271), (58, 58, ST 341), (65, 70, ST 271), (97, 102, ST 271)]]"

definition http11_items_36 :: "http_action item list" where
  "http11_items_36 =
    [St 271 False [(48, 57, ST 272), (58, 58, ST 275), (65, 70, ST 272), (97, 102, ST 272)],
     St 272 False [(48, 57, ST 273), (58, 58, ST 275), (65, 70, ST 273), (97, 102, ST 273)],
     St 273 False [(48, 57, ST 274), (58, 58, ST 275), (65, 70, ST 274), (97, 102, ST 274)],
     St 274 False [(58, 58, ST 275)],
     St 275 False [(48, 57, ST 276), (58, 58, ST 340), (65, 70, ST 276), (97, 102, ST 276)],
     St 276 False [(48, 57, ST 277), (58, 58, ST 280), (65, 70, ST 277), (97, 102, ST 277)],
     St 277 False [(48, 57, ST 278), (58, 58, ST 280), (65, 70, ST 278), (97, 102, ST 278)],
     St 278 False [(48, 57, ST 279), (58, 58, ST 280), (65, 70, ST 279), (97, 102, ST 279)],
     St 279 False [(58, 58, ST 280)],
     St 280 False [(48, 57, ST 281), (58, 58, ST 339), (65, 70, ST 281), (97, 102, ST 281)],
     St 281 False [(48, 57, ST 282), (58, 58, ST 285), (65, 70, ST 282), (97, 102, ST 282)]]"

definition http11_items_37 :: "http_action item list" where
  "http11_items_37 =
    [St 282 False [(48, 57, ST 283), (58, 58, ST 285), (65, 70, ST 283), (97, 102, ST 283)],
     St 283 False [(48, 57, ST 284), (58, 58, ST 285), (65, 70, ST 284), (97, 102, ST 284)],
     St 284 False [(58, 58, ST 285)],
     St 285 False [(48, 57, ST 286), (58, 58, ST 338), (65, 70, ST 286), (97, 102, ST 286)],
     St 286 False [(48, 57, ST 287), (58, 58, ST 290), (65, 70, ST 287), (97, 102, ST 287)],
     St 287 False [(48, 57, ST 288), (58, 58, ST 290), (65, 70, ST 288), (97, 102, ST 288)],
     St 288 False [(48, 57, ST 289), (58, 58, ST 290), (65, 70, ST 289), (97, 102, ST 289)],
     St 289 False [(58, 58, ST 290)],
     St 290 False [(48, 57, ST 291), (58, 58, ST 326), (65, 70, ST 291), (97, 102, ST 291)],
     St 291 False [(48, 57, ST 292), (58, 58, ST 295), (65, 70, ST 292), (97, 102, ST 292)],
     St 292 False [(48, 57, ST 293), (58, 58, ST 295), (65, 70, ST 293), (97, 102, ST 293)]]"

definition http11_items_38 :: "http_action item list" where
  "http11_items_38 =
    [St 293 False [(48, 57, ST 294), (58, 58, ST 295), (65, 70, ST 294), (97, 102, ST 294)],
     St 294 False [(58, 58, ST 295)],
     St 295 False [(48, 57, ST 296), (58, 58, ST 325), (65, 70, ST 296), (97, 102, ST 296)],
     St 296 False [(48, 57, ST 297), (58, 58, ST 300), (65, 70, ST 297), (97, 102, ST 297)],
     St 297 False [(48, 57, ST 298), (58, 58, ST 300), (65, 70, ST 298), (97, 102, ST 298)],
     St 298 False [(48, 57, ST 299), (58, 58, ST 300), (65, 70, ST 299), (97, 102, ST 299)],
     St 299 False [(58, 58, ST 300)],
     St 300 False [(48, 57, ST 296), (58, 58, ST 301), (65, 70, ST 296), (97, 102, ST 296)],
     St 301 False [(2, 3, ST 223), (48, 48, ST 302), (49, 49, ST 318), (50, 50, ST 321), (51, 57, ST 302),
       (65, 70, ST 324), (93, 93, ST 236), (97, 102, ST 324)],
     St 302 False [(46, 46, ST 230), (48, 57, ST 303), (58, 58, ST 306), (65, 70, ST 303), (93, 93, ST 236),
       (97, 102, ST 303)]]"

definition http11_items_39 :: "http_action item list" where
  "http11_items_39 =
    [St 303 False [(48, 57, ST 304), (58, 58, ST 306), (65, 70, ST 304), (93, 93, ST 236), (97, 102, ST 304)],
     St 304 False [(48, 57, ST 305), (58, 58, ST 306), (65, 70, ST 305), (93, 93, ST 236), (97, 102, ST 305)],
     St 305 False [(58, 58, ST 306), (93, 93, ST 236)],
     St 306 False [(48, 48, ST 307), (49, 49, ST 311), (50, 50, ST 314), (51, 57, ST 307), (65, 70, ST 317),
       (97, 102, ST 317)],
     St 307 False [(46, 46, ST 230), (48, 57, ST 308), (58, 58, ST 255), (65, 70, ST 308), (93, 93, ST 236),
       (97, 102, ST 308)],
     St 308 False [(48, 57, ST 309), (58, 58, ST 255), (65, 70, ST 309), (93, 93, ST 236), (97, 102, ST 309)],
     St 309 False [(48, 57, ST 310), (58, 58, ST 255), (65, 70, ST 310), (93, 93, ST 236), (97, 102, ST 310)],
     St 310 False [(58, 58, ST 255), (93, 93, ST 236)],
     St 311 False [(46, 46, ST 230), (48, 57, ST 312), (58, 58, ST 255), (65, 70, ST 308), (93, 93, ST 236),
       (97, 102, ST 308)]]"

definition http11_items_40 :: "http_action item list" where
  "http11_items_40 =
    [St 312 False [(46, 46, ST 230), (48, 57, ST 313), (58, 58, ST 255), (65, 70, ST 309), (93, 93, ST 236),
       (97, 102, ST 309)],
     St 313 False [(46, 46, ST 230), (48, 57, ST 310), (58, 58, ST 255), (65, 70, ST 310), (93, 93, ST 236),
       (97, 102, ST 310)],
     St 314 False [(46, 46, ST 230), (48, 48, ST 315), (49, 52, ST 308), (53, 53, ST 316), (54, 57, ST 308),
       (58, 58, ST 255), (65, 70, ST 308), (93, 93, ST 236), (97, 102, ST 308)],
     St 315 False [(48, 57, ST 313), (58, 58, ST 255), (65, 70, ST 309), (93, 93, ST 236), (97, 102, ST 309)],
     St 316 False [(48, 48, ST 313), (49, 57, ST 309), (58, 58, ST 255), (65, 70, ST 309), (93, 93, ST 236),
       (97, 102, ST 309)],
     St 317 False [(48, 57, ST 308), (58, 58, ST 255), (65, 70, ST 308), (93, 93, ST 236), (97, 102, ST 308)],
     St 318 False [(46, 46, ST 230), (48, 57, ST 319), (58, 58, ST 306), (65, 70, ST 303), (93, 93, ST 236),
       (97, 102, ST 303)],
     St 319 False [(46, 46, ST 230), (48, 57, ST 320), (58, 58, ST 306), (65, 70, ST 304), (93, 93, ST 236),
       (97, 102, ST 304)]]"

definition http11_items_41 :: "http_action item list" where
  "http11_items_41 =
    [St 320 False [(46, 46, ST 230), (48, 57, ST 305), (58, 58, ST 306), (65, 70, ST 305), (93, 93, ST 236),
       (97, 102, ST 305)],
     St 321 False [(46, 46, ST 230), (48, 48, ST 322), (49, 52, ST 303), (53, 53, ST 323), (54, 57, ST 303),
       (58, 58, ST 306), (65, 70, ST 303), (93, 93, ST 236), (97, 102, ST 303)],
     St 322 False [(48, 57, ST 320), (58, 58, ST 306), (65, 70, ST 304), (93, 93, ST 236), (97, 102, ST 304)],
     St 323 False [(48, 48, ST 320), (49, 57, ST 304), (58, 58, ST 306), (65, 70, ST 304), (93, 93, ST 236),
       (97, 102, ST 304)],
     St 324 False [(48, 57, ST 303), (58, 58, ST 306), (65, 70, ST 303), (93, 93, ST 236), (97, 102, ST 303)],
     St 325 False [(2, 3, ST 223), (48, 48, ST 302), (49, 49, ST 318), (50, 50, ST 321), (51, 57, ST 302),
       (65, 70, ST 324), (97, 102, ST 324)],
     St 326 False [(2, 3, ST 223), (48, 48, ST 327), (49, 49, ST 331), (50, 50, ST 334), (51, 57, ST 327),
       (65, 70, ST 337), (97, 102, ST 337)],
     St 327 False [(46, 46, ST 230), (48, 57, ST 328), (58, 58, ST 306), (65, 70, ST 328), (97, 102, ST 328)]]"

definition http11_items_42 :: "http_action item list" where
  "http11_items_42 =
    [St 328 False [(48, 57, ST 329), (58, 58, ST 306), (65, 70, ST 329), (97, 102, ST 329)],
     St 329 False [(48, 57, ST 330), (58, 58, ST 306), (65, 70, ST 330), (97, 102, ST 330)],
     St 330 False [(58, 58, ST 306)],
     St 331 False [(46, 46, ST 230), (48, 57, ST 332), (58, 58, ST 306), (65, 70, ST 328), (97, 102, ST 328)],
     St 332 False [(46, 46, ST 230), (48, 57, ST 333), (58, 58, ST 306), (65, 70, ST 329), (97, 102, ST 329)],
     St 333 False [(46, 46, ST 230), (48, 57, ST 330), (58, 58, ST 306), (65, 70, ST 330), (97, 102, ST 330)],
     St 334 False [(46, 46, ST 230), (48, 48, ST 335), (49, 52, ST 328), (53, 53, ST 336), (54, 57, ST 328),
       (58, 58, ST 306), (65, 70, ST 328), (97, 102, ST 328)],
     St 335 False [(48, 57, ST 333), (58, 58, ST 306), (65, 70, ST 329), (97, 102, ST 329)],
     St 336 False [(48, 48, ST 333), (49, 57, ST 329), (58, 58, ST 306), (65, 70, ST 329), (97, 102, ST 329)]]"

definition http11_items_43 :: "http_action item list" where
  "http11_items_43 =
    [St 337 False [(48, 57, ST 328), (58, 58, ST 306), (65, 70, ST 328), (97, 102, ST 328)],
     St 338 False [(2, 3, ST 223), (48, 57, ST 224), (65, 70, ST 224), (97, 102, ST 224)],
     St 339 False [(2, 3, ST 223)],
     St 340 False [(3, 3, ST 223)],
     St 341 False [(4, 4, ST 223)],
     St 342 False [(58, 58, ST 343)],
     St 343 False [(2, 5, ST 223), (48, 48, ST 302), (49, 49, ST 318), (50, 50, ST 321), (51, 57, ST 302),
       (65, 70, ST 324), (93, 93, ST 236), (97, 102, ST 324)],
     St 344 False [(48, 57, ST 345), (65, 70, ST 345), (97, 102, ST 345)],
     St 345 False [(46, 46, ST 346), (48, 57, ST 345), (65, 70, ST 345), (97, 102, ST 345)]]"

definition http11_items_44 :: "http_action item list" where
  "http11_items_44 =
    [St 346 True [(33, 33, ST 347), (36, 36, ST 347), (38, 46, ST 347), (48, 59, ST 347), (61, 61, ST 347),
       (65, 90, ST 347), (95, 95, ST 347), (97, 122, ST 347), (126, 126, ST 347), (606, 606, ST 347),
       (635, 635, ST 347), (637, 637, ST 347)],
     St 347 True [(33, 33, ST 347), (36, 36, ST 347), (38, 46, ST 347), (48, 59, ST 347), (61, 61, ST 347),
       (65, 90, ST 347), (93, 93, ST 236), (95, 95, ST 347), (97, 122, ST 347), (126, 126, ST 347),
       (606, 606, ST 347), (635, 635, ST 347), (637, 637, ST 347)]]"

definition http11_items :: "http_action item list" where
  "http11_items = http11_items_1 @ http11_items_2 @ http11_items_3 @ http11_items_4 @ http11_items_5 @
     http11_items_6 @ http11_items_7 @ http11_items_8 @ http11_items_9 @ http11_items_10 @ http11_items_11 @
     http11_items_12 @ http11_items_13 @ http11_items_14 @ http11_items_15 @ http11_items_16 @
     http11_items_17 @ http11_items_18 @ http11_items_19 @ http11_items_20 @ http11_items_21 @
     http11_items_22 @ http11_items_23 @ http11_items_24 @ http11_items_25 @ http11_items_26 @
     http11_items_27 @ http11_items_28 @ http11_items_29 @ http11_items_30 @ http11_items_31 @
     http11_items_32 @ http11_items_33 @ http11_items_34 @ http11_items_35 @ http11_items_36 @
     http11_items_37 @ http11_items_38 @ http11_items_39 @ http11_items_40 @ http11_items_41 @
     http11_items_42 @ http11_items_43 @ http11_items_44"

lemmas http11_items_chunks = http11_items_1_def http11_items_2_def http11_items_3_def http11_items_4_def http11_items_5_def http11_items_6_def http11_items_7_def http11_items_8_def
  http11_items_9_def http11_items_10_def http11_items_11_def http11_items_12_def http11_items_13_def http11_items_14_def http11_items_15_def http11_items_16_def
  http11_items_17_def http11_items_18_def http11_items_19_def http11_items_20_def http11_items_21_def http11_items_22_def http11_items_23_def http11_items_24_def
  http11_items_25_def http11_items_26_def http11_items_27_def http11_items_28_def http11_items_29_def http11_items_30_def http11_items_31_def http11_items_32_def
  http11_items_33_def http11_items_34_def http11_items_35_def http11_items_36_def http11_items_37_def http11_items_38_def http11_items_39_def http11_items_40_def
  http11_items_41_def http11_items_42_def http11_items_43_def http11_items_44_def

section \<open>Its labels\<close>

text \<open>The states and transitions of each part; every jump leads to one of them.\<close>

lemma http11_states:
  "state_numbers http11_items_1 = [1, 2, 3]"
  "state_numbers http11_items_2 = [4, 5, 6, 7, 8, 9, 10, 11, 12, 13]"
  "state_numbers http11_items_3 = [14, 15, 16, 17]"
  "state_numbers http11_items_4 = [348, 18, 19]"
  "state_numbers http11_items_5 = [20, 21]"
  "state_numbers http11_items_6 = [22, 23, 24, 25, 26, 27, 28]"
  "state_numbers http11_items_7 = [29, 30, 31, 32]"
  "state_numbers http11_items_8 = [33, 34, 35]"
  "state_numbers http11_items_9 = [36, 37, 38, 39, 40]"
  "state_numbers http11_items_10 = [41, 42, 43, 44, 45]"
  "state_numbers http11_items_11 = [46, 47, 48, 49, 50, 51, 52, 53, 54, 55, 56]"
  "state_numbers http11_items_12 = [57, 58, 59, 60, 61, 62, 63, 64, 65, 66, 67, 68, 69, 70, 71, 72, 73]"
  "state_numbers http11_items_13 = [74, 75, 76, 77, 78, 79, 80, 81, 82, 83, 84]"
  "state_numbers http11_items_14 = [85, 86, 87, 88, 89, 90, 91, 92, 93]"
  "state_numbers http11_items_15 = [94, 95, 96, 97, 98, 99, 100, 101, 102, 103, 104]"
  "state_numbers http11_items_16 = [105, 106, 107, 108, 109, 110, 111, 112, 113, 114, 115]"
  "state_numbers http11_items_17 = [116, 117, 118, 119, 120, 121, 122, 123, 124, 125]"
  "state_numbers http11_items_18 = [126, 127, 128, 129, 130, 131, 132, 133]"
  "state_numbers http11_items_19 = [134, 135, 136, 137, 138, 139, 140, 141]"
  "state_numbers http11_items_20 = [142, 143, 144, 145, 146, 147, 148, 149]"
  "state_numbers http11_items_21 = [150, 151, 152, 153, 154, 155, 156, 157, 158]"
  "state_numbers http11_items_22 = [159, 160, 161, 162, 163, 164, 165, 166, 167, 168, 169]"
  "state_numbers http11_items_23 = [170, 171, 172]"
  "state_numbers http11_items_24 = [173, 174, 175, 176, 177]"
  "state_numbers http11_items_25 = [178, 179, 180, 181, 182, 183, 184, 185, 186, 187, 188, 189]"
  "state_numbers http11_items_26 = [190, 191, 192, 193, 194, 195, 196, 197]"
  "state_numbers http11_items_27 = [349, 198, 199, 200, 201]"
  "state_numbers http11_items_28 = [202, 203, 204, 205, 206, 207]"
  "state_numbers http11_items_29 = [208, 209, 210]"
  "state_numbers http11_items_30 = [211, 212, 213, 214, 215]"
  "state_numbers http11_items_31 = [216, 217, 218, 219, 220, 221]"
  "state_numbers http11_items_32 = [222, 223, 224, 225, 226, 227, 228, 229, 230, 231, 232]"
  "state_numbers http11_items_33 = [233, 234, 235, 236, 237, 238, 239, 240, 241, 242, 243, 244, 245, 246, 247, 248, 249]"
  "state_numbers http11_items_34 = [250, 251, 252, 253, 254, 255, 256, 257, 258, 259, 260]"
  "state_numbers http11_items_35 = [261, 262, 263, 264, 265, 266, 267, 268, 269, 270]"
  "state_numbers http11_items_36 = [271, 272, 273, 274, 275, 276, 277, 278, 279, 280, 281]"
  "state_numbers http11_items_37 = [282, 283, 284, 285, 286, 287, 288, 289, 290, 291, 292]"
  "state_numbers http11_items_38 = [293, 294, 295, 296, 297, 298, 299, 300, 301, 302]"
  "state_numbers http11_items_39 = [303, 304, 305, 306, 307, 308, 309, 310, 311]"
  "state_numbers http11_items_40 = [312, 313, 314, 315, 316, 317, 318, 319]"
  "state_numbers http11_items_41 = [320, 321, 322, 323, 324, 325, 326, 327]"
  "state_numbers http11_items_42 = [328, 329, 330, 331, 332, 333, 334, 335, 336]"
  "state_numbers http11_items_43 = [337, 338, 339, 340, 341, 342, 343, 344, 345]"
  "state_numbers http11_items_44 = [346, 347]"
  by (simp_all add: state_numbers_def http11_items_chunks)

lemma http11_trans:
  "trans_numbers http11_items_1 = [0, 4, 6, 37, 43, 46, 53]"
  "trans_numbers http11_items_2 = [57, 13, 21, 30, 33, 23]"
  "trans_numbers http11_items_3 = [27, 29, 28, 22, 31, 34, 24, 36]"
  "trans_numbers http11_items_4 = [25, 7, 8]"
  "trans_numbers http11_items_5 = [39, 55, 59, 44, 45]"
  "trans_numbers http11_items_6 = [9, 203, 204, 11]"
  "trans_numbers http11_items_7 = [42, 54, 56, 10]"
  "trans_numbers http11_items_8 = []"
  "trans_numbers http11_items_9 = []"
  "trans_numbers http11_items_10 = []"
  "trans_numbers http11_items_11 = []"
  "trans_numbers http11_items_12 = []"
  "trans_numbers http11_items_13 = []"
  "trans_numbers http11_items_14 = []"
  "trans_numbers http11_items_15 = []"
  "trans_numbers http11_items_16 = []"
  "trans_numbers http11_items_17 = []"
  "trans_numbers http11_items_18 = []"
  "trans_numbers http11_items_19 = []"
  "trans_numbers http11_items_20 = []"
  "trans_numbers http11_items_21 = []"
  "trans_numbers http11_items_22 = []"
  "trans_numbers http11_items_23 = [12]"
  "trans_numbers http11_items_24 = []"
  "trans_numbers http11_items_25 = []"
  "trans_numbers http11_items_26 = [2, 224, 227]"
  "trans_numbers http11_items_27 = [235, 3, 228, 232]"
  "trans_numbers http11_items_28 = []"
  "trans_numbers http11_items_29 = []"
  "trans_numbers http11_items_30 = []"
  "trans_numbers http11_items_31 = []"
  "trans_numbers http11_items_32 = []"
  "trans_numbers http11_items_33 = []"
  "trans_numbers http11_items_34 = []"
  "trans_numbers http11_items_35 = []"
  "trans_numbers http11_items_36 = []"
  "trans_numbers http11_items_37 = []"
  "trans_numbers http11_items_38 = []"
  "trans_numbers http11_items_39 = []"
  "trans_numbers http11_items_40 = []"
  "trans_numbers http11_items_41 = []"
  "trans_numbers http11_items_42 = []"
  "trans_numbers http11_items_43 = []"
  "trans_numbers http11_items_44 = []"
  by (simp_all add: trans_numbers_def http11_items_chunks)

lemma http11_jumps:
  fixes trs :: "nat list"
  defines "trs \<equiv> [0, 4, 6, 37, 43, 46, 53, 57, 13, 21, 30, 33, 23, 27, 29, 28, 22, 31, 34, 24, 36, 25, 7, 8, 39,
     55, 59, 44, 45, 9, 203, 204, 11, 42, 54, 56, 10, 12, 2, 224, 227, 235, 3, 228, 232]"
  shows
  "list_all (item_closed 349 trs) http11_items_1"
  "list_all (item_closed 349 trs) http11_items_2"
  "list_all (item_closed 349 trs) http11_items_3"
  "list_all (item_closed 349 trs) http11_items_4"
  "list_all (item_closed 349 trs) http11_items_5"
  "list_all (item_closed 349 trs) http11_items_6"
  "list_all (item_closed 349 trs) http11_items_7"
  "list_all (item_closed 349 trs) http11_items_8"
  "list_all (item_closed 349 trs) http11_items_9"
  "list_all (item_closed 349 trs) http11_items_10"
  "list_all (item_closed 349 trs) http11_items_11"
  "list_all (item_closed 349 trs) http11_items_12"
  "list_all (item_closed 349 trs) http11_items_13"
  "list_all (item_closed 349 trs) http11_items_14"
  "list_all (item_closed 349 trs) http11_items_15"
  "list_all (item_closed 349 trs) http11_items_16"
  "list_all (item_closed 349 trs) http11_items_17"
  "list_all (item_closed 349 trs) http11_items_18"
  "list_all (item_closed 349 trs) http11_items_19"
  "list_all (item_closed 349 trs) http11_items_20"
  "list_all (item_closed 349 trs) http11_items_21"
  "list_all (item_closed 349 trs) http11_items_22"
  "list_all (item_closed 349 trs) http11_items_23"
  "list_all (item_closed 349 trs) http11_items_24"
  "list_all (item_closed 349 trs) http11_items_25"
  "list_all (item_closed 349 trs) http11_items_26"
  "list_all (item_closed 349 trs) http11_items_27"
  "list_all (item_closed 349 trs) http11_items_28"
  "list_all (item_closed 349 trs) http11_items_29"
  "list_all (item_closed 349 trs) http11_items_30"
  "list_all (item_closed 349 trs) http11_items_31"
  "list_all (item_closed 349 trs) http11_items_32"
  "list_all (item_closed 349 trs) http11_items_33"
  "list_all (item_closed 349 trs) http11_items_34"
  "list_all (item_closed 349 trs) http11_items_35"
  "list_all (item_closed 349 trs) http11_items_36"
  "list_all (item_closed 349 trs) http11_items_37"
  "list_all (item_closed 349 trs) http11_items_38"
  "list_all (item_closed 349 trs) http11_items_39"
  "list_all (item_closed 349 trs) http11_items_40"
  "list_all (item_closed 349 trs) http11_items_41"
  "list_all (item_closed 349 trs) http11_items_42"
  "list_all (item_closed 349 trs) http11_items_43"
  "list_all (item_closed 349 trs) http11_items_44"
  by (simp_all add: item_closed_def trs_def http11_items_chunks)

lemma http11_sorted: "sort [1, 2, 3, 4, 5, 6, 7, 8, 9, 10, 11, 12, 13, 14, 15, 16, 17, 348, 18, 19, 20, 21, 22, 23, 24,
     25, 26, 27, 28, 29, 30, 31, 32, 33, 34, 35, 36, 37, 38, 39, 40, 41, 42, 43, 44, 45, 46, 47, 48, 49,
     50, 51, 52, 53, 54, 55, 56, 57, 58, 59, 60, 61, 62, 63, 64, 65, 66, 67, 68, 69, 70, 71, 72, 73, 74,
     75, 76, 77, 78, 79, 80, 81, 82, 83, 84, 85, 86, 87, 88, 89, 90, 91, 92, 93, 94, 95, 96, 97, 98, 99,
     100, 101, 102, 103, 104, 105, 106, 107, 108, 109, 110, 111, 112, 113, 114, 115, 116, 117, 118, 119, 120, 121, 122, 123, 124,
     125, 126, 127, 128, 129, 130, 131, 132, 133, 134, 135, 136, 137, 138, 139, 140, 141, 142, 143, 144, 145, 146, 147, 148, 149,
     150, 151, 152, 153, 154, 155, 156, 157, 158, 159, 160, 161, 162, 163, 164, 165, 166, 167, 168, 169, 170, 171, 172, 173, 174,
     175, 176, 177, 178, 179, 180, 181, 182, 183, 184, 185, 186, 187, 188, 189, 190, 191, 192, 193, 194, 195, 196, 197, 349, 198,
     199, 200, 201, 202, 203, 204, 205, 206, 207, 208, 209, 210, 211, 212, 213, 214, 215, 216, 217, 218, 219, 220, 221, 222, 223,
     224, 225, 226, 227, 228, 229, 230, 231, 232, 233, 234, 235, 236, 237, 238, 239, 240, 241, 242, 243, 244, 245, 246, 247, 248,
     249, 250, 251, 252, 253, 254, 255, 256, 257, 258, 259, 260, 261, 262, 263, 264, 265, 266, 267, 268, 269, 270, 271, 272, 273,
     274, 275, 276, 277, 278, 279, 280, 281, 282, 283, 284, 285, 286, 287, 288, 289, 290, 291, 292, 293, 294, 295, 296, 297, 298,
     299, 300, 301, 302, 303, 304, 305, 306, 307, 308, 309, 310, 311, 312, 313, 314, 315, 316, 317, 318, 319, 320, 321, 322, 323,
     324, 325, 326, 327, 328, 329, 330, 331, 332, 333, 334, 335, 336, 337, 338, 339, 340, 341, 342, 343, 344, 345, 346, 347 :: nat] = 1 # [2..<350]"
  by simp

lemma http11_closed: "machine_closed 349 http11_items"
  unfolding machine_closed_def
proof
  have "state_numbers http11_items = [1, 2, 3, 4, 5, 6, 7, 8, 9, 10, 11, 12, 13, 14, 15, 16, 17, 348, 18, 19, 20, 21, 22, 23, 24,
     25, 26, 27, 28, 29, 30, 31, 32, 33, 34, 35, 36, 37, 38, 39, 40, 41, 42, 43, 44, 45, 46, 47, 48, 49,
     50, 51, 52, 53, 54, 55, 56, 57, 58, 59, 60, 61, 62, 63, 64, 65, 66, 67, 68, 69, 70, 71, 72, 73, 74,
     75, 76, 77, 78, 79, 80, 81, 82, 83, 84, 85, 86, 87, 88, 89, 90, 91, 92, 93, 94, 95, 96, 97, 98, 99,
     100, 101, 102, 103, 104, 105, 106, 107, 108, 109, 110, 111, 112, 113, 114, 115, 116, 117, 118, 119, 120, 121, 122, 123, 124,
     125, 126, 127, 128, 129, 130, 131, 132, 133, 134, 135, 136, 137, 138, 139, 140, 141, 142, 143, 144, 145, 146, 147, 148, 149,
     150, 151, 152, 153, 154, 155, 156, 157, 158, 159, 160, 161, 162, 163, 164, 165, 166, 167, 168, 169, 170, 171, 172, 173, 174,
     175, 176, 177, 178, 179, 180, 181, 182, 183, 184, 185, 186, 187, 188, 189, 190, 191, 192, 193, 194, 195, 196, 197, 349, 198,
     199, 200, 201, 202, 203, 204, 205, 206, 207, 208, 209, 210, 211, 212, 213, 214, 215, 216, 217, 218, 219, 220, 221, 222, 223,
     224, 225, 226, 227, 228, 229, 230, 231, 232, 233, 234, 235, 236, 237, 238, 239, 240, 241, 242, 243, 244, 245, 246, 247, 248,
     249, 250, 251, 252, 253, 254, 255, 256, 257, 258, 259, 260, 261, 262, 263, 264, 265, 266, 267, 268, 269, 270, 271, 272, 273,
     274, 275, 276, 277, 278, 279, 280, 281, 282, 283, 284, 285, 286, 287, 288, 289, 290, 291, 292, 293, 294, 295, 296, 297, 298,
     299, 300, 301, 302, 303, 304, 305, 306, 307, 308, 309, 310, 311, 312, 313, 314, 315, 316, 317, 318, 319, 320, 321, 322, 323,
     324, 325, 326, 327, 328, 329, 330, 331, 332, 333, 334, 335, 336, 337, 338, 339, 340, 341, 342, 343, 344, 345, 346, 347]"
    by (simp add: http11_items_def http11_states)
  then show "sort (state_numbers http11_items) = [1..<Suc 349]"
    unfolding upt_conv_Cons [of 1 "Suc 349", simplified] by (simp only: http11_sorted) (simp add: upt_conv_Cons)
next
  have "trans_numbers http11_items = [0, 4, 6, 37, 43, 46, 53, 57, 13, 21, 30, 33, 23, 27, 29, 28, 22, 31, 34, 24, 36, 25, 7, 8, 39,
     55, 59, 44, 45, 9, 203, 204, 11, 42, 54, 56, 10, 12, 2, 224, 227, 235, 3, 228, 232]"
    by (simp add: http11_items_def http11_trans)
  then show "list_all (item_closed 349 (trans_numbers http11_items)) http11_items"
    by (simp only:) (simp add: http11_items_def http11_jumps)
qed

lemmas http11_lookup = http11_items_def machine_lookup http11_states http11_trans

definition http_parser_start :: nat where "http_parser_start = 1"
definition http_parser_first_final :: nat where "http_parser_first_final = 348"
definition http_parser_error :: nat where "http_parser_error = 0"

text \<open>Only the action \<^verbatim>\<open>done\<close> breaks: \<^verbatim>\<open>{p++; cs = N; goto _out;}\<close>.\<close>

definition http_brk :: "http_action \<Rightarrow> bool" where
  "http_brk a = (a = A_done)"

interpretation http11_machine: ragel_machine http11_items 349 http_brk 348
  by unfold_locales (rule http11_closed, simp add: final_states_def breaks_def http_brk_def http11_items_def http11_items_chunks)

end
