(* ===== verification/Http_Parser.thy ===== *)
theory Http_Parser
  imports Http Http11_Machine
begin

text \<open>
  The request parser: \<^verbatim>\<open>http_parser_init\<close>, \<^verbatim>\<open>http_parser_execute\<close> and their kin
  (\<^verbatim>\<open>linko/http/http11_parser.rl.cc\<close>) over the generated machine, and \<^verbatim>\<open>HttpRequestParser\<close> with its
  callbacks (\<^verbatim>\<open>linko/http/http_parser.cc\<close>).  The callbacks do not touch the machine's own record, so an
  execution gives the list of the calls it makes, with offsets into the buffer, and the parser class
  runs them in order.  \<^verbatim>\<open>boost::lexical_cast\<close> is an argument.
\<close>

section \<open>The parser record\<close>

text \<open>\<open>uri_relaxed\<close> and \<open>query_start\<close> are not set by \<^verbatim>\<open>http_parser_init\<close>; they keep the value the memory had.\<close>

record http_parser =
  parser_cs :: nat
  body_start :: nat
  content_len :: int
  nread :: nat
  mark :: nat
  field_start :: nat
  field_len :: nat
  query_start :: nat
  xml_sent :: bool
  json_sent :: bool
  uri_relaxed :: bool

definition http_parser_init :: "http_parser \<Rightarrow> http_parser" where
  "http_parser_init ps = ps\<lparr>parser_cs := http_parser_start, body_start := 0, content_len := 0, mark := 0, nread := 0,
     field_len := 0, field_start := 0, xml_sent := False, json_sent := False\<rparr>"

text \<open>A call of an \<^verbatim>\<open>element_cb\<close> with offset and length, or of a \<^verbatim>\<open>field_cb\<close> with two offsets and lengths.\<close>

datatype http_element = Request_method | Request_uri | Fragment | Request_path | Query_string | Http_version | Header_done

datatype http_event = Element http_element nat nat | Field nat nat nat nat

text \<open>Narrowing to \<^verbatim>\<open>int\<close>.\<close>

definition to_int32 :: "nat \<Rightarrow> int" where
  "to_int32 n = sint (of_nat n :: u32)"

text \<open>The actions at the pointer \<open>p\<close>, an offset in a buffer of \<open>len\<close> bytes; \<^verbatim>\<open>LEN(AT, p)\<close> is a \<^verbatim>\<open>size_t\<close>.\<close>

fun http_exec :: "nat \<Rightarrow> http_action \<Rightarrow> nat \<Rightarrow> http_parser \<times> http_event list \<Rightarrow> http_parser \<times> http_event list" where
  "http_exec len A_mark p (ps, evs) = (ps\<lparr>mark := p\<rparr>, evs)"
| "http_exec len A_start_field p (ps, evs) = (ps\<lparr>field_start := p\<rparr>, evs)"
| "http_exec len A_write_field p (ps, evs) = (ps\<lparr>field_len := usub64 p (field_start ps)\<rparr>, evs)"
| "http_exec len A_write_value p (ps, evs) =
     (ps, evs @ [Field (field_start ps) (field_len ps) (mark ps) (usub64 p (mark ps))])"
| "http_exec len A_request_method p (ps, evs) = (ps, evs @ [Element Request_method (mark ps) (usub64 p (mark ps))])"
| "http_exec len A_request_uri p (ps, evs) = (ps, evs @ [Element Request_uri (mark ps) (usub64 p (mark ps))])"
| "http_exec len A_fragment p (ps, evs) = (ps, evs @ [Element Fragment (mark ps) (usub64 p (mark ps))])"
| "http_exec len A_start_query p (ps, evs) = (ps\<lparr>query_start := p\<rparr>, evs)"
| "http_exec len A_query_string p (ps, evs) =
     (ps, evs @ [Element Query_string (query_start ps) (usub64 p (query_start ps))])"
| "http_exec len A_http_version p (ps, evs) = (ps, evs @ [Element Http_version (mark ps) (usub64 p (mark ps))])"
| "http_exec len A_request_path p (ps, evs) = (ps, evs @ [Element Request_path (mark ps) (usub64 p (mark ps))])"
| "http_exec len A_done p (ps, evs) =
     (if xml_sent ps \<or> json_sent ps
      then (ps\<lparr>body_start := mark ps, content_len := to_int32 (usub64 p (mark ps) + 1)\<rparr>, evs)
      else (ps\<lparr>body_start := p + 1\<rparr>, evs @ [Element Header_done (p + 1) (usub64 len (p + 1))]))"
| "http_exec len A_xml p (ps, evs) = (ps\<lparr>xml_sent := True\<rparr>, evs)"
| "http_exec len A_json p (ps, evs) = (ps\<lparr>json_sent := True\<rparr>, evs)"

definition http_parser_has_error :: "http_parser \<Rightarrow> bool" where
  "http_parser_has_error ps \<longleftrightarrow> parser_cs ps = http_parser_error"

definition http_parser_is_finished :: "http_parser \<Rightarrow> bool" where
  "http_parser_is_finished ps \<longleftrightarrow> http_parser_first_final \<le> parser_cs ps"

definition http_parser_finish :: "http_parser \<Rightarrow> int" where
  "http_parser_finish ps = (if http_parser_has_error ps then - 1 else if http_parser_is_finished ps then 1 else 0)"

text \<open>\<open>(offset, parser, calls)\<close>, or a failed assertion.  Without input nothing happens.\<close>

definition http_parser_execute ::
  "http_parser \<Rightarrow> string \<Rightarrow> nat \<Rightarrow> nat \<Rightarrow> cpp_error + nat \<times> http_parser \<times> http_event list" where
  "http_parser_execute ps buffer len off =
     (if len = 0 then Inr (0, ps, [])
      else let ps = ps\<lparr>nread := 0, mark := 0, field_len := len, field_start := 0\<rparr>
      in if \<not> off \<le> len \<or> int len - int off \<noteq> to_int32 len - to_int32 off then Inl Assertion
      else let (cs', p, ps', evs) = run http11_items (uri_relaxed ps) http_brk (http_exec len) off
               (take (len - off) (drop off buffer)) (parser_cs ps) (ps, []);
               ps'' = (if http_parser_has_error ps' then ps' else ps'\<lparr>parser_cs := cs'\<rparr>);
               ps''' = ps''\<lparr>nread := nread ps'' + (p - off)\<rparr>
      in if nread ps''' \<le> len \<and> body_start ps''' \<le> len \<and> mark ps''' < len \<and> field_len ps''' \<le> len \<and> field_start ps''' < len
         then Inr (nread ps''', ps''', evs) else Inl Assertion)"

section \<open>HttpRequestParser\<close>

record HttpRequestParser =
  rp_parser :: http_parser
  rp_data :: HttpRequest
  rp_error :: int

text \<open>\<open>memory\<close> is what the parser's own record held before its construction.\<close>

definition new_HttpRequestParser :: "http_parser \<Rightarrow> HttpRequestParser" where
  "new_HttpRequestParser memory =
     \<lparr>rp_parser = http_parser_init memory, rp_data = new_HttpRequest 0x11 True, rp_error = 0\<rparr>"

text \<open>\<^verbatim>\<open>std::string(at, length)\<close> for a pointer into a block: reading past the block is undefined.\<close>

definition block_string :: "string \<Rightarrow> nat \<Rightarrow> nat \<Rightarrow> cpp_error + string" where
  "block_string block at len = (if at + len \<le> length block then Inr (take len (drop at block)) else Inl Undefined)"

definition with_string ::
  "string \<Rightarrow> nat \<Rightarrow> nat \<Rightarrow> (string \<Rightarrow> HttpRequest \<Rightarrow> HttpRequest) \<Rightarrow> HttpRequestParser \<Rightarrow> cpp_error + HttpRequestParser" where
  "with_string block at len f rp =
     (case block_string block at len of Inl e \<Rightarrow> Inl e | Inr s \<Rightarrow> Inr (rp\<lparr>rp_data := f s (rp_data rp)\<rparr>))"

definition on_request_method :: "string \<Rightarrow> nat \<Rightarrow> nat \<Rightarrow> HttpRequestParser \<Rightarrow> cpp_error + HttpRequestParser" where
  "on_request_method block at len rp =
     (let m = CharsToHttpMethod (drop at block)
      in if m = INVALID_METHOD
         then (case block_string block at len of Inl e \<Rightarrow> Inl e | Inr _ \<Rightarrow> Inr (rp\<lparr>rp_error := 1000\<rparr>))
         else Inr (rp\<lparr>rp_data := setMethod m (rp_data rp)\<rparr>))"

definition on_request_fragment :: "string \<Rightarrow> nat \<Rightarrow> nat \<Rightarrow> HttpRequestParser \<Rightarrow> cpp_error + HttpRequestParser" where
  "on_request_fragment block at len = with_string block at len setFragment"

definition on_request_path :: "string \<Rightarrow> nat \<Rightarrow> nat \<Rightarrow> HttpRequestParser \<Rightarrow> cpp_error + HttpRequestParser" where
  "on_request_path block at len = with_string block at len setPath"

definition on_request_query :: "string \<Rightarrow> nat \<Rightarrow> nat \<Rightarrow> HttpRequestParser \<Rightarrow> cpp_error + HttpRequestParser" where
  "on_request_query block at len = with_string block at len setQuery"

definition version_of :: "string \<Rightarrow> nat \<Rightarrow> byte option" where
  "version_of at len = (if strn_eq at ''HTTP/1.1'' len then Some 0x11
     else if strn_eq at ''HTTP/1.0'' len then Some 0x10 else None)"

definition on_request_version :: "string \<Rightarrow> nat \<Rightarrow> nat \<Rightarrow> HttpRequestParser \<Rightarrow> cpp_error + HttpRequestParser" where
  "on_request_version block at len rp =
     (case version_of (drop at block) len of
        Some v \<Rightarrow> Inr (rp\<lparr>rp_data := setVersion v (rp_data rp)\<rparr>)
      | None \<Rightarrow> (case block_string block at len of Inl e \<Rightarrow> Inl e | Inr _ \<Rightarrow> Inr (rp\<lparr>rp_error := 1001\<rparr>)))"

definition on_request_http_field ::
  "string \<Rightarrow> nat \<Rightarrow> nat \<Rightarrow> nat \<Rightarrow> nat \<Rightarrow> HttpRequestParser \<Rightarrow> cpp_error + HttpRequestParser" where
  "on_request_http_field block field flen val vlen rp =
     (if flen = 0 then Inr (rp\<lparr>rp_error := 1002\<rparr>)
      else case block_string block field flen of Inl e \<Rightarrow> Inl e
        | Inr name \<Rightarrow> with_string block val vlen (setHeader name) rp)"

text \<open>\<^verbatim>\<open>on_request_uri\<close> and \<^verbatim>\<open>on_request_header_done\<close> are empty.\<close>

fun on_request :: "string \<Rightarrow> http_event \<Rightarrow> HttpRequestParser \<Rightarrow> cpp_error + HttpRequestParser" where
  "on_request block (Element Request_method at len) rp = on_request_method block at len rp"
| "on_request block (Element Request_uri at len) rp = Inr rp"
| "on_request block (Element Fragment at len) rp = on_request_fragment block at len rp"
| "on_request block (Element Request_path at len) rp = on_request_path block at len rp"
| "on_request block (Element Query_string at len) rp = on_request_query block at len rp"
| "on_request block (Element Http_version at len) rp = on_request_version block at len rp"
| "on_request block (Element Header_done at len) rp = Inr rp"
| "on_request block (Field field flen val vlen) rp = on_request_http_field block field flen val vlen rp"

fun on_requests :: "string \<Rightarrow> http_event list \<Rightarrow> HttpRequestParser \<Rightarrow> cpp_error + HttpRequestParser" where
  "on_requests block [] rp = Inr rp"
| "on_requests block (e # es) rp = (case on_request block e rp of Inl er \<Rightarrow> Inl er | Inr rp' \<Rightarrow> on_requests block es rp')"

text \<open>The bytes parsed are removed from the front of the block by \<^verbatim>\<open>memmove\<close>.\<close>

definition request_execute ::
  "string \<Rightarrow> nat \<Rightarrow> HttpRequestParser \<Rightarrow> cpp_error + nat \<times> string \<times> HttpRequestParser" where
  "request_execute data len rp =
     (case http_parser_execute (rp_parser rp) data len 0 of Inl e \<Rightarrow> Inl e
      | Inr (offset, ps, evs) \<Rightarrow>
          (case on_requests data evs (rp\<lparr>rp_parser := ps\<rparr>) of Inl e \<Rightarrow> Inl e
           | Inr rp' \<Rightarrow> Inr (offset, overwrite data 0 (take (len - offset) (drop offset data)), rp')))"

definition request_isFinished :: "HttpRequestParser \<Rightarrow> int" where
  "request_isFinished rp = http_parser_finish (rp_parser rp)"

definition request_hasError :: "HttpRequestParser \<Rightarrow> bool" where
  "request_hasError rp \<longleftrightarrow> rp_error rp \<noteq> 0 \<or> http_parser_has_error (rp_parser rp)"

definition request_getContentLength :: "(string \<Rightarrow> u64 option) \<Rightarrow> HttpRequestParser \<Rightarrow> u64" where
  "request_getContentLength lexical_cast rp = getAs lexical_cast (rq_headers (rp_data rp)) ''content-length'' 0"

section \<open>Buffer sizes\<close>

text \<open>The four configured sizes; the getters of the response parser return the sizes of the request parser.\<close>

record http_sizes =
  s_http_request_buffer_size :: u64
  s_http_request_max_body_size :: u64
  s_http_response_buffer_size :: u64
  s_http_response_max_body_size :: u64

definition RequestSizeIniter :: "u64 \<Rightarrow> u64 \<Rightarrow> u64 \<Rightarrow> u64 \<Rightarrow> http_sizes" where
  "RequestSizeIniter a b c d = \<lparr>s_http_request_buffer_size = a, s_http_request_max_body_size = b,
     s_http_response_buffer_size = c, s_http_response_max_body_size = d\<rparr>"

definition GetHttpRequestBufferSize :: "http_sizes \<Rightarrow> u64" where
  "GetHttpRequestBufferSize s = s_http_request_buffer_size s"
definition GetHttpRequestMaxBodySize :: "http_sizes \<Rightarrow> u64" where
  "GetHttpRequestMaxBodySize s = s_http_request_max_body_size s"
definition GetHttpResponseBufferSize :: "http_sizes \<Rightarrow> u64" where
  "GetHttpResponseBufferSize s = s_http_request_buffer_size s"
definition GetHttpResponseMaxBodySize :: "http_sizes \<Rightarrow> u64" where
  "GetHttpResponseMaxBodySize s = s_http_request_max_body_size s"

end
