(* ===== verification/Url_Text.thy ===== *)
theory Url_Text
  imports Ragel
begin

text \<open>
  What the generated parsers have in common: the classes of characters of URLs and headers as ranges of
  \<^verbatim>\<open>char\<close>, and runs over texts of characters and percent encodings.
\<close>

section \<open>Characters\<close>

definition alnum :: "char \<Rightarrow> bool" where
  "alnum c \<longleftrightarrow> 48 \<le> schar c \<and> schar c \<le> 57 \<or> 65 \<le> schar c \<and> schar c \<le> 90 \<or> 97 \<le> schar c \<and> schar c \<le> 122"

definition method_char :: "char \<Rightarrow> bool" where
  "method_char c \<longleftrightarrow> 48 \<le> schar c \<and> schar c \<le> 57 \<or> 65 \<le> schar c \<and> schar c \<le> 90"

definition xdigit :: "char \<Rightarrow> bool" where
  "xdigit c \<longleftrightarrow> 48 \<le> schar c \<and> schar c \<le> 57 \<or> 65 \<le> schar c \<and> schar c \<le> 70 \<or> 97 \<le> schar c \<and> schar c \<le> 102"

text \<open>Characters that stand for themselves in a path segment, and those of a query or a fragment.\<close>

definition segment_char :: "char \<Rightarrow> bool" where
  "segment_char c \<longleftrightarrow> alnum c \<or> c \<in> set ''-._~!$&()*+,;=:@'' \<or> c = CHR 0x27"

definition path_char :: "char \<Rightarrow> bool" where "path_char c \<longleftrightarrow> segment_char c \<or> c = CHR ''/''"
definition query_char :: "char \<Rightarrow> bool" where "query_char c \<longleftrightarrow> path_char c \<or> c = CHR ''?''"

text \<open>Header names and values that the printed form keeps: no separators, no line breaks.\<close>

definition name_char :: "char \<Rightarrow> bool" where
  "name_char c \<longleftrightarrow> alnum c \<or> c \<in> set ''!#$%&*+-.^_`|~'' \<or> c = CHR 0x27"

definition value_char :: "char \<Rightarrow> bool" where
  "value_char c \<longleftrightarrow> c \<notin> {NUL, CHR 0x0A, CHR 0x0D, CHR 0x7F}"

lemma schar_segment:
  assumes "segment_char c"
  shows "schar c = 33 \<or> schar c = 36 \<or> 38 \<le> schar c \<and> schar c \<le> 46 \<or> 48 \<le> schar c \<and> schar c \<le> 59 \<or> schar c = 61 \<or>
    64 \<le> schar c \<and> schar c \<le> 90 \<or> schar c = 95 \<or> 97 \<le> schar c \<and> schar c \<le> 122 \<or> schar c = 126"
  using assms unfolding segment_char_def alnum_def
  by (elim disjE conjE) (simp_all, elim disjE, simp_all add: schar_def)

lemma schar_name:
  assumes "name_char c"
  shows "schar c = 33 \<or> 35 \<le> schar c \<and> schar c \<le> 39 \<or> 42 \<le> schar c \<and> schar c \<le> 43 \<or> 45 \<le> schar c \<and> schar c \<le> 46 \<or>
    48 \<le> schar c \<and> schar c \<le> 57 \<or> 65 \<le> schar c \<and> schar c \<le> 90 \<or> 94 \<le> schar c \<and> schar c \<le> 122 \<or> schar c = 124 \<or> schar c = 126"
  using assms unfolding name_char_def alnum_def
  by (elim disjE conjE) (simp_all, elim disjE, simp_all add: schar_def)

lemma of_char_int: "(of_char c :: int) = int (of_char c)"
  by (simp add: of_nat_of_char)

lemma schar_nat: "\<exists>n. of_char c = n \<and> n \<le> 255 \<and> schar c = (if n < 128 then int n else int n - 256)"
proof -
  have "of_char c \<le> (255 :: nat)" using nat_of_char_less_256 [of c] by linarith
  then show ?thesis by (simp add: schar_def Let_def of_char_int)
qed

lemma schar_inj: "schar c = schar d \<longleftrightarrow> c = d"
proof
  assume eq: "schar c = schar d"
  obtain n m where "of_char c = n" "n \<le> 255" "schar c = (if n < 128 then int n else int n - 256)"
    and "of_char d = m" "m \<le> 255" "schar d = (if m < 128 then int m else int m - 256)"
    using schar_nat by metis
  then have "of_char c = (of_char d :: nat)" using eq by (auto split: if_splits)
  then show "c = d" by simp
qed simp

lemma schar_range: "- 128 \<le> schar c \<and> schar c \<le> 127"
  using schar_nat [of c] by auto

lemma schar_value:
  assumes "value_char c"
  shows "- 128 \<le> schar c \<and> schar c \<le> - 1 \<or> 1 \<le> schar c \<and> schar c \<le> 9 \<or> 11 \<le> schar c \<and> schar c \<le> 12 \<or> 14 \<le> schar c \<and> schar c \<le> 126"
proof -
  have "schar c \<noteq> schar (CHR 0x00)" "schar c \<noteq> schar (CHR 0x0A)" "schar c \<noteq> schar (CHR 0x0D)" "schar c \<noteq> schar (CHR 0x7F)"
    using assms unfolding schar_inj by (simp_all add: value_char_def NUL_def)
  then have "schar c \<noteq> 0" "schar c \<noteq> 10" "schar c \<noteq> 13" "schar c \<noteq> 127" by (simp_all add: schar_def)
  then show ?thesis using schar_range [of c] by arith
qed

lemma schar_path:
  assumes "path_char c"
  shows "schar c = 33 \<or> schar c = 36 \<or> 38 \<le> schar c \<and> schar c \<le> 59 \<or> schar c = 61 \<or>
    64 \<le> schar c \<and> schar c \<le> 90 \<or> schar c = 95 \<or> 97 \<le> schar c \<and> schar c \<le> 122 \<or> schar c = 126"
  using assms unfolding path_char_def
proof
  assume "segment_char c"
  then show ?thesis using schar_segment [of c] by linarith
qed (simp add: schar_def)

lemma schar_query:
  assumes "query_char c"
  shows "schar c = 33 \<or> schar c = 36 \<or> 38 \<le> schar c \<and> schar c \<le> 59 \<or> schar c = 61 \<or>
    63 \<le> schar c \<and> schar c \<le> 90 \<or> schar c = 95 \<or> 97 \<le> schar c \<and> schar c \<le> 122 \<or> schar c = 126"
  using assms unfolding query_char_def
proof
  assume "path_char c"
  then show ?thesis using schar_path [of c] by linarith
qed (simp add: schar_def)

definition digit :: "char \<Rightarrow> bool" where "digit c \<longleftrightarrow> 48 \<le> schar c \<and> schar c \<le> 57"

lemma dec_digits: "c \<in> set (dec n) \<Longrightarrow> digit c"
proof -
  assume "c \<in> set (dec n)"
  then have "digit_val c < 10" unfolding dec_def by (rule digits_digit [rotated 2]) simp_all
  then have "48 \<le> (of_char c :: nat) \<and> (of_char c :: nat) \<le> 57" by (auto simp: digit_val_def Let_def split: if_splits)
  then show ?thesis by (simp add: digit_def schar_def Let_def of_char_int)
qed

section \<open>Texts\<close>

text \<open>A text of characters and percent encodings that a component of a URL may hold.\<close>

fun url_text :: "(char \<Rightarrow> bool) \<Rightarrow> string \<Rightarrow> bool" where
  "url_text ok [] \<longleftrightarrow> True"
| "url_text ok (c # a # b # cs) \<longleftrightarrow>
     (if c = CHR 0x25 then xdigit a \<and> xdigit b \<and> url_text ok cs else ok c \<and> url_text ok (a # b # cs))"
| "url_text ok (c # cs) \<longleftrightarrow> ok c \<and> c \<noteq> CHR 0x25 \<and> url_text ok cs"

text \<open>The machine moves within a set \<open>H\<close> of states, and over a percent encoding back into it.\<close>

lemma steps_url_class:
  assumes step: "\<And>s c. H s \<Longrightarrow> ok c \<Longrightarrow> fst (move items r s c) = [] \<and> H (snd (move items r s c))"
    and pct: "\<And>s. H s \<Longrightarrow> move items r s (CHR 0x25) = ([], t)"
    and hex: "\<And>c. xdigit c \<Longrightarrow> move items r t c = ([], u)" "\<And>c. xdigit c \<Longrightarrow> move items r u c = ([], s0)"
    and H: "H s0" "\<not> H 0" "t \<noteq> 0" "u \<noteq> 0"
  shows "url_text ok xs \<Longrightarrow> H s \<Longrightarrow> \<exists>s'. H s' \<and> steps items r brk ex p xs s x = Some (s', x)"
  using step
proof (induction ok xs arbitrary: p s rule: url_text.induct [case_names nil triple single pair])
  case (triple ok c a b cs)
  have nz: "H n \<Longrightarrow> n \<noteq> 0" for n using H by metis
  show ?case
  proof (cases "c = CHR 0x25")
    case True
    then show ?thesis using triple pct hex H nz by (simp add: breaks_def)
  next
    case False
    then have "ok c" using triple by simp
    then obtain n where "move items r s c = ([], n)" "H n" using triple by (metis prod.collapse)
    then show ?thesis using False triple nz by (simp add: breaks_def)
  qed
next
  case (single ok c)
  then obtain n where "move items r s c = ([], n)" "H n" by (metis prod.collapse url_text.simps(3))
  then show ?case using H by (cases "n = 0") (auto simp: breaks_def)
next
  case (pair ok c d)
  then have ok: "ok c" "ok d" by auto
  obtain n where n: "move items r s c = ([], n)" "H n" using pair ok by (metis prod.collapse)
  obtain m where "move items r n d = ([], m)" "H m" using pair(4) [OF n(2) ok(2)] by (metis prod.collapse)
  then show ?case using H n by (cases "n = 0"; cases "m = 0") (auto simp: breaks_def)
qed (auto intro: exI)

lemma steps_url:
  assumes "\<And>c. ok c \<Longrightarrow> move items r s c = ([], s)" "move items r s (CHR 0x25) = ([], t)"
    and "\<And>c. xdigit c \<Longrightarrow> move items r t c = ([], u)" "\<And>c. xdigit c \<Longrightarrow> move items r u c = ([], s)"
    and "s \<noteq> 0" "t \<noteq> 0" "u \<noteq> 0"
  shows "url_text ok xs \<Longrightarrow> steps items r brk ex p xs s x = Some (s, x)"
  using steps_url_class [of "\<lambda>n. n = s" ok items r t u s xs s brk ex p x] assms by auto

text \<open>The same from an entry state that runs \<open>acts\<close> at the first character.\<close>

lemma steps_url_entry:
  assumes "\<And>c. ok c \<Longrightarrow> move items r s c = ([], s)" "move items r s (CHR 0x25) = ([], t)"
    and "\<And>c. xdigit c \<Longrightarrow> move items r t c = ([], u)" "\<And>c. xdigit c \<Longrightarrow> move items r u c = ([], s)"
    and "s \<noteq> 0" "t \<noteq> 0" "u \<noteq> 0"
    and "hd xs \<noteq> CHR 0x25 \<Longrightarrow> ok (hd xs) \<Longrightarrow> move items r e (hd xs) = (acts, s)"
    and "move items r e (CHR 0x25) = (acts, t)" "\<not> breaks brk acts"
    and "xs \<noteq> []" "url_text ok xs"
  shows "steps items r brk ex p xs e x = Some (s, fold (\<lambda>a. ex a p) acts x)"
proof -
  have loop: "url_text ok ys \<Longrightarrow> steps items r brk ex q ys s y = Some (s, y)" for ys q y
    by (rule steps_url [where ok = ok and s = s and t = t and u = u]) (use assms in auto)
  obtain c cs where xs: "xs = c # cs" using \<open>xs \<noteq> []\<close> by (cases xs) auto
  show ?thesis
  proof (cases "c = CHR 0x25")
    case True
    then obtain a b cs' where cs: "cs = a # b # cs'" "xdigit a" "xdigit b" "url_text ok cs'"
      using \<open>url_text ok xs\<close> xs by (cases cs; cases "tl cs") auto
    then show ?thesis using assms True loop [OF cs(4)] by (simp add: xs breaks_def)
  next
    case False
    then have "ok c" "url_text ok cs"
      using \<open>url_text ok xs\<close> xs by (cases cs; cases "tl cs"; simp)+
    then show ?thesis using assms False loop [of cs] by (simp add: xs)
  qed
qed

end
