(* ===== verification/Http_Request_Moves.thy ===== *)
theory Http_Request_Moves
  imports Http_Parser Url_Text
begin

text \<open>
  The moves of the generated request machine on the way of a request with an absolute path: its
  blocks on that way, and where each class of characters leads from each state.
\<close>

section \<open>The blocks of the machine on the way of a request\<close>

text \<open>The states and transitions that a request with an absolute path meets, read off the machine.\<close>

lemma http11_rows:
  "find_state (Suc 0) http11_items = Some (False, [(48, 57, TR 0), (60, 60, TR 2), (64, 64, TR 3), (65, 90,
    TR 0)])"
  "find_state 2 http11_items = Some (False, [(32, 32, TR 4), (48, 57, ST 175), (65, 90, ST 175)])"
  "find_state 3 http11_items = Some (True, [(32, 32, TR 6), (33, 33, TR 7), (35, 35, TR 8), (36, 36, TR 7),
    (37, 37, TR 9), (38, 46, TR 7), (47, 47, TR 10), (48, 57, TR 7), (59, 59, TR 7), (61, 61, TR 7), (63, 63,
    TR 11), (64, 64, TR 7), (65, 90, TR 12), (95, 95, TR 7), (97, 122, TR 12), (126, 126, TR 7), (606, 606, TR
    7), (635, 635, TR 7), (637, 637, TR 7)])"
  "find_state 4 http11_items = Some (False, [(72, 72, TR 13)])"
  "find_state 5 http11_items = Some (False, [(84, 84, ST 6)])"
  "find_state 6 http11_items = Some (False, [(84, 84, ST 7)])"
  "find_state 7 http11_items = Some (False, [(80, 80, ST 8)])"
  "find_state 8 http11_items = Some (False, [(47, 47, ST 9)])"
  "find_state 9 http11_items = Some (False, [(49, 49, ST 10)])"
  "find_state 10 http11_items = Some (False, [(46, 46, ST 11)])"
  "find_state 11 http11_items = Some (False, [(48, 49, ST 12)])"
  "find_state 12 http11_items = Some (False, [(10, 10, TR 21), (13, 13, TR 22)])"
  "find_state 13 http11_items = Some (False, [(1, 8, TR 23), (10, 10, TR 24), (11, 12, TR 23), (13, 13, TR
    25), (14, 31, TR 23), (33, 33, TR 23), (35, 39, TR 23), (42, 43, TR 23), (45, 46, TR 23), (48, 57, TR 23),
    (65, 90, TR 23), (94, 122, TR 23), (124, 124, TR 23), (126, 126, TR 23)])"
  "find_state 14 http11_items = Some (False, [(1, 8, ST 14), (10, 31, ST 14), (33, 33, ST 14), (35, 39, ST
    14), (42, 43, ST 14), (45, 46, ST 14), (48, 57, ST 14), (58, 58, TR 27), (65, 90, ST 14), (94, 122, ST 14),
    (124, 124, ST 14), (126, 126, ST 14)])"
  "find_state 15 http11_items = Some (False, [(- 128, - 1, TR 28), (1, 8, TR 28), (9, 9, TR 29), (10, 10,
    TR 30), (11, 12, TR 28), (13, 13, TR 31), (14, 31, TR 28), (32, 32, TR 29), (33, 126, TR 28)])"
  "find_state 16 http11_items = Some (False, [(- 128, - 1, ST 16), (1, 9, ST 16), (10, 10, TR 33), (11, 12,
    ST 16), (13, 13, TR 34), (14, 126, ST 16)])"
  "find_state 17 http11_items = Some (False, [(10, 10, ST 13)])"
  "find_state 18 http11_items = Some (False, [(1, 8, ST 14), (10, 10, TR 36), (11, 31, ST 14), (33, 33, ST
    14), (35, 39, ST 14), (42, 43, ST 14), (45, 46, ST 14), (48, 57, ST 14), (58, 58, TR 27), (65, 90, ST 14),
    (94, 122, ST 14), (124, 124, ST 14), (126, 126, ST 14)])"
  "find_state 20 http11_items = Some (True, [(32, 32, TR 43), (33, 33, TR 44), (36, 36, TR 44), (37, 37, TR
    45), (38, 59, TR 44), (61, 61, TR 44), (63, 90, TR 44), (95, 95, TR 44), (97, 122, TR 44), (126, 126, TR
    44), (606, 606, TR 44), (635, 635, TR 44), (637, 637, TR 44)])"
  "find_state 21 http11_items = Some (True, [(32, 32, TR 46), (33, 33, ST 21), (36, 36, ST 21), (37, 37, ST
    22), (38, 59, ST 21), (61, 61, ST 21), (63, 90, ST 21), (95, 95, ST 21), (97, 122, ST 21), (126, 126, ST
    21), (606, 606, ST 21), (635, 635, ST 21), (637, 637, ST 21)])"
  "find_state 22 http11_items = Some (False, [(48, 57, ST 23), (65, 70, ST 23), (97, 102, ST 23)])"
  "find_state 23 http11_items = Some (False, [(48, 57, ST 21), (65, 70, ST 21), (97, 102, ST 21)])"
  "find_state 26 http11_items = Some (True, [(32, 32, TR 37), (33, 33, ST 26), (35, 35, TR 39), (36, 36, ST
    26), (37, 37, ST 27), (38, 59, ST 26), (61, 61, ST 26), (63, 63, TR 42), (64, 90, ST 26), (95, 95, ST 26),
    (97, 122, ST 26), (126, 126, ST 26), (606, 606, ST 26), (635, 635, ST 26), (637, 637, ST 26)])"
  "find_state 27 http11_items = Some (False, [(48, 57, ST 28), (65, 70, ST 28), (97, 102, ST 28)])"
  "find_state 28 http11_items = Some (False, [(48, 57, ST 26), (65, 70, ST 26), (97, 102, ST 26)])"
  "find_state 29 http11_items = Some (True, [(32, 32, TR 53), (33, 33, TR 54), (35, 35, TR 55), (36, 36, TR
    54), (37, 37, TR 56), (38, 59, TR 54), (61, 61, TR 54), (63, 90, TR 54), (95, 95, TR 54), (97, 122, TR 54),
    (126, 126, TR 54), (606, 606, TR 54), (635, 635, TR 54), (637, 637, TR 54)])"
  "find_state 30 http11_items = Some (True, [(32, 32, TR 57), (33, 33, ST 30), (35, 35, TR 59), (36, 36, ST
    30), (37, 37, ST 31), (38, 59, ST 30), (61, 61, ST 30), (63, 90, ST 30), (95, 95, ST 30), (97, 122, ST 30),
    (126, 126, ST 30), (606, 606, ST 30), (635, 635, ST 30), (637, 637, ST 30)])"
  "find_state 31 http11_items = Some (False, [(48, 57, ST 32), (65, 70, ST 32), (97, 102, ST 32)])"
  "find_state 32 http11_items = Some (False, [(48, 57, ST 30), (65, 70, ST 30), (97, 102, ST 30)])"
  "find_state 33 http11_items = Some (True, [(32, 32, TR 37), (33, 33, ST 26), (35, 35, TR 39), (36, 36, ST
    26), (37, 37, ST 27), (38, 46, ST 26), (47, 47, ST 34), (48, 59, ST 26), (61, 61, ST 26), (63, 63, TR 42),
    (64, 90, ST 26), (95, 95, ST 26), (97, 122, ST 26), (126, 126, ST 26), (606, 606, ST 26), (635, 635, ST
    26), (637, 637, ST 26)])"
  "find_state 175 http11_items = Some (False, [(32, 32, TR 4), (48, 57, ST 176), (65, 90, ST 176)])"
  "find_state 176 http11_items = Some (False, [(32, 32, TR 4), (48, 57, ST 177), (65, 90, ST 177)])"
  "find_state 177 http11_items = Some (False, [(32, 32, TR 4), (48, 57, ST 178), (65, 90, ST 178)])"
  "find_state 178 http11_items = Some (False, [(32, 32, TR 4), (48, 57, ST 179), (65, 90, ST 179)])"
  "find_state 179 http11_items = Some (False, [(32, 32, TR 4), (48, 57, ST 180), (65, 90, ST 180)])"
  "find_state 180 http11_items = Some (False, [(32, 32, TR 4), (48, 57, ST 181), (65, 90, ST 181)])"
  "find_state 181 http11_items = Some (False, [(32, 32, TR 4), (48, 57, ST 182), (65, 90, ST 182)])"
  "find_state 182 http11_items = Some (False, [(32, 32, TR 4), (48, 57, ST 183), (65, 90, ST 183)])"
  "find_state 183 http11_items = Some (False, [(32, 32, TR 4), (48, 57, ST 184), (65, 90, ST 184)])"
  "find_state 184 http11_items = Some (False, [(32, 32, TR 4), (48, 57, ST 185), (65, 90, ST 185)])"
  "find_state 185 http11_items = Some (False, [(32, 32, TR 4), (48, 57, ST 186), (65, 90, ST 186)])"
  "find_state 186 http11_items = Some (False, [(32, 32, TR 4), (48, 57, ST 187), (65, 90, ST 187)])"
  "find_state 187 http11_items = Some (False, [(32, 32, TR 4), (48, 57, ST 188), (65, 90, ST 188)])"
  "find_state 188 http11_items = Some (False, [(32, 32, TR 4), (48, 57, ST 189), (65, 90, ST 189)])"
  "find_state 189 http11_items = Some (False, [(32, 32, TR 4), (48, 57, ST 190), (65, 90, ST 190)])"
  "find_state 190 http11_items = Some (False, [(32, 32, TR 4), (48, 57, ST 191), (65, 90, ST 191)])"
  "find_state 191 http11_items = Some (False, [(32, 32, TR 4), (48, 57, ST 192), (65, 90, ST 192)])"
  "find_state 192 http11_items = Some (False, [(32, 32, TR 4), (48, 57, ST 193), (65, 90, ST 193)])"
  by (simp_all add: http11_lookup, simp_all add: http11_items_chunks)

lemma http11_transitions:
  "find_trans 0 http11_items = Some ([A_mark], 2)"
  "find_trans 4 http11_items = Some ([A_request_method], 3)"
  "find_trans 10 http11_items = Some ([A_mark], 33)"
  "find_trans 13 http11_items = Some ([A_mark], 5)"
  "find_trans 22 http11_items = Some ([A_http_version], 17)"
  "find_trans 34 http11_items = Some ([A_write_value], 17)"
  "find_trans 31 http11_items = Some ([A_mark, A_write_value], 17)"
  "find_trans 23 http11_items = Some ([A_start_field], 14)"
  "find_trans 27 http11_items = Some ([A_write_field], 15)"
  "find_trans 28 http11_items = Some ([A_mark], 16)"
  "find_trans 25 http11_items = Some ([A_start_field], 18)"
  "find_trans 36 http11_items = Some ([A_done], 348)"
  "find_trans 37 http11_items = Some ([A_request_path, A_request_uri], 4)"
  "find_trans 39 http11_items = Some ([A_request_path, A_request_uri], 20)"
  "find_trans 42 http11_items = Some ([A_request_path], 29)"
  "find_trans 44 http11_items = Some ([A_mark], 21)"
  "find_trans 45 http11_items = Some ([A_mark], 22)"
  "find_trans 46 http11_items = Some ([A_fragment], 4)"
  "find_trans 54 http11_items = Some ([A_start_query], 30)"
  "find_trans 56 http11_items = Some ([A_start_query], 31)"
  "find_trans 57 http11_items = Some ([A_query_string, A_request_uri], 4)"
  "find_trans 59 http11_items = Some ([A_query_string, A_request_uri], 20)"
  by (simp_all add: http11_lookup, simp_all add: http11_items_chunks)

section \<open>Moves\<close>

lemmas http_move = move_def next_label_def follow_def http11_rows http11_transitions widec_def

lemma path_moves:
  assumes "path_char c"
  shows "move http11_items r 26 c = ([], 26)"
  using schar_path [OF assms] by (elim disjE) (simp_all add: http_move)

lemma segment_moves:
  assumes "segment_char c"
  shows "move http11_items r 33 c = ([], 26)"
  using schar_segment [OF assms] by (elim disjE) (simp_all add: http_move)

lemma query_moves:
  assumes "query_char c"
  shows "move http11_items r 30 c = ([], 30)" "move http11_items r 29 c = ([A_start_query], 30)"
    "move http11_items r 21 c = ([], 21)" "move http11_items r 20 c = ([A_mark], 21)"
  using schar_query [OF assms] by (elim disjE; simp add: http_move)+

lemma xdigit_moves:
  assumes "xdigit c"
  shows "move http11_items r 27 c = ([], 28)" "move http11_items r 28 c = ([], 26)"
    "move http11_items r 31 c = ([], 32)" "move http11_items r 32 c = ([], 30)"
    "move http11_items r 22 c = ([], 23)" "move http11_items r 23 c = ([], 21)"
  using assms unfolding xdigit_def by (elim disjE; simp add: http_move)+

lemma percent_moves:
  "move http11_items r 26 (CHR 0x25) = ([], 27)" "move http11_items r 33 (CHR 0x25) = ([], 27)"
  "move http11_items r 30 (CHR 0x25) = ([], 31)" "move http11_items r 29 (CHR 0x25) = ([A_start_query], 31)"
  "move http11_items r 21 (CHR 0x25) = ([], 22)" "move http11_items r 20 (CHR 0x25) = ([A_mark], 22)"
  by (simp_all add: http_move schar_def)

lemma name_moves:
  assumes "name_char c"
  shows "move http11_items r 13 c = ([A_start_field], 14)" "move http11_items r 14 c = ([], 14)"
  using schar_name [OF assms] by (elim disjE; simp add: http_move)+

lemma value_moves:
  assumes "value_char c"
  shows "move http11_items r 16 c = ([], 16)" "c \<notin> {CHR '' '', CHR 0x09} \<Longrightarrow> move http11_items r 15 c = ([A_mark], 16)"
proof -
  show "move http11_items r 16 c = ([], 16)"
    using schar_value [OF assms] by (elim disjE; simp add: http_move)
  assume "c \<notin> {CHR '' '', CHR 0x09}"
  then have "schar c \<noteq> schar (CHR '' '')" "schar c \<noteq> schar (CHR 0x09)" by (simp_all add: schar_inj)
  then have "schar c \<noteq> 32" "schar c \<noteq> 9" by (simp_all add: schar_def)
  then show "move http11_items r 15 c = ([A_mark], 16)"
    using schar_value [OF assms] by (elim disjE; simp add: http_move; linarith?)
qed

text \<open>The fixed characters of the head.\<close>

lemma fixed_moves:
  "move http11_items r 3 (CHR ''/'') = ([A_mark], 33)"
  "s \<in> {26, 33} \<Longrightarrow> move http11_items r s (CHR '' '') = ([A_request_path, A_request_uri], 4)"
  "s \<in> {26, 33} \<Longrightarrow> move http11_items r s (CHR ''?'') = ([A_request_path], 29)"
  "s \<in> {26, 33} \<Longrightarrow> move http11_items r s (CHR ''#'') = ([A_request_path, A_request_uri], 20)"
  "move http11_items r 30 (CHR '' '') = ([A_query_string, A_request_uri], 4)"
  "move http11_items r 30 (CHR ''#'') = ([A_query_string, A_request_uri], 20)"
  "move http11_items r 21 (CHR '' '') = ([A_fragment], 4)"
  "move http11_items r 4 (CHR ''H'') = ([A_mark], 5)" "move http11_items r 5 (CHR ''T'') = ([], 6)"
  "move http11_items r 6 (CHR ''T'') = ([], 7)" "move http11_items r 7 (CHR ''P'') = ([], 8)"
  "move http11_items r 8 (CHR ''/'') = ([], 9)" "move http11_items r 9 (CHR ''1'') = ([], 10)"
  "move http11_items r 10 (CHR ''.'') = ([], 11)"
  "move http11_items r 11 (CHR ''0'') = ([], 12)" "move http11_items r 11 (CHR ''1'') = ([], 12)"
  "move http11_items r 12 (CHR 0x0D) = ([A_http_version], 17)" "move http11_items r 17 (CHR 0x0A) = ([], 13)"
  "move http11_items r 14 (CHR '':'') = ([A_write_field], 15)"
  "move http11_items r 15 (CHR 0x0D) = ([A_mark, A_write_value], 17)"
  "move http11_items r 16 (CHR 0x0D) = ([A_write_value], 17)"
  "move http11_items r 13 (CHR 0x0D) = ([A_start_field], 18)"
  "move http11_items r 18 (CHR 0x0A) = ([A_done], 348)"
  by (auto simp: http_move schar_def)

end
