(* ===== verification/Http_Correct.thy ===== *)
theory Http_Correct
  imports Http
begin

text \<open>
  The header maps are finite maps from lower case names, the method table and its lookups agree,
  and the texts of requests and responses in their parts.
\<close>

section \<open>Case insensitive order\<close>

lemma CaseInsensitiveLess_lower: "CaseInsensitiveLess l r \<longleftrightarrow> lower l < lower r"
  by (simp add: CaseInsensitiveLess_def lower_def strcasecmp_less)

text \<open>The comparator of the header maps is a strict weak order, so the container laws hold for them.\<close>

interpretation header_order: strict_weak_order CaseInsensitiveLess
  by unfold_locales (auto simp: CaseInsensitiveLess_lower)

lemma header_same [simp]: "header_order.same l r \<longleftrightarrow> lower l = lower r"
  by (auto simp: header_order.same_def CaseInsensitiveLess_lower)

text \<open>What a header map means: a value for each lower case name.\<close>

definition header_map :: "MapType \<Rightarrow> nat list \<Rightarrow> string option" where
  "header_map m = map_of (map (\<lambda>(k, v). (lower k, v)) m)"

lemma header_map_simps [simp]:
  "header_map [] = Map.empty" "header_map ((k, v) # m) = (header_map m)(lower k \<mapsto> v)"
  by (simp_all add: header_map_def)

lemma hfind_map: "hfind key m = header_map m (lower key)"
proof (induction m)
  case (Cons p m)
  then show ?case by (cases p) (auto simp: header_order.map_find_Cons simp del: map_find.simps(2))
qed simp

lemma lower_surj_find: "header_order.keys_sorted m \<Longrightarrow> x \<notin> range lower \<Longrightarrow> header_map m x = None"
  by (induction m) (auto simp: header_order.keys_sorted_Cons)

lemma header_map_assign:
  assumes "header_order.keys_sorted m"
  shows "header_map (hassign k v m) = (header_map m)(lower k \<mapsto> v)"
proof
  fix x
  show "header_map (hassign k v m) x = ((header_map m)(lower k \<mapsto> v)) x"
  proof (cases "x \<in> range lower")
    case True
    then obtain k' where "x = lower k'" by auto
    then show ?thesis using header_order.map_find_assign [OF assms, of k' k v] by (auto simp: hfind_map)
  next
    case False
    then show ?thesis using lower_surj_find assms header_order.keys_sorted_assign [OF assms] by auto
  qed
qed

lemma header_map_erase:
  assumes "header_order.keys_sorted m"
  shows "header_map (herase k m) = (header_map m)(lower k := None)"
proof
  fix x
  show "header_map (herase k m) x = ((header_map m)(lower k := None)) x"
  proof (cases "x \<in> range lower")
    case True
    then obtain k' where "x = lower k'" by auto
    then show ?thesis using header_order.map_find_erase [OF assms, of k' k] by (auto simp: hfind_map)
  next
    case False
    then show ?thesis using lower_surj_find assms header_order.keys_sorted_erase [OF assms] by auto
  qed
qed

lemma map_get_lower: "map_get m key def = (case header_map m (lower key) of None \<Rightarrow> def | Some v \<Rightarrow> v)"
  by (simp add: map_get_def hfind_map)

text \<open>The three maps of a request are always sorted.\<close>

definition request_ok :: "HttpRequest \<Rightarrow> bool" where
  "request_ok r \<longleftrightarrow> header_order.keys_sorted (rq_headers r) \<and> header_order.keys_sorted (rq_params r) \<and>
     header_order.keys_sorted (rq_cookies r)"

lemma request_ok_new [simp]: "request_ok (new_HttpRequest version close)"
  by (simp add: request_ok_def new_HttpRequest_def)

lemma request_ok_set:
  assumes "request_ok r"
  shows "request_ok (setHeader k v r)" "request_ok (setParam k v r)" "request_ok (setCookie k v r)"
    "request_ok (delHeader k r)" "request_ok (delParam k r)" "request_ok (delCookie k r)"
    "request_ok (setMethod m r)" "request_ok (setVersion ver r)" "request_ok (setPath s r)" "request_ok (setQuery s r)"
    "request_ok (setFragment s r)" "request_ok (setBody s r)" "request_ok (setClose b r)"
  using assms
  by (simp_all add: request_ok_def setHeader_def setParam_def setCookie_def delHeader_def delParam_def delCookie_def
      setMethod_def setVersion_def setPath_def setQuery_def setFragment_def setBody_def setClose_def
      header_order.keys_sorted_assign header_order.keys_sorted_erase)

section \<open>Methods\<close>

lemma method_string_roundtrip: "StringToHttpMethod (HttpMethodToString m) = m"
  by (cases m) (simp_all add: StringToHttpMethod_def HttpMethodToString_def HTTP_METHOD_MAP_def cstr_def NUL_def)

lemma StringToHttpMethod_sound:
  assumes "StringToHttpMethod s \<noteq> INVALID_METHOD"
  shows "HttpMethodToString (StringToHttpMethod s) = cstr s"
proof -
  have "first_method (\<lambda>text. text = t) es \<noteq> INVALID_METHOD \<Longrightarrow> (first_method (\<lambda>text. text = t) es, t) \<in> set es" for t es
    by (induction es) (auto split: if_splits)
  then have "(StringToHttpMethod s, cstr s) \<in> set HTTP_METHOD_MAP"
    using assms by (simp add: StringToHttpMethod_def)
  moreover have "distinct (map fst HTTP_METHOD_MAP)" by (simp add: HTTP_METHOD_MAP_def)
  ultimately show ?thesis by (simp add: HttpMethodToString_def)
qed

text \<open>A text that starts with a method's name is taken for that method, whatever follows.\<close>

lemma strn_eq_append: "NUL \<notin> set t \<Longrightarrow> strn_eq t (t @ rest) (length t)"
  by (induction t) auto

lemma CharsToHttpMethod_prefix:
  "m \<noteq> INVALID_METHOD \<Longrightarrow> CharsToHttpMethod (HttpMethodToString m @ rest) = m"
  by (cases m) (simp_all add: CharsToHttpMethod_def HttpMethodToString_def HTTP_METHOD_MAP_def NUL_def)

section \<open>Status texts\<close>

lemma HttpStatusToString_known: "(c, t) \<in> set HTTP_STATUS_MAP \<Longrightarrow> HttpStatusToString c = t"
proof -
  have "distinct (map fst HTTP_STATUS_MAP)" by (simp add: HTTP_STATUS_MAP_def)
  then show "(c, t) \<in> set HTTP_STATUS_MAP \<Longrightarrow> HttpStatusToString c = t" by (simp add: HttpStatusToString_def)
qed

end
