(* ===== verification/Http_Request_Parse.thy ===== *)
theory Http_Request_Parse
  imports Http_Request_Moves Http_Correct
begin

text \<open>
  The request parser reads what requests print: the request line, the headers and the end of the
  head, each as a run of the generated machine over a part of the text, composed to the run over a
  whole printed request and the calls it makes.
\<close>

section \<open>Tokens\<close>

abbreviation http_steps where "http_steps len r \<equiv> steps http11_items r http_brk (http_exec len)"

lemma not_breaking [simp]:
  "\<not> breaks http_brk []" "breaks http_brk (a # as) \<longleftrightarrow> a = A_done \<or> breaks http_brk as"
  by (auto simp: breaks_def http_brk_def)

lemma usub64_add [simp]: "usub64 (a + b) a = b" "usub64 (Suc (a + b)) a = Suc b" "usub64 (Suc (a + b)) (Suc a) = b"
  "usub64 (Suc (Suc (a + b))) (Suc a) = Suc b"
  by (simp_all add: usub64_def)

section \<open>The request line\<close>

definition method_state :: "nat \<Rightarrow> nat" where
  "method_state k = (if k = 0 then 1 else if k = 1 then 2 else 173 + k)"

lemma method_state_pos [simp]: "method_state k \<noteq> 0" "0 < method_state k"
  by (simp_all add: method_state_def)

lemma method_moves:
  assumes "method_char c" "k < 19"
  shows "move http11_items r (method_state k) c = (if k = 0 then [A_mark] else [], method_state (Suc k))"
proof -
  have "k \<in> {0, 1, 2, 3, 4, 5, 6, 7, 8, 9, 10, 11, 12, 13, 14, 15, 16, 17, 18}" using assms(2) by simp arith
  then show ?thesis using assms(1) unfolding method_char_def
    by (elim insertE emptyE disjE; simp add: method_state_def http_move)
qed

lemma method_space:
  assumes "0 < k" "k < 20"
  shows "move http11_items r (method_state k) (CHR '' '') = ([A_request_method], 3)"
proof -
  have "k \<in> {1, 2, 3, 4, 5, 6, 7, 8, 9, 10, 11, 12, 13, 14, 15, 16, 17, 18, 19}" using assms by simp presburger
  then show ?thesis
    by (elim insertE emptyE; simp add: method_state_def http_move schar_def)
qed

lemma steps_method_chars:
  "(\<And>c. c \<in> set m \<Longrightarrow> method_char c) \<Longrightarrow> length m + k < 20 \<Longrightarrow> 0 < k \<Longrightarrow>
     http_steps len r p m (method_state k) x = Some (method_state (k + length m), x)"
proof (induction m arbitrary: p k)
  case (Cons c m)
  then show ?case using method_moves [of c k r] by simp
qed simp

text \<open>The tokens of the request line, from state to state.\<close>

lemma steps_method:
  assumes "\<And>c. c \<in> set m \<Longrightarrow> method_char c" "m \<noteq> []" "length m < 20"
  shows "http_steps len r p (m @ '' '') 1 (ps, evs) =
    Some (3, ps\<lparr>mark := p\<rparr>, evs @ [Element Request_method p (length m)])"
proof -
  obtain c m' where m: "m = c # m'" using assms(2) by (cases m) auto
  have "http_steps len r (Suc p) m' (method_state 1) x = Some (method_state (length m), x)" for x :: "http_parser \<times> http_event list"
    using steps_method_chars [of m' 1 r len "Suc p" x] assms m by simp
  moreover have "move http11_items r 1 c = ([A_mark], method_state 1)"
    using method_moves [of c 0 r] assms m by (simp add: method_state_def)
  moreover have "move http11_items r (method_state (length m)) (CHR '' '') = ([A_request_method], 3)"
    using method_space assms m by simp
  ultimately show ?thesis
    by (simp add: m steps_append)
qed

text \<open>The target of a request: path, query and fragment, and the calls that deliver them.\<close>

definition path_ok :: "string \<Rightarrow> bool" where
  "path_ok path \<longleftrightarrow> path \<noteq> [] \<and> hd path = CHR ''/'' \<and> url_text path_char (tl path) \<and>
     (tl path \<noteq> [] \<longrightarrow> hd (tl path) \<noteq> CHR ''/'')"

definition target_text :: "string \<Rightarrow> string \<Rightarrow> string \<Rightarrow> string" where
  "target_text path query fragment = path @ (if query = [] then [] else ''?'' @ query)
     @ (if fragment = [] then [] else ''#'' @ fragment)"

definition target_events :: "nat \<Rightarrow> string \<Rightarrow> string \<Rightarrow> string \<Rightarrow> http_event list" where
  "target_events p path query fragment =
     (let q = p + length path + 1; uri = length path + (if query = [] then 0 else 1 + length query)
      in [Element Request_path p (length path)]
       @ (if query = [] then [] else [Element Query_string q (length query)])
       @ [Element Request_uri p uri]
       @ (if fragment = [] then [] else [Element Fragment (p + uri + 1) (length fragment)]))"

lemma steps_path:
  assumes "path_ok path"
  shows "http_steps len r p path 3 (ps, evs) = Some (if tl path = [] then 33 else 26, ps\<lparr>mark := p\<rparr>, evs)"
proof -
  obtain rest where path: "path = CHR ''/'' # rest" using assms by (cases path) (auto simp: path_ok_def)
  have "http_steps len r (Suc p) rest 33 x = Some (26, x)" if "rest \<noteq> []" for x
    using steps_url_entry [of path_char http11_items r 26 27 28 rest 33 "[]" http_brk "http_exec len" "Suc p" x]
      path_moves xdigit_moves percent_moves segment_moves assms that path
    by (simp add: path_ok_def path_char_def)
  then show ?thesis by (simp add: path fixed_moves)
qed

lemma steps_query:
  assumes "url_text query_char query" "query \<noteq> []"
  shows "http_steps len r p query 29 (ps, evs) = Some (30, ps\<lparr>query_start := p\<rparr>, evs)"
  using steps_url_entry [of query_char http11_items r 30 31 32 query 29 "[A_start_query]" http_brk "http_exec len" p "(ps, evs)"]
    query_moves xdigit_moves percent_moves assms
  by simp

lemma steps_fragment:
  assumes "url_text query_char fragment" "fragment \<noteq> []"
  shows "http_steps len r p fragment 20 (ps, evs) = Some (21, ps\<lparr>mark := p\<rparr>, evs)"
  using steps_url_entry [of query_char http11_items r 21 22 23 fragment 20 "[A_mark]" http_brk "http_exec len" p "(ps, evs)"]
    query_moves xdigit_moves percent_moves assms
  by simp

lemma query_start_same [simp]: "ps\<lparr>mark := m, query_start := query_start ps\<rparr> = ps\<lparr>mark := m\<rparr>"
  by (cases ps) simp

lemma steps_target:
  assumes "path_ok path" "url_text query_char query" "url_text query_char fragment"
  shows "http_steps len r p (target_text path query fragment @ '' '') 3 (ps, evs) =
     Some (4, ps\<lparr>mark := if fragment = [] then p else p + length (target_text path query []) + 1,
                 query_start := if query = [] then query_start ps else p + length path + 1\<rparr>,
           evs @ target_events p path query fragment)"
  using assms
  by (cases "query = []"; cases "fragment = []"; cases "tl path = []";
      simp add: target_text_def target_events_def Let_def steps_append steps_path steps_query steps_fragment fixed_moves)

lemma steps_version:
  assumes "v = 0x10 \<or> v = 0x11"
  shows "http_steps len r p (''HTTP/'' @ version_text v @ crlf) 4 (ps, evs) =
    Some (13, ps\<lparr>mark := p\<rparr>, evs @ [Element Http_version p 8])"
proof -
  have "version_text v = (if v = 0x10 then ''1.0'' else ''1.1'')"
    using assms by (auto simp: version_text_def dec_def)
  then show ?thesis by (simp add: crlf_def fixed_moves usub64_def)
qed

section \<open>Headers\<close>

definition name_ok :: "string \<Rightarrow> bool" where
  "name_ok n \<longleftrightarrow> n \<noteq> [] \<and> list_all name_char n"

definition value_ok :: "string \<Rightarrow> bool" where
  "value_ok v \<longleftrightarrow> list_all value_char v \<and> (v \<noteq> [] \<longrightarrow> hd v \<notin> {CHR '' '', CHR 0x09})"

definition header_text :: "(string \<times> string) list \<Rightarrow> string" where
  "header_text hs = concat (map (\<lambda>(n, v). n @ '':'' @ v @ crlf) hs)"

fun header_events :: "nat \<Rightarrow> (string \<times> string) list \<Rightarrow> http_event list" where
  "header_events p [] = []"
| "header_events p ((n, v) # hs) =
     Field p (length n) (p + length n + 1) (length v) # header_events (p + length n + length v + 3) hs"

lemma steps_name:
  assumes "name_ok n"
  shows "http_steps len r p n 13 (ps, evs) = Some (14, ps\<lparr>field_start := p\<rparr>, evs)"
proof -
  obtain c cs where n: "n = c # cs" "name_char c" "\<forall>c \<in> set cs. name_char c"
    using assms by (cases n) (auto simp: name_ok_def list_all_iff)
  have "http_steps len r (Suc p) cs 14 x = Some (14, x)" for x
    by (rule steps_loop) (use n name_moves in auto)
  then show ?thesis using n name_moves by simp
qed

lemma steps_value:
  assumes "value_ok v" "v \<noteq> []"
  shows "http_steps len r p v 15 (ps, evs) = Some (16, ps\<lparr>mark := p\<rparr>, evs)"
proof -
  obtain c cs where v: "v = c # cs" "value_char c" "c \<notin> {CHR '' '', CHR 0x09}" "\<forall>c \<in> set cs. value_char c"
    using assms by (cases v) (auto simp: value_ok_def list_all_iff)
  have "http_steps len r (Suc p) cs 16 x = Some (16, x)" for x
    by (rule steps_loop) (use v value_moves in auto)
  then show ?thesis using v value_moves [OF v(2)] by simp
qed

lemma steps_header:
  assumes "name_ok n" "value_ok v"
  shows "http_steps len r p (n @ '':'' @ v @ crlf) 13 (ps, evs) =
    Some (13, ps\<lparr>field_start := p, field_len := length n, mark := p + length n + 1\<rparr>,
      evs @ [Field p (length n) (p + length n + 1) (length v)])"
  using assms by (cases "v = []") (simp_all add: steps_append steps_name steps_value fixed_moves crlf_def)

lemma steps_headers:
  assumes "\<And>n v. (n, v) \<in> set hs \<Longrightarrow> name_ok n \<and> value_ok v" "hs \<noteq> []"
  shows "\<exists>a b c. http_steps len r p (header_text hs) 13 (ps, evs) =
    Some (13, ps\<lparr>field_start := a, field_len := b, mark := c\<rparr>, evs @ header_events p hs) \<and>
    a < p + length (header_text hs) \<and> b < p + length (header_text hs) \<and> c < p + length (header_text hs)"
  using assms
proof (induction hs arbitrary: p ps evs)
  case (Cons nv hs)
  obtain n v where nv: "nv = (n, v)" by (cases nv)
  then have ok: "name_ok n" "value_ok v" using Cons.prems by auto
  let ?q = "p + length n + length v + 3"
  let ?ps = "ps\<lparr>field_start := p, field_len := length n, mark := p + length n + 1\<rparr>"
  let ?evs = "evs @ [Field p (length n) (p + length n + 1) (length v)]"
  have hd: "http_steps len r p (header_text (nv # hs)) 13 (ps, evs) = http_steps len r ?q (header_text hs) 13 (?ps, ?evs)"
  proof -
    have eq: "header_text (nv # hs) = (n @ '':'' @ v @ crlf) @ header_text hs" by (simp add: nv header_text_def)
    have q: "p + length (n @ '':'' @ v @ crlf) = ?q" by (simp add: crlf_def)
    show ?thesis unfolding eq steps_then [OF steps_header [OF ok]] q by simp
  qed
  show ?case
  proof (cases "hs = []")
    case True
    then show ?thesis using hd by (intro exI) (auto simp: nv header_text_def crlf_def)
  next
    case False
    have "\<exists>a b c. http_steps len r ?q (header_text hs) 13 (?ps, ?evs) =
        Some (13, ?ps\<lparr>field_start := a, field_len := b, mark := c\<rparr>, ?evs @ header_events ?q hs) \<and>
      a < ?q + length (header_text hs) \<and> b < ?q + length (header_text hs) \<and> c < ?q + length (header_text hs)"
      by (rule Cons.IH) (use Cons.prems False in auto)
    then obtain a b c where "http_steps len r ?q (header_text hs) 13 (?ps, ?evs) =
        Some (13, ?ps\<lparr>field_start := a, field_len := b, mark := c\<rparr>, ?evs @ header_events ?q hs)"
      "a < ?q + length (header_text hs)" "b < ?q + length (header_text hs)" "c < ?q + length (header_text hs)"
      by blast
    then show ?thesis using hd
      by (intro exI [of _ a] exI [of _ b] exI [of _ c]) (simp add: nv header_text_def crlf_def)
  qed
qed simp


section \<open>A whole head\<close>

definition request_head :: "string \<Rightarrow> string \<Rightarrow> string \<Rightarrow> string \<Rightarrow> byte \<Rightarrow> (string \<times> string) list \<Rightarrow> string" where
  "request_head m path query fragment v hs =
     (m @ '' '') @ (target_text path query fragment @ '' '') @ (''HTTP/'' @ version_text v @ crlf) @ header_text hs @ crlf"

definition head_events :: "string \<Rightarrow> string \<Rightarrow> string \<Rightarrow> string \<Rightarrow> (string \<times> string) list \<Rightarrow> http_event list" where
  "head_events m path query fragment hs =
     (let t = length m + 1; h = t + length (target_text path query fragment) + 1
      in [Element Request_method 0 (length m)] @ target_events t path query fragment
         @ [Element Http_version h 8] @ header_events (h + 10) hs)"

lemma steps_head:
  assumes m: "\<And>c. c \<in> set m \<Longrightarrow> method_char c" "m \<noteq> []" "length m < 20"
    and url: "path_ok path" "url_text query_char query" "url_text query_char fragment"
    and v: "v = 0x10 \<or> v = 0x11"
    and hs: "\<And>n v. (n, v) \<in> set hs \<Longrightarrow> name_ok n \<and> value_ok v" "hs \<noteq> []"
  defines "text \<equiv> (m @ '' '') @ (target_text path query fragment @ '' '') @ (''HTTP/'' @ version_text v @ crlf) @ header_text hs"
  shows "\<exists>a b c q. http_steps len r 0 text 1 (ps, []) =
    Some (13, ps\<lparr>field_start := a, field_len := b, mark := c, query_start := q\<rparr>, head_events m path query fragment hs) \<and>
    a < length text \<and> b < length text \<and> c < length text"
proof -
  let ?t = "length m + 1" and ?h = "length m + 1 + length (target_text path query fragment) + 1"
  have vlen: "length (''HTTP/'' @ version_text v @ crlf) = 10"
    using v by (auto simp: version_text_def dec_def crlf_def)
  have 1: "http_steps len r 0 ((m @ '' '') @ R) 1 (ps, []) =
      http_steps len r ?t R 3 (ps\<lparr>mark := 0\<rparr>, [Element Request_method 0 (length m)])" for R
    using steps_then [OF steps_method [OF m]] by simp
  have 2: "http_steps len r ?t ((target_text path query fragment @ '' '') @ R) 3 (ps, evs) =
      http_steps len r ?h R 4 (ps\<lparr>mark := if fragment = [] then ?t else ?t + length (target_text path query []) + 1,
        query_start := if query = [] then query_start ps else ?t + length path + 1\<rparr>,
        evs @ target_events ?t path query fragment)" for R ps evs
    unfolding steps_then [OF steps_target [OF url]] by simp
  have 3: "http_steps len r ?h ((''HTTP/'' @ version_text v @ crlf) @ R) 4 (ps, evs) =
      http_steps len r (?h + 10) R 13 (ps\<lparr>mark := ?h\<rparr>, evs @ [Element Http_version ?h 8])" for R ps evs
    unfolding steps_then [OF steps_version [OF v]] vlen ..
  define q where "q = (if query = [] then query_start ps else ?t + length path + 1)"
  let ?ps = "ps\<lparr>mark := ?h, query_start := q\<rparr>"
  let ?evs = "[Element Request_method 0 (length m)] @ target_events ?t path query fragment @ [Element Http_version ?h 8]"
  have run: "http_steps len r 0 text 1 (ps, []) = http_steps len r (?h + 10) (header_text hs) 13 (?ps, ?evs)"
    unfolding text_def 1 2 3 q_def by (cases ps) simp
  obtain a b c where hd: "http_steps len r (?h + 10) (header_text hs) 13 (?ps, ?evs) =
     Some (13, ?ps\<lparr>field_start := a, field_len := b, mark := c\<rparr>, ?evs @ header_events (?h + 10) hs)"
    and bounds: "a < ?h + 10 + length (header_text hs)" "b < ?h + 10 + length (header_text hs)" "c < ?h + 10 + length (header_text hs)"
    using steps_headers [OF hs, of r len "?h + 10" ?ps ?evs] by metis
  have "length text = ?h + 10 + length (header_text hs)"
    using vlen by (simp add: text_def)
  then show ?thesis unfolding run hd using bounds
    by (intro exI [of _ a] exI [of _ b] exI [of _ c] exI [of _ q]) (cases ps, simp add: head_events_def Let_def)
qed

end
