(* ===== verification/Http_Request_Roundtrip.thy ===== *)
theory Http_Request_Roundtrip
  imports Http_Request_Parse
begin

text \<open>
  Parsing a printed request: the run over the head, the calls the run makes, and what they leave in
  the request object.
\<close>

section \<open>The execution\<close>

lemma to_int32_small: "n < 2 ^ 31 \<Longrightarrow> to_int32 n = int n"
  by (simp add: to_int32_def signed_of_nat signed_take_bit_int_eq_self)

lemma http_parser_execute_Inr:
  assumes "0 < len" "len < 2 ^ 31"
    and "run http11_items (uri_relaxed ps) http_brk (http_exec len) 0 (take len buffer) (parser_cs ps)
           (ps\<lparr>nread := 0, mark := 0, field_len := len, field_start := 0\<rparr>, []) = (s, p, ps', evs)"
    and "\<not> http_parser_has_error ps'" "nread ps' + p \<le> len" "body_start ps' \<le> len" "mark ps' < len"
      "field_len ps' \<le> len" "field_start ps' < len"
  shows "http_parser_execute ps buffer len 0 =
    Inr (nread ps' + p, ps'\<lparr>parser_cs := s, nread := nread ps' + p\<rparr>, evs)"
  using assms to_int32_small [of len] to_int32_small [of 0] by (simp add: http_parser_execute_def Let_def)

lemma run_head_end:
  assumes "\<not> xml_sent ps" "\<not> json_sent ps"
  shows "run http11_items r http_brk (http_exec len) p (crlf @ body) 13 (ps, evs) =
    (348, p + 2, ps\<lparr>field_start := p, body_start := p + 2\<rparr>, evs @ [Element Header_done (p + 2) (usub64 len (p + 2))])"
  using assms by (simp add: crlf_def fixed_moves)

lemma request_head_split:
  "request_head m path query fragment v hs =
     ((m @ '' '') @ (target_text path query fragment @ '' '') @ (''HTTP/'' @ version_text v @ crlf) @ header_text hs) @ crlf"
  by (simp add: request_head_def)

lemma execute_head:
  assumes "\<And>c. c \<in> set m \<Longrightarrow> method_char c" "m \<noteq> []" "length m < 20"
    and "path_ok path" "url_text query_char query" "url_text query_char fragment"
    and "v = 0x10 \<or> v = 0x11"
    and "\<And>n v. (n, v) \<in> set hs \<Longrightarrow> name_ok n \<and> value_ok v" "hs \<noteq> []"
    and size: "length (request_head m path query fragment v hs @ body) < 2 ^ 31"
  defines "head \<equiv> request_head m path query fragment v hs"
  shows "\<exists>ps'. http_parser_execute (http_parser_init memory) (head @ body) (length (head @ body)) 0 =
      Inr (length head, ps', head_events m path query fragment hs @
        [Element Header_done (length head) (length body)]) \<and> parser_cs ps' = 348"
proof -
  define pre where "pre = (m @ '' '') @ (target_text path query fragment @ '' '') @ (''HTTP/'' @ version_text v @ crlf) @ header_text hs"
  define len where "len = length (head @ body)"
  let ?init = "http_parser_init memory"
  define r where "r = uri_relaxed ?init"
  define ps where "ps = ?init\<lparr>nread := 0, mark := 0, field_len := len, field_start := 0\<rparr>"
  have head: "head = pre @ crlf" by (simp add: head_def request_head_split pre_def)
  then have lens: "length head = length pre + 2" "len = length pre + 2 + length body"
    by (simp_all add: len_def crlf_def)
  obtain a b c q where st: "http_steps len r 0 pre 1 (ps, []) =
      Some (13, ps\<lparr>field_start := a, field_len := b, mark := c, query_start := q\<rparr>, head_events m path query fragment hs)"
    and bounds: "a < length pre" "b < length pre" "c < length pre"
    using steps_head [OF assms(1-9), of r len ps] unfolding pre_def by blast
  let ?ps = "ps\<lparr>field_start := a, field_len := b, mark := c, query_start := q\<rparr>"
  let ?fin = "?ps\<lparr>field_start := length pre, body_start := length pre + 2\<rparr>"
  have flags: "\<not> xml_sent ?ps" "\<not> json_sent ?ps" by (simp_all add: ps_def http_parser_init_def)
  have run: "run http11_items r http_brk (http_exec len) 0 (head @ body) 1 (ps, []) =
      (348, length head, ?fin, head_events m path query fragment hs @ [Element Header_done (length head) (length body)])"
    unfolding head append_assoc run_steps [OF st] run_head_end [OF flags] by (simp add: crlf_def lens)
  have init: "parser_cs ?init = 1" "nread ?fin = 0" "\<not> http_parser_has_error ?fin"
    by (simp_all add: ps_def http_parser_init_def http_parser_start_def http_parser_has_error_def http_parser_error_def)
  have "http_parser_execute ?init (head @ body) len 0 =
      Inr (nread ?fin + length head, ?fin\<lparr>parser_cs := 348, nread := nread ?fin + length head\<rparr>,
        head_events m path query fragment hs @ [Element Header_done (length head) (length body)])"
  proof (rule http_parser_execute_Inr)
    show "run http11_items (uri_relaxed ?init) http_brk (http_exec len) 0 (take len (head @ body)) (parser_cs ?init)
       (?init\<lparr>nread := 0, mark := 0, field_len := len, field_start := 0\<rparr>, []) =
       (348, length head, ?fin, head_events m path query fragment hs @ [Element Header_done (length head) (length body)])"
      unfolding ps_def [symmetric] r_def [symmetric] init(1) using run by (simp add: len_def)
    show "len < 2 ^ 31" using size by (simp add: len_def head_def)
  qed (use bounds lens init in simp_all)
  then have "http_parser_execute ?init (head @ body) len 0 =
      Inr (length head, ?fin\<lparr>parser_cs := 348, nread := nread ?fin + length head\<rparr>,
        head_events m path query fragment hs @ [Element Header_done (length head) (length body)])"
    unfolding init(2) by simp
  then show ?thesis by (simp add: len_def)
qed

section \<open>The calls\<close>

lemma on_requests_append:
  "on_requests block (es @ fs) rp = (case on_requests block es rp of Inl e \<Rightarrow> Inl e | Inr rp' \<Rightarrow> on_requests block fs rp')"
  by (induction es arbitrary: rp) (auto split: sum.split)

text \<open>A part of the block, found by its offset.\<close>

lemma block_string_part: "length pre = p \<Longrightarrow> block_string (pre @ s @ post) p (length s) = Inr s"
  by (auto simp: block_string_def)

lemma on_target_events:
  assumes "length pre = p"
  shows "on_requests (pre @ target_text path query fragment @ post) (target_events p path query fragment) rp =
    Inr (rp\<lparr>rp_data := (rp_data rp)\<lparr>rq_path := path,
          rq_query := if query = [] then rq_query (rp_data rp) else query,
          rq_fragment := if fragment = [] then rq_fragment (rp_data rp) else fragment\<rparr>\<rparr>)"
proof -
  let ?block = "pre @ target_text path query fragment @ post"
  let ?uri = "length path + (if query = [] then 0 else 1 + length query)"
  have path: "block_string ?block p (length path) = Inr path"
    using block_string_part [of pre p path "drop (length path) (target_text path query fragment) @ post"] assms
    by (simp add: target_text_def)
  have query: "block_string ?block (p + length path + 1) (length query) = Inr query" if "query \<noteq> []"
    using block_string_part [of "pre @ path @ ''?''" "p + length path + 1" query
        "(if fragment = [] then [] else ''#'' @ fragment) @ post"] assms that
    by (simp add: target_text_def)
  have fragment: "block_string ?block (p + ?uri + 1) (length fragment) = Inr fragment" if "fragment \<noteq> []"
    using block_string_part [of "pre @ path @ (if query = [] then [] else ''?'' @ query) @ ''#''" "p + ?uri + 1" fragment post] assms that
    by (simp add: target_text_def)
  show ?thesis using path query fragment
    by (cases rp; cases "rp_data rp"; cases "query = []"; cases "fragment = []";
        simp add: target_events_def Let_def on_request_path_def on_request_query_def on_request_fragment_def with_string_def
          setPath_def setQuery_def setFragment_def)
qed

lemma on_header_events:
  assumes "length pre = p" "\<And>n v. (n, v) \<in> set hs \<Longrightarrow> n \<noteq> []"
  shows "on_requests (pre @ header_text hs @ post) (header_events p hs) rp =
    Inr (rp\<lparr>rp_data := fold (\<lambda>(n, v). setHeader n v) hs (rp_data rp)\<rparr>)"
  using assms
proof (induction hs arbitrary: pre p rp)
  case (Cons nv hs)
  obtain n v where nv: "nv = (n, v)" by (cases nv)
  let ?block = "pre @ header_text (nv # hs) @ post"
  have n: "block_string ?block p (length n) = Inr n"
    using block_string_part [of pre p n "'':'' @ v @ crlf @ header_text hs @ post"] Cons.prems(1) by (simp add: nv header_text_def)
  have v: "block_string ?block (p + length n + 1) (length v) = Inr v"
    using block_string_part [of "pre @ n @ '':''" "p + length n + 1" v "crlf @ header_text hs @ post"] Cons.prems(1)
    by (simp add: nv header_text_def)
  have block: "?block = (pre @ n @ '':'' @ v @ crlf) @ header_text hs @ post" by (simp add: nv header_text_def)
  have "length (pre @ n @ '':'' @ v @ crlf) = p + length n + length v + 3" using Cons.prems(1) by (simp add: crlf_def)
  then have "on_requests ?block (header_events (p + length n + length v + 3) hs) rp' =
      Inr (rp'\<lparr>rp_data := fold (\<lambda>(n, v). setHeader n v) hs (rp_data rp')\<rparr>)" for rp'
    unfolding block by (rule Cons.IH) (use Cons.prems in auto)
  moreover have "n \<noteq> []" using Cons.prems nv by auto
  ultimately show ?case using n v
    by (simp add: nv on_request_http_field_def with_string_def)
qed simp

lemma methods_are_tokens:
  "list_all (\<lambda>(m, t). m = MSEARCH \<or> list_all method_char t \<and> t \<noteq> [] \<and> length t < 20) HTTP_METHOD_MAP"
  by code_simp

lemma method_in_table: "m \<noteq> INVALID_METHOD \<Longrightarrow> (m, HttpMethodToString m) \<in> set HTTP_METHOD_MAP"
  by (cases m) (simp_all add: HttpMethodToString_def HTTP_METHOD_MAP_def)

lemma method_text:
  assumes "m \<noteq> INVALID_METHOD" "m \<noteq> MSEARCH"
  shows "c \<in> set (HttpMethodToString m) \<Longrightarrow> method_char c" "HttpMethodToString m \<noteq> []" "length (HttpMethodToString m) < 20"
  using methods_are_tokens method_in_table [OF assms(1)] assms(2) by (auto simp: list_all_iff)

lemma version_of_text:
  assumes "v = 0x10 \<or> v = 0x11"
  shows "version_of (''HTTP/'' @ version_text v @ post) 8 = Some v"
proof -
  have eight: "strn_eq a b 8 = strn_eq a b (Suc (Suc (Suc (Suc (Suc (Suc (Suc (Suc 0))))))))" for a b
    by (simp add: numeral_eq_Suc)
  have "version_text 0x10 = ''1.0''" "version_text 0x11 = ''1.1''" by (simp_all add: version_text_def dec_def)
  then show ?thesis using assms unfolding version_of_def eight by (elim disjE) (simp_all add: NUL_def)
qed

lemma on_head_events:
  fixes path query fragment body :: string
  assumes m: "m \<noteq> INVALID_METHOD" and v: "v = 0x10 \<or> v = 0x11" and hs: "\<And>n v. (n, v) \<in> set hs \<Longrightarrow> n \<noteq> []"
  defines "block \<equiv> request_head (HttpMethodToString m) path query fragment v hs @ body"
  shows "on_requests block (head_events (HttpMethodToString m) path query fragment hs) rp =
    Inr (rp\<lparr>rp_data := fold (\<lambda>(n, v). setHeader n v) hs
          ((rp_data rp)\<lparr>rq_method := m, rq_path := path, rq_version := v,
          rq_query := if query = [] then rq_query (rp_data rp) else query,
          rq_fragment := if fragment = [] then rq_fragment (rp_data rp) else fragment\<rparr>)\<rparr>)"
proof -
  let ?m = "HttpMethodToString m" and ?t = "length (HttpMethodToString m) + 1"
  let ?h = "?t + length (target_text path query fragment) + 1"
  have meth: "on_requests block [Element Request_method 0 (length ?m)] rp = Inr (rp\<lparr>rp_data := (rp_data rp)\<lparr>rq_method := m\<rparr>\<rparr>)" for rp
    using CharsToHttpMethod_prefix [OF m] m
    by (simp add: block_def request_head_def on_request_method_def setMethod_def)
  have target: "on_requests block (target_events ?t path query fragment) rp =
    Inr (rp\<lparr>rp_data := (rp_data rp)\<lparr>rq_path := path,
          rq_query := if query = [] then rq_query (rp_data rp) else query,
          rq_fragment := if fragment = [] then rq_fragment (rp_data rp) else fragment\<rparr>\<rparr>)" for rp
    using on_target_events [of "?m @ '' ''" ?t path query fragment] by (simp add: block_def request_head_def)
  have "drop ?h block = ''HTTP/'' @ version_text v @ crlf @ header_text hs @ crlf @ body"
    by (simp add: block_def request_head_def)
  then have "version_of (drop ?h block) 8 = Some v"
    using version_of_text [OF v] by simp
  then have version: "on_requests block [Element Http_version ?h 8] rp = Inr (rp\<lparr>rp_data := (rp_data rp)\<lparr>rq_version := v\<rparr>\<rparr>)" for rp
    by (simp add: on_request_version_def setVersion_def)
  have "length (version_text v) = 3" using v by (auto simp: version_text_def dec_def)
  then have headers: "on_requests block (header_events (?h + 10) hs) rp =
      Inr (rp\<lparr>rp_data := fold (\<lambda>(n, v). setHeader n v) hs (rp_data rp)\<rparr>)" for rp
    using on_header_events [of "?m @ '' '' @ target_text path query fragment @ '' HTTP/'' @ version_text v @ crlf" "?h + 10" hs "crlf @ body"] hs
    by (simp add: block_def request_head_def crlf_def)
  show ?thesis
    unfolding head_events_def Let_def on_requests_append meth target version headers by (cases "rp_data rp") simp
qed

section \<open>Printed requests\<close>

definition printed_headers :: "HttpRequest \<Rightarrow> (string \<times> string) list" where
  "printed_headers r = (''connection'', if rq_close r then ''close'' else ''keep-alive'')
     # filter (\<lambda>(n, _). \<not> is_connection n) (rq_headers r)
     @ (if rq_body r = [] then [] else [(''content-length'', dec (length (rq_body r)))])"

text \<open>A request whose parts the printed form keeps apart.\<close>

definition printable :: "HttpRequest \<Rightarrow> bool" where
  "printable r \<longleftrightarrow> rq_method r \<noteq> INVALID_METHOD \<and> rq_method r \<noteq> MSEARCH \<and> (rq_version r = 0x10 \<or> rq_version r = 0x11) \<and>
     path_ok (rq_path r) \<and> url_text query_char (rq_query r) \<and> url_text query_char (rq_fragment r) \<and>
     list_all (\<lambda>(n, v). name_ok n \<and> value_ok v) (rq_headers r) \<and> length (request_dump r) < 2 ^ 31"

definition parsed_request :: "HttpRequest \<Rightarrow> HttpRequest" where
  "parsed_request r = fold (\<lambda>(n, v). setHeader n v) (printed_headers r)
     ((new_HttpRequest (rq_version r) True)\<lparr>rq_method := rq_method r, rq_path := rq_path r,
       rq_query := rq_query r, rq_fragment := rq_fragment r\<rparr>)"

lemma request_dump_head:
  "request_dump r = request_head (HttpMethodToString (rq_method r)) (rq_path r) (rq_query r) (rq_fragment r)
     (rq_version r) (printed_headers r) @ rq_body r"
proof -
  have "header_lines '':'' m = header_text (filter (\<lambda>(n, _). \<not> is_connection n) m)" for m
    by (simp add: header_lines_def header_text_def)
  then show ?thesis
    by (simp add: request_dump_def request_head_def target_text_def printed_headers_def connection_line_def body_text_def)
      (simp add: header_text_def)
qed

lemma dec_value_ok: "value_ok (dec n)"
proof -
  have "set (digits k 10 n) \<subseteq> set ''0123456789''" for k
  proof (induction k arbitrary: n)
    case (Suc k)
    have digit: "''0123456789abcdef'' ! m \<in> set ''0123456789''" if "m < 10" for m
    proof -
      have "m \<in> {0, 1, 2, 3, 4, 5, 6, 7, 8, 9}" using that by simp arith
      then show ?thesis by (elim insertE emptyE) simp_all
    qed
    have "''0123456789abcdef'' ! (n mod 10) \<in> set ''0123456789''" by (rule digit) simp
    then show ?case using Suc [of "n div 10"] by (simp only: digits.simps set_append Un_subset_iff list.set insert_subset) auto
  qed simp
  then have "set (dec n) \<subseteq> set ''0123456789''" unfolding dec_def .
  moreover have "\<forall>c \<in> set ''0123456789''. value_char c \<and> c \<notin> {CHR '' '', CHR 0x09}" by (simp add: value_char_def NUL_def)
  ultimately show ?thesis unfolding value_ok_def list_all_iff by (meson hd_in_set subsetD)
qed

lemma fixed_headers_ok:
  "name_ok ''connection''" "name_ok ''content-length''" "value_ok ''close''" "value_ok ''keep-alive''"
  by code_simp+

lemma in_printed: "x \<in> set (a # filter P xs @ (if b then [] else [c])) \<Longrightarrow> x = a \<or> x \<in> set xs \<or> x = c"
  by (auto split: if_splits)

lemma printed_headers_ok:
  assumes "printable r" "(n, v) \<in> set (printed_headers r)"
  shows "name_ok n \<and> value_ok v"
  using in_printed [OF assms(2) [unfolded printed_headers_def]]
proof (elim disjE)
  assume "(n, v) = (''connection'', if rq_close r then ''close'' else ''keep-alive'')"
  then have "n = ''connection''" "v = ''close'' \<or> v = ''keep-alive''" unfolding prod.inject by (simp, metis)
  then show ?thesis using fixed_headers_ok by metis
next
  assume "(n, v) \<in> set (rq_headers r)"
  then show ?thesis using assms(1) unfolding printable_def list_all_iff by blast
next
  assume "(n, v) = (''content-length'', dec (length (rq_body r)))"
  then show ?thesis using fixed_headers_ok dec_value_ok by (metis prod.inject)
qed

text \<open>Characters of the block behind the input do not matter.\<close>

lemma execute_behind:
  "http_parser_execute ps (buffer @ behind) (length buffer) 0 = http_parser_execute ps buffer (length buffer) 0"
proof -
  have "take (length buffer - 0) (drop 0 (buffer @ behind)) = buffer" "take (length buffer - 0) (drop 0 buffer) = buffer"
    by simp_all
  then show ?thesis unfolding http_parser_execute_def by (simp only:)
qed

lemma request_roundtrip_behind:
  assumes "printable r"
  shows "\<exists>data rp. request_execute (request_dump r @ behind) (length (request_dump r)) (new_HttpRequestParser memory) =
       Inr (length (request_dump r) - length (rq_body r), data, rp) \<and>
     request_isFinished rp = 1 \<and> \<not> request_hasError rp \<and>
     take (length (rq_body r)) data = rq_body r \<and> rp_data rp = parsed_request r"
proof -
  let ?m = "HttpMethodToString (rq_method r)" and ?hs = "printed_headers r" and ?body = "rq_body r"
  define head where "head = request_head ?m (rq_path r) (rq_query r) (rq_fragment r) (rq_version r) ?hs"
  have dump: "request_dump r = head @ ?body" unfolding head_def by (rule request_dump_head)
  have p: "rq_method r \<noteq> INVALID_METHOD" "rq_method r \<noteq> MSEARCH" "rq_version r = 0x10 \<or> rq_version r = 0x11"
    "path_ok (rq_path r)" "url_text query_char (rq_query r)" "url_text query_char (rq_fragment r)"
    "length (head @ ?body) < 2 ^ 31"
    using assms unfolding printable_def dump by auto
  have hs: "\<And>n v. (n, v) \<in> set ?hs \<Longrightarrow> name_ok n \<and> value_ok v" "?hs \<noteq> []"
    using printed_headers_ok [OF assms] by (simp_all add: printed_headers_def)
  obtain ps' where ex: "http_parser_execute (http_parser_init memory) (head @ ?body) (length (head @ ?body)) 0 =
      Inr (length head, ps', head_events ?m (rq_path r) (rq_query r) (rq_fragment r) ?hs @
        [Element Header_done (length head) (length ?body)])" "parser_cs ps' = 348"
    using execute_head [OF method_text [OF p(1,2)] p(4-6,3) hs p(7) [unfolded head_def], of memory]
    unfolding head_def by blast
  let ?rp = "(new_HttpRequestParser memory)\<lparr>rp_parser := ps'\<rparr>"
  have names: "\<And>n v. (n, v) \<in> set ?hs \<Longrightarrow> n \<noteq> []" using hs(1) by (auto simp: name_ok_def)
  have calls: "on_requests (head @ ?body @ behind) (head_events ?m (rq_path r) (rq_query r) (rq_fragment r) ?hs) ?rp =
      Inr (?rp\<lparr>rp_data := fold (\<lambda>(n, v). setHeader n v) ?hs
          ((rp_data ?rp)\<lparr>rq_method := rq_method r, rq_path := rq_path r, rq_version := rq_version r,
          rq_query := if rq_query r = [] then rq_query (rp_data ?rp) else rq_query r,
          rq_fragment := if rq_fragment r = [] then rq_fragment (rp_data ?rp) else rq_fragment r\<rparr>)\<rparr>)"
    unfolding head_def by (rule on_head_events [OF p(1,3) names])
  have "(rp_data ?rp)\<lparr>rq_method := rq_method r, rq_path := rq_path r, rq_version := rq_version r,
          rq_query := if rq_query r = [] then rq_query (rp_data ?rp) else rq_query r,
          rq_fragment := if rq_fragment r = [] then rq_fragment (rp_data ?rp) else rq_fragment r\<rparr> =
      (new_HttpRequest (rq_version r) True)\<lparr>rq_method := rq_method r, rq_path := rq_path r,
        rq_query := rq_query r, rq_fragment := rq_fragment r\<rparr>"
    by (simp add: new_HttpRequestParser_def new_HttpRequest_def)
  then have "on_requests (head @ ?body @ behind) (head_events ?m (rq_path r) (rq_query r) (rq_fragment r) ?hs @
        [Element Header_done (length head) (length ?body)]) ?rp = Inr (?rp\<lparr>rp_data := parsed_request r\<rparr>)"
    unfolding on_requests_append calls parsed_request_def by simp
  then have "request_execute ((head @ ?body) @ behind) (length (head @ ?body)) (new_HttpRequestParser memory) =
      Inr (length head, overwrite ((head @ ?body) @ behind) 0 ?body, ?rp\<lparr>rp_data := parsed_request r\<rparr>)"
    using ex execute_behind [of "http_parser_init memory" "head @ ?body" behind]
    by (simp add: request_execute_def new_HttpRequestParser_def)
  moreover have "request_isFinished (?rp\<lparr>rp_data := parsed_request r\<rparr>) = 1"
    "\<not> request_hasError (?rp\<lparr>rp_data := parsed_request r\<rparr>)"
    using ex(2) by (simp_all add: request_isFinished_def request_hasError_def http_parser_finish_def http_parser_has_error_def
        http_parser_is_finished_def http_parser_error_def http_parser_first_final_def new_HttpRequestParser_def)
  moreover have "take (length ?body) (overwrite ((head @ ?body) @ behind) 0 ?body) = ?body" by (simp add: overwrite_def)
  ultimately show ?thesis unfolding dump by simp
qed

lemma request_roundtrip:
  assumes "printable r"
  shows "\<exists>data rp. request_execute (request_dump r) (length (request_dump r)) (new_HttpRequestParser memory) =
       Inr (length (request_dump r) - length (rq_body r), data, rp) \<and>
     request_isFinished rp = 1 \<and> \<not> request_hasError rp \<and>
     take (length (rq_body r)) data = rq_body r \<and> rp_data rp = parsed_request r"
  using request_roundtrip_behind [OF assms, of "[]" memory] by simp

section \<open>The parsed request\<close>

lemma fold_setHeader:
  "fold (\<lambda>(n, v). setHeader n v) hs r = r\<lparr>rq_headers := fold (\<lambda>(n, v). hassign n v) hs (rq_headers r)\<rparr>"
  by (induction hs arbitrary: r) (auto simp: setHeader_def)

lemma header_map_append: "header_map (xs @ ys) = header_map ys ++ header_map xs"
  by (simp add: header_map_def)

lemma header_map_fold:
  "header_order.keys_sorted m \<Longrightarrow> header_map (fold (\<lambda>(n, v). hassign n v) hs m) = header_map m ++ header_map (rev hs)"
proof (induction hs arbitrary: m)
  case (Cons nv hs)
  obtain n v where nv: "nv = (n, v)" by (cases nv)
  have "header_map (fold (\<lambda>(n, v). hassign n v) hs (hassign n v m)) = header_map (hassign n v m) ++ header_map (rev hs)"
    using Cons by (simp add: header_order.keys_sorted_assign)
  then show ?case using Cons.prems
    by (simp add: nv header_map_assign header_map_append map_add_upd_left)
qed simp

lemma header_map_rev:
  assumes "header_order.keys_sorted m"
  shows "header_map (rev m) = header_map m"
proof -
  have "sorted_wrt (<) (map lower (map fst m))"
    using assms by (simp add: header_order.keys_sorted_def sorted_wrt_map CaseInsensitiveLess_lower)
  then have "distinct (map fst (map (\<lambda>(k, v). (lower k, v)) m))"
    by (simp add: strict_sorted_iff comp_def case_prod_beta)
  then show ?thesis unfolding header_map_def rev_map
    by (subst map_of_inject_set) (simp_all flip: rev_map)
qed

lemma is_connection_lower: "is_connection n \<longleftrightarrow> lower n = lower ''connection''"
proof -
  have "NUL \<notin> set ''connection''" "cstr ''connection'' = ''connection''" by (simp_all add: NUL_def cstr_def)
  then show ?thesis unfolding is_connection_def lower_def by (simp only: strcasecmp_eq NUL_notin_cstr not_False_eq_True)
qed

lemma header_map_filter:
  "k \<noteq> lower ''connection'' \<Longrightarrow> header_map (filter (\<lambda>(n, _). \<not> is_connection n) m) k = header_map m k"
  by (induction m) (auto simp: is_connection_lower)

lemma keys_sorted_filter: "header_order.keys_sorted m \<Longrightarrow> header_order.keys_sorted (filter P m)"
  by (simp add: header_order.keys_sorted_def sorted_wrt_map sorted_wrt_filter)

lemma parsed_request_fields:
  "rq_method (parsed_request r) = rq_method r" "rq_version (parsed_request r) = rq_version r"
  "rq_path (parsed_request r) = rq_path r" "rq_query (parsed_request r) = rq_query r"
  "rq_fragment (parsed_request r) = rq_fragment r" "rq_close (parsed_request r)" "rq_body (parsed_request r) = []"
  by (simp_all add: parsed_request_def fold_setHeader new_HttpRequest_def)

text \<open>
  Every header of the parsed request: the connection line that \<^verbatim>\<open>dump\<close> makes of the close flag, the
  length of a body that is not empty, and otherwise what the printed request had.
\<close>

definition reread_header :: "HttpRequest \<Rightarrow> string \<Rightarrow> string \<Rightarrow> string" where
  "reread_header r key def =
     (if lower key = lower ''connection'' then if rq_close r then ''close'' else ''keep-alive''
      else if lower key = lower ''content-length'' \<and> rq_body r \<noteq> [] then dec (length (rq_body r))
      else getHeader key def r)"

lemma parsed_request_header:
  assumes "request_ok r"
  shows "getHeader key def (parsed_request r) = reread_header r key def"
proof -
  let ?f = "filter (\<lambda>(n, _). \<not> is_connection n) (rq_headers r)"
  have low: "lower ''connection'' \<noteq> lower ''content-length''" by code_simp
  have "rq_headers (parsed_request r) = fold (\<lambda>(n, v). hassign n v) (printed_headers r) []"
    unfolding parsed_request_def fold_setHeader by (simp add: new_HttpRequest_def)
  then have all: "header_map (rq_headers (parsed_request r)) (lower key) = header_map (rev (printed_headers r)) (lower key)"
    by (simp add: header_map_fold)
  have con: "header_map (rev ?f) (lower key) = None" if "lower key = lower ''connection''"
    using that by (auto simp: header_map_def map_of_eq_None_iff is_connection_lower)
  have f: "header_map (rev ?f) (lower key) = header_map (rq_headers r) (lower key)" if "lower key \<noteq> lower ''connection''"
    using that assms by (simp add: header_map_rev keys_sorted_filter request_ok_def header_map_filter)
  have "header_map (rev (printed_headers r)) (lower key) =
      (if lower key = lower ''connection'' then Some (if rq_close r then ''close'' else ''keep-alive'')
       else if lower key = lower ''content-length'' \<and> rq_body r \<noteq> [] then Some (dec (length (rq_body r)))
       else header_map (rq_headers r) (lower key))"
    using con f unfolding printed_headers_def rev_append rev.simps(2) header_map_append
    by (auto simp: map_add_def header_map_def low low [symmetric] split: option.split)
  then show ?thesis unfolding all [symmetric] by (simp add: getHeader_def map_get_lower reread_header_def)
qed

lemma parsed_request_other_header:
  assumes "request_ok r" "lower key \<noteq> lower ''connection''" "lower key \<noteq> lower ''content-length''"
  shows "getHeader key def (parsed_request r) = getHeader key def r"
  using parsed_request_header [OF assms(1)] assms(2,3) by (simp add: reread_header_def)

end
