(* ===== verification/Http_Parser_Correct.thy ===== *)
theory Http_Parser_Correct
  imports Http_Request_Roundtrip
begin

text \<open>
  The request parser on arbitrary input: its assertions hold, it stays within the buffer and it stops
  early only when it is finished or in error; and what happens to a request that arrives in two parts.
\<close>

section \<open>Arbitrary input\<close>

text \<open>What the actions keep: every offset lies in the buffer.\<close>

definition offsets_ok :: "nat \<Rightarrow> nat \<Rightarrow> http_parser \<times> http_event list \<Rightarrow> bool" where
  "offsets_ok len p x \<longleftrightarrow> (let ps = fst x in
     mark ps < len \<and> field_start ps \<le> p \<and> field_start ps < len \<and> field_len ps \<le> len \<and> body_start ps \<le> len \<and> nread ps = 0)"

lemma offsets_ok_exec: "p < len \<Longrightarrow> offsets_ok len p x \<Longrightarrow> offsets_ok len p (http_exec len a p x)"
  by (cases x; cases a) (auto simp: offsets_ok_def Let_def)

lemma http_parser_execute_ok:
  assumes "0 < len" "len < 2 ^ 31" "len \<le> length buffer" "parser_cs ps \<le> 349" "body_start ps \<le> len"
  shows "\<exists>n ps' evs. http_parser_execute ps buffer len 0 = Inr (n, ps', evs) \<and> n \<le> len \<and> parser_cs ps' \<le> 349 \<and>
    (n < len \<longrightarrow> http_parser_has_error ps' \<or> http_parser_is_finished ps')"
proof -
  let ?ps = "ps\<lparr>nread := 0, mark := 0, field_len := len, field_start := 0\<rparr>"
  obtain s p ps' evs where run: "run http11_items (uri_relaxed ps) http_brk (http_exec len) 0 (take len buffer) (parser_cs ps) (?ps, []) = (s, p, ps', evs)"
    by (metis prod.exhaust)
  have "offsets_ok len p (ps', evs)"
    by (rule run_invariant [OF run, where bound = len]) (use assms offsets_ok_exec in \<open>auto simp: offsets_ok_def\<close>)
  moreover have "p \<le> len" using run_bounds [OF run] by simp
  moreover have "s \<le> 349 \<and> (p < len \<longrightarrow> s = 0 \<or> 348 \<le> s)"
    using http11_machine.run_outcome [OF run] assms(3,4) by simp
  moreover have "parser_cs ps' = parser_cs ps"
  proof -
    have "(\<lambda>_ x. parser_cs (fst x) = parser_cs ps) p (ps', evs)"
    proof (rule run_invariant [OF run, where bound = len])
      show "parser_cs (fst (http_exec len a q y)) = parser_cs ps" if "parser_cs (fst y) = parser_cs ps" for a q y
        using that by (cases y; cases a) auto
    qed simp_all
    then show ?thesis by simp
  qed
  ultimately show ?thesis using assms run to_int32_small [of len] to_int32_small [of 0]
    by (auto simp: http_parser_execute_def Let_def offsets_ok_def http_parser_has_error_def http_parser_is_finished_def
        http_parser_error_def http_parser_first_final_def)
qed

section \<open>Requests that arrive in parts\<close>

text \<open>The first and the second part of a request for the method \<^verbatim>\<open>UNLOCK\<close>.\<close>

definition part_1 :: string where "part_1 = ''UN''"
definition part_2 :: string where "part_2 = ''LOCK / HTTP/1.1'' @ crlf @ crlf"

text \<open>The calls for the second part, and for both parts in one buffer.\<close>

definition events_2 :: "http_event list" where
  "events_2 = [Element Request_method 0 4, Element Request_path 5 1, Element Request_uri 5 1, Element Http_version 7 8, Element Header_done 19 0]"

definition events_whole :: "http_event list" where
  "events_whole = [Element Request_method 0 6, Element Request_path 7 1, Element Request_uri 7 1, Element Http_version 9 8, Element Header_done 21 0]"

definition after_part_1 :: "http_parser \<Rightarrow> http_parser" where
  "after_part_1 memory = (http_parser_init memory)\<lparr>parser_cs := 175, mark := 0, nread := 2, field_len := 2, field_start := 0\<rparr>"

lemma init_fields:
  "parser_cs (http_parser_init memory) = 1" "body_start (http_parser_init memory) = 0"
  "\<not> xml_sent (http_parser_init memory)" "\<not> json_sent (http_parser_init memory)" "uri_relaxed (http_parser_init memory) = uri_relaxed memory"
  by (simp_all add: http_parser_init_def http_parser_start_def)

lemma execute_part_1: "http_parser_execute (http_parser_init memory) part_1 2 0 = Inr (2, after_part_1 memory, [])"
proof -
  let ?ps = "(http_parser_init memory)\<lparr>nread := 0, mark := 0, field_len := 2, field_start := 0\<rparr>"
  have "take 2 part_1 = ''UN''" by (simp add: part_1_def)
  then have run: "run http11_items (uri_relaxed (http_parser_init memory)) http_brk (http_exec 2) 0 (take 2 part_1)
      (parser_cs (http_parser_init memory)) (?ps, []) = (175, 2, ?ps\<lparr>mark := 0\<rparr>, [])"
    by (simp add: init_fields http_move schar_def)
  show ?thesis
    using http_parser_execute_Inr [OF _ _ run]
    by (simp add: http_parser_has_error_def http_parser_error_def init_fields) (simp add: after_part_1_def http_parser_init_def)
qed

definition after_part_2 :: "http_parser \<Rightarrow> http_parser" where
  "after_part_2 memory = (http_parser_init memory)\<lparr>parser_cs := 348, mark := 7, nread := 19, field_len := 19, field_start := 17, body_start := 19\<rparr>"

lemma part_2_text: "part_2 = [CHR ''L'', CHR ''O'', CHR ''C'', CHR ''K'', CHR '' '', CHR ''/'', CHR '' '', CHR ''H'', CHR ''T'', CHR ''T'', CHR ''P'',
    CHR ''/'', CHR ''1'', CHR ''.'', CHR ''1'', CHR 0x0D, CHR 0x0A, CHR 0x0D, CHR 0x0A]"
  by (simp add: part_2_def crlf_def)

lemma execute_part_2:
  "http_parser_execute (after_part_1 memory) part_2 19 0 = Inr (19, after_part_2 memory,
     events_2)"
proof -
  let ?ps = "(after_part_1 memory)\<lparr>nread := 0, mark := 0, field_len := 19, field_start := 0\<rparr>"
  have take: "take 19 part_2 = part_2" by (simp add: part_2_text)
  have flags: "\<not> xml_sent (after_part_1 memory)" "\<not> json_sent (after_part_1 memory)" "parser_cs (after_part_1 memory) = 175"
    by (simp_all add: after_part_1_def init_fields)
  have run: "run http11_items (uri_relaxed (after_part_1 memory)) http_brk (http_exec 19) 0 (take 19 part_2)
      (parser_cs (after_part_1 memory)) (?ps, []) = (348, 19, ?ps\<lparr>mark := 7, field_start := 17, body_start := 19\<rparr>,
      events_2)"
    unfolding take unfolding part_2_text using flags
    by (simp add: fixed_moves http_move schar_def usub64_def events_2_def events_whole_def)
  show ?thesis
    using http_parser_execute_Inr [OF _ _ run] flags
    by (simp add: http_parser_has_error_def http_parser_error_def) (simp add: after_part_1_def after_part_2_def http_parser_init_def)
qed

lemma calls_part_2:
  "on_requests part_2 events_2 rp = Inr (rp\<lparr>rp_data := (rp_data rp)\<lparr>rq_method := LOCK, rq_path := ''/'', rq_version := 0x11\<rparr>\<rparr>)"
proof -
  have "CharsToHttpMethod (HttpMethodToString LOCK @ drop 4 part_2) = LOCK" by (rule CharsToHttpMethod_prefix) simp
  then have "CharsToHttpMethod part_2 = LOCK" by (simp add: HttpMethodToString_def HTTP_METHOD_MAP_def part_2_text)
  moreover have "version_of (''HTTP/'' @ version_text 0x11 @ crlf @ crlf) 8 = Some 0x11" by (rule version_of_text) simp
  then have "version_of (drop 7 part_2) 8 = Some 0x11" by (simp add: part_2_text version_text_def dec_def crlf_def)
  ultimately show ?thesis
    by (simp add: events_2_def events_whole_def on_request_method_def on_request_path_def on_request_version_def with_string_def block_string_def)
      (simp add: part_2_text setMethod_def setPath_def setVersion_def)
qed

text \<open>The same request in one buffer.\<close>

lemma execute_whole:
  "\<exists>ps. http_parser_execute (http_parser_init memory) (part_1 @ part_2) 21 0 = Inr (21, ps,
     events_whole) \<and>
     parser_cs ps = 348"
proof -
  let ?ps = "(http_parser_init memory)\<lparr>nread := 0, mark := 0, field_len := 21, field_start := 0\<rparr>"
  have take: "take 21 (part_1 @ part_2) = ''UN'' @ part_2" by (simp add: part_1_def part_2_text)
  have run: "run http11_items (uri_relaxed (http_parser_init memory)) http_brk (http_exec 21) 0 (take 21 (part_1 @ part_2))
      (parser_cs (http_parser_init memory)) (?ps, []) = (348, 21, ?ps\<lparr>mark := 9, field_start := 19, body_start := 21\<rparr>,
      events_whole)"
    unfolding take unfolding part_2_text using init_fields
    by (simp add: fixed_moves http_move schar_def usub64_def events_2_def events_whole_def)
  show ?thesis
    using http_parser_execute_Inr [OF _ _ run]
    by (simp add: http_parser_has_error_def http_parser_error_def init_fields)
qed

lemma calls_whole:
  "on_requests (part_1 @ part_2) events_whole rp = Inr (rp\<lparr>rp_data := (rp_data rp)\<lparr>rq_method := UNLOCK, rq_path := ''/'', rq_version := 0x11\<rparr>\<rparr>)"
proof -
  have "CharsToHttpMethod (HttpMethodToString UNLOCK @ drop 4 part_2) = UNLOCK" by (rule CharsToHttpMethod_prefix) simp
  then have "CharsToHttpMethod (part_1 @ part_2) = UNLOCK"
    by (simp add: HttpMethodToString_def HTTP_METHOD_MAP_def part_1_def part_2_text)
  moreover have "version_of (''HTTP/'' @ version_text 0x11 @ crlf @ crlf) 8 = Some 0x11" by (rule version_of_text) simp
  then have "version_of (drop 9 (part_1 @ part_2)) 8 = Some 0x11"
    by (simp add: part_1_def part_2_text version_text_def dec_def crlf_def)
  ultimately show ?thesis
    by (simp add: events_2_def events_whole_def on_request_method_def on_request_path_def on_request_version_def with_string_def block_string_def)
      (simp add: part_1_def part_2_text setMethod_def setPath_def setVersion_def)
qed

text \<open>The method of a request that arrives in two parts is read from the second part alone.\<close>

lemma split_request:
  "\<exists>data rp data' rp'. request_execute part_1 2 (new_HttpRequestParser memory) = Inr (2, data, rp) \<and>
     request_isFinished rp = 0 \<and> \<not> request_hasError rp \<and>
     request_execute part_2 19 rp = Inr (19, data', rp') \<and>
     request_isFinished rp' = 1 \<and> \<not> request_hasError rp' \<and> rq_method (rp_data rp') = LOCK"
proof -
  let ?new = "new_HttpRequestParser memory"
  let ?rp = "?new\<lparr>rp_parser := after_part_1 memory\<rparr>"
  let ?rp' = "?new\<lparr>rp_parser := after_part_2 memory,
     rp_data := (rp_data ?new)\<lparr>rq_method := LOCK, rq_path := ''/'', rq_version := 0x11\<rparr>\<rparr>"
  have "request_execute part_1 2 ?new = Inr (2, overwrite part_1 0 (take 0 (drop 2 part_1)), ?rp)"
    using execute_part_1 [of memory] by (simp add: request_execute_def new_HttpRequestParser_def)
  moreover have "request_execute part_2 19 ?rp = Inr (19, overwrite part_2 0 (take 0 (drop 19 part_2)), ?rp')"
    unfolding request_execute_def using execute_part_2 [of memory] by (simp add: calls_part_2)
  moreover have "request_isFinished ?rp = 0" "\<not> request_hasError ?rp" "request_isFinished ?rp' = 1" "\<not> request_hasError ?rp'"
    by (simp_all add: request_isFinished_def request_hasError_def http_parser_finish_def http_parser_has_error_def
      http_parser_is_finished_def http_parser_error_def http_parser_first_final_def after_part_1_def after_part_2_def new_HttpRequestParser_def)
  moreover have "rq_method (rp_data ?rp') = LOCK" by simp
  ultimately show ?thesis by blast
qed

lemma whole_request:
  "\<exists>data rp. request_execute (part_1 @ part_2) 21 (new_HttpRequestParser memory) = Inr (21, data, rp) \<and>
     request_isFinished rp = 1 \<and> \<not> request_hasError rp \<and> rq_method (rp_data rp) = UNLOCK"
proof -
  obtain ps where "http_parser_execute (http_parser_init memory) (part_1 @ part_2) 21 0 = Inr (21, ps,
     events_whole)"
    "parser_cs ps = 348" using execute_whole by blast
  then show ?thesis
    by (simp add: request_execute_def new_HttpRequestParser_def calls_whole request_isFinished_def request_hasError_def
      http_parser_finish_def http_parser_has_error_def http_parser_is_finished_def http_parser_error_def http_parser_first_final_def)
qed

text \<open>
  The field \<^verbatim>\<open>cs\<close> of the parser is a copy that no action reads or writes: it passes through a run.
\<close>

definition put_cs :: "nat \<Rightarrow> http_parser \<times> http_event list \<Rightarrow> http_parser \<times> http_event list" where
  "put_cs v x = ((fst x)\<lparr>parser_cs := v\<rparr>, snd x)"

lemma put_cs_exec: "http_exec len a p (put_cs v x) = put_cs v (http_exec len a p x)"
  by (cases x; cases a) (simp_all add: put_cs_def)

lemma put_cs_fold: "fold (\<lambda>a. http_exec len a p) acts (put_cs v x) = put_cs v (fold (\<lambda>a. http_exec len a p) acts x)"
  by (induction acts arbitrary: x) (simp_all add: put_cs_exec)

lemma put_cs_run:
  "run items r brk (http_exec len) p str cs (put_cs v x) =
     (case run items r brk (http_exec len) p str cs x of (s, q, x') \<Rightarrow> (s, q, put_cs v x'))"
  by (induction str arbitrary: p cs x) (auto simp: Let_def put_cs_fold split: prod.splits)

lemma run_keeps_cs:
  assumes "run items r brk (http_exec len) p str cs (ps, evs) = (s, q, ps', evs')"
  shows "parser_cs ps' = parser_cs ps"
proof -
  have "put_cs (parser_cs ps) (ps, evs) = (ps, evs)" by (simp add: put_cs_def)
  then have "put_cs (parser_cs ps) (ps', evs') = (ps', evs')"
    using put_cs_run [of items r brk len p str cs "parser_cs ps" "(ps, evs)"] assms by simp
  then show ?thesis by (simp add: put_cs_def) (metis http_parser.select_convs(1) http_parser.surjective http_parser.update_convs(1))
qed

text \<open>
  The end of a method word, from its start and from within: the same state, and the same call, because
  the mark is at the start of the buffer in both cases.
\<close>

lemma run_method_end:
  assumes "\<And>c. c \<in> set b \<Longrightarrow> method_char c" "b \<noteq> []" "k + length b < 20" "0 < k" "mark ps = 0"
  shows "run http11_items r http_brk (http_exec len) 0 (b @ '' '' @ rest) (method_state k) (ps, []) =
      run http11_items r http_brk (http_exec len) (length b + 1) rest 3 (ps, [Element Request_method 0 (length b)])"
    "run http11_items r http_brk (http_exec len) 0 (b @ '' '' @ rest) 1 (ps, []) =
      run http11_items r http_brk (http_exec len) (length b + 1) rest 3 (ps, [Element Request_method 0 (length b)])"
proof -
  have "http_steps len r 0 b (method_state k) (ps, []) = Some (method_state (k + length b), (ps, []))"
    using steps_method_chars [of b k r len 0 "(ps, [])"] assms by (simp add: add.commute)
  moreover have "http_steps len r (length b) '' '' (method_state (k + length b)) (ps, []) =
      Some (3, (ps, [Element Request_method 0 (length b)]))"
    using method_space [of "k + length b" r] assms by (simp add: usub64_def)
  ultimately have "http_steps len r 0 (b @ '' '') (method_state k) (ps, []) = Some (3, (ps, [Element Request_method 0 (length b)]))"
    by (simp add: steps_append)
  from run_steps [OF this, of rest]
  show "run http11_items r http_brk (http_exec len) 0 (b @ '' '' @ rest) (method_state k) (ps, []) =
      run http11_items r http_brk (http_exec len) (length b + 1) rest 3 (ps, [Element Request_method 0 (length b)])" by simp
  have "ps\<lparr>mark := 0\<rparr> = ps" using assms(5) by (cases ps) simp
  then have "http_steps len r 0 (b @ '' '') 1 (ps, []) = Some (3, (ps, [Element Request_method 0 (length b)]))"
    using steps_method [OF assms(1,2), where len = len and r = r and p = 0 and ps = ps and evs = "[]"] assms by simp
  from run_steps [OF this, of rest]
  show "run http11_items r http_brk (http_exec len) 0 (b @ '' '' @ rest) 1 (ps, []) =
      run http11_items r http_brk (http_exec len) (length b + 1) rest 3 (ps, [Element Request_method 0 (length b)])" by simp
qed

text \<open>The parser after a first read of \<open>k\<close> characters of the method.\<close>

definition within_method :: "nat \<Rightarrow> http_parser \<Rightarrow> http_parser" where
  "within_method k memory = (http_parser_init memory)\<lparr>parser_cs := method_state k, nread := k, mark := 0, field_len := k, field_start := 0\<rparr>"

lemma execute_within_method:
  assumes "\<And>c. c \<in> set a \<Longrightarrow> method_char c" "a \<noteq> []" "length a < 20"
  shows "http_parser_execute (http_parser_init memory) a (length a) 0 = Inr (length a, within_method (length a) memory, [])"
proof -
  define ps where "ps = (http_parser_init memory)\<lparr>nread := 0, mark := 0, field_len := length a, field_start := 0\<rparr>"
  obtain c a' where a: "a = c # a'" using assms(2) by (cases a) auto
  have "mark ps = 0" by (simp add: ps_def)
  then have same: "ps\<lparr>mark := 0\<rparr> = ps" by (cases ps) simp
  have "move http11_items r 1 c = ([A_mark], method_state 1)" for r
    using method_moves [of c 0 r] assms a by (simp add: method_state_def)
  moreover have "http_steps (length a) r 1 a' (method_state 1) (ps, []) = Some (method_state (length a), (ps, []))" for r
    using steps_method_chars [of a' 1 r "length a" 1 "(ps, [])"] assms a by simp
  ultimately have st: "http_steps (length a) r 0 a 1 (ps, []) = Some (method_state (length a), (ps, []))" for r
    using same by (simp add: a)
  have run: "run http11_items (uri_relaxed (http_parser_init memory)) http_brk (http_exec (length a)) 0 (take (length a) a)
      (parser_cs (http_parser_init memory))
      ((http_parser_init memory)\<lparr>nread := 0, mark := 0, field_len := length a, field_start := 0\<rparr>, []) = (method_state (length a), length a, ps, [])"
    unfolding ps_def [symmetric] using run_steps [OF st, where ys = "[]"] by (simp add: init_fields)
  have "0 < length a" "length a < 2 ^ 31" using assms by simp_all
  from http_parser_execute_Inr [OF this run]
  show ?thesis using assms(2)
    by (simp add: http_parser_has_error_def http_parser_error_def init_fields ps_def) (simp add: within_method_def http_parser_init_def)
qed

lemma execute_after_within:
  fixes b rest :: string
  assumes b: "\<And>c. c \<in> set b \<Longrightarrow> method_char c" "b \<noteq> []" and k: "0 < k" "k + length b < 20"
  defines "second \<equiv> b @ '' '' @ rest"
  shows "http_parser_execute (within_method k memory) second (length second) 0 =
    http_parser_execute (http_parser_init memory) second (length second) 0"
proof -
  let ?len = "length second" and ?r = "uri_relaxed memory" and ?ms = "method_state k"
  define ps where "ps = (http_parser_init memory)\<lparr>nread := 0, mark := 0, field_len := ?len, field_start := 0\<rparr>"
  have start: "(within_method k memory)\<lparr>nread := 0, mark := 0, field_len := ?len, field_start := 0\<rparr> = ps\<lparr>parser_cs := ?ms\<rparr>"
    by (simp add: ps_def within_method_def)
  obtain s q ps' evs where run: "run http11_items ?r http_brk (http_exec ?len) 0 second 1 (ps, []) = (s, q, ps', evs)"
    by (metis prod_cases4)
  have "mark ps = 0" by (simp add: ps_def)
  note both = run_method_end [OF b k(2,1) this, of ?r ?len rest, folded second_def]
  have "run http11_items ?r http_brk (http_exec ?len) 0 second ?ms (ps, []) = (s, q, ps', evs)"
    using run both by simp
  then have run2: "run http11_items ?r http_brk (http_exec ?len) 0 second ?ms (ps\<lparr>parser_cs := ?ms\<rparr>, []) =
      (s, q, ps'\<lparr>parser_cs := ?ms\<rparr>, evs)"
    using put_cs_run [of http11_items ?r http_brk ?len 0 second ?ms ?ms "(ps, [])"] by (simp add: put_cs_def)
  have "parser_cs ps' = 1" using run_keeps_cs [OF run] by (simp add: ps_def init_fields)
  then have noerr: "\<not> http_parser_has_error ps'" "\<not> http_parser_has_error (ps'\<lparr>parser_cs := ?ms\<rparr>)"
    by (simp_all add: http_parser_has_error_def http_parser_error_def)
  have "second \<noteq> []" by (simp add: second_def)
  have fields: "uri_relaxed (ps\<lparr>parser_cs := ?ms\<rparr>) = ?r" "parser_cs (within_method k memory) = ?ms" "uri_relaxed ps = ?r" "parser_cs ps = 1"
    by (simp_all add: ps_def within_method_def init_fields)
  show ?thesis
    unfolding http_parser_execute_def start ps_def [symmetric]
    using \<open>second \<noteq> []\<close> by (simp add: Let_def fields init_fields(1) run run2 noerr del: One_nat_def)
qed

text \<open>So the whole request parser forgets the first read.\<close>

lemma request_split_in_method:
  assumes a: "\<And>c. c \<in> set a \<Longrightarrow> method_char c" "a \<noteq> []" and b: "\<And>c. c \<in> set b \<Longrightarrow> method_char c" "b \<noteq> []"
    and len: "length (a @ b) < 20"
  shows "\<exists>data rp. request_execute a (length a) (new_HttpRequestParser memory) = Inr (length a, data, rp) \<and>
     request_isFinished rp = 0 \<and> \<not> request_hasError rp \<and>
     request_execute (b @ '' '' @ rest) (length (b @ '' '' @ rest)) rp =
       request_execute (b @ '' '' @ rest) (length (b @ '' '' @ rest)) (new_HttpRequestParser memory)"
proof -
  let ?rp = "(new_HttpRequestParser memory)\<lparr>rp_parser := within_method (length a) memory\<rparr>"
  have "length a < 20" using len by simp
  then have "request_execute a (length a) (new_HttpRequestParser memory) = Inr (length a, overwrite a 0 [], ?rp)"
    using execute_within_method [OF a, of memory] by (simp add: request_execute_def new_HttpRequestParser_def)
  moreover have "method_state (length a) < 346" using \<open>length a < 20\<close> by (simp add: method_state_def)
  then have "request_isFinished ?rp = 0" "\<not> request_hasError ?rp"
    by (simp_all add: request_isFinished_def request_hasError_def http_parser_finish_def http_parser_has_error_def
      http_parser_is_finished_def http_parser_error_def http_parser_first_final_def within_method_def new_HttpRequestParser_def)
  moreover have "request_execute (b @ '' '' @ rest) (length (b @ '' '' @ rest)) ?rp =
       request_execute (b @ '' '' @ rest) (length (b @ '' '' @ rest)) (new_HttpRequestParser memory)"
    using execute_after_within [OF b, of "length a" memory rest] a(2) len
    by (simp add: request_execute_def new_HttpRequestParser_def split: sum.split)
  ultimately show ?thesis by blast
qed

end
