(* ===== verification/Servlet.thy ===== *)
theory Servlet
  imports Http
begin

text \<open>
  The dispatcher of \<^verbatim>\<open>linko/http/servlet.{h,cc}\<close>: exact and pattern registrations, their lookup and the
  default servlet.  A servlet pointer is an option, so that null pointers are values; the callbacks of
  function servlets and \<^verbatim>\<open>fnmatch\<close> (true when it returns 0) are arguments.
\<close>

section \<open>Servlets\<close>

datatype 'cb servlet = FunctionServlet 'cb | NotFoundServlet

text \<open>What a handler reads and changes: request, response and session, and its return value.\<close>

type_synonym ('cb, 'ses) servlet_call = "'cb \<Rightarrow> HttpRequest \<times> HttpResponse \<times> 'ses \<Rightarrow> int \<times> HttpRequest \<times> HttpResponse \<times> 'ses"

definition RSP_BODY :: string where
  "RSP_BODY = ''<html><head><title>404 Not Found'' @ ''</title></head><body><center><h1>404 Not Found</h1></center>''
     @ ''<hr><center>linko/1.0.0</center></body></html>''"

definition NotFound_handle :: "HttpResponse \<Rightarrow> HttpResponse" where
  "NotFound_handle rsp = rs_setBody RSP_BODY (rs_setHeader ''Content-Type'' ''text/html''
     (rs_setHeader ''Server'' ''linko/1.0.0'' (rs_setStatus status_NOT_FOUND rsp)))"

definition servlet_handle :: "('cb, 'ses) servlet_call \<Rightarrow> 'cb servlet \<Rightarrow> HttpRequest \<times> HttpResponse \<times> 'ses \<Rightarrow>
    int \<times> HttpRequest \<times> HttpResponse \<times> 'ses" where
  "servlet_handle call slt x = (case slt of FunctionServlet cb \<Rightarrow> call cb x
     | NotFoundServlet \<Rightarrow> (case x of (req, rsp, ses) \<Rightarrow> (0, req, NotFound_handle rsp, ses)))"

section \<open>ServletDispatch\<close>

record 'cb ServletDispatch =
  sd_datas :: "string \<rightharpoonup> 'cb servlet option"
  sd_globs :: "(string \<times> 'cb servlet option) list"
  sd_default :: "'cb servlet option"

definition new_ServletDispatch :: "'cb ServletDispatch" where
  "new_ServletDispatch = \<lparr>sd_datas = Map.empty, sd_globs = [], sd_default = Some NotFoundServlet\<rparr>"

definition addServlet :: "string \<Rightarrow> 'cb servlet option \<Rightarrow> 'cb ServletDispatch \<Rightarrow> 'cb ServletDispatch" where
  "addServlet uri slt d = d\<lparr>sd_datas := (sd_datas d)(uri \<mapsto> slt)\<rparr>"

definition addServlet_callback :: "string \<Rightarrow> 'cb \<Rightarrow> 'cb ServletDispatch \<Rightarrow> 'cb ServletDispatch" where
  "addServlet_callback uri cb d = d\<lparr>sd_datas := (sd_datas d)(uri \<mapsto> Some (FunctionServlet cb))\<rparr>"

text \<open>The loop that erases the first entry for \<open>uri\<close>.\<close>

fun erase_glob :: "string \<Rightarrow> (string \<times> 'a) list \<Rightarrow> (string \<times> 'a) list" where
  "erase_glob uri [] = []"
| "erase_glob uri ((u, s) # globs) = (if u = uri then globs else (u, s) # erase_glob uri globs)"

definition addGlobServlet :: "string \<Rightarrow> 'cb servlet option \<Rightarrow> 'cb ServletDispatch \<Rightarrow> 'cb ServletDispatch" where
  "addGlobServlet uri slt d = d\<lparr>sd_globs := erase_glob uri (sd_globs d) @ [(uri, slt)]\<rparr>"

definition addGlobServlet_callback :: "string \<Rightarrow> 'cb \<Rightarrow> 'cb ServletDispatch \<Rightarrow> 'cb ServletDispatch" where
  "addGlobServlet_callback uri cb d = addGlobServlet uri (Some (FunctionServlet cb)) d"

definition delServlet :: "string \<Rightarrow> 'cb ServletDispatch \<Rightarrow> 'cb ServletDispatch" where
  "delServlet uri d = d\<lparr>sd_datas := (sd_datas d)(uri := None)\<rparr>"

definition delGlobServlet :: "string \<Rightarrow> 'cb ServletDispatch \<Rightarrow> 'cb ServletDispatch" where
  "delGlobServlet uri d = d\<lparr>sd_globs := erase_glob uri (sd_globs d)\<rparr>"

definition setDefault :: "'cb servlet option \<Rightarrow> 'cb ServletDispatch \<Rightarrow> 'cb ServletDispatch" where
  "setDefault v d = d\<lparr>sd_default := v\<rparr>"

definition getServlet :: "string \<Rightarrow> 'cb ServletDispatch \<Rightarrow> 'cb servlet option" where
  "getServlet uri d = (case sd_datas d uri of None \<Rightarrow> None | Some slt \<Rightarrow> slt)"

fun find_glob :: "(string \<Rightarrow> bool) \<Rightarrow> (string \<times> 'a) list \<Rightarrow> 'a option" where
  "find_glob test [] = None"
| "find_glob test ((u, s) # globs) = (if test u then Some s else find_glob test globs)"

definition getGlobalServlet :: "string \<Rightarrow> 'cb ServletDispatch \<Rightarrow> 'cb servlet option" where
  "getGlobalServlet uri d = (case find_glob (\<lambda>u. u = uri) (sd_globs d) of None \<Rightarrow> None | Some slt \<Rightarrow> slt)"

definition getMatchedServlet :: "(string \<Rightarrow> string \<Rightarrow> bool) \<Rightarrow> string \<Rightarrow> 'cb ServletDispatch \<Rightarrow> 'cb servlet option" where
  "getMatchedServlet fnmatch uri d =
     (case sd_datas d uri of Some slt \<Rightarrow> slt
      | None \<Rightarrow> (case find_glob (\<lambda>u. fnmatch (cstr u) (cstr uri)) (sd_globs d) of Some slt \<Rightarrow> slt
          | None \<Rightarrow> sd_default d))"

definition dispatch_handle :: "(string \<Rightarrow> string \<Rightarrow> bool) \<Rightarrow> ('cb, 'ses) servlet_call \<Rightarrow> 'cb ServletDispatch \<Rightarrow>
    HttpRequest \<times> HttpResponse \<times> 'ses \<Rightarrow> int \<times> HttpRequest \<times> HttpResponse \<times> 'ses" where
  "dispatch_handle fnmatch call d x =
     (case getMatchedServlet fnmatch (rq_path (fst x)) d of None \<Rightarrow> (0, x)
      | Some slt \<Rightarrow> (0, snd (servlet_handle call slt x)))"

section \<open>What a sequence of registrations means\<close>

datatype 'cb registration =
    Add string "'cb servlet option"
  | Add_glob string "'cb servlet option"
  | Del string
  | Del_glob string
  | Set_default "'cb servlet option"

fun register :: "'cb registration \<Rightarrow> 'cb ServletDispatch \<Rightarrow> 'cb ServletDispatch" where
  "register (Add uri slt) = addServlet uri slt"
| "register (Add_glob uri slt) = addGlobServlet uri slt"
| "register (Del uri) = delServlet uri"
| "register (Del_glob uri) = delGlobServlet uri"
| "register (Set_default slt) = setDefault slt"

text \<open>
  The last word on a path, on the default and on a pattern: a registration counts when no later one
  is about the same key.
\<close>

fun about_path :: "string \<Rightarrow> 'cb registration \<Rightarrow> bool" where
  "about_path uri (Add u _) \<longleftrightarrow> u = uri"
| "about_path uri (Del u) \<longleftrightarrow> u = uri"
| "about_path uri _ \<longleftrightarrow> False"

fun about_glob :: "string \<Rightarrow> 'cb registration \<Rightarrow> bool" where
  "about_glob uri (Add_glob u _) \<longleftrightarrow> u = uri"
| "about_glob uri (Del_glob u) \<longleftrightarrow> u = uri"
| "about_glob uri _ \<longleftrightarrow> False"

definition exact_spec :: "'cb registration list \<Rightarrow> string \<Rightarrow> 'cb servlet option option" where
  "exact_spec ops uri = (case List.find (about_path uri) (rev ops) of Some (Add _ slt) \<Rightarrow> Some slt | _ \<Rightarrow> None)"

fun live_globs :: "'cb registration list \<Rightarrow> (string \<times> 'cb servlet option) list" where
  "live_globs [] = []"
| "live_globs (Add_glob u slt # ops) = (if list_ex (about_glob u) ops then [] else [(u, slt)]) @ live_globs ops"
| "live_globs (_ # ops) = live_globs ops"

definition default_spec :: "'cb registration list \<Rightarrow> 'cb servlet option" where
  "default_spec ops = (case List.find (\<lambda>op. case op of Set_default _ \<Rightarrow> True | _ \<Rightarrow> False) (rev ops) of
     Some (Set_default slt) \<Rightarrow> slt | _ \<Rightarrow> Some NotFoundServlet)"

definition match_spec :: "(string \<Rightarrow> string \<Rightarrow> bool) \<Rightarrow> 'cb registration list \<Rightarrow> string \<Rightarrow> 'cb servlet option" where
  "match_spec fnmatch ops uri =
     (case exact_spec ops uri of Some slt \<Rightarrow> slt
      | None \<Rightarrow> (case List.find (\<lambda>(u, _). fnmatch (cstr u) (cstr uri)) (live_globs ops) of
           Some (_, slt) \<Rightarrow> slt | None \<Rightarrow> default_spec ops))"

lemma find_glob_find: "find_glob test globs = map_option snd (List.find (\<lambda>(u, _). test u) globs)"
  by (induction test globs rule: find_glob.induct) auto

lemma erase_glob_filter:
  "distinct (map fst globs) \<Longrightarrow> erase_glob uri globs = filter (\<lambda>(u, _). u \<noteq> uri) globs"
  by (induction uri globs rule: erase_glob.induct) (force intro!: filter_id_conv [THEN iffD2, symmetric])+

lemma live_globs_append_other:
  "\<not> (\<exists>u s. op = Add_glob u s \<or> op = Del_glob u) \<Longrightarrow> live_globs (ops @ [op]) = live_globs ops"
  by (induction ops rule: live_globs.induct; cases op) auto

lemma live_globs_append_glob:
  "op = Add_glob uri slt \<or> op = Del_glob uri \<Longrightarrow>
     live_globs (ops @ [op]) = filter (\<lambda>(u, _). u \<noteq> uri) (live_globs ops) @ (case op of Add_glob _ _ \<Rightarrow> [(uri, slt)] | _ \<Rightarrow> [])"
  by (induction ops rule: live_globs.induct) auto

lemma live_globs_keys: "u \<in> fst ` set (live_globs ops) \<Longrightarrow> list_ex (about_glob u) ops"
  by (induction ops rule: live_globs.induct) (auto split: if_splits)

lemma distinct_live_globs: "distinct (map fst (live_globs ops))"
proof (induction ops rule: live_globs.induct)
  case (2 u slt ops)
  then show ?case using live_globs_keys [of u ops] by auto
qed simp_all

lemma find_rev_append: "List.find P (rev (xs @ [x])) = (if P x then Some x else List.find P (rev xs))"
  by simp

lemma registrations_state:
  "sd_datas (fold register ops new_ServletDispatch) = exact_spec ops \<and>
   sd_globs (fold register ops new_ServletDispatch) = live_globs ops \<and>
   sd_default (fold register ops new_ServletDispatch) = default_spec ops"
proof (induction ops rule: rev_induct)
  case Nil
  then show ?case by (simp add: new_ServletDispatch_def exact_spec_def default_spec_def fun_eq_iff)
next
  case (snoc op ops)
  let ?d = "fold register ops new_ServletDispatch"
  have globs: "erase_glob uri (sd_globs ?d) = filter (\<lambda>(u, _). u \<noteq> uri) (live_globs ops)" for uri
    using snoc by (simp add: erase_glob_filter distinct_live_globs)
  show ?case
  proof (cases op)
    case (Add uri slt)
    then show ?thesis using snoc
      by (auto simp: addServlet_def exact_spec_def default_spec_def live_globs_append_other fun_eq_iff)
  next
    case (Add_glob uri slt)
    then show ?thesis using snoc globs live_globs_append_glob [of op uri slt ops]
      by (auto simp: addGlobServlet_def exact_spec_def default_spec_def fun_eq_iff)
  next
    case (Del uri)
    then show ?thesis using snoc
      by (auto simp: delServlet_def exact_spec_def default_spec_def live_globs_append_other fun_eq_iff)
  next
    case (Del_glob uri)
    then show ?thesis using snoc globs live_globs_append_glob [of op uri None ops]
      by (auto simp: delGlobServlet_def exact_spec_def default_spec_def fun_eq_iff)
  next
    case (Set_default slt)
    then show ?thesis using snoc
      by (auto simp: setDefault_def exact_spec_def default_spec_def live_globs_append_other fun_eq_iff)
  qed
qed

lemma getMatchedServlet_spec: "getMatchedServlet fnmatch uri (fold register ops new_ServletDispatch) = match_spec fnmatch ops uri"
  using registrations_state [of ops]
  by (auto simp: getMatchedServlet_def match_spec_def find_glob_find split: option.split)

end
