(* ===== verification/Uri_Machine.thy ===== *)
theory Uri_Machine
  imports Ragel
begin

text \<open>
  The state machine of \<^verbatim>\<open>Uri::Create\<close>, \<^verbatim>\<open>linko/uri.rl.cc\<close>: its blocks in the order of the file.
\<close>

datatype uri_action =
    U_mark
  | U_save_scheme
  | U_save_port
  | U_save_userinfo
  | U_save_host
  | U_save_path
  | U_save_query
  | U_save_fragment

definition uri_items_1 :: "uri_action item list" where
  "uri_items_1 =
    [St 451 False [(- 128, - 1, ST 452), (33, 33, ST 452), (35, 35, ST 453), (36, 36, ST 452), (37, 37, ST 3),
       (38, 46, ST 452), (47, 47, ST 458), (48, 57, ST 452), (59, 59, ST 452), (61, 61, ST 452), (63, 63, ST 456),
       (64, 64, ST 452), (65, 90, TR 461), (95, 95, ST 452), (97, 122, TR 461), (126, 126, ST 452)],
     St 452 False [(- 128, - 1, ST 452), (33, 33, ST 452), (35, 35, ST 453), (36, 36, ST 452), (37, 37, ST 3),
       (38, 46, ST 452), (47, 47, ST 455), (48, 57, ST 452), (59, 59, ST 452), (61, 61, ST 452), (63, 63, ST 456),
       (64, 90, ST 452), (95, 95, ST 452), (97, 122, ST 452), (126, 126, ST 452)],
     Tr 467 [U_mark, U_save_query] 453,
     Tr 469 [U_save_query] 453,
     Tr 474 [U_mark, U_save_host] 453,
     Tr 485 [U_save_host] 453,
     Tr 489 [U_mark, U_save_port] 453,
     Tr 493 [U_save_port] 453,
     Tr 548 [U_mark, U_save_host, U_save_path] 453,
     Tr 559 [U_save_host, U_mark, U_save_path] 453]"

definition uri_items_2 :: "uri_action item list" where
  "uri_items_2 =
    [Tr 563 [U_save_path] 453,
     Tr 566 [U_mark, U_save_port, U_save_path] 453,
     Tr 570 [U_save_port, U_mark, U_save_path] 453,
     St 453 False [(- 128, - 1, TR 462), (33, 33, TR 462), (36, 36, TR 462), (37, 37, TR 463), (38, 59, TR 462),
       (61, 61, TR 462), (63, 90, TR 462), (95, 95, TR 462), (97, 122, TR 462), (126, 126, TR 462)],
     Tr 462 [U_mark] 454,
     St 454 False [(- 128, - 1, ST 454), (33, 33, ST 454), (36, 36, ST 454), (37, 37, ST 1), (38, 59, ST 454),
       (61, 61, ST 454), (63, 90, ST 454), (95, 95, ST 454), (97, 122, ST 454), (126, 126, ST 454)],
     Tr 463 [U_mark] 1,
     St 1 False [(48, 57, ST 2), (65, 70, ST 2), (97, 102, ST 2)],
     St 2 False [(48, 57, ST 454), (65, 70, ST 454), (97, 102, ST 454)],
     St 3 False [(48, 57, ST 4), (65, 70, ST 4), (97, 102, ST 4)]]"

definition uri_items_3 :: "uri_action item list" where
  "uri_items_3 =
    [St 4 False [(48, 57, ST 452), (65, 70, ST 452), (97, 102, ST 452)],
     Tr 476 [U_mark, U_save_host] 455,
     Tr 486 [U_save_host] 455,
     Tr 490 [U_mark, U_save_port] 455,
     Tr 494 [U_save_port] 455,
     St 455 False [(- 128, - 1, ST 455), (33, 33, ST 455), (35, 35, ST 453), (36, 36, ST 455), (37, 37, ST 5),
       (38, 59, ST 455), (61, 61, ST 455), (63, 63, ST 456), (64, 90, ST 455), (95, 95, ST 455), (97, 122, ST 455),
       (126, 126, ST 455)],
     St 5 False [(48, 57, ST 6), (65, 70, ST 6), (97, 102, ST 6)],
     St 6 False [(48, 57, ST 455), (65, 70, ST 455), (97, 102, ST 455)],
     Tr 482 [U_mark, U_save_host] 456,
     Tr 488 [U_save_host] 456,
     Tr 492 [U_mark, U_save_port] 456,
     Tr 496 [U_save_port] 456]"

definition uri_items_4 :: "uri_action item list" where
  "uri_items_4 =
    [Tr 556 [U_mark, U_save_host, U_save_path] 456,
     Tr 562 [U_save_host, U_mark, U_save_path] 456,
     Tr 565 [U_save_path] 456,
     Tr 569 [U_mark, U_save_port, U_save_path] 456,
     Tr 573 [U_save_port, U_mark, U_save_path] 456,
     St 456 False [(- 128, - 1, TR 466), (33, 33, TR 466), (35, 35, TR 467), (36, 36, TR 466), (37, 37, TR 468),
       (38, 59, TR 466), (61, 61, TR 466), (63, 90, TR 466), (95, 95, TR 466), (97, 122, TR 466), (126, 126, TR 466)],
     Tr 466 [U_mark] 457,
     St 457 False [(- 128, - 1, ST 457), (33, 33, ST 457), (35, 35, TR 469), (36, 36, ST 457), (37, 37, ST 7),
       (38, 59, ST 457), (61, 61, ST 457), (63, 90, ST 457), (95, 95, ST 457), (97, 122, ST 457), (126, 126, ST 457)],
     Tr 468 [U_mark] 7,
     St 7 False [(48, 57, ST 8), (65, 70, ST 8), (97, 102, ST 8)]]"

definition uri_items_5 :: "uri_action item list" where
  "uri_items_5 =
    [St 8 False [(48, 57, ST 457), (65, 70, ST 457), (97, 102, ST 457)],
     St 458 False [(- 128, - 1, ST 455), (33, 33, ST 455), (35, 35, ST 453), (36, 36, ST 455), (37, 37, ST 5),
       (38, 46, ST 455), (47, 47, ST 459), (48, 59, ST 455), (61, 61, ST 455), (63, 63, ST 456), (64, 90, ST 455),
       (95, 95, ST 455), (97, 122, ST 455), (126, 126, ST 455)],
     St 459 False [(2, 2, TR 472), (33, 33, TR 473), (35, 35, TR 474), (36, 36, TR 473), (37, 37, TR 475),
       (38, 46, TR 473), (47, 47, TR 476), (48, 48, TR 477), (49, 49, TR 478), (50, 50, TR 479), (51, 57, TR 480),
       (58, 58, TR 481), (59, 59, TR 473), (61, 61, TR 473), (63, 63, TR 482), (64, 64, TR 483), (65, 90, TR 473),
       (91, 91, TR 484), (95, 95, TR 473), (97, 122, TR 473), (126, 126, TR 473)],
     Tr 472 [U_mark] 9,
     St 9 False [(48, 52, ST 10)],
     St 10 False [(48, 57, ST 11)],
     St 11 False [(46, 46, ST 12)],
     St 12 False [(2, 2, ST 13), (48, 48, ST 15), (49, 49, ST 27), (50, 50, ST 29), (51, 57, ST 28)],
     St 13 False [(48, 52, ST 14)],
     St 14 False [(48, 57, ST 15)],
     St 15 False [(46, 46, ST 16)],
     St 16 False [(2, 2, ST 17), (48, 48, ST 19), (49, 49, ST 23), (50, 50, ST 25), (51, 57, ST 24)]]"

definition uri_items_6 :: "uri_action item list" where
  "uri_items_6 =
    [St 17 False [(48, 52, ST 18)],
     St 18 False [(48, 57, ST 19)],
     St 19 False [(46, 46, ST 20)],
     St 20 False [(2, 2, ST 21), (48, 48, ST 460), (49, 49, ST 463), (50, 50, ST 465), (51, 57, ST 464)],
     St 21 False [(48, 52, ST 22)],
     St 22 False [(48, 57, ST 460)],
     St 460 False [(35, 35, TR 485), (47, 47, TR 486), (58, 58, TR 487), (63, 63, TR 488)],
     Tr 507 [U_mark, U_save_host] 461,
     Tr 487 [U_save_host] 461,
     St 461 False [(35, 35, TR 489), (47, 47, TR 490), (48, 57, TR 491), (63, 63, TR 492)],
     Tr 491 [U_mark] 462,
     St 462 False [(35, 35, TR 493), (47, 47, TR 494), (48, 57, ST 462), (63, 63, TR 496)],
     St 463 False [(35, 35, TR 485), (47, 47, TR 486), (48, 57, ST 464), (58, 58, TR 487), (63, 63, TR 488)],
     St 464 False [(35, 35, TR 485), (47, 47, TR 486), (48, 57, ST 460), (58, 58, TR 487), (63, 63, TR 488)],
     St 465 False [(35, 35, TR 485), (47, 47, TR 486), (48, 52, ST 460), (53, 53, ST 466), (54, 57, ST 460),
       (58, 58, TR 487), (63, 63, TR 488)]]"

definition uri_items_7 :: "uri_action item list" where
  "uri_items_7 =
    [St 466 False [(35, 35, TR 485), (47, 47, TR 486), (48, 53, ST 460), (58, 58, TR 487), (63, 63, TR 488)],
     St 23 False [(46, 46, ST 20), (48, 57, ST 24)],
     St 24 False [(46, 46, ST 20), (48, 57, ST 19)],
     St 25 False [(46, 46, ST 20), (48, 52, ST 19), (53, 53, ST 26), (54, 57, ST 19)],
     St 26 False [(46, 46, ST 20), (48, 53, ST 19)],
     St 27 False [(46, 46, ST 16), (48, 57, ST 28)],
     St 28 False [(46, 46, ST 16), (48, 57, ST 15)],
     St 29 False [(46, 46, ST 16), (48, 52, ST 15), (53, 53, ST 30), (54, 57, ST 15)],
     St 30 False [(46, 46, ST 16), (48, 53, ST 15)],
     Tr 473 [U_mark] 467,
     St 467 False [(33, 33, ST 467), (35, 35, TR 485), (36, 36, ST 467), (37, 37, ST 31), (38, 46, ST 467),
       (47, 47, TR 486), (48, 57, ST 467), (58, 58, TR 499), (59, 59, ST 467), (61, 61, ST 467), (63, 63, TR 488),
       (64, 64, TR 38), (65, 90, ST 467), (95, 95, ST 467), (97, 122, ST 467), (126, 126, ST 467)],
     Tr 475 [U_mark] 31,
     St 31 False [(48, 57, ST 32), (65, 70, ST 32), (97, 102, ST 32)],
     St 32 False [(48, 57, ST 467), (65, 70, ST 467), (97, 102, ST 467)]]"

definition uri_items_8 :: "uri_action item list" where
  "uri_items_8 =
    [Tr 481 [U_mark, U_save_host] 468,
     Tr 499 [U_save_host] 468,
     St 468 False [(33, 33, ST 33), (35, 35, TR 489), (36, 36, ST 33), (37, 37, ST 34), (38, 46, ST 33),
       (47, 47, TR 490), (48, 57, TR 500), (58, 59, ST 33), (61, 61, ST 33), (63, 63, TR 492), (64, 64, TR 38),
       (65, 90, ST 33), (95, 95, ST 33), (97, 122, ST 33), (126, 126, ST 33)],
     St 33 False [(33, 33, ST 33), (36, 36, ST 33), (37, 37, ST 34), (38, 46, ST 33), (48, 59, ST 33),
       (61, 61, ST 33), (64, 64, TR 38), (65, 90, ST 33), (95, 95, ST 33), (97, 122, ST 33), (126, 126, ST 33)],
     St 34 False [(48, 57, ST 35), (65, 70, ST 35), (97, 102, ST 35)],
     St 35 False [(48, 57, ST 33), (65, 70, ST 33), (97, 102, ST 33)],
     Tr 38 [U_save_userinfo] 469,
     Tr 483 [U_mark, U_save_userinfo] 469]"

definition uri_items_9 :: "uri_action item list" where
  "uri_items_9 =
    [St 469 False [(2, 2, TR 472), (33, 33, TR 501), (35, 35, TR 474), (36, 36, TR 501), (37, 37, TR 502),
       (38, 46, TR 501), (47, 47, TR 476), (48, 48, TR 503), (49, 49, TR 504), (50, 50, TR 505), (51, 57, TR 506),
       (58, 58, TR 507), (59, 59, TR 501), (61, 61, TR 501), (63, 63, TR 482), (65, 90, TR 501), (91, 91, TR 484),
       (95, 95, TR 501), (97, 122, TR 501), (126, 126, TR 501)],
     Tr 501 [U_mark] 470,
     St 470 False [(33, 33, ST 470), (35, 35, TR 485), (36, 36, ST 470), (37, 37, ST 36), (38, 46, ST 470),
       (47, 47, TR 486), (48, 57, ST 470), (58, 58, TR 487), (59, 59, ST 470), (61, 61, ST 470), (63, 63, TR 488),
       (65, 90, ST 470), (95, 95, ST 470), (97, 122, ST 470), (126, 126, ST 470)],
     Tr 502 [U_mark] 36,
     St 36 False [(48, 57, ST 37), (65, 70, ST 37), (97, 102, ST 37)],
     St 37 False [(48, 57, ST 470), (65, 70, ST 470), (97, 102, ST 470)],
     Tr 503 [U_mark] 471,
     St 471 False [(33, 33, ST 470), (35, 35, TR 485), (36, 36, ST 470), (37, 37, ST 36), (38, 45, ST 470),
       (46, 46, ST 472), (47, 47, TR 486), (48, 57, ST 470), (58, 58, TR 487), (59, 59, ST 470), (61, 61, ST 470),
       (63, 63, TR 488), (65, 90, ST 470), (95, 95, ST 470), (97, 122, ST 470), (126, 126, ST 470)]]"

definition uri_items_10 :: "uri_action item list" where
  "uri_items_10 =
    [St 472 False [(2, 2, ST 13), (33, 33, ST 470), (35, 35, TR 485), (36, 36, ST 470), (37, 37, ST 36),
       (38, 46, ST 470), (47, 47, TR 486), (48, 48, ST 473), (49, 49, ST 481), (50, 50, ST 483), (51, 57, ST 482),
       (58, 58, TR 487), (59, 59, ST 470), (61, 61, ST 470), (63, 63, TR 488), (65, 90, ST 470), (95, 95, ST 470),
       (97, 122, ST 470), (126, 126, ST 470)],
     St 473 False [(33, 33, ST 470), (35, 35, TR 485), (36, 36, ST 470), (37, 37, ST 36), (38, 45, ST 470),
       (46, 46, ST 474), (47, 47, TR 486), (48, 57, ST 470), (58, 58, TR 487), (59, 59, ST 470), (61, 61, ST 470),
       (63, 63, TR 488), (65, 90, ST 470), (95, 95, ST 470), (97, 122, ST 470), (126, 126, ST 470)],
     St 474 False [(2, 2, ST 17), (33, 33, ST 470), (35, 35, TR 485), (36, 36, ST 470), (37, 37, ST 36),
       (38, 46, ST 470), (47, 47, TR 486), (48, 48, ST 475), (49, 49, ST 477), (50, 50, ST 479), (51, 57, ST 478),
       (58, 58, TR 487), (59, 59, ST 470), (61, 61, ST 470), (63, 63, TR 488), (65, 90, ST 470), (95, 95, ST 470),
       (97, 122, ST 470), (126, 126, ST 470)],
     St 475 False [(33, 33, ST 470), (35, 35, TR 485), (36, 36, ST 470), (37, 37, ST 36), (38, 45, ST 470),
       (46, 46, ST 476), (47, 47, TR 486), (48, 57, ST 470), (58, 58, TR 487), (59, 59, ST 470), (61, 61, ST 470),
       (63, 63, TR 488), (65, 90, ST 470), (95, 95, ST 470), (97, 122, ST 470), (126, 126, ST 470)],
     St 476 False [(2, 2, ST 21), (33, 33, ST 470), (35, 35, TR 485), (36, 36, ST 470), (37, 37, ST 36),
       (38, 46, ST 470), (47, 47, TR 486), (48, 57, ST 470), (58, 58, TR 487), (59, 59, ST 470), (61, 61, ST 470),
       (63, 63, TR 488), (65, 90, ST 470), (95, 95, ST 470), (97, 122, ST 470), (126, 126, ST 470)]]"

definition uri_items_11 :: "uri_action item list" where
  "uri_items_11 =
    [St 477 False [(33, 33, ST 470), (35, 35, TR 485), (36, 36, ST 470), (37, 37, ST 36), (38, 45, ST 470),
       (46, 46, ST 476), (47, 47, TR 486), (48, 57, ST 478), (58, 58, TR 487), (59, 59, ST 470), (61, 61, ST 470),
       (63, 63, TR 488), (65, 90, ST 470), (95, 95, ST 470), (97, 122, ST 470), (126, 126, ST 470)],
     St 478 False [(33, 33, ST 470), (35, 35, TR 485), (36, 36, ST 470), (37, 37, ST 36), (38, 45, ST 470),
       (46, 46, ST 476), (47, 47, TR 486), (48, 57, ST 475), (58, 58, TR 487), (59, 59, ST 470), (61, 61, ST 470),
       (63, 63, TR 488), (65, 90, ST 470), (95, 95, ST 470), (97, 122, ST 470), (126, 126, ST 470)],
     St 479 False [(33, 33, ST 470), (35, 35, TR 485), (36, 36, ST 470), (37, 37, ST 36), (38, 45, ST 470),
       (46, 46, ST 476), (47, 47, TR 486), (48, 52, ST 475), (53, 53, ST 480), (54, 57, ST 475), (58, 58, TR 487),
       (59, 59, ST 470), (61, 61, ST 470), (63, 63, TR 488), (65, 90, ST 470), (95, 95, ST 470), (97, 122, ST 470),
       (126, 126, ST 470)],
     St 480 False [(33, 33, ST 470), (35, 35, TR 485), (36, 36, ST 470), (37, 37, ST 36), (38, 45, ST 470),
       (46, 46, ST 476), (47, 47, TR 486), (48, 53, ST 475), (54, 57, ST 470), (58, 58, TR 487), (59, 59, ST 470),
       (61, 61, ST 470), (63, 63, TR 488), (65, 90, ST 470), (95, 95, ST 470), (97, 122, ST 470), (126, 126, ST 470)],
     St 481 False [(33, 33, ST 470), (35, 35, TR 485), (36, 36, ST 470), (37, 37, ST 36), (38, 45, ST 470),
       (46, 46, ST 474), (47, 47, TR 486), (48, 57, ST 482), (58, 58, TR 487), (59, 59, ST 470), (61, 61, ST 470),
       (63, 63, TR 488), (65, 90, ST 470), (95, 95, ST 470), (97, 122, ST 470), (126, 126, ST 470)]]"

definition uri_items_12 :: "uri_action item list" where
  "uri_items_12 =
    [St 482 False [(33, 33, ST 470), (35, 35, TR 485), (36, 36, ST 470), (37, 37, ST 36), (38, 45, ST 470),
       (46, 46, ST 474), (47, 47, TR 486), (48, 57, ST 473), (58, 58, TR 487), (59, 59, ST 470), (61, 61, ST 470),
       (63, 63, TR 488), (65, 90, ST 470), (95, 95, ST 470), (97, 122, ST 470), (126, 126, ST 470)],
     St 483 False [(33, 33, ST 470), (35, 35, TR 485), (36, 36, ST 470), (37, 37, ST 36), (38, 45, ST 470),
       (46, 46, ST 474), (47, 47, TR 486), (48, 52, ST 473), (53, 53, ST 484), (54, 57, ST 473), (58, 58, TR 487),
       (59, 59, ST 470), (61, 61, ST 470), (63, 63, TR 488), (65, 90, ST 470), (95, 95, ST 470), (97, 122, ST 470),
       (126, 126, ST 470)],
     St 484 False [(33, 33, ST 470), (35, 35, TR 485), (36, 36, ST 470), (37, 37, ST 36), (38, 45, ST 470),
       (46, 46, ST 474), (47, 47, TR 486), (48, 53, ST 473), (54, 57, ST 470), (58, 58, TR 487), (59, 59, ST 470),
       (61, 61, ST 470), (63, 63, TR 488), (65, 90, ST 470), (95, 95, ST 470), (97, 122, ST 470), (126, 126, ST 470)],
     Tr 504 [U_mark] 485,
     St 485 False [(33, 33, ST 470), (35, 35, TR 485), (36, 36, ST 470), (37, 37, ST 36), (38, 45, ST 470),
       (46, 46, ST 472), (47, 47, TR 486), (48, 57, ST 486), (58, 58, TR 487), (59, 59, ST 470), (61, 61, ST 470),
       (63, 63, TR 488), (65, 90, ST 470), (95, 95, ST 470), (97, 122, ST 470), (126, 126, ST 470)],
     Tr 506 [U_mark] 486]"

definition uri_items_13 :: "uri_action item list" where
  "uri_items_13 =
    [St 486 False [(33, 33, ST 470), (35, 35, TR 485), (36, 36, ST 470), (37, 37, ST 36), (38, 45, ST 470),
       (46, 46, ST 472), (47, 47, TR 486), (48, 57, ST 471), (58, 58, TR 487), (59, 59, ST 470), (61, 61, ST 470),
       (63, 63, TR 488), (65, 90, ST 470), (95, 95, ST 470), (97, 122, ST 470), (126, 126, ST 470)],
     Tr 505 [U_mark] 487,
     St 487 False [(33, 33, ST 470), (35, 35, TR 485), (36, 36, ST 470), (37, 37, ST 36), (38, 45, ST 470),
       (46, 46, ST 472), (47, 47, TR 486), (48, 52, ST 471), (53, 53, ST 488), (54, 57, ST 471), (58, 58, TR 487),
       (59, 59, ST 470), (61, 61, ST 470), (63, 63, TR 488), (65, 90, ST 470), (95, 95, ST 470), (97, 122, ST 470),
       (126, 126, ST 470)],
     St 488 False [(33, 33, ST 470), (35, 35, TR 485), (36, 36, ST 470), (37, 37, ST 36), (38, 45, ST 470),
       (46, 46, ST 472), (47, 47, TR 486), (48, 53, ST 471), (54, 57, ST 470), (58, 58, TR 487), (59, 59, ST 470),
       (61, 61, ST 470), (63, 63, TR 488), (65, 90, ST 470), (95, 95, ST 470), (97, 122, ST 470), (126, 126, ST 470)],
     Tr 484 [U_mark] 38,
     St 38 False [(48, 57, ST 39), (58, 58, ST 146), (65, 70, ST 39), (97, 102, ST 39), (118, 118, ST 225)],
     St 39 False [(48, 57, ST 40), (58, 58, ST 43), (65, 70, ST 40), (97, 102, ST 40)],
     St 40 False [(48, 57, ST 41), (58, 58, ST 43), (65, 70, ST 41), (97, 102, ST 41)]]"

definition uri_items_14 :: "uri_action item list" where
  "uri_items_14 =
    [St 41 False [(48, 57, ST 42), (58, 58, ST 43), (65, 70, ST 42), (97, 102, ST 42)],
     St 42 False [(58, 58, ST 43)],
     St 43 False [(48, 57, ST 44), (58, 58, ST 141), (65, 70, ST 44), (97, 102, ST 44)],
     St 44 False [(48, 57, ST 45), (58, 58, ST 48), (65, 70, ST 45), (97, 102, ST 45)],
     St 45 False [(48, 57, ST 46), (58, 58, ST 48), (65, 70, ST 46), (97, 102, ST 46)],
     St 46 False [(48, 57, ST 47), (58, 58, ST 48), (65, 70, ST 47), (97, 102, ST 47)],
     St 47 False [(58, 58, ST 48)],
     St 48 False [(48, 57, ST 49), (58, 58, ST 136), (65, 70, ST 49), (97, 102, ST 49)],
     St 49 False [(48, 57, ST 50), (58, 58, ST 53), (65, 70, ST 50), (97, 102, ST 50)],
     St 50 False [(48, 57, ST 51), (58, 58, ST 53), (65, 70, ST 51), (97, 102, ST 51)],
     St 51 False [(48, 57, ST 52), (58, 58, ST 53), (65, 70, ST 52), (97, 102, ST 52)]]"

definition uri_items_15 :: "uri_action item list" where
  "uri_items_15 =
    [St 52 False [(58, 58, ST 53)],
     St 53 False [(48, 57, ST 54), (58, 58, ST 131), (65, 70, ST 54), (97, 102, ST 54)],
     St 54 False [(48, 57, ST 55), (58, 58, ST 58), (65, 70, ST 55), (97, 102, ST 55)],
     St 55 False [(48, 57, ST 56), (58, 58, ST 58), (65, 70, ST 56), (97, 102, ST 56)],
     St 56 False [(48, 57, ST 57), (58, 58, ST 58), (65, 70, ST 57), (97, 102, ST 57)],
     St 57 False [(58, 58, ST 58)],
     St 58 False [(48, 57, ST 59), (58, 58, ST 126), (65, 70, ST 59), (97, 102, ST 59)],
     St 59 False [(48, 57, ST 60), (58, 58, ST 63), (65, 70, ST 60), (97, 102, ST 60)],
     St 60 False [(48, 57, ST 61), (58, 58, ST 63), (65, 70, ST 61), (97, 102, ST 61)],
     St 61 False [(48, 57, ST 62), (58, 58, ST 63), (65, 70, ST 62), (97, 102, ST 62)],
     St 62 False [(58, 58, ST 63)]]"

definition uri_items_16 :: "uri_action item list" where
  "uri_items_16 =
    [St 63 False [(48, 57, ST 64), (58, 58, ST 113), (65, 70, ST 64), (97, 102, ST 64)],
     St 64 False [(48, 57, ST 65), (58, 58, ST 68), (65, 70, ST 65), (97, 102, ST 65)],
     St 65 False [(48, 57, ST 66), (58, 58, ST 68), (65, 70, ST 66), (97, 102, ST 66)],
     St 66 False [(48, 57, ST 67), (58, 58, ST 68), (65, 70, ST 67), (97, 102, ST 67)],
     St 67 False [(58, 58, ST 68)],
     St 68 False [(2, 2, ST 69), (48, 48, ST 96), (49, 49, ST 104), (50, 50, ST 107), (51, 57, ST 110),
       (58, 58, ST 111), (65, 70, ST 112), (97, 102, ST 112)],
     St 69 False [(48, 52, ST 70)],
     St 70 False [(48, 57, ST 71)],
     St 71 False [(46, 46, ST 72)],
     St 72 False [(2, 2, ST 73), (48, 48, ST 75), (49, 49, ST 92), (50, 50, ST 94), (51, 57, ST 93)],
     St 73 False [(48, 52, ST 74)],
     St 74 False [(48, 57, ST 75)],
     St 75 False [(46, 46, ST 76)]]"

definition uri_items_17 :: "uri_action item list" where
  "uri_items_17 =
    [St 76 False [(2, 2, ST 77), (48, 48, ST 79), (49, 49, ST 88), (50, 50, ST 90), (51, 57, ST 89)],
     St 77 False [(48, 52, ST 78)],
     St 78 False [(48, 57, ST 79)],
     St 79 False [(46, 46, ST 80)],
     St 80 False [(2, 2, ST 81), (48, 48, ST 83), (49, 49, ST 84), (50, 50, ST 86), (51, 57, ST 85)],
     St 81 False [(48, 52, ST 82)],
     St 82 False [(48, 57, ST 83)],
     St 83 False [(93, 93, ST 460)],
     St 84 False [(48, 57, ST 85), (93, 93, ST 460)],
     St 85 False [(48, 57, ST 83), (93, 93, ST 460)],
     St 86 False [(48, 52, ST 83), (53, 53, ST 87), (54, 57, ST 83), (93, 93, ST 460)],
     St 87 False [(48, 53, ST 83), (93, 93, ST 460)],
     St 88 False [(46, 46, ST 80), (48, 57, ST 89)],
     St 89 False [(46, 46, ST 80), (48, 57, ST 79)],
     St 90 False [(46, 46, ST 80), (48, 52, ST 79), (53, 53, ST 91), (54, 57, ST 79)],
     St 91 False [(46, 46, ST 80), (48, 53, ST 79)]]"

definition uri_items_18 :: "uri_action item list" where
  "uri_items_18 =
    [St 92 False [(46, 46, ST 76), (48, 57, ST 93)],
     St 93 False [(46, 46, ST 76), (48, 57, ST 75)],
     St 94 False [(46, 46, ST 76), (48, 52, ST 75), (53, 53, ST 95), (54, 57, ST 75)],
     St 95 False [(46, 46, ST 76), (48, 53, ST 75)],
     St 96 False [(46, 46, ST 72), (48, 57, ST 97), (58, 58, ST 100), (65, 70, ST 97), (97, 102, ST 97)],
     St 97 False [(48, 57, ST 98), (58, 58, ST 100), (65, 70, ST 98), (97, 102, ST 98)],
     St 98 False [(48, 57, ST 99), (58, 58, ST 100), (65, 70, ST 99), (97, 102, ST 99)],
     St 99 False [(58, 58, ST 100)],
     St 100 False [(48, 57, ST 101), (58, 58, ST 83), (65, 70, ST 101), (97, 102, ST 101)],
     St 101 False [(48, 57, ST 102), (65, 70, ST 102), (93, 93, ST 460), (97, 102, ST 102)],
     St 102 False [(48, 57, ST 103), (65, 70, ST 103), (93, 93, ST 460), (97, 102, ST 103)]]"

definition uri_items_19 :: "uri_action item list" where
  "uri_items_19 =
    [St 103 False [(48, 57, ST 83), (65, 70, ST 83), (93, 93, ST 460), (97, 102, ST 83)],
     St 104 False [(46, 46, ST 72), (48, 57, ST 105), (58, 58, ST 100), (65, 70, ST 97), (97, 102, ST 97)],
     St 105 False [(46, 46, ST 72), (48, 57, ST 106), (58, 58, ST 100), (65, 70, ST 98), (97, 102, ST 98)],
     St 106 False [(46, 46, ST 72), (48, 57, ST 99), (58, 58, ST 100), (65, 70, ST 99), (97, 102, ST 99)],
     St 107 False [(46, 46, ST 72), (48, 52, ST 108), (53, 53, ST 109), (54, 57, ST 108), (58, 58, ST 100),
       (65, 70, ST 97), (97, 102, ST 97)],
     St 108 False [(46, 46, ST 72), (48, 57, ST 98), (58, 58, ST 100), (65, 70, ST 98), (97, 102, ST 98)],
     St 109 False [(46, 46, ST 72), (48, 53, ST 106), (54, 57, ST 98), (58, 58, ST 100), (65, 70, ST 98),
       (97, 102, ST 98)],
     St 110 False [(46, 46, ST 72), (48, 57, ST 108), (58, 58, ST 100), (65, 70, ST 97), (97, 102, ST 97)]]"

definition uri_items_20 :: "uri_action item list" where
  "uri_items_20 =
    [St 111 False [(48, 57, ST 101), (65, 70, ST 101), (97, 102, ST 101)],
     St 112 False [(48, 57, ST 97), (58, 58, ST 100), (65, 70, ST 97), (97, 102, ST 97)],
     St 113 False [(2, 2, ST 69), (48, 48, ST 114), (49, 49, ST 118), (50, 50, ST 121), (51, 57, ST 124),
       (65, 70, ST 125), (97, 102, ST 125)],
     St 114 False [(46, 46, ST 72), (48, 57, ST 115), (58, 58, ST 111), (65, 70, ST 115), (97, 102, ST 115)],
     St 115 False [(48, 57, ST 116), (58, 58, ST 111), (65, 70, ST 116), (97, 102, ST 116)],
     St 116 False [(48, 57, ST 117), (58, 58, ST 111), (65, 70, ST 117), (97, 102, ST 117)],
     St 117 False [(58, 58, ST 111)],
     St 118 False [(46, 46, ST 72), (48, 57, ST 119), (58, 58, ST 111), (65, 70, ST 115), (97, 102, ST 115)],
     St 119 False [(46, 46, ST 72), (48, 57, ST 120), (58, 58, ST 111), (65, 70, ST 116), (97, 102, ST 116)]]"

definition uri_items_21 :: "uri_action item list" where
  "uri_items_21 =
    [St 120 False [(46, 46, ST 72), (48, 57, ST 117), (58, 58, ST 111), (65, 70, ST 117), (97, 102, ST 117)],
     St 121 False [(46, 46, ST 72), (48, 52, ST 122), (53, 53, ST 123), (54, 57, ST 122), (58, 58, ST 111),
       (65, 70, ST 115), (97, 102, ST 115)],
     St 122 False [(46, 46, ST 72), (48, 57, ST 116), (58, 58, ST 111), (65, 70, ST 116), (97, 102, ST 116)],
     St 123 False [(46, 46, ST 72), (48, 53, ST 120), (54, 57, ST 116), (58, 58, ST 111), (65, 70, ST 116),
       (97, 102, ST 116)],
     St 124 False [(46, 46, ST 72), (48, 57, ST 122), (58, 58, ST 111), (65, 70, ST 115), (97, 102, ST 115)],
     St 125 False [(48, 57, ST 115), (58, 58, ST 111), (65, 70, ST 115), (97, 102, ST 115)],
     St 126 False [(48, 57, ST 127), (65, 70, ST 127), (97, 102, ST 127)],
     St 127 False [(48, 57, ST 128), (58, 58, ST 113), (65, 70, ST 128), (97, 102, ST 128)],
     St 128 False [(48, 57, ST 129), (58, 58, ST 113), (65, 70, ST 129), (97, 102, ST 129)]]"

definition uri_items_22 :: "uri_action item list" where
  "uri_items_22 =
    [St 129 False [(48, 57, ST 130), (58, 58, ST 113), (65, 70, ST 130), (97, 102, ST 130)],
     St 130 False [(58, 58, ST 113)],
     St 131 False [(48, 57, ST 132), (65, 70, ST 132), (97, 102, ST 132)],
     St 132 False [(48, 57, ST 133), (58, 58, ST 126), (65, 70, ST 133), (97, 102, ST 133)],
     St 133 False [(48, 57, ST 134), (58, 58, ST 126), (65, 70, ST 134), (97, 102, ST 134)],
     St 134 False [(48, 57, ST 135), (58, 58, ST 126), (65, 70, ST 135), (97, 102, ST 135)],
     St 135 False [(58, 58, ST 126)],
     St 136 False [(48, 57, ST 137), (65, 70, ST 137), (97, 102, ST 137)],
     St 137 False [(48, 57, ST 138), (58, 58, ST 131), (65, 70, ST 138), (97, 102, ST 138)],
     St 138 False [(48, 57, ST 139), (58, 58, ST 131), (65, 70, ST 139), (97, 102, ST 139)],
     St 139 False [(48, 57, ST 140), (58, 58, ST 131), (65, 70, ST 140), (97, 102, ST 140)]]"

definition uri_items_23 :: "uri_action item list" where
  "uri_items_23 =
    [St 140 False [(58, 58, ST 131)],
     St 141 False [(48, 57, ST 142), (65, 70, ST 142), (97, 102, ST 142)],
     St 142 False [(48, 57, ST 143), (58, 58, ST 136), (65, 70, ST 143), (97, 102, ST 143)],
     St 143 False [(48, 57, ST 144), (58, 58, ST 136), (65, 70, ST 144), (97, 102, ST 144)],
     St 144 False [(48, 57, ST 145), (58, 58, ST 136), (65, 70, ST 145), (97, 102, ST 145)],
     St 145 False [(58, 58, ST 136)],
     St 146 False [(58, 58, ST 147)],
     St 147 False [(2, 2, ST 69), (48, 48, ST 148), (49, 49, ST 217), (50, 50, ST 220), (51, 57, ST 223),
       (65, 70, ST 224), (93, 93, ST 460), (97, 102, ST 224)],
     St 148 False [(46, 46, ST 72), (48, 57, ST 149), (58, 58, ST 152), (65, 70, ST 149), (93, 93, ST 460),
       (97, 102, ST 149)],
     St 149 False [(48, 57, ST 150), (58, 58, ST 152), (65, 70, ST 150), (93, 93, ST 460), (97, 102, ST 150)]]"

definition uri_items_24 :: "uri_action item list" where
  "uri_items_24 =
    [St 150 False [(48, 57, ST 151), (58, 58, ST 152), (65, 70, ST 151), (93, 93, ST 460), (97, 102, ST 151)],
     St 151 False [(58, 58, ST 152), (93, 93, ST 460)],
     St 152 False [(2, 2, ST 69), (48, 48, ST 153), (49, 49, ST 209), (50, 50, ST 212), (51, 57, ST 215),
       (65, 70, ST 216), (97, 102, ST 216)],
     St 153 False [(46, 46, ST 72), (48, 57, ST 154), (58, 58, ST 157), (65, 70, ST 154), (93, 93, ST 460),
       (97, 102, ST 154)],
     St 154 False [(48, 57, ST 155), (58, 58, ST 157), (65, 70, ST 155), (93, 93, ST 460), (97, 102, ST 155)],
     St 155 False [(48, 57, ST 156), (58, 58, ST 157), (65, 70, ST 156), (93, 93, ST 460), (97, 102, ST 156)],
     St 156 False [(58, 58, ST 157), (93, 93, ST 460)],
     St 157 False [(2, 2, ST 69), (48, 48, ST 158), (49, 49, ST 201), (50, 50, ST 204), (51, 57, ST 207),
       (65, 70, ST 208), (97, 102, ST 208)],
     St 158 False [(46, 46, ST 72), (48, 57, ST 159), (58, 58, ST 162), (65, 70, ST 159), (93, 93, ST 460),
       (97, 102, ST 159)]]"

definition uri_items_25 :: "uri_action item list" where
  "uri_items_25 =
    [St 159 False [(48, 57, ST 160), (58, 58, ST 162), (65, 70, ST 160), (93, 93, ST 460), (97, 102, ST 160)],
     St 160 False [(48, 57, ST 161), (58, 58, ST 162), (65, 70, ST 161), (93, 93, ST 460), (97, 102, ST 161)],
     St 161 False [(58, 58, ST 162), (93, 93, ST 460)],
     St 162 False [(2, 2, ST 69), (48, 48, ST 163), (49, 49, ST 193), (50, 50, ST 196), (51, 57, ST 199),
       (65, 70, ST 200), (97, 102, ST 200)],
     St 163 False [(46, 46, ST 72), (48, 57, ST 164), (58, 58, ST 167), (65, 70, ST 164), (93, 93, ST 460),
       (97, 102, ST 164)],
     St 164 False [(48, 57, ST 165), (58, 58, ST 167), (65, 70, ST 165), (93, 93, ST 460), (97, 102, ST 165)],
     St 165 False [(48, 57, ST 166), (58, 58, ST 167), (65, 70, ST 166), (93, 93, ST 460), (97, 102, ST 166)],
     St 166 False [(58, 58, ST 167), (93, 93, ST 460)],
     St 167 False [(2, 2, ST 69), (48, 48, ST 168), (49, 49, ST 185), (50, 50, ST 188), (51, 57, ST 191),
       (65, 70, ST 192), (97, 102, ST 192)]]"

definition uri_items_26 :: "uri_action item list" where
  "uri_items_26 =
    [St 168 False [(46, 46, ST 72), (48, 57, ST 169), (58, 58, ST 172), (65, 70, ST 169), (93, 93, ST 460),
       (97, 102, ST 169)],
     St 169 False [(48, 57, ST 170), (58, 58, ST 172), (65, 70, ST 170), (93, 93, ST 460), (97, 102, ST 170)],
     St 170 False [(48, 57, ST 171), (58, 58, ST 172), (65, 70, ST 171), (93, 93, ST 460), (97, 102, ST 171)],
     St 171 False [(58, 58, ST 172), (93, 93, ST 460)],
     St 172 False [(2, 2, ST 69), (48, 48, ST 173), (49, 49, ST 177), (50, 50, ST 180), (51, 57, ST 183),
       (65, 70, ST 184), (97, 102, ST 184)],
     St 173 False [(46, 46, ST 72), (48, 57, ST 174), (58, 58, ST 111), (65, 70, ST 174), (93, 93, ST 460),
       (97, 102, ST 174)],
     St 174 False [(48, 57, ST 175), (58, 58, ST 111), (65, 70, ST 175), (93, 93, ST 460), (97, 102, ST 175)],
     St 175 False [(48, 57, ST 176), (58, 58, ST 111), (65, 70, ST 176), (93, 93, ST 460), (97, 102, ST 176)],
     St 176 False [(58, 58, ST 111), (93, 93, ST 460)]]"

definition uri_items_27 :: "uri_action item list" where
  "uri_items_27 =
    [St 177 False [(46, 46, ST 72), (48, 57, ST 178), (58, 58, ST 111), (65, 70, ST 174), (93, 93, ST 460),
       (97, 102, ST 174)],
     St 178 False [(46, 46, ST 72), (48, 57, ST 179), (58, 58, ST 111), (65, 70, ST 175), (93, 93, ST 460),
       (97, 102, ST 175)],
     St 179 False [(46, 46, ST 72), (48, 57, ST 176), (58, 58, ST 111), (65, 70, ST 176), (93, 93, ST 460),
       (97, 102, ST 176)],
     St 180 False [(46, 46, ST 72), (48, 52, ST 181), (53, 53, ST 182), (54, 57, ST 181), (58, 58, ST 111),
       (65, 70, ST 174), (93, 93, ST 460), (97, 102, ST 174)],
     St 181 False [(46, 46, ST 72), (48, 57, ST 175), (58, 58, ST 111), (65, 70, ST 175), (93, 93, ST 460),
       (97, 102, ST 175)],
     St 182 False [(46, 46, ST 72), (48, 53, ST 179), (54, 57, ST 175), (58, 58, ST 111), (65, 70, ST 175),
       (93, 93, ST 460), (97, 102, ST 175)],
     St 183 False [(46, 46, ST 72), (48, 57, ST 181), (58, 58, ST 111), (65, 70, ST 174), (93, 93, ST 460),
       (97, 102, ST 174)],
     St 184 False [(48, 57, ST 174), (58, 58, ST 111), (65, 70, ST 174), (93, 93, ST 460), (97, 102, ST 174)]]"

definition uri_items_28 :: "uri_action item list" where
  "uri_items_28 =
    [St 185 False [(46, 46, ST 72), (48, 57, ST 186), (58, 58, ST 172), (65, 70, ST 169), (93, 93, ST 460),
       (97, 102, ST 169)],
     St 186 False [(46, 46, ST 72), (48, 57, ST 187), (58, 58, ST 172), (65, 70, ST 170), (93, 93, ST 460),
       (97, 102, ST 170)],
     St 187 False [(46, 46, ST 72), (48, 57, ST 171), (58, 58, ST 172), (65, 70, ST 171), (93, 93, ST 460),
       (97, 102, ST 171)],
     St 188 False [(46, 46, ST 72), (48, 52, ST 189), (53, 53, ST 190), (54, 57, ST 189), (58, 58, ST 172),
       (65, 70, ST 169), (93, 93, ST 460), (97, 102, ST 169)],
     St 189 False [(46, 46, ST 72), (48, 57, ST 170), (58, 58, ST 172), (65, 70, ST 170), (93, 93, ST 460),
       (97, 102, ST 170)],
     St 190 False [(46, 46, ST 72), (48, 53, ST 187), (54, 57, ST 170), (58, 58, ST 172), (65, 70, ST 170),
       (93, 93, ST 460), (97, 102, ST 170)],
     St 191 False [(46, 46, ST 72), (48, 57, ST 189), (58, 58, ST 172), (65, 70, ST 169), (93, 93, ST 460),
       (97, 102, ST 169)],
     St 192 False [(48, 57, ST 169), (58, 58, ST 172), (65, 70, ST 169), (93, 93, ST 460), (97, 102, ST 169)]]"

definition uri_items_29 :: "uri_action item list" where
  "uri_items_29 =
    [St 193 False [(46, 46, ST 72), (48, 57, ST 194), (58, 58, ST 167), (65, 70, ST 164), (93, 93, ST 460),
       (97, 102, ST 164)],
     St 194 False [(46, 46, ST 72), (48, 57, ST 195), (58, 58, ST 167), (65, 70, ST 165), (93, 93, ST 460),
       (97, 102, ST 165)],
     St 195 False [(46, 46, ST 72), (48, 57, ST 166), (58, 58, ST 167), (65, 70, ST 166), (93, 93, ST 460),
       (97, 102, ST 166)],
     St 196 False [(46, 46, ST 72), (48, 52, ST 197), (53, 53, ST 198), (54, 57, ST 197), (58, 58, ST 167),
       (65, 70, ST 164), (93, 93, ST 460), (97, 102, ST 164)],
     St 197 False [(46, 46, ST 72), (48, 57, ST 165), (58, 58, ST 167), (65, 70, ST 165), (93, 93, ST 460),
       (97, 102, ST 165)],
     St 198 False [(46, 46, ST 72), (48, 53, ST 195), (54, 57, ST 165), (58, 58, ST 167), (65, 70, ST 165),
       (93, 93, ST 460), (97, 102, ST 165)],
     St 199 False [(46, 46, ST 72), (48, 57, ST 197), (58, 58, ST 167), (65, 70, ST 164), (93, 93, ST 460),
       (97, 102, ST 164)],
     St 200 False [(48, 57, ST 164), (58, 58, ST 167), (65, 70, ST 164), (93, 93, ST 460), (97, 102, ST 164)]]"

definition uri_items_30 :: "uri_action item list" where
  "uri_items_30 =
    [St 201 False [(46, 46, ST 72), (48, 57, ST 202), (58, 58, ST 162), (65, 70, ST 159), (93, 93, ST 460),
       (97, 102, ST 159)],
     St 202 False [(46, 46, ST 72), (48, 57, ST 203), (58, 58, ST 162), (65, 70, ST 160), (93, 93, ST 460),
       (97, 102, ST 160)],
     St 203 False [(46, 46, ST 72), (48, 57, ST 161), (58, 58, ST 162), (65, 70, ST 161), (93, 93, ST 460),
       (97, 102, ST 161)],
     St 204 False [(46, 46, ST 72), (48, 52, ST 205), (53, 53, ST 206), (54, 57, ST 205), (58, 58, ST 162),
       (65, 70, ST 159), (93, 93, ST 460), (97, 102, ST 159)],
     St 205 False [(46, 46, ST 72), (48, 57, ST 160), (58, 58, ST 162), (65, 70, ST 160), (93, 93, ST 460),
       (97, 102, ST 160)],
     St 206 False [(46, 46, ST 72), (48, 53, ST 203), (54, 57, ST 160), (58, 58, ST 162), (65, 70, ST 160),
       (93, 93, ST 460), (97, 102, ST 160)],
     St 207 False [(46, 46, ST 72), (48, 57, ST 205), (58, 58, ST 162), (65, 70, ST 159), (93, 93, ST 460),
       (97, 102, ST 159)],
     St 208 False [(48, 57, ST 159), (58, 58, ST 162), (65, 70, ST 159), (93, 93, ST 460), (97, 102, ST 159)]]"

definition uri_items_31 :: "uri_action item list" where
  "uri_items_31 =
    [St 209 False [(46, 46, ST 72), (48, 57, ST 210), (58, 58, ST 157), (65, 70, ST 154), (93, 93, ST 460),
       (97, 102, ST 154)],
     St 210 False [(46, 46, ST 72), (48, 57, ST 211), (58, 58, ST 157), (65, 70, ST 155), (93, 93, ST 460),
       (97, 102, ST 155)],
     St 211 False [(46, 46, ST 72), (48, 57, ST 156), (58, 58, ST 157), (65, 70, ST 156), (93, 93, ST 460),
       (97, 102, ST 156)],
     St 212 False [(46, 46, ST 72), (48, 52, ST 213), (53, 53, ST 214), (54, 57, ST 213), (58, 58, ST 157),
       (65, 70, ST 154), (93, 93, ST 460), (97, 102, ST 154)],
     St 213 False [(46, 46, ST 72), (48, 57, ST 155), (58, 58, ST 157), (65, 70, ST 155), (93, 93, ST 460),
       (97, 102, ST 155)],
     St 214 False [(46, 46, ST 72), (48, 53, ST 211), (54, 57, ST 155), (58, 58, ST 157), (65, 70, ST 155),
       (93, 93, ST 460), (97, 102, ST 155)],
     St 215 False [(46, 46, ST 72), (48, 57, ST 213), (58, 58, ST 157), (65, 70, ST 154), (93, 93, ST 460),
       (97, 102, ST 154)],
     St 216 False [(48, 57, ST 154), (58, 58, ST 157), (65, 70, ST 154), (93, 93, ST 460), (97, 102, ST 154)]]"

definition uri_items_32 :: "uri_action item list" where
  "uri_items_32 =
    [St 217 False [(46, 46, ST 72), (48, 57, ST 218), (58, 58, ST 152), (65, 70, ST 149), (93, 93, ST 460),
       (97, 102, ST 149)],
     St 218 False [(46, 46, ST 72), (48, 57, ST 219), (58, 58, ST 152), (65, 70, ST 150), (93, 93, ST 460),
       (97, 102, ST 150)],
     St 219 False [(46, 46, ST 72), (48, 57, ST 151), (58, 58, ST 152), (65, 70, ST 151), (93, 93, ST 460),
       (97, 102, ST 151)],
     St 220 False [(46, 46, ST 72), (48, 52, ST 221), (53, 53, ST 222), (54, 57, ST 221), (58, 58, ST 152),
       (65, 70, ST 149), (93, 93, ST 460), (97, 102, ST 149)],
     St 221 False [(46, 46, ST 72), (48, 57, ST 150), (58, 58, ST 152), (65, 70, ST 150), (93, 93, ST 460),
       (97, 102, ST 150)],
     St 222 False [(46, 46, ST 72), (48, 53, ST 219), (54, 57, ST 150), (58, 58, ST 152), (65, 70, ST 150),
       (93, 93, ST 460), (97, 102, ST 150)],
     St 223 False [(46, 46, ST 72), (48, 57, ST 221), (58, 58, ST 152), (65, 70, ST 149), (93, 93, ST 460),
       (97, 102, ST 149)],
     St 224 False [(48, 57, ST 149), (58, 58, ST 152), (65, 70, ST 149), (93, 93, ST 460), (97, 102, ST 149)]]"

definition uri_items_33 :: "uri_action item list" where
  "uri_items_33 =
    [St 225 False [(48, 57, ST 226), (65, 70, ST 226), (97, 102, ST 226)],
     St 226 False [(46, 46, ST 227), (48, 57, ST 226), (65, 70, ST 226), (97, 102, ST 226)],
     St 227 False [(33, 33, ST 228), (36, 36, ST 228), (38, 46, ST 228), (48, 59, ST 228), (61, 61, ST 228),
       (65, 90, ST 228), (95, 95, ST 228), (97, 122, ST 228), (126, 126, ST 228)],
     St 228 False [(33, 33, ST 228), (36, 36, ST 228), (38, 46, ST 228), (48, 59, ST 228), (61, 61, ST 228),
       (65, 90, ST 228), (93, 93, ST 460), (95, 95, ST 228), (97, 122, ST 228), (126, 126, ST 228)],
     Tr 500 [U_mark] 489,
     St 489 False [(33, 33, ST 33), (35, 35, TR 493), (36, 36, ST 33), (37, 37, ST 34), (38, 46, ST 33),
       (47, 47, TR 494), (48, 57, ST 489), (58, 59, ST 33), (61, 61, ST 33), (63, 63, TR 496), (64, 64, TR 38),
       (65, 90, ST 33), (95, 95, ST 33), (97, 122, ST 33), (126, 126, ST 33)],
     Tr 477 [U_mark] 490,
     St 490 False [(33, 33, ST 467), (35, 35, TR 485), (36, 36, ST 467), (37, 37, ST 31), (38, 45, ST 467),
       (46, 46, ST 491), (47, 47, TR 486), (48, 57, ST 467), (58, 58, TR 499), (59, 59, ST 467), (61, 61, ST 467),
       (63, 63, TR 488), (64, 64, TR 38), (65, 90, ST 467), (95, 95, ST 467), (97, 122, ST 467), (126, 126, ST 467)]]"

definition uri_items_34 :: "uri_action item list" where
  "uri_items_34 =
    [St 491 False [(2, 2, ST 13), (33, 33, ST 467), (35, 35, TR 485), (36, 36, ST 467), (37, 37, ST 31),
       (38, 46, ST 467), (47, 47, TR 486), (48, 48, ST 492), (49, 49, ST 500), (50, 50, ST 502), (51, 57, ST 501),
       (58, 58, TR 499), (59, 59, ST 467), (61, 61, ST 467), (63, 63, TR 488), (64, 64, TR 38), (65, 90, ST 467),
       (95, 95, ST 467), (97, 122, ST 467), (126, 126, ST 467)],
     St 492 False [(33, 33, ST 467), (35, 35, TR 485), (36, 36, ST 467), (37, 37, ST 31), (38, 45, ST 467),
       (46, 46, ST 493), (47, 47, TR 486), (48, 57, ST 467), (58, 58, TR 499), (59, 59, ST 467), (61, 61, ST 467),
       (63, 63, TR 488), (64, 64, TR 38), (65, 90, ST 467), (95, 95, ST 467), (97, 122, ST 467), (126, 126, ST 467)],
     St 493 False [(2, 2, ST 17), (33, 33, ST 467), (35, 35, TR 485), (36, 36, ST 467), (37, 37, ST 31),
       (38, 46, ST 467), (47, 47, TR 486), (48, 48, ST 494), (49, 49, ST 496), (50, 50, ST 498), (51, 57, ST 497),
       (58, 58, TR 499), (59, 59, ST 467), (61, 61, ST 467), (63, 63, TR 488), (64, 64, TR 38), (65, 90, ST 467),
       (95, 95, ST 467), (97, 122, ST 467), (126, 126, ST 467)],
     St 494 False [(33, 33, ST 467), (35, 35, TR 485), (36, 36, ST 467), (37, 37, ST 31), (38, 45, ST 467),
       (46, 46, ST 495), (47, 47, TR 486), (48, 57, ST 467), (58, 58, TR 499), (59, 59, ST 467), (61, 61, ST 467),
       (63, 63, TR 488), (64, 64, TR 38), (65, 90, ST 467), (95, 95, ST 467), (97, 122, ST 467), (126, 126, ST 467)],
     St 495 False [(2, 2, ST 21), (33, 33, ST 467), (35, 35, TR 485), (36, 36, ST 467), (37, 37, ST 31),
       (38, 46, ST 467), (47, 47, TR 486), (48, 57, ST 467), (58, 58, TR 499), (59, 59, ST 467), (61, 61, ST 467),
       (63, 63, TR 488), (64, 64, TR 38), (65, 90, ST 467), (95, 95, ST 467), (97, 122, ST 467), (126, 126, ST 467)]]"

definition uri_items_35 :: "uri_action item list" where
  "uri_items_35 =
    [St 496 False [(33, 33, ST 467), (35, 35, TR 485), (36, 36, ST 467), (37, 37, ST 31), (38, 45, ST 467),
       (46, 46, ST 495), (47, 47, TR 486), (48, 57, ST 497), (58, 58, TR 499), (59, 59, ST 467), (61, 61, ST 467),
       (63, 63, TR 488), (64, 64, TR 38), (65, 90, ST 467), (95, 95, ST 467), (97, 122, ST 467), (126, 126, ST 467)],
     St 497 False [(33, 33, ST 467), (35, 35, TR 485), (36, 36, ST 467), (37, 37, ST 31), (38, 45, ST 467),
       (46, 46, ST 495), (47, 47, TR 486), (48, 57, ST 494), (58, 58, TR 499), (59, 59, ST 467), (61, 61, ST 467),
       (63, 63, TR 488), (64, 64, TR 38), (65, 90, ST 467), (95, 95, ST 467), (97, 122, ST 467), (126, 126, ST 467)],
     St 498 False [(33, 33, ST 467), (35, 35, TR 485), (36, 36, ST 467), (37, 37, ST 31), (38, 45, ST 467),
       (46, 46, ST 495), (47, 47, TR 486), (48, 52, ST 494), (53, 53, ST 499), (54, 57, ST 494), (58, 58, TR 499),
       (59, 59, ST 467), (61, 61, ST 467), (63, 63, TR 488), (64, 64, TR 38), (65, 90, ST 467), (95, 95, ST 467),
       (97, 122, ST 467), (126, 126, ST 467)],
     St 499 False [(33, 33, ST 467), (35, 35, TR 485), (36, 36, ST 467), (37, 37, ST 31), (38, 45, ST 467),
       (46, 46, ST 495), (47, 47, TR 486), (48, 53, ST 494), (54, 57, ST 467), (58, 58, TR 499), (59, 59, ST 467),
       (61, 61, ST 467), (63, 63, TR 488), (64, 64, TR 38), (65, 90, ST 467), (95, 95, ST 467), (97, 122, ST 467),
       (126, 126, ST 467)]]"

definition uri_items_36 :: "uri_action item list" where
  "uri_items_36 =
    [St 500 False [(33, 33, ST 467), (35, 35, TR 485), (36, 36, ST 467), (37, 37, ST 31), (38, 45, ST 467),
       (46, 46, ST 493), (47, 47, TR 486), (48, 57, ST 501), (58, 58, TR 499), (59, 59, ST 467), (61, 61, ST 467),
       (63, 63, TR 488), (64, 64, TR 38), (65, 90, ST 467), (95, 95, ST 467), (97, 122, ST 467), (126, 126, ST 467)],
     St 501 False [(33, 33, ST 467), (35, 35, TR 485), (36, 36, ST 467), (37, 37, ST 31), (38, 45, ST 467),
       (46, 46, ST 493), (47, 47, TR 486), (48, 57, ST 492), (58, 58, TR 499), (59, 59, ST 467), (61, 61, ST 467),
       (63, 63, TR 488), (64, 64, TR 38), (65, 90, ST 467), (95, 95, ST 467), (97, 122, ST 467), (126, 126, ST 467)],
     St 502 False [(33, 33, ST 467), (35, 35, TR 485), (36, 36, ST 467), (37, 37, ST 31), (38, 45, ST 467),
       (46, 46, ST 493), (47, 47, TR 486), (48, 52, ST 492), (53, 53, ST 503), (54, 57, ST 492), (58, 58, TR 499),
       (59, 59, ST 467), (61, 61, ST 467), (63, 63, TR 488), (64, 64, TR 38), (65, 90, ST 467), (95, 95, ST 467),
       (97, 122, ST 467), (126, 126, ST 467)],
     St 503 False [(33, 33, ST 467), (35, 35, TR 485), (36, 36, ST 467), (37, 37, ST 31), (38, 45, ST 467),
       (46, 46, ST 493), (47, 47, TR 486), (48, 53, ST 492), (54, 57, ST 467), (58, 58, TR 499), (59, 59, ST 467),
       (61, 61, ST 467), (63, 63, TR 488), (64, 64, TR 38), (65, 90, ST 467), (95, 95, ST 467), (97, 122, ST 467),
       (126, 126, ST 467)],
     Tr 478 [U_mark] 504]"

definition uri_items_37 :: "uri_action item list" where
  "uri_items_37 =
    [St 504 False [(33, 33, ST 467), (35, 35, TR 485), (36, 36, ST 467), (37, 37, ST 31), (38, 45, ST 467),
       (46, 46, ST 491), (47, 47, TR 486), (48, 57, ST 505), (58, 58, TR 499), (59, 59, ST 467), (61, 61, ST 467),
       (63, 63, TR 488), (64, 64, TR 38), (65, 90, ST 467), (95, 95, ST 467), (97, 122, ST 467), (126, 126, ST 467)],
     Tr 480 [U_mark] 505,
     St 505 False [(33, 33, ST 467), (35, 35, TR 485), (36, 36, ST 467), (37, 37, ST 31), (38, 45, ST 467),
       (46, 46, ST 491), (47, 47, TR 486), (48, 57, ST 490), (58, 58, TR 499), (59, 59, ST 467), (61, 61, ST 467),
       (63, 63, TR 488), (64, 64, TR 38), (65, 90, ST 467), (95, 95, ST 467), (97, 122, ST 467), (126, 126, ST 467)],
     Tr 479 [U_mark] 506,
     St 506 False [(33, 33, ST 467), (35, 35, TR 485), (36, 36, ST 467), (37, 37, ST 31), (38, 45, ST 467),
       (46, 46, ST 491), (47, 47, TR 486), (48, 52, ST 490), (53, 53, ST 507), (54, 57, ST 490), (58, 58, TR 499),
       (59, 59, ST 467), (61, 61, ST 467), (63, 63, TR 488), (64, 64, TR 38), (65, 90, ST 467), (95, 95, ST 467),
       (97, 122, ST 467), (126, 126, ST 467)],
     St 507 False [(33, 33, ST 467), (35, 35, TR 485), (36, 36, ST 467), (37, 37, ST 31), (38, 45, ST 467),
       (46, 46, ST 491), (47, 47, TR 486), (48, 53, ST 490), (54, 57, ST 467), (58, 58, TR 499), (59, 59, ST 467),
       (61, 61, ST 467), (63, 63, TR 488), (64, 64, TR 38), (65, 90, ST 467), (95, 95, ST 467), (97, 122, ST 467),
       (126, 126, ST 467)],
     Tr 461 [U_mark] 508]"

definition uri_items_38 :: "uri_action item list" where
  "uri_items_38 =
    [St 508 False [(- 128, - 1, ST 452), (33, 33, ST 452), (35, 35, ST 453), (36, 36, ST 452), (37, 37, ST 3),
       (38, 42, ST 452), (43, 43, ST 508), (44, 44, ST 452), (45, 46, ST 508), (47, 47, ST 455), (48, 57, ST 508),
       (58, 58, TR 543), (59, 59, ST 452), (61, 61, ST 452), (63, 63, ST 456), (64, 64, ST 452), (65, 90, ST 508),
       (95, 95, ST 452), (97, 122, ST 508), (126, 126, ST 452)],
     Tr 543 [U_save_scheme] 509,
     St 509 False [(- 128, - 1, ST 455), (33, 33, ST 455), (35, 35, ST 453), (36, 36, ST 455), (37, 37, ST 5),
       (38, 46, ST 455), (47, 47, ST 510), (48, 59, ST 455), (61, 61, ST 455), (63, 63, ST 456), (64, 90, ST 455),
       (95, 95, ST 455), (97, 122, ST 455), (126, 126, ST 455)],
     St 510 False [(- 128, - 1, ST 455), (33, 33, ST 455), (35, 35, ST 453), (36, 36, ST 455), (37, 37, ST 5),
       (38, 46, ST 455), (47, 47, ST 511), (48, 59, ST 455), (61, 61, ST 455), (63, 63, ST 456), (64, 90, ST 455),
       (95, 95, ST 455), (97, 122, ST 455), (126, 126, ST 455)],
     St 511 False [(2, 2, TR 546), (33, 33, TR 547), (35, 35, TR 548), (36, 36, TR 547), (37, 37, TR 549),
       (38, 46, TR 547), (47, 47, TR 550), (48, 48, TR 551), (49, 49, TR 552), (50, 50, TR 553), (51, 57, TR 554),
       (58, 58, TR 555), (59, 59, TR 547), (61, 61, TR 547), (63, 63, TR 556), (64, 64, TR 557), (65, 90, TR 547),
       (91, 91, TR 558), (95, 95, TR 547), (97, 122, TR 547), (126, 126, TR 547)],
     Tr 546 [U_mark] 229,
     St 229 False [(48, 52, ST 230)],
     St 230 False [(48, 57, ST 231)]]"

definition uri_items_39 :: "uri_action item list" where
  "uri_items_39 =
    [St 231 False [(46, 46, ST 232)],
     St 232 False [(2, 2, ST 233), (48, 48, ST 235), (49, 49, ST 249), (50, 50, ST 251), (51, 57, ST 250)],
     St 233 False [(48, 52, ST 234)],
     St 234 False [(48, 57, ST 235)],
     St 235 False [(46, 46, ST 236)],
     St 236 False [(2, 2, ST 237), (48, 48, ST 239), (49, 49, ST 245), (50, 50, ST 247), (51, 57, ST 246)],
     St 237 False [(48, 52, ST 238)],
     St 238 False [(48, 57, ST 239)],
     St 239 False [(46, 46, ST 240)],
     St 240 False [(2, 2, ST 241), (48, 48, ST 512), (49, 49, ST 516), (50, 50, ST 518), (51, 57, ST 517)],
     St 241 False [(48, 52, ST 242)],
     St 242 False [(48, 57, ST 512)],
     St 512 False [(35, 35, TR 559), (47, 47, TR 560), (58, 58, TR 561), (63, 63, TR 562)],
     Tr 550 [U_mark, U_save_host] 513,
     Tr 567 [U_mark, U_save_port] 513,
     Tr 560 [U_save_host, U_mark] 513]"

definition uri_items_40 :: "uri_action item list" where
  "uri_items_40 =
    [Tr 571 [U_save_port, U_mark] 513,
     St 513 False [(- 128, - 1, ST 513), (33, 33, ST 513), (35, 35, TR 563), (36, 36, ST 513), (37, 37, ST 243),
       (38, 59, ST 513), (61, 61, ST 513), (63, 63, TR 565), (64, 90, ST 513), (95, 95, ST 513), (97, 122, ST 513),
       (126, 126, ST 513)],
     St 243 False [(48, 57, ST 244), (65, 70, ST 244), (97, 102, ST 244)],
     St 244 False [(48, 57, ST 513), (65, 70, ST 513), (97, 102, ST 513)],
     Tr 584 [U_mark, U_save_host] 514,
     Tr 561 [U_save_host] 514,
     St 514 False [(35, 35, TR 566), (47, 47, TR 567), (48, 57, TR 568), (63, 63, TR 569)],
     Tr 568 [U_mark] 515,
     St 515 False [(35, 35, TR 570), (47, 47, TR 571), (48, 57, ST 515), (63, 63, TR 573)],
     St 516 False [(35, 35, TR 559), (47, 47, TR 560), (48, 57, ST 517), (58, 58, TR 561), (63, 63, TR 562)],
     St 517 False [(35, 35, TR 559), (47, 47, TR 560), (48, 57, ST 512), (58, 58, TR 561), (63, 63, TR 562)]]"

definition uri_items_41 :: "uri_action item list" where
  "uri_items_41 =
    [St 518 False [(35, 35, TR 559), (47, 47, TR 560), (48, 52, ST 512), (53, 53, ST 519), (54, 57, ST 512),
       (58, 58, TR 561), (63, 63, TR 562)],
     St 519 False [(35, 35, TR 559), (47, 47, TR 560), (48, 53, ST 512), (58, 58, TR 561), (63, 63, TR 562)],
     St 245 False [(46, 46, ST 240), (48, 57, ST 246)],
     St 246 False [(46, 46, ST 240), (48, 57, ST 239)],
     St 247 False [(46, 46, ST 240), (48, 52, ST 239), (53, 53, ST 248), (54, 57, ST 239)],
     St 248 False [(46, 46, ST 240), (48, 53, ST 239)],
     St 249 False [(46, 46, ST 236), (48, 57, ST 250)],
     St 250 False [(46, 46, ST 236), (48, 57, ST 235)],
     St 251 False [(46, 46, ST 236), (48, 52, ST 235), (53, 53, ST 252), (54, 57, ST 235)],
     St 252 False [(46, 46, ST 236), (48, 53, ST 235)],
     Tr 547 [U_mark] 520,
     St 520 False [(33, 33, ST 520), (35, 35, TR 559), (36, 36, ST 520), (37, 37, ST 253), (38, 46, ST 520),
       (47, 47, TR 560), (48, 57, ST 520), (58, 58, TR 576), (59, 59, ST 520), (61, 61, ST 520), (63, 63, TR 562),
       (64, 64, TR 263), (65, 90, ST 520), (95, 95, ST 520), (97, 122, ST 520), (126, 126, ST 520)],
     Tr 549 [U_mark] 253]"

definition uri_items_42 :: "uri_action item list" where
  "uri_items_42 =
    [St 253 False [(48, 57, ST 254), (65, 70, ST 254), (97, 102, ST 254)],
     St 254 False [(48, 57, ST 520), (65, 70, ST 520), (97, 102, ST 520)],
     Tr 555 [U_mark, U_save_host] 521,
     Tr 576 [U_save_host] 521,
     St 521 False [(33, 33, ST 255), (35, 35, TR 566), (36, 36, ST 255), (37, 37, ST 256), (38, 46, ST 255),
       (47, 47, TR 567), (48, 57, TR 577), (58, 59, ST 255), (61, 61, ST 255), (63, 63, TR 569), (64, 64, TR 263),
       (65, 90, ST 255), (95, 95, ST 255), (97, 122, ST 255), (126, 126, ST 255)],
     St 255 False [(33, 33, ST 255), (36, 36, ST 255), (37, 37, ST 256), (38, 46, ST 255), (48, 59, ST 255),
       (61, 61, ST 255), (64, 64, TR 263), (65, 90, ST 255), (95, 95, ST 255), (97, 122, ST 255), (126, 126, ST 255)],
     St 256 False [(48, 57, ST 257), (65, 70, ST 257), (97, 102, ST 257)],
     St 257 False [(48, 57, ST 255), (65, 70, ST 255), (97, 102, ST 255)],
     Tr 263 [U_save_userinfo] 522,
     Tr 557 [U_mark, U_save_userinfo] 522]"

definition uri_items_43 :: "uri_action item list" where
  "uri_items_43 =
    [St 522 False [(2, 2, TR 546), (33, 33, TR 578), (35, 35, TR 548), (36, 36, TR 578), (37, 37, TR 579),
       (38, 46, TR 578), (47, 47, TR 550), (48, 48, TR 580), (49, 49, TR 581), (50, 50, TR 582), (51, 57, TR 583),
       (58, 58, TR 584), (59, 59, TR 578), (61, 61, TR 578), (63, 63, TR 556), (65, 90, TR 578), (91, 91, TR 558),
       (95, 95, TR 578), (97, 122, TR 578), (126, 126, TR 578)],
     Tr 578 [U_mark] 523,
     St 523 False [(33, 33, ST 523), (35, 35, TR 559), (36, 36, ST 523), (37, 37, ST 258), (38, 46, ST 523),
       (47, 47, TR 560), (48, 57, ST 523), (58, 58, TR 561), (59, 59, ST 523), (61, 61, ST 523), (63, 63, TR 562),
       (65, 90, ST 523), (95, 95, ST 523), (97, 122, ST 523), (126, 126, ST 523)],
     Tr 579 [U_mark] 258,
     St 258 False [(48, 57, ST 259), (65, 70, ST 259), (97, 102, ST 259)],
     St 259 False [(48, 57, ST 523), (65, 70, ST 523), (97, 102, ST 523)],
     Tr 580 [U_mark] 524,
     St 524 False [(33, 33, ST 523), (35, 35, TR 559), (36, 36, ST 523), (37, 37, ST 258), (38, 45, ST 523),
       (46, 46, ST 525), (47, 47, TR 560), (48, 57, ST 523), (58, 58, TR 561), (59, 59, ST 523), (61, 61, ST 523),
       (63, 63, TR 562), (65, 90, ST 523), (95, 95, ST 523), (97, 122, ST 523), (126, 126, ST 523)]]"

definition uri_items_44 :: "uri_action item list" where
  "uri_items_44 =
    [St 525 False [(2, 2, ST 233), (33, 33, ST 523), (35, 35, TR 559), (36, 36, ST 523), (37, 37, ST 258),
       (38, 46, ST 523), (47, 47, TR 560), (48, 48, ST 526), (49, 49, ST 534), (50, 50, ST 536), (51, 57, ST 535),
       (58, 58, TR 561), (59, 59, ST 523), (61, 61, ST 523), (63, 63, TR 562), (65, 90, ST 523), (95, 95, ST 523),
       (97, 122, ST 523), (126, 126, ST 523)],
     St 526 False [(33, 33, ST 523), (35, 35, TR 559), (36, 36, ST 523), (37, 37, ST 258), (38, 45, ST 523),
       (46, 46, ST 527), (47, 47, TR 560), (48, 57, ST 523), (58, 58, TR 561), (59, 59, ST 523), (61, 61, ST 523),
       (63, 63, TR 562), (65, 90, ST 523), (95, 95, ST 523), (97, 122, ST 523), (126, 126, ST 523)],
     St 527 False [(2, 2, ST 237), (33, 33, ST 523), (35, 35, TR 559), (36, 36, ST 523), (37, 37, ST 258),
       (38, 46, ST 523), (47, 47, TR 560), (48, 48, ST 528), (49, 49, ST 530), (50, 50, ST 532), (51, 57, ST 531),
       (58, 58, TR 561), (59, 59, ST 523), (61, 61, ST 523), (63, 63, TR 562), (65, 90, ST 523), (95, 95, ST 523),
       (97, 122, ST 523), (126, 126, ST 523)],
     St 528 False [(33, 33, ST 523), (35, 35, TR 559), (36, 36, ST 523), (37, 37, ST 258), (38, 45, ST 523),
       (46, 46, ST 529), (47, 47, TR 560), (48, 57, ST 523), (58, 58, TR 561), (59, 59, ST 523), (61, 61, ST 523),
       (63, 63, TR 562), (65, 90, ST 523), (95, 95, ST 523), (97, 122, ST 523), (126, 126, ST 523)],
     St 529 False [(2, 2, ST 241), (33, 33, ST 523), (35, 35, TR 559), (36, 36, ST 523), (37, 37, ST 258),
       (38, 46, ST 523), (47, 47, TR 560), (48, 57, ST 523), (58, 58, TR 561), (59, 59, ST 523), (61, 61, ST 523),
       (63, 63, TR 562), (65, 90, ST 523), (95, 95, ST 523), (97, 122, ST 523), (126, 126, ST 523)]]"

definition uri_items_45 :: "uri_action item list" where
  "uri_items_45 =
    [St 530 False [(33, 33, ST 523), (35, 35, TR 559), (36, 36, ST 523), (37, 37, ST 258), (38, 45, ST 523),
       (46, 46, ST 529), (47, 47, TR 560), (48, 57, ST 531), (58, 58, TR 561), (59, 59, ST 523), (61, 61, ST 523),
       (63, 63, TR 562), (65, 90, ST 523), (95, 95, ST 523), (97, 122, ST 523), (126, 126, ST 523)],
     St 531 False [(33, 33, ST 523), (35, 35, TR 559), (36, 36, ST 523), (37, 37, ST 258), (38, 45, ST 523),
       (46, 46, ST 529), (47, 47, TR 560), (48, 57, ST 528), (58, 58, TR 561), (59, 59, ST 523), (61, 61, ST 523),
       (63, 63, TR 562), (65, 90, ST 523), (95, 95, ST 523), (97, 122, ST 523), (126, 126, ST 523)],
     St 532 False [(33, 33, ST 523), (35, 35, TR 559), (36, 36, ST 523), (37, 37, ST 258), (38, 45, ST 523),
       (46, 46, ST 529), (47, 47, TR 560), (48, 52, ST 528), (53, 53, ST 533), (54, 57, ST 528), (58, 58, TR 561),
       (59, 59, ST 523), (61, 61, ST 523), (63, 63, TR 562), (65, 90, ST 523), (95, 95, ST 523), (97, 122, ST 523),
       (126, 126, ST 523)],
     St 533 False [(33, 33, ST 523), (35, 35, TR 559), (36, 36, ST 523), (37, 37, ST 258), (38, 45, ST 523),
       (46, 46, ST 529), (47, 47, TR 560), (48, 53, ST 528), (54, 57, ST 523), (58, 58, TR 561), (59, 59, ST 523),
       (61, 61, ST 523), (63, 63, TR 562), (65, 90, ST 523), (95, 95, ST 523), (97, 122, ST 523), (126, 126, ST 523)],
     St 534 False [(33, 33, ST 523), (35, 35, TR 559), (36, 36, ST 523), (37, 37, ST 258), (38, 45, ST 523),
       (46, 46, ST 527), (47, 47, TR 560), (48, 57, ST 535), (58, 58, TR 561), (59, 59, ST 523), (61, 61, ST 523),
       (63, 63, TR 562), (65, 90, ST 523), (95, 95, ST 523), (97, 122, ST 523), (126, 126, ST 523)]]"

definition uri_items_46 :: "uri_action item list" where
  "uri_items_46 =
    [St 535 False [(33, 33, ST 523), (35, 35, TR 559), (36, 36, ST 523), (37, 37, ST 258), (38, 45, ST 523),
       (46, 46, ST 527), (47, 47, TR 560), (48, 57, ST 526), (58, 58, TR 561), (59, 59, ST 523), (61, 61, ST 523),
       (63, 63, TR 562), (65, 90, ST 523), (95, 95, ST 523), (97, 122, ST 523), (126, 126, ST 523)],
     St 536 False [(33, 33, ST 523), (35, 35, TR 559), (36, 36, ST 523), (37, 37, ST 258), (38, 45, ST 523),
       (46, 46, ST 527), (47, 47, TR 560), (48, 52, ST 526), (53, 53, ST 537), (54, 57, ST 526), (58, 58, TR 561),
       (59, 59, ST 523), (61, 61, ST 523), (63, 63, TR 562), (65, 90, ST 523), (95, 95, ST 523), (97, 122, ST 523),
       (126, 126, ST 523)],
     St 537 False [(33, 33, ST 523), (35, 35, TR 559), (36, 36, ST 523), (37, 37, ST 258), (38, 45, ST 523),
       (46, 46, ST 527), (47, 47, TR 560), (48, 53, ST 526), (54, 57, ST 523), (58, 58, TR 561), (59, 59, ST 523),
       (61, 61, ST 523), (63, 63, TR 562), (65, 90, ST 523), (95, 95, ST 523), (97, 122, ST 523), (126, 126, ST 523)],
     Tr 581 [U_mark] 538,
     St 538 False [(33, 33, ST 523), (35, 35, TR 559), (36, 36, ST 523), (37, 37, ST 258), (38, 45, ST 523),
       (46, 46, ST 525), (47, 47, TR 560), (48, 57, ST 539), (58, 58, TR 561), (59, 59, ST 523), (61, 61, ST 523),
       (63, 63, TR 562), (65, 90, ST 523), (95, 95, ST 523), (97, 122, ST 523), (126, 126, ST 523)],
     Tr 583 [U_mark] 539]"

definition uri_items_47 :: "uri_action item list" where
  "uri_items_47 =
    [St 539 False [(33, 33, ST 523), (35, 35, TR 559), (36, 36, ST 523), (37, 37, ST 258), (38, 45, ST 523),
       (46, 46, ST 525), (47, 47, TR 560), (48, 57, ST 524), (58, 58, TR 561), (59, 59, ST 523), (61, 61, ST 523),
       (63, 63, TR 562), (65, 90, ST 523), (95, 95, ST 523), (97, 122, ST 523), (126, 126, ST 523)],
     Tr 582 [U_mark] 540,
     St 540 False [(33, 33, ST 523), (35, 35, TR 559), (36, 36, ST 523), (37, 37, ST 258), (38, 45, ST 523),
       (46, 46, ST 525), (47, 47, TR 560), (48, 52, ST 524), (53, 53, ST 541), (54, 57, ST 524), (58, 58, TR 561),
       (59, 59, ST 523), (61, 61, ST 523), (63, 63, TR 562), (65, 90, ST 523), (95, 95, ST 523), (97, 122, ST 523),
       (126, 126, ST 523)],
     St 541 False [(33, 33, ST 523), (35, 35, TR 559), (36, 36, ST 523), (37, 37, ST 258), (38, 45, ST 523),
       (46, 46, ST 525), (47, 47, TR 560), (48, 53, ST 524), (54, 57, ST 523), (58, 58, TR 561), (59, 59, ST 523),
       (61, 61, ST 523), (63, 63, TR 562), (65, 90, ST 523), (95, 95, ST 523), (97, 122, ST 523), (126, 126, ST 523)],
     Tr 558 [U_mark] 260,
     St 260 False [(48, 57, ST 261), (58, 58, ST 368), (65, 70, ST 261), (97, 102, ST 261), (118, 118, ST 447)],
     St 261 False [(48, 57, ST 262), (58, 58, ST 265), (65, 70, ST 262), (97, 102, ST 262)],
     St 262 False [(48, 57, ST 263), (58, 58, ST 265), (65, 70, ST 263), (97, 102, ST 263)]]"

definition uri_items_48 :: "uri_action item list" where
  "uri_items_48 =
    [St 263 False [(48, 57, ST 264), (58, 58, ST 265), (65, 70, ST 264), (97, 102, ST 264)],
     St 264 False [(58, 58, ST 265)],
     St 265 False [(48, 57, ST 266), (58, 58, ST 363), (65, 70, ST 266), (97, 102, ST 266)],
     St 266 False [(48, 57, ST 267), (58, 58, ST 270), (65, 70, ST 267), (97, 102, ST 267)],
     St 267 False [(48, 57, ST 268), (58, 58, ST 270), (65, 70, ST 268), (97, 102, ST 268)],
     St 268 False [(48, 57, ST 269), (58, 58, ST 270), (65, 70, ST 269), (97, 102, ST 269)],
     St 269 False [(58, 58, ST 270)],
     St 270 False [(48, 57, ST 271), (58, 58, ST 358), (65, 70, ST 271), (97, 102, ST 271)],
     St 271 False [(48, 57, ST 272), (58, 58, ST 275), (65, 70, ST 272), (97, 102, ST 272)],
     St 272 False [(48, 57, ST 273), (58, 58, ST 275), (65, 70, ST 273), (97, 102, ST 273)],
     St 273 False [(48, 57, ST 274), (58, 58, ST 275), (65, 70, ST 274), (97, 102, ST 274)]]"

definition uri_items_49 :: "uri_action item list" where
  "uri_items_49 =
    [St 274 False [(58, 58, ST 275)],
     St 275 False [(48, 57, ST 276), (58, 58, ST 353), (65, 70, ST 276), (97, 102, ST 276)],
     St 276 False [(48, 57, ST 277), (58, 58, ST 280), (65, 70, ST 277), (97, 102, ST 277)],
     St 277 False [(48, 57, ST 278), (58, 58, ST 280), (65, 70, ST 278), (97, 102, ST 278)],
     St 278 False [(48, 57, ST 279), (58, 58, ST 280), (65, 70, ST 279), (97, 102, ST 279)],
     St 279 False [(58, 58, ST 280)],
     St 280 False [(48, 57, ST 281), (58, 58, ST 348), (65, 70, ST 281), (97, 102, ST 281)],
     St 281 False [(48, 57, ST 282), (58, 58, ST 285), (65, 70, ST 282), (97, 102, ST 282)],
     St 282 False [(48, 57, ST 283), (58, 58, ST 285), (65, 70, ST 283), (97, 102, ST 283)],
     St 283 False [(48, 57, ST 284), (58, 58, ST 285), (65, 70, ST 284), (97, 102, ST 284)],
     St 284 False [(58, 58, ST 285)]]"

definition uri_items_50 :: "uri_action item list" where
  "uri_items_50 =
    [St 285 False [(48, 57, ST 286), (58, 58, ST 335), (65, 70, ST 286), (97, 102, ST 286)],
     St 286 False [(48, 57, ST 287), (58, 58, ST 290), (65, 70, ST 287), (97, 102, ST 287)],
     St 287 False [(48, 57, ST 288), (58, 58, ST 290), (65, 70, ST 288), (97, 102, ST 288)],
     St 288 False [(48, 57, ST 289), (58, 58, ST 290), (65, 70, ST 289), (97, 102, ST 289)],
     St 289 False [(58, 58, ST 290)],
     St 290 False [(2, 2, ST 291), (48, 48, ST 318), (49, 49, ST 326), (50, 50, ST 329), (51, 57, ST 332),
       (58, 58, ST 333), (65, 70, ST 334), (97, 102, ST 334)],
     St 291 False [(48, 52, ST 292)],
     St 292 False [(48, 57, ST 293)],
     St 293 False [(46, 46, ST 294)],
     St 294 False [(2, 2, ST 295), (48, 48, ST 297), (49, 49, ST 314), (50, 50, ST 316), (51, 57, ST 315)],
     St 295 False [(48, 52, ST 296)],
     St 296 False [(48, 57, ST 297)],
     St 297 False [(46, 46, ST 298)]]"

definition uri_items_51 :: "uri_action item list" where
  "uri_items_51 =
    [St 298 False [(2, 2, ST 299), (48, 48, ST 301), (49, 49, ST 310), (50, 50, ST 312), (51, 57, ST 311)],
     St 299 False [(48, 52, ST 300)],
     St 300 False [(48, 57, ST 301)],
     St 301 False [(46, 46, ST 302)],
     St 302 False [(2, 2, ST 303), (48, 48, ST 305), (49, 49, ST 306), (50, 50, ST 308), (51, 57, ST 307)],
     St 303 False [(48, 52, ST 304)],
     St 304 False [(48, 57, ST 305)],
     St 305 False [(93, 93, ST 512)],
     St 306 False [(48, 57, ST 307), (93, 93, ST 512)],
     St 307 False [(48, 57, ST 305), (93, 93, ST 512)],
     St 308 False [(48, 52, ST 305), (53, 53, ST 309), (54, 57, ST 305), (93, 93, ST 512)],
     St 309 False [(48, 53, ST 305), (93, 93, ST 512)],
     St 310 False [(46, 46, ST 302), (48, 57, ST 311)],
     St 311 False [(46, 46, ST 302), (48, 57, ST 301)],
     St 312 False [(46, 46, ST 302), (48, 52, ST 301), (53, 53, ST 313), (54, 57, ST 301)],
     St 313 False [(46, 46, ST 302), (48, 53, ST 301)]]"

definition uri_items_52 :: "uri_action item list" where
  "uri_items_52 =
    [St 314 False [(46, 46, ST 298), (48, 57, ST 315)],
     St 315 False [(46, 46, ST 298), (48, 57, ST 297)],
     St 316 False [(46, 46, ST 298), (48, 52, ST 297), (53, 53, ST 317), (54, 57, ST 297)],
     St 317 False [(46, 46, ST 298), (48, 53, ST 297)],
     St 318 False [(46, 46, ST 294), (48, 57, ST 319), (58, 58, ST 322), (65, 70, ST 319), (97, 102, ST 319)],
     St 319 False [(48, 57, ST 320), (58, 58, ST 322), (65, 70, ST 320), (97, 102, ST 320)],
     St 320 False [(48, 57, ST 321), (58, 58, ST 322), (65, 70, ST 321), (97, 102, ST 321)],
     St 321 False [(58, 58, ST 322)],
     St 322 False [(48, 57, ST 323), (58, 58, ST 305), (65, 70, ST 323), (97, 102, ST 323)],
     St 323 False [(48, 57, ST 324), (65, 70, ST 324), (93, 93, ST 512), (97, 102, ST 324)],
     St 324 False [(48, 57, ST 325), (65, 70, ST 325), (93, 93, ST 512), (97, 102, ST 325)]]"

definition uri_items_53 :: "uri_action item list" where
  "uri_items_53 =
    [St 325 False [(48, 57, ST 305), (65, 70, ST 305), (93, 93, ST 512), (97, 102, ST 305)],
     St 326 False [(46, 46, ST 294), (48, 57, ST 327), (58, 58, ST 322), (65, 70, ST 319), (97, 102, ST 319)],
     St 327 False [(46, 46, ST 294), (48, 57, ST 328), (58, 58, ST 322), (65, 70, ST 320), (97, 102, ST 320)],
     St 328 False [(46, 46, ST 294), (48, 57, ST 321), (58, 58, ST 322), (65, 70, ST 321), (97, 102, ST 321)],
     St 329 False [(46, 46, ST 294), (48, 52, ST 330), (53, 53, ST 331), (54, 57, ST 330), (58, 58, ST 322),
       (65, 70, ST 319), (97, 102, ST 319)],
     St 330 False [(46, 46, ST 294), (48, 57, ST 320), (58, 58, ST 322), (65, 70, ST 320), (97, 102, ST 320)],
     St 331 False [(46, 46, ST 294), (48, 53, ST 328), (54, 57, ST 320), (58, 58, ST 322), (65, 70, ST 320),
       (97, 102, ST 320)],
     St 332 False [(46, 46, ST 294), (48, 57, ST 330), (58, 58, ST 322), (65, 70, ST 319), (97, 102, ST 319)]]"

definition uri_items_54 :: "uri_action item list" where
  "uri_items_54 =
    [St 333 False [(48, 57, ST 323), (65, 70, ST 323), (97, 102, ST 323)],
     St 334 False [(48, 57, ST 319), (58, 58, ST 322), (65, 70, ST 319), (97, 102, ST 319)],
     St 335 False [(2, 2, ST 291), (48, 48, ST 336), (49, 49, ST 340), (50, 50, ST 343), (51, 57, ST 346),
       (65, 70, ST 347), (97, 102, ST 347)],
     St 336 False [(46, 46, ST 294), (48, 57, ST 337), (58, 58, ST 333), (65, 70, ST 337), (97, 102, ST 337)],
     St 337 False [(48, 57, ST 338), (58, 58, ST 333), (65, 70, ST 338), (97, 102, ST 338)],
     St 338 False [(48, 57, ST 339), (58, 58, ST 333), (65, 70, ST 339), (97, 102, ST 339)],
     St 339 False [(58, 58, ST 333)],
     St 340 False [(46, 46, ST 294), (48, 57, ST 341), (58, 58, ST 333), (65, 70, ST 337), (97, 102, ST 337)],
     St 341 False [(46, 46, ST 294), (48, 57, ST 342), (58, 58, ST 333), (65, 70, ST 338), (97, 102, ST 338)]]"

definition uri_items_55 :: "uri_action item list" where
  "uri_items_55 =
    [St 342 False [(46, 46, ST 294), (48, 57, ST 339), (58, 58, ST 333), (65, 70, ST 339), (97, 102, ST 339)],
     St 343 False [(46, 46, ST 294), (48, 52, ST 344), (53, 53, ST 345), (54, 57, ST 344), (58, 58, ST 333),
       (65, 70, ST 337), (97, 102, ST 337)],
     St 344 False [(46, 46, ST 294), (48, 57, ST 338), (58, 58, ST 333), (65, 70, ST 338), (97, 102, ST 338)],
     St 345 False [(46, 46, ST 294), (48, 53, ST 342), (54, 57, ST 338), (58, 58, ST 333), (65, 70, ST 338),
       (97, 102, ST 338)],
     St 346 False [(46, 46, ST 294), (48, 57, ST 344), (58, 58, ST 333), (65, 70, ST 337), (97, 102, ST 337)],
     St 347 False [(48, 57, ST 337), (58, 58, ST 333), (65, 70, ST 337), (97, 102, ST 337)],
     St 348 False [(48, 57, ST 349), (65, 70, ST 349), (97, 102, ST 349)],
     St 349 False [(48, 57, ST 350), (58, 58, ST 335), (65, 70, ST 350), (97, 102, ST 350)],
     St 350 False [(48, 57, ST 351), (58, 58, ST 335), (65, 70, ST 351), (97, 102, ST 351)]]"

definition uri_items_56 :: "uri_action item list" where
  "uri_items_56 =
    [St 351 False [(48, 57, ST 352), (58, 58, ST 335), (65, 70, ST 352), (97, 102, ST 352)],
     St 352 False [(58, 58, ST 335)],
     St 353 False [(48, 57, ST 354), (65, 70, ST 354), (97, 102, ST 354)],
     St 354 False [(48, 57, ST 355), (58, 58, ST 348), (65, 70, ST 355), (97, 102, ST 355)],
     St 355 False [(48, 57, ST 356), (58, 58, ST 348), (65, 70, ST 356), (97, 102, ST 356)],
     St 356 False [(48, 57, ST 357), (58, 58, ST 348), (65, 70, ST 357), (97, 102, ST 357)],
     St 357 False [(58, 58, ST 348)],
     St 358 False [(48, 57, ST 359), (65, 70, ST 359), (97, 102, ST 359)],
     St 359 False [(48, 57, ST 360), (58, 58, ST 353), (65, 70, ST 360), (97, 102, ST 360)],
     St 360 False [(48, 57, ST 361), (58, 58, ST 353), (65, 70, ST 361), (97, 102, ST 361)],
     St 361 False [(48, 57, ST 362), (58, 58, ST 353), (65, 70, ST 362), (97, 102, ST 362)]]"

definition uri_items_57 :: "uri_action item list" where
  "uri_items_57 =
    [St 362 False [(58, 58, ST 353)],
     St 363 False [(48, 57, ST 364), (65, 70, ST 364), (97, 102, ST 364)],
     St 364 False [(48, 57, ST 365), (58, 58, ST 358), (65, 70, ST 365), (97, 102, ST 365)],
     St 365 False [(48, 57, ST 366), (58, 58, ST 358), (65, 70, ST 366), (97, 102, ST 366)],
     St 366 False [(48, 57, ST 367), (58, 58, ST 358), (65, 70, ST 367), (97, 102, ST 367)],
     St 367 False [(58, 58, ST 358)],
     St 368 False [(58, 58, ST 369)],
     St 369 False [(2, 2, ST 291), (48, 48, ST 370), (49, 49, ST 439), (50, 50, ST 442), (51, 57, ST 445),
       (65, 70, ST 446), (93, 93, ST 512), (97, 102, ST 446)],
     St 370 False [(46, 46, ST 294), (48, 57, ST 371), (58, 58, ST 374), (65, 70, ST 371), (93, 93, ST 512),
       (97, 102, ST 371)],
     St 371 False [(48, 57, ST 372), (58, 58, ST 374), (65, 70, ST 372), (93, 93, ST 512), (97, 102, ST 372)]]"

definition uri_items_58 :: "uri_action item list" where
  "uri_items_58 =
    [St 372 False [(48, 57, ST 373), (58, 58, ST 374), (65, 70, ST 373), (93, 93, ST 512), (97, 102, ST 373)],
     St 373 False [(58, 58, ST 374), (93, 93, ST 512)],
     St 374 False [(2, 2, ST 291), (48, 48, ST 375), (49, 49, ST 431), (50, 50, ST 434), (51, 57, ST 437),
       (65, 70, ST 438), (97, 102, ST 438)],
     St 375 False [(46, 46, ST 294), (48, 57, ST 376), (58, 58, ST 379), (65, 70, ST 376), (93, 93, ST 512),
       (97, 102, ST 376)],
     St 376 False [(48, 57, ST 377), (58, 58, ST 379), (65, 70, ST 377), (93, 93, ST 512), (97, 102, ST 377)],
     St 377 False [(48, 57, ST 378), (58, 58, ST 379), (65, 70, ST 378), (93, 93, ST 512), (97, 102, ST 378)],
     St 378 False [(58, 58, ST 379), (93, 93, ST 512)],
     St 379 False [(2, 2, ST 291), (48, 48, ST 380), (49, 49, ST 423), (50, 50, ST 426), (51, 57, ST 429),
       (65, 70, ST 430), (97, 102, ST 430)],
     St 380 False [(46, 46, ST 294), (48, 57, ST 381), (58, 58, ST 384), (65, 70, ST 381), (93, 93, ST 512),
       (97, 102, ST 381)]]"

definition uri_items_59 :: "uri_action item list" where
  "uri_items_59 =
    [St 381 False [(48, 57, ST 382), (58, 58, ST 384), (65, 70, ST 382), (93, 93, ST 512), (97, 102, ST 382)],
     St 382 False [(48, 57, ST 383), (58, 58, ST 384), (65, 70, ST 383), (93, 93, ST 512), (97, 102, ST 383)],
     St 383 False [(58, 58, ST 384), (93, 93, ST 512)],
     St 384 False [(2, 2, ST 291), (48, 48, ST 385), (49, 49, ST 415), (50, 50, ST 418), (51, 57, ST 421),
       (65, 70, ST 422), (97, 102, ST 422)],
     St 385 False [(46, 46, ST 294), (48, 57, ST 386), (58, 58, ST 389), (65, 70, ST 386), (93, 93, ST 512),
       (97, 102, ST 386)],
     St 386 False [(48, 57, ST 387), (58, 58, ST 389), (65, 70, ST 387), (93, 93, ST 512), (97, 102, ST 387)],
     St 387 False [(48, 57, ST 388), (58, 58, ST 389), (65, 70, ST 388), (93, 93, ST 512), (97, 102, ST 388)],
     St 388 False [(58, 58, ST 389), (93, 93, ST 512)],
     St 389 False [(2, 2, ST 291), (48, 48, ST 390), (49, 49, ST 407), (50, 50, ST 410), (51, 57, ST 413),
       (65, 70, ST 414), (97, 102, ST 414)]]"

definition uri_items_60 :: "uri_action item list" where
  "uri_items_60 =
    [St 390 False [(46, 46, ST 294), (48, 57, ST 391), (58, 58, ST 394), (65, 70, ST 391), (93, 93, ST 512),
       (97, 102, ST 391)],
     St 391 False [(48, 57, ST 392), (58, 58, ST 394), (65, 70, ST 392), (93, 93, ST 512), (97, 102, ST 392)],
     St 392 False [(48, 57, ST 393), (58, 58, ST 394), (65, 70, ST 393), (93, 93, ST 512), (97, 102, ST 393)],
     St 393 False [(58, 58, ST 394), (93, 93, ST 512)],
     St 394 False [(2, 2, ST 291), (48, 48, ST 395), (49, 49, ST 399), (50, 50, ST 402), (51, 57, ST 405),
       (65, 70, ST 406), (97, 102, ST 406)],
     St 395 False [(46, 46, ST 294), (48, 57, ST 396), (58, 58, ST 333), (65, 70, ST 396), (93, 93, ST 512),
       (97, 102, ST 396)],
     St 396 False [(48, 57, ST 397), (58, 58, ST 333), (65, 70, ST 397), (93, 93, ST 512), (97, 102, ST 397)],
     St 397 False [(48, 57, ST 398), (58, 58, ST 333), (65, 70, ST 398), (93, 93, ST 512), (97, 102, ST 398)],
     St 398 False [(58, 58, ST 333), (93, 93, ST 512)]]"

definition uri_items_61 :: "uri_action item list" where
  "uri_items_61 =
    [St 399 False [(46, 46, ST 294), (48, 57, ST 400), (58, 58, ST 333), (65, 70, ST 396), (93, 93, ST 512),
       (97, 102, ST 396)],
     St 400 False [(46, 46, ST 294), (48, 57, ST 401), (58, 58, ST 333), (65, 70, ST 397), (93, 93, ST 512),
       (97, 102, ST 397)],
     St 401 False [(46, 46, ST 294), (48, 57, ST 398), (58, 58, ST 333), (65, 70, ST 398), (93, 93, ST 512),
       (97, 102, ST 398)],
     St 402 False [(46, 46, ST 294), (48, 52, ST 403), (53, 53, ST 404), (54, 57, ST 403), (58, 58, ST 333),
       (65, 70, ST 396), (93, 93, ST 512), (97, 102, ST 396)],
     St 403 False [(46, 46, ST 294), (48, 57, ST 397), (58, 58, ST 333), (65, 70, ST 397), (93, 93, ST 512),
       (97, 102, ST 397)],
     St 404 False [(46, 46, ST 294), (48, 53, ST 401), (54, 57, ST 397), (58, 58, ST 333), (65, 70, ST 397),
       (93, 93, ST 512), (97, 102, ST 397)],
     St 405 False [(46, 46, ST 294), (48, 57, ST 403), (58, 58, ST 333), (65, 70, ST 396), (93, 93, ST 512),
       (97, 102, ST 396)],
     St 406 False [(48, 57, ST 396), (58, 58, ST 333), (65, 70, ST 396), (93, 93, ST 512), (97, 102, ST 396)]]"

definition uri_items_62 :: "uri_action item list" where
  "uri_items_62 =
    [St 407 False [(46, 46, ST 294), (48, 57, ST 408), (58, 58, ST 394), (65, 70, ST 391), (93, 93, ST 512),
       (97, 102, ST 391)],
     St 408 False [(46, 46, ST 294), (48, 57, ST 409), (58, 58, ST 394), (65, 70, ST 392), (93, 93, ST 512),
       (97, 102, ST 392)],
     St 409 False [(46, 46, ST 294), (48, 57, ST 393), (58, 58, ST 394), (65, 70, ST 393), (93, 93, ST 512),
       (97, 102, ST 393)],
     St 410 False [(46, 46, ST 294), (48, 52, ST 411), (53, 53, ST 412), (54, 57, ST 411), (58, 58, ST 394),
       (65, 70, ST 391), (93, 93, ST 512), (97, 102, ST 391)],
     St 411 False [(46, 46, ST 294), (48, 57, ST 392), (58, 58, ST 394), (65, 70, ST 392), (93, 93, ST 512),
       (97, 102, ST 392)],
     St 412 False [(46, 46, ST 294), (48, 53, ST 409), (54, 57, ST 392), (58, 58, ST 394), (65, 70, ST 392),
       (93, 93, ST 512), (97, 102, ST 392)],
     St 413 False [(46, 46, ST 294), (48, 57, ST 411), (58, 58, ST 394), (65, 70, ST 391), (93, 93, ST 512),
       (97, 102, ST 391)],
     St 414 False [(48, 57, ST 391), (58, 58, ST 394), (65, 70, ST 391), (93, 93, ST 512), (97, 102, ST 391)]]"

definition uri_items_63 :: "uri_action item list" where
  "uri_items_63 =
    [St 415 False [(46, 46, ST 294), (48, 57, ST 416), (58, 58, ST 389), (65, 70, ST 386), (93, 93, ST 512),
       (97, 102, ST 386)],
     St 416 False [(46, 46, ST 294), (48, 57, ST 417), (58, 58, ST 389), (65, 70, ST 387), (93, 93, ST 512),
       (97, 102, ST 387)],
     St 417 False [(46, 46, ST 294), (48, 57, ST 388), (58, 58, ST 389), (65, 70, ST 388), (93, 93, ST 512),
       (97, 102, ST 388)],
     St 418 False [(46, 46, ST 294), (48, 52, ST 419), (53, 53, ST 420), (54, 57, ST 419), (58, 58, ST 389),
       (65, 70, ST 386), (93, 93, ST 512), (97, 102, ST 386)],
     St 419 False [(46, 46, ST 294), (48, 57, ST 387), (58, 58, ST 389), (65, 70, ST 387), (93, 93, ST 512),
       (97, 102, ST 387)],
     St 420 False [(46, 46, ST 294), (48, 53, ST 417), (54, 57, ST 387), (58, 58, ST 389), (65, 70, ST 387),
       (93, 93, ST 512), (97, 102, ST 387)],
     St 421 False [(46, 46, ST 294), (48, 57, ST 419), (58, 58, ST 389), (65, 70, ST 386), (93, 93, ST 512),
       (97, 102, ST 386)],
     St 422 False [(48, 57, ST 386), (58, 58, ST 389), (65, 70, ST 386), (93, 93, ST 512), (97, 102, ST 386)]]"

definition uri_items_64 :: "uri_action item list" where
  "uri_items_64 =
    [St 423 False [(46, 46, ST 294), (48, 57, ST 424), (58, 58, ST 384), (65, 70, ST 381), (93, 93, ST 512),
       (97, 102, ST 381)],
     St 424 False [(46, 46, ST 294), (48, 57, ST 425), (58, 58, ST 384), (65, 70, ST 382), (93, 93, ST 512),
       (97, 102, ST 382)],
     St 425 False [(46, 46, ST 294), (48, 57, ST 383), (58, 58, ST 384), (65, 70, ST 383), (93, 93, ST 512),
       (97, 102, ST 383)],
     St 426 False [(46, 46, ST 294), (48, 52, ST 427), (53, 53, ST 428), (54, 57, ST 427), (58, 58, ST 384),
       (65, 70, ST 381), (93, 93, ST 512), (97, 102, ST 381)],
     St 427 False [(46, 46, ST 294), (48, 57, ST 382), (58, 58, ST 384), (65, 70, ST 382), (93, 93, ST 512),
       (97, 102, ST 382)],
     St 428 False [(46, 46, ST 294), (48, 53, ST 425), (54, 57, ST 382), (58, 58, ST 384), (65, 70, ST 382),
       (93, 93, ST 512), (97, 102, ST 382)],
     St 429 False [(46, 46, ST 294), (48, 57, ST 427), (58, 58, ST 384), (65, 70, ST 381), (93, 93, ST 512),
       (97, 102, ST 381)],
     St 430 False [(48, 57, ST 381), (58, 58, ST 384), (65, 70, ST 381), (93, 93, ST 512), (97, 102, ST 381)]]"

definition uri_items_65 :: "uri_action item list" where
  "uri_items_65 =
    [St 431 False [(46, 46, ST 294), (48, 57, ST 432), (58, 58, ST 379), (65, 70, ST 376), (93, 93, ST 512),
       (97, 102, ST 376)],
     St 432 False [(46, 46, ST 294), (48, 57, ST 433), (58, 58, ST 379), (65, 70, ST 377), (93, 93, ST 512),
       (97, 102, ST 377)],
     St 433 False [(46, 46, ST 294), (48, 57, ST 378), (58, 58, ST 379), (65, 70, ST 378), (93, 93, ST 512),
       (97, 102, ST 378)],
     St 434 False [(46, 46, ST 294), (48, 52, ST 435), (53, 53, ST 436), (54, 57, ST 435), (58, 58, ST 379),
       (65, 70, ST 376), (93, 93, ST 512), (97, 102, ST 376)],
     St 435 False [(46, 46, ST 294), (48, 57, ST 377), (58, 58, ST 379), (65, 70, ST 377), (93, 93, ST 512),
       (97, 102, ST 377)],
     St 436 False [(46, 46, ST 294), (48, 53, ST 433), (54, 57, ST 377), (58, 58, ST 379), (65, 70, ST 377),
       (93, 93, ST 512), (97, 102, ST 377)],
     St 437 False [(46, 46, ST 294), (48, 57, ST 435), (58, 58, ST 379), (65, 70, ST 376), (93, 93, ST 512),
       (97, 102, ST 376)],
     St 438 False [(48, 57, ST 376), (58, 58, ST 379), (65, 70, ST 376), (93, 93, ST 512), (97, 102, ST 376)]]"

definition uri_items_66 :: "uri_action item list" where
  "uri_items_66 =
    [St 439 False [(46, 46, ST 294), (48, 57, ST 440), (58, 58, ST 374), (65, 70, ST 371), (93, 93, ST 512),
       (97, 102, ST 371)],
     St 440 False [(46, 46, ST 294), (48, 57, ST 441), (58, 58, ST 374), (65, 70, ST 372), (93, 93, ST 512),
       (97, 102, ST 372)],
     St 441 False [(46, 46, ST 294), (48, 57, ST 373), (58, 58, ST 374), (65, 70, ST 373), (93, 93, ST 512),
       (97, 102, ST 373)],
     St 442 False [(46, 46, ST 294), (48, 52, ST 443), (53, 53, ST 444), (54, 57, ST 443), (58, 58, ST 374),
       (65, 70, ST 371), (93, 93, ST 512), (97, 102, ST 371)],
     St 443 False [(46, 46, ST 294), (48, 57, ST 372), (58, 58, ST 374), (65, 70, ST 372), (93, 93, ST 512),
       (97, 102, ST 372)],
     St 444 False [(46, 46, ST 294), (48, 53, ST 441), (54, 57, ST 372), (58, 58, ST 374), (65, 70, ST 372),
       (93, 93, ST 512), (97, 102, ST 372)],
     St 445 False [(46, 46, ST 294), (48, 57, ST 443), (58, 58, ST 374), (65, 70, ST 371), (93, 93, ST 512),
       (97, 102, ST 371)],
     St 446 False [(48, 57, ST 371), (58, 58, ST 374), (65, 70, ST 371), (93, 93, ST 512), (97, 102, ST 371)]]"

definition uri_items_67 :: "uri_action item list" where
  "uri_items_67 =
    [St 447 False [(48, 57, ST 448), (65, 70, ST 448), (97, 102, ST 448)],
     St 448 False [(46, 46, ST 449), (48, 57, ST 448), (65, 70, ST 448), (97, 102, ST 448)],
     St 449 False [(33, 33, ST 450), (36, 36, ST 450), (38, 46, ST 450), (48, 59, ST 450), (61, 61, ST 450),
       (65, 90, ST 450), (95, 95, ST 450), (97, 122, ST 450), (126, 126, ST 450)],
     St 450 False [(33, 33, ST 450), (36, 36, ST 450), (38, 46, ST 450), (48, 59, ST 450), (61, 61, ST 450),
       (65, 90, ST 450), (93, 93, ST 512), (95, 95, ST 450), (97, 122, ST 450), (126, 126, ST 450)],
     Tr 577 [U_mark] 542,
     St 542 False [(33, 33, ST 255), (35, 35, TR 570), (36, 36, ST 255), (37, 37, ST 256), (38, 46, ST 255),
       (47, 47, TR 571), (48, 57, ST 542), (58, 59, ST 255), (61, 61, ST 255), (63, 63, TR 573), (64, 64, TR 263),
       (65, 90, ST 255), (95, 95, ST 255), (97, 122, ST 255), (126, 126, ST 255)],
     Tr 551 [U_mark] 543,
     St 543 False [(33, 33, ST 520), (35, 35, TR 559), (36, 36, ST 520), (37, 37, ST 253), (38, 45, ST 520),
       (46, 46, ST 544), (47, 47, TR 560), (48, 57, ST 520), (58, 58, TR 576), (59, 59, ST 520), (61, 61, ST 520),
       (63, 63, TR 562), (64, 64, TR 263), (65, 90, ST 520), (95, 95, ST 520), (97, 122, ST 520), (126, 126, ST 520)]]"

definition uri_items_68 :: "uri_action item list" where
  "uri_items_68 =
    [St 544 False [(2, 2, ST 233), (33, 33, ST 520), (35, 35, TR 559), (36, 36, ST 520), (37, 37, ST 253),
       (38, 46, ST 520), (47, 47, TR 560), (48, 48, ST 545), (49, 49, ST 553), (50, 50, ST 555), (51, 57, ST 554),
       (58, 58, TR 576), (59, 59, ST 520), (61, 61, ST 520), (63, 63, TR 562), (64, 64, TR 263), (65, 90, ST 520),
       (95, 95, ST 520), (97, 122, ST 520), (126, 126, ST 520)],
     St 545 False [(33, 33, ST 520), (35, 35, TR 559), (36, 36, ST 520), (37, 37, ST 253), (38, 45, ST 520),
       (46, 46, ST 546), (47, 47, TR 560), (48, 57, ST 520), (58, 58, TR 576), (59, 59, ST 520), (61, 61, ST 520),
       (63, 63, TR 562), (64, 64, TR 263), (65, 90, ST 520), (95, 95, ST 520), (97, 122, ST 520), (126, 126, ST 520)],
     St 546 False [(2, 2, ST 237), (33, 33, ST 520), (35, 35, TR 559), (36, 36, ST 520), (37, 37, ST 253),
       (38, 46, ST 520), (47, 47, TR 560), (48, 48, ST 547), (49, 49, ST 549), (50, 50, ST 551), (51, 57, ST 550),
       (58, 58, TR 576), (59, 59, ST 520), (61, 61, ST 520), (63, 63, TR 562), (64, 64, TR 263), (65, 90, ST 520),
       (95, 95, ST 520), (97, 122, ST 520), (126, 126, ST 520)],
     St 547 False [(33, 33, ST 520), (35, 35, TR 559), (36, 36, ST 520), (37, 37, ST 253), (38, 45, ST 520),
       (46, 46, ST 548), (47, 47, TR 560), (48, 57, ST 520), (58, 58, TR 576), (59, 59, ST 520), (61, 61, ST 520),
       (63, 63, TR 562), (64, 64, TR 263), (65, 90, ST 520), (95, 95, ST 520), (97, 122, ST 520), (126, 126, ST 520)],
     St 548 False [(2, 2, ST 241), (33, 33, ST 520), (35, 35, TR 559), (36, 36, ST 520), (37, 37, ST 253),
       (38, 46, ST 520), (47, 47, TR 560), (48, 57, ST 520), (58, 58, TR 576), (59, 59, ST 520), (61, 61, ST 520),
       (63, 63, TR 562), (64, 64, TR 263), (65, 90, ST 520), (95, 95, ST 520), (97, 122, ST 520), (126, 126, ST 520)]]"

definition uri_items_69 :: "uri_action item list" where
  "uri_items_69 =
    [St 549 False [(33, 33, ST 520), (35, 35, TR 559), (36, 36, ST 520), (37, 37, ST 253), (38, 45, ST 520),
       (46, 46, ST 548), (47, 47, TR 560), (48, 57, ST 550), (58, 58, TR 576), (59, 59, ST 520), (61, 61, ST 520),
       (63, 63, TR 562), (64, 64, TR 263), (65, 90, ST 520), (95, 95, ST 520), (97, 122, ST 520), (126, 126, ST 520)],
     St 550 False [(33, 33, ST 520), (35, 35, TR 559), (36, 36, ST 520), (37, 37, ST 253), (38, 45, ST 520),
       (46, 46, ST 548), (47, 47, TR 560), (48, 57, ST 547), (58, 58, TR 576), (59, 59, ST 520), (61, 61, ST 520),
       (63, 63, TR 562), (64, 64, TR 263), (65, 90, ST 520), (95, 95, ST 520), (97, 122, ST 520), (126, 126, ST 520)],
     St 551 False [(33, 33, ST 520), (35, 35, TR 559), (36, 36, ST 520), (37, 37, ST 253), (38, 45, ST 520),
       (46, 46, ST 548), (47, 47, TR 560), (48, 52, ST 547), (53, 53, ST 552), (54, 57, ST 547), (58, 58, TR 576),
       (59, 59, ST 520), (61, 61, ST 520), (63, 63, TR 562), (64, 64, TR 263), (65, 90, ST 520), (95, 95, ST 520),
       (97, 122, ST 520), (126, 126, ST 520)],
     St 552 False [(33, 33, ST 520), (35, 35, TR 559), (36, 36, ST 520), (37, 37, ST 253), (38, 45, ST 520),
       (46, 46, ST 548), (47, 47, TR 560), (48, 53, ST 547), (54, 57, ST 520), (58, 58, TR 576), (59, 59, ST 520),
       (61, 61, ST 520), (63, 63, TR 562), (64, 64, TR 263), (65, 90, ST 520), (95, 95, ST 520), (97, 122, ST 520),
       (126, 126, ST 520)]]"

definition uri_items_70 :: "uri_action item list" where
  "uri_items_70 =
    [St 553 False [(33, 33, ST 520), (35, 35, TR 559), (36, 36, ST 520), (37, 37, ST 253), (38, 45, ST 520),
       (46, 46, ST 546), (47, 47, TR 560), (48, 57, ST 554), (58, 58, TR 576), (59, 59, ST 520), (61, 61, ST 520),
       (63, 63, TR 562), (64, 64, TR 263), (65, 90, ST 520), (95, 95, ST 520), (97, 122, ST 520), (126, 126, ST 520)],
     St 554 False [(33, 33, ST 520), (35, 35, TR 559), (36, 36, ST 520), (37, 37, ST 253), (38, 45, ST 520),
       (46, 46, ST 546), (47, 47, TR 560), (48, 57, ST 545), (58, 58, TR 576), (59, 59, ST 520), (61, 61, ST 520),
       (63, 63, TR 562), (64, 64, TR 263), (65, 90, ST 520), (95, 95, ST 520), (97, 122, ST 520), (126, 126, ST 520)],
     St 555 False [(33, 33, ST 520), (35, 35, TR 559), (36, 36, ST 520), (37, 37, ST 253), (38, 45, ST 520),
       (46, 46, ST 546), (47, 47, TR 560), (48, 52, ST 545), (53, 53, ST 556), (54, 57, ST 545), (58, 58, TR 576),
       (59, 59, ST 520), (61, 61, ST 520), (63, 63, TR 562), (64, 64, TR 263), (65, 90, ST 520), (95, 95, ST 520),
       (97, 122, ST 520), (126, 126, ST 520)],
     St 556 False [(33, 33, ST 520), (35, 35, TR 559), (36, 36, ST 520), (37, 37, ST 253), (38, 45, ST 520),
       (46, 46, ST 546), (47, 47, TR 560), (48, 53, ST 545), (54, 57, ST 520), (58, 58, TR 576), (59, 59, ST 520),
       (61, 61, ST 520), (63, 63, TR 562), (64, 64, TR 263), (65, 90, ST 520), (95, 95, ST 520), (97, 122, ST 520),
       (126, 126, ST 520)],
     Tr 552 [U_mark] 557]"

definition uri_items_71 :: "uri_action item list" where
  "uri_items_71 =
    [St 557 False [(33, 33, ST 520), (35, 35, TR 559), (36, 36, ST 520), (37, 37, ST 253), (38, 45, ST 520),
       (46, 46, ST 544), (47, 47, TR 560), (48, 57, ST 558), (58, 58, TR 576), (59, 59, ST 520), (61, 61, ST 520),
       (63, 63, TR 562), (64, 64, TR 263), (65, 90, ST 520), (95, 95, ST 520), (97, 122, ST 520), (126, 126, ST 520)],
     Tr 554 [U_mark] 558,
     St 558 False [(33, 33, ST 520), (35, 35, TR 559), (36, 36, ST 520), (37, 37, ST 253), (38, 45, ST 520),
       (46, 46, ST 544), (47, 47, TR 560), (48, 57, ST 543), (58, 58, TR 576), (59, 59, ST 520), (61, 61, ST 520),
       (63, 63, TR 562), (64, 64, TR 263), (65, 90, ST 520), (95, 95, ST 520), (97, 122, ST 520), (126, 126, ST 520)],
     Tr 553 [U_mark] 559,
     St 559 False [(33, 33, ST 520), (35, 35, TR 559), (36, 36, ST 520), (37, 37, ST 253), (38, 45, ST 520),
       (46, 46, ST 544), (47, 47, TR 560), (48, 52, ST 543), (53, 53, ST 560), (54, 57, ST 543), (58, 58, TR 576),
       (59, 59, ST 520), (61, 61, ST 520), (63, 63, TR 562), (64, 64, TR 263), (65, 90, ST 520), (95, 95, ST 520),
       (97, 122, ST 520), (126, 126, ST 520)],
     St 560 False [(33, 33, ST 520), (35, 35, TR 559), (36, 36, ST 520), (37, 37, ST 253), (38, 45, ST 520),
       (46, 46, ST 544), (47, 47, TR 560), (48, 53, ST 543), (54, 57, ST 520), (58, 58, TR 576), (59, 59, ST 520),
       (61, 61, ST 520), (63, 63, TR 562), (64, 64, TR 263), (65, 90, ST 520), (95, 95, ST 520), (97, 122, ST 520),
       (126, 126, ST 520)]]"

definition uri_items :: "uri_action item list" where
  "uri_items = uri_items_1 @ uri_items_2 @ uri_items_3 @ uri_items_4 @ uri_items_5 @ uri_items_6 @
     uri_items_7 @ uri_items_8 @ uri_items_9 @ uri_items_10 @ uri_items_11 @ uri_items_12 @ uri_items_13 @
     uri_items_14 @ uri_items_15 @ uri_items_16 @ uri_items_17 @ uri_items_18 @ uri_items_19 @ uri_items_20 @
     uri_items_21 @ uri_items_22 @ uri_items_23 @ uri_items_24 @ uri_items_25 @ uri_items_26 @ uri_items_27 @
     uri_items_28 @ uri_items_29 @ uri_items_30 @ uri_items_31 @ uri_items_32 @ uri_items_33 @ uri_items_34 @
     uri_items_35 @ uri_items_36 @ uri_items_37 @ uri_items_38 @ uri_items_39 @ uri_items_40 @ uri_items_41 @
     uri_items_42 @ uri_items_43 @ uri_items_44 @ uri_items_45 @ uri_items_46 @ uri_items_47 @ uri_items_48 @
     uri_items_49 @ uri_items_50 @ uri_items_51 @ uri_items_52 @ uri_items_53 @ uri_items_54 @ uri_items_55 @
     uri_items_56 @ uri_items_57 @ uri_items_58 @ uri_items_59 @ uri_items_60 @ uri_items_61 @ uri_items_62 @
     uri_items_63 @ uri_items_64 @ uri_items_65 @ uri_items_66 @ uri_items_67 @ uri_items_68 @ uri_items_69 @
     uri_items_70 @ uri_items_71"

lemmas uri_items_chunks = uri_items_1_def uri_items_2_def uri_items_3_def uri_items_4_def uri_items_5_def uri_items_6_def uri_items_7_def uri_items_8_def
  uri_items_9_def uri_items_10_def uri_items_11_def uri_items_12_def uri_items_13_def uri_items_14_def uri_items_15_def uri_items_16_def
  uri_items_17_def uri_items_18_def uri_items_19_def uri_items_20_def uri_items_21_def uri_items_22_def uri_items_23_def uri_items_24_def
  uri_items_25_def uri_items_26_def uri_items_27_def uri_items_28_def uri_items_29_def uri_items_30_def uri_items_31_def uri_items_32_def
  uri_items_33_def uri_items_34_def uri_items_35_def uri_items_36_def uri_items_37_def uri_items_38_def uri_items_39_def uri_items_40_def
  uri_items_41_def uri_items_42_def uri_items_43_def uri_items_44_def uri_items_45_def uri_items_46_def uri_items_47_def uri_items_48_def
  uri_items_49_def uri_items_50_def uri_items_51_def uri_items_52_def uri_items_53_def uri_items_54_def uri_items_55_def uri_items_56_def
  uri_items_57_def uri_items_58_def uri_items_59_def uri_items_60_def uri_items_61_def uri_items_62_def uri_items_63_def uri_items_64_def
  uri_items_65_def uri_items_66_def uri_items_67_def uri_items_68_def uri_items_69_def uri_items_70_def uri_items_71_def

section \<open>Its labels\<close>

text \<open>The states and transitions of each part; every jump leads to one of them.\<close>

lemma uri_states:
  "state_numbers uri_items_1 = [451, 452]"
  "state_numbers uri_items_2 = [453, 454, 1, 2, 3]"
  "state_numbers uri_items_3 = [4, 455, 5, 6]"
  "state_numbers uri_items_4 = [456, 457, 7]"
  "state_numbers uri_items_5 = [8, 458, 459, 9, 10, 11, 12, 13, 14, 15, 16]"
  "state_numbers uri_items_6 = [17, 18, 19, 20, 21, 22, 460, 461, 462, 463, 464, 465]"
  "state_numbers uri_items_7 = [466, 23, 24, 25, 26, 27, 28, 29, 30, 467, 31, 32]"
  "state_numbers uri_items_8 = [468, 33, 34, 35]"
  "state_numbers uri_items_9 = [469, 470, 36, 37, 471]"
  "state_numbers uri_items_10 = [472, 473, 474, 475, 476]"
  "state_numbers uri_items_11 = [477, 478, 479, 480, 481]"
  "state_numbers uri_items_12 = [482, 483, 484, 485]"
  "state_numbers uri_items_13 = [486, 487, 488, 38, 39, 40]"
  "state_numbers uri_items_14 = [41, 42, 43, 44, 45, 46, 47, 48, 49, 50, 51]"
  "state_numbers uri_items_15 = [52, 53, 54, 55, 56, 57, 58, 59, 60, 61, 62]"
  "state_numbers uri_items_16 = [63, 64, 65, 66, 67, 68, 69, 70, 71, 72, 73, 74, 75]"
  "state_numbers uri_items_17 = [76, 77, 78, 79, 80, 81, 82, 83, 84, 85, 86, 87, 88, 89, 90, 91]"
  "state_numbers uri_items_18 = [92, 93, 94, 95, 96, 97, 98, 99, 100, 101, 102]"
  "state_numbers uri_items_19 = [103, 104, 105, 106, 107, 108, 109, 110]"
  "state_numbers uri_items_20 = [111, 112, 113, 114, 115, 116, 117, 118, 119]"
  "state_numbers uri_items_21 = [120, 121, 122, 123, 124, 125, 126, 127, 128]"
  "state_numbers uri_items_22 = [129, 130, 131, 132, 133, 134, 135, 136, 137, 138, 139]"
  "state_numbers uri_items_23 = [140, 141, 142, 143, 144, 145, 146, 147, 148, 149]"
  "state_numbers uri_items_24 = [150, 151, 152, 153, 154, 155, 156, 157, 158]"
  "state_numbers uri_items_25 = [159, 160, 161, 162, 163, 164, 165, 166, 167]"
  "state_numbers uri_items_26 = [168, 169, 170, 171, 172, 173, 174, 175, 176]"
  "state_numbers uri_items_27 = [177, 178, 179, 180, 181, 182, 183, 184]"
  "state_numbers uri_items_28 = [185, 186, 187, 188, 189, 190, 191, 192]"
  "state_numbers uri_items_29 = [193, 194, 195, 196, 197, 198, 199, 200]"
  "state_numbers uri_items_30 = [201, 202, 203, 204, 205, 206, 207, 208]"
  "state_numbers uri_items_31 = [209, 210, 211, 212, 213, 214, 215, 216]"
  "state_numbers uri_items_32 = [217, 218, 219, 220, 221, 222, 223, 224]"
  "state_numbers uri_items_33 = [225, 226, 227, 228, 489, 490]"
  "state_numbers uri_items_34 = [491, 492, 493, 494, 495]"
  "state_numbers uri_items_35 = [496, 497, 498, 499]"
  "state_numbers uri_items_36 = [500, 501, 502, 503]"
  "state_numbers uri_items_37 = [504, 505, 506, 507]"
  "state_numbers uri_items_38 = [508, 509, 510, 511, 229, 230]"
  "state_numbers uri_items_39 = [231, 232, 233, 234, 235, 236, 237, 238, 239, 240, 241, 242, 512]"
  "state_numbers uri_items_40 = [513, 243, 244, 514, 515, 516, 517]"
  "state_numbers uri_items_41 = [518, 519, 245, 246, 247, 248, 249, 250, 251, 252, 520]"
  "state_numbers uri_items_42 = [253, 254, 521, 255, 256, 257]"
  "state_numbers uri_items_43 = [522, 523, 258, 259, 524]"
  "state_numbers uri_items_44 = [525, 526, 527, 528, 529]"
  "state_numbers uri_items_45 = [530, 531, 532, 533, 534]"
  "state_numbers uri_items_46 = [535, 536, 537, 538]"
  "state_numbers uri_items_47 = [539, 540, 541, 260, 261, 262]"
  "state_numbers uri_items_48 = [263, 264, 265, 266, 267, 268, 269, 270, 271, 272, 273]"
  "state_numbers uri_items_49 = [274, 275, 276, 277, 278, 279, 280, 281, 282, 283, 284]"
  "state_numbers uri_items_50 = [285, 286, 287, 288, 289, 290, 291, 292, 293, 294, 295, 296, 297]"
  "state_numbers uri_items_51 = [298, 299, 300, 301, 302, 303, 304, 305, 306, 307, 308, 309, 310, 311, 312, 313]"
  "state_numbers uri_items_52 = [314, 315, 316, 317, 318, 319, 320, 321, 322, 323, 324]"
  "state_numbers uri_items_53 = [325, 326, 327, 328, 329, 330, 331, 332]"
  "state_numbers uri_items_54 = [333, 334, 335, 336, 337, 338, 339, 340, 341]"
  "state_numbers uri_items_55 = [342, 343, 344, 345, 346, 347, 348, 349, 350]"
  "state_numbers uri_items_56 = [351, 352, 353, 354, 355, 356, 357, 358, 359, 360, 361]"
  "state_numbers uri_items_57 = [362, 363, 364, 365, 366, 367, 368, 369, 370, 371]"
  "state_numbers uri_items_58 = [372, 373, 374, 375, 376, 377, 378, 379, 380]"
  "state_numbers uri_items_59 = [381, 382, 383, 384, 385, 386, 387, 388, 389]"
  "state_numbers uri_items_60 = [390, 391, 392, 393, 394, 395, 396, 397, 398]"
  "state_numbers uri_items_61 = [399, 400, 401, 402, 403, 404, 405, 406]"
  "state_numbers uri_items_62 = [407, 408, 409, 410, 411, 412, 413, 414]"
  "state_numbers uri_items_63 = [415, 416, 417, 418, 419, 420, 421, 422]"
  "state_numbers uri_items_64 = [423, 424, 425, 426, 427, 428, 429, 430]"
  "state_numbers uri_items_65 = [431, 432, 433, 434, 435, 436, 437, 438]"
  "state_numbers uri_items_66 = [439, 440, 441, 442, 443, 444, 445, 446]"
  "state_numbers uri_items_67 = [447, 448, 449, 450, 542, 543]"
  "state_numbers uri_items_68 = [544, 545, 546, 547, 548]"
  "state_numbers uri_items_69 = [549, 550, 551, 552]"
  "state_numbers uri_items_70 = [553, 554, 555, 556]"
  "state_numbers uri_items_71 = [557, 558, 559, 560]"
  by (simp_all add: state_numbers_def uri_items_chunks)

lemma uri_trans:
  "trans_numbers uri_items_1 = [467, 469, 474, 485, 489, 493, 548, 559]"
  "trans_numbers uri_items_2 = [563, 566, 570, 462, 463]"
  "trans_numbers uri_items_3 = [476, 486, 490, 494, 482, 488, 492, 496]"
  "trans_numbers uri_items_4 = [556, 562, 565, 569, 573, 466, 468]"
  "trans_numbers uri_items_5 = [472]"
  "trans_numbers uri_items_6 = [507, 487, 491]"
  "trans_numbers uri_items_7 = [473, 475]"
  "trans_numbers uri_items_8 = [481, 499, 38, 483]"
  "trans_numbers uri_items_9 = [501, 502, 503]"
  "trans_numbers uri_items_10 = []"
  "trans_numbers uri_items_11 = []"
  "trans_numbers uri_items_12 = [504, 506]"
  "trans_numbers uri_items_13 = [505, 484]"
  "trans_numbers uri_items_14 = []"
  "trans_numbers uri_items_15 = []"
  "trans_numbers uri_items_16 = []"
  "trans_numbers uri_items_17 = []"
  "trans_numbers uri_items_18 = []"
  "trans_numbers uri_items_19 = []"
  "trans_numbers uri_items_20 = []"
  "trans_numbers uri_items_21 = []"
  "trans_numbers uri_items_22 = []"
  "trans_numbers uri_items_23 = []"
  "trans_numbers uri_items_24 = []"
  "trans_numbers uri_items_25 = []"
  "trans_numbers uri_items_26 = []"
  "trans_numbers uri_items_27 = []"
  "trans_numbers uri_items_28 = []"
  "trans_numbers uri_items_29 = []"
  "trans_numbers uri_items_30 = []"
  "trans_numbers uri_items_31 = []"
  "trans_numbers uri_items_32 = []"
  "trans_numbers uri_items_33 = [500, 477]"
  "trans_numbers uri_items_34 = []"
  "trans_numbers uri_items_35 = []"
  "trans_numbers uri_items_36 = [478]"
  "trans_numbers uri_items_37 = [480, 479, 461]"
  "trans_numbers uri_items_38 = [543, 546]"
  "trans_numbers uri_items_39 = [550, 567, 560]"
  "trans_numbers uri_items_40 = [571, 584, 561, 568]"
  "trans_numbers uri_items_41 = [547, 549]"
  "trans_numbers uri_items_42 = [555, 576, 263, 557]"
  "trans_numbers uri_items_43 = [578, 579, 580]"
  "trans_numbers uri_items_44 = []"
  "trans_numbers uri_items_45 = []"
  "trans_numbers uri_items_46 = [581, 583]"
  "trans_numbers uri_items_47 = [582, 558]"
  "trans_numbers uri_items_48 = []"
  "trans_numbers uri_items_49 = []"
  "trans_numbers uri_items_50 = []"
  "trans_numbers uri_items_51 = []"
  "trans_numbers uri_items_52 = []"
  "trans_numbers uri_items_53 = []"
  "trans_numbers uri_items_54 = []"
  "trans_numbers uri_items_55 = []"
  "trans_numbers uri_items_56 = []"
  "trans_numbers uri_items_57 = []"
  "trans_numbers uri_items_58 = []"
  "trans_numbers uri_items_59 = []"
  "trans_numbers uri_items_60 = []"
  "trans_numbers uri_items_61 = []"
  "trans_numbers uri_items_62 = []"
  "trans_numbers uri_items_63 = []"
  "trans_numbers uri_items_64 = []"
  "trans_numbers uri_items_65 = []"
  "trans_numbers uri_items_66 = []"
  "trans_numbers uri_items_67 = [577, 551]"
  "trans_numbers uri_items_68 = []"
  "trans_numbers uri_items_69 = []"
  "trans_numbers uri_items_70 = [552]"
  "trans_numbers uri_items_71 = [554, 553]"
  by (simp_all add: trans_numbers_def uri_items_chunks)

definition uri_labels :: "nat list" where
  "uri_labels = [467, 469, 474, 485, 489, 493, 548, 559, 563, 566, 570, 462, 463, 476, 486, 490, 494, 482, 488, 492, 496, 556, 562, 565, 569,
     573, 466, 468, 472, 507, 487, 491, 473, 475, 481, 499, 38, 483, 501, 502, 503, 504, 506, 505, 484, 500, 477, 478, 480, 479,
     461, 543, 546, 550, 567, 560, 571, 584, 561, 568, 547, 549, 555, 576, 263, 557, 578, 579, 580, 581, 583, 582, 558, 577, 551,
     552, 554, 553]"

lemma uri_label:
  "467 \<in> set uri_labels"
  "469 \<in> set uri_labels"
  "474 \<in> set uri_labels"
  "485 \<in> set uri_labels"
  "489 \<in> set uri_labels"
  "493 \<in> set uri_labels"
  "548 \<in> set uri_labels"
  "559 \<in> set uri_labels"
  "563 \<in> set uri_labels"
  "566 \<in> set uri_labels"
  "570 \<in> set uri_labels"
  "462 \<in> set uri_labels"
  "463 \<in> set uri_labels"
  "476 \<in> set uri_labels"
  "486 \<in> set uri_labels"
  "490 \<in> set uri_labels"
  "494 \<in> set uri_labels"
  "482 \<in> set uri_labels"
  "488 \<in> set uri_labels"
  "492 \<in> set uri_labels"
  "496 \<in> set uri_labels"
  "556 \<in> set uri_labels"
  "562 \<in> set uri_labels"
  "565 \<in> set uri_labels"
  "569 \<in> set uri_labels"
  "573 \<in> set uri_labels"
  "466 \<in> set uri_labels"
  "468 \<in> set uri_labels"
  "472 \<in> set uri_labels"
  "507 \<in> set uri_labels"
  "487 \<in> set uri_labels"
  "491 \<in> set uri_labels"
  "473 \<in> set uri_labels"
  "475 \<in> set uri_labels"
  "481 \<in> set uri_labels"
  "499 \<in> set uri_labels"
  "38 \<in> set uri_labels"
  "483 \<in> set uri_labels"
  "501 \<in> set uri_labels"
  "502 \<in> set uri_labels"
  "503 \<in> set uri_labels"
  "504 \<in> set uri_labels"
  "506 \<in> set uri_labels"
  "505 \<in> set uri_labels"
  "484 \<in> set uri_labels"
  "500 \<in> set uri_labels"
  "477 \<in> set uri_labels"
  "478 \<in> set uri_labels"
  "480 \<in> set uri_labels"
  "479 \<in> set uri_labels"
  "461 \<in> set uri_labels"
  "543 \<in> set uri_labels"
  "546 \<in> set uri_labels"
  "550 \<in> set uri_labels"
  "567 \<in> set uri_labels"
  "560 \<in> set uri_labels"
  "571 \<in> set uri_labels"
  "584 \<in> set uri_labels"
  "561 \<in> set uri_labels"
  "568 \<in> set uri_labels"
  "547 \<in> set uri_labels"
  "549 \<in> set uri_labels"
  "555 \<in> set uri_labels"
  "576 \<in> set uri_labels"
  "263 \<in> set uri_labels"
  "557 \<in> set uri_labels"
  "578 \<in> set uri_labels"
  "579 \<in> set uri_labels"
  "580 \<in> set uri_labels"
  "581 \<in> set uri_labels"
  "583 \<in> set uri_labels"
  "582 \<in> set uri_labels"
  "558 \<in> set uri_labels"
  "577 \<in> set uri_labels"
  "551 \<in> set uri_labels"
  "552 \<in> set uri_labels"
  "554 \<in> set uri_labels"
  "553 \<in> set uri_labels"
  by (simp_all add: uri_labels_def)

lemma uri_jumps_1:
  "list_all (item_closed 560 uri_labels) uri_items_1"
  "list_all (item_closed 560 uri_labels) uri_items_2"
  "list_all (item_closed 560 uri_labels) uri_items_3"
  "list_all (item_closed 560 uri_labels) uri_items_4"
  "list_all (item_closed 560 uri_labels) uri_items_5"
  "list_all (item_closed 560 uri_labels) uri_items_6"
  "list_all (item_closed 560 uri_labels) uri_items_7"
  "list_all (item_closed 560 uri_labels) uri_items_8"
  "list_all (item_closed 560 uri_labels) uri_items_9"
  "list_all (item_closed 560 uri_labels) uri_items_10"
  by (simp_all add: item_closed_def uri_label uri_items_1_def uri_items_2_def uri_items_3_def uri_items_4_def uri_items_5_def uri_items_6_def uri_items_7_def uri_items_8_def uri_items_9_def uri_items_10_def)

lemma uri_jumps_2:
  "list_all (item_closed 560 uri_labels) uri_items_11"
  "list_all (item_closed 560 uri_labels) uri_items_12"
  "list_all (item_closed 560 uri_labels) uri_items_13"
  "list_all (item_closed 560 uri_labels) uri_items_14"
  "list_all (item_closed 560 uri_labels) uri_items_15"
  "list_all (item_closed 560 uri_labels) uri_items_16"
  "list_all (item_closed 560 uri_labels) uri_items_17"
  "list_all (item_closed 560 uri_labels) uri_items_18"
  "list_all (item_closed 560 uri_labels) uri_items_19"
  "list_all (item_closed 560 uri_labels) uri_items_20"
  by (simp_all add: item_closed_def uri_label uri_items_11_def uri_items_12_def uri_items_13_def uri_items_14_def uri_items_15_def uri_items_16_def uri_items_17_def uri_items_18_def uri_items_19_def uri_items_20_def)

lemma uri_jumps_3:
  "list_all (item_closed 560 uri_labels) uri_items_21"
  "list_all (item_closed 560 uri_labels) uri_items_22"
  "list_all (item_closed 560 uri_labels) uri_items_23"
  "list_all (item_closed 560 uri_labels) uri_items_24"
  "list_all (item_closed 560 uri_labels) uri_items_25"
  "list_all (item_closed 560 uri_labels) uri_items_26"
  "list_all (item_closed 560 uri_labels) uri_items_27"
  "list_all (item_closed 560 uri_labels) uri_items_28"
  "list_all (item_closed 560 uri_labels) uri_items_29"
  "list_all (item_closed 560 uri_labels) uri_items_30"
  by (simp_all add: item_closed_def uri_label uri_items_21_def uri_items_22_def uri_items_23_def uri_items_24_def uri_items_25_def uri_items_26_def uri_items_27_def uri_items_28_def uri_items_29_def uri_items_30_def)

lemma uri_jumps_4:
  "list_all (item_closed 560 uri_labels) uri_items_31"
  "list_all (item_closed 560 uri_labels) uri_items_32"
  "list_all (item_closed 560 uri_labels) uri_items_33"
  "list_all (item_closed 560 uri_labels) uri_items_34"
  "list_all (item_closed 560 uri_labels) uri_items_35"
  "list_all (item_closed 560 uri_labels) uri_items_36"
  "list_all (item_closed 560 uri_labels) uri_items_37"
  "list_all (item_closed 560 uri_labels) uri_items_38"
  "list_all (item_closed 560 uri_labels) uri_items_39"
  "list_all (item_closed 560 uri_labels) uri_items_40"
  by (simp_all add: item_closed_def uri_label uri_items_31_def uri_items_32_def uri_items_33_def uri_items_34_def uri_items_35_def uri_items_36_def uri_items_37_def uri_items_38_def uri_items_39_def uri_items_40_def)

lemma uri_jumps_5:
  "list_all (item_closed 560 uri_labels) uri_items_41"
  "list_all (item_closed 560 uri_labels) uri_items_42"
  "list_all (item_closed 560 uri_labels) uri_items_43"
  "list_all (item_closed 560 uri_labels) uri_items_44"
  "list_all (item_closed 560 uri_labels) uri_items_45"
  "list_all (item_closed 560 uri_labels) uri_items_46"
  "list_all (item_closed 560 uri_labels) uri_items_47"
  "list_all (item_closed 560 uri_labels) uri_items_48"
  "list_all (item_closed 560 uri_labels) uri_items_49"
  "list_all (item_closed 560 uri_labels) uri_items_50"
  by (simp_all add: item_closed_def uri_label uri_items_41_def uri_items_42_def uri_items_43_def uri_items_44_def uri_items_45_def uri_items_46_def uri_items_47_def uri_items_48_def uri_items_49_def uri_items_50_def)

lemma uri_jumps_6:
  "list_all (item_closed 560 uri_labels) uri_items_51"
  "list_all (item_closed 560 uri_labels) uri_items_52"
  "list_all (item_closed 560 uri_labels) uri_items_53"
  "list_all (item_closed 560 uri_labels) uri_items_54"
  "list_all (item_closed 560 uri_labels) uri_items_55"
  "list_all (item_closed 560 uri_labels) uri_items_56"
  "list_all (item_closed 560 uri_labels) uri_items_57"
  "list_all (item_closed 560 uri_labels) uri_items_58"
  "list_all (item_closed 560 uri_labels) uri_items_59"
  "list_all (item_closed 560 uri_labels) uri_items_60"
  by (simp_all add: item_closed_def uri_label uri_items_51_def uri_items_52_def uri_items_53_def uri_items_54_def uri_items_55_def uri_items_56_def uri_items_57_def uri_items_58_def uri_items_59_def uri_items_60_def)

lemma uri_jumps_7:
  "list_all (item_closed 560 uri_labels) uri_items_61"
  "list_all (item_closed 560 uri_labels) uri_items_62"
  "list_all (item_closed 560 uri_labels) uri_items_63"
  "list_all (item_closed 560 uri_labels) uri_items_64"
  "list_all (item_closed 560 uri_labels) uri_items_65"
  "list_all (item_closed 560 uri_labels) uri_items_66"
  "list_all (item_closed 560 uri_labels) uri_items_67"
  "list_all (item_closed 560 uri_labels) uri_items_68"
  "list_all (item_closed 560 uri_labels) uri_items_69"
  "list_all (item_closed 560 uri_labels) uri_items_70"
  by (simp_all add: item_closed_def uri_label uri_items_61_def uri_items_62_def uri_items_63_def uri_items_64_def uri_items_65_def uri_items_66_def uri_items_67_def uri_items_68_def uri_items_69_def uri_items_70_def)

lemma uri_jumps_8:
  "list_all (item_closed 560 uri_labels) uri_items_71"
  by (simp_all add: item_closed_def uri_label uri_items_71_def)

text \<open>The states in the order of the file, as intervals.\<close>

lemma uri_intervals:
  "state_numbers uri_items_1 = [451..<453]"
  "state_numbers uri_items_2 = [453..<455] @ [1..<4]"
  "state_numbers uri_items_3 = [4..<5] @ [455..<456] @ [5..<7]"
  "state_numbers uri_items_4 = [456..<458] @ [7..<8]"
  "state_numbers uri_items_5 = [8..<9] @ [458..<460] @ [9..<17]"
  "state_numbers uri_items_6 = [17..<23] @ [460..<466]"
  "state_numbers uri_items_7 = [466..<467] @ [23..<31] @ [467..<468] @ [31..<33]"
  "state_numbers uri_items_8 = [468..<469] @ [33..<36]"
  "state_numbers uri_items_9 = [469..<471] @ [36..<38] @ [471..<472]"
  "state_numbers uri_items_10 = [472..<477]"
  "state_numbers uri_items_11 = [477..<482]"
  "state_numbers uri_items_12 = [482..<486]"
  "state_numbers uri_items_13 = [486..<489] @ [38..<41]"
  "state_numbers uri_items_14 = [41..<52]"
  "state_numbers uri_items_15 = [52..<63]"
  "state_numbers uri_items_16 = [63..<76]"
  "state_numbers uri_items_17 = [76..<92]"
  "state_numbers uri_items_18 = [92..<103]"
  "state_numbers uri_items_19 = [103..<111]"
  "state_numbers uri_items_20 = [111..<120]"
  "state_numbers uri_items_21 = [120..<129]"
  "state_numbers uri_items_22 = [129..<140]"
  "state_numbers uri_items_23 = [140..<150]"
  "state_numbers uri_items_24 = [150..<159]"
  "state_numbers uri_items_25 = [159..<168]"
  "state_numbers uri_items_26 = [168..<177]"
  "state_numbers uri_items_27 = [177..<185]"
  "state_numbers uri_items_28 = [185..<193]"
  "state_numbers uri_items_29 = [193..<201]"
  "state_numbers uri_items_30 = [201..<209]"
  "state_numbers uri_items_31 = [209..<217]"
  "state_numbers uri_items_32 = [217..<225]"
  "state_numbers uri_items_33 = [225..<229] @ [489..<491]"
  "state_numbers uri_items_34 = [491..<496]"
  "state_numbers uri_items_35 = [496..<500]"
  "state_numbers uri_items_36 = [500..<504]"
  "state_numbers uri_items_37 = [504..<508]"
  "state_numbers uri_items_38 = [508..<512] @ [229..<231]"
  "state_numbers uri_items_39 = [231..<243] @ [512..<513]"
  "state_numbers uri_items_40 = [513..<514] @ [243..<245] @ [514..<518]"
  "state_numbers uri_items_41 = [518..<520] @ [245..<253] @ [520..<521]"
  "state_numbers uri_items_42 = [253..<255] @ [521..<522] @ [255..<258]"
  "state_numbers uri_items_43 = [522..<524] @ [258..<260] @ [524..<525]"
  "state_numbers uri_items_44 = [525..<530]"
  "state_numbers uri_items_45 = [530..<535]"
  "state_numbers uri_items_46 = [535..<539]"
  "state_numbers uri_items_47 = [539..<542] @ [260..<263]"
  "state_numbers uri_items_48 = [263..<274]"
  "state_numbers uri_items_49 = [274..<285]"
  "state_numbers uri_items_50 = [285..<298]"
  "state_numbers uri_items_51 = [298..<314]"
  "state_numbers uri_items_52 = [314..<325]"
  "state_numbers uri_items_53 = [325..<333]"
  "state_numbers uri_items_54 = [333..<342]"
  "state_numbers uri_items_55 = [342..<351]"
  "state_numbers uri_items_56 = [351..<362]"
  "state_numbers uri_items_57 = [362..<372]"
  "state_numbers uri_items_58 = [372..<381]"
  "state_numbers uri_items_59 = [381..<390]"
  "state_numbers uri_items_60 = [390..<399]"
  "state_numbers uri_items_61 = [399..<407]"
  "state_numbers uri_items_62 = [407..<415]"
  "state_numbers uri_items_63 = [415..<423]"
  "state_numbers uri_items_64 = [423..<431]"
  "state_numbers uri_items_65 = [431..<439]"
  "state_numbers uri_items_66 = [439..<447]"
  "state_numbers uri_items_67 = [447..<451] @ [542..<544]"
  "state_numbers uri_items_68 = [544..<549]"
  "state_numbers uri_items_69 = [549..<553]"
  "state_numbers uri_items_70 = [553..<557]"
  "state_numbers uri_items_71 = [557..<561]"
  by (simp_all add: uri_states upt_rec [of "Suc 0"] flip: numeral_2_eq_2)

lemma uri_sorted: "sort (state_numbers uri_items) = [1..<561]"
proof -
  have "mset (state_numbers uri_items) =
       mset [451..<453] + mset [453..<455] + mset [1..<4] + mset [4..<5] + mset [455..<456] + mset [5..<7] + 
       mset [456..<458] + mset [7..<8] + mset [8..<9] + mset [458..<460] + mset [9..<17] + mset [17..<23] + 
       mset [460..<466] + mset [466..<467] + mset [23..<31] + mset [467..<468] + mset [31..<33] + mset [468..<469] + 
       mset [33..<36] + mset [469..<471] + mset [36..<38] + mset [471..<472] + mset [472..<477] + mset [477..<482] + 
       mset [482..<486] + mset [486..<489] + mset [38..<41] + mset [41..<52] + mset [52..<63] + mset [63..<76] + 
       mset [76..<92] + mset [92..<103] + mset [103..<111] + mset [111..<120] + mset [120..<129] + mset [129..<140] + 
       mset [140..<150] + mset [150..<159] + mset [159..<168] + mset [168..<177] + mset [177..<185] + mset [185..<193] + 
       mset [193..<201] + mset [201..<209] + mset [209..<217] + mset [217..<225] + mset [225..<229] + mset [489..<491] + 
       mset [491..<496] + mset [496..<500] + mset [500..<504] + mset [504..<508] + mset [508..<512] + mset [229..<231] + 
       mset [231..<243] + mset [512..<513] + mset [513..<514] + mset [243..<245] + mset [514..<518] + mset [518..<520] + 
       mset [245..<253] + mset [520..<521] + mset [253..<255] + mset [521..<522] + mset [255..<258] + mset [522..<524] + 
       mset [258..<260] + mset [524..<525] + mset [525..<530] + mset [530..<535] + mset [535..<539] + mset [539..<542] + 
       mset [260..<263] + mset [263..<274] + mset [274..<285] + mset [285..<298] + mset [298..<314] + mset [314..<325] + 
       mset [325..<333] + mset [333..<342] + mset [342..<351] + mset [351..<362] + mset [362..<372] + mset [372..<381] + 
       mset [381..<390] + mset [390..<399] + mset [399..<407] + mset [407..<415] + mset [415..<423] + mset [423..<431] + 
       mset [431..<439] + mset [439..<447] + mset [447..<451] + mset [542..<544] + mset [544..<549] + mset [549..<553] + 
       mset [553..<557] + mset [557..<561]"
    by (simp only: uri_items_def numbers_append uri_intervals mset_append mset.simps add_0 add_0_right add.assoc)
  also have "\<dots> =
       mset [1..<4] + mset [4..<5] + mset [5..<7] + mset [7..<8] + mset [8..<9] + mset [9..<17] + 
       mset [17..<23] + mset [23..<31] + mset [31..<33] + mset [33..<36] + mset [36..<38] + mset [38..<41] + 
       mset [41..<52] + mset [52..<63] + mset [63..<76] + mset [76..<92] + mset [92..<103] + mset [103..<111] + 
       mset [111..<120] + mset [120..<129] + mset [129..<140] + mset [140..<150] + mset [150..<159] + mset [159..<168] + 
       mset [168..<177] + mset [177..<185] + mset [185..<193] + mset [193..<201] + mset [201..<209] + mset [209..<217] + 
       mset [217..<225] + mset [225..<229] + mset [229..<231] + mset [231..<243] + mset [243..<245] + mset [245..<253] + 
       mset [253..<255] + mset [255..<258] + mset [258..<260] + mset [260..<263] + mset [263..<274] + mset [274..<285] + 
       mset [285..<298] + mset [298..<314] + mset [314..<325] + mset [325..<333] + mset [333..<342] + mset [342..<351] + 
       mset [351..<362] + mset [362..<372] + mset [372..<381] + mset [381..<390] + mset [390..<399] + mset [399..<407] + 
       mset [407..<415] + mset [415..<423] + mset [423..<431] + mset [431..<439] + mset [439..<447] + mset [447..<451] + 
       mset [451..<453] + mset [453..<455] + mset [455..<456] + mset [456..<458] + mset [458..<460] + mset [460..<466] + 
       mset [466..<467] + mset [467..<468] + mset [468..<469] + mset [469..<471] + mset [471..<472] + mset [472..<477] + 
       mset [477..<482] + mset [482..<486] + mset [486..<489] + mset [489..<491] + mset [491..<496] + mset [496..<500] + 
       mset [500..<504] + mset [504..<508] + mset [508..<512] + mset [512..<513] + mset [513..<514] + mset [514..<518] + 
       mset [518..<520] + mset [520..<521] + mset [521..<522] + mset [522..<524] + mset [524..<525] + mset [525..<530] + 
       mset [530..<535] + mset [535..<539] + mset [539..<542] + mset [542..<544] + mset [544..<549] + mset [549..<553] + 
       mset [553..<557] + mset [557..<561]"
    by (simp only: ac_simps)
  also have "\<dots> = mset [1..<561]"
    by (simp add: mset_upt_join del: mset_upt upt_rec_numeral One_nat_def)
  finally show ?thesis by (intro properties_for_sort) (simp_all only: sorted_upt)
qed

lemma uri_closed: "machine_closed 560 uri_items"
  unfolding machine_closed_def
proof
  show "sort (state_numbers uri_items) = [1..<Suc 560]"
    using uri_sorted by (simp del: upt_rec_numeral)
next
  have "trans_numbers uri_items = uri_labels"
    by (simp add: uri_items_def uri_trans uri_labels_def)
  then show "list_all (item_closed 560 (trans_numbers uri_items)) uri_items"
    by (simp only:) (simp add: uri_items_def uri_jumps_1 uri_jumps_2 uri_jumps_3 uri_jumps_4 uri_jumps_5 uri_jumps_6 uri_jumps_7 uri_jumps_8)
qed

lemmas uri_lookup = uri_items_def machine_lookup uri_states uri_trans

definition uri_parser_start :: nat where "uri_parser_start = 451"
definition uri_parser_first_final :: nat where "uri_parser_first_final = 451"
definition uri_parser_error :: nat where "uri_parser_error = 0"

text \<open>No action of this machine breaks.\<close>

definition uri_brk :: "uri_action \<Rightarrow> bool" where
  "uri_brk a = False"

interpretation uri_machine: ragel_machine uri_items 560 uri_brk 451
  by unfold_locales (rule uri_closed, simp add: final_states_def breaks_def uri_brk_def uri_items_def uri_items_chunks)

end
