(* ===== verification/Uri.thy ===== *)
theory Uri
  imports Uri_Machine Address
begin

text \<open>
  \<^verbatim>\<open>linko/uri.{h,rl.cc}\<close>: the class \<^verbatim>\<open>Uri\<close>, its parser \<^verbatim>\<open>Create\<close> over the generated machine, and its text.
  Pointers into the string are offsets, with \<open>None\<close> for \<^verbatim>\<open>NULL\<close>.
\<close>

section \<open>Uri\<close>

record Uri =
  m_scheme :: string
  m_userinfo :: string
  m_host :: string
  m_path :: string
  m_query :: string
  m_fragment :: string
  m_port :: int

definition new_Uri :: Uri where
  "new_Uri = \<lparr>m_scheme = [], m_userinfo = [], m_host = [], m_path = [], m_query = [], m_fragment = [], m_port = 0\<rparr>"

definition isDefaultPort :: "Uri \<Rightarrow> bool" where
  "isDefaultPort u = (if m_port u = 0 then True
     else if m_scheme u = ''http'' \<or> m_scheme u = ''ws'' then m_port u = 80
     else if m_scheme u = ''https'' \<or> m_scheme u = ''wss'' then m_port u = 443
     else False)"

definition uri_getPath :: "Uri \<Rightarrow> string" where
  "uri_getPath u = (if m_path u = [] then ''/'' else m_path u)"

definition uri_getPort :: "Uri \<Rightarrow> int" where
  "uri_getPort u = (if m_port u \<noteq> 0 then m_port u
     else if m_scheme u = ''http'' \<or> m_scheme u = ''ws'' then 80
     else if m_scheme u = ''https'' \<or> m_scheme u = ''wss'' then 443
     else m_port u)"

definition uri_dump :: "Uri \<Rightarrow> string" where
  "uri_dump u = m_scheme u @ ''://'' @ m_userinfo u @ (if m_userinfo u = [] then [] else ''@'') @ m_host u
     @ (if isDefaultPort u then [] else '':'' @ to_string (m_port u)) @ uri_getPath u
     @ (if m_query u = [] then [] else ''?'') @ m_query u @ (if m_fragment u = [] then [] else ''#'') @ m_fragment u"

text \<open>The address of the host, with the port of the URI; \<^verbatim>\<open>setPort\<close> takes a \<^verbatim>\<open>uint16_t\<close>.\<close>

definition createAddress ::
  "byte_order \<Rightarrow> (string \<Rightarrow> string option \<Rightarrow> sockaddr list option) \<Rightarrow> Uri \<Rightarrow> address option" where
  "createAddress bo getaddrinfo u =
     map_option (setPort_any bo (word_of_int (uri_getPort u))) (LookupAnyIPAddress getaddrinfo (m_host u))"

section \<open>Create\<close>

text \<open>The parser's \<^verbatim>\<open>mark\<close> and the object it fills.\<close>

type_synonym uri_state = "cpp_error + nat option \<times> Uri"

text \<open>\<^verbatim>\<open>std::string(mark, p - mark)\<close>: with a null pointer the range does not exist.\<close>

definition marked :: "string \<Rightarrow> nat option \<Rightarrow> nat \<Rightarrow> cpp_error + string" where
  "marked str mk p = (case mk of None \<Rightarrow> Inl Undefined | Some m \<Rightarrow> Inr (take (p - m) (drop m str)))"

definition save :: "(string \<Rightarrow> Uri \<Rightarrow> Uri) \<Rightarrow> string \<Rightarrow> nat option \<Rightarrow> nat \<Rightarrow> Uri \<Rightarrow> uri_state" where
  "save f str mk p u = (case marked str mk p of Inl e \<Rightarrow> Inl e | Inr t \<Rightarrow> Inr (None, f t u))"

fun uri_act :: "string \<Rightarrow> uri_action \<Rightarrow> nat \<Rightarrow> nat option \<Rightarrow> Uri \<Rightarrow> uri_state" where
  "uri_act str U_mark p mk u = Inr (Some p, u)"
| "uri_act str U_save_scheme p mk u = save (\<lambda>t u. u\<lparr>m_scheme := t\<rparr>) str mk p u"
| "uri_act str U_save_port p mk u =
     (if mk = Some p then Inr (None, u)
      else case mk of None \<Rightarrow> Inl Undefined | Some m \<Rightarrow> Inr (None, u\<lparr>m_port := atoi (drop m str)\<rparr>))"
| "uri_act str U_save_userinfo p mk u =
     (if mk = None then Inr (None, u) else save (\<lambda>t u. u\<lparr>m_userinfo := t\<rparr>) str mk p u)"
| "uri_act str U_save_host p mk u =
     (case mk of None \<Rightarrow> Inr (None, u) | Some m \<Rightarrow> Inr (mk, u\<lparr>m_host := take (p - m) (drop m str)\<rparr>))"
| "uri_act str U_save_path p mk u = save (\<lambda>t u. u\<lparr>m_path := t\<rparr>) str mk p u"
| "uri_act str U_save_query p mk u = save (\<lambda>t u. u\<lparr>m_query := t\<rparr>) str mk p u"
| "uri_act str U_save_fragment p mk u = save (\<lambda>t u. u\<lparr>m_fragment := t\<rparr>) str mk p u"

definition uri_exec :: "string \<Rightarrow> uri_action \<Rightarrow> nat \<Rightarrow> uri_state \<Rightarrow> uri_state" where
  "uri_exec str a p x = (case x of Inl e \<Rightarrow> Inl e | Inr (mk, u) \<Rightarrow> uri_act str a p mk u)"

text \<open>The actions at the end of the string, by the state reached (\<^verbatim>\<open>if ( p == eof ) switch ( cs )\<close>).\<close>

definition uri_eof :: "nat \<Rightarrow> uri_action list" where
  "uri_eof cs =
    (if cs \<in> {462, 489} then [U_save_port]
     else if cs \<in> {460, 463, 464, 465, 466, 467} \<or> 470 \<le> cs \<and> cs \<le> 488 \<or> 490 \<le> cs \<and> cs \<le> 507 then [U_save_host]
     else if cs = 513 then [U_save_path]
     else if cs = 457 then [U_save_query]
     else if cs = 454 then [U_save_fragment]
     else if cs = 456 then [U_mark, U_save_query]
     else if cs = 453 then [U_mark, U_save_fragment]
     else if cs \<in> {461, 468} then [U_mark, U_save_port]
     else if cs \<in> {459, 469} then [U_mark, U_save_host]
     else if cs \<in> {514, 521} then [U_mark, U_save_port, U_save_path]
     else if cs \<in> {511, 522} then [U_mark, U_save_host, U_save_path]
     else if cs \<in> {515, 542} then [U_save_port, U_mark, U_save_path]
     else if cs = 512 \<or> 516 \<le> cs \<and> cs \<le> 520 \<or> 523 \<le> cs \<and> cs \<le> 541 \<or> 543 \<le> cs \<and> cs \<le> 560
       then [U_save_host, U_mark, U_save_path]
     else [])"

text \<open>The run of the parser: the state it ends in, and the mark and object with the actions at the end.\<close>

definition uri_run :: "string \<Rightarrow> nat \<times> uri_state" where
  "uri_run str =
     (let (cs, p, x) = run uri_items False uri_brk (uri_exec str) 0 str uri_parser_start (Inr (None, new_Uri))
      in (cs, if p = length str then fold (\<lambda>a. uri_exec str a p) (uri_eof cs) x else x))"

text \<open>A null pointer for a string that is not a URI.\<close>

definition Uri_Create :: "string \<Rightarrow> cpp_error + Uri option" where
  "Uri_Create str = (case uri_run str of
     (cs, Inl e) \<Rightarrow> Inl e
   | (cs, Inr (mk, u)) \<Rightarrow> Inr (if cs = uri_parser_error then None else if uri_parser_first_final \<le> cs then Some u else None))"

end
