(* ===== verification/Uri_Moves.thy ===== *)
theory Uri_Moves
  imports Uri Url_Text
begin

text \<open>
  The moves of the generated URI machine on the way of an absolute URI with an authority: its blocks on
  that way, and where each class of characters leads from each state.
\<close>

section \<open>The blocks of the machine on the way of a URI\<close>

lemma uri_rows:
  "find_state 451 uri_items = Some (False, [(- 128, - 1, ST 452), (33, 33, ST 452), (35, 35, ST 453), (36,
    36, ST 452), (37, 37, ST 3), (38, 46, ST 452), (47, 47, ST 458), (48, 57, ST 452), (59, 59, ST 452),
    (61, 61, ST 452), (63, 63, ST 456), (64, 64, ST 452), (65, 90, TR 461), (95, 95, ST 452), (97, 122, TR
    461), (126, 126, ST 452)])"
  "find_state 508 uri_items = Some (False, [(- 128, - 1, ST 452), (33, 33, ST 452), (35, 35, ST 453), (36,
    36, ST 452), (37, 37, ST 3), (38, 42, ST 452), (43, 43, ST 508), (44, 44, ST 452), (45, 46, ST 508),
    (47, 47, ST 455), (48, 57, ST 508), (58, 58, TR 543), (59, 59, ST 452), (61, 61, ST 452), (63, 63, ST
    456), (64, 64, ST 452), (65, 90, ST 508), (95, 95, ST 452), (97, 122, ST 508), (126, 126, ST 452)])"
  "find_state 509 uri_items = Some (False, [(- 128, - 1, ST 455), (33, 33, ST 455), (35, 35, ST 453), (36,
    36, ST 455), (37, 37, ST 5), (38, 46, ST 455), (47, 47, ST 510), (48, 59, ST 455), (61, 61, ST 455),
    (63, 63, ST 456), (64, 90, ST 455), (95, 95, ST 455), (97, 122, ST 455), (126, 126, ST 455)])"
  "find_state 510 uri_items = Some (False, [(- 128, - 1, ST 455), (33, 33, ST 455), (35, 35, ST 453), (36,
    36, ST 455), (37, 37, ST 5), (38, 46, ST 455), (47, 47, ST 511), (48, 59, ST 455), (61, 61, ST 455),
    (63, 63, ST 456), (64, 90, ST 455), (95, 95, ST 455), (97, 122, ST 455), (126, 126, ST 455)])"
  "find_state 511 uri_items = Some (False, [(2, 2, TR 546), (33, 33, TR 547), (35, 35, TR 548), (36, 36, TR
    547), (37, 37, TR 549), (38, 46, TR 547), (47, 47, TR 550), (48, 48, TR 551), (49, 49, TR 552), (50, 50,
    TR 553), (51, 57, TR 554), (58, 58, TR 555), (59, 59, TR 547), (61, 61, TR 547), (63, 63, TR 556), (64,
    64, TR 557), (65, 90, TR 547), (91, 91, TR 558), (95, 95, TR 547), (97, 122, TR 547), (126, 126, TR
    547)])"
  "find_state 520 uri_items = Some (False, [(33, 33, ST 520), (35, 35, TR 559), (36, 36, ST 520), (37, 37,
    ST 253), (38, 46, ST 520), (47, 47, TR 560), (48, 57, ST 520), (58, 58, TR 576), (59, 59, ST 520), (61,
    61, ST 520), (63, 63, TR 562), (64, 64, TR 263), (65, 90, ST 520), (95, 95, ST 520), (97, 122, ST 520),
    (126, 126, ST 520)])"
  "find_state 543 uri_items = Some (False, [(33, 33, ST 520), (35, 35, TR 559), (36, 36, ST 520), (37, 37,
    ST 253), (38, 45, ST 520), (46, 46, ST 544), (47, 47, TR 560), (48, 57, ST 520), (58, 58, TR 576), (59,
    59, ST 520), (61, 61, ST 520), (63, 63, TR 562), (64, 64, TR 263), (65, 90, ST 520), (95, 95, ST 520),
    (97, 122, ST 520), (126, 126, ST 520)])"
  "find_state 544 uri_items = Some (False, [(2, 2, ST 233), (33, 33, ST 520), (35, 35, TR 559), (36, 36, ST
    520), (37, 37, ST 253), (38, 46, ST 520), (47, 47, TR 560), (48, 48, ST 545), (49, 49, ST 553), (50, 50,
    ST 555), (51, 57, ST 554), (58, 58, TR 576), (59, 59, ST 520), (61, 61, ST 520), (63, 63, TR 562), (64,
    64, TR 263), (65, 90, ST 520), (95, 95, ST 520), (97, 122, ST 520), (126, 126, ST 520)])"
  "find_state 545 uri_items = Some (False, [(33, 33, ST 520), (35, 35, TR 559), (36, 36, ST 520), (37, 37,
    ST 253), (38, 45, ST 520), (46, 46, ST 546), (47, 47, TR 560), (48, 57, ST 520), (58, 58, TR 576), (59,
    59, ST 520), (61, 61, ST 520), (63, 63, TR 562), (64, 64, TR 263), (65, 90, ST 520), (95, 95, ST 520),
    (97, 122, ST 520), (126, 126, ST 520)])"
  "find_state 546 uri_items = Some (False, [(2, 2, ST 237), (33, 33, ST 520), (35, 35, TR 559), (36, 36, ST
    520), (37, 37, ST 253), (38, 46, ST 520), (47, 47, TR 560), (48, 48, ST 547), (49, 49, ST 549), (50, 50,
    ST 551), (51, 57, ST 550), (58, 58, TR 576), (59, 59, ST 520), (61, 61, ST 520), (63, 63, TR 562), (64,
    64, TR 263), (65, 90, ST 520), (95, 95, ST 520), (97, 122, ST 520), (126, 126, ST 520)])"
  "find_state 547 uri_items = Some (False, [(33, 33, ST 520), (35, 35, TR 559), (36, 36, ST 520), (37, 37,
    ST 253), (38, 45, ST 520), (46, 46, ST 548), (47, 47, TR 560), (48, 57, ST 520), (58, 58, TR 576), (59,
    59, ST 520), (61, 61, ST 520), (63, 63, TR 562), (64, 64, TR 263), (65, 90, ST 520), (95, 95, ST 520),
    (97, 122, ST 520), (126, 126, ST 520)])"
  "find_state 548 uri_items = Some (False, [(2, 2, ST 241), (33, 33, ST 520), (35, 35, TR 559), (36, 36, ST
    520), (37, 37, ST 253), (38, 46, ST 520), (47, 47, TR 560), (48, 57, ST 520), (58, 58, TR 576), (59, 59,
    ST 520), (61, 61, ST 520), (63, 63, TR 562), (64, 64, TR 263), (65, 90, ST 520), (95, 95, ST 520), (97,
    122, ST 520), (126, 126, ST 520)])"
  "find_state 549 uri_items = Some (False, [(33, 33, ST 520), (35, 35, TR 559), (36, 36, ST 520), (37, 37,
    ST 253), (38, 45, ST 520), (46, 46, ST 548), (47, 47, TR 560), (48, 57, ST 550), (58, 58, TR 576), (59,
    59, ST 520), (61, 61, ST 520), (63, 63, TR 562), (64, 64, TR 263), (65, 90, ST 520), (95, 95, ST 520),
    (97, 122, ST 520), (126, 126, ST 520)])"
  "find_state 550 uri_items = Some (False, [(33, 33, ST 520), (35, 35, TR 559), (36, 36, ST 520), (37, 37,
    ST 253), (38, 45, ST 520), (46, 46, ST 548), (47, 47, TR 560), (48, 57, ST 547), (58, 58, TR 576), (59,
    59, ST 520), (61, 61, ST 520), (63, 63, TR 562), (64, 64, TR 263), (65, 90, ST 520), (95, 95, ST 520),
    (97, 122, ST 520), (126, 126, ST 520)])"
  "find_state 551 uri_items = Some (False, [(33, 33, ST 520), (35, 35, TR 559), (36, 36, ST 520), (37, 37,
    ST 253), (38, 45, ST 520), (46, 46, ST 548), (47, 47, TR 560), (48, 52, ST 547), (53, 53, ST 552), (54,
    57, ST 547), (58, 58, TR 576), (59, 59, ST 520), (61, 61, ST 520), (63, 63, TR 562), (64, 64, TR 263),
    (65, 90, ST 520), (95, 95, ST 520), (97, 122, ST 520), (126, 126, ST 520)])"
  "find_state 552 uri_items = Some (False, [(33, 33, ST 520), (35, 35, TR 559), (36, 36, ST 520), (37, 37,
    ST 253), (38, 45, ST 520), (46, 46, ST 548), (47, 47, TR 560), (48, 53, ST 547), (54, 57, ST 520), (58,
    58, TR 576), (59, 59, ST 520), (61, 61, ST 520), (63, 63, TR 562), (64, 64, TR 263), (65, 90, ST 520),
    (95, 95, ST 520), (97, 122, ST 520), (126, 126, ST 520)])"
  "find_state 553 uri_items = Some (False, [(33, 33, ST 520), (35, 35, TR 559), (36, 36, ST 520), (37, 37,
    ST 253), (38, 45, ST 520), (46, 46, ST 546), (47, 47, TR 560), (48, 57, ST 554), (58, 58, TR 576), (59,
    59, ST 520), (61, 61, ST 520), (63, 63, TR 562), (64, 64, TR 263), (65, 90, ST 520), (95, 95, ST 520),
    (97, 122, ST 520), (126, 126, ST 520)])"
  "find_state 554 uri_items = Some (False, [(33, 33, ST 520), (35, 35, TR 559), (36, 36, ST 520), (37, 37,
    ST 253), (38, 45, ST 520), (46, 46, ST 546), (47, 47, TR 560), (48, 57, ST 545), (58, 58, TR 576), (59,
    59, ST 520), (61, 61, ST 520), (63, 63, TR 562), (64, 64, TR 263), (65, 90, ST 520), (95, 95, ST 520),
    (97, 122, ST 520), (126, 126, ST 520)])"
  "find_state 555 uri_items = Some (False, [(33, 33, ST 520), (35, 35, TR 559), (36, 36, ST 520), (37, 37,
    ST 253), (38, 45, ST 520), (46, 46, ST 546), (47, 47, TR 560), (48, 52, ST 545), (53, 53, ST 556), (54,
    57, ST 545), (58, 58, TR 576), (59, 59, ST 520), (61, 61, ST 520), (63, 63, TR 562), (64, 64, TR 263),
    (65, 90, ST 520), (95, 95, ST 520), (97, 122, ST 520), (126, 126, ST 520)])"
  "find_state 556 uri_items = Some (False, [(33, 33, ST 520), (35, 35, TR 559), (36, 36, ST 520), (37, 37,
    ST 253), (38, 45, ST 520), (46, 46, ST 546), (47, 47, TR 560), (48, 53, ST 545), (54, 57, ST 520), (58,
    58, TR 576), (59, 59, ST 520), (61, 61, ST 520), (63, 63, TR 562), (64, 64, TR 263), (65, 90, ST 520),
    (95, 95, ST 520), (97, 122, ST 520), (126, 126, ST 520)])"
  "find_state 557 uri_items = Some (False, [(33, 33, ST 520), (35, 35, TR 559), (36, 36, ST 520), (37, 37,
    ST 253), (38, 45, ST 520), (46, 46, ST 544), (47, 47, TR 560), (48, 57, ST 558), (58, 58, TR 576), (59,
    59, ST 520), (61, 61, ST 520), (63, 63, TR 562), (64, 64, TR 263), (65, 90, ST 520), (95, 95, ST 520),
    (97, 122, ST 520), (126, 126, ST 520)])"
  "find_state 558 uri_items = Some (False, [(33, 33, ST 520), (35, 35, TR 559), (36, 36, ST 520), (37, 37,
    ST 253), (38, 45, ST 520), (46, 46, ST 544), (47, 47, TR 560), (48, 57, ST 543), (58, 58, TR 576), (59,
    59, ST 520), (61, 61, ST 520), (63, 63, TR 562), (64, 64, TR 263), (65, 90, ST 520), (95, 95, ST 520),
    (97, 122, ST 520), (126, 126, ST 520)])"
  "find_state 559 uri_items = Some (False, [(33, 33, ST 520), (35, 35, TR 559), (36, 36, ST 520), (37, 37,
    ST 253), (38, 45, ST 520), (46, 46, ST 544), (47, 47, TR 560), (48, 52, ST 543), (53, 53, ST 560), (54,
    57, ST 543), (58, 58, TR 576), (59, 59, ST 520), (61, 61, ST 520), (63, 63, TR 562), (64, 64, TR 263),
    (65, 90, ST 520), (95, 95, ST 520), (97, 122, ST 520), (126, 126, ST 520)])"
  "find_state 560 uri_items = Some (False, [(33, 33, ST 520), (35, 35, TR 559), (36, 36, ST 520), (37, 37,
    ST 253), (38, 45, ST 520), (46, 46, ST 544), (47, 47, TR 560), (48, 53, ST 543), (54, 57, ST 520), (58,
    58, TR 576), (59, 59, ST 520), (61, 61, ST 520), (63, 63, TR 562), (64, 64, TR 263), (65, 90, ST 520),
    (95, 95, ST 520), (97, 122, ST 520), (126, 126, ST 520)])"
  "find_state 253 uri_items = Some (False, [(48, 57, ST 254), (65, 70, ST 254), (97, 102, ST 254)])"
  "find_state 254 uri_items = Some (False, [(48, 57, ST 520), (65, 70, ST 520), (97, 102, ST 520)])"
  "find_state 521 uri_items = Some (False, [(33, 33, ST 255), (35, 35, TR 566), (36, 36, ST 255), (37, 37,
    ST 256), (38, 46, ST 255), (47, 47, TR 567), (48, 57, TR 577), (58, 59, ST 255), (61, 61, ST 255), (63,
    63, TR 569), (64, 64, TR 263), (65, 90, ST 255), (95, 95, ST 255), (97, 122, ST 255), (126, 126, ST
    255)])"
  "find_state 255 uri_items = Some (False, [(33, 33, ST 255), (36, 36, ST 255), (37, 37, ST 256), (38, 46,
    ST 255), (48, 59, ST 255), (61, 61, ST 255), (64, 64, TR 263), (65, 90, ST 255), (95, 95, ST 255), (97,
    122, ST 255), (126, 126, ST 255)])"
  "find_state 256 uri_items = Some (False, [(48, 57, ST 257), (65, 70, ST 257), (97, 102, ST 257)])"
  "find_state 257 uri_items = Some (False, [(48, 57, ST 255), (65, 70, ST 255), (97, 102, ST 255)])"
  "find_state 542 uri_items = Some (False, [(33, 33, ST 255), (35, 35, TR 570), (36, 36, ST 255), (37, 37,
    ST 256), (38, 46, ST 255), (47, 47, TR 571), (48, 57, ST 542), (58, 59, ST 255), (61, 61, ST 255), (63,
    63, TR 573), (64, 64, TR 263), (65, 90, ST 255), (95, 95, ST 255), (97, 122, ST 255), (126, 126, ST
    255)])"
  "find_state 522 uri_items = Some (False, [(2, 2, TR 546), (33, 33, TR 578), (35, 35, TR 548), (36, 36, TR
    578), (37, 37, TR 579), (38, 46, TR 578), (47, 47, TR 550), (48, 48, TR 580), (49, 49, TR 581), (50, 50,
    TR 582), (51, 57, TR 583), (58, 58, TR 584), (59, 59, TR 578), (61, 61, TR 578), (63, 63, TR 556), (65,
    90, TR 578), (91, 91, TR 558), (95, 95, TR 578), (97, 122, TR 578), (126, 126, TR 578)])"
  "find_state 523 uri_items = Some (False, [(33, 33, ST 523), (35, 35, TR 559), (36, 36, ST 523), (37, 37,
    ST 258), (38, 46, ST 523), (47, 47, TR 560), (48, 57, ST 523), (58, 58, TR 561), (59, 59, ST 523), (61,
    61, ST 523), (63, 63, TR 562), (65, 90, ST 523), (95, 95, ST 523), (97, 122, ST 523), (126, 126, ST
    523)])"
  "find_state 524 uri_items = Some (False, [(33, 33, ST 523), (35, 35, TR 559), (36, 36, ST 523), (37, 37,
    ST 258), (38, 45, ST 523), (46, 46, ST 525), (47, 47, TR 560), (48, 57, ST 523), (58, 58, TR 561), (59,
    59, ST 523), (61, 61, ST 523), (63, 63, TR 562), (65, 90, ST 523), (95, 95, ST 523), (97, 122, ST 523),
    (126, 126, ST 523)])"
  "find_state 525 uri_items = Some (False, [(2, 2, ST 233), (33, 33, ST 523), (35, 35, TR 559), (36, 36, ST
    523), (37, 37, ST 258), (38, 46, ST 523), (47, 47, TR 560), (48, 48, ST 526), (49, 49, ST 534), (50, 50,
    ST 536), (51, 57, ST 535), (58, 58, TR 561), (59, 59, ST 523), (61, 61, ST 523), (63, 63, TR 562), (65,
    90, ST 523), (95, 95, ST 523), (97, 122, ST 523), (126, 126, ST 523)])"
  "find_state 526 uri_items = Some (False, [(33, 33, ST 523), (35, 35, TR 559), (36, 36, ST 523), (37, 37,
    ST 258), (38, 45, ST 523), (46, 46, ST 527), (47, 47, TR 560), (48, 57, ST 523), (58, 58, TR 561), (59,
    59, ST 523), (61, 61, ST 523), (63, 63, TR 562), (65, 90, ST 523), (95, 95, ST 523), (97, 122, ST 523),
    (126, 126, ST 523)])"
  "find_state 527 uri_items = Some (False, [(2, 2, ST 237), (33, 33, ST 523), (35, 35, TR 559), (36, 36, ST
    523), (37, 37, ST 258), (38, 46, ST 523), (47, 47, TR 560), (48, 48, ST 528), (49, 49, ST 530), (50, 50,
    ST 532), (51, 57, ST 531), (58, 58, TR 561), (59, 59, ST 523), (61, 61, ST 523), (63, 63, TR 562), (65,
    90, ST 523), (95, 95, ST 523), (97, 122, ST 523), (126, 126, ST 523)])"
  "find_state 528 uri_items = Some (False, [(33, 33, ST 523), (35, 35, TR 559), (36, 36, ST 523), (37, 37,
    ST 258), (38, 45, ST 523), (46, 46, ST 529), (47, 47, TR 560), (48, 57, ST 523), (58, 58, TR 561), (59,
    59, ST 523), (61, 61, ST 523), (63, 63, TR 562), (65, 90, ST 523), (95, 95, ST 523), (97, 122, ST 523),
    (126, 126, ST 523)])"
  "find_state 529 uri_items = Some (False, [(2, 2, ST 241), (33, 33, ST 523), (35, 35, TR 559), (36, 36, ST
    523), (37, 37, ST 258), (38, 46, ST 523), (47, 47, TR 560), (48, 57, ST 523), (58, 58, TR 561), (59, 59,
    ST 523), (61, 61, ST 523), (63, 63, TR 562), (65, 90, ST 523), (95, 95, ST 523), (97, 122, ST 523),
    (126, 126, ST 523)])"
  "find_state 530 uri_items = Some (False, [(33, 33, ST 523), (35, 35, TR 559), (36, 36, ST 523), (37, 37,
    ST 258), (38, 45, ST 523), (46, 46, ST 529), (47, 47, TR 560), (48, 57, ST 531), (58, 58, TR 561), (59,
    59, ST 523), (61, 61, ST 523), (63, 63, TR 562), (65, 90, ST 523), (95, 95, ST 523), (97, 122, ST 523),
    (126, 126, ST 523)])"
  "find_state 531 uri_items = Some (False, [(33, 33, ST 523), (35, 35, TR 559), (36, 36, ST 523), (37, 37,
    ST 258), (38, 45, ST 523), (46, 46, ST 529), (47, 47, TR 560), (48, 57, ST 528), (58, 58, TR 561), (59,
    59, ST 523), (61, 61, ST 523), (63, 63, TR 562), (65, 90, ST 523), (95, 95, ST 523), (97, 122, ST 523),
    (126, 126, ST 523)])"
  "find_state 532 uri_items = Some (False, [(33, 33, ST 523), (35, 35, TR 559), (36, 36, ST 523), (37, 37,
    ST 258), (38, 45, ST 523), (46, 46, ST 529), (47, 47, TR 560), (48, 52, ST 528), (53, 53, ST 533), (54,
    57, ST 528), (58, 58, TR 561), (59, 59, ST 523), (61, 61, ST 523), (63, 63, TR 562), (65, 90, ST 523),
    (95, 95, ST 523), (97, 122, ST 523), (126, 126, ST 523)])"
  "find_state 533 uri_items = Some (False, [(33, 33, ST 523), (35, 35, TR 559), (36, 36, ST 523), (37, 37,
    ST 258), (38, 45, ST 523), (46, 46, ST 529), (47, 47, TR 560), (48, 53, ST 528), (54, 57, ST 523), (58,
    58, TR 561), (59, 59, ST 523), (61, 61, ST 523), (63, 63, TR 562), (65, 90, ST 523), (95, 95, ST 523),
    (97, 122, ST 523), (126, 126, ST 523)])"
  "find_state 534 uri_items = Some (False, [(33, 33, ST 523), (35, 35, TR 559), (36, 36, ST 523), (37, 37,
    ST 258), (38, 45, ST 523), (46, 46, ST 527), (47, 47, TR 560), (48, 57, ST 535), (58, 58, TR 561), (59,
    59, ST 523), (61, 61, ST 523), (63, 63, TR 562), (65, 90, ST 523), (95, 95, ST 523), (97, 122, ST 523),
    (126, 126, ST 523)])"
  "find_state 535 uri_items = Some (False, [(33, 33, ST 523), (35, 35, TR 559), (36, 36, ST 523), (37, 37,
    ST 258), (38, 45, ST 523), (46, 46, ST 527), (47, 47, TR 560), (48, 57, ST 526), (58, 58, TR 561), (59,
    59, ST 523), (61, 61, ST 523), (63, 63, TR 562), (65, 90, ST 523), (95, 95, ST 523), (97, 122, ST 523),
    (126, 126, ST 523)])"
  "find_state 536 uri_items = Some (False, [(33, 33, ST 523), (35, 35, TR 559), (36, 36, ST 523), (37, 37,
    ST 258), (38, 45, ST 523), (46, 46, ST 527), (47, 47, TR 560), (48, 52, ST 526), (53, 53, ST 537), (54,
    57, ST 526), (58, 58, TR 561), (59, 59, ST 523), (61, 61, ST 523), (63, 63, TR 562), (65, 90, ST 523),
    (95, 95, ST 523), (97, 122, ST 523), (126, 126, ST 523)])"
  "find_state 537 uri_items = Some (False, [(33, 33, ST 523), (35, 35, TR 559), (36, 36, ST 523), (37, 37,
    ST 258), (38, 45, ST 523), (46, 46, ST 527), (47, 47, TR 560), (48, 53, ST 526), (54, 57, ST 523), (58,
    58, TR 561), (59, 59, ST 523), (61, 61, ST 523), (63, 63, TR 562), (65, 90, ST 523), (95, 95, ST 523),
    (97, 122, ST 523), (126, 126, ST 523)])"
  "find_state 538 uri_items = Some (False, [(33, 33, ST 523), (35, 35, TR 559), (36, 36, ST 523), (37, 37,
    ST 258), (38, 45, ST 523), (46, 46, ST 525), (47, 47, TR 560), (48, 57, ST 539), (58, 58, TR 561), (59,
    59, ST 523), (61, 61, ST 523), (63, 63, TR 562), (65, 90, ST 523), (95, 95, ST 523), (97, 122, ST 523),
    (126, 126, ST 523)])"
  "find_state 539 uri_items = Some (False, [(33, 33, ST 523), (35, 35, TR 559), (36, 36, ST 523), (37, 37,
    ST 258), (38, 45, ST 523), (46, 46, ST 525), (47, 47, TR 560), (48, 57, ST 524), (58, 58, TR 561), (59,
    59, ST 523), (61, 61, ST 523), (63, 63, TR 562), (65, 90, ST 523), (95, 95, ST 523), (97, 122, ST 523),
    (126, 126, ST 523)])"
  "find_state 540 uri_items = Some (False, [(33, 33, ST 523), (35, 35, TR 559), (36, 36, ST 523), (37, 37,
    ST 258), (38, 45, ST 523), (46, 46, ST 525), (47, 47, TR 560), (48, 52, ST 524), (53, 53, ST 541), (54,
    57, ST 524), (58, 58, TR 561), (59, 59, ST 523), (61, 61, ST 523), (63, 63, TR 562), (65, 90, ST 523),
    (95, 95, ST 523), (97, 122, ST 523), (126, 126, ST 523)])"
  "find_state 541 uri_items = Some (False, [(33, 33, ST 523), (35, 35, TR 559), (36, 36, ST 523), (37, 37,
    ST 258), (38, 45, ST 523), (46, 46, ST 525), (47, 47, TR 560), (48, 53, ST 524), (54, 57, ST 523), (58,
    58, TR 561), (59, 59, ST 523), (61, 61, ST 523), (63, 63, TR 562), (65, 90, ST 523), (95, 95, ST 523),
    (97, 122, ST 523), (126, 126, ST 523)])"
  "find_state 258 uri_items = Some (False, [(48, 57, ST 259), (65, 70, ST 259), (97, 102, ST 259)])"
  "find_state 259 uri_items = Some (False, [(48, 57, ST 523), (65, 70, ST 523), (97, 102, ST 523)])"
  "find_state 514 uri_items = Some (False, [(35, 35, TR 566), (47, 47, TR 567), (48, 57, TR 568), (63, 63,
    TR 569)])"
  "find_state 515 uri_items = Some (False, [(35, 35, TR 570), (47, 47, TR 571), (48, 57, ST 515), (63, 63,
    TR 573)])"
  "find_state 513 uri_items = Some (False, [(- 128, - 1, ST 513), (33, 33, ST 513), (35, 35, TR 563), (36,
    36, ST 513), (37, 37, ST 243), (38, 59, ST 513), (61, 61, ST 513), (63, 63, TR 565), (64, 90, ST 513),
    (95, 95, ST 513), (97, 122, ST 513), (126, 126, ST 513)])"
  "find_state 243 uri_items = Some (False, [(48, 57, ST 244), (65, 70, ST 244), (97, 102, ST 244)])"
  "find_state 244 uri_items = Some (False, [(48, 57, ST 513), (65, 70, ST 513), (97, 102, ST 513)])"
  "find_state 456 uri_items = Some (False, [(- 128, - 1, TR 466), (33, 33, TR 466), (35, 35, TR 467), (36,
    36, TR 466), (37, 37, TR 468), (38, 59, TR 466), (61, 61, TR 466), (63, 90, TR 466), (95, 95, TR 466),
    (97, 122, TR 466), (126, 126, TR 466)])"
  "find_state 457 uri_items = Some (False, [(- 128, - 1, ST 457), (33, 33, ST 457), (35, 35, TR 469), (36,
    36, ST 457), (37, 37, ST 7), (38, 59, ST 457), (61, 61, ST 457), (63, 90, ST 457), (95, 95, ST 457),
    (97, 122, ST 457), (126, 126, ST 457)])"
  "find_state 7 uri_items = Some (False, [(48, 57, ST 8), (65, 70, ST 8), (97, 102, ST 8)])"
  "find_state 8 uri_items = Some (False, [(48, 57, ST 457), (65, 70, ST 457), (97, 102, ST 457)])"
  "find_state 453 uri_items = Some (False, [(- 128, - 1, TR 462), (33, 33, TR 462), (36, 36, TR 462), (37,
    37, TR 463), (38, 59, TR 462), (61, 61, TR 462), (63, 90, TR 462), (95, 95, TR 462), (97, 122, TR 462),
    (126, 126, TR 462)])"
  "find_state 454 uri_items = Some (False, [(- 128, - 1, ST 454), (33, 33, ST 454), (36, 36, ST 454), (37,
    37, ST 1), (38, 59, ST 454), (61, 61, ST 454), (63, 90, ST 454), (95, 95, ST 454), (97, 122, ST 454),
    (126, 126, ST 454)])"
  "find_state (Suc 0) uri_items = Some (False, [(48, 57, ST 2), (65, 70, ST 2), (97, 102, ST 2)])"
  "find_state 2 uri_items = Some (False, [(48, 57, ST 454), (65, 70, ST 454), (97, 102, ST 454)])"
  by (simp_all add: uri_lookup, simp_all add: uri_items_chunks)

lemma uri_transitions:
  "find_trans 38 uri_items = Some ([U_save_userinfo], 469)"
  "find_trans 263 uri_items = Some ([U_save_userinfo], 522)"
  "find_trans 461 uri_items = Some ([U_mark], 508)"
  "find_trans 462 uri_items = Some ([U_mark], 454)"
  "find_trans 463 uri_items = Some ([U_mark], 1)"
  "find_trans 466 uri_items = Some ([U_mark], 457)"
  "find_trans 467 uri_items = Some ([U_mark, U_save_query], 453)"
  "find_trans 468 uri_items = Some ([U_mark], 7)"
  "find_trans 469 uri_items = Some ([U_save_query], 453)"
  "find_trans 472 uri_items = Some ([U_mark], 9)"
  "find_trans 473 uri_items = Some ([U_mark], 467)"
  "find_trans 474 uri_items = Some ([U_mark, U_save_host], 453)"
  "find_trans 475 uri_items = Some ([U_mark], 31)"
  "find_trans 476 uri_items = Some ([U_mark, U_save_host], 455)"
  "find_trans 477 uri_items = Some ([U_mark], 490)"
  "find_trans 478 uri_items = Some ([U_mark], 504)"
  "find_trans 479 uri_items = Some ([U_mark], 506)"
  "find_trans 480 uri_items = Some ([U_mark], 505)"
  "find_trans 481 uri_items = Some ([U_mark, U_save_host], 468)"
  "find_trans 482 uri_items = Some ([U_mark, U_save_host], 456)"
  "find_trans 483 uri_items = Some ([U_mark, U_save_userinfo], 469)"
  "find_trans 484 uri_items = Some ([U_mark], 38)"
  "find_trans 485 uri_items = Some ([U_save_host], 453)"
  "find_trans 486 uri_items = Some ([U_save_host], 455)"
  "find_trans 487 uri_items = Some ([U_save_host], 461)"
  "find_trans 488 uri_items = Some ([U_save_host], 456)"
  "find_trans 489 uri_items = Some ([U_mark, U_save_port], 453)"
  "find_trans 490 uri_items = Some ([U_mark, U_save_port], 455)"
  "find_trans 491 uri_items = Some ([U_mark], 462)"
  "find_trans 492 uri_items = Some ([U_mark, U_save_port], 456)"
  "find_trans 493 uri_items = Some ([U_save_port], 453)"
  "find_trans 494 uri_items = Some ([U_save_port], 455)"
  "find_trans 496 uri_items = Some ([U_save_port], 456)"
  "find_trans 499 uri_items = Some ([U_save_host], 468)"
  "find_trans 500 uri_items = Some ([U_mark], 489)"
  "find_trans 501 uri_items = Some ([U_mark], 470)"
  "find_trans 502 uri_items = Some ([U_mark], 36)"
  "find_trans 503 uri_items = Some ([U_mark], 471)"
  "find_trans 504 uri_items = Some ([U_mark], 485)"
  "find_trans 505 uri_items = Some ([U_mark], 487)"
  "find_trans 506 uri_items = Some ([U_mark], 486)"
  "find_trans 507 uri_items = Some ([U_mark, U_save_host], 461)"
  "find_trans 543 uri_items = Some ([U_save_scheme], 509)"
  "find_trans 546 uri_items = Some ([U_mark], 229)"
  "find_trans 547 uri_items = Some ([U_mark], 520)"
  "find_trans 548 uri_items = Some ([U_mark, U_save_host, U_save_path], 453)"
  "find_trans 549 uri_items = Some ([U_mark], 253)"
  "find_trans 550 uri_items = Some ([U_mark, U_save_host], 513)"
  "find_trans 551 uri_items = Some ([U_mark], 543)"
  "find_trans 552 uri_items = Some ([U_mark], 557)"
  "find_trans 553 uri_items = Some ([U_mark], 559)"
  "find_trans 554 uri_items = Some ([U_mark], 558)"
  "find_trans 555 uri_items = Some ([U_mark, U_save_host], 521)"
  "find_trans 556 uri_items = Some ([U_mark, U_save_host, U_save_path], 456)"
  "find_trans 557 uri_items = Some ([U_mark, U_save_userinfo], 522)"
  "find_trans 558 uri_items = Some ([U_mark], 260)"
  "find_trans 559 uri_items = Some ([U_save_host, U_mark, U_save_path], 453)"
  "find_trans 560 uri_items = Some ([U_save_host, U_mark], 513)"
  "find_trans 561 uri_items = Some ([U_save_host], 514)"
  "find_trans 562 uri_items = Some ([U_save_host, U_mark, U_save_path], 456)"
  "find_trans 563 uri_items = Some ([U_save_path], 453)"
  "find_trans 565 uri_items = Some ([U_save_path], 456)"
  "find_trans 566 uri_items = Some ([U_mark, U_save_port, U_save_path], 453)"
  "find_trans 567 uri_items = Some ([U_mark, U_save_port], 513)"
  "find_trans 568 uri_items = Some ([U_mark], 515)"
  "find_trans 569 uri_items = Some ([U_mark, U_save_port, U_save_path], 456)"
  "find_trans 570 uri_items = Some ([U_save_port, U_mark, U_save_path], 453)"
  "find_trans 571 uri_items = Some ([U_save_port, U_mark], 513)"
  "find_trans 573 uri_items = Some ([U_save_port, U_mark, U_save_path], 456)"
  "find_trans 576 uri_items = Some ([U_save_host], 521)"
  "find_trans 577 uri_items = Some ([U_mark], 542)"
  "find_trans 578 uri_items = Some ([U_mark], 523)"
  "find_trans 579 uri_items = Some ([U_mark], 258)"
  "find_trans 580 uri_items = Some ([U_mark], 524)"
  "find_trans 581 uri_items = Some ([U_mark], 538)"
  "find_trans 582 uri_items = Some ([U_mark], 540)"
  "find_trans 583 uri_items = Some ([U_mark], 539)"
  "find_trans 584 uri_items = Some ([U_mark, U_save_host], 514)"
  by (simp_all add: uri_lookup, simp_all add: uri_items_chunks)

section \<open>Characters\<close>

text \<open>Characters of schemes, of a registered name, of a user with a password, and of paths and queries.\<close>

definition alpha :: "char \<Rightarrow> bool" where
  "alpha c \<longleftrightarrow> 65 \<le> schar c \<and> schar c \<le> 90 \<or> 97 \<le> schar c \<and> schar c \<le> 122"

definition scheme_char :: "char \<Rightarrow> bool" where
  "scheme_char c \<longleftrightarrow> alnum c \<or> c \<in> set ''+-.''"

definition reg_char :: "char \<Rightarrow> bool" where
  "reg_char c \<longleftrightarrow> alnum c \<or> c \<in> set ''-._~!$&()*+,;='' \<or> c = CHR 0x27"

definition pass_char :: "char \<Rightarrow> bool" where
  "pass_char c \<longleftrightarrow> reg_char c \<or> c = CHR '':''"

definition uri_path_char :: "char \<Rightarrow> bool" where "uri_path_char c \<longleftrightarrow> path_char c \<or> schar c < 0"
definition uri_query_char :: "char \<Rightarrow> bool" where "uri_query_char c \<longleftrightarrow> query_char c \<or> schar c < 0"

lemma schar_scheme:
  assumes "scheme_char c"
  shows "schar c = 43 \<or> schar c = 45 \<or> schar c = 46 \<or> 48 \<le> schar c \<and> schar c \<le> 57 \<or> 65 \<le> schar c \<and> schar c \<le> 90 \<or>
    97 \<le> schar c \<and> schar c \<le> 122"
  using assms unfolding scheme_char_def alnum_def
  by (elim disjE conjE) (simp_all, elim disjE, simp_all add: schar_def)

lemma schar_reg:
  assumes "reg_char c"
  shows "schar c = 33 \<or> schar c = 36 \<or> 38 \<le> schar c \<and> schar c \<le> 46 \<or> 48 \<le> schar c \<and> schar c \<le> 57 \<or> schar c = 59 \<or> schar c = 61 \<or>
    65 \<le> schar c \<and> schar c \<le> 90 \<or> schar c = 95 \<or> 97 \<le> schar c \<and> schar c \<le> 122 \<or> schar c = 126"
  using assms unfolding reg_char_def alnum_def
  by (elim disjE conjE) (simp_all, elim disjE, simp_all add: schar_def)

lemma schar_uri_path:
  assumes "uri_path_char c"
  shows "- 128 \<le> schar c \<and> schar c \<le> - 1 \<or> schar c = 33 \<or> schar c = 36 \<or> 38 \<le> schar c \<and> schar c \<le> 59 \<or> schar c = 61 \<or>
    64 \<le> schar c \<and> schar c \<le> 90 \<or> schar c = 95 \<or> 97 \<le> schar c \<and> schar c \<le> 122 \<or> schar c = 126"
  using assms schar_path [of c] schar_range [of c] unfolding uri_path_char_def by linarith

lemma schar_uri_query:
  assumes "uri_query_char c"
  shows "- 128 \<le> schar c \<and> schar c \<le> - 1 \<or> schar c = 33 \<or> schar c = 36 \<or> 38 \<le> schar c \<and> schar c \<le> 59 \<or> schar c = 61 \<or>
    63 \<le> schar c \<and> schar c \<le> 90 \<or> schar c = 95 \<or> 97 \<le> schar c \<and> schar c \<le> 122 \<or> schar c = 126"
  using assms schar_query [of c] schar_range [of c] unfolding uri_query_char_def by linarith

section \<open>Moves\<close>

lemmas uri_move = move_def next_label_def follow_def uri_rows uri_transitions

text \<open>
  The states within a host, before and after a user: they differ in how much of an IPv4 address they have
  seen, and behave alike.
\<close>

definition host_state :: "nat \<Rightarrow> bool" where
  "host_state s \<longleftrightarrow> s \<in> {520, 543, 544, 545, 546, 547, 548, 549, 550, 551, 552, 553, 554, 555, 556, 557, 558, 559, 560}"

definition user_host_state :: "nat \<Rightarrow> bool" where
  "user_host_state s \<longleftrightarrow> s \<in> {523, 524, 525, 526, 527, 528, 529, 530, 531, 532, 533, 534, 535, 536, 537, 538, 539, 540, 541}"

lemma scheme_moves:
  "alpha c \<Longrightarrow> move uri_items r 451 c = ([U_mark], 508)"
  "scheme_char c \<Longrightarrow> move uri_items r 508 c = ([], 508)"
  by (unfold alpha_def, elim disjE, simp_all add: uri_move) (drule schar_scheme, elim disjE, simp_all add: uri_move)

lemma host_entry:
  assumes "reg_char c"
  shows "fst (move uri_items r 511 c) = [U_mark] \<and> host_state (snd (move uri_items r 511 c))"
    "fst (move uri_items r 522 c) = [U_mark] \<and> user_host_state (snd (move uri_items r 522 c))"
  using schar_reg [OF assms] by (elim disjE; simp add: uri_move host_state_def user_host_state_def)+

definition reg_ranges :: "(int \<times> int) list" where
  "reg_ranges = [(33, 33), (36, 36), (38, 46), (48, 57), (59, 59), (61, 61), (65, 90), (95, 95), (97, 122), (126, 126)]"

lemma reg_ranges: "reg_char c \<Longrightarrow> in_ranges reg_ranges (schar c)"
  by (drule schar_reg) (unfold reg_ranges_def in_ranges_def, simp, linarith?)

lemma host_states_within:
  "host_state s \<Longrightarrow> moves_within uri_items reg_ranges host_state s"
  "user_host_state s \<Longrightarrow> moves_within uri_items reg_ranges user_host_state s"
  unfolding host_state_def [of s] user_host_state_def [of s]
  by (elim insertE emptyE; simp add: moves_within_def uri_rows reg_ranges_def host_state_def user_host_state_def)+

lemma host_moves:
  assumes "reg_char c"
  shows "host_state s \<Longrightarrow> fst (move uri_items r s c) = [] \<and> host_state (snd (move uri_items r s c))"
    "user_host_state s \<Longrightarrow> fst (move uri_items r s c) = [] \<and> user_host_state (snd (move uri_items r s c))"
  using moves_within [OF host_states_within(1) reg_ranges [OF assms]] moves_within [OF host_states_within(2) reg_ranges [OF assms]]
  by blast+

lemma host_exits:
  "host_state s \<Longrightarrow> move uri_items r s (CHR 0x25) = ([], 253)"
  "host_state s \<Longrightarrow> move uri_items r s (CHR ''/'') = ([U_save_host, U_mark], 513)"
  "host_state s \<Longrightarrow> move uri_items r s (CHR '':'') = ([U_save_host], 521)"
  "host_state s \<Longrightarrow> move uri_items r s (CHR ''@'') = ([U_save_userinfo], 522)"
  "user_host_state s \<Longrightarrow> move uri_items r s (CHR 0x25) = ([], 258)"
  "user_host_state s \<Longrightarrow> move uri_items r s (CHR ''/'') = ([U_save_host, U_mark], 513)"
  "user_host_state s \<Longrightarrow> move uri_items r s (CHR '':'') = ([U_save_host], 514)"
  unfolding host_state_def user_host_state_def by (elim insertE emptyE; simp add: uri_move schar_def)+

lemma uri_xdigit_moves:
  assumes "xdigit c"
  shows "move uri_items r 253 c = ([], 254)" "move uri_items r 254 c = ([], 520)"
    "move uri_items r 258 c = ([], 259)" "move uri_items r 259 c = ([], 523)"
    "move uri_items r 256 c = ([], 257)" "move uri_items r 257 c = ([], 255)"
    "move uri_items r 243 c = ([], 244)" "move uri_items r 244 c = ([], 513)"
    "move uri_items r 7 c = ([], 8)" "move uri_items r 8 c = ([], 457)"
    "move uri_items r 1 c = ([], 2)" "move uri_items r 2 c = ([], 454)"
  using assms unfolding xdigit_def by (elim disjE; simp add: uri_move)+

lemma schar_pass:
  assumes "pass_char c"
  shows "schar c = 33 \<or> schar c = 36 \<or> 38 \<le> schar c \<and> schar c \<le> 46 \<or> 48 \<le> schar c \<and> schar c \<le> 57 \<or> 58 \<le> schar c \<and> schar c \<le> 59 \<or>
    schar c = 61 \<or> 65 \<le> schar c \<and> schar c \<le> 90 \<or> schar c = 95 \<or> 97 \<le> schar c \<and> schar c \<le> 122 \<or> schar c = 126"
  using assms unfolding pass_char_def
proof
  assume "reg_char c"
  then show ?thesis using schar_reg [of c] by linarith
qed (simp add: schar_def)

lemma pass_moves:
  assumes "pass_char c"
  shows "move uri_items r 255 c = ([], 255)" "\<not> digit c \<Longrightarrow> move uri_items r 521 c = ([], 255)"
  unfolding digit_def using schar_pass [OF assms] by (elim disjE; simp add: uri_move)+

lemma port_moves:
  assumes "digit c"
  shows "move uri_items r 521 c = ([U_mark], 542)" "move uri_items r 542 c = ([], 542)"
    "move uri_items r 514 c = ([U_mark], 515)" "move uri_items r 515 c = ([], 515)"
  using assms unfolding digit_def by (simp_all add: uri_move)

lemma uri_path_moves:
  assumes "uri_path_char c"
  shows "move uri_items r 513 c = ([], 513)"
  using schar_uri_path [OF assms] by (elim disjE) (simp_all add: uri_move)

lemma uri_query_moves:
  assumes "uri_query_char c"
  shows "move uri_items r 456 c = ([U_mark], 457)" "move uri_items r 457 c = ([], 457)"
    "move uri_items r 453 c = ([U_mark], 454)" "move uri_items r 454 c = ([], 454)"
  using schar_uri_query [OF assms] by (elim disjE; simp add: uri_move)+

text \<open>The fixed characters.\<close>

lemma uri_fixed_moves:
  "move uri_items r 508 (CHR '':'') = ([U_save_scheme], 509)" "move uri_items r 509 (CHR ''/'') = ([], 510)"
  "move uri_items r 510 (CHR ''/'') = ([], 511)"
  "move uri_items r 511 (CHR 0x25) = ([U_mark], 253)" "move uri_items r 522 (CHR 0x25) = ([U_mark], 258)"
  "move uri_items r 521 (CHR 0x25) = ([], 256)" "move uri_items r 255 (CHR 0x25) = ([], 256)"
  "move uri_items r 521 (CHR ''@'') = ([U_save_userinfo], 522)" "move uri_items r 255 (CHR ''@'') = ([U_save_userinfo], 522)"
  "move uri_items r 542 (CHR ''/'') = ([U_save_port, U_mark], 513)" "move uri_items r 515 (CHR ''/'') = ([U_save_port, U_mark], 513)"
  "move uri_items r 513 (CHR 0x25) = ([], 243)"
  "move uri_items r 513 (CHR ''?'') = ([U_save_path], 456)" "move uri_items r 513 (CHR ''#'') = ([U_save_path], 453)"
  "move uri_items r 456 (CHR 0x25) = ([U_mark], 7)" "move uri_items r 457 (CHR 0x25) = ([], 7)"
  "move uri_items r 457 (CHR ''#'') = ([U_save_query], 453)"
  "move uri_items r 453 (CHR 0x25) = ([U_mark], 1)" "move uri_items r 454 (CHR 0x25) = ([], 1)"
  by (simp_all add: uri_move schar_def)

end
