(* ===== verification/Uri_Correct.thy ===== *)
theory Uri_Correct
  imports Uri_Moves
begin

text \<open>
  What \<^verbatim>\<open>Uri::Create\<close> does: it reads back what \<^verbatim>\<open>toString\<close> prints, and on any string it returns unless a
  port is announced by a colon and left out.
\<close>

section \<open>Runs over the parts of a URI\<close>

abbreviation uri_steps where "uri_steps str \<equiv> steps uri_items False uri_brk (uri_exec str)"

lemma uri_not_breaking [simp]: "\<not> breaks uri_brk acts"
  by (simp add: breaks_def uri_brk_def list_ex_iff)

lemma uri_exec_Inr [simp]: "uri_exec str a p (Inr (mk, u)) = uri_act str a p mk u"
  by (simp add: uri_exec_def)

text \<open>The text \<open>x\<close> stands at offset \<open>p\<close>.\<close>

definition at :: "string \<Rightarrow> nat \<Rightarrow> string \<Rightarrow> bool" where
  "at str p x \<longleftrightarrow> take (length x) (drop p str) = x"

lemma saved [simp]: "at str p x \<Longrightarrow> take (length x) (drop p str) = x"
  by (simp add: at_def)

lemma drop_prefix: "drop (length pre) (pre @ x) = x"
  by simp

definition scheme_ok :: "string \<Rightarrow> bool" where
  "scheme_ok s \<longleftrightarrow> s \<noteq> [] \<and> alpha (hd s) \<and> list_all scheme_char s"

text \<open>A user: a name, and after a colon a password that does not start with a digit.\<close>

definition user_ok :: "string \<Rightarrow> bool" where
  "user_ok user \<longleftrightarrow> user = [] \<or>
     (let name = takeWhile (\<lambda>c. c \<noteq> CHR '':'') user; rest = dropWhile (\<lambda>c. c \<noteq> CHR '':'') user
      in name \<noteq> [] \<and> url_text reg_char name \<and>
         (rest \<noteq> [] \<longrightarrow> url_text pass_char (tl rest) \<and> (tl rest \<noteq> [] \<longrightarrow> \<not> digit (hd (tl rest)))))"

lemma steps_scheme:
  assumes "scheme_ok s" "at str p s"
  shows "uri_steps str p (s @ ''://'') 451 (Inr (mk, u)) = Some (511, Inr (None, u\<lparr>m_scheme := s\<rparr>))"
proof -
  obtain c cs where s: "s = c # cs" "alpha c" "\<forall>c \<in> set cs. scheme_char c"
    using assms(1) by (cases s) (auto simp: scheme_ok_def list_all_iff)
  have "uri_steps str (Suc p) cs 508 x = Some (508, x)" for x
    by (rule steps_loop) (use s scheme_moves in auto)
  then show ?thesis using s scheme_moves(1) [OF s(2)] saved [OF assms(2)]
    by (simp add: steps_append uri_fixed_moves save_def marked_def)
qed

text \<open>A host, in the states that have seen no user (from 511) and after a user (from 522).\<close>

lemma steps_in_host:
  "url_text reg_char xs \<Longrightarrow> host_state s \<Longrightarrow> \<exists>s'. host_state s' \<and> uri_steps str p xs s x = Some (s', x)"
  "url_text reg_char xs \<Longrightarrow> user_host_state t \<Longrightarrow> \<exists>t'. user_host_state t' \<and> uri_steps str p xs t x = Some (t', x)"
proof -
  have z: "\<not> host_state 0" "\<not> user_host_state 0" "host_state 520" "user_host_state 523"
    by (simp_all add: host_state_def user_host_state_def)
  show "url_text reg_char xs \<Longrightarrow> host_state s \<Longrightarrow> \<exists>s'. host_state s' \<and> uri_steps str p xs s x = Some (s', x)"
    by (rule steps_url_class [where t = 253 and u = 254 and ?s0.0 = 520])
      (use z host_moves host_exits uri_xdigit_moves in auto)
  show "url_text reg_char xs \<Longrightarrow> user_host_state t \<Longrightarrow> \<exists>t'. user_host_state t' \<and> uri_steps str p xs t x = Some (t', x)"
    by (rule steps_url_class [where t = 258 and u = 259 and ?s0.0 = 523])
      (use z host_moves host_exits uri_xdigit_moves in auto)
qed

text \<open>Entering a host.\<close>

lemma steps_host_entry:
  assumes "url_text reg_char xs" "xs \<noteq> []"
  shows "(\<exists>s'. host_state s' \<and> uri_steps str p xs 511 (Inr (mk, u)) = Some (s', Inr (Some p, u))) \<and>
    (\<exists>s'. user_host_state s' \<and> uri_steps str p xs 522 (Inr (mk, u)) = Some (s', Inr (Some p, u)))"
proof -
  obtain c cs where xs: "xs = c # cs" using assms(2) by (cases xs) auto
  have z: "host_state 520" "user_host_state 523" "\<not> host_state 0" "\<not> user_host_state 0"
    by (simp_all add: host_state_def user_host_state_def)
  consider (pct) a b cs' where "c = CHR 0x25" "cs = a # b # cs'" "xdigit a" "xdigit b" "url_text reg_char cs'"
    | (plain) "c \<noteq> CHR 0x25" "reg_char c" "url_text reg_char cs"
    using assms(1) xs by (cases cs; cases "tl cs"; cases "c = CHR 0x25") auto
  then show ?thesis
  proof cases
    case pct
    then show ?thesis using xs z steps_in_host uri_xdigit_moves uri_fixed_moves by simp
  next
    case plain
    obtain m n where mn: "move uri_items False 511 c = ([U_mark], m)" "host_state m"
      "move uri_items False 522 c = ([U_mark], n)" "user_host_state n"
      using host_entry [OF plain(2)] by (metis prod.collapse)
    then have "m \<noteq> 0" "n \<noteq> 0" using z by metis+
    then show ?thesis using xs mn steps_in_host plain by simp
  qed
qed

text \<open>A user and the \<open>@\<close> after it; its name has been taken for a host when a password follows.\<close>

lemma user_parts:
  assumes "user_ok user" "user \<noteq> []"
  obtains name where "user = name" "name \<noteq> []" "url_text reg_char name"
  | name pass where "user = name @ CHR '':'' # pass" "name \<noteq> []" "url_text reg_char name" "url_text pass_char pass"
      "pass \<noteq> [] \<longrightarrow> \<not> digit (hd pass)"
proof (cases "dropWhile (\<lambda>c. c \<noteq> CHR '':'') user")
  case Nil
  then have name: "takeWhile (\<lambda>c. c \<noteq> CHR '':'') user = user" by (simp add: dropWhile_eq_Nil_conv takeWhile_eq_all_conv)
  show ?thesis using assms that(1) [of user] by (auto simp: user_ok_def name Let_def)
next
  case (Cons c pass)
  then have "c = CHR '':''" using hd_dropWhile [of "\<lambda>c. c \<noteq> CHR '':''" user] by simp
  moreover have "takeWhile (\<lambda>c. c \<noteq> CHR '':'') user @ c # pass = user"
    using takeWhile_dropWhile_id [of "\<lambda>c. c \<noteq> CHR '':''" user] unfolding Cons .
  ultimately show ?thesis
    using assms that(2) [of "takeWhile (\<lambda>c. c \<noteq> CHR '':'') user" pass] Cons by (simp add: user_ok_def Let_def)
qed

lemma steps_user:
  assumes "user_ok user" "user \<noteq> []" "at str p user"
  shows "\<exists>h. uri_steps str p (user @ ''@'') 511 (Inr (mk, u)) = Some (522, Inr (None, u\<lparr>m_host := h, m_userinfo := user\<rparr>))"
  using assms(1,2)
proof (cases rule: user_parts)
  case (1 name)
  then obtain s where s: "host_state s" "uri_steps str p user 511 (Inr (mk, u)) = Some (s, Inr (Some p, u))"
    using steps_host_entry by blast
  then have "uri_steps str p (user @ ''@'') 511 (Inr (mk, u)) = Some (522, Inr (None, u\<lparr>m_userinfo := user\<rparr>))"
    using saved [OF assms(3)] by (simp add: steps_append host_exits save_def marked_def)
  then show ?thesis by (intro exI [of _ "m_host u"]) simp
next
  case (2 name pass)
  then obtain s where s: "host_state s" "uri_steps str p name 511 (Inr (mk, u)) = Some (s, Inr (Some p, u))"
    using steps_host_entry by blast
  define u' where "u' = u\<lparr>m_host := take (length name) (drop p str)\<rparr>"
  have pass: "\<exists>t \<in> {521, 255}. uri_steps str q pass 521 x = Some (t, x)" for q x
  proof (cases "pass = []")
    case False
    have "uri_steps str q pass 521 x = Some (255, fold (\<lambda>a. uri_exec str a q) [] x)"
      using 2(4,5) False
      by (intro steps_url_entry [where ok = pass_char and s = 255 and t = 256 and u = 257])
        (auto simp: pass_moves uri_xdigit_moves uri_fixed_moves)
    then show ?thesis by simp
  qed simp
  then obtain t where t: "t \<in> {521, 255}"
    "uri_steps str (Suc (p + length name)) pass 521 (Inr (Some p, u')) = Some (t, Inr (Some p, u'))"
    by blast
  have "uri_steps str p user 511 (Inr (mk, u)) = Some (t, Inr (Some p, u'))"
    unfolding 2(1) using s t(2) by (simp add: steps_append host_exits u'_def)
  then have "uri_steps str p (user @ ''@'') 511 (Inr (mk, u)) = Some (522, Inr (None, u'\<lparr>m_userinfo := user\<rparr>))"
    using t(1) saved [OF assms(3)] by (auto simp: steps_append uri_fixed_moves save_def marked_def)
  then show ?thesis unfolding u'_def by (intro exI) simp
qed

text \<open>The port, if any, and the slash that starts the path.\<close>

lemma steps_port:
  assumes "n < 2 ^ 31" "drop (Suc p) str = dec n @ CHR ''/'' # rest" "s \<in> {521, 514}"
  shows "uri_steps str (Suc p) (dec n @ ''/'') s (Inr (mk, u)) =
    Some (513, Inr (Some (Suc p + length (dec n)), u\<lparr>m_port := int n\<rparr>))"
proof -
  have "dec n \<noteq> []" unfolding dec_def by (rule digits_nonempty) simp
  then obtain c cs where dec: "dec n = c # cs" by (cases "dec n") auto
  then have d: "digit c" "\<forall>d \<in> set cs. digit d" using dec_digits [of _ n] by auto
  define t where "t = (if s = 521 then 542 else 515 :: nat)"
  have t: "t \<in> {542, 515}" "move uri_items False s c = ([U_mark], t)"
    "\<And>d. digit d \<Longrightarrow> move uri_items False t d = ([], t)" "move uri_items False t (CHR ''/'') = ([U_save_port, U_mark], 513)"
    using assms(3) port_moves d(1) uri_fixed_moves by (auto simp: t_def)
  have loop: "uri_steps str q cs t x = Some (t, x)" for q x
    by (rule steps_loop) (use t d in auto)
  have "atoi (dec n @ CHR ''/'' # rest) = int n"
    by (rule atoi_dec) (use assms(1) in \<open>simp_all add: digit_val_def\<close>)
  then have "atoi (drop (Suc p) str) = int n" using assms(2) by simp
  then show ?thesis using dec t loop by (auto simp: steps_append)
qed

text \<open>The rest of the path, the query and the fragment, and the actions at the end of the text.\<close>

definition uri_tail :: "string \<Rightarrow> string \<Rightarrow> string" where
  "uri_tail query fragment = (if query = [] then [] else ''?'' @ query) @ (if fragment = [] then [] else ''#'' @ fragment)"

lemma steps_uri_path:
  assumes "url_text uri_path_char path"
  shows "uri_steps str p path 513 x = Some (513, x)"
  by (rule steps_url [where ok = uri_path_char and t = 243 and u = 244])
    (use assms uri_path_moves uri_fixed_moves uri_xdigit_moves in auto)

lemma steps_uri_query:
  assumes "url_text uri_query_char query" "query \<noteq> []"
  shows "uri_steps str p query 456 (Inr (mk, u)) = Some (457, Inr (Some p, u))"
    "uri_steps str p query 453 (Inr (mk, u)) = Some (454, Inr (Some p, u))"
proof -
  have "uri_steps str p query 456 (Inr (mk, u)) = Some (457, fold (\<lambda>a. uri_exec str a p) [U_mark] (Inr (mk, u)))"
    by (rule steps_url_entry [where ok = uri_query_char and t = 7 and u = 8])
      (use assms uri_query_moves uri_fixed_moves uri_xdigit_moves in auto)
  then show "uri_steps str p query 456 (Inr (mk, u)) = Some (457, Inr (Some p, u))" by simp
  have "uri_steps str p query 453 (Inr (mk, u)) = Some (454, fold (\<lambda>a. uri_exec str a p) [U_mark] (Inr (mk, u)))"
    by (rule steps_url_entry [where ok = uri_query_char and t = 1 and u = 2])
      (use assms uri_query_moves uri_fixed_moves uri_xdigit_moves in auto)
  then show "uri_steps str p query 453 (Inr (mk, u)) = Some (454, Inr (Some p, u))" by simp
qed

lemma steps_uri_tail:
  assumes "url_text uri_path_char path" "url_text uri_query_char query" "url_text uri_query_char fragment"
    and "str = pre @ path @ uri_tail query fragment" "m \<le> length pre" "m_query u = []" "m_fragment u = []"
  shows "\<exists>s x. uri_steps str (length pre) (path @ uri_tail query fragment) 513 (Inr (Some m, u)) = Some (s, x) \<and> 451 \<le> s \<and>
    fold (\<lambda>a. uri_exec str a (length str)) (uri_eof s) x =
      Inr (None, u\<lparr>m_path := drop m pre @ path, m_query := query, m_fragment := fragment\<rparr>)"
proof -
  have path: "uri_steps str p path 513 x = Some (513, x)" for p x by (rule steps_uri_path [OF assms(1)])
  have saved_path: "take (length pre + length path - m) (drop m str) = drop m pre @ path"
    using assms(5) by (simp add: assms(4))
  show ?thesis
  proof (cases "query = []"; cases "fragment = []")
    assume "query = []" "fragment = []"
    then show ?thesis using path saved_path assms by (simp add: uri_tail_def uri_eof_def save_def marked_def)
  next
    assume e: "query = []" "fragment \<noteq> []"
    then have "take (length fragment) (drop (Suc (length pre + length path)) str) = fragment"
      by (simp add: assms(4) uri_tail_def)
    then show ?thesis using path saved_path assms(5-) e steps_uri_query(2) [OF assms(3) e(2)]
      by (simp add: uri_tail_def uri_eof_def save_def marked_def steps_append uri_fixed_moves assms(4))
  next
    assume e: "query \<noteq> []" "fragment = []"
    then have "take (length query) (drop (Suc (length pre + length path)) str) = query"
      by (simp add: assms(4) uri_tail_def)
    then show ?thesis using path saved_path assms(5-) e steps_uri_query(1) [OF assms(2) e(1)]
      by (simp add: uri_tail_def uri_eof_def save_def marked_def steps_append uri_fixed_moves assms(4))
  next
    assume e: "query \<noteq> []" "fragment \<noteq> []"
    then have "take (length query) (drop (Suc (length pre + length path)) str) = query"
      "take (length fragment) (drop (Suc (Suc (length pre + length path + length query))) str) = fragment"
      by (simp_all add: assms(4) uri_tail_def)
    then show ?thesis using path saved_path assms(5-) e steps_uri_query(1) [OF assms(2) e(1)] steps_uri_query(2) [OF assms(3) e(2)]
      by (simp add: uri_tail_def uri_eof_def save_def marked_def steps_append uri_fixed_moves assms(4) add.assoc)
  qed
qed

section \<open>Printing and parsing\<close>

text \<open>The URIs whose text is read back: with a scheme, a registered name as host, a user as above, a path that
  starts with a slash or none, and a port of 31 bits.\<close>

definition uri_ok :: "Uri \<Rightarrow> bool" where
  "uri_ok u \<longleftrightarrow> scheme_ok (m_scheme u) \<and> user_ok (m_userinfo u) \<and> m_host u \<noteq> [] \<and> url_text reg_char (m_host u) \<and>
     (m_path u \<noteq> [] \<longrightarrow> hd (m_path u) = CHR ''/'' \<and> url_text uri_path_char (tl (m_path u))) \<and>
     url_text uri_query_char (m_query u) \<and> url_text uri_query_char (m_fragment u) \<and> 0 \<le> m_port u \<and> m_port u < 2 ^ 31"

definition user_part :: "Uri \<Rightarrow> string" where
  "user_part u = (if m_userinfo u = [] then [] else m_userinfo u @ ''@'')"

definition port_part :: "Uri \<Rightarrow> string" where
  "port_part u = (if isDefaultPort u then [] else '':'' @ dec (nat (m_port u)))"

definition reparsed :: "Uri \<Rightarrow> Uri" where
  "reparsed u = u\<lparr>m_path := uri_getPath u, m_port := (if isDefaultPort u then 0 else m_port u)\<rparr>"

lemma steps_authority:
  assumes "uri_ok u" "str = (m_scheme u @ ''://'') @ user_part u @ m_host u @ port_part u @ CHR ''/'' # rest"
  shows "uri_steps str 0 ((m_scheme u @ ''://'') @ user_part u @ m_host u @ port_part u @ ''/'') 451 (Inr (None, new_Uri)) =
    Some (513, Inr (Some (length str - length rest - 1), new_Uri\<lparr>m_scheme := m_scheme u, m_userinfo := m_userinfo u,
      m_host := m_host u, m_port := if isDefaultPort u then 0 else m_port u\<rparr>))"
proof -
  let ?p = "length (m_scheme u @ ''://'')"
  define q where "q = ?p + length (user_part u)"
  define u1 where "u1 = new_Uri\<lparr>m_scheme := m_scheme u\<rparr>"
  have ok: "scheme_ok (m_scheme u)" "user_ok (m_userinfo u)" "m_host u \<noteq> []" "url_text reg_char (m_host u)" "0 \<le> m_port u" "m_port u < 2 ^ 31"
    using assms(1) by (simp_all add: uri_ok_def)
  have scheme: "uri_steps str 0 (m_scheme u @ ''://'') 451 (Inr (None, new_Uri)) = Some (511, Inr (None, u1))"
    unfolding u1_def by (rule steps_scheme [OF ok(1)]) (simp add: at_def assms(2))
  have "\<exists>s h. s \<in> {511, 522} \<and> uri_steps str ?p (user_part u) 511 (Inr (None, u1)) = Some (s, Inr (None, u1\<lparr>m_host := h, m_userinfo := m_userinfo u\<rparr>))"
  proof (cases "m_userinfo u = []")
    case True
    then show ?thesis by (intro exI [of _ 511] exI [of _ "[]"]) (simp add: user_part_def u1_def new_Uri_def)
  next
    case False
    have "at str ?p (m_userinfo u)" using False by (simp add: at_def assms(2) user_part_def)
    then obtain h where "uri_steps str ?p (m_userinfo u @ ''@'') 511 (Inr (None, u1)) = Some (522, Inr (None, u1\<lparr>m_host := h, m_userinfo := m_userinfo u\<rparr>))"
      using steps_user [OF ok(2) False] by blast
    then show ?thesis using False by (intro exI [of _ 522] exI [of _ h]) (simp add: user_part_def)
  qed
  then obtain s h where s: "s \<in> {511, 522}"
    and user: "uri_steps str ?p (user_part u) 511 (Inr (None, u1)) = Some (s, Inr (None, u1\<lparr>m_host := h, m_userinfo := m_userinfo u\<rparr>))"
    by blast
  define u2 where "u2 = u1\<lparr>m_host := h, m_userinfo := m_userinfo u\<rparr>"
  obtain t where t: "host_state t \<or> user_host_state t" "uri_steps str q (m_host u) s (Inr (None, u2)) = Some (t, Inr (Some q, u2))"
    using s steps_host_entry [OF ok(4,3), of str q None u2] by blast
  have dq: "drop q str = m_host u @ port_part u @ CHR ''/'' # rest"
  proof -
    have eq: "str = ((m_scheme u @ ''://'') @ user_part u) @ m_host u @ port_part u @ CHR ''/'' # rest"
      unfolding assms(2) by (simp only: append_assoc)
    have q: "q = length ((m_scheme u @ ''://'') @ user_part u)" unfolding q_def by (rule length_append [symmetric])
    show ?thesis unfolding q eq by (rule drop_prefix)
  qed
  then have host: "take (length (m_host u)) (drop q str) = m_host u" by simp
  have port: "uri_steps str (q + length (m_host u)) (port_part u @ ''/'') t (Inr (Some q, u2)) =
      Some (513, Inr (Some (q + length (m_host u) + length (port_part u)),
        u2\<lparr>m_host := m_host u, m_port := if isDefaultPort u then 0 else m_port u\<rparr>))"
  proof (cases "isDefaultPort u")
    case True
    then show ?thesis using t(1) host
      by (auto simp: port_part_def host_exits u2_def u1_def new_Uri_def)
  next
    case False
    obtain s' where s': "s' \<in> {521, 514}" "move uri_items False t (CHR '':'') = ([U_save_host], s')"
      using t(1) host_exits(3,7) by (metis insertCI)
    have "drop (Suc (q + length (m_host u))) str = dec (nat (m_port u)) @ CHR ''/'' # rest"
      using False dq drop_drop [of "Suc (length (m_host u))" q str] by (simp add: port_part_def add.commute)
    from steps_port [OF _ this s'(1)] show ?thesis
      using False s' host ok(5,6) by (auto simp: port_part_def steps_append)
  qed
  have "uri_steps str 0 ((m_scheme u @ ''://'') @ user_part u @ m_host u @ port_part u @ ''/'') 451 (Inr (None, new_Uri)) =
      uri_steps str (q + length (m_host u)) (port_part u @ ''/'') t (Inr (Some q, u2))"
    unfolding steps_then [OF scheme] steps_then [OF user [folded u2_def]] add_0
    using steps_then [OF t(2)] by (simp add: q_def)
  moreover have "length str - length rest - 1 = q + length (m_host u) + length (port_part u)"
    by (simp add: assms(2) q_def)
  ultimately show ?thesis using port by (simp add: u2_def u1_def)
qed

lemma Uri_Create_toString:
  assumes "uri_ok u"
  shows "Uri_Create (uri_dump u) = Inr (Some (reparsed u))"
proof -
  obtain path where path: "uri_getPath u = CHR ''/'' # path" "url_text uri_path_char path"
    using assms by (cases "m_path u") (auto simp: uri_ok_def uri_getPath_def)
  define rest where "rest = path @ uri_tail (m_query u) (m_fragment u)"
  define pre where "pre = (m_scheme u @ ''://'') @ user_part u @ m_host u @ port_part u @ ''/''"
  define str where "str = pre @ rest"
  have dump: "uri_dump u = str"
    using assms path(1) by (simp add: str_def rest_def pre_def uri_dump_def user_part_def port_part_def uri_tail_def to_string_def uri_ok_def)
  define u3 where "u3 = new_Uri\<lparr>m_scheme := m_scheme u, m_userinfo := m_userinfo u,
      m_host := m_host u, m_port := if isDefaultPort u then 0 else m_port u\<rparr>"
  define m where "m = length str - length rest - 1"
  have m: "m = length pre - 1" "m \<le> length pre" by (simp_all add: m_def str_def)
  have pre: "uri_steps str 0 pre 451 (Inr (None, new_Uri)) = Some (513, Inr (Some m, u3))"
    unfolding pre_def u3_def m_def by (rule steps_authority [OF assms]) (simp add: str_def pre_def)
  obtain s x where tail: "uri_steps str (length pre) rest 513 (Inr (Some m, u3)) = Some (s, x)" "451 \<le> s"
    "fold (\<lambda>a. uri_exec str a (length str)) (uri_eof s) x =
       Inr (None, u3\<lparr>m_path := drop m pre @ path, m_query := m_query u, m_fragment := m_fragment u\<rparr>)"
    using steps_uri_tail [of path "m_query u" "m_fragment u" str pre m u3] path(2) assms m(2)
    by (auto simp: uri_ok_def str_def rest_def u3_def new_Uri_def)
  have "uri_steps str 0 str 451 (Inr (None, new_Uri)) = Some (s, x)"
    using steps_then [OF pre, of rest] tail(1) by (simp add: str_def)
  then have "run uri_items False uri_brk (uri_exec str) 0 str 451 (Inr (None, new_Uri)) = (s, length str, x)"
    using run_steps [of uri_items False uri_brk "uri_exec str" 0 str 451 _ s x "[]"] by simp
  then have "uri_run str = (s, Inr (None, u3\<lparr>m_path := drop m pre @ path, m_query := m_query u, m_fragment := m_fragment u\<rparr>))"
    using tail(3) by (simp add: uri_run_def uri_parser_start_def)
  moreover have "drop m pre = ''/''"
  proof -
    have "pre = butlast pre @ ''/''" by (simp add: pre_def butlast_append)
    then show ?thesis unfolding m(1) by (metis append_eq_conv_conj length_butlast)
  qed
  ultimately show ?thesis
    using tail(2) path(1) by (simp add: dump Uri_Create_def uri_parser_error_def uri_parser_first_final_def reparsed_def u3_def new_Uri_def)
qed

end
