(* ===== verification/Uri_Safe.thy ===== *)
theory Uri_Safe
  imports Uri_Correct
begin

text \<open>
  \<^verbatim>\<open>Uri::Create\<close> on arbitrary strings: which states of the generated machine have the pointer \<^verbatim>\<open>mark\<close> set,
  checked block by block, and what follows for a run on any input.
\<close>

section \<open>What every block keeps\<close>

text \<open>
  The states where \<^verbatim>\<open>mark\<close> may be null, the states after a scheme, and those after the colon of a port, where
  the code forgets the mark of an empty port before it saves a path.
\<close>

definition no_mark :: "nat \<Rightarrow> bool" where
  "no_mark s \<longleftrightarrow> (if s < 451 then s = 0 \<or> 3 \<le> s \<and> s \<le> 6
     else s < 454 \<or> s = 455 \<or> s = 456 \<or> s = 458 \<or> s = 459 \<or> s = 469 \<or> s = 509 \<or> s = 510 \<or> s = 511 \<or> s = 522)"

definition after_scheme :: "nat \<Rightarrow> bool" where
  "after_scheme s \<longleftrightarrow> 229 \<le> s \<and> (s < 451 \<or> 509 \<le> s)"

definition port_state :: "nat \<Rightarrow> bool" where
  "port_state s \<longleftrightarrow> s = 514 \<or> s = 521"

text \<open>Whether the mark is set after some actions, given whether it is before; \<open>None\<close> for a use of a null mark.\<close>

fun mark_after :: "bool \<Rightarrow> uri_action list \<Rightarrow> bool option" where
  "mark_after m [] = Some m"
| "mark_after m (U_mark # as) = mark_after True as"
| "mark_after m (U_save_userinfo # as) = mark_after False as"
| "mark_after m (U_save_host # as) = mark_after m as"
| "mark_after m (a # as) = (if m then mark_after False as else None)"

definition entry_safe :: "nat \<Rightarrow> int \<times> int \<times> label \<Rightarrow> bool" where
  "entry_safe s e = (case e of (lo, hi, l) \<Rightarrow> case follow uri_items l of (acts, n) \<Rightarrow>
     (if after_scheme s then True else if after_scheme n then lo = 58 \<and> hi = 58 else True) \<and>
     (if port_state n then after_scheme s \<and> lo = 58 \<and> hi = 58 else True) \<and>
     (if port_state s \<and> lo = hi \<and> lo \<in> {35, 47, 63} then True
      else case mark_after (\<not> no_mark s) acts of None \<Rightarrow> False | Some m \<Rightarrow> if m then True else no_mark n))"

definition item_safe :: "uri_action item \<Rightarrow> bool" where
  "item_safe i = (case i of St s wide rs \<Rightarrow> \<not> wide \<and> list_all (entry_safe s) rs | Tr _ _ _ \<Rightarrow> True)"

lemma follow_ST [simp]: "follow items (ST n) = ([], n)"
  by (simp add: follow_def)

lemma entry_safe_ST:
  "entry_safe s (lo, hi, ST n) \<longleftrightarrow>
     (if after_scheme s then True else if after_scheme n then lo = 58 \<and> hi = 58 else True) \<and>
     (if port_state n then after_scheme s \<and> lo = 58 \<and> hi = 58 else True) \<and>
     (if no_mark s then no_mark n else True)"
  by (auto simp: entry_safe_def port_state_def no_mark_def)

lemma entry_safe_TR:
  "find_trans k uri_items = Some (acts, n) \<Longrightarrow> entry_safe s (lo, hi, TR k) \<longleftrightarrow>
     (if after_scheme s then True else if after_scheme n then lo = 58 \<and> hi = 58 else True) \<and>
     (if port_state n then after_scheme s \<and> lo = 58 \<and> hi = 58 else True) \<and>
     (if port_state s \<and> lo = hi \<and> lo \<in> {35, 47, 63} then True
      else case mark_after (\<not> no_mark s) acts of None \<Rightarrow> False | Some m \<Rightarrow> if m then True else no_mark n)"
  by (simp add: entry_safe_def follow_def)

lemmas safe_eval = item_safe_def entry_safe_ST entry_safe_TR uri_transitions no_mark_def after_scheme_def port_state_def

lemma items_safe_1:
  "list_all item_safe uri_items_1"
  "list_all item_safe uri_items_2"
  "list_all item_safe uri_items_3"
  "list_all item_safe uri_items_4"
  "list_all item_safe uri_items_5"
  "list_all item_safe uri_items_6"
  "list_all item_safe uri_items_7"
  "list_all item_safe uri_items_8"
  "list_all item_safe uri_items_9"
  by (simp_all add: safe_eval uri_items_1_def uri_items_2_def uri_items_3_def uri_items_4_def uri_items_5_def uri_items_6_def uri_items_7_def uri_items_8_def uri_items_9_def)

lemma items_safe_2:
  "list_all item_safe uri_items_10"
  "list_all item_safe uri_items_11"
  "list_all item_safe uri_items_12"
  "list_all item_safe uri_items_13"
  "list_all item_safe uri_items_14"
  "list_all item_safe uri_items_15"
  "list_all item_safe uri_items_16"
  "list_all item_safe uri_items_17"
  "list_all item_safe uri_items_18"
  by (simp_all add: safe_eval uri_items_10_def uri_items_11_def uri_items_12_def uri_items_13_def uri_items_14_def uri_items_15_def uri_items_16_def uri_items_17_def uri_items_18_def)

lemma items_safe_3:
  "list_all item_safe uri_items_19"
  "list_all item_safe uri_items_20"
  "list_all item_safe uri_items_21"
  "list_all item_safe uri_items_22"
  "list_all item_safe uri_items_23"
  "list_all item_safe uri_items_24"
  "list_all item_safe uri_items_25"
  "list_all item_safe uri_items_26"
  "list_all item_safe uri_items_27"
  by (simp_all add: safe_eval uri_items_19_def uri_items_20_def uri_items_21_def uri_items_22_def uri_items_23_def uri_items_24_def uri_items_25_def uri_items_26_def uri_items_27_def)

lemma items_safe_4:
  "list_all item_safe uri_items_28"
  "list_all item_safe uri_items_29"
  "list_all item_safe uri_items_30"
  "list_all item_safe uri_items_31"
  "list_all item_safe uri_items_32"
  "list_all item_safe uri_items_33"
  "list_all item_safe uri_items_34"
  "list_all item_safe uri_items_35"
  "list_all item_safe uri_items_36"
  by (simp_all add: safe_eval uri_items_28_def uri_items_29_def uri_items_30_def uri_items_31_def uri_items_32_def uri_items_33_def uri_items_34_def uri_items_35_def uri_items_36_def)

lemma items_safe_5:
  "list_all item_safe uri_items_37"
  "list_all item_safe uri_items_38"
  "list_all item_safe uri_items_39"
  "list_all item_safe uri_items_40"
  "list_all item_safe uri_items_41"
  "list_all item_safe uri_items_42"
  "list_all item_safe uri_items_43"
  "list_all item_safe uri_items_44"
  "list_all item_safe uri_items_45"
  by (simp_all add: safe_eval uri_items_37_def uri_items_38_def uri_items_39_def uri_items_40_def uri_items_41_def uri_items_42_def uri_items_43_def uri_items_44_def uri_items_45_def)

lemma items_safe_6:
  "list_all item_safe uri_items_46"
  "list_all item_safe uri_items_47"
  "list_all item_safe uri_items_48"
  "list_all item_safe uri_items_49"
  "list_all item_safe uri_items_50"
  "list_all item_safe uri_items_51"
  "list_all item_safe uri_items_52"
  "list_all item_safe uri_items_53"
  "list_all item_safe uri_items_54"
  by (simp_all add: safe_eval uri_items_46_def uri_items_47_def uri_items_48_def uri_items_49_def uri_items_50_def uri_items_51_def uri_items_52_def uri_items_53_def uri_items_54_def)

lemma items_safe_7:
  "list_all item_safe uri_items_55"
  "list_all item_safe uri_items_56"
  "list_all item_safe uri_items_57"
  "list_all item_safe uri_items_58"
  "list_all item_safe uri_items_59"
  "list_all item_safe uri_items_60"
  "list_all item_safe uri_items_61"
  "list_all item_safe uri_items_62"
  "list_all item_safe uri_items_63"
  by (simp_all add: safe_eval uri_items_55_def uri_items_56_def uri_items_57_def uri_items_58_def uri_items_59_def uri_items_60_def uri_items_61_def uri_items_62_def uri_items_63_def)

lemma items_safe_8:
  "list_all item_safe uri_items_64"
  "list_all item_safe uri_items_65"
  "list_all item_safe uri_items_66"
  "list_all item_safe uri_items_67"
  "list_all item_safe uri_items_68"
  "list_all item_safe uri_items_69"
  "list_all item_safe uri_items_70"
  "list_all item_safe uri_items_71"
  by (simp_all add: safe_eval uri_items_64_def uri_items_65_def uri_items_66_def uri_items_67_def uri_items_68_def uri_items_69_def uri_items_70_def uri_items_71_def)

lemma items_safe: "list_all item_safe uri_items"
  by (simp add: uri_items_def items_safe_1 items_safe_2 items_safe_3 items_safe_4 items_safe_5 items_safe_6 items_safe_7 items_safe_8)

lemma eof_safe: "port_state s \<or> (\<exists>m. mark_after (\<not> no_mark s) (uri_eof s) = Some m)"
  by (auto simp: uri_eof_def port_state_def no_mark_def)

section \<open>Runs\<close>

lemma mark_after_exec:
  "mark_after (mk \<noteq> None) acts = Some m \<Longrightarrow>
     \<exists>mk' u'. fold (\<lambda>a. uri_exec str a p) acts (Inr (mk, u)) = Inr (mk', u') \<and> (mk' \<noteq> None) = m"
proof (induction acts arbitrary: mk u)
  case (Cons a as)
  have step: "\<exists>mk1 u1. uri_act str a p mk u = Inr (mk1, u1) \<and> mark_after (mk1 \<noteq> None) as = Some m"
    using Cons.prems by (cases a; cases mk) (auto simp: save_def marked_def split: if_splits)
  then obtain mk1 u1 where "uri_act str a p mk u = Inr (mk1, u1)" "mark_after (mk1 \<noteq> None) as = Some m" by blast
  then show ?case using Cons.IH by simp
qed auto

lemma mark_after_mono:
  "mark_after b acts = Some m \<Longrightarrow> (b \<longrightarrow> b') \<Longrightarrow> \<exists>m'. mark_after b' acts = Some m' \<and> (m \<longrightarrow> m')"
  by (induction b acts arbitrary: b' rule: mark_after.induct) (auto split: if_splits)

text \<open>One character: the block of a state treats it as the check says.\<close>

lemma move_safe:
  assumes "0 < s" "s \<le> 560" "move uri_items False s c = (acts, n)" "n \<noteq> 0"
    and "port_state s \<longrightarrow> c \<notin> {CHR ''/'', CHR ''?'', CHR ''#''}"
  shows "(after_scheme n \<longrightarrow> after_scheme s \<or> c = CHR '':'') \<and> (port_state n \<longrightarrow> after_scheme s \<and> c = CHR '':'') \<and>
    (\<exists>m. mark_after (\<not> no_mark s) acts = Some m \<and> (m \<or> no_mark n))"
proof -
  obtain wide rs where rs: "find_state s uri_items = Some (wide, rs)"
    using state_has_block [OF uri_closed assms(1,2)] by (cases "find_state s uri_items") auto
  then have "item_safe (St s wide rs)" using items_safe find_state_Some [OF rs] by (auto simp: list_all_iff)
  then have wide: "\<not> wide" and safe: "\<forall>e \<in> set rs. entry_safe s e" by (auto simp: item_safe_def list_all_iff)
  have l: "follow uri_items (find_label rs (schar c)) = (acts, n)"
    using assms(3) rs wide by (simp add: move_def next_label_def)
  then obtain lo hi where e: "(lo, hi, find_label rs (schar c)) \<in> set rs" "lo \<le> schar c" "schar c \<le> hi"
    using find_label_range [of rs "schar c"] assms(4) by (auto simp: follow_def)
  have codes: "schar c = 58 \<longrightarrow> c = CHR '':''" "schar c = 35 \<longrightarrow> c = CHR ''#''" "schar c = 47 \<longrightarrow> c = CHR ''/''" "schar c = 63 \<longrightarrow> c = CHR ''?''"
    using schar_inj [of c "CHR '':''"] schar_inj [of c "CHR ''#''"] schar_inj [of c "CHR ''/''"] schar_inj [of c "CHR ''?''"]
    by (auto simp: schar_def)
  have "entry_safe s (lo, hi, find_label rs (schar c))" using safe e(1) by blast
  then have entry: "if after_scheme s then True else if after_scheme n then lo = 58 \<and> hi = 58 else True"
    "if port_state n then after_scheme s \<and> lo = 58 \<and> hi = 58 else True"
    "if port_state s \<and> lo = hi \<and> lo \<in> {35, 47, 63} then True
      else case mark_after (\<not> no_mark s) acts of None \<Rightarrow> False | Some m \<Rightarrow> if m then True else no_mark n"
    unfolding entry_safe_def prod.case l by blast+
  have colon: "lo = 58 \<and> hi = 58 \<longrightarrow> c = CHR '':''" using e(2,3) codes(1) by linarith
  have "\<not> (port_state s \<and> lo = hi \<and> lo \<in> {35, 47, 63})"
  proof
    assume port: "port_state s \<and> lo = hi \<and> lo \<in> {35, 47, 63}"
    then have "schar c = lo" using e(2,3) by linarith
    then show False using port codes assms(5) by auto
  qed
  then have "\<exists>m. mark_after (\<not> no_mark s) acts = Some m \<and> (m \<or> no_mark n)"
    using entry(3) by (auto split: option.splits if_splits)
  then show ?thesis using entry(1,2) colon by (auto split: if_splits)
qed

text \<open>A colon that is not the first and is the last character or is followed by a slash, a question mark or a hash.\<close>

fun empty_port :: "bool \<Rightarrow> string \<Rightarrow> bool" where
  "empty_port seen [] \<longleftrightarrow> False"
| "empty_port seen (c # cs) \<longleftrightarrow>
     (if c = CHR '':'' then seen \<and> (cs = [] \<or> hd cs \<in> {CHR ''/'', CHR ''?'', CHR ''#''}) \<or> empty_port True cs
      else empty_port seen cs)"

lemma run_safe:
  assumes "\<not> empty_port seen xs" "0 < s" "s \<le> 560" "no_mark s \<or> mk \<noteq> None" "after_scheme s \<longrightarrow> seen"
    and "port_state s \<longrightarrow> xs \<noteq> [] \<and> hd xs \<notin> {CHR ''/'', CHR ''?'', CHR ''#''}"
  shows "\<exists>s' p' mk' u'. run uri_items False uri_brk (uri_exec str) p xs s (Inr (mk, u)) = (s', p', Inr (mk', u')) \<and>
    (p' = p + length xs \<longrightarrow> (no_mark s' \<or> mk' \<noteq> None) \<and> \<not> port_state s')"
  using assms
proof (induction xs arbitrary: seen p s mk u)
  case Nil
  then show ?case by auto
next
  case (Cons c xs)
  obtain acts n where mv: "move uri_items False s c = (acts, n)" by (cases "move uri_items False s c")
  show ?case
  proof (cases "n = 0")
    case True
    have "acts = []"
      using move_error [OF uri_closed] mv True by blast
    then show ?thesis using mv True by (auto simp: Let_def)
  next
    case False
    have n: "(after_scheme n \<longrightarrow> after_scheme s \<or> c = CHR '':'')" "(port_state n \<longrightarrow> after_scheme s \<and> c = CHR '':'')"
      "\<exists>m. mark_after (\<not> no_mark s) acts = Some m \<and> (m \<or> no_mark n)"
      using move_safe [OF Cons.prems(2,3) mv False] Cons.prems(6) by auto
    have "n \<le> 560" using move_closed [OF uri_closed mv] .
    obtain m where m: "mark_after (mk \<noteq> None) acts = Some m" "m \<or> no_mark n"
      using n(3) Cons.prems(4) mark_after_mono [of "\<not> no_mark s" acts _ "mk \<noteq> None"] by blast
    obtain mk' u' where ex: "fold (\<lambda>a. uri_exec str a p) acts (Inr (mk, u)) = Inr (mk', u')" "(mk' \<noteq> None) = m"
      using mark_after_exec [OF m(1)] by blast
    have "\<exists>s' p' mk'' u''. run uri_items False uri_brk (uri_exec str) (Suc p) xs n (Inr (mk', u')) = (s', p', Inr (mk'', u'')) \<and>
      (p' = Suc p + length xs \<longrightarrow> (no_mark s' \<or> mk'' \<noteq> None) \<and> \<not> port_state s')"
      by (rule Cons.IH [of "seen \<or> c = CHR '':''"])
        (use Cons.prems n(1,2) m(2) ex(2) False \<open>n \<le> 560\<close> in \<open>auto split: if_splits\<close>)
    then show ?thesis using mv ex(1) False by (auto simp: Let_def)
  qed
qed

lemma Uri_Create_returns:
  assumes "\<not> empty_port False str"
  shows "\<exists>r. Uri_Create str = Inr r"
proof -
  obtain s p mk u where run: "run uri_items False uri_brk (uri_exec str) 0 str 451 (Inr (None, new_Uri)) = (s, p, Inr (mk, u))"
    and safe: "p = length str \<longrightarrow> (no_mark s \<or> mk \<noteq> None) \<and> \<not> port_state s"
    using run_safe [OF assms, of 451 None str 0 new_Uri] by (auto simp: no_mark_def after_scheme_def port_state_def)
  have "\<exists>mk' u'. (if p = length str then fold (\<lambda>a. uri_exec str a p) (uri_eof s) (Inr (mk, u)) else Inr (mk, u)) = Inr (mk', u')"
  proof (cases "p = length str")
    case True
    then obtain m where m: "mark_after (\<not> no_mark s) (uri_eof s) = Some m" using safe eof_safe [of s] by blast
    have "\<exists>m'. mark_after (mk \<noteq> None) (uri_eof s) = Some m'"
      using safe True mark_after_mono [OF m, of "mk \<noteq> None"] by blast
    then show ?thesis using True mark_after_exec by fastforce
  qed simp
  then show ?thesis using run by (auto simp: Uri_Create_def uri_run_def uri_parser_start_def)
qed

section \<open>Where the parser goes wrong\<close>

lemmas uri_eval = Uri_Create_def uri_run_def uri_parser_start_def uri_parser_error_def uri_parser_first_final_def uri_eof_def
  uri_move schar_def save_def marked_def new_Uri_def

text \<open>An empty port before a path: the path is read from a null pointer.\<close>

lemma Uri_Create_empty_port: "Uri_Create ''http://h:/x'' = Inl Undefined"
  by (simp add: uri_eval)

text \<open>A password that starts with a digit: the mark of the user moves to where a port could start.\<close>

lemma Uri_Create_numeric_password:
  "\<exists>u. Uri_Create ''http://u:80@h/'' = Inr (Some u) \<and> m_userinfo u = ''80'' \<and> m_host u = ''h''"
  by (simp add: uri_eval)

text \<open>A relative reference: its path is not stored.\<close>

lemma uri_relative_rows:
  "find_state 455 uri_items = Some (False, [(- 128, - 1, ST 455), (33, 33, ST 455), (35, 35, ST 453), (36,
    36, ST 455), (37, 37, ST 5), (38, 59, ST 455), (61, 61, ST 455), (63, 63, ST 456), (64, 90, ST 455),
    (95, 95, ST 455), (97, 122, ST 455), (126, 126, ST 455)])"
  "find_state 458 uri_items = Some (False, [(- 128, - 1, ST 455), (33, 33, ST 455), (35, 35, ST 453), (36,
    36, ST 455), (37, 37, ST 5), (38, 46, ST 455), (47, 47, ST 459), (48, 59, ST 455), (61, 61, ST 455),
    (63, 63, ST 456), (64, 90, ST 455), (95, 95, ST 455), (97, 122, ST 455), (126, 126, ST 455)])"
  by (simp_all add: uri_lookup, simp_all add: uri_items_chunks)

lemma Uri_Create_relative:
  "\<exists>u. Uri_Create ''/a?q'' = Inr (Some u) \<and> m_path u = [] \<and> uri_getPath u = ''/''"
  by (simp add: uri_eval uri_relative_rows uri_getPath_def)

end
