(* ===== verification/Httpclient_Machine.thy ===== *)
theory Httpclient_Machine
  imports Ragel
begin

text \<open>
  The state machine of the response parser, \<^verbatim>\<open>linko/http/httpclient_parser.rl.cc\<close>: its blocks in the order of the file.
\<close>

datatype response_action =
    R_mark
  | R_start_field
  | R_write_field
  | R_start_value
  | R_write_content_len
  | R_write_connection_close
  | R_write_value
  | R_reason_phrase
  | R_status_code
  | R_http_version
  | R_chunk_size
  | R_trans_chunked
  | R_done

definition httpclient_items_1 :: "response_action item list" where
  "httpclient_items_1 =
    [St 1 False [(48, 57, TR 0), (65, 70, TR 0), (72, 72, TR 2), (97, 102, TR 0)],
     Tr 0 [R_mark] 2,
     St 2 False [(10, 10, TR 3), (13, 13, TR 4), (48, 57, ST 2), (59, 59, TR 6), (65, 70, ST 2), (97, 102, ST 2)],
     Tr 3 [R_chunk_size, R_done] 120,
     Tr 7 [R_done] 120,
     Tr 9 [R_write_field, R_start_value, R_write_value, R_done] 120,
     Tr 15 [R_write_value, R_done] 120,
     Tr 74 [R_write_connection_close, R_done] 120,
     St 120 False [],
     Tr 4 [R_chunk_size] 3]"

definition httpclient_items_2 :: "response_action item list" where
  "httpclient_items_2 =
    [Tr 10 [R_write_field, R_start_value, R_write_value] 3,
     Tr 16 [R_write_value] 3,
     Tr 75 [R_write_connection_close] 3,
     St 3 False [(10, 10, TR 7)],
     Tr 6 [R_chunk_size] 4,
     Tr 12 [R_write_field, R_start_value, R_write_value] 4,
     Tr 18 [R_write_value] 4,
     St 4 False [(33, 33, TR 8), (35, 39, TR 8), (42, 43, TR 8), (45, 46, TR 8), (48, 57, TR 8), (65, 90, TR 8),
       (94, 122, TR 8), (124, 124, TR 8), (126, 126, TR 8)],
     Tr 8 [R_start_field] 5,
     St 5 False [(10, 10, TR 9), (13, 13, TR 10), (33, 33, ST 5), (35, 39, ST 5), (42, 43, ST 5), (45, 46, ST 5),
       (48, 57, ST 5), (59, 59, TR 12), (61, 61, TR 13), (65, 90, ST 5), (94, 122, ST 5), (124, 124, ST 5),
       (126, 126, ST 5)],
     Tr 13 [R_write_field, R_start_value] 6]"

definition httpclient_items_3 :: "response_action item list" where
  "httpclient_items_3 =
    [St 6 False [(33, 33, TR 14), (35, 39, TR 14), (42, 43, TR 14), (45, 46, TR 14), (48, 57, TR 14),
       (65, 90, TR 14), (94, 122, TR 14), (124, 124, TR 14), (126, 126, TR 14)],
     Tr 14 [R_start_value] 7,
     St 7 False [(10, 10, TR 15), (13, 13, TR 16), (33, 33, ST 7), (35, 39, ST 7), (42, 43, ST 7), (45, 46, ST 7),
       (48, 57, ST 7), (59, 59, TR 18), (65, 90, ST 7), (94, 122, ST 7), (124, 124, ST 7), (126, 126, ST 7)],
     Tr 2 [R_mark] 8,
     St 8 False [(84, 84, ST 9)],
     St 9 False [(84, 84, ST 10)],
     St 10 False [(80, 80, ST 11)],
     St 11 False [(47, 47, ST 12)],
     St 12 False [(48, 57, ST 13)],
     St 13 False [(46, 46, ST 14), (48, 57, ST 13)],
     St 14 False [(48, 57, ST 15)],
     St 15 False [(32, 32, TR 26), (48, 57, ST 15)],
     Tr 26 [R_http_version] 16,
     St 16 False [(48, 57, TR 27)],
     Tr 27 [R_mark] 17]"

definition httpclient_items_4 :: "response_action item list" where
  "httpclient_items_4 =
    [St 17 False [(32, 32, TR 28), (48, 57, ST 17)],
     Tr 28 [R_status_code] 18,
     St 18 False [(- 128, 9, TR 30), (11, 127, TR 30)],
     Tr 30 [R_mark] 19,
     St 19 False [(- 128, 9, ST 19), (10, 10, TR 32), (11, 12, ST 19), (13, 13, TR 33), (14, 127, ST 19)],
     Tr 45 [R_write_value] 20,
     Tr 32 [R_reason_phrase] 20,
     Tr 42 [R_start_value, R_write_value] 20,
     Tr 111 [R_write_value, R_trans_chunked] 20,
     Tr 113 [R_trans_chunked] 20,
     Tr 158 [R_write_content_len, R_write_value] 20,
     St 20 False [(10, 10, TR 7), (13, 13, ST 3), (33, 33, TR 35), (35, 39, TR 35), (42, 43, TR 35),
       (45, 46, TR 35), (48, 57, TR 35), (65, 66, TR 35), (67, 67, TR 36), (68, 83, TR 35), (84, 84, TR 37),
       (85, 90, TR 35), (94, 98, TR 35), (99, 99, TR 36), (100, 115, TR 35), (116, 116, TR 37), (117, 122, TR 35),
       (124, 124, TR 35), (126, 126, TR 35)],
     Tr 35 [R_start_field] 21,
     Tr 76 [R_write_connection_close, R_start_field] 21]"

definition httpclient_items_5 :: "response_action item list" where
  "httpclient_items_5 =
    [St 21 False [(33, 33, ST 21), (35, 39, ST 21), (42, 43, ST 21), (45, 46, ST 21), (48, 57, ST 21),
       (58, 58, TR 39), (65, 90, ST 21), (94, 122, ST 21), (124, 124, ST 21), (126, 126, ST 21)],
     Tr 41 [R_start_value] 22,
     Tr 39 [R_write_field] 22,
     St 22 False [(- 128, 8, TR 40), (9, 9, TR 41), (10, 10, TR 42), (11, 12, TR 41), (13, 13, TR 43),
       (14, 31, TR 40), (32, 32, TR 41), (33, 127, TR 40)],
     Tr 40 [R_start_value] 23,
     St 23 False [(- 128, 9, ST 23), (10, 10, TR 45), (11, 12, ST 23), (13, 13, TR 46), (14, 127, ST 23)],
     Tr 46 [R_write_value] 24,
     Tr 33 [R_reason_phrase] 24,
     Tr 43 [R_start_value, R_write_value] 24,
     Tr 159 [R_write_content_len, R_write_value] 24,
     St 24 False [(10, 10, ST 20)],
     Tr 36 [R_start_field] 25,
     Tr 77 [R_write_connection_close, R_start_field] 25]"

definition httpclient_items_6 :: "response_action item list" where
  "httpclient_items_6 =
    [St 25 False [(33, 33, ST 21), (35, 39, ST 21), (42, 43, ST 21), (45, 46, ST 21), (48, 57, ST 21),
       (58, 58, TR 39), (65, 78, ST 21), (79, 79, ST 26), (80, 90, ST 21), (94, 110, ST 21), (111, 111, ST 26),
       (112, 122, ST 21), (124, 124, ST 21), (126, 126, ST 21)],
     St 26 False [(33, 33, ST 21), (35, 39, ST 21), (42, 43, ST 21), (45, 46, ST 21), (48, 57, ST 21),
       (58, 58, TR 39), (65, 77, ST 21), (78, 78, ST 27), (79, 90, ST 21), (94, 109, ST 21), (110, 110, ST 27),
       (111, 122, ST 21), (124, 124, ST 21), (126, 126, ST 21)],
     St 27 False [(33, 33, ST 21), (35, 39, ST 21), (42, 43, ST 21), (45, 46, ST 21), (48, 57, ST 21),
       (58, 58, TR 39), (65, 77, ST 21), (78, 78, ST 28), (79, 83, ST 21), (84, 84, ST 101), (85, 90, ST 21),
       (94, 109, ST 21), (110, 110, ST 28), (111, 115, ST 21), (116, 116, ST 101), (117, 122, ST 21),
       (124, 124, ST 21), (126, 126, ST 21)],
     St 28 False [(33, 33, ST 21), (35, 39, ST 21), (42, 43, ST 21), (45, 46, ST 21), (48, 57, ST 21),
       (58, 58, TR 39), (65, 68, ST 21), (69, 69, ST 29), (70, 90, ST 21), (94, 100, ST 21), (101, 101, ST 29),
       (102, 122, ST 21), (124, 124, ST 21), (126, 126, ST 21)]]"

definition httpclient_items_7 :: "response_action item list" where
  "httpclient_items_7 =
    [St 29 False [(33, 33, ST 21), (35, 39, ST 21), (42, 43, ST 21), (45, 46, ST 21), (48, 57, ST 21),
       (58, 58, TR 39), (65, 66, ST 21), (67, 67, ST 30), (68, 90, ST 21), (94, 98, ST 21), (99, 99, ST 30),
       (100, 122, ST 21), (124, 124, ST 21), (126, 126, ST 21)],
     St 30 False [(33, 33, ST 21), (35, 39, ST 21), (42, 43, ST 21), (45, 46, ST 21), (48, 57, ST 21),
       (58, 58, TR 39), (65, 83, ST 21), (84, 84, ST 31), (85, 90, ST 21), (94, 115, ST 21), (116, 116, ST 31),
       (117, 122, ST 21), (124, 124, ST 21), (126, 126, ST 21)],
     St 31 False [(33, 33, ST 21), (35, 39, ST 21), (42, 43, ST 21), (45, 46, ST 21), (48, 57, ST 21),
       (58, 58, TR 39), (65, 72, ST 21), (73, 73, ST 32), (74, 90, ST 21), (94, 104, ST 21), (105, 105, ST 32),
       (106, 122, ST 21), (124, 124, ST 21), (126, 126, ST 21)],
     St 32 False [(33, 33, ST 21), (35, 39, ST 21), (42, 43, ST 21), (45, 46, ST 21), (48, 57, ST 21),
       (58, 58, TR 39), (65, 78, ST 21), (79, 79, ST 33), (80, 90, ST 21), (94, 110, ST 21), (111, 111, ST 33),
       (112, 122, ST 21), (124, 124, ST 21), (126, 126, ST 21)],
     St 33 False [(33, 33, ST 21), (35, 39, ST 21), (42, 43, ST 21), (45, 46, ST 21), (48, 57, ST 21),
       (58, 58, TR 39), (65, 77, ST 21), (78, 78, ST 34), (79, 90, ST 21), (94, 109, ST 21), (110, 110, ST 34),
       (111, 122, ST 21), (124, 124, ST 21), (126, 126, ST 21)]]"

definition httpclient_items_8 :: "response_action item list" where
  "httpclient_items_8 =
    [St 34 False [(33, 33, ST 21), (35, 39, ST 21), (42, 43, ST 21), (45, 46, ST 21), (48, 57, ST 21),
       (58, 58, TR 58), (65, 90, ST 21), (94, 122, ST 21), (124, 124, ST 21), (126, 126, ST 21)],
     Tr 59 [R_start_value] 35,
     Tr 58 [R_write_field] 35,
     St 35 False [(- 128, 8, TR 40), (9, 9, TR 59), (10, 10, TR 60), (11, 12, TR 59), (13, 13, TR 61),
       (14, 31, TR 40), (32, 32, TR 59), (33, 66, TR 40), (67, 67, TR 62), (68, 98, TR 40), (99, 99, TR 62),
       (100, 127, TR 40)],
     Tr 60 [R_start_value, R_write_value] 36,
     St 36 False [(9, 9, ST 37), (10, 10, TR 64), (11, 12, ST 37), (13, 13, ST 89), (32, 32, ST 37),
       (33, 33, TR 35), (35, 39, TR 35), (42, 43, TR 35), (45, 46, TR 35), (48, 57, TR 35), (65, 66, TR 35),
       (67, 67, TR 66), (68, 83, TR 35), (84, 84, TR 37), (85, 90, TR 35), (94, 98, TR 35), (99, 99, TR 66),
       (100, 115, TR 35), (116, 116, TR 37), (117, 122, TR 35), (124, 124, TR 35), (126, 126, TR 35)],
     St 37 False [(9, 13, ST 37), (32, 32, ST 37), (67, 67, ST 38), (99, 99, ST 38)],
     St 38 False [(76, 76, ST 39), (108, 108, ST 39)],
     St 39 False [(79, 79, ST 40), (111, 111, ST 40)],
     St 40 False [(83, 83, ST 41), (115, 115, ST 41)],
     St 41 False [(69, 69, ST 42), (101, 101, ST 42)]]"

definition httpclient_items_9 :: "response_action item list" where
  "httpclient_items_9 =
    [St 42 False [(10, 10, ST 43), (13, 13, ST 88)],
     Tr 136 [R_write_value] 43,
     St 43 False [(10, 10, TR 74), (13, 13, TR 75), (33, 33, TR 76), (35, 39, TR 76), (42, 43, TR 76),
       (45, 46, TR 76), (48, 57, TR 76), (65, 66, TR 76), (67, 67, TR 77), (68, 83, TR 76), (84, 84, TR 78),
       (85, 90, TR 76), (94, 98, TR 76), (99, 99, TR 77), (100, 115, TR 76), (116, 116, TR 78), (117, 122, TR 76),
       (124, 124, TR 76), (126, 126, TR 76)],
     Tr 37 [R_start_field] 44,
     Tr 78 [R_write_connection_close, R_start_field] 44,
     St 44 False [(33, 33, ST 21), (35, 39, ST 21), (42, 43, ST 21), (45, 46, ST 21), (48, 57, ST 21),
       (58, 58, TR 39), (65, 81, ST 21), (82, 82, ST 45), (83, 90, ST 21), (94, 113, ST 21), (114, 114, ST 45),
       (115, 122, ST 21), (124, 124, ST 21), (126, 126, ST 21)],
     St 45 False [(33, 33, ST 21), (35, 39, ST 21), (42, 43, ST 21), (45, 46, ST 21), (48, 57, ST 21),
       (58, 58, TR 39), (65, 65, ST 46), (66, 90, ST 21), (94, 96, ST 21), (97, 97, ST 46), (98, 122, ST 21),
       (124, 124, ST 21), (126, 126, ST 21)]]"

definition httpclient_items_10 :: "response_action item list" where
  "httpclient_items_10 =
    [St 46 False [(33, 33, ST 21), (35, 39, ST 21), (42, 43, ST 21), (45, 46, ST 21), (48, 57, ST 21),
       (58, 58, TR 39), (65, 77, ST 21), (78, 78, ST 47), (79, 90, ST 21), (94, 109, ST 21), (110, 110, ST 47),
       (111, 122, ST 21), (124, 124, ST 21), (126, 126, ST 21)],
     St 47 False [(33, 33, ST 21), (35, 39, ST 21), (42, 43, ST 21), (45, 46, ST 21), (48, 57, ST 21),
       (58, 58, TR 39), (65, 82, ST 21), (83, 83, ST 48), (84, 90, ST 21), (94, 114, ST 21), (115, 115, ST 48),
       (116, 122, ST 21), (124, 124, ST 21), (126, 126, ST 21)],
     St 48 False [(33, 33, ST 21), (35, 39, ST 21), (42, 43, ST 21), (45, 46, ST 21), (48, 57, ST 21),
       (58, 58, TR 39), (65, 69, ST 21), (70, 70, ST 49), (71, 90, ST 21), (94, 101, ST 21), (102, 102, ST 49),
       (103, 122, ST 21), (124, 124, ST 21), (126, 126, ST 21)],
     St 49 False [(33, 33, ST 21), (35, 39, ST 21), (42, 43, ST 21), (45, 46, ST 21), (48, 57, ST 21),
       (58, 58, TR 39), (65, 68, ST 21), (69, 69, ST 50), (70, 90, ST 21), (94, 100, ST 21), (101, 101, ST 50),
       (102, 122, ST 21), (124, 124, ST 21), (126, 126, ST 21)],
     St 50 False [(33, 33, ST 21), (35, 39, ST 21), (42, 43, ST 21), (45, 46, ST 21), (48, 57, ST 21),
       (58, 58, TR 39), (65, 81, ST 21), (82, 82, ST 51), (83, 90, ST 21), (94, 113, ST 21), (114, 114, ST 51),
       (115, 122, ST 21), (124, 124, ST 21), (126, 126, ST 21)]]"

definition httpclient_items_11 :: "response_action item list" where
  "httpclient_items_11 =
    [St 51 False [(33, 33, ST 21), (35, 39, ST 21), (42, 43, ST 21), (45, 45, ST 52), (46, 46, ST 21),
       (48, 57, ST 21), (58, 58, TR 39), (65, 90, ST 21), (94, 122, ST 21), (124, 124, ST 21), (126, 126, ST 21)],
     St 52 False [(33, 33, ST 21), (35, 39, ST 21), (42, 43, ST 21), (45, 46, ST 21), (48, 57, ST 21),
       (58, 58, TR 39), (65, 68, ST 21), (69, 69, ST 53), (70, 90, ST 21), (94, 100, ST 21), (101, 101, ST 53),
       (102, 122, ST 21), (124, 124, ST 21), (126, 126, ST 21)],
     St 53 False [(33, 33, ST 21), (35, 39, ST 21), (42, 43, ST 21), (45, 46, ST 21), (48, 57, ST 21),
       (58, 58, TR 39), (65, 77, ST 21), (78, 78, ST 54), (79, 90, ST 21), (94, 109, ST 21), (110, 110, ST 54),
       (111, 122, ST 21), (124, 124, ST 21), (126, 126, ST 21)],
     St 54 False [(33, 33, ST 21), (35, 39, ST 21), (42, 43, ST 21), (45, 46, ST 21), (48, 57, ST 21),
       (58, 58, TR 39), (65, 66, ST 21), (67, 67, ST 55), (68, 90, ST 21), (94, 98, ST 21), (99, 99, ST 55),
       (100, 122, ST 21), (124, 124, ST 21), (126, 126, ST 21)],
     St 55 False [(33, 33, ST 21), (35, 39, ST 21), (42, 43, ST 21), (45, 46, ST 21), (48, 57, ST 21),
       (58, 58, TR 39), (65, 78, ST 21), (79, 79, ST 56), (80, 90, ST 21), (94, 110, ST 21), (111, 111, ST 56),
       (112, 122, ST 21), (124, 124, ST 21), (126, 126, ST 21)]]"

definition httpclient_items_12 :: "response_action item list" where
  "httpclient_items_12 =
    [St 56 False [(33, 33, ST 21), (35, 39, ST 21), (42, 43, ST 21), (45, 46, ST 21), (48, 57, ST 21),
       (58, 58, TR 39), (65, 67, ST 21), (68, 68, ST 57), (69, 90, ST 21), (94, 99, ST 21), (100, 100, ST 57),
       (101, 122, ST 21), (124, 124, ST 21), (126, 126, ST 21)],
     St 57 False [(33, 33, ST 21), (35, 39, ST 21), (42, 43, ST 21), (45, 46, ST 21), (48, 57, ST 21),
       (58, 58, TR 39), (65, 72, ST 21), (73, 73, ST 58), (74, 90, ST 21), (94, 104, ST 21), (105, 105, ST 58),
       (106, 122, ST 21), (124, 124, ST 21), (126, 126, ST 21)],
     St 58 False [(33, 33, ST 21), (35, 39, ST 21), (42, 43, ST 21), (45, 46, ST 21), (48, 57, ST 21),
       (58, 58, TR 39), (65, 77, ST 21), (78, 78, ST 59), (79, 90, ST 21), (94, 109, ST 21), (110, 110, ST 59),
       (111, 122, ST 21), (124, 124, ST 21), (126, 126, ST 21)],
     St 59 False [(33, 33, ST 21), (35, 39, ST 21), (42, 43, ST 21), (45, 46, ST 21), (48, 57, ST 21),
       (58, 58, TR 39), (65, 70, ST 21), (71, 71, ST 60), (72, 90, ST 21), (94, 102, ST 21), (103, 103, ST 60),
       (104, 122, ST 21), (124, 124, ST 21), (126, 126, ST 21)],
     St 60 False [(33, 33, ST 21), (35, 39, ST 21), (42, 43, ST 21), (45, 46, ST 21), (48, 57, ST 21),
       (58, 58, TR 95), (65, 90, ST 21), (94, 122, ST 21), (124, 124, ST 21), (126, 126, ST 21)]]"

definition httpclient_items_13 :: "response_action item list" where
  "httpclient_items_13 =
    [Tr 96 [R_start_value] 61,
     Tr 95 [R_write_field] 61,
     St 61 False [(- 128, 8, TR 40), (9, 9, TR 96), (10, 10, TR 97), (11, 12, TR 96), (13, 13, TR 98),
       (14, 31, TR 40), (32, 32, TR 96), (33, 66, TR 40), (67, 67, TR 99), (68, 98, TR 40), (99, 99, TR 99),
       (100, 127, TR 40)],
     Tr 97 [R_start_value, R_write_value] 62,
     St 62 False [(9, 9, ST 63), (10, 10, TR 101), (11, 12, ST 63), (13, 13, ST 72), (32, 32, ST 63),
       (33, 33, TR 35), (35, 39, TR 35), (42, 43, TR 35), (45, 46, TR 35), (48, 57, TR 35), (65, 66, TR 35),
       (67, 67, TR 103), (68, 83, TR 35), (84, 84, TR 37), (85, 90, TR 35), (94, 98, TR 35), (99, 99, TR 103),
       (100, 115, TR 35), (116, 116, TR 37), (117, 122, TR 35), (124, 124, TR 35), (126, 126, TR 35)],
     St 63 False [(9, 13, ST 63), (32, 32, ST 63), (67, 67, TR 104), (99, 99, TR 104)],
     Tr 104 [R_start_value] 64,
     St 64 False [(72, 72, ST 65), (104, 104, ST 65)],
     St 65 False [(85, 85, ST 66), (117, 117, ST 66)],
     St 66 False [(78, 78, ST 67), (110, 110, ST 67)],
     St 67 False [(75, 75, ST 68), (107, 107, ST 68)],
     St 68 False [(69, 69, ST 69), (101, 101, ST 69)],
     St 69 False [(68, 68, ST 70), (100, 100, ST 70)]]"

definition httpclient_items_14 :: "response_action item list" where
  "httpclient_items_14 =
    [St 70 False [(10, 10, TR 111), (13, 13, TR 112)],
     Tr 112 [R_write_value] 71,
     St 71 False [(10, 10, TR 113)],
     Tr 101 [R_done] 121,
     St 121 False [(9, 13, ST 63), (32, 32, ST 63), (67, 67, TR 104), (99, 99, TR 104)],
     St 72 False [(9, 9, ST 63), (10, 10, TR 101), (11, 13, ST 63), (32, 32, ST 63), (67, 67, TR 104),
       (99, 99, TR 104)],
     Tr 103 [R_start_value, R_start_field] 73,
     St 73 False [(33, 33, ST 21), (35, 39, ST 21), (42, 43, ST 21), (45, 46, ST 21), (48, 57, ST 21),
       (58, 58, TR 39), (65, 71, ST 21), (72, 72, ST 74), (73, 78, ST 21), (79, 79, ST 26), (80, 90, ST 21),
       (94, 103, ST 21), (104, 104, ST 74), (105, 110, ST 21), (111, 111, ST 26), (112, 122, ST 21),
       (124, 124, ST 21), (126, 126, ST 21)],
     St 74 False [(33, 33, ST 21), (35, 39, ST 21), (42, 43, ST 21), (45, 46, ST 21), (48, 57, ST 21),
       (58, 58, TR 39), (65, 84, ST 21), (85, 85, ST 75), (86, 90, ST 21), (94, 116, ST 21), (117, 117, ST 75),
       (118, 122, ST 21), (124, 124, ST 21), (126, 126, ST 21)]]"

definition httpclient_items_15 :: "response_action item list" where
  "httpclient_items_15 =
    [St 75 False [(33, 33, ST 21), (35, 39, ST 21), (42, 43, ST 21), (45, 46, ST 21), (48, 57, ST 21),
       (58, 58, TR 39), (65, 77, ST 21), (78, 78, ST 76), (79, 90, ST 21), (94, 109, ST 21), (110, 110, ST 76),
       (111, 122, ST 21), (124, 124, ST 21), (126, 126, ST 21)],
     St 76 False [(33, 33, ST 21), (35, 39, ST 21), (42, 43, ST 21), (45, 46, ST 21), (48, 57, ST 21),
       (58, 58, TR 39), (65, 74, ST 21), (75, 75, ST 77), (76, 90, ST 21), (94, 106, ST 21), (107, 107, ST 77),
       (108, 122, ST 21), (124, 124, ST 21), (126, 126, ST 21)],
     St 77 False [(33, 33, ST 21), (35, 39, ST 21), (42, 43, ST 21), (45, 46, ST 21), (48, 57, ST 21),
       (58, 58, TR 39), (65, 68, ST 21), (69, 69, ST 78), (70, 90, ST 21), (94, 100, ST 21), (101, 101, ST 78),
       (102, 122, ST 21), (124, 124, ST 21), (126, 126, ST 21)],
     St 78 False [(33, 33, ST 21), (35, 39, ST 21), (42, 43, ST 21), (45, 46, ST 21), (48, 57, ST 21),
       (58, 58, TR 39), (65, 67, ST 21), (68, 68, ST 79), (69, 90, ST 21), (94, 99, ST 21), (100, 100, ST 79),
       (101, 122, ST 21), (124, 124, ST 21), (126, 126, ST 21)],
     St 79 False [(10, 10, TR 111), (13, 13, TR 112), (33, 33, ST 21), (35, 39, ST 21), (42, 43, ST 21),
       (45, 46, ST 21), (48, 57, ST 21), (58, 58, TR 39), (65, 90, ST 21), (94, 122, ST 21), (124, 124, ST 21),
       (126, 126, ST 21)]]"

definition httpclient_items_16 :: "response_action item list" where
  "httpclient_items_16 =
    [Tr 98 [R_start_value, R_write_value] 80,
     St 80 False [(9, 9, ST 63), (10, 10, ST 62), (11, 13, ST 63), (32, 32, ST 63), (67, 67, TR 104),
       (99, 99, TR 104)],
     Tr 99 [R_start_value] 81,
     St 81 False [(- 128, 9, ST 23), (10, 10, TR 45), (11, 12, ST 23), (13, 13, TR 46), (14, 71, ST 23),
       (72, 72, ST 82), (73, 103, ST 23), (104, 104, ST 82), (105, 127, ST 23)],
     St 82 False [(- 128, 9, ST 23), (10, 10, TR 45), (11, 12, ST 23), (13, 13, TR 46), (14, 84, ST 23),
       (85, 85, ST 83), (86, 116, ST 23), (117, 117, ST 83), (118, 127, ST 23)],
     St 83 False [(- 128, 9, ST 23), (10, 10, TR 45), (11, 12, ST 23), (13, 13, TR 46), (14, 77, ST 23),
       (78, 78, ST 84), (79, 109, ST 23), (110, 110, ST 84), (111, 127, ST 23)],
     St 84 False [(- 128, 9, ST 23), (10, 10, TR 45), (11, 12, ST 23), (13, 13, TR 46), (14, 74, ST 23),
       (75, 75, ST 85), (76, 106, ST 23), (107, 107, ST 85), (108, 127, ST 23)],
     St 85 False [(- 128, 9, ST 23), (10, 10, TR 45), (11, 12, ST 23), (13, 13, TR 46), (14, 68, ST 23),
       (69, 69, ST 86), (70, 100, ST 23), (101, 101, ST 86), (102, 127, ST 23)],
     St 86 False [(- 128, 9, ST 23), (10, 10, TR 45), (11, 12, ST 23), (13, 13, TR 46), (14, 67, ST 23),
       (68, 68, ST 87), (69, 99, ST 23), (100, 100, ST 87), (101, 127, ST 23)],
     St 87 False [(- 128, 9, ST 23), (10, 10, TR 111), (11, 12, ST 23), (13, 13, TR 112), (14, 127, ST 23)],
     Tr 137 [R_write_value] 88,
     St 88 False [(10, 10, ST 43)],
     Tr 64 [R_done] 122,
     St 122 False [(9, 13, ST 37), (32, 32, ST 37), (67, 67, ST 38), (99, 99, ST 38)]]"

definition httpclient_items_17 :: "response_action item list" where
  "httpclient_items_17 =
    [St 89 False [(9, 9, ST 37), (10, 10, TR 64), (11, 13, ST 37), (32, 32, ST 37), (67, 67, ST 38),
       (99, 99, ST 38)],
     Tr 66 [R_start_field] 90,
     St 90 False [(33, 33, ST 21), (35, 39, ST 21), (42, 43, ST 21), (45, 46, ST 21), (48, 57, ST 21),
       (58, 58, TR 39), (65, 75, ST 21), (76, 76, ST 91), (77, 78, ST 21), (79, 79, ST 26), (80, 90, ST 21),
       (94, 107, ST 21), (108, 108, ST 91), (109, 110, ST 21), (111, 111, ST 26), (112, 122, ST 21),
       (124, 124, ST 21), (126, 126, ST 21)],
     St 91 False [(33, 33, ST 21), (35, 39, ST 21), (42, 43, ST 21), (45, 46, ST 21), (48, 57, ST 21),
       (58, 58, TR 39), (65, 78, ST 21), (79, 79, ST 92), (80, 90, ST 21), (94, 110, ST 21), (111, 111, ST 92),
       (112, 122, ST 21), (124, 124, ST 21), (126, 126, ST 21)],
     St 92 False [(33, 33, ST 21), (35, 39, ST 21), (42, 43, ST 21), (45, 46, ST 21), (48, 57, ST 21),
       (58, 58, TR 39), (65, 82, ST 21), (83, 83, ST 93), (84, 90, ST 21), (94, 114, ST 21), (115, 115, ST 93),
       (116, 122, ST 21), (124, 124, ST 21), (126, 126, ST 21)],
     St 93 False [(33, 33, ST 21), (35, 39, ST 21), (42, 43, ST 21), (45, 46, ST 21), (48, 57, ST 21),
       (58, 58, TR 39), (65, 68, ST 21), (69, 69, ST 94), (70, 90, ST 21), (94, 100, ST 21), (101, 101, ST 94),
       (102, 122, ST 21), (124, 124, ST 21), (126, 126, ST 21)]]"

definition httpclient_items_18 :: "response_action item list" where
  "httpclient_items_18 =
    [St 94 False [(10, 10, ST 43), (13, 13, ST 88), (33, 33, ST 21), (35, 39, ST 21), (42, 43, ST 21),
       (45, 46, ST 21), (48, 57, ST 21), (58, 58, TR 39), (65, 90, ST 21), (94, 122, ST 21), (124, 124, ST 21),
       (126, 126, ST 21)],
     Tr 61 [R_start_value, R_write_value] 95,
     St 95 False [(9, 9, ST 37), (10, 10, ST 36), (11, 13, ST 37), (32, 32, ST 37), (67, 67, ST 38),
       (99, 99, ST 38)],
     Tr 62 [R_start_value] 96,
     St 96 False [(- 128, 9, ST 23), (10, 10, TR 45), (11, 12, ST 23), (13, 13, TR 46), (14, 75, ST 23),
       (76, 76, ST 97), (77, 107, ST 23), (108, 108, ST 97), (109, 127, ST 23)],
     St 97 False [(- 128, 9, ST 23), (10, 10, TR 45), (11, 12, ST 23), (13, 13, TR 46), (14, 78, ST 23),
       (79, 79, ST 98), (80, 110, ST 23), (111, 111, ST 98), (112, 127, ST 23)],
     St 98 False [(- 128, 9, ST 23), (10, 10, TR 45), (11, 12, ST 23), (13, 13, TR 46), (14, 82, ST 23),
       (83, 83, ST 99), (84, 114, ST 23), (115, 115, ST 99), (116, 127, ST 23)],
     St 99 False [(- 128, 9, ST 23), (10, 10, TR 45), (11, 12, ST 23), (13, 13, TR 46), (14, 68, ST 23),
       (69, 69, ST 100), (70, 100, ST 23), (101, 101, ST 100), (102, 127, ST 23)],
     St 100 False [(- 128, 9, ST 23), (10, 10, TR 136), (11, 12, ST 23), (13, 13, TR 137), (14, 127, ST 23)],
     St 101 False [(33, 33, ST 21), (35, 39, ST 21), (42, 43, ST 21), (45, 46, ST 21), (48, 57, ST 21),
       (58, 58, TR 39), (65, 68, ST 21), (69, 69, ST 102), (70, 90, ST 21), (94, 100, ST 21), (101, 101, ST 102),
       (102, 122, ST 21), (124, 124, ST 21), (126, 126, ST 21)]]"

definition httpclient_items_19 :: "response_action item list" where
  "httpclient_items_19 =
    [St 102 False [(33, 33, ST 21), (35, 39, ST 21), (42, 43, ST 21), (45, 46, ST 21), (48, 57, ST 21),
       (58, 58, TR 39), (65, 77, ST 21), (78, 78, ST 103), (79, 90, ST 21), (94, 109, ST 21), (110, 110, ST 103),
       (111, 122, ST 21), (124, 124, ST 21), (126, 126, ST 21)],
     St 103 False [(33, 33, ST 21), (35, 39, ST 21), (42, 43, ST 21), (45, 46, ST 21), (48, 57, ST 21),
       (58, 58, TR 39), (65, 83, ST 21), (84, 84, ST 104), (85, 90, ST 21), (94, 115, ST 21), (116, 116, ST 104),
       (117, 122, ST 21), (124, 124, ST 21), (126, 126, ST 21)],
     St 104 False [(33, 33, ST 21), (35, 39, ST 21), (42, 43, ST 21), (45, 45, ST 105), (46, 46, ST 21),
       (48, 57, ST 21), (58, 58, TR 39), (65, 90, ST 21), (94, 122, ST 21), (124, 124, ST 21), (126, 126, ST 21)],
     St 105 False [(33, 33, ST 21), (35, 39, ST 21), (42, 43, ST 21), (45, 46, ST 21), (48, 57, ST 21),
       (58, 58, TR 39), (65, 75, ST 21), (76, 76, ST 106), (77, 90, ST 21), (94, 107, ST 21), (108, 108, ST 106),
       (109, 122, ST 21), (124, 124, ST 21), (126, 126, ST 21)],
     St 106 False [(33, 33, ST 21), (35, 39, ST 21), (42, 43, ST 21), (45, 46, ST 21), (48, 57, ST 21),
       (58, 58, TR 39), (65, 68, ST 21), (69, 69, ST 107), (70, 90, ST 21), (94, 100, ST 21), (101, 101, ST 107),
       (102, 122, ST 21), (124, 124, ST 21), (126, 126, ST 21)]]"

definition httpclient_items_20 :: "response_action item list" where
  "httpclient_items_20 =
    [St 107 False [(33, 33, ST 21), (35, 39, ST 21), (42, 43, ST 21), (45, 46, ST 21), (48, 57, ST 21),
       (58, 58, TR 39), (65, 77, ST 21), (78, 78, ST 108), (79, 90, ST 21), (94, 109, ST 21), (110, 110, ST 108),
       (111, 122, ST 21), (124, 124, ST 21), (126, 126, ST 21)],
     St 108 False [(33, 33, ST 21), (35, 39, ST 21), (42, 43, ST 21), (45, 46, ST 21), (48, 57, ST 21),
       (58, 58, TR 39), (65, 70, ST 21), (71, 71, ST 109), (72, 90, ST 21), (94, 102, ST 21), (103, 103, ST 109),
       (104, 122, ST 21), (124, 124, ST 21), (126, 126, ST 21)],
     St 109 False [(33, 33, ST 21), (35, 39, ST 21), (42, 43, ST 21), (45, 46, ST 21), (48, 57, ST 21),
       (58, 58, TR 39), (65, 83, ST 21), (84, 84, ST 110), (85, 90, ST 21), (94, 115, ST 21), (116, 116, ST 110),
       (117, 122, ST 21), (124, 124, ST 21), (126, 126, ST 21)],
     St 110 False [(33, 33, ST 21), (35, 39, ST 21), (42, 43, ST 21), (45, 46, ST 21), (48, 57, ST 21),
       (58, 58, TR 39), (65, 71, ST 21), (72, 72, ST 111), (73, 90, ST 21), (94, 103, ST 21), (104, 104, ST 111),
       (105, 122, ST 21), (124, 124, ST 21), (126, 126, ST 21)],
     St 111 False [(33, 33, ST 21), (35, 39, ST 21), (42, 43, ST 21), (45, 46, ST 21), (48, 57, ST 21),
       (58, 58, TR 148), (65, 90, ST 21), (94, 122, ST 21), (124, 124, ST 21), (126, 126, ST 21)]]"

definition httpclient_items_21 :: "response_action item list" where
  "httpclient_items_21 =
    [Tr 149 [R_start_value] 112,
     Tr 148 [R_write_field] 112,
     St 112 False [(- 128, 8, TR 40), (9, 9, TR 149), (10, 10, TR 150), (11, 12, TR 149), (13, 13, TR 151),
       (14, 31, TR 40), (32, 32, TR 149), (33, 47, TR 40), (48, 57, TR 152), (58, 127, TR 40)],
     Tr 150 [R_start_value, R_write_value] 113,
     St 113 False [(9, 9, ST 114), (10, 10, TR 154), (11, 12, ST 114), (13, 13, ST 116), (32, 32, ST 114),
       (33, 33, TR 35), (35, 39, TR 35), (42, 43, TR 35), (45, 46, TR 35), (48, 57, TR 156), (65, 66, TR 35),
       (67, 67, TR 36), (68, 83, TR 35), (84, 84, TR 37), (85, 90, TR 35), (94, 98, TR 35), (99, 99, TR 36),
       (100, 115, TR 35), (116, 116, TR 37), (117, 122, TR 35), (124, 124, TR 35), (126, 126, TR 35)],
     St 114 False [(9, 13, ST 114), (32, 32, ST 114), (48, 57, TR 157)],
     Tr 157 [R_start_value] 115,
     St 115 False [(10, 10, TR 158), (13, 13, TR 159), (48, 57, ST 115)],
     Tr 154 [R_done] 123,
     St 123 False [(9, 13, ST 114), (32, 32, ST 114), (48, 57, TR 157)],
     St 116 False [(9, 9, ST 114), (10, 10, TR 154), (11, 13, ST 114), (32, 32, ST 114), (48, 57, TR 157)],
     Tr 156 [R_start_value, R_start_field] 117]"

definition httpclient_items_22 :: "response_action item list" where
  "httpclient_items_22 =
    [St 117 False [(10, 10, TR 158), (13, 13, TR 159), (33, 33, ST 21), (35, 39, ST 21), (42, 43, ST 21),
       (45, 46, ST 21), (48, 57, ST 117), (58, 58, TR 39), (65, 90, ST 21), (94, 122, ST 21), (124, 124, ST 21),
       (126, 126, ST 21)],
     Tr 151 [R_start_value, R_write_value] 118,
     St 118 False [(9, 9, ST 114), (10, 10, ST 113), (11, 13, ST 114), (32, 32, ST 114), (48, 57, TR 157)],
     Tr 152 [R_start_value] 119,
     St 119 False [(- 128, 9, ST 23), (10, 10, TR 158), (11, 12, ST 23), (13, 13, TR 159), (14, 47, ST 23),
       (48, 57, ST 119), (58, 127, ST 23)]]"

definition httpclient_items :: "response_action item list" where
  "httpclient_items = httpclient_items_1 @ httpclient_items_2 @ httpclient_items_3 @ httpclient_items_4 @
     httpclient_items_5 @ httpclient_items_6 @ httpclient_items_7 @ httpclient_items_8 @ httpclient_items_9 @
     httpclient_items_10 @ httpclient_items_11 @ httpclient_items_12 @ httpclient_items_13 @
     httpclient_items_14 @ httpclient_items_15 @ httpclient_items_16 @ httpclient_items_17 @
     httpclient_items_18 @ httpclient_items_19 @ httpclient_items_20 @ httpclient_items_21 @
     httpclient_items_22"

lemmas httpclient_items_chunks = httpclient_items_1_def httpclient_items_2_def httpclient_items_3_def httpclient_items_4_def httpclient_items_5_def httpclient_items_6_def httpclient_items_7_def httpclient_items_8_def
  httpclient_items_9_def httpclient_items_10_def httpclient_items_11_def httpclient_items_12_def httpclient_items_13_def httpclient_items_14_def httpclient_items_15_def httpclient_items_16_def
  httpclient_items_17_def httpclient_items_18_def httpclient_items_19_def httpclient_items_20_def httpclient_items_21_def httpclient_items_22_def

section \<open>Its labels\<close>

text \<open>The states and transitions of each part; every jump leads to one of them.\<close>

lemma httpclient_states:
  "state_numbers httpclient_items_1 = [1, 2, 120]"
  "state_numbers httpclient_items_2 = [3, 4, 5]"
  "state_numbers httpclient_items_3 = [6, 7, 8, 9, 10, 11, 12, 13, 14, 15, 16]"
  "state_numbers httpclient_items_4 = [17, 18, 19, 20]"
  "state_numbers httpclient_items_5 = [21, 22, 23, 24]"
  "state_numbers httpclient_items_6 = [25, 26, 27, 28]"
  "state_numbers httpclient_items_7 = [29, 30, 31, 32, 33]"
  "state_numbers httpclient_items_8 = [34, 35, 36, 37, 38, 39, 40, 41]"
  "state_numbers httpclient_items_9 = [42, 43, 44, 45]"
  "state_numbers httpclient_items_10 = [46, 47, 48, 49, 50]"
  "state_numbers httpclient_items_11 = [51, 52, 53, 54, 55]"
  "state_numbers httpclient_items_12 = [56, 57, 58, 59, 60]"
  "state_numbers httpclient_items_13 = [61, 62, 63, 64, 65, 66, 67, 68, 69]"
  "state_numbers httpclient_items_14 = [70, 71, 121, 72, 73, 74]"
  "state_numbers httpclient_items_15 = [75, 76, 77, 78, 79]"
  "state_numbers httpclient_items_16 = [80, 81, 82, 83, 84, 85, 86, 87, 88, 122]"
  "state_numbers httpclient_items_17 = [89, 90, 91, 92, 93]"
  "state_numbers httpclient_items_18 = [94, 95, 96, 97, 98, 99, 100, 101]"
  "state_numbers httpclient_items_19 = [102, 103, 104, 105, 106]"
  "state_numbers httpclient_items_20 = [107, 108, 109, 110, 111]"
  "state_numbers httpclient_items_21 = [112, 113, 114, 115, 123, 116]"
  "state_numbers httpclient_items_22 = [117, 118, 119]"
  by (simp_all add: state_numbers_def httpclient_items_chunks)

lemma httpclient_trans:
  "trans_numbers httpclient_items_1 = [0, 3, 7, 9, 15, 74, 4]"
  "trans_numbers httpclient_items_2 = [10, 16, 75, 6, 12, 18, 8, 13]"
  "trans_numbers httpclient_items_3 = [14, 2, 26, 27]"
  "trans_numbers httpclient_items_4 = [28, 30, 45, 32, 42, 111, 113, 158, 35, 76]"
  "trans_numbers httpclient_items_5 = [41, 39, 40, 46, 33, 43, 159, 36, 77]"
  "trans_numbers httpclient_items_6 = []"
  "trans_numbers httpclient_items_7 = []"
  "trans_numbers httpclient_items_8 = [59, 58, 60]"
  "trans_numbers httpclient_items_9 = [136, 37, 78]"
  "trans_numbers httpclient_items_10 = []"
  "trans_numbers httpclient_items_11 = []"
  "trans_numbers httpclient_items_12 = []"
  "trans_numbers httpclient_items_13 = [96, 95, 97, 104]"
  "trans_numbers httpclient_items_14 = [112, 101, 103]"
  "trans_numbers httpclient_items_15 = []"
  "trans_numbers httpclient_items_16 = [98, 99, 137, 64]"
  "trans_numbers httpclient_items_17 = [66]"
  "trans_numbers httpclient_items_18 = [61, 62]"
  "trans_numbers httpclient_items_19 = []"
  "trans_numbers httpclient_items_20 = []"
  "trans_numbers httpclient_items_21 = [149, 148, 150, 157, 154, 156]"
  "trans_numbers httpclient_items_22 = [151, 152]"
  by (simp_all add: trans_numbers_def httpclient_items_chunks)

lemma httpclient_jumps:
  fixes trs :: "nat list"
  defines "trs \<equiv> [0, 3, 7, 9, 15, 74, 4, 10, 16, 75, 6, 12, 18, 8, 13, 14, 2, 26, 27, 28, 30, 45, 32, 42, 111,
     113, 158, 35, 76, 41, 39, 40, 46, 33, 43, 159, 36, 77, 59, 58, 60, 136, 37, 78, 96, 95, 97, 104, 112, 101,
     103, 98, 99, 137, 64, 66, 61, 62, 149, 148, 150, 157, 154, 156, 151, 152]"
  shows
  "list_all (item_closed 123 trs) httpclient_items_1"
  "list_all (item_closed 123 trs) httpclient_items_2"
  "list_all (item_closed 123 trs) httpclient_items_3"
  "list_all (item_closed 123 trs) httpclient_items_4"
  "list_all (item_closed 123 trs) httpclient_items_5"
  "list_all (item_closed 123 trs) httpclient_items_6"
  "list_all (item_closed 123 trs) httpclient_items_7"
  "list_all (item_closed 123 trs) httpclient_items_8"
  "list_all (item_closed 123 trs) httpclient_items_9"
  "list_all (item_closed 123 trs) httpclient_items_10"
  "list_all (item_closed 123 trs) httpclient_items_11"
  "list_all (item_closed 123 trs) httpclient_items_12"
  "list_all (item_closed 123 trs) httpclient_items_13"
  "list_all (item_closed 123 trs) httpclient_items_14"
  "list_all (item_closed 123 trs) httpclient_items_15"
  "list_all (item_closed 123 trs) httpclient_items_16"
  "list_all (item_closed 123 trs) httpclient_items_17"
  "list_all (item_closed 123 trs) httpclient_items_18"
  "list_all (item_closed 123 trs) httpclient_items_19"
  "list_all (item_closed 123 trs) httpclient_items_20"
  "list_all (item_closed 123 trs) httpclient_items_21"
  "list_all (item_closed 123 trs) httpclient_items_22"
  by (simp_all add: item_closed_def trs_def httpclient_items_chunks)

lemma httpclient_sorted: "sort [1, 2, 120, 3, 4, 5, 6, 7, 8, 9, 10, 11, 12, 13, 14, 15, 16, 17, 18, 19, 20, 21, 22, 23, 24,
     25, 26, 27, 28, 29, 30, 31, 32, 33, 34, 35, 36, 37, 38, 39, 40, 41, 42, 43, 44, 45, 46, 47, 48, 49,
     50, 51, 52, 53, 54, 55, 56, 57, 58, 59, 60, 61, 62, 63, 64, 65, 66, 67, 68, 69, 70, 71, 121, 72, 73,
     74, 75, 76, 77, 78, 79, 80, 81, 82, 83, 84, 85, 86, 87, 88, 122, 89, 90, 91, 92, 93, 94, 95, 96, 97,
     98, 99, 100, 101, 102, 103, 104, 105, 106, 107, 108, 109, 110, 111, 112, 113, 114, 115, 123, 116, 117, 118, 119 :: nat] = 1 # [2..<124]"
  by simp

lemma httpclient_closed: "machine_closed 123 httpclient_items"
  unfolding machine_closed_def
proof
  have "state_numbers httpclient_items = [1, 2, 120, 3, 4, 5, 6, 7, 8, 9, 10, 11, 12, 13, 14, 15, 16, 17, 18, 19, 20, 21, 22, 23, 24,
     25, 26, 27, 28, 29, 30, 31, 32, 33, 34, 35, 36, 37, 38, 39, 40, 41, 42, 43, 44, 45, 46, 47, 48, 49,
     50, 51, 52, 53, 54, 55, 56, 57, 58, 59, 60, 61, 62, 63, 64, 65, 66, 67, 68, 69, 70, 71, 121, 72, 73,
     74, 75, 76, 77, 78, 79, 80, 81, 82, 83, 84, 85, 86, 87, 88, 122, 89, 90, 91, 92, 93, 94, 95, 96, 97,
     98, 99, 100, 101, 102, 103, 104, 105, 106, 107, 108, 109, 110, 111, 112, 113, 114, 115, 123, 116, 117, 118, 119]"
    by (simp add: httpclient_items_def httpclient_states)
  then show "sort (state_numbers httpclient_items) = [1..<Suc 123]"
    unfolding upt_conv_Cons [of 1 "Suc 123", simplified] by (simp only: httpclient_sorted) (simp add: upt_conv_Cons)
next
  have "trans_numbers httpclient_items = [0, 3, 7, 9, 15, 74, 4, 10, 16, 75, 6, 12, 18, 8, 13, 14, 2, 26, 27, 28, 30, 45, 32, 42, 111,
     113, 158, 35, 76, 41, 39, 40, 46, 33, 43, 159, 36, 77, 59, 58, 60, 136, 37, 78, 96, 95, 97, 104, 112, 101,
     103, 98, 99, 137, 64, 66, 61, 62, 149, 148, 150, 157, 154, 156, 151, 152]"
    by (simp add: httpclient_items_def httpclient_trans)
  then show "list_all (item_closed 123 (trans_numbers httpclient_items)) httpclient_items"
    by (simp only:) (simp add: httpclient_items_def httpclient_jumps)
qed

lemmas httpclient_lookup = httpclient_items_def machine_lookup httpclient_states httpclient_trans

definition httpclient_parser_start :: nat where "httpclient_parser_start = 1"
definition httpclient_parser_first_final :: nat where "httpclient_parser_first_final = 120"
definition httpclient_parser_error :: nat where "httpclient_parser_error = 0"

text \<open>Only the action \<^verbatim>\<open>done\<close> breaks: \<^verbatim>\<open>{p++; cs = N; goto _out;}\<close>.\<close>

definition response_brk :: "response_action \<Rightarrow> bool" where
  "response_brk a = (a = R_done)"

interpretation httpclient_machine: ragel_machine httpclient_items 123 response_brk 120
  by unfold_locales (rule httpclient_closed, simp add: final_states_def breaks_def response_brk_def httpclient_items_def httpclient_items_chunks)

end
