(* ===== verification/Http_Response_Parser.thy ===== *)
theory Http_Response_Parser
  imports Http_Parser Httpclient_Machine
begin

text \<open>
  The response parser: \<^verbatim>\<open>httpclient_parser_init\<close>, \<^verbatim>\<open>httpclient_parser_execute\<close> and their kin
  (\<^verbatim>\<open>linko/http/httpclient_parser.rl.cc\<close>) over the generated machine, and \<^verbatim>\<open>HttpResponseParser\<close> with its
  callbacks (\<^verbatim>\<open>linko/http/http_parser.cc\<close>).  As for requests, an execution gives the list of its calls.
\<close>

section \<open>The parser record\<close>

text \<open>\<open>status\<close> is not set by \<^verbatim>\<open>httpclient_parser_init\<close>.\<close>

record httpclient_parser =
  hc_cs :: nat
  hc_body_start :: nat
  hc_content_len :: int
  hc_status :: int
  hc_chunked :: bool
  hc_chunks_done :: bool
  hc_close :: bool
  hc_nread :: nat
  hc_mark :: nat
  hc_field_start :: nat
  hc_field_len :: nat

definition httpclient_parser_init :: "httpclient_parser \<Rightarrow> httpclient_parser" where
  "httpclient_parser_init ps = ps\<lparr>hc_cs := httpclient_parser_start, hc_body_start := 0, hc_content_len := - 1,
     hc_chunked := False, hc_chunks_done := False, hc_mark := 0, hc_nread := 0, hc_field_len := 0, hc_field_start := 0,
     hc_close := False\<rparr>"

datatype response_element = Reason_phrase | Status_code | Chunk_size | Rs_http_version | Rs_header_done | Last_chunk

datatype response_event = Rs_element response_element nat nat | Rs_field nat nat nat nat

text \<open>
  The actions at the pointer \<open>p\<close>; \<open>buffer\<close> is the block from its start on, of which \<open>len\<close> characters are input.  All callbacks
  are set, so the test for a null \<^verbatim>\<open>last_chunk\<close> succeeds.
\<close>

fun response_exec :: "string \<Rightarrow> nat \<Rightarrow> response_action \<Rightarrow> nat \<Rightarrow>
    httpclient_parser \<times> response_event list \<Rightarrow> httpclient_parser \<times> response_event list" where
  "response_exec buffer len R_mark p (ps, evs) = (ps\<lparr>hc_mark := p\<rparr>, evs)"
| "response_exec buffer len R_start_field p (ps, evs) = (ps\<lparr>hc_field_start := p\<rparr>, evs)"
| "response_exec buffer len R_write_field p (ps, evs) = (ps\<lparr>hc_field_len := usub64 p (hc_field_start ps)\<rparr>, evs)"
| "response_exec buffer len R_start_value p (ps, evs) = (ps\<lparr>hc_mark := p\<rparr>, evs)"
| "response_exec buffer len R_write_content_len p (ps, evs) =
     (ps\<lparr>hc_content_len := int32_of (strtol 10 (drop (hc_mark ps) buffer))\<rparr>, evs)"
| "response_exec buffer len R_write_connection_close p (ps, evs) = (ps\<lparr>hc_close := True\<rparr>, evs)"
| "response_exec buffer len R_write_value p (ps, evs) =
     (ps, evs @ [Rs_field (hc_field_start ps) (hc_field_len ps) (hc_mark ps) (usub64 p (hc_mark ps))])"
| "response_exec buffer len R_reason_phrase p (ps, evs) =
     (ps, evs @ [Rs_element Reason_phrase (hc_mark ps) (usub64 p (hc_mark ps))])"
| "response_exec buffer len R_status_code p (ps, evs) =
     (ps\<lparr>hc_status := int32_of (strtol 10 (drop (hc_mark ps) buffer))\<rparr>,
      evs @ [Rs_element Status_code (hc_mark ps) (usub64 p (hc_mark ps))])"
| "response_exec buffer len R_http_version p (ps, evs) =
     (ps, evs @ [Rs_element Rs_http_version (hc_mark ps) (usub64 p (hc_mark ps))])"
| "response_exec buffer len R_chunk_size p (ps, evs) =
     (let n = int32_of (strtol 16 (drop (hc_mark ps) buffer)); finished = n \<le> 0
      in (ps\<lparr>hc_chunked := True, hc_content_len := n, hc_chunks_done := finished\<rparr>,
          evs @ [Rs_element (if finished then Last_chunk else Chunk_size) (hc_mark ps) (usub64 p (hc_mark ps))]))"
| "response_exec buffer len R_trans_chunked p (ps, evs) = (ps\<lparr>hc_chunked := True\<rparr>, evs)"
| "response_exec buffer len R_done p (ps, evs) =
     (ps\<lparr>hc_body_start := p + 1\<rparr>, evs @ [Rs_element Rs_header_done (p + 1) (usub64 len (p + 1))])"

definition httpclient_parser_has_error :: "httpclient_parser \<Rightarrow> bool" where
  "httpclient_parser_has_error ps \<longleftrightarrow> hc_cs ps = httpclient_parser_error"

definition httpclient_parser_is_finished :: "httpclient_parser \<Rightarrow> bool" where
  "httpclient_parser_is_finished ps \<longleftrightarrow> hc_cs ps = httpclient_parser_first_final"

definition httpclient_parser_finish :: "httpclient_parser \<Rightarrow> int" where
  "httpclient_parser_finish ps =
     (if httpclient_parser_has_error ps then - 1 else if httpclient_parser_is_finished ps then 1 else 0)"

text \<open>
  \<open>(result, parser, calls)\<close>, or a failed assertion: the input has to be followed by a zero character.  The checks
  at the end give the result - 1.
\<close>

definition httpclient_parser_execute ::
  "httpclient_parser \<Rightarrow> string \<Rightarrow> nat \<Rightarrow> nat \<Rightarrow> cpp_error + int \<times> httpclient_parser \<times> response_event list" where
  "httpclient_parser_execute ps buffer len off =
     (let ps = ps\<lparr>hc_nread := 0, hc_mark := 0, hc_field_len := len, hc_field_start := 0\<rparr>
      in if \<not> off \<le> len then Inl Assertion
      else if length buffer \<le> len then Inl Undefined
      else if buffer ! len \<noteq> NUL \<or> int len - int off \<noteq> to_int32 len - to_int32 off then Inl Assertion
      else let (cs', p, ps', evs) = run httpclient_items False response_brk (response_exec buffer len) off
               (take (len - off) (drop off buffer)) (hc_cs ps) (ps, []);
               ps'' = ps'\<lparr>hc_cs := cs', hc_nread := hc_nread ps' + (p - off)\<rparr>
      in if \<not> (hc_nread ps'' \<le> len \<and> hc_body_start ps'' \<le> len) then Inl Assertion
         else if hc_mark ps'' < len \<and> hc_field_len ps'' \<le> len \<and> hc_field_start ps'' < len
         then Inr (to_int32 (hc_nread ps''), ps'', evs) else Inr (- 1, ps'', evs))"

section \<open>HttpResponseParser\<close>

record HttpResponseParser =
  sp_parser :: httpclient_parser
  sp_data :: HttpResponse
  sp_error :: int

definition new_HttpResponseParser :: "httpclient_parser \<Rightarrow> HttpResponseParser" where
  "new_HttpResponseParser memory =
     \<lparr>sp_parser = httpclient_parser_init memory, sp_data = new_HttpResponse 0x11 True, sp_error = 0\<rparr>"

definition on_response_reason :: "string \<Rightarrow> nat \<Rightarrow> nat \<Rightarrow> HttpResponseParser \<Rightarrow> cpp_error + HttpResponseParser" where
  "on_response_reason block at len sp =
     (case block_string block at len of Inl e \<Rightarrow> Inl e | Inr s \<Rightarrow> Inr (sp\<lparr>sp_data := rs_setReason s (sp_data sp)\<rparr>))"

definition on_response_status :: "string \<Rightarrow> nat \<Rightarrow> nat \<Rightarrow> HttpResponseParser \<Rightarrow> cpp_error + HttpResponseParser" where
  "on_response_status block at len sp = Inr (sp\<lparr>sp_data := rs_setStatus (atoi (drop at block)) (sp_data sp)\<rparr>)"

definition on_response_version :: "string \<Rightarrow> nat \<Rightarrow> nat \<Rightarrow> HttpResponseParser \<Rightarrow> cpp_error + HttpResponseParser" where
  "on_response_version block at len sp =
     (case version_of (drop at block) len of
        Some v \<Rightarrow> Inr (sp\<lparr>sp_data := rs_setVersion v (sp_data sp)\<rparr>)
      | None \<Rightarrow> (case block_string block at len of Inl e \<Rightarrow> Inl e | Inr _ \<Rightarrow> Inr (sp\<lparr>sp_error := 1001\<rparr>)))"

definition on_response_http_field ::
  "string \<Rightarrow> nat \<Rightarrow> nat \<Rightarrow> nat \<Rightarrow> nat \<Rightarrow> HttpResponseParser \<Rightarrow> cpp_error + HttpResponseParser" where
  "on_response_http_field block field flen val vlen sp =
     (if flen = 0 then Inr (sp\<lparr>sp_error := 1002\<rparr>)
      else case block_string block field flen of Inl e \<Rightarrow> Inl e
        | Inr name \<Rightarrow> (case block_string block val vlen of Inl e \<Rightarrow> Inl e
            | Inr v \<Rightarrow> Inr (sp\<lparr>sp_data := rs_setHeader name v (sp_data sp)\<rparr>)))"

text \<open>\<^verbatim>\<open>on_response_chunk\<close>, \<^verbatim>\<open>on_response_header_done\<close> and \<^verbatim>\<open>on_response_last_chunk\<close> are empty.\<close>

fun on_response :: "string \<Rightarrow> response_event \<Rightarrow> HttpResponseParser \<Rightarrow> cpp_error + HttpResponseParser" where
  "on_response block (Rs_element Reason_phrase at len) sp = on_response_reason block at len sp"
| "on_response block (Rs_element Status_code at len) sp = on_response_status block at len sp"
| "on_response block (Rs_element Rs_http_version at len) sp = on_response_version block at len sp"
| "on_response block (Rs_element Chunk_size at len) sp = Inr sp"
| "on_response block (Rs_element Rs_header_done at len) sp = Inr sp"
| "on_response block (Rs_element Last_chunk at len) sp = Inr sp"
| "on_response block (Rs_field field flen val vlen) sp = on_response_http_field block field flen val vlen sp"

fun on_responses :: "string \<Rightarrow> response_event list \<Rightarrow> HttpResponseParser \<Rightarrow> cpp_error + HttpResponseParser" where
  "on_responses block [] sp = Inr sp"
| "on_responses block (e # es) sp = (case on_response block e sp of Inl er \<Rightarrow> Inl er | Inr sp' \<Rightarrow> on_responses block es sp')"

text \<open>With a result of - 1 the \<^verbatim>\<open>memmove\<close> starts before the block.\<close>

definition response_execute ::
  "string \<Rightarrow> nat \<Rightarrow> bool \<Rightarrow> HttpResponseParser \<Rightarrow> cpp_error + nat \<times> string \<times> HttpResponseParser" where
  "response_execute data len chunck sp =
     (let sp = (if chunck then sp\<lparr>sp_parser := httpclient_parser_init (sp_parser sp)\<rparr> else sp)
      in case httpclient_parser_execute (sp_parser sp) data len 0 of Inl e \<Rightarrow> Inl e
      | Inr (offset, ps, evs) \<Rightarrow>
          (case on_responses data evs (sp\<lparr>sp_parser := ps\<rparr>) of Inl e \<Rightarrow> Inl e
           | Inr sp' \<Rightarrow> if offset < 0 then Inl Undefined
               else Inr (nat offset, overwrite data 0 (take (len - nat offset) (drop (nat offset) data)), sp')))"

definition response_isFinished :: "HttpResponseParser \<Rightarrow> int" where
  "response_isFinished sp = httpclient_parser_finish (sp_parser sp)"

definition response_hasError :: "HttpResponseParser \<Rightarrow> bool" where
  "response_hasError sp \<longleftrightarrow> sp_error sp \<noteq> 0 \<or> httpclient_parser_has_error (sp_parser sp)"

definition response_getContentLength :: "(string \<Rightarrow> u64 option) \<Rightarrow> HttpResponseParser \<Rightarrow> u64" where
  "response_getContentLength lexical_cast sp = getAs lexical_cast (rs_headers (sp_data sp)) ''content-length'' 0"

end
