(* ===== verification/Http_Response_Moves.thy ===== *)
theory Http_Response_Moves
  imports Http_Response_Parser Http_Request_Roundtrip
begin

text \<open>
  The moves of the generated response machine on the way of a response: its blocks on that way, where each
  class of characters leads from each state, and how the machine follows the name of a header to find out
  whether it is one of the three it knows.
\<close>

section \<open>The blocks of the machine on the way of a response\<close>

lemma httpclient_rows:
  "find_state (Suc 0) httpclient_items = Some (False, [(48, 57, TR 0), (65, 70, TR 0), (72, 72, TR 2), (97,
    102, TR 0)])"
  "find_state 3 httpclient_items = Some (False, [(10, 10, TR 7)])"
  "find_state 8 httpclient_items = Some (False, [(84, 84, ST 9)])"
  "find_state 9 httpclient_items = Some (False, [(84, 84, ST 10)])"
  "find_state 10 httpclient_items = Some (False, [(80, 80, ST 11)])"
  "find_state 11 httpclient_items = Some (False, [(47, 47, ST 12)])"
  "find_state 12 httpclient_items = Some (False, [(48, 57, ST 13)])"
  "find_state 13 httpclient_items = Some (False, [(46, 46, ST 14), (48, 57, ST 13)])"
  "find_state 14 httpclient_items = Some (False, [(48, 57, ST 15)])"
  "find_state 15 httpclient_items = Some (False, [(32, 32, TR 26), (48, 57, ST 15)])"
  "find_state 16 httpclient_items = Some (False, [(48, 57, TR 27)])"
  "find_state 17 httpclient_items = Some (False, [(32, 32, TR 28), (48, 57, ST 17)])"
  "find_state 18 httpclient_items = Some (False, [(- 128, 9, TR 30), (11, 127, TR 30)])"
  "find_state 19 httpclient_items = Some (False, [(- 128, 9, ST 19), (10, 10, TR 32), (11, 12, ST 19), (13,
    13, TR 33), (14, 127, ST 19)])"
  "find_state 20 httpclient_items = Some (False, [(10, 10, TR 7), (13, 13, ST 3), (33, 33, TR 35), (35, 39,
    TR 35), (42, 43, TR 35), (45, 46, TR 35), (48, 57, TR 35), (65, 66, TR 35), (67, 67, TR 36), (68, 83, TR
    35), (84, 84, TR 37), (85, 90, TR 35), (94, 98, TR 35), (99, 99, TR 36), (100, 115, TR 35), (116, 116,
    TR 37), (117, 122, TR 35), (124, 124, TR 35), (126, 126, TR 35)])"
  "find_state 21 httpclient_items = Some (False, [(33, 33, ST 21), (35, 39, ST 21), (42, 43, ST 21), (45,
    46, ST 21), (48, 57, ST 21), (58, 58, TR 39), (65, 90, ST 21), (94, 122, ST 21), (124, 124, ST 21),
    (126, 126, ST 21)])"
  "find_state 22 httpclient_items = Some (False, [(- 128, 8, TR 40), (9, 9, TR 41), (10, 10, TR 42), (11,
    12, TR 41), (13, 13, TR 43), (14, 31, TR 40), (32, 32, TR 41), (33, 127, TR 40)])"
  "find_state 23 httpclient_items = Some (False, [(- 128, 9, ST 23), (10, 10, TR 45), (11, 12, ST 23), (13,
    13, TR 46), (14, 127, ST 23)])"
  "find_state 24 httpclient_items = Some (False, [(10, 10, ST 20)])"
  "find_state 25 httpclient_items = Some (False, [(33, 33, ST 21), (35, 39, ST 21), (42, 43, ST 21), (45,
    46, ST 21), (48, 57, ST 21), (58, 58, TR 39), (65, 78, ST 21), (79, 79, ST 26), (80, 90, ST 21), (94,
    110, ST 21), (111, 111, ST 26), (112, 122, ST 21), (124, 124, ST 21), (126, 126, ST 21)])"
  "find_state 26 httpclient_items = Some (False, [(33, 33, ST 21), (35, 39, ST 21), (42, 43, ST 21), (45,
    46, ST 21), (48, 57, ST 21), (58, 58, TR 39), (65, 77, ST 21), (78, 78, ST 27), (79, 90, ST 21), (94,
    109, ST 21), (110, 110, ST 27), (111, 122, ST 21), (124, 124, ST 21), (126, 126, ST 21)])"
  "find_state 27 httpclient_items = Some (False, [(33, 33, ST 21), (35, 39, ST 21), (42, 43, ST 21), (45,
    46, ST 21), (48, 57, ST 21), (58, 58, TR 39), (65, 77, ST 21), (78, 78, ST 28), (79, 83, ST 21), (84,
    84, ST 101), (85, 90, ST 21), (94, 109, ST 21), (110, 110, ST 28), (111, 115, ST 21), (116, 116, ST
    101), (117, 122, ST 21), (124, 124, ST 21), (126, 126, ST 21)])"
  "find_state 101 httpclient_items = Some (False, [(33, 33, ST 21), (35, 39, ST 21), (42, 43, ST 21), (45,
    46, ST 21), (48, 57, ST 21), (58, 58, TR 39), (65, 68, ST 21), (69, 69, ST 102), (70, 90, ST 21), (94,
    100, ST 21), (101, 101, ST 102), (102, 122, ST 21), (124, 124, ST 21), (126, 126, ST 21)])"
  "find_state 102 httpclient_items = Some (False, [(33, 33, ST 21), (35, 39, ST 21), (42, 43, ST 21), (45,
    46, ST 21), (48, 57, ST 21), (58, 58, TR 39), (65, 77, ST 21), (78, 78, ST 103), (79, 90, ST 21), (94,
    109, ST 21), (110, 110, ST 103), (111, 122, ST 21), (124, 124, ST 21), (126, 126, ST 21)])"
  "find_state 103 httpclient_items = Some (False, [(33, 33, ST 21), (35, 39, ST 21), (42, 43, ST 21), (45,
    46, ST 21), (48, 57, ST 21), (58, 58, TR 39), (65, 83, ST 21), (84, 84, ST 104), (85, 90, ST 21), (94,
    115, ST 21), (116, 116, ST 104), (117, 122, ST 21), (124, 124, ST 21), (126, 126, ST 21)])"
  "find_state 104 httpclient_items = Some (False, [(33, 33, ST 21), (35, 39, ST 21), (42, 43, ST 21), (45,
    45, ST 105), (46, 46, ST 21), (48, 57, ST 21), (58, 58, TR 39), (65, 90, ST 21), (94, 122, ST 21), (124,
    124, ST 21), (126, 126, ST 21)])"
  "find_state 105 httpclient_items = Some (False, [(33, 33, ST 21), (35, 39, ST 21), (42, 43, ST 21), (45,
    46, ST 21), (48, 57, ST 21), (58, 58, TR 39), (65, 75, ST 21), (76, 76, ST 106), (77, 90, ST 21), (94,
    107, ST 21), (108, 108, ST 106), (109, 122, ST 21), (124, 124, ST 21), (126, 126, ST 21)])"
  "find_state 106 httpclient_items = Some (False, [(33, 33, ST 21), (35, 39, ST 21), (42, 43, ST 21), (45,
    46, ST 21), (48, 57, ST 21), (58, 58, TR 39), (65, 68, ST 21), (69, 69, ST 107), (70, 90, ST 21), (94,
    100, ST 21), (101, 101, ST 107), (102, 122, ST 21), (124, 124, ST 21), (126, 126, ST 21)])"
  "find_state 107 httpclient_items = Some (False, [(33, 33, ST 21), (35, 39, ST 21), (42, 43, ST 21), (45,
    46, ST 21), (48, 57, ST 21), (58, 58, TR 39), (65, 77, ST 21), (78, 78, ST 108), (79, 90, ST 21), (94,
    109, ST 21), (110, 110, ST 108), (111, 122, ST 21), (124, 124, ST 21), (126, 126, ST 21)])"
  "find_state 108 httpclient_items = Some (False, [(33, 33, ST 21), (35, 39, ST 21), (42, 43, ST 21), (45,
    46, ST 21), (48, 57, ST 21), (58, 58, TR 39), (65, 70, ST 21), (71, 71, ST 109), (72, 90, ST 21), (94,
    102, ST 21), (103, 103, ST 109), (104, 122, ST 21), (124, 124, ST 21), (126, 126, ST 21)])"
  "find_state 109 httpclient_items = Some (False, [(33, 33, ST 21), (35, 39, ST 21), (42, 43, ST 21), (45,
    46, ST 21), (48, 57, ST 21), (58, 58, TR 39), (65, 83, ST 21), (84, 84, ST 110), (85, 90, ST 21), (94,
    115, ST 21), (116, 116, ST 110), (117, 122, ST 21), (124, 124, ST 21), (126, 126, ST 21)])"
  "find_state 110 httpclient_items = Some (False, [(33, 33, ST 21), (35, 39, ST 21), (42, 43, ST 21), (45,
    46, ST 21), (48, 57, ST 21), (58, 58, TR 39), (65, 71, ST 21), (72, 72, ST 111), (73, 90, ST 21), (94,
    103, ST 21), (104, 104, ST 111), (105, 122, ST 21), (124, 124, ST 21), (126, 126, ST 21)])"
  "find_state 111 httpclient_items = Some (False, [(33, 33, ST 21), (35, 39, ST 21), (42, 43, ST 21), (45,
    46, ST 21), (48, 57, ST 21), (58, 58, TR 148), (65, 90, ST 21), (94, 122, ST 21), (124, 124, ST 21),
    (126, 126, ST 21)])"
  "find_state 112 httpclient_items = Some (False, [(- 128, 8, TR 40), (9, 9, TR 149), (10, 10, TR 150), (11,
    12, TR 149), (13, 13, TR 151), (14, 31, TR 40), (32, 32, TR 149), (33, 47, TR 40), (48, 57, TR 152),
    (58, 127, TR 40)])"
  "find_state 119 httpclient_items = Some (False, [(- 128, 9, ST 23), (10, 10, TR 158), (11, 12, ST 23),
    (13, 13, TR 159), (14, 47, ST 23), (48, 57, ST 119), (58, 127, ST 23)])"
  "find_state 28 httpclient_items = Some (False, [(33, 33, ST 21), (35, 39, ST 21), (42, 43, ST 21), (45, 46, ST 21),
    (48, 57, ST 21), (58, 58, TR 39), (65, 68, ST 21), (69, 69, ST 29), (70, 90, ST 21), (94, 100, ST 21), (101, 101,
    ST 29), (102, 122, ST 21), (124, 124, ST 21), (126, 126, ST 21)])"
  "find_state 29 httpclient_items = Some (False, [(33, 33, ST 21), (35, 39, ST 21), (42, 43, ST 21), (45, 46, ST 21),
    (48, 57, ST 21), (58, 58, TR 39), (65, 66, ST 21), (67, 67, ST 30), (68, 90, ST 21), (94, 98, ST 21), (99, 99, ST
    30), (100, 122, ST 21), (124, 124, ST 21), (126, 126, ST 21)])"
  "find_state 30 httpclient_items = Some (False, [(33, 33, ST 21), (35, 39, ST 21), (42, 43, ST 21), (45, 46, ST 21),
    (48, 57, ST 21), (58, 58, TR 39), (65, 83, ST 21), (84, 84, ST 31), (85, 90, ST 21), (94, 115, ST 21), (116, 116,
    ST 31), (117, 122, ST 21), (124, 124, ST 21), (126, 126, ST 21)])"
  "find_state 31 httpclient_items = Some (False, [(33, 33, ST 21), (35, 39, ST 21), (42, 43, ST 21), (45, 46, ST 21),
    (48, 57, ST 21), (58, 58, TR 39), (65, 72, ST 21), (73, 73, ST 32), (74, 90, ST 21), (94, 104, ST 21), (105, 105,
    ST 32), (106, 122, ST 21), (124, 124, ST 21), (126, 126, ST 21)])"
  "find_state 32 httpclient_items = Some (False, [(33, 33, ST 21), (35, 39, ST 21), (42, 43, ST 21), (45, 46, ST 21),
    (48, 57, ST 21), (58, 58, TR 39), (65, 78, ST 21), (79, 79, ST 33), (80, 90, ST 21), (94, 110, ST 21), (111, 111,
    ST 33), (112, 122, ST 21), (124, 124, ST 21), (126, 126, ST 21)])"
  "find_state 33 httpclient_items = Some (False, [(33, 33, ST 21), (35, 39, ST 21), (42, 43, ST 21), (45, 46, ST 21),
    (48, 57, ST 21), (58, 58, TR 39), (65, 77, ST 21), (78, 78, ST 34), (79, 90, ST 21), (94, 109, ST 21), (110, 110,
    ST 34), (111, 122, ST 21), (124, 124, ST 21), (126, 126, ST 21)])"
  "find_state 34 httpclient_items = Some (False, [(33, 33, ST 21), (35, 39, ST 21), (42, 43, ST 21), (45, 46, ST 21),
    (48, 57, ST 21), (58, 58, TR 58), (65, 90, ST 21), (94, 122, ST 21), (124, 124, ST 21), (126, 126, ST 21)])"
  "find_state 35 httpclient_items = Some (False, [(- 128, 8, TR 40), (9, 9, TR 59), (10, 10, TR 60), (11, 12, TR 59),
    (13, 13, TR 61), (14, 31, TR 40), (32, 32, TR 59), (33, 66, TR 40), (67, 67, TR 62), (68, 98, TR 40), (99, 99, TR
    62), (100, 127, TR 40)])"
  "find_state 44 httpclient_items = Some (False, [(33, 33, ST 21), (35, 39, ST 21), (42, 43, ST 21), (45, 46, ST 21),
    (48, 57, ST 21), (58, 58, TR 39), (65, 81, ST 21), (82, 82, ST 45), (83, 90, ST 21), (94, 113, ST 21), (114, 114,
    ST 45), (115, 122, ST 21), (124, 124, ST 21), (126, 126, ST 21)])"
  "find_state 45 httpclient_items = Some (False, [(33, 33, ST 21), (35, 39, ST 21), (42, 43, ST 21), (45, 46, ST 21),
    (48, 57, ST 21), (58, 58, TR 39), (65, 65, ST 46), (66, 90, ST 21), (94, 96, ST 21), (97, 97, ST 46), (98, 122, ST
    21), (124, 124, ST 21), (126, 126, ST 21)])"
  "find_state 46 httpclient_items = Some (False, [(33, 33, ST 21), (35, 39, ST 21), (42, 43, ST 21), (45, 46, ST 21),
    (48, 57, ST 21), (58, 58, TR 39), (65, 77, ST 21), (78, 78, ST 47), (79, 90, ST 21), (94, 109, ST 21), (110, 110,
    ST 47), (111, 122, ST 21), (124, 124, ST 21), (126, 126, ST 21)])"
  "find_state 47 httpclient_items = Some (False, [(33, 33, ST 21), (35, 39, ST 21), (42, 43, ST 21), (45, 46, ST 21),
    (48, 57, ST 21), (58, 58, TR 39), (65, 82, ST 21), (83, 83, ST 48), (84, 90, ST 21), (94, 114, ST 21), (115, 115,
    ST 48), (116, 122, ST 21), (124, 124, ST 21), (126, 126, ST 21)])"
  "find_state 48 httpclient_items = Some (False, [(33, 33, ST 21), (35, 39, ST 21), (42, 43, ST 21), (45, 46, ST 21),
    (48, 57, ST 21), (58, 58, TR 39), (65, 69, ST 21), (70, 70, ST 49), (71, 90, ST 21), (94, 101, ST 21), (102, 102,
    ST 49), (103, 122, ST 21), (124, 124, ST 21), (126, 126, ST 21)])"
  "find_state 49 httpclient_items = Some (False, [(33, 33, ST 21), (35, 39, ST 21), (42, 43, ST 21), (45, 46, ST 21),
    (48, 57, ST 21), (58, 58, TR 39), (65, 68, ST 21), (69, 69, ST 50), (70, 90, ST 21), (94, 100, ST 21), (101, 101,
    ST 50), (102, 122, ST 21), (124, 124, ST 21), (126, 126, ST 21)])"
  "find_state 50 httpclient_items = Some (False, [(33, 33, ST 21), (35, 39, ST 21), (42, 43, ST 21), (45, 46, ST 21),
    (48, 57, ST 21), (58, 58, TR 39), (65, 81, ST 21), (82, 82, ST 51), (83, 90, ST 21), (94, 113, ST 21), (114, 114,
    ST 51), (115, 122, ST 21), (124, 124, ST 21), (126, 126, ST 21)])"
  "find_state 51 httpclient_items = Some (False, [(33, 33, ST 21), (35, 39, ST 21), (42, 43, ST 21), (45, 45, ST 52),
    (46, 46, ST 21), (48, 57, ST 21), (58, 58, TR 39), (65, 90, ST 21), (94, 122, ST 21), (124, 124, ST 21), (126,
    126, ST 21)])"
  "find_state 52 httpclient_items = Some (False, [(33, 33, ST 21), (35, 39, ST 21), (42, 43, ST 21), (45, 46, ST 21),
    (48, 57, ST 21), (58, 58, TR 39), (65, 68, ST 21), (69, 69, ST 53), (70, 90, ST 21), (94, 100, ST 21), (101, 101,
    ST 53), (102, 122, ST 21), (124, 124, ST 21), (126, 126, ST 21)])"
  "find_state 53 httpclient_items = Some (False, [(33, 33, ST 21), (35, 39, ST 21), (42, 43, ST 21), (45, 46, ST 21),
    (48, 57, ST 21), (58, 58, TR 39), (65, 77, ST 21), (78, 78, ST 54), (79, 90, ST 21), (94, 109, ST 21), (110, 110,
    ST 54), (111, 122, ST 21), (124, 124, ST 21), (126, 126, ST 21)])"
  "find_state 54 httpclient_items = Some (False, [(33, 33, ST 21), (35, 39, ST 21), (42, 43, ST 21), (45, 46, ST 21),
    (48, 57, ST 21), (58, 58, TR 39), (65, 66, ST 21), (67, 67, ST 55), (68, 90, ST 21), (94, 98, ST 21), (99, 99, ST
    55), (100, 122, ST 21), (124, 124, ST 21), (126, 126, ST 21)])"
  "find_state 55 httpclient_items = Some (False, [(33, 33, ST 21), (35, 39, ST 21), (42, 43, ST 21), (45, 46, ST 21),
    (48, 57, ST 21), (58, 58, TR 39), (65, 78, ST 21), (79, 79, ST 56), (80, 90, ST 21), (94, 110, ST 21), (111, 111,
    ST 56), (112, 122, ST 21), (124, 124, ST 21), (126, 126, ST 21)])"
  "find_state 56 httpclient_items = Some (False, [(33, 33, ST 21), (35, 39, ST 21), (42, 43, ST 21), (45, 46, ST 21),
    (48, 57, ST 21), (58, 58, TR 39), (65, 67, ST 21), (68, 68, ST 57), (69, 90, ST 21), (94, 99, ST 21), (100, 100,
    ST 57), (101, 122, ST 21), (124, 124, ST 21), (126, 126, ST 21)])"
  "find_state 57 httpclient_items = Some (False, [(33, 33, ST 21), (35, 39, ST 21), (42, 43, ST 21), (45, 46, ST 21),
    (48, 57, ST 21), (58, 58, TR 39), (65, 72, ST 21), (73, 73, ST 58), (74, 90, ST 21), (94, 104, ST 21), (105, 105,
    ST 58), (106, 122, ST 21), (124, 124, ST 21), (126, 126, ST 21)])"
  "find_state 58 httpclient_items = Some (False, [(33, 33, ST 21), (35, 39, ST 21), (42, 43, ST 21), (45, 46, ST 21),
    (48, 57, ST 21), (58, 58, TR 39), (65, 77, ST 21), (78, 78, ST 59), (79, 90, ST 21), (94, 109, ST 21), (110, 110,
    ST 59), (111, 122, ST 21), (124, 124, ST 21), (126, 126, ST 21)])"
  "find_state 59 httpclient_items = Some (False, [(33, 33, ST 21), (35, 39, ST 21), (42, 43, ST 21), (45, 46, ST 21),
    (48, 57, ST 21), (58, 58, TR 39), (65, 70, ST 21), (71, 71, ST 60), (72, 90, ST 21), (94, 102, ST 21), (103, 103,
    ST 60), (104, 122, ST 21), (124, 124, ST 21), (126, 126, ST 21)])"
  "find_state 60 httpclient_items = Some (False, [(33, 33, ST 21), (35, 39, ST 21), (42, 43, ST 21), (45, 46, ST 21),
    (48, 57, ST 21), (58, 58, TR 95), (65, 90, ST 21), (94, 122, ST 21), (124, 124, ST 21), (126, 126, ST 21)])"
  "find_state 61 httpclient_items = Some (False, [(- 128, 8, TR 40), (9, 9, TR 96), (10, 10, TR 97), (11, 12, TR 96),
    (13, 13, TR 98), (14, 31, TR 40), (32, 32, TR 96), (33, 66, TR 40), (67, 67, TR 99), (68, 98, TR 40), (99, 99, TR
    99), (100, 127, TR 40)])"
  by (simp_all add: httpclient_lookup, simp_all add: httpclient_items_chunks)

lemma httpclient_transitions:
  "find_trans 0 httpclient_items = Some ([R_mark], 2)"
  "find_trans 2 httpclient_items = Some ([R_mark], 8)"
  "find_trans 3 httpclient_items = Some ([R_chunk_size, R_done], 120)"
  "find_trans 4 httpclient_items = Some ([R_chunk_size], 3)"
  "find_trans 6 httpclient_items = Some ([R_chunk_size], 4)"
  "find_trans 7 httpclient_items = Some ([R_done], 120)"
  "find_trans 8 httpclient_items = Some ([R_start_field], 5)"
  "find_trans 9 httpclient_items = Some ([R_write_field, R_start_value, R_write_value, R_done], 120)"
  "find_trans 10 httpclient_items = Some ([R_write_field, R_start_value, R_write_value], 3)"
  "find_trans 12 httpclient_items = Some ([R_write_field, R_start_value, R_write_value], 4)"
  "find_trans 13 httpclient_items = Some ([R_write_field, R_start_value], 6)"
  "find_trans 14 httpclient_items = Some ([R_start_value], 7)"
  "find_trans 15 httpclient_items = Some ([R_write_value, R_done], 120)"
  "find_trans 16 httpclient_items = Some ([R_write_value], 3)"
  "find_trans 18 httpclient_items = Some ([R_write_value], 4)"
  "find_trans 26 httpclient_items = Some ([R_http_version], 16)"
  "find_trans 27 httpclient_items = Some ([R_mark], 17)"
  "find_trans 28 httpclient_items = Some ([R_status_code], 18)"
  "find_trans 30 httpclient_items = Some ([R_mark], 19)"
  "find_trans 32 httpclient_items = Some ([R_reason_phrase], 20)"
  "find_trans 33 httpclient_items = Some ([R_reason_phrase], 24)"
  "find_trans 35 httpclient_items = Some ([R_start_field], 21)"
  "find_trans 36 httpclient_items = Some ([R_start_field], 25)"
  "find_trans 37 httpclient_items = Some ([R_start_field], 44)"
  "find_trans 39 httpclient_items = Some ([R_write_field], 22)"
  "find_trans 40 httpclient_items = Some ([R_start_value], 23)"
  "find_trans 41 httpclient_items = Some ([R_start_value], 22)"
  "find_trans 42 httpclient_items = Some ([R_start_value, R_write_value], 20)"
  "find_trans 43 httpclient_items = Some ([R_start_value, R_write_value], 24)"
  "find_trans 45 httpclient_items = Some ([R_write_value], 20)"
  "find_trans 46 httpclient_items = Some ([R_write_value], 24)"
  "find_trans 58 httpclient_items = Some ([R_write_field], 35)"
  "find_trans 59 httpclient_items = Some ([R_start_value], 35)"
  "find_trans 60 httpclient_items = Some ([R_start_value, R_write_value], 36)"
  "find_trans 61 httpclient_items = Some ([R_start_value, R_write_value], 95)"
  "find_trans 62 httpclient_items = Some ([R_start_value], 96)"
  "find_trans 64 httpclient_items = Some ([R_done], 122)"
  "find_trans 66 httpclient_items = Some ([R_start_field], 90)"
  "find_trans 74 httpclient_items = Some ([R_write_connection_close, R_done], 120)"
  "find_trans 75 httpclient_items = Some ([R_write_connection_close], 3)"
  "find_trans 76 httpclient_items = Some ([R_write_connection_close, R_start_field], 21)"
  "find_trans 77 httpclient_items = Some ([R_write_connection_close, R_start_field], 25)"
  "find_trans 78 httpclient_items = Some ([R_write_connection_close, R_start_field], 44)"
  "find_trans 95 httpclient_items = Some ([R_write_field], 61)"
  "find_trans 96 httpclient_items = Some ([R_start_value], 61)"
  "find_trans 97 httpclient_items = Some ([R_start_value, R_write_value], 62)"
  "find_trans 98 httpclient_items = Some ([R_start_value, R_write_value], 80)"
  "find_trans 99 httpclient_items = Some ([R_start_value], 81)"
  "find_trans 101 httpclient_items = Some ([R_done], 121)"
  "find_trans 103 httpclient_items = Some ([R_start_value, R_start_field], 73)"
  "find_trans 104 httpclient_items = Some ([R_start_value], 64)"
  "find_trans 111 httpclient_items = Some ([R_write_value, R_trans_chunked], 20)"
  "find_trans 112 httpclient_items = Some ([R_write_value], 71)"
  "find_trans 113 httpclient_items = Some ([R_trans_chunked], 20)"
  "find_trans 136 httpclient_items = Some ([R_write_value], 43)"
  "find_trans 137 httpclient_items = Some ([R_write_value], 88)"
  "find_trans 148 httpclient_items = Some ([R_write_field], 112)"
  "find_trans 149 httpclient_items = Some ([R_start_value], 112)"
  "find_trans 150 httpclient_items = Some ([R_start_value, R_write_value], 113)"
  "find_trans 151 httpclient_items = Some ([R_start_value, R_write_value], 118)"
  "find_trans 152 httpclient_items = Some ([R_start_value], 119)"
  "find_trans 154 httpclient_items = Some ([R_done], 123)"
  "find_trans 156 httpclient_items = Some ([R_start_value, R_start_field], 117)"
  "find_trans 157 httpclient_items = Some ([R_start_value], 115)"
  "find_trans 158 httpclient_items = Some ([R_write_content_len, R_write_value], 20)"
  "find_trans 159 httpclient_items = Some ([R_write_content_len, R_write_value], 24)"
  by (simp_all add: httpclient_lookup, simp_all add: httpclient_items_chunks)

lemmas hc_move = move_def next_label_def follow_def httpclient_rows httpclient_transitions

section \<open>Digits, reasons and fixed characters\<close>

lemma hc_digit_moves:
  assumes "digit c"
  shows "move httpclient_items r 16 c = ([R_mark], 17)" "move httpclient_items r 17 c = ([], 17)"
    "move httpclient_items r 112 c = ([R_start_value], 119)" "move httpclient_items r 119 c = ([], 119)"
  using assms unfolding digit_def by (simp_all add: hc_move)

lemma hc_reason_moves:
  assumes "value_char c"
  shows "move httpclient_items r 18 c = ([R_mark], 19)" "move httpclient_items r 19 c = ([], 19)" "move httpclient_items r 23 c = ([], 23)"
  using schar_value [OF assms] by (elim disjE; simp add: hc_move)+

lemma hc_fixed_moves:
  "move httpclient_items r (Suc 0) (CHR ''H'') = ([R_mark], 8)" "move httpclient_items r 8 (CHR ''T'') = ([], 9)"
  "move httpclient_items r 9 (CHR ''T'') = ([], 10)" "move httpclient_items r 10 (CHR ''P'') = ([], 11)"
  "move httpclient_items r 11 (CHR ''/'') = ([], 12)" "move httpclient_items r 12 (CHR ''1'') = ([], 13)"
  "move httpclient_items r 13 (CHR ''.'') = ([], 14)" "move httpclient_items r 14 (CHR ''0'') = ([], 15)"
  "move httpclient_items r 14 (CHR ''1'') = ([], 15)" "move httpclient_items r 15 (CHR '' '') = ([R_http_version], 16)"
  "move httpclient_items r 17 (CHR '' '') = ([R_status_code], 18)"
  "move httpclient_items r 19 (CHR 0x0D) = ([R_reason_phrase], 24)" "move httpclient_items r 24 (CHR 0x0A) = ([], 20)"
  "move httpclient_items r 21 (CHR '':'') = ([R_write_field], 22)"
  "move httpclient_items r 22 (CHR 0x0D) = ([R_start_value, R_write_value], 24)"
  "move httpclient_items r 23 (CHR 0x0D) = ([R_write_value], 24)"
  "move httpclient_items r 119 (CHR 0x0D) = ([R_write_content_len, R_write_value], 24)"
  "move httpclient_items r 20 (CHR 0x0D) = ([], 3)" "move httpclient_items r 3 (CHR 0x0A) = ([R_done], 120)"
  "move httpclient_items r (Suc 0) (CHR '' '') = ([], 0)"
  by (simp_all add: hc_move schar_def)

text \<open>Blanks before a value, and the first character of a value.\<close>

definition blank :: "char \<Rightarrow> bool" where
  "blank c \<longleftrightarrow> c \<in> {CHR '' '', CHR 0x09, CHR 0x0B, CHR 0x0C}"

lemma schar_blank: "blank c \<longleftrightarrow> schar c \<in> {32, 9, 11, 12}"
proof -
  have "blank c \<longleftrightarrow> schar c \<in> {schar (CHR '' ''), schar (CHR 0x09), schar (CHR 0x0B), schar (CHR 0x0C)}"
    by (simp only: blank_def insert_iff empty_iff schar_inj)
  then show ?thesis by (simp add: schar_def)
qed

lemma hc_blank_moves:
  assumes "blank c"
  shows "move httpclient_items r 22 c = ([R_start_value], 22)" "move httpclient_items r 35 c = ([R_start_value], 35)"
    "move httpclient_items r 61 c = ([R_start_value], 61)" "move httpclient_items r 112 c = ([R_start_value], 112)"
  using assms unfolding schar_blank insert_iff empty_iff by (elim disjE; simp add: hc_move)+

lemma hc_value_moves:
  assumes "value_char c" "\<not> blank c"
  shows "move httpclient_items r 22 c = ([R_start_value], 23)"
    "low c \<noteq> low (CHR ''c'') \<Longrightarrow> move httpclient_items r 35 c = ([R_start_value], 23)"
    "low c \<noteq> low (CHR ''c'') \<Longrightarrow> move httpclient_items r 61 c = ([R_start_value], 23)"
proof -
  have n: "schar c \<noteq> 32" "schar c \<noteq> 9" "schar c \<noteq> 11" "schar c \<noteq> 12" using assms(2) by (simp_all add: schar_blank)
  then show "move httpclient_items r 22 c = ([R_start_value], 23)"
    using schar_value [OF assms(1)] by (elim disjE; simp add: hc_move; linarith?)
  assume "low c \<noteq> low (CHR ''c'')"
  then have "c \<noteq> CHR ''c''" "c \<noteq> CHR ''C''" by (auto simp: low_def)
  then have "schar c \<noteq> schar (CHR ''c'')" "schar c \<noteq> schar (CHR ''C'')" by (simp_all only: schar_inj not_False_eq_True)
  then have "schar c \<noteq> 99" "schar c \<noteq> 67" by (simp_all add: schar_def)
  then show "move httpclient_items r 35 c = ([R_start_value], 23)" "move httpclient_items r 61 c = ([R_start_value], 23)"
    using n schar_value [OF assms(1)] by (elim disjE; simp add: hc_move; linarith?)+
qed

section \<open>Names of headers\<close>

lemma name_low:
  assumes "name_char c"
  shows "int (low c) = (if 65 \<le> schar c \<and> schar c \<le> 90 then schar c + 32 else schar c)"
proof -
  have "0 \<le> schar c" using schar_name [OF assms] by linarith
  moreover obtain n where n: "of_char c = n" "n \<le> 255" "schar c = (if n < 128 then int n else int n - 256)"
    using schar_nat by blast
  ultimately have "n < 128" "schar c = int n" by (auto split: if_splits)
  then show ?thesis using n(1) by (auto simp: low_def Let_def)
qed

lemma name_low_eq:
  "name_char c \<Longrightarrow> low c = k \<longleftrightarrow> (if 65 \<le> schar c \<and> schar c \<le> 90 then schar c + 32 else schar c) = int k"
  using name_low by fastforce

text \<open>A row of the machine that waits for one letter, in upper (\<open>u\<close>) or lower case.\<close>

definition letter_row :: "label \<Rightarrow> int \<Rightarrow> nat \<Rightarrow> (int \<times> int \<times> label) list" where
  "letter_row l u t = [(33, 33, ST 21), (35, 39, ST 21), (42, 43, ST 21), (45, 46, ST 21), (48, 57, ST 21), (58, 58, l),
     (65, u - 1, ST 21), (u, u, ST t), (u + 1, 90, ST 21), (94, u + 31, ST 21), (u + 32, u + 32, ST t), (u + 33, 122, ST 21),
     (124, 124, ST 21), (126, 126, ST 21)]"

lemma find_letter_row:
  assumes "name_char c" "66 \<le> u" "u \<le> 89"
  shows "find_label (letter_row l u t) (schar c) = ST (if int (low c) = u + 32 then t else 21)"
  using schar_name [OF assms(1)] assms(2,3) name_low [OF assms(1)]
  by (elim disjE; simp add: letter_row_def; linarith?)

lemma hc_letter_move:
  assumes "find_state q httpclient_items = Some (False, letter_row l u t)" "name_char c" "66 \<le> u" "u \<le> 89"
  shows "move httpclient_items r q c = ([], if int (low c) = u + 32 then t else 21)"
  using find_letter_row [OF assms(2-4)] assms(1) by (simp add: move_def next_label_def follow_def)

text \<open>The states with such rows: state, letter, and the state the letter leads to.\<close>

definition letter_states :: "(nat \<times> nat \<times> nat) list" where
  "letter_states = [(25, 79, 26), (26, 78, 27), (28, 69, 29), (29, 67, 30), (30, 84, 31), (31, 73, 32), (32, 79, 33), (33, 78,
    34), (44, 82, 45), (46, 78, 47), (47, 83, 48), (48, 70, 49), (49, 69, 50), (50, 82, 51), (52, 69, 53), (53,
    78, 54), (54, 67, 55), (55, 79, 56), (56, 68, 57), (57, 73, 58), (58, 78, 59), (59, 71, 60), (101, 69, 102),
    (102, 78, 103), (103, 84, 104), (105, 76, 106), (106, 69, 107), (107, 78, 108), (108, 71, 109), (109, 84,
    110), (110, 72, 111)]"

lemma letter_rows:
  "list_all (\<lambda>(q, u, t). find_state q httpclient_items = Some (False, letter_row (TR 39) (int u) t) \<and> 66 \<le> u \<and> u \<le> 89) letter_states"
  by (simp add: letter_states_def httpclient_rows letter_row_def)

lemma hc_letter_moves:
  assumes "(q, u, t) \<in> set letter_states" "name_char c"
  shows "move httpclient_items r q c = ([], if low c = u + 32 then t else 21)"
proof -
  have "find_state q httpclient_items = Some (False, letter_row (TR 39) (int u) t)" "66 \<le> int u" "int u \<le> 89"
    using letter_rows assms(1) by (auto simp: list_all_iff)
  moreover have "int (low c) = int u + 32 \<longleftrightarrow> low c = u + 32" by linarith
  ultimately show ?thesis using hc_letter_move [OF _ assms(2), of q "TR 39" "int u" t r] by simp
qed

text \<open>The other states: two letters, the letter A, a hyphen, the end of a name it knows, any other name.\<close>

lemma hc_other_moves:
  assumes "name_char c"
  shows "move httpclient_items r 27 c = ([], if low c = 110 then 28 else if low c = 116 then 101 else 21)"
    "move httpclient_items r 45 c = ([], if low c = 97 then 46 else 21)"
    "move httpclient_items r 51 c = ([], if low c = 45 then 52 else 21)"
    "move httpclient_items r 104 c = ([], if low c = 45 then 105 else 21)"
    "move httpclient_items r 34 c = ([], 21)" "move httpclient_items r 60 c = ([], 21)"
    "move httpclient_items r 111 c = ([], 21)" "move httpclient_items r 21 c = ([], 21)"
    "move httpclient_items r 20 c = ([R_start_field], if low c = 99 then 25 else if low c = 116 then 44 else 21)"
  using schar_name [OF assms] unfolding name_low_eq [OF assms]
  by (elim disjE; simp add: hc_move; linarith?)+

text \<open>
  What can still follow for the name to be one that the machine knows, and the state that reads its value
  then.  A character of the name takes the first letters away.
\<close>

definition known_names :: "(nat list \<times> nat) list" where
  "known_names = [(lower ''connection'', 35), (lower ''content-length'', 112), (lower ''transfer-encoding'', 61)]"

definition name_rest :: "nat \<Rightarrow> (nat list \<times> nat) list" where
  "name_rest q =
     (if 25 \<le> q \<and> q \<le> 34 then [(drop (q - 24) (lower ''connection''), 35)] else [])
     @ (if 25 \<le> q \<and> q \<le> 27 then [(drop (q - 24) (lower ''content-length''), 112)] else [])
     @ (if 101 \<le> q \<and> q \<le> 111 then [(drop (q - 97) (lower ''content-length''), 112)] else [])
     @ (if 44 \<le> q \<and> q \<le> 60 then [(drop (q - 43) (lower ''transfer-encoding''), 61)] else [])"

definition follow_names :: "nat \<Rightarrow> (nat list \<times> nat) list \<Rightarrow> (nat list \<times> nat) list" where
  "follow_names x ws = map (\<lambda>(w, t). (tl w, t)) (filter (\<lambda>(w, t). w \<noteq> [] \<and> hd w = x) ws)"

definition name_states :: "nat list" where
  "name_states = map fst letter_states @ [27, 45, 51, 104, 34, 60, 111, 21]"

lemma letter_rest:
  "list_all (\<lambda>(q, u, t). list_all (\<lambda>(w, _). w \<noteq> [] \<and> hd w = u + 32) (name_rest q) \<and>
     name_rest t = map (\<lambda>(w, t). (tl w, t)) (name_rest q) \<and> t \<in> set name_states) letter_states"
  by code_simp

lemma other_rest:
  "name_rest 27 = [([110, 101, 99, 116, 105, 111, 110], 35), ([116, 101, 110, 116, 45, 108, 101, 110, 103, 116, 104], 112)]"
  "name_rest 28 = [([101, 99, 116, 105, 111, 110], 35)]" "name_rest 101 = [([101, 110, 116, 45, 108, 101, 110, 103, 116, 104], 112)]"
  "name_rest 45 = [([97, 110, 115, 102, 101, 114, 45, 101, 110, 99, 111, 100, 105, 110, 103], 61)]"
  "name_rest 46 = [([110, 115, 102, 101, 114, 45, 101, 110, 99, 111, 100, 105, 110, 103], 61)]"
  "name_rest 51 = [([45, 101, 110, 99, 111, 100, 105, 110, 103], 61)]" "name_rest 52 = [([101, 110, 99, 111, 100, 105, 110, 103], 61)]"
  "name_rest 104 = [([45, 108, 101, 110, 103, 116, 104], 112)]" "name_rest 105 = [([108, 101, 110, 103, 116, 104], 112)]"
  "name_rest 34 = [([], 35)]" "name_rest 60 = [([], 61)]" "name_rest 111 = [([], 112)]" "name_rest 21 = []"
  by code_simp+

lemma known_rest:
  "follow_names x known_names = (if x = 99 then name_rest 25 else if x = 116 then name_rest 44 else [])"
proof -
  define a b c where "a = drop 1 (lower ''connection'')" and "b = drop 1 (lower ''content-length'')"
    and "c = drop 1 (lower ''transfer-encoding'')"
  have k: "known_names = [(99 # a, 35), (99 # b, 112), (116 # c, 61)]" unfolding a_def b_def c_def by code_simp
  have "name_rest 25 = [(a, 35), (b, 112)]" "name_rest 44 = [(c, 61)]" unfolding a_def b_def c_def by code_simp+
  then show ?thesis unfolding k by (simp add: follow_names_def)
qed

lemma in_name_states:
  "28 \<in> set name_states" "101 \<in> set name_states" "46 \<in> set name_states" "52 \<in> set name_states" "105 \<in> set name_states"
  "21 \<in> set name_states" "25 \<in> set name_states" "44 \<in> set name_states"
  by code_simp+

lemma hc_name_step:
  assumes "q \<in> set name_states" "name_char c"
  shows "\<exists>n \<in> set name_states. move httpclient_items r q c = ([], n) \<and> name_rest n = follow_names (low c) (name_rest q)"
proof (cases "q \<in> set (map fst letter_states)")
  case True
  then obtain u t where q: "(q, u, t) \<in> set letter_states" by auto
  then have ws: "\<forall>(w, _) \<in> set (name_rest q). w \<noteq> [] \<and> hd w = u + 32" and t: "t \<in> set name_states"
    and rest: "name_rest t = map (\<lambda>(w, t). (tl w, t)) (name_rest q)"
    using letter_rest by (auto simp: list_all_iff)
  have "follow_names (low c) (name_rest q) = (if low c = u + 32 then name_rest t else [])"
  proof (cases "low c = u + 32")
    case True
    then have "filter (\<lambda>(w, t). w \<noteq> [] \<and> hd w = low c) (name_rest q) = name_rest q"
      using ws by (auto intro!: filter_True)
    then show ?thesis using True by (simp add: follow_names_def rest)
  next
    case False
    then have "filter (\<lambda>(w, t). w \<noteq> [] \<and> hd w = low c) (name_rest q) = []"
      using ws by (auto simp: filter_empty_conv)
    then show ?thesis using False by (simp add: follow_names_def)
  qed
  then show ?thesis using hc_letter_moves [OF q assms(2), of r] t in_name_states(6) other_rest(13) by auto
next
  case False
  then have "q \<in> {27, 45, 51, 104, 34, 60, 111, 21}" using assms(1) by (auto simp: name_states_def)
  then show ?thesis
    using hc_other_moves [OF assms(2), of r] in_name_states
    by (elim insertE emptyE; simp add: other_rest follow_names_def)
qed

definition value_state :: "(nat list \<times> nat) list \<Rightarrow> nat" where
  "value_state ws = (case find (\<lambda>(w, t). w = []) ws of Some (_, t) \<Rightarrow> t | None \<Rightarrow> 22)"

lemma hc_colon_letter: "list_all (\<lambda>(q, _). value_state (name_rest q) = 22) letter_states"
  by code_simp

lemma hc_colon_move:
  assumes "q \<in> set name_states"
  shows "move httpclient_items r q (CHR '':'') = ([R_write_field], value_state (name_rest q))"
proof (cases "q \<in> set (map fst letter_states)")
  case True
  then obtain u t where q: "(q, u, t) \<in> set letter_states" by auto
  then have "find_state q httpclient_items = Some (False, letter_row (TR 39) (int u) t)" "66 \<le> int u"
    using letter_rows by (auto simp: list_all_iff)
  moreover have "schar (CHR '':'') = 58" by (simp add: schar_def)
  ultimately have "move httpclient_items r q (CHR '':'') = ([R_write_field], 22)"
    by (simp add: move_def next_label_def follow_def letter_row_def httpclient_transitions)
  then show ?thesis using hc_colon_letter q by (auto simp: list_all_iff)
next
  case False
  then have "q \<in> {27, 45, 51, 104, 34, 60, 111, 21}" using assms by (auto simp: name_states_def)
  then show ?thesis
    by (elim insertE emptyE; simp add: other_rest value_state_def hc_move schar_def)
qed

text \<open>A whole name, and the state that reads its value.\<close>

lemma find_follow:
  "find (\<lambda>(w, t). w = ys) (follow_names x ws) = map_option (\<lambda>(w, t). (tl w, t)) (find (\<lambda>(w, t). w = x # ys) ws)"
proof (induction ws)
  case (Cons wt ws)
  obtain w t where wt: "wt = (w, t)" by (cases wt)
  show ?case
  proof (cases w)
    case Nil
    then show ?thesis using Cons.IH by (simp add: wt follow_names_def)
  next
    case (Cons y w')
    then show ?thesis using Cons.IH by (cases "y = x"; cases "w' = ys") (simp_all add: wt follow_names_def)
  qed
qed (simp add: follow_names_def)

lemma find_follow_all:
  "find (\<lambda>(w, t). w = ys) (fold follow_names xs ws) =
     map_option (\<lambda>(w, t). (drop (length xs) w, t)) (find (\<lambda>(w, t). w = xs @ ys) ws)"
proof (induction xs arbitrary: ws)
  case Nil
  then show ?case by (simp add: option.map_ident case_prod_eta)
next
  case (Cons x xs)
  have "find (\<lambda>(w, t). w = ys) (fold follow_names (x # xs) ws) =
      map_option (\<lambda>(w, t). (drop (length xs) w, t)) (map_option (\<lambda>(w, t). (tl w, t)) (find (\<lambda>(w, t). w = x # xs @ ys) ws))"
    using Cons.IH [of "follow_names x ws"] by (simp only: fold_Cons comp_apply find_follow)
  also have "\<dots> = map_option (\<lambda>(w, t). (drop (length (x # xs)) w, t)) (find (\<lambda>(w, t). w = (x # xs) @ ys) ws)"
    by (cases "find (\<lambda>(w, t). w = x # xs @ ys) ws") (auto simp: drop_Suc)
  finally show ?case .
qed

definition entry_state :: "string \<Rightarrow> nat" where
  "entry_state n = (if lower n = lower ''connection'' then 35 else if lower n = lower ''content-length'' then 112
     else if lower n = lower ''transfer-encoding'' then 61 else 22)"

lemma value_state_known: "value_state (fold follow_names (lower n) known_names) = entry_state n"
proof -
  have ne: "lower ''connection'' \<noteq> lower ''content-length''" "lower ''connection'' \<noteq> lower ''transfer-encoding''"
    "lower ''content-length'' \<noteq> lower ''transfer-encoding''"
    by code_simp+
  show ?thesis
    unfolding value_state_def find_follow_all entry_state_def using ne ne [symmetric]
    by (auto simp: known_names_def)
qed

end
