(* ===== verification/Http_Response_Parse.thy ===== *)
theory Http_Response_Parse
  imports Http_Response_Moves
begin

text \<open>
  The response parser on well-formed heads and on arbitrary input: the runs of the generated machine over
  the parts of a head, the calls they make and the response that results.
\<close>

section \<open>Headers\<close>

definition reason_ok :: "string \<Rightarrow> bool" where
  "reason_ok r \<longleftrightarrow> r \<noteq> [] \<and> list_all value_char r"

text \<open>The value that the parser delivers is the text without the blanks before it.\<close>

definition stripped :: "string \<Rightarrow> string" where
  "stripped v = dropWhile blank v"

text \<open>
  A header that is read as it stands: any name and any value of the characters of the grammar, except that
  the value of a content length is a number, and that a connection or a transfer encoding is neither empty nor a word
  that starts like \<^verbatim>\<open>close\<close> and \<^verbatim>\<open>chunked\<close>, which the machine takes for itself.
\<close>

definition response_header_ok :: "string \<Rightarrow> string \<Rightarrow> bool" where
  "response_header_ok n v \<longleftrightarrow> name_ok n \<and> list_all value_char v \<and>
     (if lower n = lower ''content-length'' then stripped v \<noteq> [] \<and> list_all digit (stripped v)
      else if lower n = lower ''connection'' \<or> lower n = lower ''transfer-encoding''
      then stripped v \<noteq> [] \<and> low (hd (stripped v)) \<noteq> low (CHR ''c'') else True)"

abbreviation hc_steps where "hc_steps buffer len \<equiv> steps httpclient_items False response_brk (response_exec buffer len)"

lemma hc_not_breaking [simp]:
  "\<not> breaks response_brk []" "breaks response_brk (a # as) \<longleftrightarrow> a = R_done \<or> breaks response_brk as"
  by (auto simp: breaks_def response_brk_def)

section \<open>Runs over the parts of a head\<close>

definition status_line :: "byte \<Rightarrow> nat \<Rightarrow> string \<Rightarrow> string" where
  "status_line v code reason = (''HTTP/'' @ version_text v @ '' '') @ (dec code @ '' '') @ reason @ crlf"

definition status_events :: "nat \<Rightarrow> string \<Rightarrow> response_event list" where
  "status_events code reason = [Rs_element Rs_http_version 0 8, Rs_element Status_code 9 (length (dec code)),
     Rs_element Reason_phrase (10 + length (dec code)) (length reason)]"

lemma dec_nonempty: "dec n \<noteq> []"
  unfolding dec_def by (rule digits_nonempty) simp

lemma hc_loop:
  assumes "xs \<noteq> []" "move httpclient_items False s (hd xs) = (acts, t)" "\<not> breaks response_brk acts"
    and "\<forall>c \<in> set (tl xs). move httpclient_items False t c = ([], t)" "t \<noteq> 0"
  shows "hc_steps buffer len p xs s x = Some (t, fold (\<lambda>a. response_exec buffer len a p) acts x)"
proof -
  obtain c cs where xs: "xs = c # cs" using assms(1) by (cases xs) auto
  have "hc_steps buffer len q cs t y = Some (t, y)" for q y by (rule steps_loop) (use assms xs in auto)
  then show ?thesis using assms xs by simp
qed

lemma hc_steps_status_line:
  assumes "v = 0x10 \<or> v = 0x11" "reason_ok reason"
  shows "\<exists>ps'. hc_steps buffer len 0 (status_line v code reason) 1 (ps, evs) = Some (20, ps', evs @ status_events code reason)"
proof -
  have version: "version_text v = (if v = 0x10 then ''1.0'' else ''1.1'')"
    using assms(1) by (auto simp: version_text_def dec_def)
  have v: "hc_steps buffer len 0 (''HTTP/'' @ version_text v @ '' '') 1 (ps, evs) =
      Some (16, ps\<lparr>hc_mark := 0\<rparr>, evs @ [Rs_element Rs_http_version 0 8])"
    unfolding version by (simp add: hc_fixed_moves usub64_def)
  have d: "digit (hd (dec code))" "\<forall>c \<in> set (tl (dec code)). digit c"
    using dec_nonempty [of code] dec_digits [of _ code] by (auto dest: list.set_sel)
  have code: "hc_steps buffer len p (dec code) 16 (ps', evs') = Some (17, ps'\<lparr>hc_mark := p\<rparr>, evs')" for p ps' evs'
    using hc_loop [OF dec_nonempty, of 16 code "[R_mark]" 17] d hc_digit_moves by simp
  have r: "reason \<noteq> []" "value_char (hd reason)" "\<forall>c \<in> set (tl reason). value_char c"
    using assms(2) by (cases reason; auto simp: reason_ok_def list_all_iff)+
  have reason: "hc_steps buffer len p reason 18 (ps', evs') = Some (19, ps'\<lparr>hc_mark := p\<rparr>, evs')" for p ps' evs'
    using hc_loop [OF r(1), of 18 "[R_mark]" 19] r hc_reason_moves by simp
  show ?thesis
    unfolding status_line_def steps_then [OF v]
    by (simp add: steps_append code reason hc_fixed_moves crlf_def version status_events_def)
qed

text \<open>The name of a header: the machine follows the names it knows, and is in the state for its value after the colon.\<close>

lemma no_zero_state: "0 \<notin> set name_states"
  by code_simp

lemma hc_steps_name_from:
  assumes "q \<in> set name_states" "\<forall>c \<in> set cs. name_char c"
  shows "\<exists>q' \<in> set name_states. hc_steps buffer len p cs q x = Some (q', x) \<and>
    name_rest q' = fold follow_names (map low cs) (name_rest q)"
  using assms
proof (induction cs arbitrary: p q)
  case (Cons c cs)
  obtain n where n: "n \<in> set name_states" "move httpclient_items False q c = ([], n)"
      "name_rest n = follow_names (low c) (name_rest q)"
    using hc_name_step [of q c False] Cons.prems by auto
  obtain q' where "q' \<in> set name_states" "hc_steps buffer len (Suc p) cs n x = Some (q', x)"
      "name_rest q' = fold follow_names (map low cs) (name_rest n)"
    using Cons.IH [OF n(1), of "Suc p"] Cons.prems by auto
  moreover have "n \<noteq> 0" using n(1) no_zero_state by metis
  ultimately show ?case using n by (intro bexI [of _ q']) auto
qed auto

lemma lower_name:
  assumes "name_ok n"
  shows "lower n = map low n"
proof -
  have "\<not> name_char NUL" by code_simp
  then have "NUL \<notin> set n" using assms by (auto simp: name_ok_def list_all_iff)
  then have "cstr n = n" by (rule cstr_id)
  then show ?thesis by (simp add: lower_def)
qed

lemma hc_steps_name:
  assumes "name_ok n"
  shows "hc_steps buffer len p (n @ '':'') 20 (ps, evs) =
    Some (entry_state n, ps\<lparr>hc_field_start := p, hc_field_len := length n\<rparr>, evs)"
proof -
  obtain c cs where n: "n = c # cs" "name_char c" "\<forall>c \<in> set cs. name_char c"
    using assms by (cases n) (auto simp: name_ok_def list_all_iff)
  define q :: nat where "q = (if low c = 99 then 25 else if low c = 116 then 44 else 21)"
  have q: "q \<in> set name_states" "name_rest q = follow_names (low c) known_names"
    using in_name_states(6-8) known_rest [of "low c"] other_rest(13) by (auto simp: q_def)
  have first: "move httpclient_items False 20 c = ([R_start_field], q)"
    using hc_other_moves(9) [OF n(2)] by (simp add: q_def)
  have nz: "q \<noteq> 0" using q(1) no_zero_state by metis
  obtain q' where q': "q' \<in> set name_states" "name_rest q' = fold follow_names (map low cs) (name_rest q)"
      "hc_steps buffer len (Suc p) cs q (ps\<lparr>hc_field_start := p\<rparr>, evs) = Some (q', ps\<lparr>hc_field_start := p\<rparr>, evs)"
    using hc_steps_name_from [OF q(1) n(3), of buffer len "Suc p" "(ps\<lparr>hc_field_start := p\<rparr>, evs)"] by blast
  have "value_state (name_rest q') = entry_state n"
    using value_state_known [of n] by (simp add: q' q(2) n(1) lower_name [OF assms, unfolded n(1)])
  then have colon: "move httpclient_items False q' (CHR '':'') = ([R_write_field], entry_state n)"
    using hc_colon_move [OF q'(1), of False] by simp
  have "entry_state n \<noteq> 0" by (simp add: entry_state_def)
  then show ?thesis using first nz q'(3) colon by (simp add: n(1) steps_append usub64_def)
qed

text \<open>
  A value and the end of the line, in each of the four states after the colon.  The mark follows the blanks,
  so the value that is delivered begins behind them.
\<close>

definition value_fits :: "nat \<Rightarrow> string \<Rightarrow> bool" where
  "value_fits q v \<longleftrightarrow> list_all value_char v \<and>
     (q = 22 \<or> (q = 35 \<or> q = 61) \<and> stripped v \<noteq> [] \<and> low (hd (stripped v)) \<noteq> low (CHR ''c'') \<or>
      q = 112 \<and> stripped v \<noteq> [] \<and> list_all digit (stripped v))"

lemma hc_steps_blanks:
  assumes "\<forall>c \<in> set bs. blank c" "q = 22 \<or> q = 35 \<or> q = 61 \<or> q = 112"
  shows "\<exists>m. hc_steps buffer len p bs q (ps, evs) = Some (q, ps\<lparr>hc_mark := m\<rparr>, evs)"
  using assms(1)
proof (induction bs arbitrary: p ps)
  case Nil
  then show ?case by (intro exI [of _ "hc_mark ps"]) simp
next
  case (Cons b bs)
  obtain m where "hc_steps buffer len (Suc p) bs q (ps\<lparr>hc_mark := p\<rparr>, evs) = Some (q, ps\<lparr>hc_mark := p, hc_mark := m\<rparr>, evs)"
    using Cons.IH [of "Suc p" "ps\<lparr>hc_mark := p\<rparr>"] Cons.prems by auto
  moreover have "move httpclient_items False q b = ([R_start_value], q)"
    using hc_blank_moves [of b False] Cons.prems assms(2) by auto
  ultimately show ?case using assms(2) by (intro exI [of _ m]) auto
qed

lemma hc_steps_first:
  assumes "value_fits q v" "stripped v \<noteq> []"
  shows "\<exists>ps'. hc_steps buffer len p (stripped v @ crlf) q (ps, evs) =
    Some (20, ps', evs @ [Rs_field (hc_field_start ps) (hc_field_len ps) p (length (stripped v))])"
proof -
  let ?s = "stripped v"
  have hd: "\<not> blank (hd ?s)" using assms(2) hd_dropWhile [of blank v] by (simp add: stripped_def)
  have chars: "\<forall>c \<in> set ?s. value_char c"
    using assms(1) by (auto simp: value_fits_def list_all_iff stripped_def dest: set_dropWhileD)
  then have hv: "value_char (hd ?s)" and tv: "\<forall>c \<in> set (tl ?s). value_char c"
    using assms(2) by (auto dest: list.set_sel)
  show ?thesis
  proof (cases "q = 112")
    case True
    then have "list_all digit ?s" using assms(1) by (simp add: value_fits_def)
    then have d: "digit (hd ?s)" "\<forall>c \<in> set (tl ?s). digit c" using assms(2) by (auto simp: list_all_iff dest: list.set_sel)
    have "hc_steps buffer len p ?s 112 (ps, evs) = Some (119, ps\<lparr>hc_mark := p\<rparr>, evs)"
      using hc_loop [OF assms(2), of 112 "[R_start_value]" 119] d hc_digit_moves by simp
    then show ?thesis by (simp add: True steps_append hc_fixed_moves crlf_def)
  next
    case False
    then have "move httpclient_items False q (hd ?s) = ([R_start_value], 23)"
      using hc_value_moves [OF hv hd, of False] assms(1) by (auto simp: value_fits_def)
    then have "hc_steps buffer len p ?s q (ps, evs) = Some (23, ps\<lparr>hc_mark := p\<rparr>, evs)"
      using hc_loop [OF assms(2), of q "[R_start_value]" 23] tv hc_reason_moves by simp
    then show ?thesis by (simp add: steps_append hc_fixed_moves crlf_def)
  qed
qed

definition skipped :: "string \<Rightarrow> nat" where
  "skipped v = length v - length (stripped v)"

lemma stripped_split: "v = takeWhile blank v @ stripped v" "length (takeWhile blank v) = skipped v"
proof -
  show 1: "v = takeWhile blank v @ stripped v" by (simp add: stripped_def)
  have "length v = length (takeWhile blank v) + length (stripped v)" using arg_cong [OF 1, of length] by simp
  then show "length (takeWhile blank v) = skipped v" by (simp add: skipped_def)
qed

lemma hc_steps_value:
  assumes "value_fits q v"
  shows "\<exists>ps'. hc_steps buffer len p (v @ crlf) q (ps, evs) =
    Some (20, ps', evs @ [Rs_field (hc_field_start ps) (hc_field_len ps) (p + skipped v) (length (stripped v))])"
proof -
  let ?b = "takeWhile blank v"
  have q: "q = 22 \<or> q = 35 \<or> q = 61 \<or> q = 112" using assms by (auto simp: value_fits_def)
  obtain m where b: "hc_steps buffer len p ?b q (ps, evs) = Some (q, ps\<lparr>hc_mark := m\<rparr>, evs)"
    using hc_steps_blanks [OF _ q] set_takeWhileD by metis
  have split: "v @ crlf = ?b @ stripped v @ crlf" using stripped_split(1) [of v] by simp
  show ?thesis
  proof (cases "stripped v = []")
    case True
    then have "q = 22" using assms by (auto simp: value_fits_def)
    then show ?thesis unfolding split steps_then [OF b] stripped_split(2)
      by (simp add: True hc_fixed_moves crlf_def usub64_def)
  next
    case False
    then show ?thesis unfolding split steps_then [OF b] stripped_split(2)
      using hc_steps_first [OF assms False, of buffer len "p + skipped v" "ps\<lparr>hc_mark := m\<rparr>" evs] by simp
  qed
qed

lemma header_value_fits: "response_header_ok n v \<Longrightarrow> value_fits (entry_state n) v"
proof -
  have ne: "lower ''connection'' \<noteq> lower ''content-length''" "lower ''transfer-encoding'' \<noteq> lower ''content-length''"
    by code_simp+
  assume "response_header_ok n v"
  then show ?thesis using ne by (auto simp: response_header_ok_def value_fits_def entry_state_def split: if_splits)
qed

fun response_header_events :: "nat \<Rightarrow> (string \<times> string) list \<Rightarrow> response_event list" where
  "response_header_events p [] = []"
| "response_header_events p ((n, v) # hs) =
     Rs_field p (length n) (p + length n + 1 + skipped v) (length (stripped v))
       # response_header_events (p + length n + length v + 3) hs"

lemma hc_steps_header:
  assumes "response_header_ok n v"
  shows "\<exists>ps'. hc_steps buffer len p (n @ '':'' @ v @ crlf) 20 (ps, evs) =
    Some (20, ps', evs @ [Rs_field p (length n) (p + length n + 1 + skipped v) (length (stripped v))])"
proof -
  have n: "name_ok n" using assms by (simp add: response_header_ok_def)
  let ?ps = "ps\<lparr>hc_field_start := p, hc_field_len := length n\<rparr>"
  obtain ps' where v: "hc_steps buffer len (p + length (n @ '':'')) (v @ crlf) (entry_state n) (?ps, evs) =
      Some (20, ps', evs @ [Rs_field (hc_field_start ?ps) (hc_field_len ?ps) (p + length (n @ '':'') + skipped v) (length (stripped v))])"
    using hc_steps_value [OF header_value_fits [OF assms]] by blast
  have "hc_steps buffer len p ((n @ '':'') @ v @ crlf) 20 (ps, evs) =
      Some (20, ps', evs @ [Rs_field p (length n) (p + length n + 1 + skipped v) (length (stripped v))])"
    unfolding steps_then [OF hc_steps_name [OF n]] v by simp
  then show ?thesis by simp
qed

lemma hc_steps_headers:
  assumes "\<And>n v. (n, v) \<in> set hs \<Longrightarrow> response_header_ok n v"
  shows "\<exists>ps'. hc_steps buffer len p (header_text hs) 20 (ps, evs) = Some (20, ps', evs @ response_header_events p hs)"
  using assms
proof (induction hs arbitrary: p ps evs)
  case Nil
  then show ?case by (simp add: header_text_def)
next
  case (Cons nv hs)
  obtain n v where nv: "nv = (n, v)" by (cases nv)
  let ?e = "Rs_field p (length n) (p + length n + 1 + skipped v) (length (stripped v))"
  obtain ps1 where h: "hc_steps buffer len p (n @ '':'' @ v @ crlf) 20 (ps, evs) = Some (20, ps1, evs @ [?e])"
    using hc_steps_header Cons.prems nv by fastforce
  have text_eq: "header_text (nv # hs) = (n @ '':'' @ v @ crlf) @ header_text hs" by (simp add: nv header_text_def)
  have q: "p + length (n @ '':'' @ v @ crlf) = p + length n + length v + 3" by (simp add: crlf_def)
  obtain ps2 where "hc_steps buffer len (p + length n + length v + 3) (header_text hs) 20 (ps1, evs @ [?e]) =
      Some (20, ps2, (evs @ [?e]) @ response_header_events (p + length n + length v + 3) hs)"
    using Cons.IH [of "p + length n + length v + 3" ps1] Cons.prems by (metis list.set_intros(2))
  then show ?case unfolding text_eq steps_then [OF h] q by (simp add: nv)
qed

section \<open>A whole head\<close>

definition response_head :: "byte \<Rightarrow> nat \<Rightarrow> string \<Rightarrow> (string \<times> string) list \<Rightarrow> string" where
  "response_head v code reason hs = (status_line v code reason @ header_text hs) @ crlf"

definition response_head_events :: "byte \<Rightarrow> nat \<Rightarrow> string \<Rightarrow> (string \<times> string) list \<Rightarrow> response_event list" where
  "response_head_events v code reason hs =
     status_events code reason @ response_header_events (length (status_line v code reason)) hs"

lemma hc_steps_head:
  assumes "v = 0x10 \<or> v = 0x11" "reason_ok reason" "\<And>n v. (n, v) \<in> set hs \<Longrightarrow> response_header_ok n v"
  shows "\<exists>ps'. hc_steps buffer len 0 (status_line v code reason @ header_text hs) 1 (ps, []) =
     Some (20, ps', response_head_events v code reason hs)"
proof -
  let ?h = "length (status_line v code reason)"
  obtain ps1 where 1: "hc_steps buffer len 0 (status_line v code reason) 1 (ps, []) = Some (20, ps1, [] @ status_events code reason)"
    using hc_steps_status_line [OF assms(1,2)] by blast
  obtain ps2 where 2: "hc_steps buffer len (0 + ?h) (header_text hs) 20 (ps1, [] @ status_events code reason) =
      Some (20, ps2, ([] @ status_events code reason) @ response_header_events (0 + ?h) hs)"
    using hc_steps_headers [OF assms(3)] by blast
  show ?thesis
    unfolding steps_then [OF 1] 2 by (simp add: response_head_events_def)
qed

section \<open>Arbitrary input\<close>

text \<open>What the actions keep: every offset lies in the input.\<close>

definition response_offsets_ok :: "nat \<Rightarrow> nat \<Rightarrow> httpclient_parser \<times> response_event list \<Rightarrow> bool" where
  "response_offsets_ok len p x \<longleftrightarrow> (let ps = fst x in
     hc_mark ps < len \<and> hc_field_start ps \<le> p \<and> hc_field_start ps < len \<and> hc_field_len ps \<le> len \<and> hc_body_start ps \<le> len \<and>
     hc_nread ps = 0)"

lemma response_offsets_ok_exec: "p < len \<Longrightarrow> response_offsets_ok len p x \<Longrightarrow> response_offsets_ok len p (response_exec buffer len a p x)"
  by (cases x; cases a) (auto simp: response_offsets_ok_def Let_def)

lemma httpclient_execute_run:
  assumes "0 < len" "len < 2 ^ 31" "len < length buffer" "buffer ! len = NUL" "hc_cs ps \<le> 123" "hc_body_start ps \<le> len"
    and run: "run httpclient_items False response_brk (response_exec buffer len) 0 (take len buffer) (hc_cs ps)
      (ps\<lparr>hc_nread := 0, hc_mark := 0, hc_field_len := len, hc_field_start := 0\<rparr>, []) = (s, p, ps', evs)"
  shows "httpclient_parser_execute ps buffer len 0 = Inr (int p, ps'\<lparr>hc_cs := s, hc_nread := p\<rparr>, evs)" "p \<le> len" "s \<le> 123"
    "p < len \<Longrightarrow> s = 0 \<or> 120 \<le> s"
proof -
  have inv: "response_offsets_ok len p (ps', evs)"
    by (rule run_invariant [OF run, where bound = len])
      (use assms(1-6) response_offsets_ok_exec in \<open>auto simp: response_offsets_ok_def\<close>)
  show p: "p \<le> len" using run_bounds [OF run] by simp
  show "s \<le> 123" "p < len \<Longrightarrow> s = 0 \<or> 120 \<le> s"
    using httpclient_machine.run_outcome [OF run assms(5)] assms(3) by simp_all
  show "httpclient_parser_execute ps buffer len 0 = Inr (int p, ps'\<lparr>hc_cs := s, hc_nread := p\<rparr>, evs)"
    using assms inv p to_int32_small [of len] to_int32_small [of 0] to_int32_small [of p]
    by (simp add: httpclient_parser_execute_def Let_def response_offsets_ok_def)
qed

section \<open>The calls\<close>

lemma on_responses_append:
  "on_responses block (es @ fs) sp = (case on_responses block es sp of Inl e \<Rightarrow> Inl e | Inr sp' \<Rightarrow> on_responses block fs sp')"
  by (induction es arbitrary: sp) (auto split: sum.split)

lemma on_response_header_events:
  assumes "length pre = p" "\<And>n v. (n, v) \<in> set hs \<Longrightarrow> n \<noteq> []"
  shows "on_responses (pre @ header_text hs @ post) (response_header_events p hs) sp =
    Inr (sp\<lparr>sp_data := fold (\<lambda>(n, v). rs_setHeader n (stripped v)) hs (sp_data sp)\<rparr>)"
  using assms
proof (induction hs arbitrary: pre p sp)
  case (Cons nv hs)
  obtain n v where nv: "nv = (n, v)" by (cases nv)
  let ?block = "pre @ header_text (nv # hs) @ post"
  have n: "block_string ?block p (length n) = Inr n"
    using block_string_part [of pre p n "'':'' @ v @ crlf @ header_text hs @ post"] Cons.prems(1) by (simp add: nv header_text_def)
  have "?block = (pre @ n @ '':'' @ takeWhile blank v) @ stripped v @ crlf @ header_text hs @ post"
    using stripped_split(1) [of v] by (simp add: nv header_text_def)
  then have v: "block_string ?block (p + length n + 1 + skipped v) (length (stripped v)) = Inr (stripped v)"
    using block_string_part [of "pre @ n @ '':'' @ takeWhile blank v" "p + length n + 1 + skipped v" "stripped v"
        "crlf @ header_text hs @ post"] Cons.prems(1) stripped_split(2) [of v]
    by (simp only: length_append) simp
  have block: "?block = (pre @ n @ '':'' @ v @ crlf) @ header_text hs @ post" by (simp add: nv header_text_def)
  have "length (pre @ n @ '':'' @ v @ crlf) = p + length n + length v + 3" using Cons.prems(1) by (simp add: crlf_def)
  then have "on_responses ?block (response_header_events (p + length n + length v + 3) hs) sp' =
      Inr (sp'\<lparr>sp_data := fold (\<lambda>(n, v). rs_setHeader n (stripped v)) hs (sp_data sp')\<rparr>)" for sp'
    unfolding block by (rule Cons.IH) (use Cons.prems in auto)
  moreover have "n \<noteq> []" using Cons.prems nv by auto
  ultimately show ?case using n v
    by (simp add: nv on_response_http_field_def)
qed simp

text \<open>The response that the head stands for.\<close>

definition head_response :: "byte \<Rightarrow> nat \<Rightarrow> string \<Rightarrow> (string \<times> string) list \<Rightarrow> HttpResponse" where
  "head_response v code reason hs =
     fold (\<lambda>(n, v). rs_setHeader n (stripped v)) hs (rs_setReason reason (rs_setStatus (int code) (new_HttpResponse v True)))"

definition stripped_headers :: "(string \<times> string) list \<Rightarrow> (string \<times> string) list" where
  "stripped_headers hs = map (\<lambda>(n, v). (n, stripped v)) hs"

lemma fold_rs_setHeader:
  "fold (\<lambda>(n, v). rs_setHeader n (stripped v)) hs r =
     r\<lparr>rs_headers := fold (\<lambda>(n, v). hassign n v) (stripped_headers hs) (rs_headers r)\<rparr>"
  by (induction hs arbitrary: r) (auto simp: rs_setHeader_def stripped_headers_def)

lemma head_response_fields:
  "rs_version (head_response v code reason hs) = v" "rs_status (head_response v code reason hs) = int code"
  "rs_reason (head_response v code reason hs) = reason"
  "header_map (rs_headers (head_response v code reason hs)) = header_map (rev (stripped_headers hs))"
proof -
  let ?m = "fold (\<lambda>(n, v). hassign n v) (stripped_headers hs) []"
  have "header_order.keys_sorted ([] :: (string \<times> string) list)" by (simp add: header_order.keys_sorted_def)
  then have "header_map ?m = header_map (rev (stripped_headers hs))"
    using header_map_fold [of "[]" "stripped_headers hs"] by (auto simp: header_map_def)
  then show "header_map (rs_headers (head_response v code reason hs)) = header_map (rev (stripped_headers hs))"
    unfolding head_response_def fold_rs_setHeader
    by (simp add: rs_setReason_def rs_setStatus_def new_HttpResponse_def)
  show "rs_version (head_response v code reason hs) = v" "rs_status (head_response v code reason hs) = int code"
    "rs_reason (head_response v code reason hs) = reason"
    unfolding head_response_def fold_rs_setHeader by (simp_all add: rs_setReason_def rs_setStatus_def new_HttpResponse_def)
qed

lemma on_status_events:
  assumes "v = 0x10 \<or> v = 0x11" "code < 2 ^ 31"
  shows "on_responses (status_line v code reason @ post) (status_events code reason) sp =
    Inr (sp\<lparr>sp_data := rs_setReason reason (rs_setStatus (int code) (rs_setVersion v (sp_data sp)))\<rparr>)"
proof -
  let ?block = "status_line v code reason @ post"
  have len: "length (version_text v) = 3" using assms(1) by (auto simp: version_text_def dec_def)
  have block: "?block = ''HTTP/'' @ version_text v @ '' '' @ dec code @ '' '' @ reason @ crlf @ post" by (simp add: status_line_def)
  have v: "version_of (drop 0 ?block) 8 = Some v" unfolding block drop_0 by (rule version_of_text [OF assms(1)])
  have "drop 9 ?block = dec code @ '' '' @ reason @ crlf @ post"
    unfolding block using len by (simp add: drop_append)
  moreover have "atoi (dec code @ '' '' @ reason @ crlf @ post) = int code"
    by (rule atoi_dec [OF assms(2)]) (simp add: digit_val_def)
  ultimately have c: "atoi (drop 9 ?block) = int code" by simp
  have r: "block_string ?block (10 + length (dec code)) (length reason) = Inr reason"
    using block_string_part [of "''HTTP/'' @ version_text v @ '' '' @ dec code @ '' ''" _ reason "crlf @ post"] len
    unfolding block by simp
  show ?thesis using v c r
    by (cases sp; cases "sp_data sp") (simp add: status_events_def on_response_version_def on_response_status_def on_response_reason_def)
qed

lemma response_head_parses:
  assumes "v = 0x10 \<or> v = 0x11" "reason_ok reason" "code < 2 ^ 31"
    and hs: "\<And>n v. (n, v) \<in> set hs \<Longrightarrow> response_header_ok n v"
    and size: "length (response_head v code reason hs @ rest) < 2 ^ 31"
  shows "\<exists>data sp. response_execute (response_head v code reason hs @ rest @ NUL # behind)
       (length (response_head v code reason hs @ rest)) False (new_HttpResponseParser memory) =
       Inr (length (response_head v code reason hs), data, sp) \<and>
     response_isFinished sp = 1 \<and> \<not> response_hasError sp \<and> take (length rest) data = rest \<and>
     sp_data sp = head_response v code reason hs"
proof -
  define pre where "pre = status_line v code reason @ header_text hs"
  define block where "block = (pre @ crlf) @ rest @ NUL # behind"
  define len where "len = length (pre @ crlf @ rest)"
  have head: "response_head v code reason hs = pre @ crlf" by (simp add: response_head_def pre_def)
  let ?init = "httpclient_parser_init memory"
  let ?ps = "?init\<lparr>hc_nread := 0, hc_mark := 0, hc_field_len := len, hc_field_start := 0\<rparr>"
  let ?evs = "response_head_events v code reason hs"
  obtain ps' where st: "hc_steps block len 0 pre 1 (?ps, []) = Some (20, ps', ?evs)"
    using hc_steps_head [OF assms(1,2) hs] unfolding pre_def by blast
  have take: "take len block = pre @ crlf @ rest" by (simp add: len_def block_def)
  have cs: "hc_cs ?init = 1" "hc_body_start ?init = 0" by (simp_all add: httpclient_parser_init_def httpclient_parser_start_def)
  define q where "q = length (pre @ crlf)"
  have run: "run httpclient_items False response_brk (response_exec block len) 0 (take len block) (hc_cs ?init) (?ps, []) =
      (120, q, ps'\<lparr>hc_body_start := q\<rparr>, ?evs @ [Rs_element Rs_header_done q (usub64 len q)])"
    unfolding take cs run_steps [OF st] by (simp add: crlf_def hc_fixed_moves q_def)
  have len: "0 < len" "len < 2 ^ 31" "len < length block" "block ! len = NUL"
    using size unfolding head by (simp_all add: len_def block_def crlf_def nth_append)
  have ex: "httpclient_parser_execute ?init block len 0 =
      Inr (int q, ps'\<lparr>hc_body_start := q, hc_cs := 120, hc_nread := q\<rparr>, ?evs @ [Rs_element Rs_header_done q (usub64 len q)])"
    using httpclient_execute_run(1) [OF len _ _ run] cs by simp
  let ?sp = "(new_HttpResponseParser memory)\<lparr>sp_parser := ps'\<lparr>hc_body_start := q, hc_cs := 120, hc_nread := q\<rparr>\<rparr>"
  define sl where "sl = status_line v code reason"
  have names: "\<And>n v. (n, v) \<in> set hs \<Longrightarrow> n \<noteq> []" using hs by (auto simp: response_header_ok_def name_ok_def)
  have s: "on_responses block (status_events code reason) ?sp =
      Inr (?sp\<lparr>sp_data := rs_setReason reason (rs_setStatus (int code) (rs_setVersion v (sp_data ?sp)))\<rparr>)"
    using on_status_events [OF assms(1,3), of reason "header_text hs @ crlf @ rest @ NUL # behind"]
    by (simp add: block_def pre_def)
  have h: "on_responses block (response_header_events (length sl) hs) sp =
      Inr (sp\<lparr>sp_data := fold (\<lambda>(n, v). rs_setHeader n (stripped v)) hs (sp_data sp)\<rparr>)" for sp
    using on_response_header_events [of sl "length sl" hs "crlf @ rest @ NUL # behind", OF refl names]
    by (simp add: block_def pre_def sl_def)
  have "on_responses block (?evs @ [Rs_element Rs_header_done q (usub64 len q)]) ?sp =
      Inr (?sp\<lparr>sp_data := head_response v code reason hs\<rparr>)"
    unfolding response_head_events_def on_responses_append s sl_def [symmetric]
    by (simp add: h head_response_def new_HttpResponseParser_def rs_setVersion_def new_HttpResponse_def)
  then have "response_execute block len False (new_HttpResponseParser memory) =
      Inr (q, overwrite block 0 (take (len - q) (drop q block)), ?sp\<lparr>sp_data := head_response v code reason hs\<rparr>)"
    using ex by (simp add: response_execute_def new_HttpResponseParser_def)
  moreover have "take (len - q) (drop q block) = rest" by (simp add: len_def q_def block_def)
  ultimately show ?thesis
    unfolding head by (simp add: len_def q_def block_def overwrite_def response_isFinished_def response_hasError_def
      httpclient_parser_finish_def httpclient_parser_has_error_def httpclient_parser_is_finished_def
      httpclient_parser_error_def httpclient_parser_first_final_def new_HttpResponseParser_def)
qed

section \<open>The responses of the server\<close>

text \<open>What the server prints for a response is rejected at its first character.\<close>

lemma server_response_rejected:
  assumes "length (response_dump r) < 2 ^ 31"
  shows "\<exists>data sp. response_execute (response_dump r @ NUL # behind) (length (response_dump r)) False (new_HttpResponseParser memory) =
       Inr (0, data, sp) \<and> response_hasError sp \<and> response_isFinished sp = - 1"
proof -
  define rest where "rest = tl (response_dump r)"
  have dump: "response_dump r = CHR '' '' # rest" by (simp add: rest_def response_dump_def)
  let ?init = "httpclient_parser_init memory"
  let ?block = "response_dump r @ NUL # behind" and ?len = "length (response_dump r)"
  have cs: "hc_cs ?init = 1" "hc_body_start ?init = 0" by (simp_all add: httpclient_parser_init_def httpclient_parser_start_def)
  have run: "run httpclient_items False response_brk (response_exec ?block ?len) 0 (take ?len ?block) (hc_cs ?init)
      (?init\<lparr>hc_nread := 0, hc_mark := 0, hc_field_len := ?len, hc_field_start := 0\<rparr>, []) =
      (0, 0, ?init\<lparr>hc_nread := 0, hc_mark := 0, hc_field_len := ?len, hc_field_start := 0\<rparr>, [])"
    unfolding cs by (simp add: dump hc_fixed_moves)
  have "httpclient_parser_execute ?init ?block ?len 0 = Inr (int 0,
      ?init\<lparr>hc_nread := 0, hc_mark := 0, hc_field_len := ?len, hc_field_start := 0, hc_cs := 0, hc_nread := 0\<rparr>, [])"
    by (rule httpclient_execute_run(1) [OF _ assms _ _ _ _ run]) (simp_all add: dump cs)
  then show ?thesis
    by (simp add: response_execute_def new_HttpResponseParser_def response_isFinished_def response_hasError_def
      httpclient_parser_finish_def httpclient_parser_has_error_def httpclient_parser_error_def)
qed

end
