(* ===== verification/Stream.thy ===== *)
theory Stream
  imports Cpp_Strings
begin

text \<open>
  \<^verbatim>\<open>linko/stream.{h,cc}\<close>: reading and writing a fixed number of bytes by repeated calls of the virtual
  \<^verbatim>\<open>read\<close> and \<^verbatim>\<open>write\<close>, which are arguments: they take the length, and the state of the world, and give the
  value they return, the bytes they put at the buffer and the next state of the world.
\<close>

section \<open>The loops\<close>

type_synonym 'w stream_reader = "nat \<Rightarrow> 'w \<Rightarrow> int \<times> string \<times> 'w"
type_synonym 'w stream_writer = "string \<Rightarrow> nat \<Rightarrow> 'w \<Rightarrow> int \<times> 'w"
type_synonym ('b, 'w) stream_ba_reader = "nat \<Rightarrow> 'b \<Rightarrow> 'w \<Rightarrow> (cpp_error + int) \<times> 'b \<times> 'w"

text \<open>An \<^verbatim>\<open>int\<close> assigned to a \<^verbatim>\<open>size_t\<close>.\<close>

definition to_size_t :: "int \<Rightarrow> nat" where
  "to_size_t i = nat (i mod 2 ^ 64)"

text \<open>
  The loop of \<^verbatim>\<open>readFixSize(void*, size_t)\<close>: every call gets the start of the buffer, and the test \<^verbatim>\<open>len < 0\<close> of an unsigned
  \<open>len\<close> never succeeds.  A loop that never ends has the value \<open>None\<close>.
\<close>

partial_function (option) fix_read_loop :: "'w stream_reader \<Rightarrow> string \<Rightarrow> nat \<Rightarrow> 'w \<Rightarrow> (string \<times> 'w) option" where
  "fix_read_loop rd buffer left w =
     (if left = 0 then Some (buffer, w)
      else case rd left w of (r, bs, w') \<Rightarrow> fix_read_loop rd (overwrite buffer 0 bs) (usub64 left (to_size_t r)) w')"

definition readFixSize :: "'w stream_reader \<Rightarrow> string \<Rightarrow> nat \<Rightarrow> 'w \<Rightarrow> (int \<times> string \<times> 'w) option" where
  "readFixSize rd buffer len w = map_option (\<lambda>(b, w'). (int32_of (int len), b, w')) (fix_read_loop rd buffer len w)"

text \<open>
  The loops over a byte array, whose position moves with each call, and whose methods may throw; writing one
  calls \<^verbatim>\<open>read\<close>.
\<close>

partial_function (option) fix_ba_loop ::
  "('b, 'w) stream_ba_reader \<Rightarrow> 'b \<Rightarrow> nat \<Rightarrow> 'w \<Rightarrow> ((cpp_error + unit) \<times> 'b \<times> 'w) option" where
  "fix_ba_loop rd ba left w =
     (if left = 0 then Some (Inr (), ba, w)
      else case rd left ba w of
        (Inl e, ba', w') \<Rightarrow> Some (Inl e, ba', w')
      | (Inr r, ba', w') \<Rightarrow> fix_ba_loop rd ba' (usub64 left (to_size_t r)) w')"

definition readFixSize_ba :: "('b, 'w) stream_ba_reader \<Rightarrow> 'b \<Rightarrow> nat \<Rightarrow> 'w \<Rightarrow> ((cpp_error + int) \<times> 'b \<times> 'w) option" where
  "readFixSize_ba rd ba len w =
     map_option (\<lambda>(r, b, w'). (map_sum id (\<lambda>_. int32_of (int len)) r, b, w')) (fix_ba_loop rd ba len w)"

definition writeFixSize_ba :: "('b, 'w) stream_ba_reader \<Rightarrow> 'b \<Rightarrow> nat \<Rightarrow> 'w \<Rightarrow> ((cpp_error + int) \<times> 'b \<times> 'w) option" where
  "writeFixSize_ba rd ba len w =
     map_option (\<lambda>(r, b, w'). (map_sum id (\<lambda>_. int32_of (int len)) r, b, w')) (fix_ba_loop rd ba len w)"

partial_function (option) fix_write_loop :: "'w stream_writer \<Rightarrow> string \<Rightarrow> nat \<Rightarrow> 'w \<Rightarrow> 'w option" where
  "fix_write_loop wr buffer left w =
     (if left = 0 then Some w
      else case wr buffer left w of (r, w') \<Rightarrow> fix_write_loop wr buffer (usub64 left (to_size_t r)) w')"

definition writeFixSize :: "'w stream_writer \<Rightarrow> string \<Rightarrow> nat \<Rightarrow> 'w \<Rightarrow> (int \<times> 'w) option" where
  "writeFixSize wr buffer len w = map_option (\<lambda>w'. (int32_of (int len), w')) (fix_write_loop wr buffer len w)"

section \<open>Streams of bytes\<close>

text \<open>
  What a connected stream socket documents: a read for more than nothing gives a positive number of the bytes that
  are still to come, or 0 once the peer has closed and nothing is to come.
\<close>

definition stream_step :: "('w \<Rightarrow> bool) \<Rightarrow> ('w \<Rightarrow> string) \<Rightarrow> nat \<Rightarrow> 'w \<Rightarrow> int \<times> string \<times> 'w \<Rightarrow> bool" where
  "stream_step ok pending n w result \<longleftrightarrow> (case result of (r, bs, w') \<Rightarrow>
     bs = take (nat r) (pending w) \<and> pending w' = drop (nat r) (pending w) \<and> 0 \<le> r \<and> nat r \<le> n \<and> nat r \<le> length (pending w) \<and>
     (pending w \<noteq> [] \<longrightarrow> 0 < r) \<and> ok w')"

definition stream_of :: "'w stream_reader \<Rightarrow> ('w \<Rightarrow> bool) \<Rightarrow> ('w \<Rightarrow> string) \<Rightarrow> bool" where
  "stream_of rd ok pending \<longleftrightarrow> (\<forall>n w. 0 < n \<longrightarrow> ok w \<longrightarrow> stream_step ok pending n w (rd n w))"

lemma to_size_t_small: "0 \<le> r \<Longrightarrow> r < 2 ^ 64 \<Longrightarrow> to_size_t r = nat r"
  by (simp add: to_size_t_def)

lemma stream_of_read:
  assumes "stream_of rd ok pending" "0 < n" "ok w" "rd n w = (r, bs, w')"
  shows "bs = take (nat r) (pending w)" "pending w' = drop (nat r) (pending w)" "0 \<le> r" "nat r \<le> n" "nat r \<le> length (pending w)"
    "pending w \<noteq> [] \<Longrightarrow> 0 < r" "ok w'"
proof -
  have "stream_step ok pending n w (r, bs, w')" using assms unfolding stream_of_def by metis
  note * = this [unfolded stream_step_def prod.case]
  show "bs = take (nat r) (pending w)" "pending w' = drop (nat r) (pending w)" "0 \<le> r" "nat r \<le> n" "nat r \<le> length (pending w)"
    "pending w \<noteq> [] \<Longrightarrow> 0 < r" "ok w'"
    using * by blast+
qed

text \<open>With enough bytes to come the loop ends, and has consumed exactly the length.\<close>

lemma fix_read_loop_returns:
  assumes "stream_of rd ok pending"
  shows "ok w \<Longrightarrow> left \<le> length (pending w) \<Longrightarrow> left < 2 ^ 64 \<Longrightarrow>
     \<exists>buffer' w'. fix_read_loop rd buffer left w = Some (buffer', w') \<and> pending w' = drop left (pending w) \<and> ok w'"
proof (induction left arbitrary: buffer w rule: less_induct)
  case (less left)
  show ?case
  proof (cases "left = 0")
    case True
    then show ?thesis using less.prems(1) by (simp add: fix_read_loop.simps)
  next
    case False
    obtain r bs w' where rd: "rd left w = (r, bs, w')" by (metis prod.exhaust)
    have s: "pending w' = drop (nat r) (pending w)" "0 \<le> r" "nat r \<le> left" "0 < r" "ok w'"
      using stream_of_read [OF assms _ less.prems(1) rd] False less.prems(2) by (cases "pending w"; auto)+
    have left: "usub64 left (to_size_t r) = left - nat r" using s less.prems(3) by (simp add: to_size_t_small)
    have "\<exists>buffer' w''. fix_read_loop rd (overwrite buffer 0 bs) (left - nat r) w' = Some (buffer', w'') \<and>
        pending w'' = drop (left - nat r) (pending w') \<and> ok w''"
      by (rule less.IH) (use s False less.prems in auto)
    then show ?thesis using False rd left s by (simp add: fix_read_loop.simps [of rd buffer left])
  qed
qed

text \<open>With fewer it never ends: once the peer has closed every read gives 0.\<close>

lemma fix_read_loop_needs:
  "fix_read_loop rd buffer left w = Some result \<Longrightarrow> stream_of rd ok pending \<longrightarrow> ok w \<longrightarrow> left < 2 ^ 64 \<longrightarrow> left \<le> length (pending w)"
proof (erule fix_read_loop.raw_induct [rotated])
  fix loop rd buffer left w result
  assume IH: "\<And>rd buffer left w result. loop rd buffer left w = Some result \<Longrightarrow>
      stream_of rd ok pending \<longrightarrow> ok w \<longrightarrow> left < 2 ^ 64 \<longrightarrow> left \<le> length (pending w)"
    and body: "(if left = 0 then Some (buffer, w)
      else case rd left w of (r, bs, w') \<Rightarrow> loop rd (overwrite buffer 0 bs) (usub64 left (to_size_t r)) w') = Some result"
  show "stream_of rd ok pending \<longrightarrow> ok w \<longrightarrow> left < 2 ^ 64 \<longrightarrow> left \<le> length (pending w)"
  proof (intro impI)
    assume s: "stream_of rd ok pending" and ok: "ok w" and left: "left < 2 ^ 64"
    show "left \<le> length (pending w)"
    proof (cases "left = 0")
      case False
      obtain r bs w' where rd: "rd left w = (r, bs, w')" by (metis prod.exhaust)
      have r: "pending w' = drop (nat r) (pending w)" "0 \<le> r" "nat r \<le> left" "nat r \<le> length (pending w)" "ok w'"
        using stream_of_read [OF s _ ok rd] False by simp_all
      have "usub64 left (to_size_t r) = left - nat r" using r left by (simp add: to_size_t_small)
      then have "loop rd (overwrite buffer 0 bs) (left - nat r) w' = Some result" using body False rd by simp
      from IH [OF this] have "left - nat r \<le> length (pending w')" using s r left by simp
      then show ?thesis using r by simp
    qed simp
  qed
qed

text \<open>When one read gives everything, the buffer holds it.\<close>

lemma fix_read_loop_once:
  assumes "rd left w = (int left, bs, w')" "0 < left" "left < 2 ^ 64"
  shows "fix_read_loop rd buffer left w = Some (overwrite buffer 0 bs, w')"
  using assms by (simp add: fix_read_loop.simps [of rd buffer left] fix_read_loop.simps [of rd _ 0] to_size_t_def)

end
