(* ===== verification/Socket.thy ===== *)
theory Socket
  imports Address Hook "HOL-Library.Signed_Division"
begin

text \<open>
  \<^verbatim>\<open>linko/socket.{h,cc}\<close>: a socket descriptor with its family, type, connection flag and cached addresses.  The system
  calls are a record of functions over the state \<open>'k\<close> of the system, which gives the descriptor table of
  \<^verbatim>\<open>FdMgr\<close> through \<open>sys_fds\<close>; the operations pass the socket and that state along.
\<close>

section \<open>System calls\<close>

datatype optval = Opt_int int | Opt_timeval int int

text \<open>
  \<open>sys_getpeername\<close> and \<open>sys_getsockname\<close> give nothing when they fail, otherwise how they fill the address
  structure, and its length.  The vectors of \<open>sys_sendmsg\<close> are the memory they denote, those of \<open>sys_recvmsg\<close> its lengths.
\<close>

record 'k sys_calls =
  sys_fds :: "'k \<Rightarrow> kernel \<times> fd_manager"
  sys_socket :: "int \<Rightarrow> int \<Rightarrow> int \<Rightarrow> 'k \<Rightarrow> int \<times> 'k"
  sys_bind :: "int \<Rightarrow> address \<Rightarrow> 'k \<Rightarrow> int \<times> 'k"
  sys_connect :: "int \<Rightarrow> address \<Rightarrow> 'k \<Rightarrow> int \<times> 'k"
  sys_connect_timeout :: "int \<Rightarrow> address \<Rightarrow> u64 \<Rightarrow> 'k \<Rightarrow> int \<times> 'k"
  sys_listen :: "int \<Rightarrow> int \<Rightarrow> 'k \<Rightarrow> int \<times> 'k"
  sys_accept :: "int \<Rightarrow> 'k \<Rightarrow> int \<times> 'k"
  sys_close :: "int \<Rightarrow> 'k \<Rightarrow> 'k"
  sys_setsockopt :: "int \<Rightarrow> int \<Rightarrow> int \<Rightarrow> optval \<Rightarrow> 'k \<Rightarrow> int \<times> 'k"
  sys_getsockopt :: "int \<Rightarrow> int \<Rightarrow> int \<Rightarrow> 'k \<Rightarrow> int \<times> int \<times> 'k"
  sys_getpeername :: "int \<Rightarrow> 'k \<Rightarrow> (address \<Rightarrow> address \<times> nat) option"
  sys_getsockname :: "int \<Rightarrow> 'k \<Rightarrow> (address \<Rightarrow> address \<times> nat) option"
  sys_send :: "int \<Rightarrow> string \<Rightarrow> int \<Rightarrow> 'k \<Rightarrow> int \<times> 'k"
  sys_sendto :: "int \<Rightarrow> string \<Rightarrow> int \<Rightarrow> address \<Rightarrow> 'k \<Rightarrow> int \<times> 'k"
  sys_sendmsg :: "int \<Rightarrow> string list \<Rightarrow> address option \<Rightarrow> int \<Rightarrow> 'k \<Rightarrow> int \<times> 'k"
  sys_recv :: "int \<Rightarrow> nat \<Rightarrow> int \<Rightarrow> 'k \<Rightarrow> int \<times> string \<times> 'k"
  sys_recvfrom :: "int \<Rightarrow> nat \<Rightarrow> int \<Rightarrow> 'k \<Rightarrow> int \<times> string \<times> (address \<Rightarrow> address) \<times> 'k"
  sys_recvmsg :: "int \<Rightarrow> nat list \<Rightarrow> int \<Rightarrow> 'k \<Rightarrow> int \<times> string \<times> (address \<Rightarrow> address) \<times> 'k"

definition SOCK_STREAM :: int where "SOCK_STREAM = 1"
definition SOCK_DGRAM :: int where "SOCK_DGRAM = 2"
definition SO_REUSEADDR :: int where "SO_REUSEADDR = 2"
definition SO_ERROR :: int where "SO_ERROR = 4"
definition IPPROTO_TCP :: int where "IPPROTO_TCP = 6"
definition TCP_NODELAY :: int where "TCP_NODELAY = 1"

section \<open>The socket\<close>

record Socket =
  m_sock :: int
  m_family :: int
  m_type :: int
  m_protocol :: int
  m_isConnected :: bool
  m_localAddress :: "address option"
  m_remoteAddress :: "address option"

definition new_Socket :: "int \<Rightarrow> int \<Rightarrow> int \<Rightarrow> Socket" where
  "new_Socket family type protocol = \<lparr>m_sock = - 1, m_family = family, m_type = type, m_protocol = protocol,
     m_isConnected = False, m_localAddress = None, m_remoteAddress = None\<rparr>"

definition Socket_CreateTCP :: "address \<Rightarrow> Socket" where
  "Socket_CreateTCP addr = new_Socket (uint (getFamily addr)) SOCK_STREAM 0"

definition Socket_CreateUDP :: "address \<Rightarrow> Socket" where
  "Socket_CreateUDP addr = new_Socket (uint (getFamily addr)) SOCK_DGRAM 0"

definition CreateTCPSocket :: Socket where "CreateTCPSocket = new_Socket (int AF_INET) SOCK_STREAM 0"
definition CreateUDPSocket :: Socket where "CreateUDPSocket = new_Socket (int AF_INET) SOCK_DGRAM 0"
definition CreateTCPSocket6 :: Socket where "CreateTCPSocket6 = new_Socket (int AF_INET6) SOCK_STREAM 0"
definition CreateUDPSocket6 :: Socket where "CreateUDPSocket6 = new_Socket (int AF_INET6) SOCK_DGRAM 0"
definition CreateUnixTCPSocket :: Socket where "CreateUnixTCPSocket = new_Socket (int AF_UNIX) SOCK_STREAM 0"
definition CreateUnixUDPSocket :: Socket where "CreateUnixUDPSocket = new_Socket (int AF_UNIX) SOCK_DGRAM 0"

definition isValid :: "Socket \<Rightarrow> bool" where
  "isValid s \<longleftrightarrow> m_sock s \<noteq> - 1"

section \<open>Options\<close>

definition setOption :: "'k sys_calls \<Rightarrow> int \<Rightarrow> int \<Rightarrow> optval \<Rightarrow> Socket \<times> 'k \<Rightarrow> bool \<times> Socket \<times> 'k" where
  "setOption sys level option val = (\<lambda>(s, k).
     case sys_setsockopt sys (m_sock s) level option val k of (rt, k') \<Rightarrow> (rt = 0, s, k'))"

definition getOption :: "'k sys_calls \<Rightarrow> int \<Rightarrow> int \<Rightarrow> Socket \<times> 'k \<Rightarrow> int option \<times> Socket \<times> 'k" where
  "getOption sys level option = (\<lambda>(s, k).
     case sys_getsockopt sys (m_sock s) level option k of (rt, v, k') \<Rightarrow> (if rt \<noteq> 0 then None else Some v, s, k'))"

definition getError :: "'k sys_calls \<Rightarrow> Socket \<times> 'k \<Rightarrow> int \<times> Socket \<times> 'k" where
  "getError sys x = (case getOption sys SOL_SOCKET SO_ERROR x of (r, x') \<Rightarrow> (case r of None \<Rightarrow> - 1 | Some v \<Rightarrow> v, x'))"

definition timeval :: "int \<Rightarrow> optval" where
  "timeval v = Opt_timeval (int32_of (v sdiv 1000)) (int32_of (v smod 1000 * 1000))"

definition setSendTimeout :: "'k sys_calls \<Rightarrow> int \<Rightarrow> Socket \<times> 'k \<Rightarrow> bool \<times> Socket \<times> 'k" where
  "setSendTimeout sys v = setOption sys SOL_SOCKET SO_SNDTIMEO (timeval v)"

definition setRecvTimeout :: "'k sys_calls \<Rightarrow> int \<Rightarrow> Socket \<times> 'k \<Rightarrow> bool \<times> Socket \<times> 'k" where
  "setRecvTimeout sys v = setOption sys SOL_SOCKET SO_SNDTIMEO (timeval v)"

definition socket_timeout :: "int \<Rightarrow> 'k sys_calls \<Rightarrow> Socket \<times> 'k \<Rightarrow> cpp_error + int" where
  "socket_timeout type sys = (\<lambda>(s, k). case get_ctx (m_sock s) (sys_fds sys k) of
     Inl e \<Rightarrow> Inl e | Inr None \<Rightarrow> Inr (- 1) | Inr (Some (a, c)) \<Rightarrow> Inr (sint (getTimeout type c)))"

definition getSendTimeout :: "'k sys_calls \<Rightarrow> Socket \<times> 'k \<Rightarrow> cpp_error + int" where
  "getSendTimeout = socket_timeout SO_SNDTIMEO"

definition getRecvTimeout :: "'k sys_calls \<Rightarrow> Socket \<times> 'k \<Rightarrow> cpp_error + int" where
  "getRecvTimeout = socket_timeout SO_RCVTIMEO"

definition initSock :: "'k sys_calls \<Rightarrow> Socket \<times> 'k \<Rightarrow> Socket \<times> 'k" where
  "initSock sys x =
     (let x' = snd (setOption sys SOL_SOCKET SO_REUSEADDR (Opt_int 1) x)
      in if m_type (fst x') = SOCK_STREAM then snd (setOption sys IPPROTO_TCP TCP_NODELAY (Opt_int 1) x') else x')"

definition newSock :: "'k sys_calls \<Rightarrow> Socket \<times> 'k \<Rightarrow> Socket \<times> 'k" where
  "newSock sys = (\<lambda>(s, k). case sys_socket sys (m_family s) (m_type s) (m_protocol s) k of (fd, k') \<Rightarrow>
     if fd \<noteq> - 1 then initSock sys (s\<lparr>m_sock := fd\<rparr>, k') else (s\<lparr>m_sock := fd\<rparr>, k'))"

section \<open>Addresses\<close>

definition family_address :: "byte_order \<Rightarrow> int \<Rightarrow> address" where
  "family_address host family =
     (if family = int AF_INET then IPv4Address (IPv4_new host 0 0)
      else if family = int AF_INET6 then IPv6Address (IPv6_new host (replicate 16 0) 0)
      else if family = int AF_UNIX then UnixAddress Unix_new
      else UnknownAddress (word_of_int family) (replicate 14 0))"

definition named_address :: "byte_order \<Rightarrow> int \<Rightarrow> (address \<Rightarrow> address \<times> nat) \<Rightarrow> address" where
  "named_address host family fill =
     (case fill (family_address host family) of (a, len) \<Rightarrow>
        if family = int AF_UNIX then (case a of UnixAddress u \<Rightarrow> UnixAddress (setAddrLen len u) | _ \<Rightarrow> a) else a)"

definition getRemoteAddress :: "'k sys_calls \<Rightarrow> byte_order \<Rightarrow> Socket \<times> 'k \<Rightarrow> address \<times> Socket \<times> 'k" where
  "getRemoteAddress sys host = (\<lambda>(s, k). case m_remoteAddress s of
     Some a \<Rightarrow> (a, s, k)
   | None \<Rightarrow> (case sys_getpeername sys (m_sock s) k of
       None \<Rightarrow> (UnknownAddress (word_of_int (m_family s)) (replicate 14 0), s, k)
     | Some fill \<Rightarrow> (let a = named_address host (m_family s) fill in (a, s\<lparr>m_remoteAddress := Some a\<rparr>, k))))"

definition getLocalAddress :: "'k sys_calls \<Rightarrow> byte_order \<Rightarrow> Socket \<times> 'k \<Rightarrow> address \<times> Socket \<times> 'k" where
  "getLocalAddress sys host = (\<lambda>(s, k). case m_localAddress s of
     Some a \<Rightarrow> (a, s, k)
   | None \<Rightarrow> (case sys_getsockname sys (m_sock s) k of
       None \<Rightarrow> (UnknownAddress (word_of_int (m_family s)) (replicate 14 0), s, k)
     | Some fill \<Rightarrow> (let a = named_address host (m_family s) fill in (a, s\<lparr>m_localAddress := Some a\<rparr>, k))))"

section \<open>Opening and closing\<close>

definition socket_close :: "'k sys_calls \<Rightarrow> Socket \<times> 'k \<Rightarrow> bool \<times> Socket \<times> 'k" where
  "socket_close sys = (\<lambda>(s, k).
     if \<not> m_isConnected s \<and> m_sock s = - 1 then (True, s, k)
     else let s' = s\<lparr>m_isConnected := False\<rparr>
          in if m_sock s' \<noteq> - 1 then (False, s'\<lparr>m_sock := - 1\<rparr>, sys_close sys (m_sock s') k) else (False, s', k))"

definition valid_socket :: "'k sys_calls \<Rightarrow> Socket \<times> 'k \<Rightarrow> Socket \<times> 'k" where
  "valid_socket sys x = (if isValid (fst x) then x else newSock sys x)"

definition socket_bind :: "'k sys_calls \<Rightarrow> byte_order \<Rightarrow> address \<Rightarrow> Socket \<times> 'k \<Rightarrow> bool \<times> Socket \<times> 'k" where
  "socket_bind sys host addr x = (case valid_socket sys x of (s, k) \<Rightarrow>
     if \<not> isValid s then (False, s, k)
     else if uint (getFamily addr) \<noteq> m_family s then (False, s, k)
     else case sys_bind sys (m_sock s) addr k of (rt, k') \<Rightarrow>
       if rt \<noteq> 0 then (False, s, k') else (True, snd (getLocalAddress sys host (s, k'))))"

definition socket_connect :: "'k sys_calls \<Rightarrow> byte_order \<Rightarrow> address \<Rightarrow> u64 \<Rightarrow> Socket \<times> 'k \<Rightarrow> bool \<times> Socket \<times> 'k" where
  "socket_connect sys host addr timeout_ms x = (case valid_socket sys x of (s, k) \<Rightarrow>
     if \<not> isValid s then (False, s, k)
     else if uint (getFamily addr) \<noteq> m_family s then (False, s, k)
     else case (if timeout_ms = - 1 then sys_connect sys (m_sock s) addr k
                else sys_connect_timeout sys (m_sock s) addr timeout_ms k) of (rt, k') \<Rightarrow>
       if rt \<noteq> 0 then (False, snd (socket_close sys (s, k')))
       else (True, snd (getLocalAddress sys host (snd (getRemoteAddress sys host (s\<lparr>m_isConnected := True\<rparr>, k'))))))"

definition socket_listen :: "'k sys_calls \<Rightarrow> int \<Rightarrow> Socket \<times> 'k \<Rightarrow> bool \<times> Socket \<times> 'k" where
  "socket_listen sys backlog = (\<lambda>(s, k). if \<not> isValid s then (False, s, k)
     else case sys_listen sys (m_sock s) backlog k of (rt, k') \<Rightarrow> (rt = 0, s, k'))"

definition socket_init :: "'k sys_calls \<Rightarrow> byte_order \<Rightarrow> int \<Rightarrow> (Socket \<times> 'k, bool) eff" where
  "socket_init sys host sock = (\<lambda>(s, k). case get_ctx sock (sys_fds sys k) of
     Inl e \<Rightarrow> (Inl e, s, k)
   | Inr None \<Rightarrow> (Inr False, s, k)
   | Inr (Some (a, c)) \<Rightarrow>
       if m_isSocket c \<and> \<not> m_isClosed c
       then (Inr True, snd (getRemoteAddress sys host (snd (getLocalAddress sys host
               (initSock sys (s\<lparr>m_sock := sock, m_isConnected := True\<rparr>, k))))))
       else (Inr False, s, k))"

text \<open>A null pointer when the call fails, or when the descriptor has no context; then nobody closes the descriptor.\<close>

definition socket_accept :: "'k sys_calls \<Rightarrow> byte_order \<Rightarrow> Socket \<Rightarrow> ('k, Socket option) eff" where
  "socket_accept sys host s k = (case sys_accept sys (m_sock s) k of (newsock, k') \<Rightarrow>
     if newsock = - 1 then (Inr None, k')
     else case socket_init sys host newsock (new_Socket (m_family s) (m_type s) (m_protocol s), k') of
       (Inl e, s', k'') \<Rightarrow> (Inl e, k'')
     | (Inr ok, s', k'') \<Rightarrow> (Inr (if ok then Some s' else None), k''))"

section \<open>Data\<close>

definition socket_send :: "'k sys_calls \<Rightarrow> string \<Rightarrow> nat \<Rightarrow> int \<Rightarrow> Socket \<times> 'k \<Rightarrow> int \<times> Socket \<times> 'k" where
  "socket_send sys buffer len flags = (\<lambda>(s, k). if m_isConnected s
     then (case sys_send sys (m_sock s) (take len buffer) flags k of (rt, k') \<Rightarrow> (int32_of rt, s, k')) else (- 1, s, k))"

definition socket_sendmsg :: "'k sys_calls \<Rightarrow> string list \<Rightarrow> int \<Rightarrow> Socket \<times> 'k \<Rightarrow> int \<times> Socket \<times> 'k" where
  "socket_sendmsg sys buffers flags = (\<lambda>(s, k). if m_isConnected s
     then (case sys_sendmsg sys (m_sock s) buffers None flags k of (rt, k') \<Rightarrow> (int32_of rt, s, k')) else (- 1, s, k))"

definition socket_sendTo :: "'k sys_calls \<Rightarrow> string \<Rightarrow> nat \<Rightarrow> address \<Rightarrow> int \<Rightarrow> Socket \<times> 'k \<Rightarrow> int \<times> Socket \<times> 'k" where
  "socket_sendTo sys buffer len to flags = (\<lambda>(s, k). if \<not> m_isConnected s
     then (case sys_sendto sys (m_sock s) (take len buffer) flags to k of (rt, k') \<Rightarrow> (int32_of rt, s, k')) else (- 1, s, k))"

definition socket_sendmsgTo :: "'k sys_calls \<Rightarrow> string list \<Rightarrow> address \<Rightarrow> int \<Rightarrow> Socket \<times> 'k \<Rightarrow> int \<times> Socket \<times> 'k" where
  "socket_sendmsgTo sys buffers to flags = (\<lambda>(s, k). if m_isConnected s
     then (case sys_sendmsg sys (m_sock s) buffers (Some to) flags k of (rt, k') \<Rightarrow> (int32_of rt, s, k')) else (- 1, s, k))"

definition socket_recv :: "'k sys_calls \<Rightarrow> nat \<Rightarrow> int \<Rightarrow> Socket \<times> 'k \<Rightarrow> int \<times> string \<times> Socket \<times> 'k" where
  "socket_recv sys len flags = (\<lambda>(s, k). if m_isConnected s
     then (case sys_recv sys (m_sock s) len flags k of (rt, bs, k') \<Rightarrow> (int32_of rt, bs, s, k')) else (- 1, [], s, k))"

definition socket_recvmsg :: "'k sys_calls \<Rightarrow> nat list \<Rightarrow> int \<Rightarrow> Socket \<times> 'k \<Rightarrow> int \<times> string \<times> Socket \<times> 'k" where
  "socket_recvmsg sys lens flags = (\<lambda>(s, k). if m_isConnected s
     then (case sys_recvmsg sys (m_sock s) lens flags k of (rt, bs, _, k') \<Rightarrow> (int32_of rt, bs, s, k')) else (- 1, [], s, k))"

definition socket_recvFrom :: "'k sys_calls \<Rightarrow> nat \<Rightarrow> address \<Rightarrow> int \<Rightarrow> Socket \<times> 'k \<Rightarrow> int \<times> string \<times> address \<times> Socket \<times> 'k" where
  "socket_recvFrom sys len from_addr flags = (\<lambda>(s, k). if m_isConnected s
     then (case sys_recvfrom sys (m_sock s) len flags k of (rt, bs, fill, k') \<Rightarrow> (int32_of rt, bs, fill from_addr, s, k'))
     else (- 1, [], from_addr, s, k))"

definition socket_recvmsgFrom :: "'k sys_calls \<Rightarrow> nat list \<Rightarrow> address \<Rightarrow> int \<Rightarrow> Socket \<times> 'k \<Rightarrow> int \<times> string \<times> address \<times> Socket \<times> 'k" where
  "socket_recvmsgFrom sys lens from_addr flags = (\<lambda>(s, k). if m_isConnected s
     then (case sys_recvmsg sys (m_sock s) lens flags k of (rt, bs, fill, k') \<Rightarrow> (int32_of rt, bs, fill from_addr, s, k'))
     else (- 1, [], from_addr, s, k))"

section \<open>Cancelling what waits\<close>

text \<open>On the thread's \<^verbatim>\<open>IOManager\<close>; \<open>ctl_ok\<close> is whether \<^verbatim>\<open>epoll_ctl\<close> succeeds.\<close>

definition cancelRead :: "bool \<Rightarrow> Socket \<Rightarrow> ('cb iomanager, bool) eff" where
  "cancelRead ctl_ok s = cancelEvent ctl_ok (m_sock s) READ"

definition cancelWrite :: "bool \<Rightarrow> Socket \<Rightarrow> ('cb iomanager, bool) eff" where
  "cancelWrite ctl_ok s = cancelEvent ctl_ok (m_sock s) WRITE"

definition cancelAccept :: "bool \<Rightarrow> Socket \<Rightarrow> ('cb iomanager, bool) eff" where
  "cancelAccept ctl_ok s = cancelEvent ctl_ok (m_sock s) READ"

definition socket_cancelAll :: "bool \<Rightarrow> Socket \<Rightarrow> ('cb iomanager, bool) eff" where
  "socket_cancelAll ctl_ok s = cancelAll ctl_ok (m_sock s)"

section \<open>Text\<close>

definition socket_toString :: "byte_order \<Rightarrow> Socket \<Rightarrow> string" where
  "socket_toString host s = ''[Socket sock='' @ to_string (m_sock s) @ '' is_connected='' @ (if m_isConnected s then ''1'' else ''0'')
     @ '' family='' @ to_string (m_family s) @ '' type='' @ to_string (m_type s) @ '' protocol='' @ to_string (m_protocol s)
     @ (case m_localAddress s of None \<Rightarrow> [] | Some a \<Rightarrow> '' local_address'' @ address_toString host a)
     @ (case m_remoteAddress s of None \<Rightarrow> [] | Some a \<Rightarrow> '' local_address'' @ address_toString host a) @ '']''"

end
