(* ===== verification/Socket_Stream.thy ===== *)
theory Socket_Stream
  imports Stream Socket ByteArray_IO
begin

text \<open>
  \<^verbatim>\<open>linko/socket_stream.{h,cc}\<close>: a stream over a socket, or over none, for raw memory and for byte buffers.  The state
  of an operation is the stream and the state of the system.
\<close>

section \<open>The stream\<close>

record SocketStream =
  m_socket :: "Socket option"
  m_owner :: bool

definition new_SocketStream :: "Socket option \<Rightarrow> bool \<Rightarrow> SocketStream" where
  "new_SocketStream sock owner = \<lparr>m_socket = sock, m_owner = owner\<rparr>"

definition stream_isConnected :: "SocketStream \<Rightarrow> bool" where
  "stream_isConnected st = (case m_socket st of None \<Rightarrow> False | Some s \<Rightarrow> m_isConnected s)"

text \<open>The call of an operation of the socket behind the pointer.\<close>

definition on_socket :: "SocketStream \<Rightarrow> Socket \<Rightarrow> SocketStream" where
  "on_socket st s = st\<lparr>m_socket := Some s\<rparr>"

definition stream_read :: "'k sys_calls \<Rightarrow> (SocketStream \<times> 'k) stream_reader" where
  "stream_read sys len = (\<lambda>(st, k). case m_socket st of None \<Rightarrow> (- 1, [], st, k)
   | Some s \<Rightarrow> if \<not> m_isConnected s then (- 1, [], st, k)
       else case socket_recv sys len 0 (s, k) of (rt, bs, s', k') \<Rightarrow> (rt, bs, on_socket st s', k'))"

definition stream_write :: "'k sys_calls \<Rightarrow> (SocketStream \<times> 'k) stream_writer" where
  "stream_write sys buffer len = (\<lambda>(st, k). case m_socket st of None \<Rightarrow> (- 1, st, k)
   | Some s \<Rightarrow> if \<not> m_isConnected s then (- 1, st, k)
       else case socket_send sys buffer len 0 (s, k) of (rt, s', k') \<Rightarrow> (rt, on_socket st s', k'))"

definition stream_close :: "'k sys_calls \<Rightarrow> SocketStream \<times> 'k \<Rightarrow> SocketStream \<times> 'k" where
  "stream_close sys = (\<lambda>(st, k). case m_socket st of None \<Rightarrow> (st, k)
   | Some s \<Rightarrow> (case socket_close sys (s, k) of (_, s', k') \<Rightarrow> (on_socket st s', k')))"

definition stream_destroy :: "'k sys_calls \<Rightarrow> SocketStream \<times> 'k \<Rightarrow> SocketStream \<times> 'k" where
  "stream_destroy sys x = (if m_owner (fst x) \<and> m_socket (fst x) \<noteq> None then stream_close sys x else x)"

section \<open>Byte buffers\<close>

text \<open>What \<^verbatim>\<open>recvmsg\<close> and \<^verbatim>\<open>sendmsg\<close> do with the memory of the vectors.\<close>

fun scatter :: "iovec list \<Rightarrow> byte list \<Rightarrow> bytearray \<Rightarrow> bytearray" where
  "scatter [] bs ba = ba"
| "scatter (v # vs) bs ba =
     (if bs = [] then ba else scatter vs (drop (iov_len v) bs) (store (iov_node v) (iov_off v) (take (iov_len v) bs) ba))"

definition gather :: "iovec list \<Rightarrow> bytearray \<Rightarrow> string list" where
  "gather vs ba = map (\<lambda>v. map (\<lambda>b. char_of (unat b)) (take (iov_len v) (drop (iov_off v) (nptr (m_root ba ! iov_node v))))) vs"

text \<open>The position moves on by what was transferred; \<^verbatim>\<open>&iovs[0]\<close> needs a vector.\<close>

definition advance :: "int \<Rightarrow> bytearray \<Rightarrow> (cpp_error + int) \<times> bytearray" where
  "advance rt ba = (if 0 < rt then case setPosition (m_position ba + nat rt) ba of (r, ba') \<Rightarrow> (map_sum id (\<lambda>_. rt) r, ba')
     else (Inr rt, ba))"

definition stream_read_ba :: "'k sys_calls \<Rightarrow> (bytearray, SocketStream \<times> 'k) stream_ba_reader" where
  "stream_read_ba sys len ba = (\<lambda>(st, k). case m_socket st of None \<Rightarrow> (Inr (- 1), ba, st, k)
   | Some s \<Rightarrow> if \<not> m_isConnected s then (Inr (- 1), ba, st, k)
       else case getWriteBuffers len ba of
         (Inl e, ba1) \<Rightarrow> (Inl e, ba1, st, k)
       | (Inr (_, iovs), ba1) \<Rightarrow>
           if iovs = [] then (Inl Undefined, ba1, st, k)
           else case socket_recvmsg sys (map iov_len iovs) 0 (s, k) of (rt, bs, s', k') \<Rightarrow>
             (case advance rt (scatter iovs (map of_char bs) ba1) of (r, ba2) \<Rightarrow> (r, ba2, on_socket st s', k')))"

definition stream_write_ba :: "'k sys_calls \<Rightarrow> (bytearray, SocketStream \<times> 'k) stream_ba_reader" where
  "stream_write_ba sys len ba = (\<lambda>(st, k). case m_socket st of None \<Rightarrow> (Inr (- 1), ba, st, k)
   | Some s \<Rightarrow> if \<not> m_isConnected s then (Inr (- 1), ba, st, k)
       else case getReadBuffers len ba of
         Inl e \<Rightarrow> (Inl e, ba, st, k)
       | Inr (_, iovs) \<Rightarrow>
           if iovs = [] then (Inl Undefined, ba, st, k)
           else case socket_sendmsg sys (gather iovs ba) 0 (s, k) of (rt, s', k') \<Rightarrow>
             (case advance rt ba of (r, ba2) \<Rightarrow> (r, ba2, on_socket st s', k')))"

section \<open>Lemmas\<close>

text \<open>Nothing is read or written on a stream that is closed.\<close>

lemma closed_stream:
  assumes "stream_close sys x = (st, k)"
  shows "\<not> stream_isConnected st" "stream_read sys len (st, k) = (- 1, [], st, k)" "stream_write sys buffer len (st, k) = (- 1, st, k)"
proof -
  show *: "\<not> stream_isConnected st"
    using assms by (auto simp: stream_close_def stream_isConnected_def on_socket_def socket_close_def Let_def
        split: prod.splits option.splits if_splits)
  show "stream_read sys len (st, k) = (- 1, [], st, k)" "stream_write sys buffer len (st, k) = (- 1, st, k)"
    using * by (auto simp: stream_isConnected_def stream_read_def stream_write_def split: option.splits)
qed

text \<open>A connected stream delivers what its socket does.\<close>

lemma stream_of_socket:
  assumes "\<And>fd. stream_of (\<lambda>n k. sys_recv sys fd n 0 k) (\<lambda>k. ok k \<and> length (pending k) < 2 ^ 31) pending"
  shows "stream_of (stream_read sys) (\<lambda>(st, k). stream_isConnected st \<and> ok k \<and> length (pending k) < 2 ^ 31) (\<lambda>(st, k). pending k)"
proof -
  have "stream_step (\<lambda>(st, k). stream_isConnected st \<and> ok k \<and> length (pending k) < 2 ^ 31) (\<lambda>(st, k). pending k) n (st, k)
      (stream_read sys n (st, k))"
    if n: "0 < n" and st: "stream_isConnected st" and ok: "ok k" "length (pending k) < 2 ^ 31" for n st k
  proof -
    obtain s where s: "m_socket st = Some s" "m_isConnected s" using st by (auto simp: stream_isConnected_def split: option.splits)
    obtain r bs k' where rd: "sys_recv sys (m_sock s) n 0 k = (r, bs, k')" by (metis prod.exhaust)
    note r = stream_of_read [OF assms [of "m_sock s"] n conjI [OF ok] rd]
    have "nat r < 2 ^ 31" using r(5) ok(2) by simp
    then have "r < 2 ^ 31" using r(3) by simp
    then have "int32_of r = r" using r(3) by (simp add: int32_of_def signed_of_int signed_take_bit_int_eq_self)
    then show ?thesis using r s
      by (simp add: stream_step_def stream_read_def socket_recv_def rd on_socket_def stream_isConnected_def)
  qed
  then show ?thesis by (auto simp: stream_of_def)
qed

text \<open>The vectors of the write buffers take the bytes as one block of memory.\<close>

lemma iovs_cover_store: "iovs_cover (store i npos bs ba) pos len vs = iovs_cover ba pos len vs"
  by (induction vs arbitrary: pos len) auto

lemma iovs_cover_fits:
  "iovs_cover ba pos len vs \<Longrightarrow> ba_shape ba \<Longrightarrow> 0 < len \<Longrightarrow> pos + len \<le> m_capacity ba"
proof (induction vs arbitrary: pos len)
  case (Cons v vs)
  have "iov_node v * m_baseSize ba + m_baseSize ba \<le> m_capacity ba"
    using Cons.prems(1,2) mult_le_mono1 [of "Suc (iov_node v)" "length (m_root ba)" "m_baseSize ba"] by (auto simp: ba_shape_def)
  then have "pos + iov_len v \<le> m_capacity ba" using Cons.prems(1) by auto
  then show ?case using Cons.IH [of "pos + iov_len v" "len - iov_len v"] Cons.prems by (cases "iov_len v < len") auto
qed simp

lemma scatter_ok:
  "iovs_cover ba pos len vs \<Longrightarrow> ba_shape ba \<Longrightarrow> length bs \<le> len \<Longrightarrow>
     ba_shape (scatter vs bs ba) \<and> contents (scatter vs bs ba) = overwrite (contents ba) pos bs \<and>
     m_position (scatter vs bs ba) = m_position ba \<and> m_size (scatter vs bs ba) = m_size ba \<and>
     m_capacity (scatter vs bs ba) = m_capacity ba"
proof (induction vs arbitrary: pos len bs ba)
  case (Cons v vs)
  show ?case
  proof (cases "bs = []")
    case False
    let ?n = "iov_len v" and ?ba = "store (iov_node v) (iov_off v) (take (iov_len v) bs) ba"
    have i: "iov_node v < length (m_root ba)" and fit: "iov_off v + length (take ?n bs) \<le> m_baseSize ba"
      and pos: "iov_node v * m_baseSize ba + iov_off v = pos" using Cons.prems(1) by auto
    have shape: "ba_shape ?ba" by (rule ba_shape_store [OF Cons.prems(2) i fit])
    have contents: "contents ?ba = overwrite (contents ba) pos (take ?n bs)"
      using contents_store [OF Cons.prems(2) i fit] pos by simp
    have IH: "ba_shape (scatter vs (drop ?n bs) ?ba) \<and>
       contents (scatter vs (drop ?n bs) ?ba) = overwrite (contents ?ba) (pos + ?n) (drop ?n bs) \<and>
       m_position (scatter vs (drop ?n bs) ?ba) = m_position ?ba \<and> m_size (scatter vs (drop ?n bs) ?ba) = m_size ?ba \<and>
       m_capacity (scatter vs (drop ?n bs) ?ba) = m_capacity ?ba"
      by (rule Cons.IH [of _ _ "len - ?n"]) (use Cons.prems shape in \<open>auto simp: iovs_cover_store\<close>)
    have "overwrite (contents ?ba) (pos + ?n) (drop ?n bs) = overwrite (contents ba) pos bs"
    proof (cases "?n < length bs")
      case True
      have "pos + length bs \<le> length (contents ba)"
        using iovs_cover_fits [OF Cons.prems(1,2)] Cons.prems(3) False length_contents [OF Cons.prems(2)] by (cases bs) auto
      then show ?thesis using True overwrite_overwrite_adjacent [of pos "take ?n bs" "drop ?n bs" "contents ba"] contents by simp
    qed (use contents in auto)
    then show ?thesis using IH False by simp
  qed (use Cons.prems in simp)
qed simp

lemma iovs_cover_sum: "iovs_cover ba pos len vs \<Longrightarrow> sum_list (map iov_len vs) = len"
  by (induction vs arbitrary: pos len) auto

text \<open>A read into a byte buffer is a write of what arrived.\<close>

lemma stream_read_ba_ok:
  assumes "ba_inv ba" "m_socket st = Some s" "m_isConnected s" "0 < len"
    and recv: "\<And>lens. sum_list lens = len \<Longrightarrow> sys_recvmsg sys (m_sock s) lens 0 k = (int (length bs), bs, fill, k')"
    and "bs \<noteq> []" "length bs \<le> len" "length bs < 2 ^ 31"
  shows "\<exists>ba'. stream_read_ba sys len ba (st, k) = (Inr (int (length bs)), ba', st, k') \<and> ba_inv ba' \<and>
     written ba' = take (m_position ba) (written ba) @ map of_char bs @ drop (m_position ba + length bs) (written ba) \<and>
     m_position ba' = m_position ba + length bs"
proof -
  let ?bs = "map of_char bs :: byte list"
  obtain iovs ba1 where w: "getWriteBuffers len ba = (Inr (len, iovs), ba1)" "ba_inv ba1" "written ba1 = written ba"
    "m_position ba1 = m_position ba" "iovs_cover ba1 (m_position ba) len iovs"
    using getWriteBuffers_ok [OF assms(1)] by blast
  from w(2) have inv: "ba_shape ba1" "m_position ba1 \<le> m_size ba1" "m_size ba1 \<le> m_capacity ba1" by (simp_all add: ba_inv_def)
  let ?ba2 = "scatter iovs ?bs ba1"
  have sc: "ba_shape ?ba2" "contents ?ba2 = overwrite (contents ba1) (m_position ba) ?bs" "m_position ?ba2 = m_position ba"
    "m_size ?ba2 = m_size ba1" "m_capacity ?ba2 = m_capacity ba1"
    using scatter_ok [OF w(5) inv(1), of ?bs] w(4) assms(7) by simp_all
  have fits: "m_position ba + length bs \<le> m_capacity ba1" using iovs_cover_fits [OF w(5) inv(1) assms(4)] assms(7) by simp
  then obtain ba3 where p: "setPosition (m_position ba + length bs) ?ba2 = (Inr (), ba3)" "ba_inv ba3"
    "m_position ba3 = m_position ba + length bs" "m_size ba3 = max (m_size ?ba2) (m_position ba + length bs)" "contents ba3 = contents ?ba2"
    using setPosition_ok [OF sc(1), of "m_position ba + length bs"] sc(4,5) inv(3) by auto
  have "written ba3 = take (max (m_size ba1) (m_position ba + length ?bs)) (overwrite (contents ba1) (m_position ba) ?bs)"
    by (simp add: written_def p(4,5) sc(2,4))
  also have "\<dots> = take (m_position ba) (written ba1) @ ?bs @ drop (m_position ba + length ?bs) (written ba1)"
    unfolding written_def by (rule take_overwrite_extend) (use inv w(4) fits length_contents [OF inv(1)] in simp_all)
  finally have written: "written ba3 = take (m_position ba) (written ba) @ ?bs @ drop (m_position ba + length bs) (written ba)"
    by (simp add: w(3))
  have "int32_of (int (length bs)) = int (length bs)"
    using assms(8) by (simp add: int32_of_def signed_of_nat signed_take_bit_int_eq_self)
  moreover have "on_socket st s = st" using assms(2) by (simp add: on_socket_def)
  moreover have "iovs \<noteq> []" using w(5) assms(4) by auto
  ultimately have "stream_read_ba sys len ba (st, k) = (Inr (int (length bs)), ba3, st, k')"
    using assms(2,3,6) recv [OF iovs_cover_sum [OF w(5)]] w(1) p(1) sc(3)
    by (simp add: stream_read_ba_def socket_recvmsg_def advance_def)
  then show ?thesis using p(2,3) written by blast
qed

end
