(* ===== verification/Http_Session.thy ===== *)
theory Http_Session
  imports Http_Parser Servlet Socket_Stream
begin

text \<open>
  The server's side of a connection: \<^verbatim>\<open>HttpSession\<close> (\<^verbatim>\<open>linko/http/http_session.{h,cc}\<close>), which reads a request
  and writes a response over its stream, and \<^verbatim>\<open>HttpServer::handleClient\<close> (\<^verbatim>\<open>linko/http/http_server.{h,cc}\<close>),
  which serves requests with the dispatcher until the connection is to be closed.
\<close>

section \<open>Receiving a request\<close>

text \<open>
  The loop that fills the buffer and runs the parser.  Its value is \<open>Inr None\<close> where the code closes the
  stream and returns a null pointer, and \<open>None\<close> when it never ends.  Allocations succeed, of the body too.
\<close>

partial_function (option) request_loop ::
  "'w stream_reader \<Rightarrow> nat \<Rightarrow> string \<Rightarrow> nat \<Rightarrow> HttpRequestParser \<Rightarrow> 'w \<Rightarrow> (cpp_error + (string \<times> nat \<times> HttpRequestParser) option \<times> 'w) option" where
  "request_loop rd bsize data offset rp w =
     (case rd (bsize - offset) w of (r, bs, w') \<Rightarrow>
        if r \<le> 0 then Some (Inr (None, w'))
        else (case request_execute (overwrite data offset bs) (nat r + offset) rp of
            Inl e \<Rightarrow> Some (Inl e)
          | Inr (nparse, data', rp') \<Rightarrow>
              if request_hasError rp' then Some (Inr (None, w'))
              else if int (nat r + offset - nparse) = int32_of (int bsize) then Some (Inr (None, w'))
              else if request_isFinished rp' \<noteq> 0 then Some (Inr (Some (data', nat r + offset - nparse, rp'), w'))
              else request_loop rd bsize data' (nat r + offset - nparse) rp' w'))"

text \<open>
  The body of \<open>len\<close> bytes of which \<open>offset\<close> are in the buffer: \<^verbatim>\<open>body.resize(length)\<close>, then \<^verbatim>\<open>append\<close>, then the rest is read
  to \<^verbatim>\<open>&body[len]\<close>.  \<open>Some (None, w)\<close> when the rest cannot be read.
\<close>

definition fixed_body :: "'w stream_reader \<Rightarrow> string \<Rightarrow> nat \<Rightarrow> int \<Rightarrow> 'w \<Rightarrow> (string option \<times> 'w) option" where
  "fixed_body rd data offset len w =
     (let resized = replicate (nat len) NUL;
          (body, n) = (if int offset \<le> len then (resized @ take offset data, offset) else (resized @ take (nat len) data, nat len));
          rest = len - int offset
      in if 0 < rest
         then (case readFixSize rd (drop n body) (nat rest) w of None \<Rightarrow> None
           | Some (rt, buffer, w') \<Rightarrow> Some (if rt \<le> 0 then None else Some (take n body @ buffer), w'))
         else Some (Some body, w))"

definition keep_alive :: "HttpRequest \<Rightarrow> HttpRequest" where
  "keep_alive req = (if strcasecmp (cstr (getHeader ''Connection'' [] req)) ''keep-alive'' = 0 then setClose False req else req)"

definition recvRequest ::
  "'w stream_reader \<Rightarrow> ('w \<Rightarrow> 'w) \<Rightarrow> (string \<Rightarrow> u64 option) \<Rightarrow> http_sizes \<Rightarrow> http_parser \<Rightarrow> string \<Rightarrow> 'w \<Rightarrow>
     (cpp_error + HttpRequest option \<times> 'w) option" where
  "recvRequest rd close lexical_cast sizes memory buffer w =
     (case request_loop rd (unat (GetHttpRequestBufferSize sizes)) buffer 0 (new_HttpRequestParser memory) w of
        None \<Rightarrow> None
      | Some (Inl e) \<Rightarrow> Some (Inl e)
      | Some (Inr (None, w')) \<Rightarrow> Some (Inr (None, close w'))
      | Some (Inr (Some (data, offset, rp), w')) \<Rightarrow>
          let len = sint (request_getContentLength lexical_cast rp)
          in if 0 < len
             then (case fixed_body rd data offset len w' of
                 None \<Rightarrow> None
               | Some (None, w'') \<Rightarrow> Some (Inr (None, close w''))
               | Some (Some body, w'') \<Rightarrow> Some (Inr (Some (keep_alive (setBody body (rp_data rp))), w'')))
             else Some (Inr (Some (keep_alive (rp_data rp)), w')))"

definition sendResponse :: "'w stream_writer \<Rightarrow> HttpResponse \<Rightarrow> 'w \<Rightarrow> (int \<times> 'w) option" where
  "sendResponse wr rsp w = (let data = response_dump rsp in writeFixSize wr data (length data) w)"

section \<open>Serving a client\<close>

text \<open>
  \<^verbatim>\<open>HttpServer\<close>: the flag \<^verbatim>\<open>m_isKeepalive\<close> and the dispatcher.  A servlet may read and write the session, so its state
  is part of what a callback gets.
\<close>

record 'cb HttpServer =
  m_isKeepalive :: bool
  m_dispatch :: "'cb ServletDispatch"

definition new_HttpServer :: "bool \<Rightarrow> 'cb HttpServer" where
  "new_HttpServer keepalive = \<lparr>m_isKeepalive = keepalive, m_dispatch = new_ServletDispatch\<rparr>"

partial_function (option) client_loop ::
  "('w \<Rightarrow> (cpp_error + HttpRequest option \<times> 'w) option) \<Rightarrow> (HttpResponse \<Rightarrow> 'w \<Rightarrow> (int \<times> 'w) option) \<Rightarrow>
     (HttpRequest \<times> HttpResponse \<times> 'w \<Rightarrow> int \<times> HttpRequest \<times> HttpResponse \<times> 'w) \<Rightarrow> bool \<Rightarrow> 'w \<Rightarrow> (cpp_error + 'w) option" where
  "client_loop recv send handle keepalive w =
     (case recv w of
        None \<Rightarrow> None
      | Some (Inl e) \<Rightarrow> Some (Inl e)
      | Some (Inr (None, w')) \<Rightarrow> Some (Inr w')
      | Some (Inr (Some req, w')) \<Rightarrow>
          (case handle (req, new_HttpResponse (rq_version req) (rq_close req \<or> \<not> keepalive), w') of (_, req', rsp, w'') \<Rightarrow>
             (case send rsp w'' of None \<Rightarrow> None
              | Some (_, w''') \<Rightarrow>
                  if \<not> keepalive \<or> rq_close req' then Some (Inr w''') else client_loop recv send handle keepalive w''')))"

definition handleClient ::
  "'w stream_reader \<Rightarrow> 'w stream_writer \<Rightarrow> ('w \<Rightarrow> 'w) \<Rightarrow> (string \<Rightarrow> u64 option) \<Rightarrow> http_sizes \<Rightarrow> http_parser \<Rightarrow> string \<Rightarrow>
     (string \<Rightarrow> string \<Rightarrow> bool) \<Rightarrow> ('cb, 'w) servlet_call \<Rightarrow> 'cb HttpServer \<Rightarrow> 'w \<Rightarrow> (cpp_error + 'w) option" where
  "handleClient rd wr close lexical_cast sizes memory buffer fnmatch call server w =
     map_option (map_sum id close)
       (client_loop (recvRequest rd close lexical_cast sizes memory buffer) (sendResponse wr)
          (dispatch_handle fnmatch call (m_dispatch server)) (m_isKeepalive server) w)"

end
