(* ===== verification/Http_Session_Correct.thy ===== *)
theory Http_Session_Correct
  imports Http_Session Http_Request_Roundtrip
begin

text \<open>
  What \<^verbatim>\<open>recvRequest\<close> makes of a request that arrives in one read: the fields of the request, and the
  body that \<^verbatim>\<open>resize\<close> followed by \<^verbatim>\<open>append\<close> leaves.
\<close>

section \<open>The connection and the length of a printed request\<close>

lemma parsed_header_map:
  "header_map (rq_headers (parsed_request r)) = header_map (rev (printed_headers r))"
proof -
  have "rq_headers (parsed_request r) = fold (\<lambda>(n, v). hassign n v) (printed_headers r) []"
    unfolding parsed_request_def fold_setHeader by (simp add: new_HttpRequest_def)
  then show ?thesis by (simp add: header_map_fold header_order.keys_sorted_def)
qed

lemma no_connection_left: "header_map (rev (filter (\<lambda>(n, _). \<not> is_connection n) m)) (lower ''connection'') = None"
proof -
  have "lower ''connection'' \<notin> (\<lambda>(n, v). lower n) ` set (filter (\<lambda>(n, _). \<not> is_connection n) m)"
    by (auto simp: is_connection_lower)
  then show ?thesis by (auto simp: header_map_def map_of_eq_None_iff image_iff split_beta)
qed

lemma lower_names: "lower ''Connection'' = lower ''connection''" "lower ''content-length'' \<noteq> lower ''connection''"
  by (simp_all add: lower_def cstr_def NUL_def low_def)

lemma parsed_connection:
  "hfind ''Connection'' (rq_headers (parsed_request r)) = Some (if rq_close r then ''close'' else ''keep-alive'')"
  using no_connection_left [of "rq_headers r"] lower_names
  unfolding hfind_map parsed_header_map lower_names(1) printed_headers_def rev_append rev.simps
  by (auto simp: header_map_append map_add_def split: option.split)

lemma parsed_length:
  assumes "request_ok r"
  shows "hfind ''content-length'' (rq_headers (parsed_request r)) =
    (if rq_body r = [] then hfind ''content-length'' (rq_headers r) else Some (dec (length (rq_body r))))"
proof -
  have "header_map (rev (filter (\<lambda>(n, _). \<not> is_connection n) (rq_headers r))) (lower ''content-length'') =
      header_map (rq_headers r) (lower ''content-length'')"
    using assms lower_names by (simp add: header_map_rev keys_sorted_filter request_ok_def header_map_filter)
  then show ?thesis using lower_names
    unfolding hfind_map parsed_header_map printed_headers_def rev_append rev.simps
    by (auto simp: header_map_append map_add_def split: option.split)
qed

lemma keep_alive_parsed:
  "keep_alive (setBody b (parsed_request r)) = setClose (rq_close r) (setBody b (parsed_request r))"
  "keep_alive (parsed_request r) = setClose (rq_close r) (parsed_request r)"
proof -
  have c: "rq_close (parsed_request r)" by (simp add: parsed_request_def fold_setHeader new_HttpRequest_def)
  have h: "getHeader ''Connection'' [] (parsed_request r) = (if rq_close r then ''close'' else ''keep-alive'')"
    "getHeader ''Connection'' [] (setBody b (parsed_request r)) = (if rq_close r then ''close'' else ''keep-alive'')"
    using parsed_connection [of r] by (simp_all add: getHeader_def map_get_def setBody_def)
  have s: "strcasecmp (cstr ''close'') ''keep-alive'' \<noteq> 0" "strcasecmp (cstr ''keep-alive'') ''keep-alive'' = 0"
    by (simp_all add: cstr_def NUL_def low_def)
  show "keep_alive (setBody b (parsed_request r)) = setClose (rq_close r) (setBody b (parsed_request r))"
    "keep_alive (parsed_request r) = setClose (rq_close r) (parsed_request r)"
    unfolding keep_alive_def h using s c by (cases "parsed_request r"; simp add: setClose_def setBody_def)+
qed

section \<open>One read\<close>

text \<open>The buffer after a read that delivers the whole request.\<close>

lemma request_loop_once:
  assumes "printable r" "length (request_dump r) < bsize" "length buffer = bsize" "bsize < 2 ^ 31"
    and "rd bsize w = (int (length (request_dump r)), request_dump r, w')"
  shows "\<exists>data rp. request_loop rd bsize buffer 0 (new_HttpRequestParser memory) w = Some (Inr (Some (data, length (rq_body r), rp), w')) \<and>
    take (length (rq_body r)) data = rq_body r \<and> rp_data rp = parsed_request r"
proof -
  have over: "overwrite buffer 0 (request_dump r) = request_dump r @ drop (length (request_dump r)) buffer" by (simp add: overwrite_def)
  obtain data rp where ex: "request_execute (overwrite buffer 0 (request_dump r)) (length (request_dump r)) (new_HttpRequestParser memory) =
      Inr (length (request_dump r) - length (rq_body r), data, rp)"
    "request_isFinished rp = 1" "\<not> request_hasError rp" "take (length (rq_body r)) data = rq_body r" "rp_data rp = parsed_request r"
    using request_roundtrip_behind [OF assms(1), of "drop (length (request_dump r)) buffer" memory] unfolding over by blast
  have nz: "request_dump r \<noteq> []" by (simp add: request_dump_def)
  have body: "length (rq_body r) \<le> length (request_dump r)" by (simp add: request_dump_def body_text_def)
  then have "length (request_dump r) - (length (request_dump r) - length (rq_body r)) = length (rq_body r)" by simp
  moreover have "int32_of (int bsize) = int bsize"
    using assms(4) by (simp add: int32_of_def signed_of_nat signed_take_bit_int_eq_self)
  moreover have "length (rq_body r) \<noteq> bsize" using body assms(2) by simp
  ultimately show ?thesis using ex nz assms(5)
    by (simp add: request_loop.simps [of rd bsize buffer 0])
qed

lemma recvRequest_once:
  assumes "printable r" "request_ok r" "rq_body r = [] \<Longrightarrow> hfind ''content-length'' (rq_headers r) = None"
    and "length (request_dump r) < unat (GetHttpRequestBufferSize sizes)" "length buffer = unat (GetHttpRequestBufferSize sizes)"
    and "unat (GetHttpRequestBufferSize sizes) < 2 ^ 31"
    and "rd (unat (GetHttpRequestBufferSize sizes)) w = (int (length (request_dump r)), request_dump r, w')"
    and "lexical_cast (dec (length (rq_body r))) = Some (of_nat (length (rq_body r)))"
  shows "recvRequest rd close lexical_cast sizes memory buffer w = Some (Inr (Some (setClose (rq_close r)
    (setBody (replicate (length (rq_body r)) NUL @ rq_body r) (parsed_request r))), w'))"
proof -
  let ?n = "length (rq_body r)"
  obtain data rp where loop: "request_loop rd (unat (GetHttpRequestBufferSize sizes)) buffer 0 (new_HttpRequestParser memory) w =
      Some (Inr (Some (data, ?n, rp), w'))" "take ?n data = rq_body r" "rp_data rp = parsed_request r"
    using request_loop_once [where rd = rd and w = w, OF assms(1,4,5,6,7)] by blast
  have "?n \<le> length (request_dump r)" by (simp add: request_dump_def body_text_def)
  then have n: "?n < 2 ^ 31" using assms(1) by (simp add: printable_def)
  have len: "sint (request_getContentLength lexical_cast rp) = int ?n"
  proof (cases "rq_body r = []")
    case True
    then show ?thesis using assms(3) parsed_length [OF assms(2)] by (simp add: request_getContentLength_def getAs_def loop(3))
  next
    case False
    then have "request_getContentLength lexical_cast rp = of_nat ?n"
      using assms(8) parsed_length [OF assms(2)] by (simp add: request_getContentLength_def getAs_def loop(3))
    then show ?thesis using n by (simp add: signed_of_nat signed_take_bit_int_eq_self)
  qed
  show ?thesis
  proof (cases "rq_body r = []")
    case True
    have "setBody [] (parsed_request r) = parsed_request r"
      by (simp add: parsed_request_def fold_setHeader new_HttpRequest_def setBody_def)
    then show ?thesis using True loop len by (simp add: recvRequest_def keep_alive_parsed)
  next
    case False
    then have "fixed_body rd data ?n (int ?n) w' = Some (Some (replicate ?n NUL @ rq_body r), w')"
      using loop(2) by (simp add: fixed_body_def)
    then show ?thesis using False loop len by (simp add: recvRequest_def keep_alive_parsed)
  qed
qed

section \<open>A request served\<close>

lemma writeFixSize_once:
  assumes "wr buffer n w = (int n, w')" "n < 2 ^ 64"
  shows "writeFixSize wr buffer n w = Some (int32_of (int n), if n = 0 then w else w')"
  using assms by (simp add: writeFixSize_def fix_write_loop.simps [of wr buffer n] fix_write_loop.simps [of wr buffer 0] to_size_t_def)

text \<open>The request that the server hands to the dispatcher.\<close>

definition served_request :: "HttpRequest \<Rightarrow> HttpRequest" where
  "served_request r = setClose (rq_close r) (setBody (replicate (length (rq_body r)) NUL @ rq_body r) (parsed_request r))"

lemma served_request_fields:
  "rq_method (served_request r) = rq_method r" "rq_version (served_request r) = rq_version r" "rq_path (served_request r) = rq_path r"
  "rq_query (served_request r) = rq_query r" "rq_fragment (served_request r) = rq_fragment r" "rq_close (served_request r) = rq_close r"
  "rq_body (served_request r) = replicate (length (rq_body r)) NUL @ rq_body r"
  by (simp_all add: served_request_def setClose_def setBody_def parsed_request_fields)

lemma handleClient_once:
  assumes "recvRequest rd close lexical_cast sizes memory buffer w = Some (Inr (Some req, w1))"
    and "dispatch_handle fnmatch call (m_dispatch server)
      (req, new_HttpResponse (rq_version req) (rq_close req \<or> \<not> m_isKeepalive server), w1) = (0, req', rsp, w2)"
    and "\<not> m_isKeepalive server \<or> rq_close req'"
    and "wr (response_dump rsp) (length (response_dump rsp)) w2 = (int (length (response_dump rsp)), w3)"
    and "length (response_dump rsp) < 2 ^ 64"
  shows "handleClient rd wr close lexical_cast sizes memory buffer fnmatch call server w = Some (Inr (close w3))"
proof -
  have "response_dump rsp \<noteq> []" by (simp add: response_dump_def)
  then have "sendResponse wr rsp w2 = Some (int32_of (int (length (response_dump rsp))), w3)"
    using writeFixSize_once [where wr = wr and buffer = "response_dump rsp" and w = w2 and w' = w3, OF assms(4,5)] by (simp add: sendResponse_def)
  then show ?thesis
    using assms(1-3) by (auto simp: handleClient_def client_loop.simps [of "recvRequest rd close lexical_cast sizes memory buffer"])
qed

end
