(* ===== verification/Socket_Correct.thy ===== *)
theory Socket_Correct
  imports Socket
begin

text \<open>
  What the operations of a socket do to the descriptors of the process: a socket holds at most the one
  it names, connected sockets hold one, and closing gives it back.
\<close>

section \<open>Sequences of operations\<close>

inductive socket_step :: "'k sys_calls \<Rightarrow> byte_order \<Rightarrow> Socket \<times> 'k \<Rightarrow> Socket \<times> 'k \<Rightarrow> bool" for sys host where
  Step_bind: "socket_bind sys host addr x = (r, y) \<Longrightarrow> socket_step sys host x y"
| Step_connect: "socket_connect sys host addr timeout x = (r, y) \<Longrightarrow> socket_step sys host x y"
| Step_listen: "socket_listen sys backlog x = (r, y) \<Longrightarrow> socket_step sys host x y"
| Step_close: "socket_close sys x = (r, y) \<Longrightarrow> socket_step sys host x y"
| Step_set: "setOption sys level option val x = (r, y) \<Longrightarrow> socket_step sys host x y"
| Step_get: "getOption sys level option x = (v, y) \<Longrightarrow> socket_step sys host x y"
| Step_remote: "getRemoteAddress sys host x = (a, y) \<Longrightarrow> socket_step sys host x y"
| Step_local: "getLocalAddress sys host x = (a, y) \<Longrightarrow> socket_step sys host x y"
| Step_send: "socket_send sys buffer len flags x = (n, y) \<Longrightarrow> socket_step sys host x y"
| Step_sendmsg: "socket_sendmsg sys buffers flags x = (n, y) \<Longrightarrow> socket_step sys host x y"
| Step_sendTo: "socket_sendTo sys buffer len to flags x = (n, y) \<Longrightarrow> socket_step sys host x y"
| Step_sendmsgTo: "socket_sendmsgTo sys buffers to flags x = (n, y) \<Longrightarrow> socket_step sys host x y"
| Step_recv: "socket_recv sys len flags x = (n, bs, y) \<Longrightarrow> socket_step sys host x y"
| Step_recvmsg: "socket_recvmsg sys lens flags x = (n, bs, y) \<Longrightarrow> socket_step sys host x y"
| Step_recvFrom: "socket_recvFrom sys len a flags x = (n, bs, a', y) \<Longrightarrow> socket_step sys host x y"
| Step_recvmsgFrom: "socket_recvmsgFrom sys lens a flags x = (n, bs, a', y) \<Longrightarrow> socket_step sys host x y"

section \<open>Descriptors\<close>

text \<open>
  What the system documents about the open descriptors of the process: \<^verbatim>\<open>socket\<close> and \<^verbatim>\<open>accept\<close> open a new one or fail,
  \<^verbatim>\<open>close\<close> closes one, and no other call changes them.
\<close>

definition opens :: "('k \<Rightarrow> int set) \<Rightarrow> 'k \<Rightarrow> int \<times> 'k \<Rightarrow> bool" where
  "opens opened k result = (case result of (fd, k') \<Rightarrow>
     if fd = - 1 then opened k' = opened k else fd \<notin> opened k \<and> opened k' = insert fd (opened k))"

definition fd_laws :: "'k sys_calls \<Rightarrow> ('k \<Rightarrow> int set) \<Rightarrow> bool" where
  "fd_laws sys opened \<longleftrightarrow>
     (\<forall>f t p k. opens opened k (sys_socket sys f t p k)) \<and> (\<forall>fd k. opens opened k (sys_accept sys fd k)) \<and>
     (\<forall>fd k. opened (sys_close sys fd k) = opened k - {fd}) \<and>
     (\<forall>fd a k. opened (snd (sys_bind sys fd a k)) = opened k) \<and>
     (\<forall>fd a k. opened (snd (sys_connect sys fd a k)) = opened k) \<and>
     (\<forall>fd a t k. opened (snd (sys_connect_timeout sys fd a t k)) = opened k) \<and>
     (\<forall>fd n k. opened (snd (sys_listen sys fd n k)) = opened k) \<and>
     (\<forall>fd l opt v k. opened (snd (sys_setsockopt sys fd l opt v k)) = opened k) \<and>
     (\<forall>fd l opt k. opened (snd (snd (sys_getsockopt sys fd l opt k))) = opened k) \<and>
     (\<forall>fd b fl k. opened (snd (sys_send sys fd b fl k)) = opened k) \<and>
     (\<forall>fd b fl a k. opened (snd (sys_sendto sys fd b fl a k)) = opened k) \<and>
     (\<forall>fd b a fl k. opened (snd (sys_sendmsg sys fd b a fl k)) = opened k) \<and>
     (\<forall>fd n fl k. opened (snd (snd (sys_recv sys fd n fl k))) = opened k) \<and>
     (\<forall>fd n fl k. opened (snd (snd (snd (sys_recvfrom sys fd n fl k)))) = opened k) \<and>
     (\<forall>fd n fl k. opened (snd (snd (snd (sys_recvmsg sys fd n fl k)))) = opened k)"

text \<open>The socket holds its descriptor and no other; \<open>others\<close> are those the rest of the process holds.\<close>

definition owns :: "('k \<Rightarrow> int set) \<Rightarrow> int set \<Rightarrow> Socket \<times> 'k \<Rightarrow> bool" where
  "owns opened others x \<longleftrightarrow> opened (snd x) = others \<union> (if isValid (fst x) then {m_sock (fst x)} else {}) \<and>
     (isValid (fst x) \<longrightarrow> m_sock (fst x) \<notin> others) \<and> (m_isConnected (fst x) \<longrightarrow> isValid (fst x))"

text \<open>Operations that leave descriptor and connection alone.\<close>

definition keeps :: "('k \<Rightarrow> int set) \<Rightarrow> Socket \<times> 'k \<Rightarrow> Socket \<times> 'k \<Rightarrow> bool" where
  "keeps opened x y \<longleftrightarrow> m_sock (fst y) = m_sock (fst x) \<and> m_isConnected (fst y) = m_isConnected (fst x) \<and> opened (snd y) = opened (snd x)"

lemma keeps_owns: "keeps opened x y \<Longrightarrow> owns opened others x \<Longrightarrow> owns opened others y"
  by (simp add: keeps_def owns_def isValid_def)

lemma keeps_trans: "keeps opened x y \<Longrightarrow> keeps opened y z \<Longrightarrow> keeps opened x z"
  by (simp add: keeps_def)

lemma fd_lawsD:
  assumes "fd_laws sys opened"
  shows "opens opened k (sys_socket sys f t p k)" "opens opened k (sys_accept sys fd k)" "opened (sys_close sys fd k) = opened k - {fd}"
    "sys_bind sys fd a k = (r, k') \<Longrightarrow> opened k' = opened k" "sys_connect sys fd a k = (r, k') \<Longrightarrow> opened k' = opened k"
    "sys_connect_timeout sys fd a tm k = (r, k') \<Longrightarrow> opened k' = opened k" "sys_listen sys fd n k = (r, k') \<Longrightarrow> opened k' = opened k"
    "sys_setsockopt sys fd l opt v k = (r, k') \<Longrightarrow> opened k' = opened k" "sys_getsockopt sys fd l opt k = (r, v', k') \<Longrightarrow> opened k' = opened k"
    "sys_send sys fd b fl k = (r, k') \<Longrightarrow> opened k' = opened k" "sys_sendto sys fd b fl a k = (r, k') \<Longrightarrow> opened k' = opened k"
    "sys_sendmsg sys fd bs ao fl k = (r, k') \<Longrightarrow> opened k' = opened k" "sys_recv sys fd len fl k = (r, b, k') \<Longrightarrow> opened k' = opened k"
    "sys_recvfrom sys fd len fl k = (r, b, fill, k') \<Longrightarrow> opened k' = opened k"
    "sys_recvmsg sys fd lens fl k = (r, b, fill, k') \<Longrightarrow> opened k' = opened k"
  using assms unfolding fd_laws_def by (metis snd_conv)+

section \<open>Every operation\<close>

lemma setOption_keeps: "fd_laws sys opened \<Longrightarrow> keeps opened x (snd (setOption sys level option val x))"
  by (cases x) (auto simp: keeps_def setOption_def fd_lawsD split: prod.splits)

lemma initSock_keeps: "fd_laws sys opened \<Longrightarrow> keeps opened x (initSock sys x)"
  unfolding initSock_def Let_def by (auto intro: keeps_trans setOption_keeps)

lemma newSock_owns:
  assumes "fd_laws sys opened" "owns opened others x" "\<not> isValid (fst x)"
  shows "owns opened others (newSock sys x)"
proof -
  obtain s k where x: "x = (s, k)" by (cases x)
  obtain fd k' where fd: "sys_socket sys (m_family s) (m_type s) (m_protocol s) k = (fd, k')" by (metis prod.exhaust)
  have o: "opens opened k (fd, k')" using fd_lawsD(1) [OF assms(1)] fd by metis
  have "owns opened others (s\<lparr>m_sock := fd\<rparr>, k')"
    using assms(2,3) o unfolding x by (auto simp: owns_def opens_def isValid_def split: if_splits)
  then show ?thesis using keeps_owns [OF initSock_keeps [OF assms(1)]] by (auto simp: x newSock_def fd)
qed

lemma valid_socket_owns: "fd_laws sys opened \<Longrightarrow> owns opened others x \<Longrightarrow> owns opened others (valid_socket sys x)"
  by (simp add: valid_socket_def newSock_owns)

lemma close_owns:
  assumes "fd_laws sys opened" "owns opened others x"
  shows "owns opened others (snd (socket_close sys x))" "\<not> isValid (fst (snd (socket_close sys x)))"
    "\<not> m_isConnected (fst (snd (socket_close sys x)))"
  using assms by (cases x; auto simp: socket_close_def owns_def isValid_def fd_lawsD(3))+

lemma address_keeps:
  "keeps opened x (snd (getRemoteAddress sys host x))" "keeps opened x (snd (getLocalAddress sys host x))"
  by (cases x; auto simp: keeps_def getRemoteAddress_def getLocalAddress_def Let_def split: option.split)+

lemma data_keeps:
  assumes "fd_laws sys opened"
  shows "keeps opened x (snd (socket_send sys buffer len flags x))" "keeps opened x (snd (socket_sendmsg sys buffers flags x))"
    "keeps opened x (snd (socket_sendTo sys buffer len to flags x))" "keeps opened x (snd (socket_sendmsgTo sys buffers to flags x))"
    "keeps opened x (snd (snd (socket_recv sys len flags x)))" "keeps opened x (snd (snd (socket_recvmsg sys lens flags x)))"
    "keeps opened x (snd (snd (snd (socket_recvFrom sys len a flags x))))"
    "keeps opened x (snd (snd (snd (socket_recvmsgFrom sys lens a flags x))))"
    "keeps opened x (snd (socket_listen sys backlog x))" "keeps opened x (snd (getOption sys level option x))"
  using assms unfolding socket_send_def socket_sendmsg_def socket_sendTo_def socket_sendmsgTo_def socket_recv_def
    socket_recvmsg_def socket_recvFrom_def socket_recvmsgFrom_def socket_listen_def getOption_def keeps_def
  by (cases x; auto dest: fd_lawsD split: prod.splits)+

lemma bind_owns:
  assumes "fd_laws sys opened" "owns opened others x"
  shows "owns opened others (snd (socket_bind sys host addr x))"
proof -
  obtain s k where v: "valid_socket sys x = (s, k)" by (metis prod.exhaust)
  have o: "owns opened others (s, k)" using valid_socket_owns [OF assms] v by simp
  obtain rt k' where b: "sys_bind sys (m_sock s) addr k = (rt, k')" by (metis prod.exhaust)
  have "owns opened others (s, k')" using o fd_lawsD(4) [OF assms(1) b] by (simp add: owns_def)
  then show ?thesis using o keeps_owns [OF address_keeps(2)] by (auto simp: socket_bind_def v b)
qed

lemma connect_owns:
  assumes "fd_laws sys opened" "owns opened others x"
  shows "owns opened others (snd (socket_connect sys host addr timeout x))"
proof -
  obtain s k where v: "valid_socket sys x = (s, k)" by (metis prod.exhaust)
  have o: "owns opened others (s, k)" using valid_socket_owns [OF assms] v by simp
  obtain rt k' where c: "(if timeout = - 1 then sys_connect sys (m_sock s) addr k
      else sys_connect_timeout sys (m_sock s) addr timeout k) = (rt, k')" by (metis prod.exhaust)
  have "opened k' = opened k" using c fd_lawsD(5,6) [OF assms(1)] by (metis (full_types))
  then have o': "owns opened others (s, k')" using o by (simp add: owns_def)
  then have "owns opened others (s\<lparr>m_isConnected := True\<rparr>, k')" if "isValid s" using that by (auto simp: owns_def isValid_def)
  then show ?thesis using o o' close_owns(1) [OF assms(1) o'] keeps_owns [OF keeps_trans [OF address_keeps(1) address_keeps(2)]]
    by (auto simp: socket_connect_def v c)
qed

lemma step_owns: "socket_step sys host x y \<Longrightarrow> fd_laws sys opened \<Longrightarrow> owns opened others x \<Longrightarrow> owns opened others y"
proof (induction rule: socket_step.induct)
  case (Step_bind addr x r y)
  then show ?case using bind_owns by (metis snd_conv)
next
  case (Step_connect addr timeout x r y)
  then show ?case using connect_owns by (metis snd_conv)
next
  case (Step_close x r y)
  then show ?case using close_owns(1) by (metis snd_conv)
next
  case (Step_set level option val x r y)
  then show ?case using setOption_keeps keeps_owns by (metis snd_conv)
qed (use data_keeps address_keeps keeps_owns in \<open>metis snd_conv\<close>)+

lemma steps_own: "(socket_step sys host)\<^sup>*\<^sup>* x y \<Longrightarrow> fd_laws sys opened \<Longrightarrow> owns opened others x \<Longrightarrow> owns opened others y"
  by (induction rule: rtranclp_induct) (auto intro: step_owns)

lemma new_owns: "owns opened (opened k) (new_Socket f t p, k)"
  by (simp add: owns_def new_Socket_def isValid_def)

section \<open>Accepting\<close>

lemma init_owns:
  assumes "fd_laws sys opened" "opened k = insert fd others" "fd \<notin> others" "fd \<noteq> - 1" "socket_init sys host fd (new_Socket f t p, k) = (Inr True, s, k')"
  shows "owns opened others (s, k')" "m_isConnected s"
proof -
  have "owns opened others ((new_Socket f t p)\<lparr>m_sock := fd, m_isConnected := True\<rparr>, k)"
    using assms(2-4) by (simp add: owns_def isValid_def)
  moreover have k: "keeps opened ((new_Socket f t p)\<lparr>m_sock := fd, m_isConnected := True\<rparr>, k) (s, k')"
  proof -
    let ?x = "((new_Socket f t p)\<lparr>m_sock := fd, m_isConnected := True\<rparr>, k)"
    have "snd (getRemoteAddress sys host (snd (getLocalAddress sys host (initSock sys ?x)))) = (s, k')"
      using assms(5) by (simp add: socket_init_def split: sum.splits option.splits prod.splits if_splits)
    then show ?thesis using initSock_keeps [OF assms(1), of ?x] address_keeps(2) [of opened "initSock sys ?x" sys host]
        address_keeps(1) [of opened "snd (getLocalAddress sys host (initSock sys ?x))" sys host] by (metis keeps_trans)
  qed
  ultimately show "owns opened others (s, k')" using keeps_owns by metis
  show "m_isConnected s" using k by (simp add: keeps_def)
qed

lemma accept_owns:
  assumes "fd_laws sys opened" "socket_accept sys host l k = (Inr (Some s), k')"
  shows "owns opened (opened k) (s, k')" "m_isConnected s"
proof -
  obtain fd k1 where a: "sys_accept sys (m_sock l) k = (fd, k1)" by (metis prod.exhaust)
  have o: "opens opened k (fd, k1)" using fd_lawsD(2) [OF assms(1)] a by metis
  have "fd \<noteq> - 1" "socket_init sys host fd (new_Socket (m_family l) (m_type l) (m_protocol l), k1) = (Inr True, s, k')"
    using assms(2) by (auto simp: socket_accept_def a split: prod.splits sum.splits if_splits)
  then show "owns opened (opened k) (s, k')" "m_isConnected s"
    using init_owns [OF assms(1)] o by (auto simp: opens_def)
qed

text \<open>An accepted descriptor without a context stays open, and no socket names it.\<close>

lemma accept_leaks:
  assumes "fd_laws sys opened" "sys_accept sys (m_sock l) k = (fd, k1)" "fd \<noteq> - 1" "get_ctx fd (sys_fds sys k1) = Inr None"
  shows "socket_accept sys host l k = (Inr None, k1)" "opened k1 = insert fd (opened k)" "fd \<notin> opened k"
proof -
  have "opens opened k (fd, k1)" using fd_lawsD(2) [OF assms(1)] assms(2) by metis
  then show "socket_accept sys host l k = (Inr None, k1)" "opened k1 = insert fd (opened k)" "fd \<notin> opened k"
    using assms by (auto simp: opens_def socket_accept_def socket_init_def)
qed

section \<open>All the sockets of a process\<close>

text \<open>
  A state is the socket objects, the descriptors that \<^verbatim>\<open>accept\<close> got from the system and did not turn into an
  object, and the system.  An object is created without a descriptor, used by any operation, destroyed (its
  destructor closes it), or listened on: then the call yields another object, or none.
\<close>

type_synonym 'k sockets = "Socket list \<times> int set \<times> 'k"

inductive sockets_step :: "'k sys_calls \<Rightarrow> byte_order \<Rightarrow> 'k sockets \<Rightarrow> 'k sockets \<Rightarrow> bool" for sys host where
  Sockets_new: "sockets_step sys host (ss, leaked, k) (new_Socket f t p # ss, leaked, k)"
| Sockets_use: "socket_step sys host (s, k) (s', k') \<Longrightarrow>
     sockets_step sys host (xs @ s # ys, leaked, k) (xs @ s' # ys, leaked, k')"
| Sockets_accept: "s \<in> set ss \<Longrightarrow> socket_accept sys host s k = (Inr (Some s'), k') \<Longrightarrow>
     sockets_step sys host (ss, leaked, k) (s' # ss, leaked, k')"
| Sockets_accept_none: "s \<in> set ss \<Longrightarrow> socket_accept sys host s k = (r, k') \<Longrightarrow> \<forall>s'. r \<noteq> Inr (Some s') \<Longrightarrow>
     fst (sys_accept sys (m_sock s) k) = fd \<Longrightarrow>
     sockets_step sys host (ss, leaked, k) (ss, if fd = - 1 then leaked else insert fd leaked, k')"
| Sockets_destroy: "socket_close sys (s, k) = (r, s', k') \<Longrightarrow>
     sockets_step sys host (xs @ s # ys, leaked, k) (xs @ ys, leaked, k')"

definition held_fds :: "Socket list \<Rightarrow> int list" where
  "held_fds ss = map m_sock (filter isValid ss)"

lemma held_fds_simps [simp]:
  "held_fds [] = []" "held_fds (xs @ ys) = held_fds xs @ held_fds ys" "held_fds (s # ss) = (if isValid s then m_sock s # held_fds ss else held_fds ss)"
  by (simp_all add: held_fds_def)

definition sockets_own :: "('k \<Rightarrow> int set) \<Rightarrow> int set \<Rightarrow> 'k sockets \<Rightarrow> bool" where
  "sockets_own opened others = (\<lambda>(ss, leaked, k).
     opened k = others \<union> leaked \<union> set (held_fds ss) \<and> distinct (held_fds ss) \<and> set (held_fds ss) \<inter> (others \<union> leaked) = {} \<and>
     others \<inter> leaked = {} \<and> (\<forall>s \<in> set ss. m_isConnected s \<longrightarrow> isValid s))"

text \<open>One of the sockets and the rest.\<close>

lemma sockets_own_split:
  "sockets_own opened others (xs @ s # ys, leaked, k) \<longleftrightarrow>
     owns opened (others \<union> leaked \<union> set (held_fds (xs @ ys))) (s, k) \<and> distinct (held_fds (xs @ ys)) \<and>
     set (held_fds (xs @ ys)) \<inter> (others \<union> leaked) = {} \<and> others \<inter> leaked = {} \<and> (\<forall>s \<in> set (xs @ ys). m_isConnected s \<longrightarrow> isValid s)"
  by (auto simp: sockets_own_def owns_def)

lemma accept_none:
  assumes "socket_accept sys host s k = (r, k')" "\<forall>s'. r \<noteq> Inr (Some s')"
  shows "k' = snd (sys_accept sys (m_sock s) k)"
proof -
  have same: "k3 = k2" if "socket_init sys host fd (s1, k2) = (r2, s2, k3)" "r2 \<noteq> Inr True" for fd s1 k2 r2 s2 k3
    using that by (auto simp: socket_init_def split: sum.splits option.splits if_splits)
  show ?thesis
    using assms by (auto simp: socket_accept_def dest: same split: prod.splits sum.splits if_splits)
qed

lemma sockets_step_own:
  "sockets_step sys host x y \<Longrightarrow> fd_laws sys opened \<Longrightarrow> sockets_own opened others x \<Longrightarrow> sockets_own opened others y"
proof (induction rule: sockets_step.induct)
  case (Sockets_new ss leaked k f t p)
  then show ?case by (simp add: sockets_own_def new_Socket_def isValid_def)
next
  case (Sockets_use s k s' k' xs ys leaked)
  then show ?case unfolding sockets_own_split using step_owns by blast
next
  case (Sockets_accept s ss k s' k' leaked)
  have "owns opened (opened k) (s', k')"
    by (rule accept_owns(1) [OF Sockets_accept.prems(1) Sockets_accept.hyps(2)])
  then show ?case
    using Sockets_accept.prems sockets_own_split [of opened others "[]" s' ss leaked k']
    by (simp add: sockets_own_def)
next
  case (Sockets_accept_none s ss k r k' fd leaked)
  have k': "k' = snd (sys_accept sys (m_sock s) k)" using accept_none Sockets_accept_none.hyps by metis
  have "sys_accept sys (m_sock s) k = (fd, k')" using Sockets_accept_none.hyps(4) unfolding k' by (metis prod.collapse)
  then have "opens opened k (fd, k')" using fd_lawsD(2) [OF Sockets_accept_none.prems(1), of k "m_sock s"] by simp
  then show ?case using Sockets_accept_none.prems(2) by (auto simp: sockets_own_def opens_def split: if_splits)
next
  case (Sockets_destroy s k r s' k' xs ys leaked)
  then have o: "owns opened (others \<union> leaked \<union> set (held_fds (xs @ ys))) (s, k)" by (simp add: sockets_own_split)
  have "owns opened (others \<union> leaked \<union> set (held_fds (xs @ ys))) (s', k')" "\<not> isValid s'"
    using close_owns(1,2) [OF Sockets_destroy.prems(1) o] Sockets_destroy.hyps by simp_all
  then have "opened k' = others \<union> leaked \<union> set (held_fds (xs @ ys))" by (simp add: owns_def)
  then show ?case using Sockets_destroy.prems(2) by (auto simp: sockets_own_def split: if_splits)
qed

lemma sockets_steps_own:
  "(sockets_step sys host)\<^sup>*\<^sup>* x y \<Longrightarrow> fd_laws sys opened \<Longrightarrow> sockets_own opened others x \<Longrightarrow> sockets_own opened others y"
  by (induction rule: rtranclp_induct) (auto intro: sockets_step_own)

section \<open>Other behaviour\<close>

text \<open>The peer's address is asked for once: a socket that is closed and connected again still gives the first.\<close>

lemma close_keeps_remote: "m_remoteAddress (fst (snd (socket_close sys x))) = m_remoteAddress (fst x)"
  by (cases x) (simp add: socket_close_def Let_def)

lemma remote_cached: "m_remoteAddress (fst x) = Some a \<Longrightarrow> getRemoteAddress sys host x = (a, x)"
  by (cases x) (simp add: getRemoteAddress_def)

text \<open>Both timeouts set the one for sending, and a connected socket does not send to an address.\<close>

lemma setRecvTimeout_is_send: "setRecvTimeout = setSendTimeout"
  by (intro ext) (simp add: setRecvTimeout_def setSendTimeout_def)

lemma sendTo_connected: "m_isConnected s \<Longrightarrow> socket_sendTo sys buffer len to flags (s, k) = (- 1, s, k)"
  by (simp add: socket_sendTo_def)

end
