(* ===== verification/Tcp_Server.thy ===== *)
theory Tcp_Server
  imports Socket_Correct
begin

text \<open>
  \<^verbatim>\<open>linko/tcp_server.{h,cc}\<close>: the listening sockets of a server, and the loops that accept on them.  What is
  scheduled on the two \<^verbatim>\<open>IOManager\<close>s is part of an operation's value.  A socket that no pointer holds is closed by its
  destructor.
\<close>

section \<open>State and operations\<close>

record TcpServer =
  m_socks :: "Socket list"
  m_recvTimeout_ms :: u64
  m_name :: string
  m_isStop :: bool

definition new_TcpServer :: TcpServer where
  "new_TcpServer = \<lparr>m_socks = [], m_recvTimeout_ms = 0, m_name = ''linko/1.0.0'', m_isStop = True\<rparr>"

definition destroy_Socket :: "'k sys_calls \<Rightarrow> Socket \<Rightarrow> 'k \<Rightarrow> 'k" where
  "destroy_Socket sys s k = snd (snd (socket_close sys (s, k)))"

definition destroy_Sockets :: "'k sys_calls \<Rightarrow> Socket list \<Rightarrow> 'k \<Rightarrow> 'k" where
  "destroy_Sockets sys = fold (destroy_Socket sys)"

definition destroy_TcpServer :: "'k sys_calls \<Rightarrow> TcpServer \<Rightarrow> 'k \<Rightarrow> 'k" where
  "destroy_TcpServer sys srv = destroy_Sockets sys (m_socks srv)"

text \<open>The loop over the addresses: the sockets and failures so far and those it adds.  \<open>SOMAXCONN\<close> is an argument.\<close>

fun bind_each :: "'k sys_calls \<Rightarrow> byte_order \<Rightarrow> int \<Rightarrow> address list \<Rightarrow>
    Socket list \<times> address list \<times> 'k \<Rightarrow> Socket list \<times> address list \<times> 'k" where
  "bind_each sys host backlog [] x = x"
| "bind_each sys host backlog (addr # addrs) (socks, fails, k) =
     (case socket_bind sys host addr (Socket_CreateTCP addr, k) of (bound, s, k1) \<Rightarrow>
        if \<not> bound then bind_each sys host backlog addrs (socks, fails @ [addr], destroy_Socket sys s k1)
        else case socket_listen sys backlog (s, k1) of (listens, s', k2) \<Rightarrow>
          if \<not> listens then bind_each sys host backlog addrs (socks, fails @ [addr], destroy_Socket sys s' k2)
          else bind_each sys host backlog addrs (socks @ [s'], fails, k2))"

definition tcp_bind :: "'k sys_calls \<Rightarrow> byte_order \<Rightarrow> int \<Rightarrow> address list \<Rightarrow> address list \<Rightarrow> TcpServer \<times> 'k \<Rightarrow>
    bool \<times> address list \<times> TcpServer \<times> 'k" where
  "tcp_bind sys host backlog addrs fails = (\<lambda>(srv, k).
     case bind_each sys host backlog addrs (m_socks srv, fails, k) of (socks, fails', k') \<Rightarrow>
       if fails' \<noteq> [] then (False, fails', srv\<lparr>m_socks := []\<rparr>, destroy_Sockets sys socks k')
       else (True, fails', srv\<lparr>m_socks := socks\<rparr>, k'))"

definition tcp_bind_one :: "'k sys_calls \<Rightarrow> byte_order \<Rightarrow> int \<Rightarrow> address \<Rightarrow> TcpServer \<times> 'k \<Rightarrow> bool \<times> TcpServer \<times> 'k" where
  "tcp_bind_one sys host backlog addr x = (case tcp_bind sys host backlog [addr] [] x of (ok, _, x') \<Rightarrow> (ok, x'))"

text \<open>
  One pass of the loop of \<^verbatim>\<open>startAccept\<close>: nothing when the server has stopped, otherwise the client, if any, that
  \<^verbatim>\<open>handleClient\<close> is scheduled for.
\<close>

definition accept_pass :: "'k sys_calls \<Rightarrow> byte_order \<Rightarrow> TcpServer \<Rightarrow> Socket \<Rightarrow> ('k, Socket option option) eff" where
  "accept_pass sys host srv sock k =
     (if m_isStop srv then (Inr None, k)
      else case socket_accept sys host sock k of
        (Inl e, k1) \<Rightarrow> (Inl e, k1)
      | (Inr None, k1) \<Rightarrow> (Inr (Some None), k1)
      | (Inr (Some client), k1) \<Rightarrow>
          (case setRecvTimeout sys (sint (m_recvTimeout_ms srv)) (client, k1) of (_, client', k2) \<Rightarrow> (Inr (Some (Some client')), k2)))"

text \<open>The sockets that \<^verbatim>\<open>startAccept\<close> is scheduled for.\<close>

definition tcp_start :: "TcpServer \<Rightarrow> bool \<times> Socket list \<times> TcpServer" where
  "tcp_start srv = (if \<not> m_isStop srv then (True, [], srv) else (True, m_socks srv, srv\<lparr>m_isStop := False\<rparr>))"

definition tcp_stop :: "TcpServer \<Rightarrow> TcpServer" where
  "tcp_stop srv = srv\<lparr>m_isStop := True\<rparr>"

text \<open>The task that \<^verbatim>\<open>stop\<close> schedules: the descriptors whose events it cancels, and the sockets closed.\<close>

definition stop_task :: "'k sys_calls \<Rightarrow> TcpServer \<times> 'k \<Rightarrow> int list \<times> TcpServer \<times> 'k" where
  "stop_task sys = (\<lambda>(srv, k). (map m_sock (m_socks srv), srv\<lparr>m_socks := []\<rparr>, destroy_Sockets sys (m_socks srv) k))"

section \<open>Descriptors of a server\<close>

text \<open>The sockets hold different descriptors, the only ones beside \<open>others\<close>.\<close>

definition all_own :: "('k \<Rightarrow> int set) \<Rightarrow> int set \<Rightarrow> Socket list \<Rightarrow> 'k \<Rightarrow> bool" where
  "all_own opened others socks k \<longleftrightarrow> opened k = others \<union> set (map m_sock socks) \<and> distinct (map m_sock socks) \<and>
     set (map m_sock socks) \<inter> others = {} \<and> list_all isValid socks"

lemma destroy_owned: "fd_laws sys opened \<Longrightarrow> owns opened others (s, k) \<Longrightarrow> opened (destroy_Socket sys s k) = others"
  using close_owns [of sys opened others "(s, k)"] by (auto simp: destroy_Socket_def owns_def)

lemma destroy_Sockets_own:
  "fd_laws sys opened \<Longrightarrow> all_own opened others socks k \<Longrightarrow> opened (destroy_Sockets sys socks k) = others"
proof (induction socks arbitrary: k)
  case (Cons s socks)
  have "opened (destroy_Socket sys s k) = opened k - {m_sock s}"
    using Cons.prems by (simp add: all_own_def isValid_def destroy_Socket_def socket_close_def Let_def fd_lawsD(3))
  then have "all_own opened others socks (destroy_Socket sys s k)" using Cons.prems(2) by (auto simp: all_own_def)
  then show ?case using Cons by (simp add: destroy_Sockets_def)
qed (simp add: destroy_Sockets_def all_own_def)

lemma all_own_snoc: "all_own opened (others \<union> set (map m_sock socks)) [s] k \<Longrightarrow> all_own opened others socks k' \<Longrightarrow>
    all_own opened others (socks @ [s]) k"
  by (auto simp: all_own_def)

lemma owns_single: "owns opened others (s, k) \<Longrightarrow> isValid s \<Longrightarrow> all_own opened others [s] k"
  by (simp add: owns_def all_own_def)

lemma bind_valid: "socket_bind sys host addr x = (True, s, k) \<Longrightarrow> isValid s"
  by (cases "valid_socket sys x")
    (auto simp: socket_bind_def getLocalAddress_def isValid_def Let_def split: if_splits prod.splits option.splits)

lemma all_own_same: "all_own opened others socks k \<Longrightarrow> opened k' = opened k \<Longrightarrow> all_own opened others socks k'"
  by (simp add: all_own_def)

lemma bind_each_own:
  assumes laws: "fd_laws sys opened"
  shows "all_own opened others socks k \<Longrightarrow> bind_each sys host backlog addrs (socks, fails, k) = (socks', fails', k') \<Longrightarrow>
    all_own opened others socks' k' \<and> (\<exists>more. fails' = fails @ more \<and> length socks' + length more = length socks + length addrs)"
proof (induction addrs arbitrary: socks fails k)
  case (Cons addr addrs)
  obtain bound s k1 where b: "socket_bind sys host addr (Socket_CreateTCP addr, k) = (bound, s, k1)" by (metis prod.exhaust)
  obtain listens s' k2 where l: "socket_listen sys backlog (s, k1) = (listens, s', k2)" by (metis prod.exhaust)
  have o1: "owns opened (opened k) (s, k1)"
    using bind_owns [OF laws new_owns [of opened k "uint (getFamily addr)" SOCK_STREAM 0], of host addr] b
    by (simp add: Socket_CreateTCP_def)
  have ks: "keeps opened (s, k1) (s', k2)" using data_keeps(9) [OF laws, of "(s, k1)" backlog] l by simp
  have o2: "owns opened (opened k) (s', k2)" by (rule keeps_owns [OF ks o1])
  have d: "all_own opened others socks (destroy_Socket sys s k1)" "all_own opened others socks (destroy_Socket sys s' k2)"
    using all_own_same [OF Cons.prems(1)] destroy_owned [OF laws o1] destroy_owned [OF laws o2] by simp_all
  have ok: "all_own opened others (socks @ [s']) k2" if bound
  proof -
    have "isValid s" using bind_valid [of sys host addr "(Socket_CreateTCP addr, k)" s k1] b that by simp
    then have "isValid s'" using ks by (simp add: keeps_def isValid_def)
    moreover have "opened k = others \<union> set (map m_sock socks)" using Cons.prems(1) by (simp add: all_own_def)
    ultimately show ?thesis using owns_single [OF o2] all_own_snoc [OF _ Cons.prems(1)] by simp
  qed
  consider "\<not> bound" | "bound" "\<not> listens" | "bound" "listens" by blast
  then show ?case
  proof cases
    case 1
    then show ?thesis using Cons.IH [OF d(1), of "fails @ [addr]"] Cons.prems(2) by (auto simp: b)
  next
    case 2
    then show ?thesis using Cons.IH [OF d(2), of "fails @ [addr]"] Cons.prems(2) by (auto simp: b l)
  next
    case 3
    then show ?thesis using Cons.IH [OF ok, of fails] Cons.prems(2) by (auto simp: b l)
  qed
qed auto

text \<open>Either every address has a listening socket, or none is left open.\<close>

lemma tcp_bind_owns:
  assumes laws: "fd_laws sys opened" and own: "all_own opened others (m_socks srv) k"
    and run: "tcp_bind sys host backlog addrs fails (srv, k) = (ok, fails', srv', k')"
  shows "all_own opened others (m_socks srv') k'" "ok \<longleftrightarrow> fails' = []"
    "if ok then length (m_socks srv') = length (m_socks srv) + length addrs else m_socks srv' = []"
proof -
  obtain socks fs k1 where e: "bind_each sys host backlog addrs (m_socks srv, fails, k) = (socks, fs, k1)" by (metis prod.exhaust)
  have all: "all_own opened others socks k1"
    and len: "\<exists>more. fs = fails @ more \<and> length socks + length more = length (m_socks srv) + length addrs"
    using bind_each_own [OF laws own e] by blast+
  have gone: "opened (destroy_Sockets sys socks k1) = others" by (rule destroy_Sockets_own [OF laws all])
  consider "fs \<noteq> []" "ok = False" "fails' = fs" "m_socks srv' = []" "k' = destroy_Sockets sys socks k1"
    | "fs = []" "ok = True" "fails' = []" "m_socks srv' = socks" "k' = k1"
    using run e by (cases "fs = []") (auto simp: tcp_bind_def)
  then have "all_own opened others (m_socks srv') k' \<and> (ok \<longleftrightarrow> fails' = []) \<and>
      (if ok then length (m_socks srv') = length (m_socks srv) + length addrs else m_socks srv' = [])"
  proof cases
    case 1
    then show ?thesis using gone by (simp add: all_own_def)
  next
    case 2
    then show ?thesis using all len by simp
  qed
  then show "all_own opened others (m_socks srv') k'" "ok \<longleftrightarrow> fails' = []"
    "if ok then length (m_socks srv') = length (m_socks srv) + length addrs else m_socks srv' = []" by blast+
qed

section \<open>Listening sockets\<close>

text \<open>
  What the system documents about listening: \<open>view\<close> gives the address that a descriptor is bound to and whether it listens.
  \<^verbatim>\<open>bind\<close> and \<^verbatim>\<open>listen\<close>, when they succeed, make the descriptor bound and listening; a call concerns the descriptor it is given or
  returns and no other, and options are none of this.
\<close>

definition listen_laws :: "'k sys_calls \<Rightarrow> ('k \<Rightarrow> int \<Rightarrow> address option \<times> bool) \<Rightarrow> bool" where
  "listen_laws sys view \<longleftrightarrow>
     (\<forall>f t p k fd'. fd' \<noteq> fst (sys_socket sys f t p k) \<longrightarrow> view (snd (sys_socket sys f t p k)) fd' = view k fd') \<and>
     (\<forall>fd a k fd'. fd' \<noteq> fd \<longrightarrow> view (snd (sys_bind sys fd a k)) fd' = view k fd') \<and>
     (\<forall>fd a k. fst (sys_bind sys fd a k) = 0 \<longrightarrow> fst (view (snd (sys_bind sys fd a k)) fd) = Some a) \<and>
     (\<forall>fd n k fd'. fd' \<noteq> fd \<longrightarrow> view (snd (sys_listen sys fd n k)) fd' = view k fd') \<and>
     (\<forall>fd n k. fst (sys_listen sys fd n k) = 0 \<longrightarrow> view (snd (sys_listen sys fd n k)) fd = (fst (view k fd), True)) \<and>
     (\<forall>fd l opt v k. view (snd (sys_setsockopt sys fd l opt v k)) = view k) \<and>
     (\<forall>fd k fd'. fd' \<noteq> fd \<longrightarrow> view (sys_close sys fd k) fd' = view k fd')"

definition alike :: "('k \<Rightarrow> int \<Rightarrow> address option \<times> bool) \<Rightarrow> int \<Rightarrow> 'k \<Rightarrow> 'k \<Rightarrow> bool" where
  "alike view fd k k' \<longleftrightarrow> (\<forall>fd'. fd' \<noteq> fd \<longrightarrow> view k' fd' = view k fd')"

lemma listen_lawsD:
  assumes "listen_laws sys view"
  shows "sys_socket sys f t p k = (fd, k') \<Longrightarrow> alike view fd k k'" "sys_bind sys fd a k = (r, k') \<Longrightarrow> alike view fd k k'"
    "sys_bind sys fd a k = (0, k') \<Longrightarrow> fst (view k' fd) = Some a" "sys_listen sys fd n k = (r, k') \<Longrightarrow> alike view fd k k'"
    "sys_listen sys fd n k = (0, k') \<Longrightarrow> view k' fd = (fst (view k fd), True)"
    "sys_setsockopt sys fd l opt v k = (r, k') \<Longrightarrow> view k' = view k" "alike view fd k (sys_close sys fd k)"
  using assms unfolding listen_laws_def alike_def by (metis fst_conv snd_conv)+

lemma alike_trans: "alike view fd k k' \<Longrightarrow> alike view fd k' k'' \<Longrightarrow> alike view fd k k''"
  by (simp add: alike_def)

lemma setOption_view: "listen_laws sys view \<Longrightarrow> setOption sys l opt v (s, k) = (r, s', k') \<Longrightarrow> s' = s \<and> view k' = view k"
  by (auto simp: setOption_def dest: listen_lawsD(6) split: prod.splits)

lemma initSock_view: "listen_laws sys view \<Longrightarrow> initSock sys (s, k) = (s', k') \<Longrightarrow> s' = s \<and> view k' = view k"
proof -
  assume laws: "listen_laws sys view" and run: "initSock sys (s, k) = (s', k')"
  obtain r s1 k1 where 1: "setOption sys SOL_SOCKET SO_REUSEADDR (Opt_int 1) (s, k) = (r, s1, k1)" by (metis prod.exhaust)
  obtain r2 s2 k2 where 2: "setOption sys IPPROTO_TCP TCP_NODELAY (Opt_int 1) (s1, k1) = (r2, s2, k2)" by (metis prod.exhaust)
  show ?thesis using run setOption_view [OF laws 1] setOption_view [OF laws 2] 1 2
    by (auto simp: initSock_def Let_def split: if_splits)
qed

lemma newSock_view:
  assumes "listen_laws sys view" "newSock sys (s, k) = (s', k')"
  shows "alike view (m_sock s') k k'"
proof -
  obtain fd k1 where fd: "sys_socket sys (m_family s) (m_type s) (m_protocol s) k = (fd, k1)" by (metis prod.exhaust)
  have "m_sock s' = fd \<and> view k' = view k1"
    using assms(2) initSock_view [OF assms(1), of "s\<lparr>m_sock := fd\<rparr>" k1 s' k'] by (auto simp: newSock_def fd split: if_splits)
  then show ?thesis using listen_lawsD(1) [OF assms(1) fd] by (simp add: alike_def)
qed

lemma getLocalAddress_same: "getLocalAddress sys host (s, k) = (a, s', k') \<Longrightarrow> m_sock s' = m_sock s \<and> k' = k"
  by (auto simp: getLocalAddress_def Let_def split: option.splits)

lemma bind_view:
  assumes "listen_laws sys view" "socket_bind sys host addr (new_Socket f t p, k) = (ok, s, k')"
  shows "alike view (m_sock s) k k'" "ok \<Longrightarrow> fst (view k' (m_sock s)) = Some addr"
proof -
  obtain s1 k1 where n: "newSock sys (new_Socket f t p, k) = (s1, k1)" by (metis prod.exhaust)
  obtain r k2 where b: "sys_bind sys (m_sock s1) addr k1 = (r, k2)" by (metis prod.exhaust)
  obtain a s3 k3 where g: "getLocalAddress sys host (s1, k2) = (a, s3, k3)" by (metis prod.exhaust)
  have v: "valid_socket sys (new_Socket f t p, k) = (s1, k1)" by (simp add: valid_socket_def isValid_def new_Socket_def n [unfolded new_Socket_def])
  consider "ok = False" "s = s1" "k' = k1" | "ok = False" "s = s1" "k' = k2" | "ok" "r = 0" "m_sock s = m_sock s1" "k' = k2"
    using assms(2) getLocalAddress_same [OF g] by (auto simp: socket_bind_def v b g split: if_splits)
  then have "alike view (m_sock s) k k' \<and> (ok \<longrightarrow> fst (view k' (m_sock s)) = Some addr)"
    using newSock_view [OF assms(1) n] listen_lawsD(2,3) [OF assms(1)] b by cases (auto intro: alike_trans)
  then show "alike view (m_sock s) k k'" "ok \<Longrightarrow> fst (view k' (m_sock s)) = Some addr" by blast+
qed

lemma listen_view:
  assumes "listen_laws sys view" "socket_listen sys backlog (s, k) = (ok, s', k')"
  shows "s' = s" "alike view (m_sock s) k k'" "ok \<Longrightarrow> view k' (m_sock s) = (fst (view k (m_sock s)), True)"
  using assms listen_lawsD(4,5) [OF assms(1)]
  by (auto simp: socket_listen_def alike_def split: if_splits prod.splits)

lemma destroy_view: "listen_laws sys view \<Longrightarrow> alike view (m_sock s) k (destroy_Socket sys s k)"
  using listen_lawsD(7) [of sys view "m_sock s" k] by (auto simp: destroy_Socket_def socket_close_def Let_def alike_def)

text \<open>A fresh socket's descriptor is none of those that the sockets before it hold.\<close>

lemma fresh_descriptor:
  assumes "all_own opened others socks k" "owns opened (opened k) (s, k1)" "s0 \<in> set socks"
  shows "m_sock s0 \<noteq> m_sock s"
proof -
  have "isValid s0" "m_sock s0 \<in> opened k" using assms(1,3) by (auto simp: all_own_def list_all_iff)
  then show ?thesis using assms(2) by (auto simp: owns_def isValid_def)
qed

definition serves :: "('k \<Rightarrow> int \<Rightarrow> address option \<times> bool) \<Rightarrow> 'k \<Rightarrow> address \<Rightarrow> Socket \<Rightarrow> bool" where
  "serves view k addr s \<longleftrightarrow> view k (m_sock s) = (Some addr, True)"

lemma bind_each_serves:
  assumes laws: "fd_laws sys opened" and listens: "listen_laws sys view"
  shows "all_own opened others socks k \<Longrightarrow> bind_each sys host backlog addrs (socks, fails, k) = (socks', fails', k') \<Longrightarrow>
    \<exists>new more. socks' = socks @ new \<and> fails' = fails @ more \<and> (\<forall>s \<in> set socks. view k' (m_sock s) = view k (m_sock s)) \<and>
      (more = [] \<longrightarrow> list_all2 (serves view k') addrs new)"
proof (induction addrs arbitrary: socks fails k)
  case (Cons addr addrs)
  obtain bound s k1 where b: "socket_bind sys host addr (Socket_CreateTCP addr, k) = (bound, s, k1)" by (metis prod.exhaust)
  obtain listening s' k2 where l: "socket_listen sys backlog (s, k1) = (listening, s', k2)" by (metis prod.exhaust)
  note lv = listen_view [OF listens l]
  note bv = bind_view [OF listens b [unfolded Socket_CreateTCP_def]]
  have o1: "owns opened (opened k) (s, k1)"
    using bind_owns [OF laws new_owns [of opened k "uint (getFamily addr)" SOCK_STREAM 0], of host addr] b
    by (simp add: Socket_CreateTCP_def)
  have o2: "owns opened (opened k) (s, k2)"
    using keeps_owns [OF data_keeps(9) [OF laws, of "(s, k1)" backlog] o1] l lv(1) by simp
  have other: "m_sock s0 \<noteq> m_sock s" if "s0 \<in> set socks" for s0 by (rule fresh_descriptor [OF Cons.prems(1) o1 that])
  have d: "all_own opened others socks (destroy_Socket sys s k1)" "all_own opened others socks (destroy_Socket sys s k2)"
    using all_own_same [OF Cons.prems(1)] destroy_owned [OF laws o1] destroy_owned [OF laws o2] by simp_all
  have same: "\<forall>s0 \<in> set socks. view k3 (m_sock s0) = view k (m_sock s0)" if "alike view (m_sock s) k k3" for k3
    using that other by (simp add: alike_def)
  have fs: "alike view (m_sock s) k k2" "alike view (m_sock s) k (destroy_Socket sys s k1)" "alike view (m_sock s) k (destroy_Socket sys s k2)"
    using alike_trans [OF bv(1)] alike_trans [OF alike_trans [OF bv(1) lv(2)]] lv(2) destroy_view [OF listens] by blast+
  consider "\<not> bound" | "bound" "\<not> listening" | "bound" "listening" by blast
  then show ?case
  proof cases
    case 1
    then have "bind_each sys host backlog addrs (socks, fails @ [addr], destroy_Socket sys s k1) = (socks', fails', k')"
      using Cons.prems(2) by (simp add: b)
    from Cons.IH [OF d(1) this] show ?thesis using same [OF fs(2)] by auto
  next
    case 2
    then have "bind_each sys host backlog addrs (socks, fails @ [addr], destroy_Socket sys s k2) = (socks', fails', k')"
      using Cons.prems(2) lv(1) by (simp add: b l)
    from Cons.IH [OF d(2) this] show ?thesis using same [OF fs(3)] by auto
  next
    case 3
    then have run: "bind_each sys host backlog addrs (socks @ [s], fails, k2) = (socks', fails', k')"
      using Cons.prems(2) lv(1) by (simp add: b l)
    have "isValid s" using bind_valid [of sys host addr "(Socket_CreateTCP addr, k)" s k1] b 3(1) by simp
    moreover have "opened k = others \<union> set (map m_sock socks)" using Cons.prems(1) by (simp add: all_own_def)
    ultimately have own: "all_own opened others (socks @ [s]) k2" using owns_single [OF o2] all_own_snoc [OF _ Cons.prems(1)] by simp
    have "serves view k2 addr s" using bv(2) lv(3) 3 by (simp add: serves_def)
    with Cons.IH [OF own run] show ?thesis using same [OF fs(1)]
      by (elim exE conjE) (rule exI, rule exI [of _ _], auto simp: serves_def)
  qed
qed auto

lemma tcp_bind_serves:
  assumes "fd_laws sys opened" "listen_laws sys view" "all_own opened others (m_socks srv) k"
    and "tcp_bind sys host backlog addrs fails (srv, k) = (True, fails', srv', k')"
  shows "\<exists>new. m_socks srv' = m_socks srv @ new \<and> list_all2 (serves view k') addrs new \<and>
    (\<forall>s \<in> set (m_socks srv). view k' (m_sock s) = view k (m_sock s))"
proof -
  obtain socks fs k1 where e: "bind_each sys host backlog addrs (m_socks srv, fails, k) = (socks, fs, k1)" by (metis prod.exhaust)
  then have "fs = []" "m_socks srv' = socks" "k' = k1" using assms(4) by (auto simp: tcp_bind_def split: if_splits)
  then show ?thesis using bind_each_serves [OF assms(1-3) e] by auto
qed

lemma stop_task_owns:
  assumes "fd_laws sys opened" "all_own opened others (m_socks srv) k" "stop_task sys (srv, k) = (fds, srv', k')"
  shows "opened k' = others" "m_socks srv' = []" "set fds = opened k - others"
  using assms destroy_Sockets_own [OF assms(1,2)] by (auto simp: stop_task_def all_own_def)

end
