(* ===== verification/Http_Connection.thy ===== *)
theory Http_Connection
  imports Http_Session Http_Response_Parser Uri Tcp_Server
begin

text \<open>
  The client: \<^verbatim>\<open>HttpConnection\<close> and \<^verbatim>\<open>HttpResult\<close> of \<^verbatim>\<open>linko/http/http_connection.{h,cc}\<close>.  As in the server's
  session, the operations of the stream are arguments, and \<open>None\<close> is a loop that never ends.
\<close>

section \<open>Results\<close>

datatype http_error =
    OK_result
  | INVALID_URL
  | INVALID_HOST
  | CONNECT_FAIL
  | SEND_CLOSE_BY_PEER
  | SEND_SOCKET_ERROR
  | TIMEOUT
  | CREATE_SOCKET_ERROR
  | POOL_GET_CONNECTION_FAIL
  | POOL_INVALIDE_CONNECTION

definition error_code :: "http_error \<Rightarrow> int" where
  "error_code e = (case e of OK_result \<Rightarrow> 0 | INVALID_URL \<Rightarrow> 1 | INVALID_HOST \<Rightarrow> 2 | CONNECT_FAIL \<Rightarrow> 3 | SEND_CLOSE_BY_PEER \<Rightarrow> 4
     | SEND_SOCKET_ERROR \<Rightarrow> 5 | TIMEOUT \<Rightarrow> 6 | CREATE_SOCKET_ERROR \<Rightarrow> 7 | POOL_GET_CONNECTION_FAIL \<Rightarrow> 8 | POOL_INVALIDE_CONNECTION \<Rightarrow> 9)"

record HttpResult =
  hr_result :: int
  hr_response :: "HttpResponse option"
  hr_error :: string

definition new_HttpResult :: "http_error \<Rightarrow> HttpResponse option \<Rightarrow> string \<Rightarrow> HttpResult" where
  "new_HttpResult e response err = \<lparr>hr_result = error_code e, hr_response = response, hr_error = err\<rparr>"

definition HttpResult_toString :: "HttpResult \<Rightarrow> string" where
  "HttpResult_toString r = ''[HttpResult result='' @ to_string (hr_result r) @ '' error='' @ hr_error r @ '' response=''
     @ (case hr_response r of Some rsp \<Rightarrow> response_dump rsp | None \<Rightarrow> ''nullptr'') @ '']''"

section \<open>Receiving a response\<close>

text \<open>
  The loop that fills the buffer from \<open>offset\<close> on and runs the parser, for a head and (\<open>chunck\<close>) for a chunk's head.
  The zero character goes behind the data, which is outside the buffer when that is full.  \<open>Inr None\<close>: the stream is to be
  closed and a null pointer returned.
\<close>

partial_function (option) response_loop ::
  "'w stream_reader \<Rightarrow> bool \<Rightarrow> nat \<Rightarrow> string \<Rightarrow> nat \<Rightarrow> HttpResponseParser \<Rightarrow> 'w \<Rightarrow>
     (cpp_error + (string \<times> nat \<times> HttpResponseParser) option \<times> 'w) option" where
  "response_loop rd chunck bsize data offset sp w =
     (case rd (bsize - offset) w of (r, bs, w') \<Rightarrow>
        if r \<le> 0 then Some (Inr (None, w'))
        else if bsize \<le> nat r + offset then Some (Inl Undefined)
        else (case response_execute ((overwrite data offset bs)[nat r + offset := NUL]) (nat r + offset) chunck sp of
            Inl e \<Rightarrow> Some (Inl e)
          | Inr (nparse, data', sp') \<Rightarrow>
              if response_hasError sp' then Some (Inr (None, w'))
              else if int (nat r + offset - nparse) = int32_of (int bsize) then Some (Inr (None, w'))
              else if response_isFinished sp' \<noteq> 0 then Some (Inr (Some (data', nat r + offset - nparse, sp'), w'))
              else response_loop rd chunck bsize data' (nat r + offset - nparse) sp' w'))"

text \<open>The rest of a chunk that is longer than what the buffer holds: \<open>left\<close> bytes, read to the start of the buffer.\<close>

partial_function (option) chunk_rest ::
  "'w stream_reader \<Rightarrow> nat \<Rightarrow> string \<Rightarrow> string \<Rightarrow> int \<Rightarrow> 'w \<Rightarrow> ((string \<times> string) option \<times> 'w) option" where
  "chunk_rest rd bsize data body left w =
     (if left \<le> 0 then Some (Some (data, body), w)
      else case rd (if int32_of (int bsize) < left then bsize else nat left) w of (r, bs, w') \<Rightarrow>
        if r \<le> 0 then Some (None, w')
        else chunk_rest rd bsize (overwrite data 0 bs) (body @ take (nat r) (overwrite data 0 bs)) (left - r) w')"

text \<open>
  The loop over the chunks, where \<open>len\<close> bytes are in the buffer.  After a chunk's head two are taken off their number, which may
  become negative; \<^verbatim>\<open>append\<close> with a negative length throws \<^verbatim>\<open>std::length_error\<close>, a \<^verbatim>\<open>logic_error\<close>.
\<close>

partial_function (option) chunk_loop ::
  "'w stream_reader \<Rightarrow> nat \<Rightarrow> string \<Rightarrow> nat \<Rightarrow> string \<Rightarrow> HttpResponseParser \<Rightarrow> 'w \<Rightarrow>
     (cpp_error + (string \<times> HttpResponseParser) option \<times> 'w) option" where
  "chunk_loop rd bsize data n body sp w =
     (case response_loop rd True bsize data n sp w of
        None \<Rightarrow> None
      | Some (Inl e) \<Rightarrow> Some (Inl e)
      | Some (Inr (None, w')) \<Rightarrow> Some (Inr (None, w'))
      | Some (Inr (Some (data', n', sp'), w')) \<Rightarrow>
          (let len = int n' - 2; clen = hc_content_len (sp_parser sp'); done = hc_chunks_done (sp_parser sp')
           in if clen \<le> len
              then (if clen < 0 then Some (Inl Logic_error)
                    else let body' = body @ take (nat clen) data';
                             data'' = overwrite data' 0 (take (nat (len - clen)) (drop (nat clen) data'))
                         in if done then Some (Inr (Some (body', sp'), w'))
                            else chunk_loop rd bsize data'' (nat (len - clen)) body' sp' w')
              else if len < 0 then Some (Inl Logic_error)
              else (case chunk_rest rd bsize data' (body @ take (nat len) data') (clen - len) w' of
                  None \<Rightarrow> None
                | Some (None, w'') \<Rightarrow> Some (Inr (None, w''))
                | Some (Some (data'', body'), w'') \<Rightarrow>
                    if done then Some (Inr (Some (body', sp'), w'')) else chunk_loop rd bsize data'' 0 body' sp' w'')))"

definition recvResponse ::
  "'w stream_reader \<Rightarrow> ('w \<Rightarrow> 'w) \<Rightarrow> (string \<Rightarrow> u64 option) \<Rightarrow> http_sizes \<Rightarrow> httpclient_parser \<Rightarrow> string \<Rightarrow> 'w \<Rightarrow>
     (cpp_error + HttpResponse option \<times> 'w) option" where
  "recvResponse rd close lexical_cast sizes memory buffer w =
     (let bsize = unat (GetHttpResponseBufferSize sizes)
      in case response_loop rd False bsize buffer 0 (new_HttpResponseParser memory) w of
        None \<Rightarrow> None
      | Some (Inl e) \<Rightarrow> Some (Inl e)
      | Some (Inr (None, w')) \<Rightarrow> Some (Inr (None, close w'))
      | Some (Inr (Some (data, offset, sp), w')) \<Rightarrow>
          if hc_chunked (sp_parser sp)
          then (case chunk_loop rd bsize data offset [] sp w' of
              None \<Rightarrow> None
            | Some (Inl e) \<Rightarrow> Some (Inl e)
            | Some (Inr (None, w'')) \<Rightarrow> Some (Inr (None, close w''))
            | Some (Inr (Some (body, sp'), w'')) \<Rightarrow> Some (Inr (Some (rs_setBody body (sp_data sp')), w'')))
          else let len = sint (response_getContentLength lexical_cast sp)
            in if 0 < len
               then (case fixed_body rd data offset len w' of
                   None \<Rightarrow> None
                 | Some (None, w'') \<Rightarrow> Some (Inr (None, close w''))
                 | Some (Some body, w'') \<Rightarrow> Some (Inr (Some (rs_setBody body (sp_data sp)), w'')))
               else Some (Inr (Some (sp_data sp), w')))"

definition sendRequest :: "'w stream_writer \<Rightarrow> HttpRequest \<Rightarrow> 'w \<Rightarrow> (int \<times> 'w) option" where
  "sendRequest wr req w = (let data = request_dump req in writeFixSize wr data (length data) w)"

section \<open>Requests\<close>

text \<open>
  The headers of a \<^verbatim>\<open>std::map\<close>, in its order: \<open>connection\<close> only sets the flag, and a header \<open>host\<close> with a value is
  remembered.
\<close>

definition add_header :: "string \<times> string \<Rightarrow> HttpRequest \<times> bool \<Rightarrow> HttpRequest \<times> bool" where
  "add_header i x = (case x of (req, has_host) \<Rightarrow>
     if strcasecmp (cstr (fst i)) ''connection'' = 0
     then (if strcasecmp (cstr (snd i)) ''keep-alive'' = 0 then setClose False req else req, has_host)
     else (setHeader (fst i) (snd i) req,
       if \<not> has_host \<and> strcasecmp (cstr (fst i)) ''host'' = 0 then snd i \<noteq> [] else has_host))"

definition request_with :: "string \<Rightarrow> (string \<times> string) list \<Rightarrow> string \<Rightarrow> HttpRequest \<Rightarrow> HttpRequest" where
  "request_with default_host headers body req0 =
     (case fold add_header headers (req0, False) of (req, has_host) \<Rightarrow>
        setBody body (if \<not> has_host then setHeader ''Host'' default_host req else req))"

definition connection_request :: "HttpMethod \<Rightarrow> Uri \<Rightarrow> (string \<times> string) list \<Rightarrow> string \<Rightarrow> HttpRequest" where
  "connection_request m uri headers body = request_with (m_host uri) headers body
     (setMethod m (setFragment (m_fragment uri) (setQuery (m_query uri) (setPath (uri_getPath uri) (new_HttpRequest 0x11 True)))))"

section \<open>A request on a new connection\<close>

text \<open>What the client uses of its environment; \<open>ce_buffer\<close> and \<open>ce_memory\<close> are memory before it is written.\<close>

record 'k client_env =
  ce_sys :: "'k sys_calls"
  ce_host :: byte_order
  ce_getaddrinfo :: "string \<Rightarrow> string option \<Rightarrow> sockaddr list option"
  ce_errno :: "'k \<Rightarrow> int"
  ce_strerror :: "int \<Rightarrow> string"
  ce_lexical_cast :: "string \<Rightarrow> u64 option"
  ce_sizes :: http_sizes
  ce_memory :: httpclient_parser
  ce_buffer :: string

definition errno_text :: "'k client_env \<Rightarrow> 'k \<Rightarrow> string" where
  "errno_text env k = to_string (ce_errno env k) @ '' errstr='' @ ce_strerror env (ce_errno env k)"

text \<open>Sending the request and receiving the response; \<open>peer\<close> gives the text of the peer's address, and may remember it.\<close>

definition exchange ::
  "'k client_env \<Rightarrow> (SocketStream \<times> 'k \<Rightarrow> string \<times> SocketStream \<times> 'k) \<Rightarrow> u64 \<Rightarrow> HttpRequest \<Rightarrow> SocketStream \<times> 'k \<Rightarrow>
     (cpp_error + HttpResult \<times> SocketStream \<times> 'k) option" where
  "exchange env peer timeout_ms req x =
     (case sendRequest (stream_write (ce_sys env)) req x of
        None \<Rightarrow> None
      | Some (rt, x') \<Rightarrow>
          if rt = 0 then (case peer x' of (addr, y) \<Rightarrow>
            Some (Inr (new_HttpResult SEND_CLOSE_BY_PEER None (''send request closed by peer: '' @ addr), y)))
          else if rt < 0 then Some (Inr (new_HttpResult SEND_SOCKET_ERROR None
            (''send request socket error errno='' @ errno_text env (snd x')), x'))
          else (case recvResponse (stream_read (ce_sys env)) (stream_close (ce_sys env)) (ce_lexical_cast env) (ce_sizes env)
              (ce_memory env) (ce_buffer env) x' of
            None \<Rightarrow> None
          | Some (Inl e) \<Rightarrow> Some (Inl e)
          | Some (Inr (None, x'')) \<Rightarrow> (case peer x'' of (addr, y) \<Rightarrow> Some (Inr (new_HttpResult TIMEOUT None
              (''recv response timeout: '' @ addr @ '' timeout_ms:'' @ dec (unat timeout_ms)), y)))
          | Some (Inr (Some rsp, x'')) \<Rightarrow> Some (Inr (new_HttpResult OK_result (Some rsp) ''ok'', x''))))"

text \<open>\<^verbatim>\<open>CreateTCP\<close> never gives a null pointer.  The connection's destructor closes the socket.\<close>

definition DoRequest ::
  "'k client_env \<Rightarrow> HttpRequest \<Rightarrow> Uri \<Rightarrow> u64 \<Rightarrow> 'k \<Rightarrow> (cpp_error + HttpResult \<times> 'k) option" where
  "DoRequest env req uri timeout_ms k =
     (case createAddress (ce_host env) (ce_getaddrinfo env) uri of
        None \<Rightarrow> Some (Inr (new_HttpResult INVALID_HOST None (''invalide host: '' @ m_host uri), k))
      | Some addr \<Rightarrow>
          (case socket_connect (ce_sys env) (ce_host env) addr (- 1) (Socket_CreateTCP addr, k) of (connected, s, k1) \<Rightarrow>
             if \<not> connected
             then Some (Inr (new_HttpResult CONNECT_FAIL None (''connect fail: '' @ address_toString (ce_host env) addr),
               destroy_Socket (ce_sys env) s k1))
             else case setRecvTimeout (ce_sys env) (sint timeout_ms) (s, k1) of (_, s', k2) \<Rightarrow>
               map_option (map_sum id (\<lambda>(r, x). (r, snd (stream_destroy (ce_sys env) x))))
                 (exchange env (\<lambda>x. (address_toString (ce_host env) addr, x)) timeout_ms req (new_SocketStream (Some s') True, k2))))"

definition DoRequest_uri ::
  "'k client_env \<Rightarrow> HttpMethod \<Rightarrow> Uri \<Rightarrow> u64 \<Rightarrow> (string \<times> string) list \<Rightarrow> string \<Rightarrow> 'k \<Rightarrow> (cpp_error + HttpResult \<times> 'k) option" where
  "DoRequest_uri env m uri timeout_ms headers body = DoRequest env (connection_request m uri headers body) uri timeout_ms"

text \<open>The three functions that take a text: only the text of the error differs.\<close>

definition do_text ::
  "string \<Rightarrow> 'k client_env \<Rightarrow> HttpMethod \<Rightarrow> string \<Rightarrow> u64 \<Rightarrow> (string \<times> string) list \<Rightarrow> string \<Rightarrow> 'k \<Rightarrow> (cpp_error + HttpResult \<times> 'k) option" where
  "do_text message env m url timeout_ms headers body k =
     (case Uri_Create url of Inl e \<Rightarrow> Some (Inl e)
      | Inr None \<Rightarrow> Some (Inr (new_HttpResult INVALID_URL None (message @ url), k))
      | Inr (Some uri) \<Rightarrow> DoRequest_uri env m uri timeout_ms headers body k)"

definition DoGet_uri where "DoGet_uri env = DoRequest_uri env GET"
definition DoPost_uri where "DoPost_uri env = DoRequest_uri env POST"
definition DoGet where "DoGet env = do_text ''invalide url:'' env GET"
definition DoPost where "DoPost env = do_text ''invalide url: '' env POST"
definition DoRequest_url where "DoRequest_url env = do_text ''invalide url: '' env"

section \<open>A request on a connection of a pool\<close>

text \<open>The path the pool asks for, and the request it makes; \<open>host\<close> and \<open>vhost\<close> are the pool's.\<close>

definition pool_url :: "Uri \<Rightarrow> string" where
  "pool_url uri = uri_getPath uri @ (if m_query uri = [] then [] else ''?'') @ m_query uri
     @ (if m_fragment uri = [] then [] else ''#'') @ m_fragment uri"

definition pool_request :: "string \<Rightarrow> string \<Rightarrow> HttpMethod \<Rightarrow> string \<Rightarrow> (string \<times> string) list \<Rightarrow> string \<Rightarrow> HttpRequest" where
  "pool_request host vhost m url headers body = request_with (if vhost = [] then host else vhost) headers body
     (setClose False (setMethod m (setPath url (new_HttpRequest 0x11 True))))"

definition peer_address :: "'k sys_calls \<Rightarrow> byte_order \<Rightarrow> SocketStream \<times> 'k \<Rightarrow> string \<times> SocketStream \<times> 'k" where
  "peer_address sys host = (\<lambda>(st, k). case m_socket st of None \<Rightarrow> ([], st, k)
     | Some s \<Rightarrow> (case getRemoteAddress sys host (s, k) of (a, s', k') \<Rightarrow> (address_toString host a, on_socket st s', k')))"

text \<open>The request on what \<^verbatim>\<open>getConnection\<close> gave: no connection, one without a socket, or a stream.\<close>

definition pool_doRequest ::
  "'k client_env \<Rightarrow> string \<Rightarrow> u32 \<Rightarrow> HttpRequest \<Rightarrow> u64 \<Rightarrow> SocketStream option \<Rightarrow> 'k \<Rightarrow>
     (cpp_error + HttpResult \<times> SocketStream option \<times> 'k) option" where
  "pool_doRequest env host port req timeout_ms conn k =
     (case conn of
        None \<Rightarrow> Some (Inr (new_HttpResult POOL_GET_CONNECTION_FAIL None (''pool host: '' @ host @ '' port:'' @ dec (unat port)), None, k))
      | Some st \<Rightarrow> (case m_socket st of
          None \<Rightarrow> Some (Inr (new_HttpResult POOL_INVALIDE_CONNECTION None (''pool host: '' @ host @ '' port:'' @ dec (unat port)), conn, k))
        | Some s \<Rightarrow> (case setRecvTimeout (ce_sys env) (sint timeout_ms) (s, k) of (_, s', k') \<Rightarrow>
            map_option (map_sum id (\<lambda>(r, st', k''). (r, Some st', k'')))
              (exchange env (peer_address (ce_sys env) (ce_host env)) timeout_ms req (on_socket st s', k')))))"

text \<open>The functions that build the request; the second ones take a \<^verbatim>\<open>Uri\<close>.\<close>

definition pool_doRequest_url where
  "pool_doRequest_url env host vhost port m url timeout_ms headers body =
     pool_doRequest env host port (pool_request host vhost m url headers body) timeout_ms"

definition pool_doGet where "pool_doGet env host vhost port = pool_doRequest_url env host vhost port GET"
definition pool_doPost where "pool_doPost env host vhost port = pool_doRequest_url env host vhost port POST"
definition pool_doGet_uri where "pool_doGet_uri env host vhost port uri = pool_doGet env host vhost port (pool_url uri)"
definition pool_doPost_uri where "pool_doPost_uri env host vhost port uri = pool_doPost env host vhost port (pool_url uri)"
definition pool_doRequest_uri where
  "pool_doRequest_uri env host vhost port m uri = pool_doRequest_url env host vhost port m (pool_url uri)"

end
