(* ===== verification/Http_Connection_Correct.thy ===== *)
theory Http_Connection_Correct
  imports Http_Connection Http_Response_Parse
begin

text \<open>
  Responses in chunks: what \<^verbatim>\<open>recvResponse\<close> makes of chunks that arrive one by one, and of a chunk whose head
  arrives alone.
\<close>

section \<open>Chunk sizes\<close>

lemma digits_hex_char: "c \<in> set (digits k 16 n) \<Longrightarrow> c \<in> set ''0123456789abcdef''"
proof (induction k arbitrary: n)
  case (Suc k)
  have d: "''0123456789abcdef'' ! (n mod 16) \<in> set ''0123456789abcdef''" by (rule nth_mem) simp
  have "c = ''0123456789abcdef'' ! (n mod 16) \<or> c \<in> set (digits k 16 (n div 16))"
    using Suc.prems by (simp del: list.set(2) split: if_splits) (auto split: if_splits)
  then show ?case using Suc.IH d by blast
qed simp

lemma hex_digits: "c \<in> set (hex n) \<Longrightarrow> digit_val c < 16" "c \<in> set (hex n) \<Longrightarrow> c \<in> set ''0123456789abcdef''"
  unfolding hex_def using digits_digit [of 16 c 16 n] digits_hex_char [of c 16 n] by simp_all

lemma hex_nonempty: "hex n \<noteq> []"
  unfolding hex_def by (rule digits_nonempty) simp

lemma strtol_hex:
  assumes "n < 2 ^ 63"
  shows "strtol 16 (hex n @ crlf @ rest) = int n"
proof -
  obtain c cs where hex: "hex n = c # cs" using hex_nonempty by (cases "hex n") auto
  have d: "digit_val e < 16" if "e \<in> set (hex n)" for e using hex_digits that by blast
  then have c: "digit_val c < 16" using hex by simp
  have "\<not> isspace c" "c \<noteq> CHR ''-''" "c \<noteq> CHR ''+''" using c by (auto simp: isspace_def digit_val_def)
  moreover have no_prefix: "x \<notin> {CHR ''x'', CHR ''X''}" if "hex n @ crlf @ rest = z # x # t" for z x t
  proof (cases cs)
    case Nil
    then show ?thesis using that hex by (auto simp: crlf_def)
  next
    case (Cons e es)
    then have "digit_val x < 16" using that hex d by auto
    then show ?thesis by (auto simp: digit_val_def)
  qed
  moreover have "takeWhile (\<lambda>c. digit_val c < 16) (hex n @ crlf @ rest) = hex n"
    using d by (subst takeWhile_append2) (auto simp: crlf_def digit_val_def)
  then have "number_at 16 (hex n @ crlf @ rest) = n"
    using digits_read [of 16 n 16] assms by (simp add: number_at_def hex_def del: digits_numeral)
  ultimately show ?thesis using hex assms unfolding strtol_def Let_def
    by (auto split: list.split)
qed

lemma hc_size_row: "find_state 2 httpclient_items =
    Some (False, [(10, 10, TR 3), (13, 13, TR 4), (48, 57, ST 2), (59, 59, TR 6), (65, 70, ST 2), (97, 102, ST 2)])"
  by (simp add: httpclient_lookup, simp add: httpclient_items_chunks)

lemma schar_hex: "c \<in> set ''0123456789abcdef'' \<Longrightarrow> 48 \<le> schar c \<and> schar c \<le> 57 \<or> 97 \<le> schar c \<and> schar c \<le> 102"
  by (auto simp: schar_def)

lemma hc_hex_moves:
  assumes "c \<in> set ''0123456789abcdef''"
  shows "move httpclient_items r (Suc 0) c = ([R_mark], 2)" "move httpclient_items r 2 c = ([], 2)"
  using schar_hex [OF assms] by (elim disjE; simp add: hc_move hc_size_row)+

lemma hc_size_end: "move httpclient_items r 2 (CHR 0x0D) = ([R_chunk_size], 3)"
  by (simp add: hc_move hc_size_row schar_def)

section \<open>One chunk's head\<close>

definition chunk_head :: "nat \<Rightarrow> string" where
  "chunk_head n = hex n @ crlf"

lemma chunk_head_parses:
  assumes "n < 2 ^ 31" "length (chunk_head n @ rest) < 2 ^ 31"
  shows "\<exists>data sp'. response_execute (chunk_head n @ rest @ NUL # behind) (length (chunk_head n @ rest)) True sp =
       Inr (length (chunk_head n), data, sp') \<and> take (length rest) data = rest \<and>
     length data = length (chunk_head n @ rest @ NUL # behind) \<and> response_isFinished sp' = 1 \<and>
     response_hasError sp' = (sp_error sp \<noteq> 0) \<and> hc_content_len (sp_parser sp') = int n \<and>
     hc_chunks_done (sp_parser sp') = (n = 0) \<and> sp_data sp' = sp_data sp \<and> sp_error sp' = sp_error sp"
proof -
  define block where "block = (hex n @ crlf) @ rest @ NUL # behind"
  define len where "len = length (hex n @ crlf @ rest)"
  let ?init = "httpclient_parser_init (sp_parser sp)"
  let ?ps = "?init\<lparr>hc_nread := 0, hc_mark := 0, hc_field_len := len, hc_field_start := 0\<rparr>"
  have h: "hd (hex n) \<in> set ''0123456789abcdef''" "\<forall>c \<in> set (tl (hex n)). c \<in> set ''0123456789abcdef''"
    using hex_nonempty [of n] hex_digits [of _ n] by (auto simp del: list.set(2) dest: list.set_sel)
  have hex: "hc_steps block len 0 (hex n) 1 (?ps, []) = Some (2, ?ps\<lparr>hc_mark := 0\<rparr>, [])"
    using hc_loop [OF hex_nonempty, of "Suc 0" n "[R_mark]" 2] h hc_hex_moves by simp
  have num: "strtol 16 (drop 0 block) = int n"
    using strtol_hex [of n "rest @ NUL # behind"] assms(1) by (simp add: block_def)
  have int: "int32_of (int n) = int n"
    using assms(1) by (simp add: int32_of_def signed_of_nat signed_take_bit_int_eq_self)
  define q where "q = length (hex n) + 2"
  define ps' where "ps' = ?ps\<lparr>hc_mark := 0, hc_chunked := True, hc_content_len := int n, hc_chunks_done := (int n \<le> 0), hc_body_start := q\<rparr>"
  obtain evs where run: "run httpclient_items False response_brk (response_exec block len) 0 (take len block) (hc_cs ?init) (?ps, []) =
      (120, q, ps', evs)" and evs: "on_responses block evs s = Inr s" for s
  proof -
    have take: "take len block = hex n @ crlf @ rest" by (simp add: len_def block_def)
    have cs: "hc_cs ?init = 1" by (simp add: httpclient_parser_init_def httpclient_parser_start_def)
    show ?thesis
      by (rule that [of "[Rs_element (if int n \<le> 0 then Last_chunk else Chunk_size) 0 (usub64 (length (hex n)) 0),
          Rs_element Rs_header_done q (usub64 len q)]"])
        (unfold take cs run_steps [OF hex], use num int in \<open>simp_all add: crlf_def hc_size_end hc_fixed_moves q_def ps'_def Let_def\<close>)
  qed
  have len: "0 < len" "len < 2 ^ 31" "len < length block" "block ! len = NUL"
    using assms(2) by (simp_all add: len_def block_def crlf_def nth_append chunk_head_def)
  have ex: "httpclient_parser_execute ?init block len 0 = Inr (int q, ps'\<lparr>hc_cs := 120, hc_nread := q\<rparr>, evs)"
    by (rule httpclient_execute_run(1) [OF len _ _ run]) (simp_all add: httpclient_parser_init_def httpclient_parser_start_def)
  have q: "q \<le> len" "len - q = length rest" "drop q block = rest @ NUL # behind" "len < length block"
    by (simp_all add: q_def len_def block_def crlf_def)
  have "response_execute block len True sp =
      Inr (q, overwrite block 0 (take (len - q) (drop q block)), sp\<lparr>sp_parser := ps'\<lparr>hc_cs := 120, hc_nread := q\<rparr>\<rparr>)"
    using ex evs by (simp add: response_execute_def)
  moreover have "chunk_head n @ rest @ NUL # behind = block" "length (chunk_head n @ rest) = len" "length (chunk_head n) = q"
    by (simp_all add: chunk_head_def block_def len_def q_def crlf_def)
  ultimately show ?thesis using q
    by (simp add: overwrite_def response_isFinished_def response_hasError_def httpclient_parser_finish_def
      httpclient_parser_has_error_def httpclient_parser_is_finished_def httpclient_parser_error_def
      httpclient_parser_first_final_def ps'_def)
qed

text \<open>The head and what follows it arrive in one read to the start of the buffer.\<close>

lemma chunk_head_once:
  assumes "n < 2 ^ 31" "length (chunk_head n @ rest) < bsize" "length data = bsize" "bsize < 2 ^ 31" "sp_error sp = 0"
    and "rd bsize w = (int (length (chunk_head n @ rest)), chunk_head n @ rest, w')"
  shows "\<exists>data' sp'. response_loop rd True bsize data 0 sp w = Some (Inr (Some (data', length rest, sp'), w')) \<and>
     take (length rest) data' = rest \<and> length data' = bsize \<and> hc_content_len (sp_parser sp') = int n \<and>
     hc_chunks_done (sp_parser sp') = (n = 0) \<and> sp_data sp' = sp_data sp \<and> sp_error sp' = 0"
proof -
  let ?t = "chunk_head n @ rest"
  define behind where "behind = drop (Suc (length ?t)) data"
  have block: "(overwrite data 0 ?t)[length ?t := NUL] = ?t @ NUL # behind"
  proof -
    have "overwrite data 0 ?t = ?t @ data ! length ?t # behind"
      using assms(2,3) by (simp add: overwrite_def behind_def Cons_nth_drop_Suc)
    then show ?thesis by (simp only: list_update_length)
  qed
  have len: "length (?t @ NUL # behind) = bsize" using assms(2,3) by (simp add: behind_def)
  obtain data' sp' where ex: "response_execute (chunk_head n @ rest @ NUL # behind) (length ?t) True sp =
       Inr (length (chunk_head n), data', sp')" "take (length rest) data' = rest"
     "length data' = length (chunk_head n @ rest @ NUL # behind)" "response_isFinished sp' = 1"
     "response_hasError sp' = (sp_error sp \<noteq> 0)" "hc_content_len (sp_parser sp') = int n"
     "hc_chunks_done (sp_parser sp') = (n = 0)" "sp_data sp' = sp_data sp" "sp_error sp' = sp_error sp"
    using chunk_head_parses [OF assms(1), of rest behind sp] assms(2,4) by auto
  have "\<not> int (length (chunk_head n)) + int (length rest) \<le> 0" by (simp add: chunk_head_def crlf_def)
  moreover have "int32_of (int bsize) = int bsize"
    using assms(4) by (simp add: int32_of_def signed_of_nat signed_take_bit_int_eq_self)
  moreover have "length rest \<noteq> bsize" using assms(2) by simp
  ultimately have "response_loop rd True bsize data 0 sp w = Some (Inr (Some (data', length rest, sp'), w'))"
    using assms(2,5,6) ex block by (simp add: response_loop.simps [of rd True bsize data 0] nat_int_add)
  then show ?thesis using ex len assms(5) by auto
qed

section \<open>Chunks that arrive one by one\<close>

definition chunk_text :: "string \<Rightarrow> string" where
  "chunk_text c = chunk_head (length c) @ c @ crlf"

text \<open>The reads of a whole buffer give these texts, one each.\<close>

fun feeds :: "'w stream_reader \<Rightarrow> nat \<Rightarrow> 'w \<Rightarrow> string list \<Rightarrow> 'w \<Rightarrow> bool" where
  "feeds rd bsize w [] w' \<longleftrightarrow> w = w'"
| "feeds rd bsize w (t # ts) w' \<longleftrightarrow> (case rd bsize w of (r, bs, w1) \<Rightarrow> r = int (length t) \<and> bs = t \<and> feeds rd bsize w1 ts w')"

lemma chunk_loop_reads:
  assumes "bsize < 2 ^ 31"
  shows "\<forall>c \<in> set cs. c \<noteq> [] \<and> length (chunk_text c) < bsize \<Longrightarrow> length data = bsize \<Longrightarrow> sp_error sp = 0 \<Longrightarrow>
    length (chunk_text []) < bsize \<Longrightarrow> feeds rd bsize w (map chunk_text cs @ [chunk_text []]) w' \<Longrightarrow>
    \<exists>sp'. chunk_loop rd bsize data 0 body sp w = Some (Inr (Some (body @ concat cs, sp'), w')) \<and> sp_data sp' = sp_data sp"
proof (induction cs arbitrary: data body sp w)
  case Nil
  have r: "rd bsize w = (int (length (chunk_head 0 @ crlf)), chunk_head 0 @ crlf, w')"
    using Nil.prems(5) by (auto simp: chunk_text_def split: prod.splits)
  obtain data' sp' where "response_loop rd True bsize data 0 sp w = Some (Inr (Some (data', length crlf, sp'), w'))"
    "hc_content_len (sp_parser sp') = int 0" "hc_chunks_done (sp_parser sp') = (0 = (0 :: nat))" "sp_data sp' = sp_data sp"
    using chunk_head_once [where n = 0 and rest = crlf and rd = rd and w = w and w' = w', OF _ _ Nil.prems(2) assms Nil.prems(3) r] Nil.prems(4)
    by (auto simp: chunk_text_def)
  then show ?case by (simp add: chunk_loop.simps [of rd bsize data] crlf_def)
next
  case (Cons c cs)
  obtain w1 where "rd bsize w = (int (length (chunk_text c)), chunk_text c, w1)"
    and feeds: "feeds rd bsize w1 (map chunk_text cs @ [chunk_text []]) w'"
    using Cons.prems(5) by (auto split: prod.splits)
  note r = this(1) [unfolded chunk_text_def]
  have c: "c \<noteq> []" "length (chunk_head (length c) @ c @ crlf) < bsize" using Cons.prems(1) by (auto simp: chunk_text_def)
  then have "length c < 2 ^ 31" using assms by simp
  then obtain data' sp' where one: "response_loop rd True bsize data 0 sp w = Some (Inr (Some (data', length (c @ crlf), sp'), w1))"
    "take (length (c @ crlf)) data' = c @ crlf" "length data' = bsize" "hc_content_len (sp_parser sp') = int (length c)"
    "\<not> hc_chunks_done (sp_parser sp')" "sp_data sp' = sp_data sp" "sp_error sp' = 0"
    using chunk_head_once [where n = "length c" and rest = "c @ crlf" and rd = rd and w = w and w' = w1,
        OF _ c(2) Cons.prems(2) assms Cons.prems(3) r] c(1) by auto
  have "take (length c) (take (length (c @ crlf)) data') = c" unfolding one(2) by simp
  then have c': "take (length c) data' = c" by (simp add: min_def)
  have "chunk_loop rd bsize data 0 body sp w = chunk_loop rd bsize data' 0 (body @ c) sp' w1"
    using one c' by (simp add: chunk_loop.simps [of rd bsize data] crlf_def)
  moreover obtain sp'' where "chunk_loop rd bsize data' 0 (body @ c) sp' w1 = Some (Inr (Some ((body @ c) @ concat cs, sp''), w'))"
    "sp_data sp'' = sp_data sp'"
    using Cons.IH [OF _ one(3,7) Cons.prems(4) feeds, of "body @ c"] Cons.prems(1) by auto
  ultimately show ?case using one(6) by auto
qed

text \<open>A chunk's head that arrives without the chunk ends in an exception, also that of the last chunk.\<close>

lemma chunk_head_alone:
  assumes "n < 2 ^ 31" "length (chunk_head n) < bsize" "length data = bsize" "bsize < 2 ^ 31" "sp_error sp = 0"
    and "rd bsize w = (int (length (chunk_head n)), chunk_head n, w')"
  shows "chunk_loop rd bsize data 0 body sp w = Some (Inl Logic_error)"
proof -
  obtain data' sp' where "response_loop rd True bsize data 0 sp w = Some (Inr (Some (data', 0, sp'), w'))"
    "hc_content_len (sp_parser sp') = int n"
    using chunk_head_once [where n = n and rest = "[]" and rd = rd and w = w and w' = w', OF assms(1) _ assms(3-5)] assms(2,6) by auto
  then show ?thesis by (simp add: chunk_loop.simps [of rd bsize data])
qed

text \<open>Chunks that are in the buffer already are not looked at before another read.\<close>

lemma chunks_behind_head:
  assumes "rd (bsize - n) w = (r, bs, w')" "r \<le> 0"
  shows "chunk_loop rd bsize data n body sp w = Some (Inr (None, w'))"
  using assms by (simp add: chunk_loop.simps [of rd bsize data] response_loop.simps [of rd True bsize data])

end
