(* ===== verification/Http_Pool.thy ===== *)
theory Http_Pool
  imports Linko_Prelude State_Machine
begin

text \<open>
  \<^verbatim>\<open>HttpConnectionPool\<close> of \<^verbatim>\<open>linko/http/http_connection.{h,cc}\<close>: \<^verbatim>\<open>getConnection\<close> and \<^verbatim>\<open>ReleasePtr\<close> as the
  threads of the program run them, step by step: a step is one section under the lock, one operation on the atomic counter,
  or one on objects that only this thread can reach.
\<close>

section \<open>State\<close>

text \<open>A connection: whether its socket is connected, \<^verbatim>\<open>m_createTime\<close> and \<^verbatim>\<open>m_request\<close>.\<close>

record pool_conn =
  pc_connected :: bool
  pc_createTime :: u64
  pc_request :: u64

text \<open>Pointers are numbers, \<open>pl_store\<close> the objects that have not been deleted.\<close>

record HttpConnectionPool =
  pl_maxSize :: u32
  pl_maxAliveTime :: u32
  pl_maxRequest :: u32
  pl_conns :: "nat list"
  pl_total :: u32
  pl_store :: "nat \<Rightarrow> pool_conn option"

definition new_HttpConnectionPool :: "u32 \<Rightarrow> u32 \<Rightarrow> u32 \<Rightarrow> HttpConnectionPool" where
  "new_HttpConnectionPool max_size max_alive_time max_request =
     \<lparr>pl_maxSize = max_size, pl_maxAliveTime = max_alive_time, pl_maxRequest = max_request, pl_conns = [], pl_total = 0,
      pl_store = (\<lambda>_. None)\<rparr>"

text \<open>
  Where a thread is: outside; with the expired connections and the one it took; after it has deleted as many as it will
  subtract; connecting; with a connection not yet counted; using one; about to delete it, to subtract it, or to put it back.
\<close>

datatype pool_pc =
    Outside
  | Popped "nat list" "nat option"
  | Freed nat "nat option"
  | Connecting
  | Created nat
  | Using nat
  | Dropping nat
  | Freed_one
  | Keeping nat

section \<open>Operations\<close>

definition too_old :: "u64 \<Rightarrow> u32 \<Rightarrow> pool_conn \<Rightarrow> bool" where
  "too_old now_ms max_alive c \<longleftrightarrow> pc_createTime c + ucast max_alive < now_ms"

text \<open>The loop under the lock: expired connections, the first usable one, and what stays in the list.\<close>

fun pop_conns :: "u64 \<Rightarrow> u32 \<Rightarrow> (nat \<Rightarrow> pool_conn option) \<Rightarrow> nat list \<Rightarrow> cpp_error + nat list \<times> nat option \<times> nat list" where
  "pop_conns now_ms max_alive st [] = Inr ([], None, [])"
| "pop_conns now_ms max_alive st (c # cs) =
     (case st c of None \<Rightarrow> Inl Undefined
      | Some x \<Rightarrow> if \<not> pc_connected x \<or> too_old now_ms max_alive x
          then (case pop_conns now_ms max_alive st cs of Inl e \<Rightarrow> Inl e | Inr (bad, ptr, rest) \<Rightarrow> Inr (c # bad, ptr, rest))
          else Inr ([], Some c, cs))"

text \<open>\<^verbatim>\<open>delete\<close> of each; a second one of the same object is undefined.\<close>

fun delete_all :: "nat list \<Rightarrow> (nat \<Rightarrow> pool_conn option) \<Rightarrow> cpp_error + (nat \<Rightarrow> pool_conn option)" where
  "delete_all [] st = Inr st"
| "delete_all (c # cs) st = (if st c = None then Inl Undefined else delete_all cs (st(c := None)))"

text \<open>\<^verbatim>\<open>ReleasePtr\<close> up to its decision.\<close>

definition release :: "u64 \<Rightarrow> nat \<Rightarrow> HttpConnectionPool \<Rightarrow> cpp_error + HttpConnectionPool \<times> pool_pc" where
  "release now_ms c p = (case pl_store p c of None \<Rightarrow> Inl Undefined
     | Some x \<Rightarrow>
         let y = x\<lparr>pc_request := pc_request x + 1\<rparr>;
             gone = \<not> pc_connected y \<or> pc_createTime y + ucast (pl_maxAliveTime p) \<le> now_ms \<or> ucast (pl_maxRequest p) \<le> pc_request y
         in Inr (p\<lparr>pl_store := (pl_store p)(c \<mapsto> y)\<rparr>, if gone then Dropping c else Keeping c))"

text \<open>The next step of a thread.  \<open>fresh\<close> is the new connection's address, or nothing when connecting fails.\<close>

fun pool_move :: "u64 \<Rightarrow> nat option \<Rightarrow> HttpConnectionPool \<Rightarrow> pool_pc \<Rightarrow> cpp_error + HttpConnectionPool \<times> pool_pc" where
  "pool_move now_ms fresh p Outside = (case pop_conns now_ms (pl_maxAliveTime p) (pl_store p) (pl_conns p) of
     Inl e \<Rightarrow> Inl e | Inr (bad, ptr, rest) \<Rightarrow> Inr (p\<lparr>pl_conns := rest\<rparr>, Popped bad ptr))"
| "pool_move now_ms fresh p (Popped bad ptr) = (case delete_all bad (pl_store p) of
     Inl e \<Rightarrow> Inl e | Inr st \<Rightarrow> Inr (p\<lparr>pl_store := st\<rparr>, Freed (length bad) ptr))"
| "pool_move now_ms fresh p (Freed n ptr) =
     Inr (p\<lparr>pl_total := pl_total p - of_nat n\<rparr>, case ptr of Some c \<Rightarrow> Using c | None \<Rightarrow> Connecting)"
| "pool_move now_ms fresh p Connecting = (case fresh of None \<Rightarrow> Inr (p, Outside)
     | Some c \<Rightarrow> Inr (p\<lparr>pl_store := (pl_store p)(c \<mapsto> \<lparr>pc_connected = True, pc_createTime = now_ms, pc_request = 0\<rparr>)\<rparr>, Created c))"
| "pool_move now_ms fresh p (Created c) = Inr (p\<lparr>pl_total := pl_total p + 1\<rparr>, Using c)"
| "pool_move now_ms fresh p (Using c) = release now_ms c p"
| "pool_move now_ms fresh p (Dropping c) = (case delete_all [c] (pl_store p) of
     Inl e \<Rightarrow> Inl e | Inr st \<Rightarrow> Inr (p\<lparr>pl_store := st\<rparr>, Freed_one))"
| "pool_move now_ms fresh p Freed_one = Inr (p\<lparr>pl_total := pl_total p - 1\<rparr>, Outside)"
| "pool_move now_ms fresh p (Keeping c) = Inr (p\<lparr>pl_conns := pl_conns p @ [c]\<rparr>, Outside)"

text \<open>A connection is closed, by whoever uses it.\<close>

definition disconnect :: "nat \<Rightarrow> HttpConnectionPool \<Rightarrow> HttpConnectionPool" where
  "disconnect c p = p\<lparr>pl_store := (pl_store p)(c := map_option (\<lambda>x. x\<lparr>pc_connected := False\<rparr>) (pl_store p c))\<rparr>"

section \<open>Threads\<close>

text \<open>\<^verbatim>\<open>new\<close> gives an address that no object has.\<close>

definition fresh_for :: "nat option \<Rightarrow> HttpConnectionPool \<Rightarrow> bool" where
  "fresh_for fresh p \<longleftrightarrow> (case fresh of None \<Rightarrow> True | Some c \<Rightarrow> pl_store p c = None)"

inductive pool_step :: "HttpConnectionPool \<times> pool_pc list \<Rightarrow> HttpConnectionPool \<times> pool_pc list \<Rightarrow> bool" where
  Pool_move: "pool_move now_ms fresh p pc = Inr (p', pc') \<Longrightarrow> fresh_for fresh p \<Longrightarrow>
     pool_step (p, xs @ pc # ys) (p', xs @ pc' # ys)"
| Pool_disconnect: "pool_step (p, pcs) (disconnect c p, pcs)"

inductive pool_start :: "HttpConnectionPool \<times> pool_pc list \<Rightarrow> bool" where
  Pool_new: "pool_start (new_HttpConnectionPool max_size max_alive_time max_request, replicate n Outside)"

abbreviation pool_reachable :: "HttpConnectionPool \<times> pool_pc list \<Rightarrow> bool" where
  "pool_reachable \<equiv> reachable pool_start pool_step"

lemma Pool_start: "pool_reachable (new_HttpConnectionPool max_size max_alive_time max_request, replicate n Outside)"
  by (rule reachable_init [of pool_start, OF Pool_new])

lemmas Pool_next = reachable_step [of pool_start pool_step]

section \<open>The invariant\<close>

text \<open>The connections a thread holds, and what it has a part in the counter for.\<close>

fun held :: "pool_pc \<Rightarrow> nat list" where
  "held (Popped bad ptr) = bad @ (case ptr of None \<Rightarrow> [] | Some c \<Rightarrow> [c])"
| "held (Freed n ptr) = (case ptr of None \<Rightarrow> [] | Some c \<Rightarrow> [c])"
| "held (Created c) = [c]"
| "held (Using c) = [c]"
| "held (Dropping c) = [c]"
| "held (Keeping c) = [c]"
| "held _ = []"

fun counted :: "pool_pc \<Rightarrow> nat" where
  "counted (Popped bad ptr) = length bad + (case ptr of None \<Rightarrow> 0 | Some c \<Rightarrow> 1)"
| "counted (Freed n ptr) = n + (case ptr of None \<Rightarrow> 0 | Some c \<Rightarrow> 1)"
| "counted (Using c) = 1"
| "counted (Dropping c) = 1"
| "counted Freed_one = 1"
| "counted (Keeping c) = 1"
| "counted _ = 0"

definition pool_owned :: "HttpConnectionPool \<times> pool_pc list \<Rightarrow> nat list" where
  "pool_owned x = pl_conns (fst x) @ concat (map held (snd x))"

text \<open>Every connection that exists is in the list or with one thread, once; the counter is their number.\<close>

definition pool_inv :: "HttpConnectionPool \<times> pool_pc list \<Rightarrow> bool" where
  "pool_inv x \<longleftrightarrow> distinct (pool_owned x) \<and> set (pool_owned x) = dom (pl_store (fst x)) \<and>
     pl_total (fst x) = of_nat (length (pl_conns (fst x)) + sum_list (map counted (snd x)))"

lemma pop_conns_ok:
  "set cs \<subseteq> dom st \<Longrightarrow> \<exists>bad ptr rest. pop_conns now_ms max_alive st cs = Inr (bad, ptr, rest) \<and>
     cs = bad @ (case ptr of None \<Rightarrow> [] | Some c \<Rightarrow> [c]) @ rest"
proof (induction cs)
  case (Cons c cs)
  obtain x where x: "st c = Some x" using Cons.prems by auto
  obtain bad ptr rest where r: "pop_conns now_ms max_alive st cs = Inr (bad, ptr, rest)"
    "cs = bad @ (case ptr of None \<Rightarrow> [] | Some c \<Rightarrow> [c]) @ rest" using Cons by auto
  show ?case
  proof (cases "\<not> pc_connected x \<or> too_old now_ms max_alive x")
    case True
    then have "pop_conns now_ms max_alive st (c # cs) = Inr (c # bad, ptr, rest)" using x r(1) by simp
    then show ?thesis using r(2) by (metis append_Cons)
  next
    case False
    then have "pop_conns now_ms max_alive st (c # cs) = Inr ([], Some c, cs)" using x by simp
    then show ?thesis by (metis append_Cons append_Nil option.case(2))
  qed
qed simp

lemma delete_all_ok:
  "distinct cs \<Longrightarrow> set cs \<subseteq> dom st \<Longrightarrow> \<exists>st'. delete_all cs st = Inr st' \<and> dom st' = dom st - set cs"
proof (induction cs arbitrary: st)
  case (Cons c cs)
  have "set cs \<subseteq> dom (st(c := None))" using Cons.prems by auto
  then obtain st' where "delete_all cs (st(c := None)) = Inr st'" "dom st' = dom (st(c := None)) - set cs"
    using Cons.IH [OF _ \<open>set cs \<subseteq> dom (st(c := None))\<close>] Cons.prems(1) by (metis distinct.simps(2))
  moreover have "st c \<noteq> None" using Cons.prems(2) by auto
  ultimately show ?case by auto
qed simp

text \<open>The invariant from the side of one thread: \<open>others\<close> and \<open>k\<close> are what the other threads hold and count.\<close>

definition part_inv :: "HttpConnectionPool \<Rightarrow> pool_pc \<Rightarrow> nat list \<Rightarrow> nat \<Rightarrow> bool" where
  "part_inv p pc others k \<longleftrightarrow> distinct (pl_conns p @ held pc @ others) \<and> set (pl_conns p @ held pc @ others) = dom (pl_store p) \<and>
     pl_total p = of_nat (length (pl_conns p) + counted pc + k)"

lemma pool_inv_part:
  "pool_inv (p, xs @ pc # ys) =
     part_inv p pc (concat (map held xs) @ concat (map held ys)) (sum_list (map counted xs) + sum_list (map counted ys))"
proof -
  let ?A = "concat (map held xs)" and ?C = "concat (map held ys)"
  have "pool_owned (p, xs @ pc # ys) = pl_conns p @ ?A @ held pc @ ?C" by (simp add: pool_owned_def)
  moreover have "distinct (pl_conns p @ ?A @ held pc @ ?C) = distinct (pl_conns p @ held pc @ ?A @ ?C)"
    unfolding distinct_append set_append by blast
  moreover have "set (pl_conns p @ ?A @ held pc @ ?C) = set (pl_conns p @ held pc @ ?A @ ?C)"
    unfolding set_append by blast
  ultimately show ?thesis by (simp only: pool_inv_def part_inv_def fst_conv snd_conv) (simp add: add_ac)
qed

text \<open>No step of a thread touches an object that is gone, and each keeps the invariant.\<close>

lemma part_move:
  assumes "part_inv p pc others k" "fresh_for fresh p"
  shows "\<exists>p' pc'. pool_move now_ms fresh p pc = Inr (p', pc') \<and> part_inv p' pc' others k"
proof -
  have owned: "distinct (pl_conns p @ held pc @ others)" "set (pl_conns p @ held pc @ others) = dom (pl_store p)"
    and total: "pl_total p = of_nat (length (pl_conns p) + counted pc + k)"
    using assms(1) by (simp_all add: part_inv_def)
  have live: "\<exists>x. pl_store p c = Some x" if "c \<in> set (held pc)" for c
  proof -
    have "c \<in> dom (pl_store p)" using owned(2) that by (metis UnCI set_append)
    then show ?thesis by auto
  qed
  show ?thesis
  proof (cases pc)
    case Outside
    have "set (pl_conns p) \<subseteq> dom (pl_store p)" using owned(2) by (metis Un_upper1 set_append)
    then obtain bad ptr rest where pop: "pop_conns now_ms (pl_maxAliveTime p) (pl_store p) (pl_conns p) = Inr (bad, ptr, rest)"
      "pl_conns p = bad @ (case ptr of None \<Rightarrow> [] | Some c \<Rightarrow> [c]) @ rest" using pop_conns_ok by blast
    have "part_inv (p\<lparr>pl_conns := rest\<rparr>) (Popped bad ptr) others k"
      using owned total pop(2) Outside by (cases ptr) (auto simp: part_inv_def)
    then show ?thesis using pop(1) Outside by simp
  next
    case (Popped bad ptr)
    have "distinct bad" "set bad \<subseteq> dom (pl_store p)" using owned(1) live Popped by auto
    then obtain st where st: "delete_all bad (pl_store p) = Inr st" "dom st = dom (pl_store p) - set bad" using delete_all_ok by blast
    have "part_inv (p\<lparr>pl_store := st\<rparr>) (Freed (length bad) ptr) others k"
      using owned total st(2) Popped by (auto simp: part_inv_def)
    then show ?thesis using st(1) Popped by simp
  next
    case (Freed n ptr)
    then show ?thesis using owned total by (cases ptr) (auto simp: part_inv_def)
  next
    case Connecting
    show ?thesis
    proof (cases fresh)
      case None
      then show ?thesis using owned total Connecting by (simp add: part_inv_def)
    next
      case (Some c)
      then have "c \<notin> dom (pl_store p)" using assms(2) by (simp add: fresh_for_def domIff)
      then have "c \<notin> set (pl_conns p @ others)" using owned(2) Connecting by simp
      then show ?thesis using owned total Connecting Some by (simp add: part_inv_def)
    qed
  next
    case (Created c)
    then show ?thesis using owned total by (simp add: part_inv_def)
  next
    case (Using c)
    then obtain x where x: "pl_store p c = Some x" using live by auto
    have "insert c (dom (pl_store p)) = dom (pl_store p)" using x by auto
    then show ?thesis using owned total Using x by (auto simp: release_def Let_def part_inv_def)
  next
    case (Dropping c)
    then obtain x where x: "pl_store p c = Some x" using live by auto
    then show ?thesis using owned total Dropping by (auto simp: part_inv_def)
  next
    case Freed_one
    then show ?thesis using owned total by (simp add: part_inv_def)
  next
    case (Keeping c)
    then show ?thesis using owned total by (auto simp: part_inv_def)
  qed
qed

lemma pool_move_ok:
  assumes "pool_inv (p, xs @ pc # ys)" "fresh_for fresh p"
  shows "\<exists>p' pc'. pool_move now_ms fresh p pc = Inr (p', pc') \<and> pool_inv (p', xs @ pc' # ys)"
  using part_move [OF _ assms(2)] assms(1) unfolding pool_inv_part by blast

lemma disconnect_inv: "pool_inv (p, pcs) \<Longrightarrow> pool_inv (disconnect c p, pcs)"
  by (auto simp: pool_inv_def pool_owned_def disconnect_def dom_def split: if_splits)

interpretation pool_system: invariant_system pool_start pool_step pool_inv
proof
  fix x
  assume "pool_start x"
  then show "pool_inv x"
    by cases (simp add: pool_inv_def pool_owned_def new_HttpConnectionPool_def map_replicate_const sum_list_replicate)
next
  fix x y
  assume x: "pool_inv x" and "pool_step x y"
  from this(2) show "pool_inv y"
  proof cases
    case (Pool_move now_ms fresh p pc p' pc' xs ys)
    then show ?thesis using pool_move_ok [of p xs pc ys fresh now_ms] x by auto
  next
    case (Pool_disconnect p pcs c)
    then show ?thesis using disconnect_inv x by simp
  qed
qed

lemma pool_reachable_inv: "pool_reachable x \<Longrightarrow> pool_inv x"
  by (rule pool_system.reachable_inv)

section \<open>Getting a connection\<close>

text \<open>A thread on its own, until it has a connection or has given up, in at most \<open>n\<close> steps.\<close>

fun pool_run :: "nat \<Rightarrow> u64 \<Rightarrow> nat option \<Rightarrow> HttpConnectionPool \<Rightarrow> pool_pc \<Rightarrow> cpp_error + HttpConnectionPool \<times> pool_pc" where
  "pool_run 0 now_ms fresh p pc = Inl Diverges"
| "pool_run (Suc n) now_ms fresh p pc = (case pool_move now_ms fresh p pc of
     Inl e \<Rightarrow> Inl e
   | Inr (p', Using c) \<Rightarrow> Inr (p', Using c)
   | Inr (p', Outside) \<Rightarrow> Inr (p', Outside)
   | Inr (p', pc') \<Rightarrow> pool_run n now_ms fresh p' pc')"

text \<open>A connection a request may be sent on.\<close>

definition conn_usable :: "u64 \<Rightarrow> HttpConnectionPool \<Rightarrow> nat \<Rightarrow> bool" where
  "conn_usable now_ms p c \<longleftrightarrow> (case pl_store p c of None \<Rightarrow> False | Some x \<Rightarrow> pc_connected x \<and> \<not> too_old now_ms (pl_maxAliveTime p) x)"

lemma pop_conns_first:
  "pop_conns now_ms (pl_maxAliveTime p) (pl_store p) cs = Inr (bad, ptr, rest) \<Longrightarrow> ptr = find (conn_usable now_ms p) cs"
  by (induction cs arbitrary: bad) (auto simp: conn_usable_def split: option.splits if_splits sum.splits)

lemma pop_conns_none: "pop_conns now_ms max_alive st cs = Inr (bad, None, rest) \<Longrightarrow> rest = []"
  by (induction cs arbitrary: bad) (auto split: option.splits if_splits sum.splits)

lemma new_usable:
  assumes "now_ms < 2 ^ 63"
  shows "\<not> too_old now_ms max_alive \<lparr>pc_connected = b, pc_createTime = now_ms, pc_request = r\<rparr>"
proof -
  have "unat now_ms < 2 ^ 63" using assms by (simp add: word_less_nat_alt)
  moreover have "unat (ucast max_alive :: u64) < 2 ^ 32"
  proof -
    have "unat (ucast max_alive :: u64) \<le> unat max_alive" by (simp add: unsigned_ucast_eq take_bit_nat_less_eq_self)
    also have "unat max_alive < 2 ^ 32" using unsigned_less [of max_alive, where 'a = nat] by simp
    finally show ?thesis .
  qed
  ultimately have "unat now_ms + unat (ucast max_alive :: u64) < 2 ^ 64" by simp
  then have "unat (now_ms + ucast max_alive) = unat now_ms + unat (ucast max_alive :: u64)"
    by (subst unat_add_lem [symmetric]) simp
  then show ?thesis by (simp add: too_old_def word_less_nat_alt)
qed

lemma delete_all_other: "delete_all cs st = Inr st' \<Longrightarrow> c \<notin> set cs \<Longrightarrow> st' c = st c"
  by (induction cs arbitrary: st) (auto split: if_splits)

lemma pool_run_step:
  "pool_move now_ms fresh p pc = Inr (p', pc') \<Longrightarrow> pc' \<noteq> Outside \<Longrightarrow> (\<And>c. pc' \<noteq> Using c) \<Longrightarrow>
     pool_run (Suc n) now_ms fresh p pc = pool_run n now_ms fresh p' pc'"
  by (cases pc') auto

lemma pool_run_done:
  "pool_move now_ms fresh p pc = Inr (p', Using c) \<Longrightarrow> pool_run (Suc n) now_ms fresh p pc = Inr (p', Using c)"
  by simp

text \<open>
  The end of a call: the first usable connection of the list; without one the new connection, or none at all, and then
  the list is empty.
\<close>

lemma pool_get_part:
  assumes inv: "part_inv p Outside others k" and f: "fresh_for fresh p" and now: "now_ms < 2 ^ 63"
  shows "\<exists>p' pc'. pool_run 5 now_ms fresh p Outside = Inr (p', pc') \<and> part_inv p' pc' others k \<and>
     (case find (conn_usable now_ms p) (pl_conns p) of Some c \<Rightarrow> pc' = Using c \<and> conn_usable now_ms p' c
      | None \<Rightarrow> pl_conns p' = [] \<and> (case fresh of Some c \<Rightarrow> pc' = Using c \<and> conn_usable now_ms p' c | None \<Rightarrow> pc' = Outside))"
proof -
  have five: "5 = Suc (Suc (Suc (Suc (Suc 0))))" by simp
  obtain p1 pc1 where 1: "pool_move now_ms fresh p Outside = Inr (p1, pc1)" "part_inv p1 pc1 others k"
    using part_move [OF inv f, of now_ms] by blast
  then obtain bad ptr rest where pop: "pop_conns now_ms (pl_maxAliveTime p) (pl_store p) (pl_conns p) = Inr (bad, ptr, rest)"
    "p1 = p\<lparr>pl_conns := rest\<rparr>" "pc1 = Popped bad ptr" by (auto split: sum.splits)
  have ptr: "ptr = find (conn_usable now_ms p) (pl_conns p)" by (rule pop_conns_first [OF pop(1)])
  have f1: "fresh_for fresh p1" using f pop(2) by (simp add: fresh_for_def split: option.splits)
  obtain p2 pc2 where 2: "pool_move now_ms fresh p1 pc1 = Inr (p2, pc2)" "part_inv p2 pc2 others k"
    using part_move [OF 1(2) f1, of now_ms] by blast
  then obtain st where st: "delete_all bad (pl_store p) = Inr st" "p2 = p1\<lparr>pl_store := st\<rparr>" "pc2 = Freed (length bad) ptr"
    using pop(2,3) by (auto split: sum.splits)
  have bad: "set bad \<subseteq> dom (pl_store p)" "distinct bad"
    using 1(2) pop by (auto simp: part_inv_def)
  have f2: "fresh_for fresh p2"
  proof (cases fresh)
    case (Some c)
    then have "c \<notin> set bad" using f bad(1) by (auto simp: fresh_for_def)
    then show ?thesis using f Some delete_all_other [OF st(1), of c] st(2) by (simp add: fresh_for_def)
  qed (simp add: fresh_for_def)
  obtain p3 pc3 where 3: "pool_move now_ms fresh p2 pc2 = Inr (p3, pc3)" "part_inv p3 pc3 others k"
    using part_move [OF 2(2) f2, of now_ms] by blast
  then have p3: "p3 = p2\<lparr>pl_total := pl_total p2 - of_nat (length bad)\<rparr>" "pc3 = (case ptr of Some c \<Rightarrow> Using c | None \<Rightarrow> Connecting)"
    using st(3) by auto
  have pc1: "pc1 \<noteq> Outside" "\<And>c. pc1 \<noteq> Using c" using pop(3) by simp_all
  have pc2: "pc2 \<noteq> Outside" "\<And>c. pc2 \<noteq> Using c" using st(3) by simp_all
  show ?thesis
  proof (cases ptr)
    case (Some c)
    have "conn_usable now_ms p c" using ptr [symmetric] Some by (auto simp: find_Some_iff)
    moreover have "c \<notin> set bad" using 1(2) pop(3) Some by (auto simp: part_inv_def)
    ultimately have "conn_usable now_ms p3 c"
      using delete_all_other [OF st(1), of c] p3(1) st(2) pop(2) by (auto simp: conn_usable_def split: option.splits)
    moreover have "pool_run 5 now_ms fresh p Outside = Inr (p3, Using c)"
      unfolding five pool_run_step [OF 1(1) pc1] pool_run_step [OF 2(1) pc2] by (rule pool_run_done) (use 3(1) p3(2) Some in simp)
    moreover have "part_inv p3 (Using c) others k" using 3(2) p3(2) Some by simp
    ultimately show ?thesis unfolding ptr [symmetric] Some by simp
  next
    case None
    have pc3: "pc3 = Connecting" using p3(2) None by simp
    have none: "pl_conns p3 = []"
      using pop_conns_none [OF pop(1) [unfolded None]] p3(1) st(2) pop(2) by simp
    have pc3': "pc3 \<noteq> Outside" "\<And>c. pc3 \<noteq> Using c" using pc3 by simp_all
    have f3: "fresh_for fresh p3" using f2 p3(1) by (simp add: fresh_for_def split: option.splits)
    note three = pool_run_step [OF 1(1) pc1] pool_run_step [OF 2(1) pc2] pool_run_step [OF 3(1) pc3']
    show ?thesis
    proof (cases fresh)
      case None
      then have "pool_run 5 now_ms fresh p Outside = Inr (p3, Outside)" unfolding five three using pc3 by simp
      moreover have "part_inv p3 Outside others k" using 3(2) pc3 by (simp add: part_inv_def)
      ultimately show ?thesis using none unfolding ptr [symmetric] \<open>ptr = None\<close> \<open>fresh = None\<close> by simp
    next
      case (Some c)
      let ?c = "\<lparr>pc_connected = True, pc_createTime = now_ms, pc_request = 0\<rparr>"
      obtain p4 pc4 where 4: "pool_move now_ms fresh p3 pc3 = Inr (p4, pc4)" "part_inv p4 pc4 others k"
        using part_move [OF 3(2) f3, of now_ms] by blast
      then have p4: "p4 = p3\<lparr>pl_store := (pl_store p3)(c \<mapsto> ?c)\<rparr>" "pc4 = Created c" using pc3 Some by auto
      obtain p5 pc5 where 5: "pool_move now_ms fresh p4 pc4 = Inr (p5, pc5)" "part_inv p5 pc5 others k"
        using part_move [OF 4(2), of None now_ms] p4 by (auto simp: fresh_for_def)
      then have p5: "p5 = p4\<lparr>pl_total := pl_total p4 + 1\<rparr>" "pc5 = Using c" using p4(2) by auto
      have pc4: "pc4 \<noteq> Outside" "\<And>c. pc4 \<noteq> Using c" using p4(2) by simp_all
      have "pool_run 5 now_ms fresh p Outside = Inr (p5, Using c)"
        unfolding five three pool_run_step [OF 4(1) pc4] by (rule pool_run_done) (use 5(1) p5(2) in simp)
      moreover have "conn_usable now_ms p5 c" using p5(1) p4(1) new_usable [OF now] by (simp add: conn_usable_def)
      moreover have "part_inv p5 (Using c) others k" using 5(2) p5(2) by simp
      moreover have "pl_conns p5 = []" using none by (simp add: p5(1) p4(1))
      ultimately show ?thesis unfolding ptr [symmetric] \<open>ptr = None\<close> Some by simp
    qed
  qed
qed

text \<open>As many connections as there are threads, whatever \<^verbatim>\<open>m_maxSize\<close> is.\<close>

lemma pool_unbounded:
  "\<exists>p. pool_reachable (p, map Using [0..<k] @ replicate n Outside) \<and> pl_maxSize p = max_size \<and> pl_conns p = [] \<and>
     (\<forall>c \<ge> k. pl_store p c = None) \<and> pl_total p = of_nat k"
proof (induction k arbitrary: n)
  case 0
  have "pool_reachable (new_HttpConnectionPool max_size 0 0, replicate n Outside)" by (rule Pool_start)
  then show ?case by (intro exI [of _ "new_HttpConnectionPool max_size 0 0"]) (simp add: new_HttpConnectionPool_def)
next
  case (Suc k)
  obtain p where p: "pool_reachable (p, map Using [0..<k] @ Outside # replicate n Outside)" "pl_maxSize p = max_size"
    "pl_conns p = []" "\<forall>c \<ge> k. pl_store p c = None" "pl_total p = of_nat k"
    using Suc.IH [of "Suc n"] by auto
  let ?c = "\<lparr>pc_connected = True, pc_createTime = 0, pc_request = 0\<rparr>"
  let ?q = "p\<lparr>pl_store := (pl_store p)(k \<mapsto> ?c)\<rparr>"
  have go: "pool_reachable (q', map Using [0..<k] @ pc' # replicate n Outside)"
    if "pool_reachable (q, map Using [0..<k] @ pc # replicate n Outside)" "pool_move 0 f q pc = Inr (q', pc')" "fresh_for f q" for q q' pc pc' f
    using that by (auto intro: Pool_next Pool_move)
  have "pool_reachable (p, map Using [0..<k] @ Popped [] None # replicate n Outside)"
    by (rule go [OF p(1), of None]) (use p(3) in \<open>simp_all add: fresh_for_def\<close>)
  from go [OF this, of None p "Freed 0 None"] have "pool_reachable (p, map Using [0..<k] @ Freed 0 None # replicate n Outside)"
    by (simp add: fresh_for_def)
  from go [OF this, of None p Connecting] have "pool_reachable (p, map Using [0..<k] @ Connecting # replicate n Outside)"
    by (simp add: fresh_for_def)
  from go [OF this, of "Some k" ?q "Created k"] p(4) have "pool_reachable (?q, map Using [0..<k] @ Created k # replicate n Outside)"
    by (simp add: fresh_for_def)
  from go [OF this, of None "?q\<lparr>pl_total := pl_total ?q + 1\<rparr>" "Using k"]
  have "pool_reachable (?q\<lparr>pl_total := pl_total ?q + 1\<rparr>, map Using [0..<Suc k] @ replicate n Outside)"
    by (simp add: fresh_for_def)
  then show ?case using p by (intro exI [of _ "?q\<lparr>pl_total := pl_total ?q + 1\<rparr>"]) (simp add: add.commute)
qed

end
