(* ===== verification/Log_Format.thy ===== *)
theory Log_Format
  imports Cpp_Strings Cpp_Containers
begin

text \<open>
  The levels, events and formatters of \<^verbatim>\<open>linko/log.{h,cc}\<close>: \<^verbatim>\<open>LogFormatter::init\<close> reads a pattern into format
  items, \<^verbatim>\<open>format\<close> runs them over an event.
\<close>

section \<open>Levels\<close>

datatype LogLevel = UNKNOW | DEBUG | INFO | WARN | ERROR | FATAL

definition level_code :: "LogLevel \<Rightarrow> nat" where
  "level_code l = (case l of UNKNOW \<Rightarrow> 0 | DEBUG \<Rightarrow> 1 | INFO \<Rightarrow> 2 | WARN \<Rightarrow> 3 | ERROR \<Rightarrow> 4 | FATAL \<Rightarrow> 5)"

lemma level_code_inj [simp]: "level_code a = level_code b \<longleftrightarrow> a = b"
  by (cases a; cases b) (simp_all add: level_code_def)

instantiation LogLevel :: linorder
begin

definition less_eq_LogLevel :: "LogLevel \<Rightarrow> LogLevel \<Rightarrow> bool" where
  "a \<le> b \<longleftrightarrow> level_code a \<le> level_code b"

definition less_LogLevel :: "LogLevel \<Rightarrow> LogLevel \<Rightarrow> bool" where
  "a < b \<longleftrightarrow> level_code a < level_code b"

instance
  by standard (auto simp: less_eq_LogLevel_def less_LogLevel_def)

end

definition level_ToString :: "LogLevel \<Rightarrow> string" where
  "level_ToString l = (case l of DEBUG \<Rightarrow> ''DEBUG'' | INFO \<Rightarrow> ''INFO'' | WARN \<Rightarrow> ''WARN'' | ERROR \<Rightarrow> ''ERROR'' | FATAL \<Rightarrow> ''FATAL''
     | UNKNOW \<Rightarrow> ''UNKNOW'')"

text \<open>\<^verbatim>\<open>boost::iequals\<close> in the C locale.\<close>

definition iequals :: "string \<Rightarrow> string \<Rightarrow> bool" where
  "iequals s t \<longleftrightarrow> map low s = map low t"

definition level_FromString :: "string \<Rightarrow> LogLevel" where
  "level_FromString s =
     (if iequals s ''debug'' then DEBUG else if iequals s ''info'' then INFO else if iequals s ''warn'' then WARN
      else if iequals s ''error'' then ERROR else if iequals s ''fatal'' then FATAL else UNKNOW)"

lemma level_FromString_ToString [simp]: "level_FromString (level_ToString l) = l"
  by (cases l) (simp_all add: level_ToString_def level_FromString_def iequals_def low_def Let_def)

lemma UNKNOW_least [simp]: "UNKNOW \<le> l"
  by (simp add: less_eq_LogLevel_def level_code_def)

section \<open>Events\<close>

text \<open>The logger is named; \<open>ev_content\<close> is what has been streamed into the event.\<close>

record LogEvent =
  ev_logger :: string
  ev_level :: LogLevel
  ev_file :: string
  ev_line :: int
  ev_elapse :: u32
  ev_threadId :: u32
  ev_fiberId :: u32
  ev_time :: u64
  ev_threadName :: string
  ev_content :: string

text \<open>\<^verbatim>\<open>LogEvent::format\<close> appends what \<^verbatim>\<open>vasprintf\<close> gave, and nothing when that failed.\<close>

definition event_format :: "string option \<Rightarrow> LogEvent \<Rightarrow> LogEvent" where
  "event_format printed e = (case printed of None \<Rightarrow> e | Some s \<Rightarrow> e\<lparr>ev_content := ev_content e @ s\<rparr>)"

section \<open>Format items\<close>

datatype FormatItem =
    MessageFormatItem
  | LevelFormatItem
  | ElapseFormatItem
  | NameFormatItem
  | ThreadIdFormatItem
  | FiberIdFormatItem
  | ThreadNameFormatItem
  | DataTimeFormatItem string
  | FilenameFormatItem
  | LineFormatItem
  | NewLineFormatItem
  | StringFormatItem string
  | TabFormatItem

definition new_DataTimeFormatItem :: "string \<Rightarrow> FormatItem" where
  "new_DataTimeFormatItem format = DataTimeFormatItem (if format = [] then ''%Y-%m-%d %H:%M:%S'' else format)"

text \<open>\<open>ftime\<close> is \<^verbatim>\<open>strftime\<close> of the local time into a buffer of 64 characters.\<close>

fun item_format :: "(string \<Rightarrow> u64 \<Rightarrow> string) \<Rightarrow> FormatItem \<Rightarrow> LogLevel \<Rightarrow> LogEvent \<Rightarrow> string" where
  "item_format ftime MessageFormatItem level e = ev_content e"
| "item_format ftime LevelFormatItem level e = level_ToString level"
| "item_format ftime ElapseFormatItem level e = dec (unat (ev_elapse e))"
| "item_format ftime NameFormatItem level e = ev_logger e"
| "item_format ftime ThreadIdFormatItem level e = dec (unat (ev_threadId e))"
| "item_format ftime FiberIdFormatItem level e = dec (unat (ev_fiberId e))"
| "item_format ftime ThreadNameFormatItem level e = ev_threadName e"
| "item_format ftime (DataTimeFormatItem format) level e = ftime (cstr format) (ev_time e)"
| "item_format ftime FilenameFormatItem level e = ev_file e"
| "item_format ftime LineFormatItem level e = to_string (ev_line e)"
| "item_format ftime NewLineFormatItem level e = [CHR 10]"
| "item_format ftime (StringFormatItem s) level e = s"
| "item_format ftime TabFormatItem level e = [CHR 9]"

text \<open>The table \<^verbatim>\<open>s_format_items\<close>.\<close>

definition s_format_items :: "string \<Rightarrow> (string \<Rightarrow> FormatItem) option" where
  "s_format_items = map_of
     [(''m'', \<lambda>_. MessageFormatItem), (''p'', \<lambda>_. LevelFormatItem), (''r'', \<lambda>_. ElapseFormatItem), (''c'', \<lambda>_. NameFormatItem),
      (''t'', \<lambda>_. ThreadIdFormatItem), (''n'', \<lambda>_. NewLineFormatItem), (''d'', new_DataTimeFormatItem),
      (''f'', \<lambda>_. FilenameFormatItem), (''l'', \<lambda>_. LineFormatItem), (''T'', \<lambda>_. TabFormatItem), (''F'', \<lambda>_. FiberIdFormatItem),
      (''N'', \<lambda>_. ThreadNameFormatItem)]"

section \<open>The formatter\<close>

definition isalnum :: "char \<Rightarrow> bool" where
  "isalnum c = (let n = of_char c :: nat in 48 \<le> n \<and> n \<le> 57 \<or> 65 \<le> n \<and> n \<le> 90 \<or> 97 \<le> n \<and> n \<le> 122)"

definition substr :: "string \<Rightarrow> nat \<Rightarrow> nat \<Rightarrow> string" where
  "substr s pos n = take n (drop pos s)"

text \<open>
  The inner loop: from \<open>n\<close> on, the item that begins with the percent sign at \<open>i\<close>; its value is \<open>n\<close>, \<open>fmt_status\<close>, \<open>str\<close> and
  \<open>fmt\<close> behind the loop.
\<close>

function fmt_scan :: "string \<Rightarrow> nat \<Rightarrow> nat \<Rightarrow> nat \<Rightarrow> nat \<Rightarrow> string \<Rightarrow> string \<Rightarrow> nat \<times> nat \<times> string \<times> string" where
  "fmt_scan p i n fmt_status fmt_begin str fmt =
     (if length p \<le> n then (n, fmt_status, str, fmt)
      else if fmt_status = 0 \<and> \<not> isalnum (p ! n) \<and> p ! n \<noteq> CHR ''{'' \<and> p ! n \<noteq> CHR ''}''
      then (n, fmt_status, substr p (i + 1) (n - i - 1), fmt)
      else if fmt_status = 0 \<and> p ! n = CHR ''{'' then fmt_scan p i (n + 1) 1 n (substr p (i + 1) (n - i - 1)) fmt
      else if fmt_status = 1 \<and> p ! n = CHR ''}'' then (n + 1, 0, str, substr p (fmt_begin + 1) (n - fmt_begin - 1))
      else fmt_scan p i (n + 1) fmt_status fmt_begin
        (if n + 1 = length p \<and> str = [] then drop (i + 1) p else str) fmt)"
  by pat_completeness auto

termination
  by (relation "measure (\<lambda>(p, i, n, _). length p - n)") auto

declare fmt_scan.simps [simp del]

text \<open>
  The outer loop: the plain text so far and the pieces, each with its argument and whether it is an item.  The loop goes on
  at \<open>n\<close>, or, when a brace stays open, behind the percent sign.
\<close>

lemma fmt_scan_ge: "fmt_scan p i n st fb str fmt = (m, r) \<Longrightarrow> n \<le> m"
proof (induction p i n st fb str fmt arbitrary: m r rule: fmt_scan.induct)
  case (1 p i n st fb str fmt)
  show ?case
    using 1(3) 1(1)[of m r] 1(2)[of m r] by (subst (asm) fmt_scan.simps) (auto split: if_splits)
qed

function init_loop :: "string \<Rightarrow> nat \<Rightarrow> string \<Rightarrow> (string \<times> string \<times> bool) list \<Rightarrow> bool \<Rightarrow>
    string \<times> (string \<times> string \<times> bool) list \<times> bool" where
  "init_loop p i nstr vec err =
     (if length p \<le> i then (nstr, vec, err)
      else if p ! i \<noteq> CHR ''%'' then init_loop p (i + 1) (nstr @ [p ! i]) vec err
      else if i + 1 < length p \<and> p ! (i + 1) = CHR ''%'' then init_loop p (i + 1) (nstr @ ''%'') vec err
      else (case fmt_scan p i (i + 1) 0 0 [] [] of (n, fmt_status, str, fmt) \<Rightarrow>
          if fmt_status = 0 then init_loop p n [] (vec @ (if nstr \<noteq> [] then [(nstr, [], False)] else []) @ [(str, fmt, True)]) err
          else init_loop p (i + 1) nstr (vec @ [(''<<pattern_error>>'', fmt, False)]) True))"
  by pat_completeness auto

termination
  by (relation "measure (\<lambda>(p, i, _). length p - i)") (auto dest!: fmt_scan_ge [OF sym])

declare init_loop.simps [simp del]

definition make_item :: "string \<times> string \<times> bool \<Rightarrow> FormatItem \<times> bool" where
  "make_item x = (case x of (str, fmt, is_item) \<Rightarrow>
     if \<not> is_item then (StringFormatItem str, False)
     else (case s_format_items str of
        None \<Rightarrow> (StringFormatItem (''<<error_format %'' @ str @ ''>>''), True)
      | Some mk \<Rightarrow> (mk fmt, False)))"

record LogFormatter =
  fm_pattern :: string
  fm_items :: "FormatItem list"
  fm_error :: bool

definition new_LogFormatter :: "string \<Rightarrow> LogFormatter" where
  "new_LogFormatter p = (case init_loop p 0 [] [] False of (nstr, vec, err) \<Rightarrow>
     let items = map make_item (vec @ (if nstr \<noteq> [] then [(nstr, [], False)] else []))
     in \<lparr>fm_pattern = p, fm_items = map fst items, fm_error = err \<or> list_ex snd items\<rparr>)"

definition formatter_format :: "(string \<Rightarrow> u64 \<Rightarrow> string) \<Rightarrow> LogFormatter \<Rightarrow> LogLevel \<Rightarrow> LogEvent \<Rightarrow> string" where
  "formatter_format ftime f level e = concat (map (\<lambda>i. item_format ftime i level e) (fm_items f))"

section \<open>Patterns and items\<close>

text \<open>A pattern as a list of tokens: plain text, an item, or an item with an argument in braces.\<close>

datatype log_token = Plain string | Item char | Braced char string

fun token_text :: "log_token \<Rightarrow> string" where
  "token_text (Plain s) = s"
| "token_text (Item c) = [CHR ''%'', c]"
| "token_text (Braced c fmt) = CHR ''%'' # c # CHR ''{'' # fmt @ ''}''"

fun token_piece :: "log_token \<Rightarrow> string \<times> string \<times> bool" where
  "token_piece (Plain s) = (s, [], False)"
| "token_piece (Item c) = ([c], [], True)"
| "token_piece (Braced c fmt) = ([c], fmt, True)"

definition pattern_of :: "log_token list \<Rightarrow> string" where
  "pattern_of ts = concat (map token_text ts)"

text \<open>What may follow an item without braces.\<close>

definition ends_item :: "string \<Rightarrow> bool" where
  "ends_item s \<longleftrightarrow> s = [] \<or> \<not> isalnum (hd s) \<and> hd s \<noteq> CHR ''{'' \<and> hd s \<noteq> CHR ''}''"

definition known_item :: "char \<Rightarrow> bool" where
  "known_item c \<longleftrightarrow> c \<in> set ''mprctndflTFN''"

fun tokens_ok :: "log_token list \<Rightarrow> bool" where
  "tokens_ok [] = True"
| "tokens_ok (Plain s # ts) = (s \<noteq> [] \<and> CHR ''%'' \<notin> set s \<and> (case ts of Plain _ # _ \<Rightarrow> False | _ \<Rightarrow> True) \<and> tokens_ok ts)"
| "tokens_ok (Item c # ts) = (known_item c \<and> ends_item (pattern_of ts) \<and> tokens_ok ts)"
| "tokens_ok (Braced c fmt # ts) = (known_item c \<and> CHR ''}'' \<notin> set fmt \<and> tokens_ok ts)"

lemma pattern_of_simps [simp]: "pattern_of [] = []" "pattern_of (t # ts) = token_text t @ pattern_of ts"
  by (simp_all add: pattern_of_def)

lemma known_item_alnum: "known_item c \<Longrightarrow> isalnum c \<and> c \<noteq> CHR ''%'' \<and> c \<noteq> CHR ''{'' \<and> c \<noteq> CHR ''}''"
  by (auto simp: known_item_def isalnum_def Let_def)

lemma scan_item:
  assumes "p = pre @ CHR ''%'' # c # rest" "known_item c" "ends_item rest"
  shows "fmt_scan p (length pre) (length pre + 1) 0 0 [] [] = (length pre + 2, 0, [c], [])"
proof (cases rest)
  case Nil
  then show ?thesis using assms known_item_alnum [of c]
    by (simp add: fmt_scan.simps [of _ _ "Suc (length pre)"] fmt_scan.simps [of _ _ "Suc (Suc (length pre))"] nth_append)
next
  case (Cons d rest')
  then show ?thesis using assms known_item_alnum [of c]
    by (simp add: fmt_scan.simps [of _ _ "Suc (length pre)"] fmt_scan.simps [of _ _ "Suc (Suc (length pre))"] nth_append ends_item_def
        substr_def)
qed

lemma scan_braces:
  assumes "p = pre @ mid @ CHR ''}'' # rest" "CHR ''}'' \<notin> set mid" "str \<noteq> []"
  shows "fmt_scan p i (length pre) 1 fb str fmt = (length pre + length mid + 1, 0, str, substr p (fb + 1) (length pre + length mid - fb - 1))"
  using assms
proof (induction mid arbitrary: pre)
  case Nil
  then show ?case by (simp add: fmt_scan.simps [of _ _ "length pre"] nth_append)
next
  case (Cons c mid)
  then show ?case using Cons.IH [of "pre @ [c]"] by (auto simp: fmt_scan.simps [of _ _ "length pre"] nth_append)
qed

lemma scan_braced:
  assumes "p = pre @ CHR ''%'' # c # CHR ''{'' # fmt @ CHR ''}'' # rest" "known_item c" "CHR ''}'' \<notin> set fmt"
  shows "fmt_scan p (length pre) (length pre + 1) 0 0 [] [] = (length pre + length fmt + 4, 0, [c], fmt)"
proof -
  have p: "p = (pre @ [CHR ''%'', c, CHR ''{'']) @ fmt @ CHR ''}'' # rest" using assms(1) by simp
  have "fmt_scan p (length pre) (length pre + 1) 0 0 [] [] = fmt_scan p (length pre) (length pre + 3) 1 (length pre + 2) [c] []"
    using assms known_item_alnum [of c]
    by (simp add: fmt_scan.simps [of _ _ "Suc (length pre)"] fmt_scan.simps [of _ _ "Suc (Suc (length pre))"] nth_append substr_def
        isalnum_def Let_def numeral_3_eq_3)
  also have "\<dots> = (length pre + length fmt + 4, 0, [c], fmt)"
    using scan_braces [OF p assms(3), of "[c]" "length pre" "length pre + 2" "[]"]
    by (simp add: substr_def p eval_nat_numeral)
  finally show ?thesis .
qed

lemma init_plain:
  assumes "p = pre @ s @ rest" "CHR ''%'' \<notin> set s"
  shows "init_loop p (length pre) nstr vec err = init_loop p (length pre + length s) (nstr @ s) vec err"
  using assms
proof (induction s arbitrary: pre nstr)
  case (Cons c s)
  then show ?case using Cons.IH [of "pre @ [c]" "nstr @ [c]"]
    by (subst init_loop.simps) (auto simp: nth_append)
qed simp

text \<open>The pieces of a pattern, with the plain text at its end.\<close>

definition pieces_of :: "string \<times> (string \<times> string \<times> bool) list \<times> bool \<Rightarrow> (string \<times> string \<times> bool) list \<times> bool" where
  "pieces_of x = (case x of (nstr, vec, err) \<Rightarrow> (vec @ (if nstr \<noteq> [] then [(nstr, [], False)] else []), err))"

lemma init_tokens:
  assumes "tokens_ok ts" "nstr = [] \<or> (case ts of Plain _ # _ \<Rightarrow> False | _ \<Rightarrow> True)" "p = pre @ pattern_of ts"
  shows "pieces_of (init_loop p (length pre) nstr vec err) =
     (vec @ (if nstr \<noteq> [] then [(nstr, [], False)] else []) @ map token_piece ts, err)"
  using assms
proof (induction ts arbitrary: pre nstr vec)
  case Nil
  then show ?case by (simp add: init_loop.simps [of _ "length pre"] pieces_of_def)
next
  case (Cons t ts)
  show ?case
  proof (cases t)
    case (Plain s)
    then show ?thesis using Cons.prems Cons.IH [of s "pre @ s" vec] init_plain [of p pre s "pattern_of ts" nstr vec err] by simp
  next
    case (Item c)
    have "init_loop p (length pre) nstr vec err =
        init_loop p (length pre + 2) [] (vec @ (if nstr \<noteq> [] then [(nstr, [], False)] else []) @ [([c], [], True)]) err"
      using Cons.prems Item scan_item [of p pre c "pattern_of ts"] known_item_alnum [of c]
      by (subst init_loop.simps) (simp add: nth_append)
    then show ?thesis using Cons.prems Item Cons.IH [of "[]" "pre @ [CHR ''%'', c]"] by simp
  next
    case (Braced c fmt)
    have "init_loop p (length pre) nstr vec err =
        init_loop p (length pre + length fmt + 4) [] (vec @ (if nstr \<noteq> [] then [(nstr, [], False)] else []) @ [([c], fmt, True)]) err"
      using Cons.prems Braced scan_braced [of p pre c fmt "pattern_of ts"] known_item_alnum [of c]
      by (subst init_loop.simps) (simp add: nth_append)
    then show ?thesis using Cons.prems Braced Cons.IH [of "[]" "pre @ CHR ''%'' # c # CHR ''{'' # fmt @ ''}''"]
      by (simp add: eval_nat_numeral)
  qed
qed

text \<open>The items of a well formed pattern are those of its tokens.\<close>

lemma known_item_made: "known_item c \<Longrightarrow> \<not> snd (make_item ([c], fmt, True))"
  by (auto simp: known_item_def make_item_def s_format_items_def)

lemma new_LogFormatter_tokens:
  assumes "tokens_ok ts"
  shows "new_LogFormatter (pattern_of ts) =
     \<lparr>fm_pattern = pattern_of ts, fm_items = map (fst \<circ> make_item \<circ> token_piece) ts, fm_error = False\<rparr>"
proof -
  have 1: "pieces_of (init_loop (pattern_of ts) 0 [] [] False) = (map token_piece ts, False)"
    using init_tokens [OF assms, of "[]" "pattern_of ts" "[]" "[]" False] by simp
  have 2: "\<not> list_ex snd (map (make_item \<circ> token_piece) ts)"
    using assms by (induction ts rule: tokens_ok.induct) (auto simp: known_item_made, simp add: make_item_def)
  have 3: "new_LogFormatter (pattern_of ts) = (case pieces_of (init_loop (pattern_of ts) 0 [] [] False) of (vec, err) \<Rightarrow>
      \<lparr>fm_pattern = pattern_of ts, fm_items = map fst (map make_item vec), fm_error = err \<or> list_ex snd (map make_item vec)\<rparr>)"
    by (simp add: new_LogFormatter_def pieces_of_def Let_def split: prod.splits)
  show ?thesis using 2 unfolding 3 1 by (simp add: comp_assoc)
qed

text \<open>What an item writes, by its letter, and so a token.\<close>

definition letter_output :: "(string \<Rightarrow> u64 \<Rightarrow> string) \<Rightarrow> LogLevel \<Rightarrow> LogEvent \<Rightarrow> char \<Rightarrow> string \<Rightarrow> string" where
  "letter_output ftime level e c fmt =
     (if c = CHR ''m'' then ev_content e else if c = CHR ''p'' then level_ToString level
      else if c = CHR ''r'' then dec (unat (ev_elapse e)) else if c = CHR ''c'' then ev_logger e
      else if c = CHR ''t'' then dec (unat (ev_threadId e)) else if c = CHR ''F'' then dec (unat (ev_fiberId e))
      else if c = CHR ''N'' then ev_threadName e else if c = CHR ''f'' then ev_file e
      else if c = CHR ''l'' then to_string (ev_line e) else if c = CHR ''n'' then [CHR 10] else if c = CHR ''T'' then [CHR 9]
      else ftime (cstr (if fmt = [] then ''%Y-%m-%d %H:%M:%S'' else fmt)) (ev_time e))"

fun token_output :: "(string \<Rightarrow> u64 \<Rightarrow> string) \<Rightarrow> LogLevel \<Rightarrow> LogEvent \<Rightarrow> log_token \<Rightarrow> string" where
  "token_output ftime level e (Plain s) = s"
| "token_output ftime level e (Item c) = letter_output ftime level e c []"
| "token_output ftime level e (Braced c fmt) = letter_output ftime level e c fmt"

lemma made_item_output:
  "known_item c \<Longrightarrow> item_format ftime (fst (make_item ([c], fmt, True))) level e = letter_output ftime level e c fmt"
  by (auto simp: known_item_def make_item_def s_format_items_def letter_output_def new_DataTimeFormatItem_def)

lemma formatter_tokens:
  assumes "tokens_ok ts"
  shows "\<not> fm_error (new_LogFormatter (pattern_of ts))"
    "formatter_format ftime (new_LogFormatter (pattern_of ts)) level e = concat (map (token_output ftime level e) ts)"
proof -
  have "concat (map (\<lambda>i. item_format ftime i level e) (map (fst \<circ> make_item \<circ> token_piece) ts)) = concat (map (token_output ftime level e) ts)"
    using assms by (induction ts rule: tokens_ok.induct) (simp_all add: made_item_output, simp add: make_item_def)
  then show "\<not> fm_error (new_LogFormatter (pattern_of ts))"
    "formatter_format ftime (new_LogFormatter (pattern_of ts)) level e = concat (map (token_output ftime level e) ts)"
    using new_LogFormatter_tokens [OF assms] by (simp_all add: formatter_format_def)
qed

text \<open>Two percent signs: the second one begins an item all the same.\<close>

lemma double_percent: "fm_items (new_LogFormatter ''%%d'') = [StringFormatItem ''%'', DataTimeFormatItem ''%Y-%m-%d %H:%M:%S'']"
  by (simp add: new_LogFormatter_def init_loop.simps fmt_scan.simps isalnum_def Let_def substr_def make_item_def s_format_items_def
      new_DataTimeFormatItem_def)

lemma double_percent_end: "fm_error (new_LogFormatter ''100%%'')"
  by (simp add: new_LogFormatter_def init_loop.simps fmt_scan.simps Let_def make_item_def s_format_items_def)

end
