(* ===== verification/Config.thy ===== *)
theory Config
  imports Cpp_Strings Cpp_Containers
begin

text \<open>
  \<^verbatim>\<open>linko/config.{h,cc}\<close>: named configuration variables with listeners, and loading them from a YAML tree.
  The types of the variables are one type \<open>'v\<close>, in which \<open>cv_type\<close> says what \<^verbatim>\<open>typeid\<close> would; \<^verbatim>\<open>FormStr\<close> and
  \<^verbatim>\<open>ToStr\<close> are functions of the variable.  A listener acts on the rest of the program, \<open>'w\<close>.
\<close>

section \<open>Variables\<close>

type_synonym ('v, 'w) on_change_cb = "'v \<Rightarrow> 'v \<Rightarrow> ('w, unit) eff"

record ('v, 'w) ConfigVar =
  cv_name :: string
  cv_description :: string
  cv_type :: string
  cv_from :: "string \<Rightarrow> cpp_error + 'v"
  cv_to :: "'v \<Rightarrow> cpp_error + string"
  cv_val :: 'v
  cv_cbs :: "(u64, ('v, 'w) on_change_cb) cpp_map"

definition tolower :: "string \<Rightarrow> string" where
  "tolower s = map (\<lambda>c. char_of (low c)) s"

definition new_ConfigVar ::
  "string \<Rightarrow> (string \<Rightarrow> cpp_error + 'v) \<Rightarrow> ('v \<Rightarrow> cpp_error + string) \<Rightarrow> string \<Rightarrow> 'v \<Rightarrow> string \<Rightarrow> ('v, 'w) ConfigVar" where
  "new_ConfigVar type from to name default_value description =
     \<lparr>cv_name = tolower name, cv_description = description, cv_type = type, cv_from = from, cv_to = to, cv_val = default_value,
      cv_cbs = []\<rparr>"

text \<open>What \<^verbatim>\<open>catch (std::exception&)\<close> catches.\<close>

definition is_exception :: "cpp_error \<Rightarrow> bool" where
  "is_exception e \<longleftrightarrow> e \<in> {Out_of_range, Logic_error, Invalid_argument, Runtime_error}"

definition var_toString :: "('v, 'w) ConfigVar \<Rightarrow> cpp_error + string" where
  "var_toString v = (case cv_to v (cv_val v) of Inl e \<Rightarrow> if is_exception e then Inr [] else Inl e | Inr s \<Rightarrow> Inr s)"

fun call_listeners :: "('v, 'w) on_change_cb list \<Rightarrow> 'v \<Rightarrow> 'v \<Rightarrow> ('w, unit) eff" where
  "call_listeners [] old new w = (Inr (), w)"
| "call_listeners (cb # cbs) old new w = (case cb old new w of
     (Inl e, w') \<Rightarrow> (Inl e, w') | (Inr _, w') \<Rightarrow> call_listeners cbs old new w')"

text \<open>The listeners run before the value changes; when one throws it does not change.\<close>

definition var_setValue :: "'v \<Rightarrow> (('v, 'w) ConfigVar \<times> 'w, unit) eff" where
  "var_setValue x = (\<lambda>(v, w).
     if x = cv_val v then (Inr (), v, w)
     else case call_listeners (map snd (cv_cbs v)) (cv_val v) x w of
       (Inl e, w') \<Rightarrow> (Inl e, v, w')
     | (Inr _, w') \<Rightarrow> (Inr (), v\<lparr>cv_val := x\<rparr>, w'))"

definition var_fromString :: "string \<Rightarrow> (('v, 'w) ConfigVar \<times> 'w, bool) eff" where
  "var_fromString s = (\<lambda>(v, w).
     case (case cv_from v s of Inl e \<Rightarrow> (Inl e, v, w) | Inr x \<Rightarrow> var_setValue x (v, w)) of
       (Inl e, x') \<Rightarrow> (if is_exception e then Inr False else Inl e, x')
     | (Inr _, x') \<Rightarrow> (Inr False, x'))"

text \<open>\<open>id\<close> is \<^verbatim>\<open>s_fun_id\<close>, which all variables of a type share.\<close>

definition addListener :: "('v, 'w) on_change_cb \<Rightarrow> u64 \<times> ('v, 'w) ConfigVar \<Rightarrow> u64 \<times> u64 \<times> ('v, 'w) ConfigVar" where
  "addListener cb = (\<lambda>(id, v). (id + 1, id + 1, v\<lparr>cv_cbs := map_assign (<) (id + 1) cb (cv_cbs v)\<rparr>))"

definition delListener :: "u64 \<Rightarrow> ('v, 'w) ConfigVar \<Rightarrow> ('v, 'w) ConfigVar" where
  "delListener key v = v\<lparr>cv_cbs := map_erase (<) key (cv_cbs v)\<rparr>"

definition clearListener :: "('v, 'w) ConfigVar \<Rightarrow> ('v, 'w) ConfigVar" where
  "clearListener v = v\<lparr>cv_cbs := []\<rparr>"

section \<open>The registry\<close>

text \<open>
  \<^verbatim>\<open>GetDatas()\<close>.  A pointer to a variable is the key it is registered under: none is ever removed or replaced.
\<close>

type_synonym ('v, 'w) ConfigVarMap = "(string, ('v, 'w) ConfigVar) cpp_map"

definition valid_name :: "string \<Rightarrow> bool" where
  "valid_name s \<longleftrightarrow> list_all (\<lambda>c. c \<in> set ''abcdefghijklmnopqrstuvwxyz._0123456789'') s"

definition Lookup_default ::
  "string \<Rightarrow> (string \<Rightarrow> cpp_error + 'v) \<Rightarrow> ('v \<Rightarrow> cpp_error + string) \<Rightarrow> string \<Rightarrow> 'v \<Rightarrow> string \<Rightarrow>
     (('v, 'w) ConfigVarMap, string option) eff" where
  "Lookup_default type from to name default_value description m =
     (case map_find (<) name m of
        Some v \<Rightarrow> (Inr (if cv_type v = type then Some name else None), m)
      | None \<Rightarrow>
          if \<not> valid_name name then (Inl Invalid_argument, m)
          else (Inr (Some name), map_assign (<) name (new_ConfigVar type from to name default_value description) m))"

definition Lookup_typed :: "string \<Rightarrow> string \<Rightarrow> ('v, 'w) ConfigVarMap \<Rightarrow> string option" where
  "Lookup_typed type name m = (case map_find (<) name m of
     None \<Rightarrow> None | Some v \<Rightarrow> if cv_type v = type then Some name else None)"

definition LookupBase :: "string \<Rightarrow> ('v, 'w) ConfigVarMap \<Rightarrow> string option" where
  "LookupBase name m = (case map_find (<) name m of None \<Rightarrow> None | Some v \<Rightarrow> Some name)"

fun Visit :: "(string \<Rightarrow> ('w, unit) eff) \<Rightarrow> ('v, 'w) ConfigVarMap \<Rightarrow> ('w, unit) eff" where
  "Visit cb [] w = (Inr (), w)"
| "Visit cb (kv # m) w = (case cb (fst kv) w of (Inl e, w') \<Rightarrow> (Inl e, w') | (Inr _, w') \<Rightarrow> Visit cb m w')"

section \<open>Loading\<close>

text \<open>A node of yaml-cpp by its type; the entries of a map with the text of their keys, in order.\<close>

datatype yaml = Yaml_null | Yaml_scalar string | Yaml_sequence "yaml list" | Yaml_map "(string \<times> yaml) list"

fun ListAllMember :: "string \<Rightarrow> yaml \<Rightarrow> (string \<times> yaml) list" where
  "ListAllMember prefix node =
     (if \<not> valid_name prefix then []
      else (prefix, node) # (case node of
          Yaml_map kvs \<Rightarrow> concat (map (\<lambda>kv. ListAllMember (if prefix = [] then fst kv else prefix @ ''.'' @ fst kv) (snd kv)) kvs)
        | _ \<Rightarrow> []))"

declare ListAllMember.simps [simp del]

text \<open>\<open>emit\<close> writes a node to a stream.\<close>

definition node_text :: "(yaml \<Rightarrow> string) \<Rightarrow> yaml \<Rightarrow> string" where
  "node_text emit node = (case node of Yaml_scalar s \<Rightarrow> s | _ \<Rightarrow> emit node)"

definition load_node :: "(yaml \<Rightarrow> string) \<Rightarrow> string \<times> yaml \<Rightarrow> (('v, 'w) ConfigVarMap \<times> 'w, unit) eff" where
  "load_node emit i = (\<lambda>(m, w).
     if fst i = [] then (Inr (), m, w)
     else let key = tolower (fst i)
       in case map_find (<) key m of
         None \<Rightarrow> (Inr (), m, w)
       | Some v \<Rightarrow> (case var_fromString (node_text emit (snd i)) (v, w) of
           (r, v', w') \<Rightarrow> (map_sum id (\<lambda>_. ()) r, map_assign (<) key v' m, w')))"

fun load_all :: "(yaml \<Rightarrow> string) \<Rightarrow> (string \<times> yaml) list \<Rightarrow> (('v, 'w) ConfigVarMap \<times> 'w, unit) eff" where
  "load_all emit [] x = (Inr (), x)"
| "load_all emit (i # is) x = (case load_node emit i x of (Inl e, x') \<Rightarrow> (Inl e, x') | (Inr _, x') \<Rightarrow> load_all emit is x')"

definition LoadFromYaml :: "(yaml \<Rightarrow> string) \<Rightarrow> yaml \<Rightarrow> (('v, 'w) ConfigVarMap \<times> 'w, unit) eff" where
  "LoadFromYaml emit root = load_all emit (ListAllMember [] root)"

section \<open>Conversions\<close>

text \<open>
  \<^verbatim>\<open>LexicalCast\<close> from and to a container: \<open>load\<close> is \<^verbatim>\<open>YAML::Load\<close>, \<open>emit\<close> writes a node, \<open>items\<close> are the nodes
  that indexing from 0 up to \<^verbatim>\<open>size()\<close> gives, \<open>conv\<close> the conversion of an element.
\<close>

fun convert_all :: "('a \<Rightarrow> cpp_error + 'b) \<Rightarrow> 'a list \<Rightarrow> cpp_error + 'b list" where
  "convert_all conv [] = Inr []"
| "convert_all conv (x # xs) = (case conv x of Inl e \<Rightarrow> Inl e | Inr y \<Rightarrow> map_sum id (Cons y) (convert_all conv xs))"

definition to_vector ::
  "(string \<Rightarrow> cpp_error + yaml) \<Rightarrow> (yaml \<Rightarrow> yaml list) \<Rightarrow> (yaml \<Rightarrow> string) \<Rightarrow> (string \<Rightarrow> cpp_error + 'a) \<Rightarrow> string \<Rightarrow> cpp_error + 'a list" where
  "to_vector load items emit conv s = (case load s of Inl e \<Rightarrow> Inl e | Inr node \<Rightarrow> convert_all (\<lambda>n. conv (emit n)) (items node))"

definition to_list where "to_list = to_vector"

definition to_set where
  "to_set lt load items emit conv s = map_sum id (\<lambda>xs. fold (set_insert lt) xs []) (to_vector load items emit conv s)"

definition to_unordered_set where
  "to_unordered_set load items emit conv s = map_sum id (\<lambda>xs. fold insert xs {}) (to_vector load items emit conv s)"

definition yaml_entries :: "yaml \<Rightarrow> (string \<times> yaml) list" where
  "yaml_entries node = (case node of Yaml_map kvs \<Rightarrow> kvs | _ \<Rightarrow> [])"

definition to_pairs ::
  "(string \<Rightarrow> cpp_error + yaml) \<Rightarrow> (yaml \<Rightarrow> string) \<Rightarrow> (string \<Rightarrow> cpp_error + 'a) \<Rightarrow> string \<Rightarrow> cpp_error + (string \<times> 'a) list" where
  "to_pairs load emit conv s = (case load s of Inl e \<Rightarrow> Inl e
     | Inr node \<Rightarrow> convert_all (\<lambda>kv. map_sum id (Pair (fst kv)) (conv (emit (snd kv)))) (yaml_entries node))"

definition to_map where
  "to_map load emit conv s = map_sum id (\<lambda>kvs. fold (\<lambda>(k, v). map_insert (<) k v) kvs []) (to_pairs load emit conv s)"

definition to_unordered_map where
  "to_unordered_map load emit conv s =
     map_sum id (\<lambda>kvs. fold (\<lambda>(k, v) m. if m k = None then m(k \<mapsto> v) else m) kvs Map.empty) (to_pairs load emit conv s)"

text \<open>The sequences are written with a text for each element, in the container's order; the maps with its tree.\<close>

definition of_sequence :: "(yaml \<Rightarrow> string) \<Rightarrow> ('a \<Rightarrow> cpp_error + string) \<Rightarrow> 'a list \<Rightarrow> cpp_error + string" where
  "of_sequence emit conv xs = map_sum id (\<lambda>ss. emit (Yaml_sequence (map Yaml_scalar ss))) (convert_all conv xs)"

definition of_map ::
  "(string \<Rightarrow> cpp_error + yaml) \<Rightarrow> (yaml \<Rightarrow> string) \<Rightarrow> ('a \<Rightarrow> cpp_error + string) \<Rightarrow> (string \<times> 'a) list \<Rightarrow> cpp_error + string" where
  "of_map load emit conv kvs = map_sum id (\<lambda>ns. emit (Yaml_map ns)) (convert_all
     (\<lambda>kv. case conv (snd kv) of Inl e \<Rightarrow> Inl e | Inr s \<Rightarrow> map_sum id (Pair (fst kv)) (load s)) kvs)"

section \<open>Lemmas\<close>

interpretation string_order: strict_total_order "(<) :: string \<Rightarrow> string \<Rightarrow> bool"
  by unfold_locales auto

interpretation key_order: strict_total_order "(<) :: u64 \<Rightarrow> u64 \<Rightarrow> bool"
  by unfold_locales auto

lemma char_of_low: "c \<in> set ''abcdefghijklmnopqrstuvwxyz._0123456789'' \<Longrightarrow> char_of (low c) = c"
  by (auto simp: low_def Let_def)

lemma tolower_valid: "valid_name s \<Longrightarrow> tolower s = s"
  by (induction s) (simp_all add: valid_name_def tolower_def char_of_low)

text \<open>A variable is registered under its own name, which is valid, and no name twice.\<close>

definition config_inv :: "('v, 'w) ConfigVarMap \<Rightarrow> bool" where
  "config_inv m \<longleftrightarrow> string_order.keys_sorted m \<and> (\<forall>key v. map_find (<) key m = Some v \<longrightarrow> cv_name v = key \<and> valid_name key)"

lemma config_inv_Nil [simp]: "config_inv []"
  by (simp add: config_inv_def)

lemma config_inv_assign:
  "config_inv m \<Longrightarrow> cv_name v = key \<Longrightarrow> valid_name key \<Longrightarrow> config_inv (map_assign (<) key v m)"
  by (auto simp: config_inv_def string_order.keys_sorted_assign string_order.map_find_assign split: if_splits)

lemma Lookup_default_inv: "config_inv m \<Longrightarrow> Lookup_default type from to name d descr m = (r, m') \<Longrightarrow> config_inv m'"
  by (auto simp: Lookup_default_def new_ConfigVar_def tolower_valid intro!: config_inv_assign split: option.splits if_splits)

text \<open>A lookup with a default gives the variable with that default, or the one that is there with its value.\<close>

lemma Lookup_default_found:
  assumes "config_inv m" "Lookup_default type from to name d descr m = (Inr (Some p), m')"
  shows "p = name \<and> (\<exists>v. map_find (<) name m' = Some v \<and> cv_type v = type \<and> (map_find (<) name m = None \<longrightarrow> cv_val v = d) \<and>
     (\<forall>u. map_find (<) name m = Some u \<longrightarrow> v = u)) \<and> (\<forall>k. k \<noteq> name \<longrightarrow> map_find (<) k m' = map_find (<) k m)"
  using assms by (auto simp: Lookup_default_def config_inv_def new_ConfigVar_def string_order.map_find_assign
      split: option.splits if_splits)

text \<open>Reading a text touches nothing but the value.\<close>

lemma var_fromString_rest:
  "var_fromString s (v, w) = (r, v', w') \<Longrightarrow> \<exists>x. v' = v\<lparr>cv_val := x\<rparr>"
  by (auto simp: var_fromString_def var_setValue_def split: sum.splits if_splits prod.splits) (metis ConfigVar.surjective ConfigVar.update_convs(6))+

text \<open>The value after a list of texts: each that can be read replaces it.\<close>

definition value_after :: "(string \<Rightarrow> cpp_error + 'v) \<Rightarrow> string list \<Rightarrow> 'v \<Rightarrow> 'v" where
  "value_after from = fold (\<lambda>s x. case from s of Inl e \<Rightarrow> x | Inr y \<Rightarrow> y)"

text \<open>The texts that a listing of members gives a key.\<close>

definition texts_for :: "(yaml \<Rightarrow> string) \<Rightarrow> string \<Rightarrow> (string \<times> yaml) list \<Rightarrow> string list" where
  "texts_for emit key ns = map (\<lambda>i. node_text emit (snd i)) (filter (\<lambda>i. fst i \<noteq> [] \<and> tolower (fst i) = key) ns)"

text \<open>A variable whose listeners do not throw, and whose conversion throws standard exceptions only.\<close>

definition quiet :: "('v, 'w) ConfigVar \<Rightarrow> bool" where
  "quiet v \<longleftrightarrow> (\<forall>cb \<in> set (map snd (cv_cbs v)). \<forall>old new w. fst (cb old new w) = Inr ()) \<and>
     (\<forall>s e. cv_from v s = Inl e \<longrightarrow> is_exception e)"

lemma quiet_cv_val [simp]: "quiet (v\<lparr>cv_val := x\<rparr>) \<longleftrightarrow> quiet v"
  by (simp add: quiet_def)

lemma call_quiet:
  "\<forall>cb \<in> set cbs. \<forall>old new w. fst (cb old new w) = Inr () \<Longrightarrow> \<exists>w'. call_listeners cbs old new w = (Inr (), w')"
proof (induction cbs arbitrary: w)
  case (Cons cb cbs)
  then have "fst (cb old new w) = Inr ()" by simp
  then show ?case using Cons by (cases "cb old new w") auto
qed simp

lemma fromString_quiet:
  "quiet v \<Longrightarrow> \<exists>w'. var_fromString s (v, w) = (Inr False, v\<lparr>cv_val := value_after (cv_from v) [s] (cv_val v)\<rparr>, w')"
proof (cases "cv_from v s")
  case (Inl e)
  assume "quiet v"
  then show ?thesis using Inl by (simp add: quiet_def var_fromString_def value_after_def)
next
  case (Inr x)
  assume "quiet v"
  then obtain w' where "call_listeners (map snd (cv_cbs v)) (cv_val v) x w = (Inr (), w')"
    using call_quiet [of "map snd (cv_cbs v)"] unfolding quiet_def by blast
  then show ?thesis using Inr by (simp add: var_fromString_def var_setValue_def value_after_def)
qed

lemma load_node_value:
  assumes "string_order.keys_sorted m" "\<forall>key v. map_find (<) key m = Some v \<longrightarrow> quiet v"
  shows "\<exists>m' w'. load_node emit i (m, w) = (Inr (), m', w') \<and> string_order.keys_sorted m' \<and>
     (\<forall>key. map_find (<) key m' =
        map_option (\<lambda>v. v\<lparr>cv_val := value_after (cv_from v) (texts_for emit key [i]) (cv_val v)\<rparr>) (map_find (<) key m))"
proof (cases "fst i = [] \<or> map_find (<) (tolower (fst i)) m = None")
  case True
  have "map_find (<) key m =
     map_option (\<lambda>v. v\<lparr>cv_val := value_after (cv_from v) (texts_for emit key [i]) (cv_val v)\<rparr>) (map_find (<) key m)" for key
    using True by (cases "map_find (<) key m") (auto simp: texts_for_def value_after_def)
  then show ?thesis using assms(1) True by (auto simp: load_node_def split: option.splits)
next
  case False
  then obtain v where v: "map_find (<) (tolower (fst i)) m = Some v" "quiet v" using assms(2) by auto
  obtain w' where w': "var_fromString (node_text emit (snd i)) (v, w) =
      (Inr False, v\<lparr>cv_val := value_after (cv_from v) [node_text emit (snd i)] (cv_val v)\<rparr>, w')"
    using fromString_quiet [OF v(2)] by blast
  have "map_find (<) key (map_assign (<) (tolower (fst i)) (v\<lparr>cv_val := value_after (cv_from v) [node_text emit (snd i)] (cv_val v)\<rparr>) m) =
     map_option (\<lambda>v. v\<lparr>cv_val := value_after (cv_from v) (texts_for emit key [i]) (cv_val v)\<rparr>) (map_find (<) key m)" for key
    using v(1) False assms(1)
    by (cases "map_find (<) key m") (auto simp: string_order.map_find_assign texts_for_def value_after_def)
  then show ?thesis using False v(1) w' assms(1)
    by (auto simp: load_node_def Let_def string_order.keys_sorted_assign)
qed

lemma texts_for_Cons: "texts_for emit key (i # is) = texts_for emit key [i] @ texts_for emit key is"
  by (simp add: texts_for_def)

lemma load_all_values:
  assumes "string_order.keys_sorted m" "\<forall>key v. map_find (<) key m = Some v \<longrightarrow> quiet v"
  shows "\<exists>m' w'. load_all emit ns (m, w) = (Inr (), m', w') \<and> string_order.keys_sorted m' \<and>
     (\<forall>key. map_find (<) key m' =
        map_option (\<lambda>v. v\<lparr>cv_val := value_after (cv_from v) (texts_for emit key ns) (cv_val v)\<rparr>) (map_find (<) key m))"
  using assms
proof (induction ns arbitrary: m w)
  case Nil
  have "map_option (\<lambda>v. v\<lparr>cv_val := cv_val v\<rparr>) o' = o'" for o' :: "('a, 'b) ConfigVar option"
    by (cases o') simp_all
  then show ?case using Nil by (simp add: texts_for_def value_after_def)
next
  case (Cons i ns)
  obtain m1 w1 where 1: "load_node emit i (m, w) = (Inr (), m1, w1)" "string_order.keys_sorted m1"
    "\<And>key. map_find (<) key m1 =
        map_option (\<lambda>v. v\<lparr>cv_val := value_after (cv_from v) (texts_for emit key [i]) (cv_val v)\<rparr>) (map_find (<) key m)"
    using load_node_value [OF Cons.prems] by blast
  have "\<forall>key v. map_find (<) key m1 = Some v \<longrightarrow> quiet v" using Cons.prems(2) by (auto simp: 1(3))
  from Cons.IH [OF 1(2) this] obtain m2 w2 where 2: "load_all emit ns (m1, w1) = (Inr (), m2, w2)" "string_order.keys_sorted m2"
    "\<And>key. map_find (<) key m2 =
        map_option (\<lambda>v. v\<lparr>cv_val := value_after (cv_from v) (texts_for emit key ns) (cv_val v)\<rparr>) (map_find (<) key m1)"
    by blast
  have "map_find (<) key m2 =
     map_option (\<lambda>v. v\<lparr>cv_val := value_after (cv_from v) (texts_for emit key (i # ns)) (cv_val v)\<rparr>) (map_find (<) key m)" for key
    by (simp add: 1(3) 2(3) texts_for_Cons [of _ _ i ns] value_after_def option.map_comp comp_def)
  then show ?case using 1(1) 2 by simp
qed

text \<open>Only members with valid names are listed, so a key with a capital letter never reaches a variable.\<close>

lemma members_valid: "(p, n) \<in> set (ListAllMember prefix node) \<Longrightarrow> valid_name p"
proof (induction prefix node rule: ListAllMember.induct)
  case (1 prefix node)
  show ?case
    using 1(2) 1(1) by (subst (asm) ListAllMember.simps) (auto split: if_splits yaml.splits)
qed

text \<open>
  The names of the nodes of a tree, independently of the listing: each node with the keys on the way to it, and the name
  that keys make, joined by dots after the empty ones in front.
\<close>

fun yaml_paths :: "yaml \<Rightarrow> (string list \<times> yaml) list" where
  "yaml_paths node = ([], node) # (case node of
     Yaml_map kvs \<Rightarrow> concat (map (\<lambda>kv. map (\<lambda>i. (fst kv # fst i, snd i)) (yaml_paths (snd kv))) kvs)
   | _ \<Rightarrow> [])"

declare yaml_paths.simps [simp del]

fun join_dots :: "string list \<Rightarrow> string" where
  "join_dots [] = []"
| "join_dots [k] = k"
| "join_dots (k # ks) = k @ ''.'' @ join_dots ks"

definition dotted :: "string list \<Rightarrow> string" where
  "dotted ks = join_dots (dropWhile (\<lambda>k. k = []) ks)"

text \<open>The name of a node below a prefix.\<close>

definition below :: "string \<Rightarrow> string list \<Rightarrow> string" where
  "below prefix ks = (if prefix = [] then dotted ks else join_dots (prefix # ks))"

lemma join_dots_first: "join_dots ((p @ ''.'' @ k) # ks) = p @ ''.'' @ join_dots (k # ks)"
  by (cases ks) simp_all

lemma below_Nil: "below prefix [] = prefix"
  by (simp add: below_def dotted_def)

lemma below_Cons: "below (if prefix = [] then k else prefix @ ''.'' @ k) ks = below prefix (k # ks)"
  using join_dots_first [of prefix k ks] by (simp add: below_def dotted_def)

lemma valid_name_append [simp]: "valid_name (xs @ ys) \<longleftrightarrow> valid_name xs \<and> valid_name ys"
  by (simp add: valid_name_def)

lemma valid_below: "valid_name (below prefix ks) \<Longrightarrow> valid_name prefix"
  by (cases ks) (auto simp: below_def valid_name_def [of "[]"] split: if_splits)

text \<open>The listing has the nodes with valid names, under their names, and cuts off none of them with an ancestor.\<close>

lemma members_paths:
  "ListAllMember prefix node = filter (\<lambda>i. valid_name (fst i)) (map (\<lambda>i. (below prefix (fst i), snd i)) (yaml_paths node))"
proof (induction prefix node rule: ListAllMember.induct)
  case (1 prefix node)
  let ?name = "\<lambda>i. (below prefix (fst i), snd i)" and ?valid = "\<lambda>i. valid_name (fst i)"
  show ?case
  proof (cases "valid_name prefix")
    case False
    then have "\<not> valid_name (below prefix (fst i))" for i :: "string list \<times> yaml" using valid_below by blast
    then show ?thesis using False by (simp add: ListAllMember.simps filter_False)
  next
    case True
    show ?thesis
    proof (cases node)
      case (Yaml_map kvs)
      have "ListAllMember (if prefix = [] then fst kv else prefix @ ''.'' @ fst kv) (snd kv) =
         filter ?valid (map ?name (map (\<lambda>i. (fst kv # fst i, snd i)) (yaml_paths (snd kv))))" if "kv \<in> set kvs" for kv
        using 1 [OF _ Yaml_map that] True by (simp add: below_Cons comp_def)
      then have "map (\<lambda>kv. ListAllMember (if prefix = [] then fst kv else prefix @ ''.'' @ fst kv) (snd kv)) kvs =
         map (\<lambda>kv. filter ?valid (map ?name (map (\<lambda>i. (fst kv # fst i, snd i)) (yaml_paths (snd kv))))) kvs" by simp
      from arg_cong [OF this, of concat] show ?thesis using True Yaml_map
        by (subst ListAllMember.simps, subst yaml_paths.simps) (simp add: below_Nil filter_concat map_concat comp_def)
    qed (use True in \<open>simp_all add: ListAllMember.simps yaml_paths.simps below_Nil\<close>)
  qed
qed

text \<open>What a variable is given: the texts of the nodes that have its name, in the order of the tree.\<close>

definition texts_at :: "(yaml \<Rightarrow> string) \<Rightarrow> string \<Rightarrow> yaml \<Rightarrow> string list" where
  "texts_at emit key root =
     map (\<lambda>i. node_text emit (snd i)) (filter (\<lambda>i. dotted (fst i) \<noteq> [] \<and> dotted (fst i) = key) (yaml_paths root))"

lemma texts_for_members:
  assumes "valid_name key"
  shows "texts_for emit key (ListAllMember [] root) = texts_at emit key root"
proof -
  have "filter (\<lambda>i. fst i \<noteq> [] \<and> tolower (fst i) = key) (ListAllMember [] root) =
     filter (\<lambda>i. fst i \<noteq> [] \<and> fst i = key) (ListAllMember [] root)"
    by (rule filter_cong [OF refl]) (auto dest!: members_valid simp: tolower_valid)
  also have "\<dots> = filter (\<lambda>i. fst i \<noteq> [] \<and> fst i = key) (map (\<lambda>i. (dotted (fst i), snd i)) (yaml_paths root))"
    unfolding members_paths filter_filter below_def using assms by (intro filter_cong) auto
  finally show ?thesis by (simp add: texts_for_def texts_at_def filter_map comp_def)
qed

lemma load_keeps_inv:
  assumes "config_inv m" "string_order.keys_sorted m'" "\<And>key. map_find (<) key m' = map_option (\<lambda>v. v\<lparr>cv_val := f key v\<rparr>) (map_find (<) key m)"
  shows "config_inv m'"
  using assms by (auto simp: config_inv_def)

lemma capital_key_ignored: "ListAllMember [] (Yaml_map [(''Log'', Yaml_scalar s)]) = [([], Yaml_map [(''Log'', Yaml_scalar s)])]"
  by (simp add: ListAllMember.simps valid_name_def)

text \<open>Converting a container there and back, when the element's conversions and the library's are inverse to each other.\<close>

lemma convert_all_map:
  "(\<And>x. x \<in> set xs \<Longrightarrow> conv x = Inr (f x)) \<Longrightarrow> convert_all conv xs = Inr (map f xs)"
  by (induction xs) auto

lemma sequence_roundtrip:
  assumes "\<And>ss. load (emit (Yaml_sequence (map Yaml_scalar ss))) = Inr (Yaml_sequence (map Yaml_scalar ss))"
    and "\<And>ns. items (Yaml_sequence ns) = ns" and "\<And>s. back (emit (Yaml_scalar s)) = back s"
    and "\<And>x. x \<in> set xs \<Longrightarrow> conv x = Inr (text_of x) \<and> back (text_of x) = Inr x"
  shows "\<exists>s. of_sequence emit conv xs = Inr s \<and> to_vector load items emit back s = Inr xs"
proof -
  have 1: "convert_all conv xs = Inr (map text_of xs)" using assms(4) by (intro convert_all_map) simp
  have "convert_all (\<lambda>n. back (emit n)) (map (Yaml_scalar \<circ> text_of) xs) = Inr xs"
    using assms(3,4) by (induction xs) simp_all
  then show ?thesis using assms(1) [of "map text_of xs"] 1
    by (simp add: of_sequence_def to_vector_def assms(2))
qed

end
