(* ===== verification/Logger.thy ===== *)
theory Logger
  imports Log_Format Config
begin

text \<open>
  Loggers, appenders, their manager and the listener of the variable \<^verbatim>\<open>logs\<close>: the rest of \<^verbatim>\<open>linko/log.{h,cc}\<close>.
  A logger is named by its key in the manager's map, which never loses one; an appender is an index into the list of all
  appenders ever made.  What has been written is a list of texts with the place each went to.
\<close>

section \<open>State\<close>

datatype appender_kind = FileLogAppender string | StdoutLogAppender

text \<open>Of the file stream: whether it is open and whether it is good.\<close>

record LogAppender =
  ap_kind :: appender_kind
  ap_level :: LogLevel
  ap_hasFormatter :: bool
  ap_formatter :: "LogFormatter option"
  ap_open :: bool
  ap_good :: bool

record Logger =
  lg_name :: string
  lg_level :: LogLevel
  lg_appenders :: "nat list"
  lg_formatter :: "LogFormatter option"
  lg_root :: "string option"

record log_state =
  ls_loggers :: "(string, Logger) cpp_map"
  ls_heap :: "LogAppender list"
  ls_out :: "(appender_kind \<times> string) list"

text \<open>The local time as text, which files can be opened, and whether writing a text to one succeeds.\<close>

record log_env =
  le_time :: "string \<Rightarrow> u64 \<Rightarrow> string"
  le_open :: "string \<Rightarrow> bool"
  le_write :: "string \<Rightarrow> string \<Rightarrow> bool"

section \<open>Appenders\<close>

definition new_StdoutLogAppender :: LogAppender where
  "new_StdoutLogAppender = \<lparr>ap_kind = StdoutLogAppender, ap_level = DEBUG, ap_hasFormatter = False, ap_formatter = None,
     ap_open = False, ap_good = True\<rparr>"

text \<open>
  \<^verbatim>\<open>close\<close> is called on a good stream only, and sets the failure bit when no file is open; \<^verbatim>\<open>open\<close> fails when one is
  open, and otherwise clears the bits when it succeeds.
\<close>

definition reopen :: "log_env \<Rightarrow> LogAppender \<Rightarrow> bool \<times> LogAppender" where
  "reopen env a = (case ap_kind a of
     FileLogAppender filename \<Rightarrow>
       (let a1 = (if ap_good a then a\<lparr>ap_good := ap_open a, ap_open := False\<rparr> else a);
            a2 = (if ap_open a1 then a1\<lparr>ap_good := False\<rparr>
                  else if le_open env filename then a1\<lparr>ap_open := True, ap_good := True\<rparr> else a1\<lparr>ap_good := False\<rparr>)
        in (ap_good a2, a2))
   | StdoutLogAppender \<Rightarrow> (True, a))"

definition new_FileLogAppender :: "log_env \<Rightarrow> string \<Rightarrow> LogAppender" where
  "new_FileLogAppender env filename = snd (reopen env
     \<lparr>ap_kind = FileLogAppender filename, ap_level = DEBUG, ap_hasFormatter = False, ap_formatter = None, ap_open = False, ap_good = True\<rparr>)"

definition appender_setFormatter :: "LogFormatter option \<Rightarrow> LogAppender \<Rightarrow> LogAppender" where
  "appender_setFormatter val a = a\<lparr>ap_formatter := val, ap_hasFormatter := val \<noteq> None\<rparr>"

definition appender_setLevel :: "LogLevel \<Rightarrow> LogAppender \<Rightarrow> LogAppender" where
  "appender_setLevel level a = a\<lparr>ap_level := level\<rparr>"

text \<open>\<^verbatim>\<open>log\<close> of the two classes: what it writes, and the appender after.\<close>

definition appender_log :: "log_env \<Rightarrow> LogLevel \<Rightarrow> LogEvent \<Rightarrow> LogAppender \<Rightarrow> cpp_error + (appender_kind \<times> string) list \<times> LogAppender" where
  "appender_log env level e a =
     (if \<not> ap_level a \<le> level then Inr ([], a)
      else case ap_formatter a of
        None \<Rightarrow> Inl Undefined
      | Some f \<Rightarrow> (let s = formatter_format (le_time env) f level e
          in case ap_kind a of
            StdoutLogAppender \<Rightarrow> Inr ([(StdoutLogAppender, s)], a)
          | FileLogAppender filename \<Rightarrow>
              if \<not> ap_good a then Inr ([], a)
              else if le_write env filename s then Inr ([(FileLogAppender filename, s)], a) else Inr ([], a\<lparr>ap_good := False\<rparr>)))"

section \<open>Loggers\<close>

definition default_pattern :: string where
  "default_pattern = ''%d{%Y-%m-%d %H:%M:%S}%T%t%T%N%T%F%T[%p]%T[%c]%T%f:%l%T%m%n''"

definition new_Logger :: "string \<Rightarrow> Logger" where
  "new_Logger name = \<lparr>lg_name = name, lg_level = DEBUG, lg_appenders = [], lg_formatter = Some (new_LogFormatter default_pattern),
     lg_root = None\<rparr>"

fun log_appenders :: "log_env \<Rightarrow> LogLevel \<Rightarrow> LogEvent \<Rightarrow> nat list \<Rightarrow> (log_state, unit) eff" where
  "log_appenders env level e [] st = (Inr (), st)"
| "log_appenders env level e (a # as) st =
     (if length (ls_heap st) \<le> a then (Inl Undefined, st)
      else case appender_log env level e (ls_heap st ! a) of
        Inl err \<Rightarrow> (Inl err, st)
      | Inr (out, x) \<Rightarrow> log_appenders env level e as (st\<lparr>ls_out := ls_out st @ out, ls_heap := (ls_heap st)[a := x]\<rparr>))"

text \<open>
  \<open>n\<close> bounds the length of the chain of \<^verbatim>\<open>m_root\<close> pointers; each logger's lock is held along the chain, so a cycle would
  never end.
\<close>

fun logger_log :: "nat \<Rightarrow> log_env \<Rightarrow> string \<Rightarrow> LogLevel \<Rightarrow> LogEvent \<Rightarrow> (log_state, unit) eff" where
  "logger_log 0 env name level e st = (Inl Diverges, st)"
| "logger_log (Suc n) env name level e st =
     (case map_find (<) name (ls_loggers st) of
        None \<Rightarrow> (Inl Undefined, st)
      | Some l \<Rightarrow>
          if \<not> lg_level l \<le> level then (Inr (), st)
          else if lg_appenders l \<noteq> [] then log_appenders env level e (lg_appenders l) st
          else (case lg_root l of None \<Rightarrow> (Inr (), st) | Some root \<Rightarrow> logger_log n env root level e st))"

definition log_debug where "log_debug n env name = logger_log n env name DEBUG"
definition log_info where "log_info n env name = logger_log n env name INFO"
definition log_warn where "log_warn n env name = logger_log n env name WARN"
definition log_error where "log_error n env name = logger_log n env name ERROR"
definition log_fatal where "log_fatal n env name = logger_log n env name FATAL"

text \<open>The macro \<^verbatim>\<open>LINKO_LOG_LEVEL\<close> with the event that it makes, logged by the destructor of \<^verbatim>\<open>LogEventWrap\<close>.\<close>

definition wrap_log :: "nat \<Rightarrow> log_env \<Rightarrow> LogEvent \<Rightarrow> (log_state, unit) eff" where
  "wrap_log n env e = logger_log n env (ev_logger e) (ev_level e) e"

definition log_level :: "nat \<Rightarrow> log_env \<Rightarrow> LogEvent \<Rightarrow> (log_state, unit) eff" where
  "log_level n env e st = (case map_find (<) (ev_logger e) (ls_loggers st) of
     None \<Rightarrow> (Inl Undefined, st)
   | Some l \<Rightarrow> if lg_level l \<le> ev_level e then wrap_log n env e st else (Inr (), st))"

definition set_logger :: "string \<Rightarrow> Logger \<Rightarrow> log_state \<Rightarrow> log_state" where
  "set_logger name l st = st\<lparr>ls_loggers := map_assign (<) name l (ls_loggers st)\<rparr>"

definition on_logger :: "string \<Rightarrow> (Logger \<Rightarrow> log_state \<Rightarrow> log_state) \<Rightarrow> (log_state, unit) eff" where
  "on_logger name f st = (case map_find (<) name (ls_loggers st) of
     None \<Rightarrow> (Inl Undefined, st) | Some l \<Rightarrow> (Inr (), f l st))"

definition setLevel :: "string \<Rightarrow> LogLevel \<Rightarrow> (log_state, unit) eff" where
  "setLevel name level = on_logger name (\<lambda>l. set_logger name (l\<lparr>lg_level := level\<rparr>))"

definition addAppender :: "string \<Rightarrow> nat \<Rightarrow> (log_state, unit) eff" where
  "addAppender name a = on_logger name (\<lambda>l st.
     set_logger name (l\<lparr>lg_appenders := lg_appenders l @ [a]\<rparr>)
       (if ap_formatter (ls_heap st ! a) = None
        then st\<lparr>ls_heap := (ls_heap st)[a := (ls_heap st ! a)\<lparr>ap_formatter := lg_formatter l\<rparr>]\<rparr> else st))"

definition delAppender :: "string \<Rightarrow> nat \<Rightarrow> (log_state, unit) eff" where
  "delAppender name a = on_logger name (\<lambda>l. set_logger name (l\<lparr>lg_appenders := remove1 a (lg_appenders l)\<rparr>))"

definition clearAppenders :: "string \<Rightarrow> (log_state, unit) eff" where
  "clearAppenders name = on_logger name (\<lambda>l. set_logger name (l\<lparr>lg_appenders := []\<rparr>))"

text \<open>The logger's formatter goes to the appenders that have none of their own.\<close>

definition inherit :: "LogFormatter option \<Rightarrow> nat \<Rightarrow> LogAppender list \<Rightarrow> LogAppender list" where
  "inherit val a heap = (if \<not> ap_hasFormatter (heap ! a) then heap[a := (heap ! a)\<lparr>ap_formatter := val\<rparr>] else heap)"

definition logger_setFormatter :: "string \<Rightarrow> LogFormatter option \<Rightarrow> (log_state, unit) eff" where
  "logger_setFormatter name val = on_logger name (\<lambda>l st.
     set_logger name (l\<lparr>lg_formatter := val\<rparr>) (st\<lparr>ls_heap := fold (inherit val) (lg_appenders l) (ls_heap st)\<rparr>))"

definition setFormatter_text :: "string \<Rightarrow> string \<Rightarrow> (log_state, unit) eff" where
  "setFormatter_text name val st =
     (let new_val = new_LogFormatter val in if fm_error new_val then (Inr (), st) else logger_setFormatter name (Some new_val) st)"

section \<open>The manager\<close>

definition new_appender :: "LogAppender \<Rightarrow> log_state \<Rightarrow> nat \<times> log_state" where
  "new_appender a st = (length (ls_heap st), st\<lparr>ls_heap := ls_heap st @ [a]\<rparr>)"

definition new_LoggerManager :: log_state where
  "new_LoggerManager = snd (addAppender ''root'' 0
     \<lparr>ls_loggers = [(''root'', new_Logger ''root'')], ls_heap = [new_StdoutLogAppender], ls_out = []\<rparr>)"

definition getLogger :: "string \<Rightarrow> log_state \<Rightarrow> string \<times> log_state" where
  "getLogger name st = (case map_find (<) name (ls_loggers st) of
     Some l \<Rightarrow> (name, st)
   | None \<Rightarrow> (name, set_logger name ((new_Logger name)\<lparr>lg_root := Some ''root''\<rparr>) st))"

section \<open>Configuration\<close>

record LogAppnderDefine =
  ad_type :: int
  ad_level :: LogLevel
  ad_formatter :: string
  ad_file :: string

record LogDefine =
  ld_name :: string
  ld_level :: LogLevel
  ld_formatter :: string
  ld_appenders :: "LogAppnderDefine list"

definition define_less :: "LogDefine \<Rightarrow> LogDefine \<Rightarrow> bool" where
  "define_less a b \<longleftrightarrow> ld_name a < ld_name b"

text \<open>
  \<^verbatim>\<open>node[key]\<close>, which throws on a scalar, and its text; \<open>as_string\<close> is \<^verbatim>\<open>as<std::string>()\<close>, \<open>items\<close> as in the conversions.
\<close>

definition yaml_get :: "string \<Rightarrow> yaml \<Rightarrow> cpp_error + yaml option" where
  "yaml_get key node = (case node of Yaml_scalar s \<Rightarrow> Inl Runtime_error | Yaml_map kvs \<Rightarrow> Inr (map_of kvs key) | _ \<Rightarrow> Inr None)"

definition yaml_string :: "(yaml \<Rightarrow> cpp_error + string) \<Rightarrow> string \<Rightarrow> yaml \<Rightarrow> cpp_error + string option" where
  "yaml_string as_string key node = (case yaml_get key node of
     Inl e \<Rightarrow> Inl e | Inr None \<Rightarrow> Inr None | Inr (Some n) \<Rightarrow> map_sum id Some (as_string n))"

definition or_empty :: "string option \<Rightarrow> string" where
  "or_empty x = (case x of None \<Rightarrow> [] | Some s \<Rightarrow> s)"

text \<open>An appender's definition, or nothing when it is left out.\<close>

definition appender_define :: "(yaml \<Rightarrow> cpp_error + string) \<Rightarrow> yaml \<Rightarrow> cpp_error + LogAppnderDefine option" where
  "appender_define as_string a =
     (case yaml_string as_string ''type'' a of
        Inl e \<Rightarrow> Inl e
      | Inr None \<Rightarrow> Inr None
      | Inr (Some type) \<Rightarrow>
          if type = ''FileLogAppender'' then
            (case yaml_string as_string ''file'' a of
               Inl e \<Rightarrow> Inl e
             | Inr None \<Rightarrow> Inr None
             | Inr (Some file) \<Rightarrow> map_sum id
                 (\<lambda>f. Some \<lparr>ad_type = 1, ad_level = UNKNOW, ad_formatter = or_empty f, ad_file = file\<rparr>)
                 (yaml_string as_string ''formatter'' a))
          else if type = ''StdoutLogAppender'' then map_sum id
            (\<lambda>f. Some \<lparr>ad_type = 2, ad_level = UNKNOW, ad_formatter = or_empty f, ad_file = []\<rparr>)
            (yaml_string as_string ''formatter'' a)
          else Inr None)"

definition appender_defines ::
  "(yaml \<Rightarrow> cpp_error + string) \<Rightarrow> (yaml \<Rightarrow> yaml list) \<Rightarrow> yaml \<Rightarrow> cpp_error + LogAppnderDefine list" where
  "appender_defines as_string items node = (case yaml_get ''appenders'' node of
     Inl e \<Rightarrow> Inl e
   | Inr None \<Rightarrow> Inr []
   | Inr (Some as) \<Rightarrow> map_sum id (\<lambda>xs. concat (map (case_option [] (\<lambda>d. [d])) xs)) (convert_all (appender_define as_string) (items as)))"

definition to_LogDefine ::
  "(yaml \<Rightarrow> cpp_error + string) \<Rightarrow> (yaml \<Rightarrow> yaml list) \<Rightarrow> (string \<Rightarrow> cpp_error + yaml) \<Rightarrow> string \<Rightarrow> cpp_error + LogDefine" where
  "to_LogDefine as_string items load v =
     (case load v of
        Inl e \<Rightarrow> Inl e
      | Inr node \<Rightarrow> (case yaml_string as_string ''name'' node of
          Inl e \<Rightarrow> Inl e
        | Inr None \<Rightarrow> Inl Logic_error
        | Inr (Some name) \<Rightarrow> (case yaml_string as_string ''level'' node of
            Inl e \<Rightarrow> Inl e
          | Inr level \<Rightarrow> (case yaml_string as_string ''formatter'' node of
              Inl e \<Rightarrow> Inl e
            | Inr f \<Rightarrow> map_sum id
                (\<lambda>as. \<lparr>ld_name = name, ld_level = level_FromString (or_empty level), ld_formatter = or_empty f, ld_appenders = as\<rparr>)
                (appender_defines as_string items node)))))"

definition define_appender_yaml :: "LogAppnderDefine \<Rightarrow> yaml" where
  "define_appender_yaml a = (let kvs =
     (if ad_type a = 1 then [(''type'', Yaml_scalar ''FileLogAppender''), (''file'', Yaml_scalar (ad_file a))]
      else if ad_type a = 2 then [(''typd'', Yaml_scalar ''StdoutLogAppender'')] else [])
     @ (if ad_formatter a \<noteq> [] then [(''formatter'', Yaml_scalar (ad_formatter a))] else [])
     @ (if ad_level a \<noteq> UNKNOW then [(''level'', Yaml_scalar (level_ToString (ad_level a)))] else [])
   in if kvs = [] then Yaml_null else Yaml_map kvs)"

definition define_yaml :: "LogDefine \<Rightarrow> yaml" where
  "define_yaml i = Yaml_map ([(''name'', Yaml_scalar (ld_name i))]
     @ (if ld_level i \<noteq> UNKNOW then [(''level'', Yaml_scalar (level_ToString (ld_level i)))] else [])
     @ (if ld_formatter i \<noteq> [] then [(''formatter'', Yaml_scalar (ld_formatter i))] else [])
     @ (if ld_appenders i \<noteq> [] then [(''appenders'', Yaml_sequence (map define_appender_yaml (ld_appenders i)))] else []))"

definition of_LogDefine :: "(yaml \<Rightarrow> string) \<Rightarrow> LogDefine \<Rightarrow> string" where
  "of_LogDefine emit i = emit (define_yaml i)"

text \<open>What the loggers write about themselves; \<open>reload\<close> is \<^verbatim>\<open>YAML::Load\<close> of a node's text.\<close>

definition level_entry :: "LogLevel \<Rightarrow> (string \<times> yaml) list" where
  "level_entry l = (if l \<noteq> UNKNOW then [(''level'', Yaml_scalar (level_ToString l))] else [])"

definition appender_yaml :: "LogAppender \<Rightarrow> yaml" where
  "appender_yaml a = Yaml_map ((case ap_kind a of
       FileLogAppender filename \<Rightarrow> [(''type'', Yaml_scalar ''FileLogAppender''), (''file'', Yaml_scalar filename)]
     | StdoutLogAppender \<Rightarrow> [(''type'', Yaml_scalar ''StdoutLogAppender'')])
     @ level_entry (ap_level a)
     @ (case ap_formatter a of Some f \<Rightarrow> if ap_hasFormatter a then [(''formatter'', Yaml_scalar (fm_pattern f))] else [] | None \<Rightarrow> []))"

definition logger_yaml :: "(yaml \<Rightarrow> yaml) \<Rightarrow> LogAppender list \<Rightarrow> Logger \<Rightarrow> yaml" where
  "logger_yaml reload heap l = Yaml_map ([(''root'', Yaml_scalar (lg_name l))]
     @ level_entry (lg_level l)
     @ (case lg_formatter l of Some f \<Rightarrow> [(''formatter'', Yaml_scalar (fm_pattern f))] | None \<Rightarrow> [])
     @ (if lg_appenders l \<noteq> [] then [(''appenders'', Yaml_sequence (map (\<lambda>a. reload (appender_yaml (heap ! a))) (lg_appenders l)))] else []))"

definition manager_yaml :: "(yaml \<Rightarrow> yaml) \<Rightarrow> log_state \<Rightarrow> yaml" where
  "manager_yaml reload st = Yaml_sequence (map (\<lambda>kv. reload (logger_yaml reload (ls_heap st) (snd kv))) (ls_loggers st))"

section \<open>The listener\<close>

text \<open>A type other than 1 and 2 leaves a null pointer, through which the level is set.\<close>

definition appender_of :: "log_env \<Rightarrow> LogAppnderDefine \<Rightarrow> cpp_error + LogAppender" where
  "appender_of env a =
     (if ad_type a \<noteq> 1 \<and> ad_type a \<noteq> 2 then Inl Undefined
      else let ap = appender_setLevel (ad_level a) (if ad_type a = 1 then new_FileLogAppender env (ad_file a) else new_StdoutLogAppender);
               fmt = new_LogFormatter (ad_formatter a)
        in Inr (if ad_formatter a \<noteq> [] \<and> \<not> fm_error fmt then appender_setFormatter (Some fmt) ap else ap))"

fun add_defined :: "log_env \<Rightarrow> string \<Rightarrow> LogAppnderDefine list \<Rightarrow> (log_state, unit) eff" where
  "add_defined env name [] st = (Inr (), st)"
| "add_defined env name (a # as) st = (case appender_of env a of
     Inl e \<Rightarrow> (Inl e, st)
   | Inr ap \<Rightarrow> (case new_appender ap st of (i, st1) \<Rightarrow> eff_bind (addAppender name i) (\<lambda>_. add_defined env name as) st1))"

definition define_logger :: "log_env \<Rightarrow> LogDefine \<Rightarrow> (log_state, unit) eff" where
  "define_logger env i st = (case getLogger (ld_name i) st of (name, st1) \<Rightarrow>
     eff_bind (setLevel name (ld_level i)) (\<lambda>_.
     eff_bind (if ld_formatter i \<noteq> [] then setFormatter_text name (ld_formatter i) else eff_return ()) (\<lambda>_.
     eff_bind (clearAppenders name) (\<lambda>_. add_defined env name (ld_appenders i)))) st1)"

fun define_loggers :: "log_env \<Rightarrow> LogDefine list \<Rightarrow> LogDefine list \<Rightarrow> (log_state, unit) eff" where
  "define_loggers env old [] st = (Inr (), st)"
| "define_loggers env old (i # is) st =
     eff_bind (if set_find define_less i old = Some i then eff_return () else define_logger env i) (\<lambda>_. define_loggers env old is) st"

fun drop_loggers :: "LogDefine list \<Rightarrow> LogDefine list \<Rightarrow> (log_state, unit) eff" where
  "drop_loggers new [] st = (Inr (), st)"
| "drop_loggers new (i # is) st =
     (if set_find define_less i new \<noteq> None then drop_loggers new is st
      else case getLogger (ld_name i) st of (name, st1) \<Rightarrow>
        eff_bind (setLevel name UNKNOW) (\<lambda>_. eff_bind (clearAppenders name) (\<lambda>_. drop_loggers new is)) st1)"

text \<open>The listener; \<open>e\<close> is the event that its first line logs to the root.\<close>

definition logs_changed :: "nat \<Rightarrow> log_env \<Rightarrow> LogEvent \<Rightarrow> LogDefine list \<Rightarrow> LogDefine list \<Rightarrow> (log_state, unit) eff" where
  "logs_changed n env e old new =
     eff_bind (log_level n env e) (\<lambda>_. eff_bind (define_loggers env old new) (\<lambda>_. drop_loggers new old))"

end
