(* ===== verification/Logger_Correct.thy ===== *)
theory Logger_Correct
  imports Logger
begin

text \<open>
  What the loggers keep: no operation of the manager, of logging or of the listener reaches a null pointer; and what the
  listener makes of a change of the variable \<^verbatim>\<open>logs\<close>.
\<close>

section \<open>The invariant\<close>

text \<open>An appender that can be logged to: it has a formatter.\<close>

definition usable :: "LogAppender list \<Rightarrow> nat \<Rightarrow> bool" where
  "usable heap a \<longleftrightarrow> a < length heap \<and> ap_formatter (heap ! a) \<noteq> None"

definition logger_ok :: "LogAppender list \<Rightarrow> string \<Rightarrow> Logger \<Rightarrow> bool" where
  "logger_ok heap name l \<longleftrightarrow> lg_name l = name \<and> lg_formatter l \<noteq> None \<and>
     lg_root l = (if name = ''root'' then None else Some ''root'') \<and> list_all (usable heap) (lg_appenders l)"

definition find_logger :: "string \<Rightarrow> log_state \<Rightarrow> Logger option" where
  "find_logger name st = map_find (<) name (ls_loggers st)"

definition log_inv :: "log_state \<Rightarrow> bool" where
  "log_inv st \<longleftrightarrow> string_order.keys_sorted (ls_loggers st) \<and> find_logger ''root'' st \<noteq> None \<and>
     (\<forall>name l. find_logger name st = Some l \<longrightarrow> logger_ok (ls_heap st) name l)"

text \<open>A heap that keeps what was usable.\<close>

definition extends :: "LogAppender list \<Rightarrow> LogAppender list \<Rightarrow> bool" where
  "extends heap heap' \<longleftrightarrow> (\<forall>a. usable heap a \<longrightarrow> usable heap' a)"

lemma extends_refl [simp]: "extends heap heap"
  by (simp add: extends_def)

lemma extends_append [simp]: "extends heap (heap @ xs)"
  by (auto simp: extends_def usable_def nth_append)

lemma logger_ok_extends: "logger_ok heap name l \<Longrightarrow> extends heap heap' \<Longrightarrow> logger_ok heap' name l"
  by (auto simp: logger_ok_def extends_def list_all_iff)

lemma log_invD: "log_inv st \<Longrightarrow> find_logger name st = Some l \<Longrightarrow> logger_ok (ls_heap st) name l"
  by (simp add: log_inv_def)

lemma log_inv_root: "log_inv st \<Longrightarrow> \<exists>l. find_logger ''root'' st = Some l"
  by (simp add: log_inv_def)

lemma find_logger_cong [simp]:
  "find_logger n (st\<lparr>ls_heap := heap\<rparr>) = find_logger n st" "find_logger n (st\<lparr>ls_out := out\<rparr>) = find_logger n st"
  by (simp_all add: find_logger_def)

lemma log_inv_heap: "log_inv st \<Longrightarrow> extends (ls_heap st) heap \<Longrightarrow> log_inv (st\<lparr>ls_heap := heap\<rparr>)"
  by (auto simp: log_inv_def intro: logger_ok_extends)

lemma log_inv_out [simp]: "log_inv (st\<lparr>ls_out := out\<rparr>) \<longleftrightarrow> log_inv st"
  by (simp add: log_inv_def)

lemma ls_heap_set_logger [simp]: "ls_heap (set_logger name l st) = ls_heap st"
  by (simp add: set_logger_def)

lemma find_set_logger:
  "log_inv st \<Longrightarrow> find_logger n (set_logger name l st) = (if n = name then Some l else find_logger n st)"
  by (auto simp: log_inv_def find_logger_def set_logger_def string_order.map_find_assign)

lemma log_inv_set_logger:
  "log_inv st \<Longrightarrow> logger_ok (ls_heap st) name l \<Longrightarrow> log_inv (set_logger name l st)"
  unfolding log_inv_def
  by (auto simp: find_logger_def set_logger_def string_order.map_find_assign string_order.keys_sorted_assign)

lemma on_logger_found: "find_logger name st = Some l \<Longrightarrow> on_logger name f st = (Inr (), f l st)"
  by (simp add: on_logger_def find_logger_def)

section \<open>The operations keep it\<close>

lemma usable_new [simp]: "usable [x] 0 \<longleftrightarrow> ap_formatter x \<noteq> None"
  by (simp add: usable_def)

lemma log_inv_new: "log_inv new_LoggerManager"
  by (auto simp: new_LoggerManager_def addAppender_def on_logger_def set_logger_def new_StdoutLogAppender_def new_Logger_def log_inv_def
      find_logger_def logger_ok_def usable_def string_order.keys_sorted_def split: if_splits)

lemma getLogger_inv:
  assumes "log_inv st" "getLogger name st = (p, st')"
  shows "p = name \<and> log_inv st' \<and> ls_heap st' = ls_heap st \<and> (\<exists>l. find_logger name st' = Some l \<and>
     (find_logger name st = None \<longrightarrow> l = (new_Logger name)\<lparr>lg_root := Some ''root''\<rparr>) \<and> (\<forall>u. find_logger name st = Some u \<longrightarrow> l = u)) \<and>
     (\<forall>n. n \<noteq> name \<longrightarrow> find_logger n st' = find_logger n st)"
proof (cases "find_logger name st")
  case None
  then have "name \<noteq> ''root''" using log_inv_root [OF assms(1)] by auto
  then have "logger_ok (ls_heap st) name ((new_Logger name)\<lparr>lg_root := Some ''root''\<rparr>)" by (simp add: logger_ok_def new_Logger_def)
  then show ?thesis using assms None log_inv_set_logger [OF assms(1)]
    by (auto simp: getLogger_def find_set_logger find_logger_def [symmetric])
qed (use assms in \<open>auto simp: getLogger_def find_logger_def\<close>)

text \<open>A change of a logger that keeps its appenders usable and leaves the others alone.\<close>

definition changes :: "string \<Rightarrow> log_state \<Rightarrow> log_state \<Rightarrow> bool" where
  "changes name st st' \<longleftrightarrow> log_inv st' \<and> find_logger name st' \<noteq> None \<and> (\<forall>n. n \<noteq> name \<longrightarrow> find_logger n st' = find_logger n st)"

lemma changes_trans: "changes name st st' \<Longrightarrow> changes name st' st'' \<Longrightarrow> changes name st st''"
  by (simp add: changes_def)

lemma set_logger_changes:
  assumes "log_inv st" "extends (ls_heap st) heap" "logger_ok heap name l"
  shows "changes name st (set_logger name l (st\<lparr>ls_heap := heap\<rparr>))"
  using log_inv_set_logger [OF log_inv_heap [OF assms(1,2)], of name l] assms(3)
  by (simp add: changes_def find_set_logger [OF log_inv_heap [OF assms(1,2)]])

lemma setLevel_ok:
  assumes "log_inv st" "find_logger name st = Some l"
  shows "setLevel name level st = (Inr (), set_logger name (l\<lparr>lg_level := level\<rparr>) st) \<and>
     changes name st (set_logger name (l\<lparr>lg_level := level\<rparr>) st)"
  using assms set_logger_changes [OF assms(1), of "ls_heap st" name "l\<lparr>lg_level := level\<rparr>"] log_invD [OF assms]
  by (simp add: setLevel_def on_logger_found logger_ok_def)

lemma clearAppenders_ok:
  assumes "log_inv st" "find_logger name st = Some l"
  shows "clearAppenders name st = (Inr (), set_logger name (l\<lparr>lg_appenders := []\<rparr>) st) \<and>
     changes name st (set_logger name (l\<lparr>lg_appenders := []\<rparr>) st)"
  using assms set_logger_changes [OF assms(1), of "ls_heap st" name "l\<lparr>lg_appenders := []\<rparr>"] log_invD [OF assms]
  by (simp add: clearAppenders_def on_logger_found logger_ok_def)

lemma delAppender_ok:
  assumes "log_inv st" "find_logger name st = Some l"
  shows "\<exists>st'. delAppender name a st = (Inr (), st') \<and> changes name st st'"
proof -
  have "list_all (usable (ls_heap st)) (remove1 a (lg_appenders l))"
    using log_invD [OF assms] set_remove1_subset [of a "lg_appenders l"] by (auto simp: logger_ok_def list_all_iff)
  then show ?thesis
    using assms set_logger_changes [OF assms(1), of "ls_heap st" name "l\<lparr>lg_appenders := remove1 a (lg_appenders l)\<rparr>"] log_invD [OF assms]
    by (simp add: delAppender_def on_logger_found logger_ok_def)
qed

lemma length_inherit [simp]: "length (inherit val a heap) = length heap"
  by (simp add: inherit_def)

lemma inherit_other: "b \<noteq> a \<Longrightarrow> inherit val a heap ! b = heap ! b"
  by (simp add: inherit_def)

lemma fold_inherit_other: "b \<notin> set as \<Longrightarrow> fold (inherit val) as heap ! b = heap ! b"
  by (induction as arbitrary: heap) (auto simp: inherit_other)

lemma length_fold_inherit [simp]: "length (fold (inherit val) as heap) = length heap"
  by (induction as arbitrary: heap) auto

lemma extends_inherit: "extends heap (inherit (Some f) a heap)"
proof -
  have "ap_formatter (inherit (Some f) a heap ! b) \<noteq> None" if "ap_formatter (heap ! b) \<noteq> None" "b < length heap" for b
    using that by (cases "a = b") (auto simp: inherit_def)
  then show ?thesis by (auto simp: extends_def usable_def)
qed

lemma extends_trans: "extends a b \<Longrightarrow> extends b c \<Longrightarrow> extends a c"
  by (simp add: extends_def)

lemma extends_fold_inherit: "extends heap (fold (inherit (Some f)) as heap)"
proof (induction as arbitrary: heap)
  case (Cons a as)
  show ?case using extends_trans [OF extends_inherit Cons.IH, of heap f a] by simp
qed simp

lemma setFormatter_text_ok:
  fixes val :: string
  assumes "log_inv st" "find_logger name st = Some l"
  defines "f \<equiv> new_LogFormatter val"
  defines "st' \<equiv> (if fm_error f then st
     else set_logger name (l\<lparr>lg_formatter := Some f\<rparr>) (st\<lparr>ls_heap := fold (inherit (Some f)) (lg_appenders l) (ls_heap st)\<rparr>))"
  shows "setFormatter_text name val st = (Inr (), st') \<and> changes name st st'"
proof (cases "fm_error f")
  case False
  let ?heap = "fold (inherit (Some f)) (lg_appenders l) (ls_heap st)"
  have e: "extends (ls_heap st) ?heap" by (rule extends_fold_inherit)
  have "logger_ok ?heap name (l\<lparr>lg_formatter := Some f\<rparr>)"
    using logger_ok_extends [OF log_invD [OF assms(1,2)] e] by (simp add: logger_ok_def)
  then show ?thesis using False set_logger_changes [OF assms(1) e] assms(2)
    by (simp add: setFormatter_text_def f_def [symmetric] logger_setFormatter_def on_logger_found st'_def)
qed (use assms in \<open>simp add: setFormatter_text_def changes_def\<close>)

text \<open>Adding an appender.\<close>

definition given :: "LogFormatter option \<Rightarrow> LogAppender \<Rightarrow> LogAppender" where
  "given f x = (if ap_formatter x = None then x\<lparr>ap_formatter := f\<rparr> else x)"

lemma add_new_ok:
  fixes ap :: LogAppender
  assumes "log_inv st" "find_logger name st = Some l" "new_appender ap st = (i, st1)"
  defines "st' \<equiv> set_logger name (l\<lparr>lg_appenders := lg_appenders l @ [length (ls_heap st)]\<rparr>)
     (st\<lparr>ls_heap := ls_heap st @ [given (lg_formatter l) ap]\<rparr>)"
  shows "addAppender name i st1 = (Inr (), st') \<and> changes name st st'"
proof -
  let ?heap = "ls_heap st @ [given (lg_formatter l) ap]"
  have ok: "logger_ok (ls_heap st) name l" by (rule log_invD [OF assms(1,2)])
  have "usable ?heap (length (ls_heap st))" using ok by (auto simp: usable_def given_def logger_ok_def)
  then have "logger_ok ?heap name (l\<lparr>lg_appenders := lg_appenders l @ [length (ls_heap st)]\<rparr>)"
    using logger_ok_extends [OF ok extends_append, of "[given (lg_formatter l) ap]"] by (simp add: logger_ok_def)
  then have "changes name st st'" using set_logger_changes [OF assms(1) extends_append] by (simp add: st'_def)
  then show ?thesis using assms(2,3)
    by (auto simp: addAppender_def new_appender_def on_logger_found given_def st'_def set_logger_def)
qed

section \<open>Logging\<close>

text \<open>Logging changes what has been written, and which streams are good.\<close>

definition same_but_streams :: "log_state \<Rightarrow> log_state \<Rightarrow> bool" where
  "same_but_streams st st' \<longleftrightarrow> ls_loggers st' = ls_loggers st \<and>
     map (\<lambda>a. a\<lparr>ap_good := True\<rparr>) (ls_heap st') = map (\<lambda>a. a\<lparr>ap_good := True\<rparr>) (ls_heap st)"

lemma same_usable:
  assumes "map (\<lambda>a. a\<lparr>ap_good := True\<rparr>) heap' = map (\<lambda>a. a\<lparr>ap_good := True\<rparr>) heap" "usable heap a"
  shows "usable heap' a"
proof -
  have len: "length heap' = length heap" using assms(1) by (metis length_map)
  then have "(heap' ! a)\<lparr>ap_good := True\<rparr> = (heap ! a)\<lparr>ap_good := True\<rparr>"
    using assms by (metis nth_map usable_def)
  then have "ap_formatter (heap' ! a) = ap_formatter (heap ! a)"
    by (metis LogAppender.select_convs(4) LogAppender.surjective LogAppender.update_convs(6))
  then show ?thesis using assms(2) len by (simp add: usable_def)
qed

lemma same_inv:
  assumes "log_inv st" "same_but_streams st st'"
  shows "log_inv st'"
proof -
  have "extends (ls_heap st) (ls_heap st')" using assms(2) same_usable by (auto simp: extends_def same_but_streams_def)
  moreover have "find_logger n st' = find_logger n st" for n using assms(2) by (simp add: find_logger_def same_but_streams_def)
  ultimately show ?thesis using assms by (auto simp: log_inv_def same_but_streams_def intro: logger_ok_extends)
qed

lemma appender_log_ok:
  assumes "ap_formatter a \<noteq> None"
  shows "\<exists>out x. appender_log env level e a = Inr (out, x) \<and> x\<lparr>ap_good := True\<rparr> = a\<lparr>ap_good := True\<rparr>"
  using assms by (cases "ap_kind a") (auto simp: appender_log_def Let_def)

lemma log_appenders_ok:
  "list_all (usable (ls_heap st)) as \<Longrightarrow> \<exists>st'. log_appenders env level e as st = (Inr (), st') \<and> same_but_streams st st'"
proof (induction as arbitrary: st)
  case (Cons a as)
  have a: "a < length (ls_heap st)" "ap_formatter (ls_heap st ! a) \<noteq> None" using Cons.prems by (simp_all add: usable_def)
  obtain out x where x: "appender_log env level e (ls_heap st ! a) = Inr (out, x)" "x\<lparr>ap_good := True\<rparr> = (ls_heap st ! a)\<lparr>ap_good := True\<rparr>"
    using appender_log_ok [OF a(2)] by blast
  let ?st = "st\<lparr>ls_out := ls_out st @ out, ls_heap := (ls_heap st)[a := x]\<rparr>"
  have same: "same_but_streams st ?st"
    using a(1) x(2) by (simp add: same_but_streams_def map_update list_update_same_conv)
  then have "list_all (usable (ls_heap ?st)) as"
    using Cons.prems same_usable by (auto simp: list_all_iff same_but_streams_def)
  from Cons.IH [OF this] show ?case using a(1) x(1) same by (auto simp: same_but_streams_def)
qed (simp add: same_but_streams_def)

text \<open>Two loggers are enough for any chain.\<close>

lemma logger_log_ok:
  assumes "log_inv st" "find_logger name st = Some l" "2 \<le> n"
  shows "\<exists>st'. logger_log n env name level e st = (Inr (), st') \<and> same_but_streams st st'"
proof -
  obtain k where n: "n = Suc (Suc k)" using assms(3) by (metis One_nat_def Suc_1 Suc_le_D Suc_le_mono)
  obtain r where r: "find_logger ''root'' st = Some r" using log_inv_root [OF assms(1)] by blast
  have ok: "logger_ok (ls_heap st) name l" "logger_ok (ls_heap st) ''root'' r" using log_invD [OF assms(1)] assms(2) r by blast+
  have *: "same_but_streams st st" by (simp add: same_but_streams_def)
  have "\<exists>st'. logger_log (Suc j) env ''root'' level e st = (Inr (), st') \<and> same_but_streams st st'" for j
    using log_appenders_ok [of st "lg_appenders r" env level e] r ok(2) * by (auto simp: find_logger_def logger_ok_def)
  then show ?thesis
    using log_appenders_ok [of st "lg_appenders l" env level e] assms(2) ok(1) *
    by (auto simp: n find_logger_def logger_ok_def)
qed

lemma log_level_ok:
  assumes "log_inv st" "find_logger (ev_logger e) st \<noteq> None" "2 \<le> n"
  shows "\<exists>st'. log_level n env e st = (Inr (), st') \<and> same_but_streams st st'"
  using assms logger_log_ok [OF assms(1) _ assms(3)]
  by (auto simp: log_level_def wrap_log_def find_logger_def same_but_streams_def)

section \<open>A change of the configuration\<close>

lemma map_sum_InrE: "map_sum f g x = Inr y \<Longrightarrow> (\<And>z. x = Inr z \<Longrightarrow> y = g z \<Longrightarrow> P) \<Longrightarrow> P"
  by (cases x) auto

text \<open>A pattern's formatter, when it is given and has no error.\<close>

definition good_formatter :: "string \<Rightarrow> LogFormatter option" where
  "good_formatter s = (if s = [] \<or> fm_error (new_LogFormatter s) then None else Some (new_LogFormatter s))"

text \<open>An appender as a definition describes it, where \<open>f\<close> is its logger's formatter.\<close>

definition matches :: "LogAppender \<Rightarrow> LogAppnderDefine \<Rightarrow> LogFormatter option \<Rightarrow> bool" where
  "matches x d f \<longleftrightarrow> ap_kind x = (if ad_type d = 1 then FileLogAppender (ad_file d) else StdoutLogAppender) \<and>
     ap_level x = ad_level d \<and> ap_hasFormatter x = (good_formatter (ad_formatter d) \<noteq> None) \<and>
     ap_formatter x = (case good_formatter (ad_formatter d) of Some g \<Rightarrow> Some g | None \<Rightarrow> f)"

definition known_types :: "LogDefine \<Rightarrow> bool" where
  "known_types i \<longleftrightarrow> list_all (\<lambda>d. ad_type d = 1 \<or> ad_type d = 2) (ld_appenders i)"

definition appenders_of :: "string \<Rightarrow> log_state \<Rightarrow> nat list" where
  "appenders_of name st = (case find_logger name st of None \<Rightarrow> [] | Some l \<Rightarrow> lg_appenders l)"

text \<open>A logger is as its definition says.\<close>

definition defined :: "log_state \<Rightarrow> LogDefine \<Rightarrow> bool" where
  "defined st i \<longleftrightarrow> (\<exists>l. find_logger (ld_name i) st = Some l \<and> lg_level l = ld_level i \<and>
     (good_formatter (ld_formatter i) \<noteq> None \<longrightarrow> lg_formatter l = good_formatter (ld_formatter i)) \<and>
     list_all2 (\<lambda>a d. matches (ls_heap st ! a) d (lg_formatter l)) (lg_appenders l) (ld_appenders i))"

lemma new_file_fields:
  "ap_kind (new_FileLogAppender env s) = FileLogAppender s \<and> ap_formatter (new_FileLogAppender env s) = None \<and>
     \<not> ap_hasFormatter (new_FileLogAppender env s)"
  by (simp add: new_FileLogAppender_def reopen_def Let_def)

lemma appender_of_ok:
  "ad_type d = 1 \<or> ad_type d = 2 \<Longrightarrow> \<exists>ap. appender_of env d = Inr ap \<and> (\<forall>f. matches (given f ap) d f)"
  by (auto simp: appender_of_def Let_def matches_def given_def good_formatter_def appender_setLevel_def appender_setFormatter_def
      new_StdoutLogAppender_def new_file_fields)

lemma add_defined_ok:
  assumes "log_inv st" "find_logger name st = Some l" "list_all (\<lambda>d. ad_type d = 1 \<or> ad_type d = 2) ds"
  shows "\<exists>st' xs. add_defined env name ds st = (Inr (), st') \<and> changes name st st' \<and> ls_heap st' = ls_heap st @ xs \<and>
     find_logger name st' = Some (l\<lparr>lg_appenders := lg_appenders l @ [length (ls_heap st) ..< length (ls_heap st) + length ds]\<rparr>) \<and>
     list_all2 (\<lambda>x d. matches x d (lg_formatter l)) xs ds"
  using assms
proof (induction ds arbitrary: st l)
  case Nil
  then show ?case by (simp add: changes_def)
next
  case (Cons d ds)
  obtain ap where ap: "appender_of env d = Inr ap" "matches (given (lg_formatter l) ap) d (lg_formatter l)"
    using appender_of_ok [of d env] Cons.prems(3) by (auto simp del: ex_simps)
  let ?n = "length (ls_heap st)" and ?l = "l\<lparr>lg_appenders := lg_appenders l @ [length (ls_heap st)]\<rparr>"
  define st1 where "st1 = set_logger name ?l (st\<lparr>ls_heap := ls_heap st @ [given (lg_formatter l) ap]\<rparr>)"
  obtain st0 where st0: "new_appender ap st = (?n, st0)" by (simp add: new_appender_def)
  have 1: "addAppender name ?n st0 = (Inr (), st1)" "changes name st st1"
    using add_new_ok [OF Cons.prems(1,2) st0] by (simp_all add: st1_def)
  have 2: "find_logger name st1 = Some ?l"
    using log_inv_heap [OF Cons.prems(1) extends_append] by (simp add: st1_def find_set_logger)
  have 3: "log_inv st1" "ls_heap st1 = ls_heap st @ [given (lg_formatter l) ap]" using 1(2) by (simp_all add: changes_def st1_def)
  obtain st' xs where IH: "add_defined env name ds st1 = (Inr (), st')" "changes name st1 st'" "ls_heap st' = ls_heap st1 @ xs"
    "find_logger name st' = Some (?l\<lparr>lg_appenders := lg_appenders ?l @ [length (ls_heap st1) ..< length (ls_heap st1) + length ds]\<rparr>)"
    "list_all2 (\<lambda>x d. matches x d (lg_formatter ?l)) xs ds"
    using Cons.IH [OF 3(1) 2] Cons.prems(3) by auto
  have "add_defined env name (d # ds) st = (Inr (), st')" using ap(1) st0 1(1) IH(1) by (simp add: eff_bind_def)
  moreover have "find_logger name st' = Some (l\<lparr>lg_appenders := lg_appenders l @ [?n ..< ?n + length (d # ds)]\<rparr>)"
    using IH(4) upt_conv_Cons [of ?n "?n + length (d # ds)"] by (simp add: 3(2) del: upt_Suc)
  moreover have "ls_heap st' = ls_heap st @ given (lg_formatter l) ap # xs" by (simp add: IH(3) 3(2))
  moreover have "list_all2 (\<lambda>x d. matches x d (lg_formatter l)) (given (lg_formatter l) ap # xs) (d # ds)" using ap(2) IH(5) by simp
  ultimately show ?case using changes_trans [OF 1(2) IH(2)] by blast
qed

lemma new_appenders_match:
  "list_all2 P xs ds \<Longrightarrow> list_all2 (\<lambda>a d. P ((heap @ xs) ! a) d) [length heap ..< length heap + length ds] ds"
  by (auto simp: list_all2_conv_all_nth nth_append)

text \<open>What the listener does for one definition.\<close>

lemma define_logger_ok:
  assumes "log_inv st" "known_types i"
  shows "\<exists>st'. define_logger env i st = (Inr (), st') \<and> changes (ld_name i) st st' \<and> defined st' i \<and>
     length (ls_heap st) \<le> length (ls_heap st') \<and> list_all (\<lambda>a. length (ls_heap st) \<le> a) (appenders_of (ld_name i) st') \<and>
     (\<forall>a < length (ls_heap st). a \<notin> set (appenders_of (ld_name i) st) \<longrightarrow> ls_heap st' ! a = ls_heap st ! a)"
proof -
  let ?name = "ld_name i"
  obtain st1 where st1: "getLogger ?name st = (?name, st1)" "log_inv st1" "ls_heap st1 = ls_heap st"
    and other1: "\<And>n. n \<noteq> ?name \<Longrightarrow> find_logger n st1 = find_logger n st"
    and "\<exists>l. find_logger ?name st1 = Some l \<and> lg_appenders l = appenders_of ?name st"
    using getLogger_inv [OF assms(1), of ?name] by (cases "getLogger ?name st") (fastforce simp: appenders_of_def new_Logger_def split: option.splits)
  then obtain l where l: "find_logger ?name st1 = Some l" "lg_appenders l = appenders_of ?name st" by blast
  have ch1: "changes ?name st st1" using st1(2) other1 l(1) by (simp add: changes_def)
  let ?l2 = "l\<lparr>lg_level := ld_level i\<rparr>"
  define st2 where "st2 = set_logger ?name ?l2 st1"
  have 2: "setLevel ?name (ld_level i) st1 = (Inr (), st2)" "changes ?name st1 st2" "find_logger ?name st2 = Some ?l2" "ls_heap st2 = ls_heap st"
    using setLevel_ok [OF st1(2) l(1)] find_set_logger [OF st1(2)] st1(3) by (simp_all add: st2_def)
  have inv2: "log_inv st2" using 2(2) by (simp add: changes_def)
  obtain st3 l3 where 3: "(if ld_formatter i \<noteq> [] then setFormatter_text ?name (ld_formatter i) else eff_return ()) st2 = (Inr (), st3)"
    "changes ?name st2 st3" "find_logger ?name st3 = Some l3" "lg_level l3 = ld_level i"
    "good_formatter (ld_formatter i) \<noteq> None \<longrightarrow> lg_formatter l3 = good_formatter (ld_formatter i)"
    "length (ls_heap st3) = length (ls_heap st)" "\<forall>a. a \<notin> set (lg_appenders l) \<longrightarrow> ls_heap st3 ! a = ls_heap st ! a"
  proof (cases "good_formatter (ld_formatter i)")
    case None
    have "(if ld_formatter i \<noteq> [] then setFormatter_text ?name (ld_formatter i) else eff_return ()) st2 = (Inr (), st2)"
      using None by (auto simp: good_formatter_def setFormatter_text_def Let_def split: if_splits)
    moreover have "changes ?name st2 st2" using inv2 2(3) by (simp add: changes_def)
    ultimately show ?thesis using that [of st2 ?l2] 2(3,4) None by simp
  next
    case (Some f)
    then have f: "ld_formatter i \<noteq> []" "\<not> fm_error (new_LogFormatter (ld_formatter i))" "f = new_LogFormatter (ld_formatter i)"
      by (auto simp: good_formatter_def split: if_splits)
    let ?heap = "fold (inherit (Some f)) (lg_appenders l) (ls_heap st)"
    let ?st3 = "set_logger ?name (?l2\<lparr>lg_formatter := Some f\<rparr>) (st2\<lparr>ls_heap := ?heap\<rparr>)"
    have "setFormatter_text ?name (ld_formatter i) st2 = (Inr (), ?st3)" "changes ?name st2 ?st3"
      using setFormatter_text_ok [OF inv2 2(3), of "ld_formatter i"] f 2(4) by simp_all
    moreover have "find_logger ?name ?st3 = Some (?l2\<lparr>lg_formatter := Some f\<rparr>)"
      using log_inv_heap [OF inv2, of ?heap] extends_fold_inherit [of "ls_heap st" f] 2(4) by (simp add: find_set_logger)
    ultimately show ?thesis using that [of ?st3 "?l2\<lparr>lg_formatter := Some f\<rparr>"] f(1) Some by (simp add: fold_inherit_other)
  qed
  have inv3: "log_inv st3" using 3(2) by (simp add: changes_def)
  let ?l4 = "l3\<lparr>lg_appenders := []\<rparr>"
  define st4 where "st4 = set_logger ?name ?l4 st3"
  have 4: "clearAppenders ?name st3 = (Inr (), st4)" "changes ?name st3 st4" "find_logger ?name st4 = Some ?l4" "ls_heap st4 = ls_heap st3"
    using clearAppenders_ok [OF inv3 3(3)] find_set_logger [OF inv3] by (simp_all add: st4_def)
  have inv4: "log_inv st4" using 4(2) by (simp add: changes_def)
  obtain st5 xs where 5: "add_defined env ?name (ld_appenders i) st4 = (Inr (), st5)" "changes ?name st4 st5" "ls_heap st5 = ls_heap st4 @ xs"
    "find_logger ?name st5 = Some (?l4\<lparr>lg_appenders := [length (ls_heap st4) ..< length (ls_heap st4) + length (ld_appenders i)]\<rparr>)"
    "list_all2 (\<lambda>x d. matches x d (lg_formatter l3)) xs (ld_appenders i)"
    using add_defined_ok [OF inv4 4(3), of "ld_appenders i" env] assms(2) by (auto simp: known_types_def)
  have "define_logger env i st = (Inr (), st5)"
    using st1(1) 2(1) 3(1) 4(1) 5(1) by (simp add: define_logger_def eff_bind_def)
  moreover have "changes ?name st st5" using ch1 2(2) 3(2) 4(2) 5(2) changes_trans by blast
  moreover have "defined st5 i"
    using 3(4,5) 5(4) new_appenders_match [OF 5(5), of "ls_heap st4"] by (simp add: defined_def 5(3))
  moreover have "\<forall>a < length (ls_heap st). a \<notin> set (appenders_of ?name st) \<longrightarrow> ls_heap st5 ! a = ls_heap st ! a"
    using 3(6,7) l(2) by (simp add: 5(3) 4(4) nth_append)
  ultimately show ?thesis using 3(6) 5(4) by (simp add: appenders_of_def 5(3) 4(4) list_all_iff)
qed

definition changed :: "LogDefine list \<Rightarrow> LogDefine \<Rightarrow> bool" where
  "changed old i \<longleftrightarrow> set_find define_less i old \<noteq> Some i"

lemma defined_kept:
  assumes "defined st i" "find_logger (ld_name i) st' = find_logger (ld_name i) st"
    and "\<And>a. a \<in> set (appenders_of (ld_name i) st) \<Longrightarrow> ls_heap st' ! a = ls_heap st ! a"
  shows "defined st' i"
proof -
  obtain l where l: "find_logger (ld_name i) st = Some l" "lg_level l = ld_level i"
    "good_formatter (ld_formatter i) \<noteq> None \<longrightarrow> lg_formatter l = good_formatter (ld_formatter i)"
    "list_all2 (\<lambda>a d. matches (ls_heap st ! a) d (lg_formatter l)) (lg_appenders l) (ld_appenders i)"
    using assms(1) by (auto simp: defined_def)
  have "list_all2 (\<lambda>a d. matches (ls_heap st' ! a) d (lg_formatter l)) (lg_appenders l) (ld_appenders i)"
    by (rule list.rel_mono_strong [OF l(4)]) (use assms(3) l(1) in \<open>simp add: appenders_of_def\<close>)
  then show ?thesis using l assms(2) by (simp add: defined_def)
qed

lemma appenders_below: "log_inv st \<Longrightarrow> a \<in> set (appenders_of name st) \<Longrightarrow> a < length (ls_heap st)"
  using log_invD [of st name]
  by (cases "find_logger name st") (auto simp: appenders_of_def logger_ok_def list_all_iff usable_def)

lemma define_loggers_ok:
  assumes "log_inv st" "list_all known_types new" "distinct (map ld_name new)"
  shows "\<exists>st'. define_loggers env old new st = (Inr (), st') \<and> log_inv st' \<and>
     (\<forall>i \<in> set (filter (changed old) new). defined st' i) \<and>
     (\<forall>n. n \<notin> ld_name ` set (filter (changed old) new) \<longrightarrow> find_logger n st' = find_logger n st) \<and>
     length (ls_heap st) \<le> length (ls_heap st') \<and>
     (\<forall>a < length (ls_heap st). (\<forall>i \<in> set (filter (changed old) new). a \<notin> set (appenders_of (ld_name i) st)) \<longrightarrow>
        ls_heap st' ! a = ls_heap st ! a)"
  using assms
proof (induction new arbitrary: st)
  case (Cons i new)
  show ?case
  proof (cases "changed old i")
    case False
    then show ?thesis using Cons.IH [OF Cons.prems(1)] Cons.prems(2,3) by (auto simp: changed_def eff_bind_def)
  next
    case True
    obtain st1 where 1: "define_logger env i st = (Inr (), st1)" "changes (ld_name i) st st1" "defined st1 i"
      "length (ls_heap st) \<le> length (ls_heap st1)" "list_all (\<lambda>a. length (ls_heap st) \<le> a) (appenders_of (ld_name i) st1)"
      "\<forall>a < length (ls_heap st). a \<notin> set (appenders_of (ld_name i) st) \<longrightarrow> ls_heap st1 ! a = ls_heap st ! a"
      using define_logger_ok [OF Cons.prems(1), of i env] Cons.prems(2) by auto
    have inv1: "log_inv st1" and other: "\<And>n. n \<noteq> ld_name i \<Longrightarrow> find_logger n st1 = find_logger n st"
      using 1(2) by (simp_all add: changes_def)
    let ?ch = "set (filter (changed old) new)"
    obtain st2 where 2: "define_loggers env old new st1 = (Inr (), st2)" "log_inv st2" "\<forall>j \<in> ?ch. defined st2 j"
      "\<forall>n. n \<notin> ld_name ` ?ch \<longrightarrow> find_logger n st2 = find_logger n st1" "length (ls_heap st1) \<le> length (ls_heap st2)"
      "\<forall>a < length (ls_heap st1). (\<forall>j \<in> ?ch. a \<notin> set (appenders_of (ld_name j) st1)) \<longrightarrow> ls_heap st2 ! a = ls_heap st1 ! a"
      using Cons.IH [OF inv1] Cons.prems(2,3) by auto
    have fresh: "ld_name i \<notin> ld_name ` ?ch" using Cons.prems(3) by auto
    have rest: "appenders_of (ld_name j) st1 = appenders_of (ld_name j) st" if "j \<in> ?ch" for j
    proof -
      have "ld_name j \<noteq> ld_name i" using that fresh by (metis image_eqI)
      then show ?thesis using other by (simp add: appenders_of_def)
    qed
    have "defined st2 i"
    proof (rule defined_kept [OF 1(3)])
      show "find_logger (ld_name i) st2 = find_logger (ld_name i) st1" using 2(4) fresh by blast
      fix a assume a: "a \<in> set (appenders_of (ld_name i) st1)"
      then have "length (ls_heap st) \<le> a" using 1(5) by (simp add: list_all_iff)
      then have "a \<notin> set (appenders_of (ld_name j) st1)" if "j \<in> ?ch" for j
        using that rest appenders_below [OF Cons.prems(1)] by fastforce
      then show "ls_heap st2 ! a = ls_heap st1 ! a" using 2(6) appenders_below [OF inv1 a] by blast
    qed
    moreover have "find_logger n st2 = find_logger n st" if "n \<noteq> ld_name i" "n \<notin> ld_name ` ?ch" for n
      using 2(4) that other by simp
    moreover have "ls_heap st2 ! a = ls_heap st ! a"
      if "a < length (ls_heap st)" "a \<notin> set (appenders_of (ld_name i) st)" "\<forall>j \<in> ?ch. a \<notin> set (appenders_of (ld_name j) st)" for a
      using that 1(4,6) 2(6) rest by simp
    ultimately show ?thesis using True 1(1,4) 2(1,2,3,5) by (auto simp: changed_def eff_bind_def)
  qed
qed auto

text \<open>
  A logger whose definition is gone: every level passes, and it has no appenders, so that all goes to the root logger.
\<close>

definition forwards :: "log_state \<Rightarrow> LogDefine \<Rightarrow> bool" where
  "forwards st i \<longleftrightarrow> (\<exists>l. find_logger (ld_name i) st = Some l \<and> lg_level l = UNKNOW \<and> lg_appenders l = [])"

lemma forwards_log:
  assumes "log_inv st" "forwards st i"
  shows "logger_log (Suc k) env (ld_name i) level e st =
     (if ld_name i = ''root'' then (Inr (), st) else logger_log k env ''root'' level e st)"
proof -
  obtain l where l: "find_logger (ld_name i) st = Some l" "lg_level l = UNKNOW" "lg_appenders l = []"
    using assms(2) by (auto simp: forwards_def)
  have "UNKNOW \<le> level" by (simp add: less_eq_LogLevel_def level_code_def)
  moreover have "lg_root l = (if ld_name i = ''root'' then None else Some ''root'')"
    using log_invD [OF assms(1) l(1)] by (simp add: logger_ok_def)
  ultimately show ?thesis using l by (simp add: find_logger_def)
qed

lemma drop_loggers_ok:
  assumes "log_inv st" "distinct (map ld_name old)"
  shows "\<exists>st'. drop_loggers new old st = (Inr (), st') \<and> log_inv st' \<and> ls_heap st' = ls_heap st \<and>
     (\<forall>i \<in> set old. set_find define_less i new = None \<longrightarrow> forwards st' i) \<and>
     (\<forall>n. (\<forall>i \<in> set old. set_find define_less i new = None \<longrightarrow> n \<noteq> ld_name i) \<longrightarrow> find_logger n st' = find_logger n st)"
  using assms
proof (induction old arbitrary: st)
  case (Cons i old)
  show ?case
  proof (cases "set_find define_less i new = None")
    case False
    then show ?thesis using Cons.IH [OF Cons.prems(1)] Cons.prems(2) by auto
  next
    case True
    let ?name = "ld_name i"
    obtain st1 l where 1: "getLogger ?name st = (?name, st1)" "log_inv st1" "ls_heap st1 = ls_heap st" "find_logger ?name st1 = Some l"
      "\<And>n. n \<noteq> ?name \<Longrightarrow> find_logger n st1 = find_logger n st"
      using getLogger_inv [OF Cons.prems(1), of ?name] by (cases "getLogger ?name st") fastforce
    define st2 where "st2 = set_logger ?name (l\<lparr>lg_level := UNKNOW\<rparr>) st1"
    have 2: "setLevel ?name UNKNOW st1 = (Inr (), st2)" "changes ?name st1 st2" "find_logger ?name st2 = Some (l\<lparr>lg_level := UNKNOW\<rparr>)"
      using setLevel_ok [OF 1(2,4)] find_set_logger [OF 1(2)] by (simp_all add: st2_def)
    have inv2: "log_inv st2" using 2(2) by (simp add: changes_def)
    define st3 where "st3 = set_logger ?name (l\<lparr>lg_level := UNKNOW, lg_appenders := []\<rparr>) st2"
    have 3: "clearAppenders ?name st2 = (Inr (), st3)" "changes ?name st2 st3"
      "find_logger ?name st3 = Some (l\<lparr>lg_level := UNKNOW, lg_appenders := []\<rparr>)" "ls_heap st3 = ls_heap st"
      using clearAppenders_ok [OF inv2 2(3)] find_set_logger [OF inv2] 1(3) by (simp_all add: st3_def st2_def)
    have inv3: "log_inv st3" using 3(2) by (simp add: changes_def)
    have other: "find_logger n st3 = find_logger n st" if "n \<noteq> ?name" for n
      using that 1(5) 2(2) 3(2) by (simp add: changes_def)
    obtain st4 where 4: "drop_loggers new old st3 = (Inr (), st4)" "log_inv st4" "ls_heap st4 = ls_heap st3"
      "\<forall>j \<in> set old. set_find define_less j new = None \<longrightarrow> forwards st4 j"
      "\<forall>n. (\<forall>j \<in> set old. set_find define_less j new = None \<longrightarrow> n \<noteq> ld_name j) \<longrightarrow> find_logger n st4 = find_logger n st3"
      using Cons.IH [OF inv3] Cons.prems(2) by auto
    have "find_logger ?name st4 = find_logger ?name st3" using 4(5) Cons.prems(2) by auto
    then have "forwards st4 i" using 3(3) by (simp add: forwards_def)
    then show ?thesis using True 1(1) 2(1) 3(1,4) 4 other by (auto simp: eff_bind_def)
  qed
qed auto

lemma define_find: "set_find define_less i xs = None \<longleftrightarrow> ld_name i \<notin> ld_name ` set xs"
  by (induction xs) (auto simp: define_less_def)

text \<open>The whole listener.\<close>

lemma logs_changed_ok:
  assumes "log_inv st" "ev_logger e = ''root''" "2 \<le> n" "list_all known_types new"
    and "distinct (map ld_name new)" "distinct (map ld_name old)"
  shows "\<exists>st'. logs_changed n env e old new st = (Inr (), st') \<and> log_inv st' \<and>
     (\<forall>i \<in> set new. changed old i \<longrightarrow> defined st' i) \<and>
     (\<forall>i \<in> set old. ld_name i \<notin> ld_name ` set new \<longrightarrow> forwards st' i) \<and>
     (\<forall>name. (\<forall>i \<in> set new. changed old i \<longrightarrow> name \<noteq> ld_name i) \<and> (name \<in> ld_name ` set old \<longrightarrow> name \<in> ld_name ` set new) \<longrightarrow>
        find_logger name st' = find_logger name st)"
proof -
  obtain st1 where 1: "log_level n env e st = (Inr (), st1)" "same_but_streams st st1"
    using log_level_ok [OF assms(1) _ assms(3), of e env] log_inv_root [OF assms(1)] assms(2) by auto
  have inv1: "log_inv st1" by (rule same_inv [OF assms(1) 1(2)])
  have same1: "find_logger m st1 = find_logger m st" for m using 1(2) by (simp add: same_but_streams_def find_logger_def)
  obtain st2 where 2: "define_loggers env old new st1 = (Inr (), st2)" "log_inv st2" "\<forall>i \<in> set (filter (changed old) new). defined st2 i"
    "\<forall>m. m \<notin> ld_name ` set (filter (changed old) new) \<longrightarrow> find_logger m st2 = find_logger m st1"
    using define_loggers_ok [OF inv1 assms(4,5), of env old] by blast
  obtain st3 where 3: "drop_loggers new old st2 = (Inr (), st3)" "log_inv st3" "ls_heap st3 = ls_heap st2"
    "\<forall>i \<in> set old. set_find define_less i new = None \<longrightarrow> forwards st3 i"
    "\<forall>m. (\<forall>i \<in> set old. set_find define_less i new = None \<longrightarrow> m \<noteq> ld_name i) \<longrightarrow> find_logger m st3 = find_logger m st2"
    using drop_loggers_ok [OF 2(2) assms(6), of new] by blast
  have "defined st3 i" if i: "i \<in> set new" "changed old i" for i
  proof (rule defined_kept [of st2])
    have "\<forall>j \<in> set old. set_find define_less j new = None \<longrightarrow> ld_name i \<noteq> ld_name j"
      unfolding define_find using i(1) by (metis image_eqI)
    then show "find_logger (ld_name i) st3 = find_logger (ld_name i) st2" using 3(5) by blast
  qed (use i 2(3) 3(3) in auto)
  moreover have "find_logger m st3 = find_logger m st"
    if "\<forall>i \<in> set new. changed old i \<longrightarrow> m \<noteq> ld_name i" "m \<in> ld_name ` set old \<longrightarrow> m \<in> ld_name ` set new" for m
  proof -
    have "\<forall>j \<in> set old. set_find define_less j new = None \<longrightarrow> m \<noteq> ld_name j"
      unfolding define_find using that(2) by (metis image_eqI)
    then have "find_logger m st3 = find_logger m st2" using 3(5) by blast
    also have "\<dots> = find_logger m st1" using 2(4) that(1) by auto
    finally show ?thesis by (simp add: same1)
  qed
  moreover have "logs_changed n env e old new st = (Inr (), st3)" using 1(1) 2(1) 3(1) by (simp add: logs_changed_def eff_bind_def)
  ultimately show ?thesis using 3(2,4) by (auto simp: define_find)
qed

text \<open>Definitions read from a configuration have a known type of appender.\<close>

lemma appender_define_types: "appender_define as_string a = Inr (Some d) \<Longrightarrow> ad_type d = 1 \<or> ad_type d = 2"
  by (auto simp: appender_define_def map_sum.simps split: sum.splits option.splits if_splits elim!: map_sum_InrE)

lemma convert_all_Inr: "convert_all conv xs = Inr ys \<Longrightarrow> y \<in> set ys \<Longrightarrow> \<exists>x \<in> set xs. conv x = Inr y"
  by (induction xs arbitrary: ys) (auto split: sum.splits elim!: map_sum_InrE)

lemma to_LogDefine_types:
  assumes "to_LogDefine as_string items load v = Inr i"
  shows "known_types i"
proof -
  have "list_all (\<lambda>d. ad_type d = 1 \<or> ad_type d = 2) as" if as: "appender_defines as_string items node = Inr as" for node as
  proof (cases "yaml_get ''appenders'' node")
    case (Inr r)
    show ?thesis
    proof (cases r)
      case (Some n)
      obtain xs where xs: "convert_all (appender_define as_string) (items n) = Inr xs" "as = concat (map (case_option [] (\<lambda>d. [d])) xs)"
        using as Inr Some by (auto simp: appender_defines_def elim!: map_sum_InrE)
      have "ad_type d = 1 \<or> ad_type d = 2" if "d \<in> set as" for d
      proof -
        have "Some d \<in> set xs" using that xs(2) by (auto split: option.splits)
        then show ?thesis using convert_all_Inr [OF xs(1)] appender_define_types by blast
      qed
      then show ?thesis by (simp add: list_all_iff)
    qed (use as Inr in \<open>simp add: appender_defines_def\<close>)
  qed (use as in \<open>simp add: appender_defines_def\<close>)
  then show ?thesis using assms
    by (auto simp: to_LogDefine_def known_types_def split: sum.splits option.splits elim!: map_sum_InrE)
qed

text \<open>A set of definitions read from a text: one of each name, with known types.\<close>

interpretation define_order: strict_weak_order define_less
  by unfold_locales (auto simp: define_less_def)

lemma fold_set_insert_defines:
  "sorted_wrt define_less acc \<Longrightarrow>
     sorted_wrt define_less (fold (set_insert define_less) xs acc) \<and> set (fold (set_insert define_less) xs acc) \<subseteq> set xs \<union> set acc"
proof (induction xs arbitrary: acc)
  case (Cons x xs)
  have "sorted_wrt define_less (set_insert define_less x acc)" by (rule define_order.sorted_set_insert [OF Cons.prems])
  moreover have "set (set_insert define_less x acc) \<subseteq> insert x (set acc)"
    using define_order.set_set_insert [OF Cons.prems, of x] by auto
  ultimately show ?case using Cons.IH [of "set_insert define_less x acc"] by auto
qed simp

lemma sorted_distinct_names: "sorted_wrt define_less xs \<Longrightarrow> distinct (map ld_name xs)"
  by (induction xs) (auto simp: define_less_def)

lemma to_set_defines:
  assumes "to_set define_less load items emit (to_LogDefine as_string items load) s = Inr new"
  shows "distinct (map ld_name new)" "list_all known_types new"
proof -
  obtain node xs where xs: "load s = Inr node" "convert_all (\<lambda>n. to_LogDefine as_string items load (emit n)) (items node) = Inr xs"
    "new = fold (set_insert define_less) xs []"
    using assms by (auto simp: to_set_def to_vector_def split: sum.splits elim!: map_sum_InrE)
  have *: "sorted_wrt define_less new" "set new \<subseteq> set xs" using fold_set_insert_defines [of "[]" xs] xs(3) by simp_all
  show "distinct (map ld_name new)" by (rule sorted_distinct_names [OF *(1)])
  have "known_types i" if "i \<in> set xs" for i using convert_all_Inr [OF xs(2) that] to_LogDefine_types by blast
  then show "list_all known_types new" using *(2) by (auto simp: list_all_iff)
qed

lemma unchanged_self: "distinct (map ld_name xs) \<Longrightarrow> i \<in> set xs \<Longrightarrow> \<not> changed xs i"
proof (induction xs)
  case (Cons a xs)
  then show ?case by (cases "a = i") (auto simp: changed_def define_less_def image_iff)
qed simp

text \<open>What is written of a definition with a console appender is read back without it, for its type has another key.\<close>

lemma stdout_definition_lost:
  "appender_define as_string (define_appender_yaml \<lparr>ad_type = 2, ad_level = UNKNOW, ad_formatter = [], ad_file = []\<rparr>) = Inr None"
  by (simp add: appender_define_def define_appender_yaml_def yaml_string_def yaml_get_def)

end
