(* ===== verification/Mutex.thy ===== *)
theory Mutex
  imports Linko_Prelude State_Machine
begin

text \<open>
  \<^verbatim>\<open>linko/mutex.{h,cc}\<close> and \<^verbatim>\<open>linko/thread.{h,cc}\<close>: the scoped guards over a lock, the atomic spin lock
  \<^verbatim>\<open>CASLock\<close>, the semaphore, and the start of a thread.  The locks of pthread are what the guards call: the calls
  are recorded.
\<close>

section \<open>Guards\<close>

datatype lock_call = Call_lock | Call_rdlock | Call_wrlock | Call_unlock

text \<open>The three templates differ in the call that takes the lock.\<close>

record guard =
  gd_take :: lock_call
  gd_locked :: bool

definition new_guard :: "lock_call \<Rightarrow> lock_call list \<Rightarrow> guard \<times> lock_call list" where
  "new_guard take_call calls = (\<lparr>gd_take = take_call, gd_locked = True\<rparr>, calls @ [take_call])"

definition ScopedLockImpl where "ScopedLockImpl = new_guard Call_lock"
definition ReadScopedLockImpl where "ReadScopedLockImpl = new_guard Call_rdlock"
definition WriteScopedLockImpl where "WriteScopedLockImpl = new_guard Call_wrlock"

definition guard_lock :: "guard \<times> lock_call list \<Rightarrow> guard \<times> lock_call list" where
  "guard_lock = (\<lambda>(g, calls). if \<not> gd_locked g then (g\<lparr>gd_locked := True\<rparr>, calls @ [gd_take g]) else (g, calls))"

definition guard_unlock :: "guard \<times> lock_call list \<Rightarrow> guard \<times> lock_call list" where
  "guard_unlock = (\<lambda>(g, calls). if gd_locked g then (g\<lparr>gd_locked := False\<rparr>, calls @ [Call_unlock]) else (g, calls))"

definition guard_destroy :: "guard \<times> lock_call list \<Rightarrow> lock_call list" where
  "guard_destroy x = snd (guard_unlock x)"

text \<open>What a scope does with its guard; \<open>True\<close> is \<^verbatim>\<open>lock\<close>.\<close>

definition guard_use :: "bool list \<Rightarrow> guard \<times> lock_call list \<Rightarrow> guard \<times> lock_call list" where
  "guard_use = fold (\<lambda>b. if b then guard_lock else guard_unlock)"

text \<open>Whatever the scope does, the lock is taken and released in turn, and is free in the end.\<close>

lemma guard_use_alternates:
  assumes "gd_locked g = locked" "gd_take g = t"
  shows "\<exists>n. guard_destroy (guard_use bs (g, calls)) = calls @ (if locked then [Call_unlock] else []) @ concat (replicate n [t, Call_unlock])"
  using assms
proof (induction bs arbitrary: g calls locked)
  case Nil
  then show ?case by (intro exI [of _ 0]) (simp add: guard_destroy_def guard_use_def guard_unlock_def)
next
  case (Cons b bs)
  consider "b = locked" | "b" "\<not> locked" | "\<not> b" "locked" by auto
  then show ?case
  proof cases
    case 1
    then show ?thesis using Cons.IH [of g locked calls] Cons.prems by (auto simp: guard_use_def guard_lock_def guard_unlock_def)
  next
    case 2
    obtain n where "guard_destroy (guard_use bs (g\<lparr>gd_locked := True\<rparr>, calls @ [t])) = (calls @ [t]) @ [Call_unlock] @ concat (replicate n [t, Call_unlock])"
      using Cons.IH [of "g\<lparr>gd_locked := True\<rparr>" True "calls @ [t]"] Cons.prems by auto
    then show ?thesis using 2 Cons.prems by (intro exI [of _ "Suc n"]) (simp add: guard_use_def guard_lock_def)
  next
    case 3
    then show ?thesis using Cons.IH [of "g\<lparr>gd_locked := False\<rparr>" False "calls @ [Call_unlock]"] Cons.prems
      by (auto simp: guard_use_def guard_unlock_def)
  qed
qed

lemma guard_balanced:
  "\<exists>n. guard_destroy (guard_use bs (new_guard t calls)) = calls @ concat (replicate (Suc n) [t, Call_unlock])"
  using guard_use_alternates [of "\<lparr>gd_take = t, gd_locked = True\<rparr>" True t bs "calls @ [t]"] by (auto simp: new_guard_def)

section \<open>The atomic spin lock\<close>

text \<open>A thread outside, in the loop of \<^verbatim>\<open>lock\<close>, or between \<^verbatim>\<open>lock\<close> and \<^verbatim>\<open>unlock\<close>.\<close>

datatype cas_pc = Cas_outside | Cas_spinning | Cas_inside

text \<open>One pass of the loop: the old value of the flag decides; then \<^verbatim>\<open>unlock\<close>.\<close>

definition test_and_set :: "bool \<Rightarrow> bool \<times> bool" where
  "test_and_set flag = (flag, True)"

fun cas_move :: "bool \<Rightarrow> cas_pc \<Rightarrow> bool \<times> cas_pc" where
  "cas_move flag Cas_outside = (flag, Cas_spinning)"
| "cas_move flag Cas_spinning = (case test_and_set flag of (old, flag') \<Rightarrow> (flag', if old then Cas_spinning else Cas_inside))"
| "cas_move flag Cas_inside = (False, Cas_outside)"

inductive cas_start :: "bool \<times> cas_pc list \<Rightarrow> bool" where
  Cas_start: "cas_start (False, replicate n Cas_outside)"

inductive cas_step :: "bool \<times> cas_pc list \<Rightarrow> bool \<times> cas_pc list \<Rightarrow> bool" where
  Cas_step: "cas_move flag pc = (flag', pc') \<Longrightarrow> cas_step (flag, xs @ pc # ys) (flag', xs @ pc' # ys)"

definition inside :: "cas_pc list \<Rightarrow> nat" where
  "inside pcs = length (filter (\<lambda>pc. pc = Cas_inside) pcs)"

text \<open>The flag is set exactly while a thread is inside, and never two are.\<close>

definition cas_inv :: "bool \<times> cas_pc list \<Rightarrow> bool" where
  "cas_inv x \<longleftrightarrow> inside (snd x) = (if fst x then 1 else 0)"

interpretation cas_system: invariant_system cas_start cas_step cas_inv
proof
  fix x
  assume "cas_start x"
  then show "cas_inv x" by cases (simp add: cas_inv_def inside_def)
next
  fix x y
  assume x: "cas_inv x" and "cas_step x y"
  from this(2) show "cas_inv y"
  proof cases
    case (Cas_step flag pc flag' pc' xs ys)
    then show ?thesis using x by (cases pc) (auto simp: cas_inv_def inside_def test_and_set_def split: if_splits)
  qed
qed

lemma cas_exclusion: "reachable cas_start cas_step (flag, pcs) \<Longrightarrow> inside pcs = (if flag then 1 else 0)"
  using cas_system.reachable_inv [of "(flag, pcs)"] by (simp add: cas_inv_def)

text \<open>A thread that spins while nobody is inside gets the lock with its next pass.\<close>

lemma cas_free: "reachable cas_start cas_step (flag, pcs) \<Longrightarrow> inside pcs = 0 \<Longrightarrow> cas_move flag Cas_spinning = (True, Cas_inside)"
  using cas_exclusion [of flag pcs] by (auto simp: test_and_set_def split: if_splits)

section \<open>The semaphore\<close>

text \<open>\<^verbatim>\<open>sem_wait\<close> blocks at zero: then there is no step.\<close>

definition sem_wait :: "nat \<Rightarrow> nat option" where
  "sem_wait count = (case count of 0 \<Rightarrow> None | Suc n \<Rightarrow> Some n)"

definition sem_notify :: "nat \<Rightarrow> nat" where
  "sem_notify count = Suc count"

section \<open>Threads\<close>

record thread =
  th_id :: int
  th_thread :: nat
  th_name :: string
  th_cb :: bool
  th_semaphore :: nat

definition new_thread :: "string \<Rightarrow> nat \<Rightarrow> thread" where
  "new_thread name handle = \<lparr>th_id = - 1, th_thread = handle, th_name = if name = [] then ''UNKNOW'' else name, th_cb = True,
     th_semaphore = 0\<rparr>"

text \<open>
  After \<^verbatim>\<open>pthread_create\<close> the constructor waits while \<^verbatim>\<open>run\<close> goes through its statements; \<open>tid\<close> is the new thread's.
\<close>

datatype thread_pc = Run_names | Run_id | Run_swap | Run_notify | Run_callback

fun run_move :: "int \<Rightarrow> thread \<Rightarrow> thread_pc \<Rightarrow> thread \<times> thread_pc" where
  "run_move tid th Run_names = (th, Run_id)"
| "run_move tid th Run_id = (th\<lparr>th_id := tid\<rparr>, Run_swap)"
| "run_move tid th Run_swap = (th\<lparr>th_cb := False\<rparr>, Run_notify)"
| "run_move tid th Run_notify = (th\<lparr>th_semaphore := sem_notify (th_semaphore th)\<rparr>, Run_callback)"
| "run_move tid th Run_callback = (th, Run_callback)"

inductive starting :: "int \<Rightarrow> thread \<Rightarrow> thread_pc \<Rightarrow> bool \<Rightarrow> bool" for tid where
  Start_new: "starting tid (new_thread name handle) Run_names False"
| Start_run: "starting tid th pc returned \<Longrightarrow> run_move tid th pc = (th', pc') \<Longrightarrow> starting tid th' pc' returned"
| Start_wait: "starting tid th pc False \<Longrightarrow> sem_wait (th_semaphore th) = Some n \<Longrightarrow> starting tid (th\<lparr>th_semaphore := n\<rparr>) pc True"

definition started :: "int \<Rightarrow> thread \<Rightarrow> thread_pc \<Rightarrow> bool \<Rightarrow> bool" where
  "started tid th pc returned \<longleftrightarrow>
     (pc \<in> {Run_swap, Run_notify, Run_callback} \<longrightarrow> th_id th = tid) \<and> (pc \<in> {Run_notify, Run_callback} \<longrightarrow> \<not> th_cb th) \<and>
     (pc = Run_callback \<longrightarrow> th_semaphore th = (if returned then 0 else 1)) \<and> (pc \<noteq> Run_callback \<longrightarrow> th_semaphore th = 0 \<and> \<not> returned)"

lemma starting_started: "starting tid th pc returned \<Longrightarrow> started tid th pc returned"
proof (induction rule: starting.induct)
  case (Start_run th pc returned th' pc')
  then show ?case by (cases pc) (auto simp: started_def sem_notify_def)
qed (auto simp: started_def new_thread_def sem_wait_def split: nat.splits)

text \<open>When the constructor has returned the thread has its tid and its callback, and only it ever notifies.\<close>

lemma thread_started: "starting tid th pc True \<Longrightarrow> th_id th = tid \<and> \<not> th_cb th \<and> pc = Run_callback"
  using starting_started [of tid th pc True] by (auto simp: started_def)

text \<open>\<^verbatim>\<open>join\<close>, where \<open>ok\<close> is the success of \<^verbatim>\<open>pthread_join\<close>, and whether the destructor detaches.\<close>

definition thread_join :: "bool \<Rightarrow> (thread, unit) eff" where
  "thread_join ok th = (if th_thread th \<noteq> 0 then (if \<not> ok then (Inl Logic_error, th) else (Inr (), th\<lparr>th_thread := 0\<rparr>)) else (Inr (), th))"

definition thread_detaches :: "thread \<Rightarrow> bool" where
  "thread_detaches th \<longleftrightarrow> th_thread th \<noteq> 0"

lemma joined_not_detached: "thread_join True th = (r, th') \<Longrightarrow> \<not> thread_detaches th'"
  by (auto simp: thread_join_def thread_detaches_def split: if_splits)

text \<open>\<^verbatim>\<open>SetName\<close> on the current thread's object, if any, and its own name.\<close>

definition Thread_SetName :: "string \<Rightarrow> thread option \<times> string \<Rightarrow> thread option \<times> string" where
  "Thread_SetName name = (\<lambda>(t, thread_name). (map_option (\<lambda>th. th\<lparr>th_name := name\<rparr>) t, name))"

end
