(* ===== verification/Hook_Calls.thy ===== *)
theory Hook_Calls
  imports Hook Config
begin

text \<open>
  The entry points of \<^verbatim>\<open>linko/hook.cc\<close> over the parts that \<open>Hook\<close> models: the calls that go through \<^verbatim>\<open>do_io\<close>,
  \<^verbatim>\<open>connect\<close> with the configured timeout, the commands of \<^verbatim>\<open>fcntl\<close>, and the initialisation.
\<close>

section \<open>Calls that wait\<close>

datatype hooked =
    Accept | Read | Readv | Recv | Recvfrom | Recvmsg
  | Write | Writev | Send | Sendto | Sendmsg

text \<open>The event a call waits for and the option its timeout comes from.\<close>

definition hook_event :: "hooked \<Rightarrow> u32" where
  "hook_event h = (case h of Accept \<Rightarrow> READ | Read \<Rightarrow> READ | Readv \<Rightarrow> READ | Recv \<Rightarrow> READ | Recvfrom \<Rightarrow> READ | Recvmsg \<Rightarrow> READ
     | Write \<Rightarrow> WRITE | Writev \<Rightarrow> WRITE | Send \<Rightarrow> WRITE | Sendto \<Rightarrow> WRITE | Sendmsg \<Rightarrow> WRITE)"

definition hook_timeout_so :: "hooked \<Rightarrow> int" where
  "hook_timeout_so h = (case h of Accept \<Rightarrow> SO_RCVTIMEO | Read \<Rightarrow> SO_RCVTIMEO | Readv \<Rightarrow> SO_RCVTIMEO | Recv \<Rightarrow> SO_RCVTIMEO
     | Recvfrom \<Rightarrow> SO_RCVTIMEO | Recvmsg \<Rightarrow> SO_RCVTIMEO | Write \<Rightarrow> SO_SNDTIMEO | Writev \<Rightarrow> SO_SNDTIMEO | Send \<Rightarrow> SO_SNDTIMEO
     | Sendto \<Rightarrow> SO_SNDTIMEO | Sendmsg \<Rightarrow> SO_SNDTIMEO)"

definition hook_io :: "hooked \<Rightarrow> bool \<Rightarrow> fdctx option \<Rightarrow> (int \<times> int) list \<Rightarrow> io_wait list \<Rightarrow> (int \<times> int) option \<times> io_action list" where
  "hook_io h t_hook_enable ctx = do_io t_hook_enable ctx (hook_timeout_so h)"

section \<open>Connecting\<close>

text \<open>The static \<^verbatim>\<open>s_connect_timeout\<close>, set from the variable when the library is loaded and by the variable's listener.\<close>

definition connect_timeout_changed :: "(int, u64) on_change_cb" where
  "connect_timeout_changed old new s_connect_timeout = (Inr (), word_of_int new)"

definition hook_initer :: "u64 \<times> (int, u64) ConfigVar \<Rightarrow> u64 \<times> u64 \<times> (int, u64) ConfigVar" where
  "hook_initer = (\<lambda>(ids, v). case addListener connect_timeout_changed (ids, v) of (_, ids', v') \<Rightarrow> (word_of_int (cv_val v), ids', v'))"

definition hook_connect :: "u64 \<Rightarrow> bool \<Rightarrow> fdctx option \<Rightarrow> int \<times> int \<Rightarrow> io_wait \<Rightarrow> int option \<Rightarrow> (int \<times> int) \<times> io_action list" where
  "hook_connect s_connect_timeout t_hook_enable ctx = connect_with_timeout t_hook_enable ctx s_connect_timeout"

section \<open>Commands of fcntl\<close>

definition F_SETFL :: int where "F_SETFL = 4"
definition F_GETFL :: int where "F_GETFL = 3"

text \<open>
  Of the commands other than the two that are hooked, those that hand on their argument, a number or a pointer; the others
  call \<^verbatim>\<open>fcntl_f\<close> with the command alone.
\<close>

definition fcntl_int_commands :: "int list" where
  "fcntl_int_commands = [0, 1030, 2, 10, 8, 1024, 1026, 1031]"

definition fcntl_pointer_commands :: "int list" where
  "fcntl_pointer_commands = [6, 7, 5, 16, 15]"

definition fcntl_pass :: "int \<Rightarrow> 'a \<Rightarrow> 'a option" where
  "fcntl_pass cmd arg = (if cmd \<in> set fcntl_int_commands \<or> cmd \<in> set fcntl_pointer_commands then Some arg else None)"

definition fcntl :: "int \<Rightarrow> int \<Rightarrow> u32 \<Rightarrow> (u32 option \<Rightarrow> (kernel \<times> fd_manager, u32) eff) \<Rightarrow> (kernel \<times> fd_manager, u32) eff" where
  "fcntl fd cmd arg fcntl_f s =
     (if cmd = F_SETFL then (case fcntl_setfl fd arg s of (r, s') \<Rightarrow> (map_sum id word_of_int r, s'))
      else if cmd = F_GETFL then (fcntl_getfl fd s, s)
      else fcntl_f (fcntl_pass cmd arg) s)"

section \<open>Lemmas\<close>

text \<open>Each call waits for the event that belongs to its timeout.\<close>

lemma hook_event_timeout: "hook_event h = READ \<longleftrightarrow> hook_timeout_so h = SO_RCVTIMEO"
  by (cases h) (simp_all add: hook_event_def hook_timeout_so_def READ_def WRITE_def SO_RCVTIMEO_def SO_SNDTIMEO_def)

text \<open>A change of the variable reaches \<^verbatim>\<open>s_connect_timeout\<close>.\<close>

lemma connect_timeout_follows:
  assumes "cv_cbs v = []" "hook_initer (ids, v) = (t, ids', v')"
  shows "t = word_of_int (cv_val v) \<and> (\<exists>t'. var_setValue x (v', t) = (Inr (), v'\<lparr>cv_val := x\<rparr>, t') \<and> t' = word_of_int x)"
proof -
  have v': "v' = v\<lparr>cv_cbs := [(ids + 1, connect_timeout_changed)]\<rparr>" "t = word_of_int (cv_val v)"
    using assms by (auto simp: hook_initer_def addListener_def)
  then show ?thesis
    by (cases "x = cv_val v") (simp add: var_setValue_def, simp add: var_setValue_def connect_timeout_changed_def)
qed

text \<open>
  A timeout of zero, which means none to the kernel, becomes a timer of zero milliseconds: the first call that
  would block after it fails unless it is woken before the timer fires.
\<close>

lemma zero_timeout_armed:
  assumes "get_ctx fd s = Inr (Some (a, c))" "m_isSocket c" "\<not> m_isClosed c" "\<not> m_userNonblock c"
  shows "\<exists>c'. hook_setsockopt True fd SOL_SOCKET SO_SNDTIMEO (0, 0) s = (Inr (), put_fdctx a c' s) \<and>
     hook_io Send True (Some c') [(- 1, EAGAIN)] [Woken True] = (Some (- 1, ETIMEDOUT), [Call, Add_timer 0, Add_event, Yield, Cancel_timer])"
proof (rule exI [of _ "setTimeout SO_SNDTIMEO 0 c"], rule conjI)
  show "hook_setsockopt True fd SOL_SOCKET SO_SNDTIMEO (0, 0) s = (Inr (), put_fdctx a (setTimeout SO_SNDTIMEO 0 c) s)"
    using assms(1) by (simp add: hook_setsockopt_def)
  have "getTimeout SO_SNDTIMEO (setTimeout SO_SNDTIMEO 0 c) = 0" "m_isSocket (setTimeout SO_SNDTIMEO 0 c)"
    "\<not> m_isClosed (setTimeout SO_SNDTIMEO 0 c)" "\<not> m_userNonblock (setTimeout SO_SNDTIMEO 0 c)"
    using assms(2-4) by (simp_all add: getTimeout_def setTimeout_def SO_SNDTIMEO_def SO_RCVTIMEO_def)
  then show "hook_io Send True (Some (setTimeout SO_SNDTIMEO 0 c)) [(- 1, EAGAIN)] [Woken True] =
      (Some (- 1, ETIMEDOUT), [Call, Add_timer 0, Add_event, Yield, Cancel_timer])"
    by (simp add: hook_io_def hook_timeout_so_def do_io_def timeout_cb_def EAGAIN_def EINTR_def ETIMEDOUT_def Let_def)
qed

text \<open>The argument of a command that the \<^verbatim>\<open>switch\<close> does not list, here \<^verbatim>\<open>F_ADD_SEALS\<close>, is lost.\<close>

lemma fcntl_default_drops: "fcntl fd 1033 arg fcntl_f s = fcntl_f None s"
  by (simp add: fcntl_def F_SETFL_def F_GETFL_def fcntl_pass_def fcntl_int_commands_def fcntl_pointer_commands_def)

end
