(* ===== verification/Spec2Isabelle.thy ===== *)
theory Spec2Isabelle
  imports ByteArray_Codecs ByteArray_IO Timer Scheduler IOManager_Correct Fd_Manager Hook Address_Correct Http_Parser_Correct Servlet Uri_Safe Http_Response_Parse Http_Session_Correct Http_Connection_Correct Http_Pool Logger_Correct Mutex Hook_Calls
begin

text \<open>
  A verification development for the linko C++ server framework (\<^verbatim>\<open>src/linko\<close>): fibers run by a scheduler, an epoll
  event loop with timers that wakes them, system calls hooked so that they yield instead of blocking, and on top of
  these sockets, byte buffers, streams, the parsers of HTTP and of URIs, the HTTP server and client, and the logging and
  configuration that all of them use.

  \<^bold>\<open>How the parts interact.\<close>  \<^verbatim>\<open>TcpServer\<close> accepts on a \<^verbatim>\<open>Socket\<close> and schedules
  \<^verbatim>\<open>HttpServer::handleClient\<close>, which reads requests from an \<^verbatim>\<open>HttpSession\<close>, a \<^verbatim>\<open>SocketStream\<close>, runs the
  generated parser on them, dispatches to a servlet and writes the response.  Reading is a hooked call: it registers the
  descriptor and the running fiber with the \<^verbatim>\<open>IOManager\<close>, yields, and is scheduled again by the event or by a
  condition timer.  \<^verbatim>\<open>HttpConnection\<close> is the other side of the protocol.

  \<^bold>\<open>Which theory models what.\<close>  Each opens with a text of its own; the operations have the names of the source.

  \<^item> \<open>Linko_Prelude\<close> (failures, effects, words, lists), \<open>Cpp_Containers\<close> (\<^verbatim>\<open>std::set\<close>, \<^verbatim>\<open>std::map\<close> over a
    comparator), \<open>Cpp_Strings\<close>, \<open>State_Machine\<close> (invariants of transition systems).
  \<^item> \<open>Endian\<close>, \<open>Codec\<close>, \<open>ByteArray\<close>, \<open>ByteArray_IO\<close> with \<open>ByteArray_Correct\<close>, \<open>ByteArray_Codecs\<close>: \<^verbatim>\<open>endian.h\<close>,
    \<^verbatim>\<open>bytearray.{h,cc}\<close>.  The chain of blocks is a list; the lemmas relate it to one sequence of bytes.
  \<^item> \<open>Timer\<close>, \<open>Fiber\<close>, \<open>Scheduler\<close>, \<open>IOManager\<close> with \<open>IOManager_Correct\<close>: the files of these names.  Objects live in
    stores by address; the steps of the threads are relations whose reachable states satisfy an invariant.
  \<^item> \<open>Fd_Manager\<close>, \<open>Hook\<close>, \<open>Hook_Calls\<close>: \<^verbatim>\<open>fd_manager.{h,cc}\<close>, \<^verbatim>\<open>hook.cc\<close>; the results of the original
    functions are inputs.
  \<^item> \<open>Address\<close>, \<open>Address_Correct\<close>, \<open>Socket\<close>, \<open>Socket_Correct\<close>, \<open>Tcp_Server\<close>: \<^verbatim>\<open>address.{h,cc}\<close>, \<^verbatim>\<open>socket.{h,cc}\<close>,
    \<^verbatim>\<open>tcp_server.{h,cc}\<close>, over a record of the system calls.
  \<^item> \<open>Stream\<close>, \<open>Socket_Stream\<close>: \<^verbatim>\<open>stream.{h,cc}\<close>, \<^verbatim>\<open>socket_stream.{h,cc}\<close>.
  \<^item> \<open>Ragel\<close> and the machines \<open>Http11_Machine\<close>, \<open>Httpclient_Machine\<close>, \<open>Uri_Machine\<close>: the generated parsers
    (\<^verbatim>\<open>*.rl.cc\<close>), every block of the switch a term, run by one interpreter.  \<open>Url_Text\<close>, the \<open>_Moves\<close> and \<open>_Parse\<close>
    theories run them over texts.
  \<^item> \<open>Http\<close>, \<open>Http_Correct\<close>, \<open>Http_Parser\<close>, \<open>Http_Parser_Correct\<close>, \<open>Http_Request_Roundtrip\<close>,
    \<open>Http_Response_Parser\<close>, \<open>Http_Response_Parse\<close>, \<open>Servlet\<close>, \<open>Http_Session\<close>, \<open>Http_Session_Correct\<close>: the directory
    \<^verbatim>\<open>http\<close> on the server's side; \<open>Http_Connection\<close>, \<open>Http_Connection_Correct\<close>, \<open>Http_Pool\<close>:
    \<^verbatim>\<open>http/http_connection.{h,cc}\<close>, the client and its pool.
  \<^item> \<open>Uri\<close>, \<open>Uri_Correct\<close>, \<open>Uri_Safe\<close>: \<^verbatim>\<open>uri.{h,rl.cc}\<close>.
  \<^item> \<open>Config\<close>, \<open>Log_Format\<close>, \<open>Logger\<close>, \<open>Logger_Correct\<close>: \<^verbatim>\<open>config.{h,cc}\<close>, \<^verbatim>\<open>log.{h,cc}\<close>; \<open>Mutex\<close>:
    \<^verbatim>\<open>mutex.{h,cc}\<close>, \<^verbatim>\<open>thread.{h,cc}\<close>.

  \<^bold>\<open>What the lemmas show.\<close>  The byte buffer refines overwriting of a sequence, and every typed write is read back
  (C1 to C4).  Timers, fibers, scheduler and event loop keep their invariants in all interleavings and deliver to each
  waiter exactly what it registered for (C5 to C15).  Hooked calls return what blocking calls would (C16 to C18).
  Addresses, headers, requests, responses and URIs: texts, order and round trips, and totality of the parsers on any input
  (C19 to C29).  Streams, the server and sockets: termination, service of a request, ownership of descriptors, all or nothing
  binding, buffers filled from sockets (C30 to C34).  The client: bodies in chunks, a pool whose connections are never
  shared and whose calls return (C35 to C37).  Patterns, configuration and loggers (C38 to C40).  Where the code deviates
  from its purpose the theorem states what it does, and lemmas named beside the findings state the deviation.

  \<^bold>\<open>Interfaces.\<close>  \<open>strict_weak_order\<close> and \<open>strict_total_order\<close> (what a container asks of its comparator), \<open>byte_stream\<close> and
  \<open>ba_codec\<close> (what reads and writes of the buffer ask of each other), \<open>ragel_machine\<close> (what a generated machine must
  satisfy), \<open>invariant_system\<close> (a component as a transition system); each is interpreted on the code's model.

  \<^bold>\<open>Loops, bounds and fuel.\<close>  Loops over data are structural or have a measure.  Loops over the network may never end
  and are partial functions into \<open>option\<close>; C30, C31 and C35 give their ends.  Printing numbers takes 20 decimal or 16
  hexadecimal digits, enough for 64 bits.  \<open>pool_run\<close> has a bound of steps, and C37 shows that five are enough;
  \<open>logger_log\<close> bounds the chain of root loggers, and two are enough in every state of the manager
  (\<open>logger_log_ok\<close>).  Machine words keep their width; assumptions such as a length below \<open>2 ^ 31\<close> stand in the
  statements.

  \<^bold>\<open>Not modelled.\<close>  Log output inside other components, clock readings, backtraces (\<^verbatim>\<open>util.{h,cc}\<close>), the lookup of the
  original functions with \<^verbatim>\<open>dlsym\<close>, the pthread calls behind \<^verbatim>\<open>Mutex\<close>, \<^verbatim>\<open>RWMutex\<close> and \<^verbatim>\<open>SpinLock\<close>, the
  switch of stacks by \<^verbatim>\<open>ucontext\<close>, the tests.  Libraries outside the repository (the C library, the kernel, yaml-cpp, the conversions of
  \<^verbatim>\<open>boost\<close>) are arguments of the definitions that use them.  A step under a lock is one step.
\<close>

section \<open>The byte buffer\<close>

text \<open>
  C1. Raw writes refine overwriting of a byte sequence: on a well-formed buffer \<^verbatim>\<open>write\<close> always
  succeeds, whatever the block size and the number of blocks it has to allocate, it replaces
  the data from the position on (extending it where the write runs past the end), moves the
  position by the number of bytes written, and keeps the representation invariant.
\<close>

theorem write_refines_overwrite:
  assumes "ba_inv ba"
  shows "\<exists>ba'. ba_write bs ba = (Inr (), ba') \<and> ba_inv ba' \<and>
     written ba' = take (m_position ba) (written ba) @ bs @ drop (m_position ba + length bs) (written ba) \<and>
     m_position ba' = m_position ba + length bs \<and> m_size ba' = max (m_size ba) (m_position ba + length bs)"
  using ba_write_ok [OF assms, of bs] by blast

theorem write_refines_overwrite_witness:
  "\<exists>ba'. ba_write [1, 2, 3] (ByteArray_new (\<lambda>_ _. 0) 2) = (Inr (), ba') \<and> written ba' = [1, 2, 3]"
proof -
  have "ba_inv (ByteArray_new (\<lambda>_ _. 0) 2)" by (rule ba_inv_new) simp
  from write_refines_overwrite [OF this, of "[1, 2, 3]"] show ?thesis
    by (auto simp: unread_new)
qed


text \<open>
  The 64 bit zigzag encoding loses exactly the values that do not fit in 32 bits: the decoder
  inverts the encoder if and only if the value is in \<open>[-2^31, 2^31)\<close>.  The encoder shifts the
  sign by 31 places where 63 are needed.
\<close>

theorem zigzag64_roundtrip:
  "DecodeZigzag64 (EncodeZigzag64 v) = v \<longleftrightarrow> - (2 ^ 31) \<le> sint v \<and> sint v < 2 ^ 31"
  using zigzag64_roundtrip_iff by (simp only: fits_int32_def)

text \<open>
  Strings with a length header of 16, 32 or 64 bits come back as they were written, for lists
  of non-empty strings whose lengths the header can hold.
\<close>

theorem string_roundtrips:
  assumes "\<forall>s \<in> set vs. s \<noteq> [] \<and> length s < 2 ^ 16"
  shows "let new = setIsLittleEndian b (ByteArray_new heap 1) in
     fst (write_then_read (writeStringF16 host) (readStringF16 host) vs new) = Inr (vs, 0) \<and>
     fst (write_then_read (writeStringF32 host) (readStringF32 host) vs new) = Inr (vs, 0) \<and>
     fst (write_then_read (writeStringF64 host) (readStringF64 host) vs new) = Inr (vs, 0)"
  unfolding Let_def using assms
  by (intro conjI stringF16.roundtrip_new stringF32.roundtrip_new stringF64.roundtrip_new;
      fastforce simp: list_all_iff)

theorem string_roundtrips_witness:
  "fst (write_then_read (writeStringF16 LINKO_LITTLE_ENDIAN) (readStringF16 LINKO_LITTLE_ENDIAN)
     [[104, 105], [33]] (setIsLittleEndian False (ByteArray_new (\<lambda>_ _. 0) 1))) = Inr ([[104, 105], [33]], 0)"
  using string_roundtrips [of "[[104, 105], [33]]" False "\<lambda>_ _. 0" LINKO_LITTLE_ENDIAN] by (simp add: Let_def)

text \<open>
  C3. Raw reads: a read of \<open>sz\<close> bytes of a well-formed buffer with any block size returns the next
  \<open>sz\<close> unread bytes, or throws \<^verbatim>\<open>out_of_range\<close> and changes nothing when fewer are left.  The data
  stay as they are, but the position afterwards is the end of the read rounded up to the end
  of its block, since the loop adds \<^verbatim>\<open>ncap\<close> where it should add \<^verbatim>\<open>size\<close>.
\<close>

theorem read_returns_unread:
  assumes "ba_inv ba" "0 < sz"
  shows "if sz \<le> m_size ba - m_position ba
     then \<exists>ba'. ba_read sz ba = (Inr (take sz (unread ba)), ba') \<and> written ba' = written ba \<and>
       m_position ba' = round_up (m_baseSize ba) (m_position ba + sz)
     else ba_read sz ba = (Inl Out_of_range, ba)"
proof (cases "sz \<le> m_size ba - m_position ba")
  case True
  then obtain ba' where "ba_read sz ba = (Inr (take sz (unread ba)), ba')"
    "m_position ba' = round_up (m_baseSize ba) (m_position ba + sz)" "m_root ba' = m_root ba" "same_frame ba ba'"
    using ba_read_ok [OF assms] length_unread [OF assms(1)] by auto
  then show ?thesis using True by (auto simp: written_def contents_def same_frame_def)
next
  case False
  then show ?thesis using ba_read_short [OF assms(1)] length_unread [OF assms(1)] by simp
qed

theorem read_returns_unread_witness:
  "ba_read 1 (ByteArray_new (\<lambda>_ _. 0) 4) = (Inl Out_of_range, ByteArray_new (\<lambda>_ _. 0) 4)"
proof -
  have "ba_inv (ByteArray_new (\<lambda>_ _. 0) 4)" by (rule ba_inv_new) simp
  from read_returns_unread [OF this, of 1] show ?thesis by (simp add: ByteArray_new_def)
qed

text \<open>
  C4. Loading a file into a fresh buffer, going back to position 0 and saving the buffer writes
  the same bytes, for every positive block size and every file below \<open>2 ^ 63\<close> bytes.
\<close>

theorem file_roundtrip:
  assumes "0 < b" "length fbs < 2 ^ 63"
  shows "\<exists>ba1 ba2. readFromFile (Some fbs) (ByteArray_new heap b) = (Inr True, ba1) \<and>
     setPosition 0 ba1 = (Inr (), ba2) \<and> writeToFile True ba2 = Inr (Some fbs)"
proof -
  obtain ba1 where ba1: "readFromFile (Some fbs) (ByteArray_new heap b) = (Inr True, ba1)" "ba_inv ba1" "written ba1 = fbs"
    using readFromFile_ok [OF ba_inv_new [OF assms(1)], of fbs] by (auto simp: unread_new)
  then have "m_size ba1 = length fbs" using length_written [of ba1] by simp
  moreover obtain ba2 where "setPosition 0 ba1 = (Inr (), ba2)" "ba_inv ba2" "m_position ba2 = 0"
    "m_size ba2 = m_size ba1" "contents ba2 = contents ba1"
    using setPosition_ok [of ba1 0] ba1(2) by (auto simp: ba_inv_def)
  ultimately show ?thesis
    using writeToFile_unread [of ba2] ba1 assms(2) by (auto simp: unread_def written_def)
qed

theorem file_roundtrip_witness:
  "\<exists>ba1 ba2. readFromFile (Some [7, 8, 9]) (ByteArray_new (\<lambda>_ _. 0) 2) = (Inr True, ba1) \<and>
     setPosition 0 ba1 = (Inr (), ba2) \<and> writeToFile True ba2 = Inr (Some [7, 8, 9])"
  using file_roundtrip [of 2 "[7, 8, 9]" "\<lambda>_ _. 0"] by simp

text \<open>
  The buffers that \<^verbatim>\<open>getWriteBuffers\<close> hands to \<^verbatim>\<open>readv\<close> lie inside blocks of the chain and
  denote, in order and without overlap, exactly the requested number of bytes behind the
  position; the call only adds capacity.
\<close>

theorem getWriteBuffers_cover:
  assumes "ba_inv ba"
  shows "\<exists>iovs ba'. getWriteBuffers len ba = (Inr (len, iovs), ba') \<and> ba_inv ba' \<and>
     written ba' = written ba \<and> m_position ba' = m_position ba \<and> iovs_cover ba' (m_position ba) len iovs"
  using assms by (rule getWriteBuffers_ok)

theorem getWriteBuffers_cover_witness:
  "\<exists>iovs ba'. getWriteBuffers 5 (ByteArray_new (\<lambda>_ _. 0) 2) = (Inr (5, iovs), ba') \<and> iovs_cover ba' 0 5 iovs"
proof -
  have "ba_inv (ByteArray_new (\<lambda>_ _. 0) 2)" by (rule ba_inv_new) simp
  from getWriteBuffers_cover [OF this, of 5] show ?thesis by (auto simp: ByteArray_new_def)
qed

text \<open>
  The variable-length encoding of a 32 bit value fits the five bytes of \<^verbatim>\<open>tmp\<close> in
  \<^verbatim>\<open>writeUint32\<close>, that of a 64 bit value the ten bytes in \<^verbatim>\<open>writeUint64\<close>.
\<close>

theorem varint_fits_tmp:
  "length (varint_bytes (v :: u32)) \<le> 5 \<and> length (varint_bytes (w :: u64)) \<le> 10"
proof -
  have "unat v < 2 ^ 32" "unat w < 2 ^ 64" using unsigned_less [of v] unsigned_less [of w] by simp_all
  then show ?thesis
    using length_varint_bytes_le [of v 4] length_varint_bytes_le [of w 9] by simp
qed

section \<open>Deviations of the byte buffer\<close>

text \<open>
  After one byte of a six byte buffer with blocks of four, the position is 4: the next read
  would deliver the fifth byte.
\<close>

definition six_bytes :: bytearray where
  "six_bytes = snd (setPosition 0 (snd (ba_write [1, 2, 3, 4, 5, 6] (ByteArray_new (\<lambda>_ _. 0) 4))))"

lemma read_position_overshoots:
  "fst (readFuint8 six_bytes) = Inr 1 \<and> m_position (snd (readFuint8 six_bytes)) = 4"
  by code_simp

text \<open>The read buffers of a six byte buffer with blocks of four name the first block twice.\<close>

lemma getReadBuffers_repeats_block:
  "getReadBuffers 6 six_bytes = Inr (6, [\<lparr>iov_node = 0, iov_off = 0, iov_len = 4\<rparr>, \<lparr>iov_node = 0, iov_off = 0, iov_len = 2\<rparr>])"
  by code_simp

text \<open>A \<^verbatim>\<open>float\<close> is written with four bytes and read as a variable-length integer.\<close>

lemma float_not_roundtrip:
  "fst (write_then_read (writeFloat LINKO_LITTLE_ENDIAN) readFloat [1] (ByteArray_new (\<lambda>_ _. 0) 1)) = Inr ([0], 3)"
  by code_simp

text \<open>
  \<^verbatim>\<open>writeStringVint\<close> writes an eight byte length, \<^verbatim>\<open>readStringFVint\<close> reads a variable-length one: in
  the default byte order that is a zero, so the result is the empty string.
\<close>

lemma stringVint_not_roundtrip:
  "fst (write_then_read (writeStringVint LINKO_LITTLE_ENDIAN) readStringFVint [[65]] (ByteArray_new (\<lambda>_ _. 0) 1)) = Inr ([[]], 8)"
  by code_simp

section \<open>Timers\<close>

text \<open>
  C5. In every state a timer manager can reach through \<^verbatim>\<open>addTimer\<close>, \<^verbatim>\<open>cancel\<close>, \<^verbatim>\<open>refresh\<close>,
  \<^verbatim>\<open>reset\<close>, \<^verbatim>\<open>getNextTimer\<close> and \<^verbatim>\<open>listExpiredCb\<close>, at any times and in any order, the set is sorted
  by the current execution times and every timer with a callback is in it.  So \<^verbatim>\<open>cancel\<close> never
  erases the end iterator, and it returns true exactly for a timer that is still armed.
\<close>

theorem timers_reachable_safe:
  assumes "reachable timer_init timer_step tm"
  shows "sorted_wrt (timer_less (tm_store tm)) (m_timers tm) \<and>
    fst (cancel a tm) = Inr (t_cb (timer_at (tm_store tm) a) \<noteq> None)"
proof -
  have "tm_inv tm" using assms by (rule timer_system.reachable_inv)
  then show ?thesis using cancel_ok [of tm a] tm_invD(1) by auto
qed

theorem timers_reachable_safe_witness:
  "fst (cancel 7 (snd (addTimer 100 7 50 (Some ()) False (TimerManager_new 100)))) = Inr True"
proof -
  have "reachable timer_init timer_step (TimerManager_new 100 :: unit timer_manager)"
    by (rule reachable_init) (auto simp: timer_init_def)
  then have "reachable timer_init timer_step (snd (addTimer 100 7 50 (Some ()) False (TimerManager_new 100)))"
    by (rule reachable_step) (rule step_add, simp add: TimerManager_new_def)
  from timers_reachable_safe [OF this, of 7] show ?thesis
    by (simp add: addTimer_def addTimer_locked_fields Timer_new_def)
qed

text \<open>
  C6. \<^verbatim>\<open>listExpiredCb\<close> delivers exactly the callbacks of the timers whose time has come, in order of
  their times (all callbacks after the clock went back by more than an hour).  A recurring timer
  is armed again one period from now, a one-shot timer loses its callback and leaves the set,
  so it never fires twice; no other timer changes.
\<close>

theorem listExpiredCb_delivers_due:
  assumes "tm_inv tm" "k \<notin> set (m_timers tm)"
  shows "case listExpiredCb now_ms k tm of (cbs, tm') \<Rightarrow>
    cbs = map (\<lambda>a. t_cb (timer_at (tm_store tm) a)) (due_timers now_ms tm) \<and> tm_inv tm' \<and>
    (\<forall>a. timer_at (tm_store tm') a = (if a \<in> set (due_timers now_ms tm)
        then expired_timer now_ms (timer_at (tm_store tm) a) else timer_at (tm_store tm) a)) \<and>
    set (m_timers tm') = (set (m_timers tm) - set (due_timers now_ms tm)) \<union>
        {a \<in> set (due_timers now_ms tm). t_recurring (timer_at (tm_store tm) a)}"
  using listExpiredCb_ok [OF assms] by (simp split: prod.split)

theorem listExpiredCb_delivers_due_witness:
  "fst (listExpiredCb 160 1 (snd (addTimer 100 7 50 (Some ''f'') False (TimerManager_new 100)))) = [Some ''f'']"
proof -
  let ?tm = "snd (addTimer 100 7 50 (Some ''f'') False (TimerManager_new 100))"
  have "tm_inv ?tm" by (rule addTimer_ok [OF tm_inv_new]) (simp add: TimerManager_new_def)
  moreover have ts: "m_timers ?tm = [7]" by (simp add: addTimer_def addTimer_locked_fields TimerManager_new_def)
  moreover have "due_timers 160 ?tm = [7]"
    using ts by (simp add: due_timers_def detectClockRollover_def addTimer_def addTimer_locked_fields TimerManager_new_def Timer_new_def)
  ultimately show ?thesis
    using listExpiredCb_delivers_due [of ?tm 1 160]
    by (auto simp: addTimer_def addTimer_locked_fields Timer_new_def split: prod.splits)
qed

text \<open>
  \<^verbatim>\<open>getNextTimer\<close> is the time until the earliest timer: the largest 64 bit value without timers,
  0 when some timer is due, and otherwise the least execution time minus the current time.
\<close>

theorem getNextTimer_is_minimum:
  assumes "tm_inv tm"
  shows "fst (getNextTimer now tm) =
    (if m_timers tm = [] then 0xFFFFFFFFFFFFFFFF
     else if \<exists>a \<in> set (m_timers tm). t_next (timer_at (tm_store tm) a) \<le> now then 0
     else Min ((\<lambda>a. t_next (timer_at (tm_store tm) a)) ` set (m_timers tm)) - now)"
  using getNextTimer_least [OF assms, of now] by simp

theorem getNextTimer_is_minimum_witness:
  "fst (getNextTimer 120 (snd (addTimer 100 7 50 (Some ()) False (TimerManager_new 100)))) = 30"
proof -
  let ?tm = "snd (addTimer 100 7 50 (Some ()) False (TimerManager_new 100))"
  have "tm_inv ?tm" by (rule addTimer_ok [OF tm_inv_new]) (simp add: TimerManager_new_def)
  from getNextTimer_is_minimum [OF this, of 120] show ?thesis
    by (simp add: addTimer_def addTimer_locked_fields TimerManager_new_def Timer_new_def)
qed

section \<open>Fibers\<close>

text \<open>
  C7. In every reachable state of the fiber library, whatever sequence of constructions,
  destructions, resets, switches, yields and endings led there, \<^verbatim>\<open>Fiber::TotalFibers\<close> is the number
  of live fiber objects (as a 64 bit counter).
\<close>

theorem TotalFibers_counts_live:
  assumes "reachable fiber_start fiber_step (w, l)"
  shows "TotalFibers w = of_nat (card (dom (fw_fibers w)))"
  using fiber_system.reachable_inv [OF assms] by (simp add: TotalFibers_def fiber_count_ok_def)

theorem TotalFibers_counts_live_witness:
  "TotalFibers (fst (snd (Fiber_new 1024 5 (Some ()) 0 False (fiber_world_init, fiber_tls_init)))) = 1"
proof -
  let ?s = "snd (Fiber_new 1024 5 (Some ()) 0 False (fiber_world_init, fiber_tls_init))"
  have "reachable fiber_start fiber_step (fiber_world_init :: unit fiber_world, fiber_tls_init)"
    by (rule reachable_init) (simp add: fiber_start_def)
  then have "reachable fiber_start fiber_step ?s"
    by (rule reachable_step) (rule st_new, simp add: fiber_world_init_def)
  then have "reachable fiber_start fiber_step (fst ?s, snd ?s)" by simp
  from TotalFibers_counts_live [OF this] show ?thesis
    by (simp add: Fiber_new_def set_fiber_def fiber_world_init_def Let_def)
qed

text \<open>
  C8. The life of a task fiber between two scheduler switches: \<^verbatim>\<open>swapIn\<close> of a fiber that is not
  executing gives it the thread and marks it \<^verbatim>\<open>EXEC\<close>; when it then yields to ready, yields to
  hold, returns or throws, the thread is back at the scheduler's fiber and the state is \<^verbatim>\<open>READY\<close>,
  \<^verbatim>\<open>HOLD\<close>, \<^verbatim>\<open>TERM\<close> or \<^verbatim>\<open>EXCEPT\<close>; no other fiber is touched.  A fiber that is executing cannot be
  entered a second time.
\<close>

theorem fiber_switch_cycle:
  assumes "fw_fibers w a = Some f" "f_state f \<noteq> EXEC" "t_schedFiber l = Some m"
  shows "\<exists>w1 l1. swapIn a (w, l) = (Inr (), (w1, l1)) \<and> t_ctx l1 = Some a \<and> t_fiber l1 = Some a \<and>
     fw_fibers w1 = (fw_fibers w)(a \<mapsto> f\<lparr>f_state := EXEC\<rparr>) \<and>
     fst (swapIn a (w1, l2)) = Inl Assertion \<and>
     (\<forall>(op, f') \<in> {(YieldToReady fresh, f\<lparr>f_state := READY\<rparr>), (YieldToHold fresh, f\<lparr>f_state := HOLD\<rparr>),
         (MainFunc_end False fresh, f\<lparr>f_cb := None, f_state := TERM_st\<rparr>), (MainFunc_end True fresh, f\<lparr>f_state := EXCEPT\<rparr>)}.
       \<exists>w2 l3. op (w1, l1) = (Inr (), (w2, l3)) \<and> t_ctx l3 = Some m \<and> t_fiber l3 = Some m \<and>
         fw_fibers w2 = (fw_fibers w)(a \<mapsto> f'))"
proof -
  let ?w1 = "set_fiber a (f\<lparr>f_state := EXEC\<rparr>) w" and ?l1 = "l\<lparr>t_fiber := Some a, t_ctx := Some a\<rparr>"
  have w1: "fw_fibers ?w1 a = Some (f\<lparr>f_state := EXEC\<rparr>)" by (simp add: set_fiber_def)
  have "fst (swapIn a (?w1, l2)) = Inl Assertion" by (rule swapIn_running [OF w1]) simp
  moreover have l1: "t_fiber ?l1 = Some a" "t_schedFiber ?l1 = Some m" using assms(3) by simp_all
  moreover note swapIn_ok [OF assms] yield_ok [OF l1(1) w1 l1(2)]
  ultimately show ?thesis
    by (intro exI [of _ ?w1] exI [of _ ?l1]) (simp add: set_fiber_def finish_state_def)
qed

theorem fiber_switch_cycle_witness:
  "\<exists>w1 l1. swapIn 5 (fst (snd (Fiber_new 1024 5 (Some ()) 0 False (fiber_world_init, fiber_tls_init))),
       fiber_tls_init\<lparr>t_schedFiber := Some 1\<rparr>) = (Inr (), (w1, l1)) \<and> t_ctx l1 = Some 5"
proof -
  let ?w = "fst (snd (Fiber_new 1024 5 (Some ()) 0 False (fiber_world_init, fiber_tls_init)))"
  obtain f where f: "fw_fibers ?w 5 = Some f" "f_state f = INIT"
    by (simp add: Fiber_new_def set_fiber_def Let_def)
  then have "f_state f \<noteq> EXEC" by simp
  moreover have "t_schedFiber (fiber_tls_init\<lparr>t_schedFiber := Some 1\<rparr>) = Some 1" by simp
  ultimately show ?thesis using fiber_switch_cycle [OF f(1)] by blast
qed

section \<open>The scheduler\<close>



lemma stopping_misses_ready_fiber:
  "\<exists>(sc :: unit scheduler) w wk f. reachable sched_init sched_step (sc, w, [wk]) \<and> stopping sc \<and>
     w_pc wk = Fiber_ready f \<and> state_of w f = READY \<and> m_fibers sc = []"
proof (intro exI conjI)
  show "reachable sched_init sched_step (race_sched [] 0 True, race_world READY, [race_worker (Fiber_ready 5) 1])"
    by (rule stopping_before_requeue)
qed (simp_all add: stopping_def race_defs)

text \<open>
  C10. Taking a task: from a queue of proper tasks a thread gets the first one that is bound to it
  or to no thread and whose fiber is not executing; the rest of the queue keeps its order, the
  assertion of the loop never fails, and other threads are woken exactly when a task of theirs
  was skipped.
\<close>

theorem take_task_is_first_eligible:
  assumes "\<forall>ft \<in> set q. ft_fiber ft \<noteq> None \<or> ft_cb ft \<noteq> None"
  shows "\<exists>tick ft rest. take_task tid st q = Inr (tick, ft, rest) \<and>
     (case ft of
        None \<Rightarrow> rest = q \<and> (\<forall>it \<in> set q. \<not> eligible tid st it) \<and>
          (tick \<longleftrightarrow> (\<exists>it \<in> set q. ft_thread it \<noteq> - 1 \<and> ft_thread it \<noteq> tid))
      | Some it \<Rightarrow> \<exists>pre post. q = pre @ it # post \<and> rest = pre @ post \<and> eligible tid st it \<and>
          (\<forall>x \<in> set pre. \<not> eligible tid st x) \<and>
          (tick \<longleftrightarrow> (\<exists>x \<in> set pre. ft_thread x \<noteq> - 1 \<and> ft_thread x \<noteq> tid)))"
  using assms by (rule take_task_first)

theorem take_task_is_first_eligible_witness:
  "\<exists>tick ft rest. take_task 7 (\<lambda>_. INIT) [FiberAndThread_cb (Some ()) 8, FiberAndThread_cb (Some ()) (- 1)] = Inr (tick, ft, rest)
     \<and> ft \<noteq> None"
proof -
  let ?q = "[FiberAndThread_cb (Some ()) 8, FiberAndThread_cb (Some ()) (- 1)]"
  have q: "\<forall>ft \<in> set ?q. ft_fiber ft \<noteq> None \<or> ft_cb ft \<noteq> None" by (simp add: FiberAndThread_cb_def)
  have "eligible 7 (\<lambda>_. INIT) (?q ! 1)" by (simp add: eligible_def FiberAndThread_cb_def)
  then have el: "\<not> (\<forall>it \<in> set ?q. \<not> eligible 7 (\<lambda>_. INIT) it)" by simp
  from take_task_is_first_eligible [OF q, of 7 "\<lambda>_. INIT"]
  show ?thesis
  proof (elim exE conjE)
    fix tick ft rest
    assume run: "take_task 7 (\<lambda>_. INIT) ?q = Inr (tick, ft, rest)"
      and res: "case ft of
        None \<Rightarrow> rest = ?q \<and> (\<forall>it \<in> set ?q. \<not> eligible 7 (\<lambda>_. INIT) it) \<and>
          (tick \<longleftrightarrow> (\<exists>it \<in> set ?q. ft_thread it \<noteq> - 1 \<and> ft_thread it \<noteq> 7))
      | Some it \<Rightarrow> \<exists>pre post. ?q = pre @ it # post \<and> rest = pre @ post \<and> eligible 7 (\<lambda>_. INIT) it \<and>
          (\<forall>x \<in> set pre. \<not> eligible 7 (\<lambda>_. INIT) x) \<and>
          (tick \<longleftrightarrow> (\<exists>x \<in> set pre. ft_thread x \<noteq> - 1 \<and> ft_thread x \<noteq> 7))"
    have "ft \<noteq> None"
    proof
      assume "ft = None"
      note res [unfolded this option.case]
      then have "\<forall>it \<in> set ?q. \<not> eligible 7 (\<lambda>_. INIT) it" by blast
      with el show False ..
    qed
    with run show ?thesis by blast
  qed
qed

section \<open>Descriptor contexts\<close>

text \<open>
  C11. The descriptor manager is a map from descriptors to contexts: for any non-negative
  descriptor, however far beyond the vector, \<^verbatim>\<open>get\<close> with creation returns the context that is
  there or makes a fresh one and enters it, \<^verbatim>\<open>get\<close> without creation only looks up, \<^verbatim>\<open>del\<close> removes,
  no other descriptor is affected and no access leaves the vector.
\<close>

theorem fd_manager_is_map:
  assumes "fm_inv fm" "0 \<le> fd"
  shows "fd_get a fd False (k, fm) = (Inr (fd_lookup fm fd), (k, fm)) \<and>
    (\<forall>b. fd_lookup fm fd = Some b \<longrightarrow> fd_get a fd True (k, fm) = (Inr (Some b), (k, fm))) \<and>
    (fd_lookup fm fd = None \<longrightarrow> (\<exists>k' fm' ctx. fd_get a fd True (k, fm) = (Inr (Some a), (k', fm')) \<and> fm_inv fm' \<and>
       FdCtx_new k fd = (k', ctx) \<and> fm_store fm' = (fm_store fm)(a \<mapsto> ctx) \<and> fd_lookup fm' = (fd_lookup fm)(fd := Some a))) \<and>
    (\<exists>fm'. fd_del fd fm = (Inr (), fm') \<and> fm_inv fm' \<and> fd_lookup fm' = (fd_lookup fm)(fd := None))"
proof -
  note get = fd_get_ok [OF assms, where a = a and k = k]
  have "fd_get a fd False (k, fm) = (Inr (fd_lookup fm fd), (k, fm))"
    using get [where auto_create = False] by (cases "fd_lookup fm fd") simp_all
  moreover have "fd_get a fd True (k, fm) = (Inr (Some b), (k, fm))" if "fd_lookup fm fd = Some b" for b
    using get [where auto_create = True] that by simp
  moreover have "fd_get a fd True (k, fm) = get_new a fd (k, fm)" if "fd_lookup fm fd = None"
    using get [where auto_create = True] that by simp
  ultimately show ?thesis using get_new_ok [OF assms, of a k] fd_del_ok [OF assms] by simp metis
qed

theorem fd_manager_is_map_witness:
  "\<exists>k' fm'. fd_get 9 100 True (\<lparr>k_stat = (\<lambda>_. Some True), k_flags = (\<lambda>_. 0), k_setfl = linux_setfl\<rparr>, FdManager_new) = (Inr (Some 9), (k', fm'))"
  using fd_manager_is_map [OF fm_inv_new(1), of 100 9 "\<lparr>k_stat = (\<lambda>_. Some True), k_flags = (\<lambda>_. 0), k_setfl = linux_setfl\<rparr>"]
  by (auto simp: fm_inv_new)

section \<open>The event loop\<close>

text \<open>
  C12. In every reachable state of the event manager, under any successes and failures of
  \<^verbatim>\<open>epoll_ctl\<close> and any reported events, the pending counter is the number of registered events, the
  kernel waits for exactly the registered events of each descriptor, and an event context holds a
  scheduler and one of a callback and a fiber if its event is registered and is empty otherwise.
\<close>

theorem events_consistent:
  assumes "reachable io_init io_step io"
  shows "m_pendingEventCount io = sum_list (map evcount (m_fdContexts io)) \<and> io_epoll io = interest io \<and>
    (\<forall>i < length (m_fdContexts io).
      half_ok (fc_events (m_fdContexts io ! i) AND READ \<noteq> 0) (fc_read (m_fdContexts io ! i)) \<and>
      half_ok (fc_events (m_fdContexts io ! i) AND WRITE \<noteq> 0) (fc_write (m_fdContexts io ! i)))"
  using io_system.reachable_inv [OF assms] by (auto simp: io_inv_def io_core_def fdc_ok_def)

theorem events_consistent_witness:
  "\<exists>io'. addEvent True (Some 1) (3, True) 7 READ (Some ()) IOManager_new = (Inr 0, io') \<and>
     m_pendingEventCount io' = sum_list (map evcount (m_fdContexts io'))"
proof -
  have len: "length (m_fdContexts (IOManager_new :: unit iomanager)) = 32" by (simp add: IOManager_new_def contextResize_def)
  moreover have "fc_events (m_fdContexts (IOManager_new :: unit iomanager) ! 7) = 0"
    by (simp add: IOManager_new_def contextResize_def FdContext_new_def NONE_def)
  ultimately obtain io' :: "unit iomanager" where
    run: "addEvent True (Some 1) (3, True) 7 READ (Some ()) IOManager_new = (Inr 0, io')"
    using addEvent_ok [OF io_inv_new, of READ 7 "Some 1" 1 "(3, True)" 3 True "Some ()"] by auto
  have "reachable io_init io_step (IOManager_new :: unit iomanager)"
    by (rule reachable_init) (simp add: io_init_def)
  then have "reachable io_init io_step io'"
    by (rule reachable_step) (rule io_step.add [OF _ _ _ run], simp_all add: len)
  from events_consistent [OF this] show ?thesis using run by blast
qed

text \<open>
  C13. What one reported event does, exactly: when none of the ready events is registered nothing
  happens; when all of them are, each one's callback or fiber is scheduled once, on the scheduler
  it was registered with, reading before writing, the counter goes down and the descriptor keeps
  waiting for the rest; when one is registered and another is not (another thread deleted it after
  \<^verbatim>\<open>epoll_wait\<close> returned), the assertion in \<^verbatim>\<open>triggerEvent\<close> fails.
\<close>

theorem process_event_exact:
  assumes "io_inv io" "i < length (m_fdContexts io)"
    "c = m_fdContexts io ! i" "r = ready_read revents (fc_events c)" "w = ready_write revents (fc_events c)"
  shows "if (r \<and> fc_events c AND READ \<noteq> 0) \<or> (w \<and> fc_events c AND WRITE \<noteq> 0)
    then if (r \<longrightarrow> fc_events c AND READ \<noteq> 0) \<and> (w \<longrightarrow> fc_events c AND WRITE \<noteq> 0)
      then \<exists>io'. process_event True i revents io = (Inr (), io') \<and> io_inv io' \<and>
        io_scheduled io' = io_scheduled io @ fired r w c \<and>
        m_pendingEventCount io' = m_pendingEventCount io - of_bool r - of_bool w \<and>
        fc_events (m_fdContexts io' ! i) = remaining_events r w (fc_events c)
      else fst (process_event True i revents io) = Inl Assertion
    else process_event True i revents io = (Inr (), io)"
  unfolding assms(3-5) using assms(1,2) by (rule process_event_cases)

theorem process_event_exact_witness:
  "process_event True 7 EPOLLIN (IOManager_new :: unit iomanager) = (Inr (), IOManager_new)"
proof -
  have len: "7 < length (m_fdContexts (IOManager_new :: unit iomanager))" by (simp add: IOManager_new_def contextResize_def)
  have "fc_events (m_fdContexts (IOManager_new :: unit iomanager) ! 7) = 0"
    by (simp add: IOManager_new_def contextResize_def FdContext_new_def NONE_def)
  then show ?thesis
    using process_event_exact [OF io_inv_new len refl refl refl, of EPOLLIN] by simp
qed

text \<open>
  C14. \<^verbatim>\<open>cancelEvent\<close> and \<^verbatim>\<open>cancelAll\<close> deliver before they remove: a registered event that is cancelled
  has its callback or fiber scheduled exactly once, on its own scheduler, and is gone afterwards;
  cancelling what is not registered changes nothing; neither ever fails an assertion.
\<close>

theorem cancel_delivers:
  assumes "io_inv io" "event = READ \<or> event = WRITE" "0 \<le> fd" "fd < int (length (m_fdContexts io))"
    "c = m_fdContexts io ! nat fd"
  shows "(if fc_events c AND event \<noteq> 0
      then \<exists>io'. cancelEvent True fd event io = (Inr True, io') \<and> io_inv io' \<and>
        io_scheduled io' = io_scheduled io @ [task_of (half event c)] \<and>
        fc_events (m_fdContexts io' ! nat fd) = fc_events c AND NOT event
      else cancelEvent True fd event io = (Inr False, io)) \<and>
    (if fc_events c \<noteq> 0
      then \<exists>io'. cancelAll True fd io = (Inr True, io') \<and> io_inv io' \<and>
        io_scheduled io' = io_scheduled io @ fired (fc_events c AND READ \<noteq> 0) (fc_events c AND WRITE \<noteq> 0) c \<and>
        fc_events (m_fdContexts io' ! nat fd) = 0
      else cancelAll True fd io = (Inr False, io))"
proof -
  have i: "nat fd < length (m_fdContexts io)" using assms(3,4) by linarith
  show ?thesis
    using cancelEvent_ok [OF assms(1,2), of True fd] cancelAll_ok [OF assms(1), of True fd] assms(3,4) i
    unfolding assms(5) by auto
qed

theorem cancel_delivers_witness:
  "cancelAll True 7 (IOManager_new :: unit iomanager) = (Inr False, IOManager_new)"
proof -
  let ?io = "IOManager_new :: unit iomanager"
  have len: "(0 :: int) \<le> 7" "7 < int (length (m_fdContexts ?io))" by (simp_all add: IOManager_new_def contextResize_def)
  have "fc_events (m_fdContexts ?io ! nat 7) = 0"
    by (simp add: IOManager_new_def contextResize_def FdContext_new_def NONE_def)
  then show ?thesis using cancel_delivers [OF io_inv_new disjI1 [OF refl] len refl] by simp
qed

text \<open>
  C15. The time the idle loop waits: for timeouts below \<open>2 ^ 31\<close> milliseconds and for the value that
  means no timer, \<^verbatim>\<open>epoll_wait\<close> gets a wait between 0 and 3000 milliseconds, and exactly the
  timeout when it is at most 3000.
\<close>

theorem idle_wait_bounded:
  assumes "t < 2 ^ 31 \<or> t = - 1"
  shows "0 \<le> idle_timeout t \<and> idle_timeout t \<le> 3000 \<and> (t \<le> 3000 \<longrightarrow> idle_timeout t = uint t)"
  using assms by (rule idle_timeout_bounds)

theorem idle_wait_bounded_witness: "idle_timeout 250 = 250"
proof -
  have "(250 :: u64) < 2 ^ 31 \<or> (250 :: u64) = - 1" by code_simp
  from idle_wait_bounded [OF this] show ?thesis by simp
qed

text \<open>
  Beyond that the truncation to \<^verbatim>\<open>int\<close> can make the wait negative, that is endless, although a
  timer is pending; and a descriptor that one resize does not reach is accessed out of bounds.
\<close>

lemma idle_wait_endless: "idle_timeout 0x80000000 = - 2147483648"
  by code_simp

lemma addEvent_out_of_bounds:
  "fst (addEvent True (Some 1) (3, True) 60 READ (None :: unit option) IOManager_new) = Inl Undefined"
  by (simp add: addEvent_def IOManager_new_def contextResize_def)

section \<open>Hooked system calls\<close>

text \<open>
  C16. A hooked call on a blocking socket behaves like the blocking call: while the descriptor can
  be waited for and no timeout fires, the caller gets the first result that is neither \<^verbatim>\<open>EINTR\<close> nor
  \<^verbatim>\<open>EAGAIN\<close>, however many of those come before.
\<close>

theorem do_io_like_blocking:
  assumes "m_isSocket c" "\<not> m_isClosed c" "\<not> m_userNonblock c"
    and "\<forall>r \<in> set pre. blocked r" "\<not> blocked r"
    and "length (filter (\<lambda>r. r = (- 1, EAGAIN)) pre) \<le> length ws" "\<forall>w \<in> set ws. w = Woken False"
  shows "fst (do_io True (Some c) timeout_so (pre @ r # rest) ws) = Some r"
  using assms(1-3) do_io_retry_transparent [OF assms(4-7)] by (simp add: do_io_def)

definition plain_socket :: fdctx where
  "plain_socket = \<lparr>m_isInit = True, m_isSocket = True, m_sysNonblock = True, m_userNonblock = False,
     m_isClosed = False, m_fd = 5, m_recvTimeout = 100, m_sendTimeout = - 1\<rparr>"

theorem do_io_like_blocking_witness:
  "fst (do_io True (Some plain_socket) SO_RCVTIMEO ([(- 1, EINTR), (- 1, EAGAIN)] @ (12, 0) # []) [Woken False]) = Some (12, 0)"
  by (rule do_io_like_blocking) (simp_all add: plain_socket_def blocked_def errno_defs)

text \<open>
  C17. Whatever the original call and the waits do, a hooked call on a blocking socket that returns
  gives a genuine result of the original call, or the error of a failed event registration, or
  \<^verbatim>\<open>ETIMEDOUT\<close>, the last only when a timeout is set and its timer fired; and it has cancelled
  every timer it armed.
\<close>

theorem do_io_results:
  assumes "m_isSocket c" "\<not> m_isClosed c" "\<not> m_userNonblock c"
    and "do_io True (Some c) timeout_so rs ws = (Some (n, err), acts)"
  shows "(((n, err) \<in> set rs \<and> \<not> blocked (n, err)) \<or> (n = - 1 \<and> Add_failed err \<in> set ws) \<or>
     (n = - 1 \<and> err = ETIMEDOUT \<and> getTimeout timeout_so c \<noteq> - 1 \<and> Woken True \<in> set ws)) \<and>
     length (filter (\<lambda>a. a = Cancel_timer) acts) = length (filter (\<lambda>a. \<exists>t. a = Add_timer t) acts)"
proof -
  have run: "do_io_retry (getTimeout timeout_so c) rs ws = (Some (n, err), acts)"
    using assms by (simp add: do_io_def)
  show ?thesis using do_io_retry_results [OF run] do_io_retry_timers [OF run] by blast
qed

theorem do_io_results_witness:
  "\<exists>err acts. do_io True (Some plain_socket) SO_RCVTIMEO [(- 1, EINTR), (- 1, EAGAIN)] [Woken True] = (Some (- 1, err), acts) \<and>
     err = ETIMEDOUT \<and> length (filter (\<lambda>a. a = Cancel_timer) acts) = length (filter (\<lambda>a. \<exists>t. a = Add_timer t) acts)"
proof -
  have run: "do_io True (Some plain_socket) SO_RCVTIMEO [(- 1, EINTR), (- 1, EAGAIN)] [Woken True] =
      (Some (- 1, ETIMEDOUT), [Call, Call, Add_timer 100, Add_event, Yield, Cancel_timer])"
    by code_simp
  have "m_isSocket plain_socket" "\<not> m_isClosed plain_socket" "\<not> m_userNonblock plain_socket"
    by (simp_all add: plain_socket_def)
  from do_io_results [OF this run] show ?thesis using run by blast
qed

text \<open>
  C18. The non-blocking flag is virtual.  The original \<^verbatim>\<open>fcntl\<close> is the kernel's function for \<^verbatim>\<open>F_SETFL\<close>,
  which behaves as its manual page says: a fixed set of flags with \<^verbatim>\<open>O_NONBLOCK\<close> among them is changed to
  the argument, the others keep their values.  On a hooked socket, after \<^verbatim>\<open>fcntl(F_SETFL, arg)\<close> with flags
  that the kernel accepts, \<^verbatim>\<open>fcntl(F_GETFL)\<close> returns exactly the flags that the kernel would have made of
  \<open>arg\<close> without the hook, although in the kernel \<^verbatim>\<open>O_NONBLOCK\<close> is set in any case, so that the scheduler's
  threads never block; no other descriptor's flags change.
\<close>

theorem fcntl_flags_virtual:
  assumes "get_ctx fd s = Inr (Some (a, c))" "m_isSocket c" "\<not> m_isClosed c" "m_sysNonblock c"
    and "setfl_documented fd (fst s)" "k_setfl (fst s) fd (k_flags (fst s) fd) arg = Some g"
  shows "\<exists>s'. fcntl_setfl fd arg s = (Inr 0, s') \<and> fcntl_getfl fd s' = Inr g \<and>
     k_flags (fst s') = (k_flags (fst s))(fd := or g O_NONBLOCK) \<and>
     get_ctx fd s' = Inr (Some (a, c\<lparr>m_userNonblock := and arg O_NONBLOCK \<noteq> 0\<rparr>))"
  by (rule fcntl_roundtrip [OF assms])

text \<open>On Linux, a socket opened for reading and writing that is given \<^verbatim>\<open>O_APPEND\<close> alone reports both.\<close>

theorem fcntl_flags_virtual_witness:
  "\<exists>s'. fcntl_setfl 5 0x400 (\<lparr>k_stat = (\<lambda>_. Some True), k_flags = (\<lambda>_. 0x802), k_setfl = linux_setfl\<rparr>,
      \<lparr>fm_store = [9 \<mapsto> plain_socket], m_datas = (replicate 64 None)[5 := Some 9]\<rparr>) = (Inr 0, s') \<and>
     fcntl_getfl 5 s' = Inr 0x402 \<and> k_flags (fst s') 5 = 0xC02"
proof -
  let ?k = "\<lparr>k_stat = (\<lambda>_. Some True), k_flags = (\<lambda>_. 0x802), k_setfl = linux_setfl\<rparr>"
  let ?s = "(?k, \<lparr>fm_store = [9 \<mapsto> plain_socket], m_datas = (replicate 64 None)[5 := Some 9]\<rparr>)"
  have ctx: "get_ctx 5 ?s = Inr (Some (9, plain_socket))" by (simp add: get_ctx_def fd_get_def)
  have doc: "setfl_documented 5 (fst ?s)" by (rule linux_setfl_documented) simp
  have "linux_setfl 5 0x802 0x400 = Some 0x402" by code_simp
  then have acc: "k_setfl (fst ?s) 5 (k_flags (fst ?s) 5) 0x400 = Some 0x402" by simp
  have "or 0x402 O_NONBLOCK = 0xC02" by code_simp
  with fcntl_flags_virtual [OF ctx _ _ _ doc acc] show ?thesis by (auto simp: plain_socket_def)
qed

section \<open>Socket addresses\<close>

text \<open>
  C19. The text of an IPv6 address is its eight groups in network order, whatever the byte order of
  the host: hexadecimal groups separated by colons, the first run of zero groups (and only the first)
  written as two colons, in brackets, followed by the port.
\<close>

theorem IPv6_text:
  assumes "length (s6_addr s) = 16"
  shows "IPv6_insert host s = ''['' @ ipv6_text (net_groups (s6_addr s)) @ '']:'' @ dec (IPv6_getPort host s)"
  by (rule IPv6_insert_text [OF assms])

theorem IPv6_text_witness:
  "IPv6_insert LINKO_LITTLE_ENDIAN (IPv6_new LINKO_LITTLE_ENDIAN [0xfe, 0x80, 0, 0, 0, 0, 0, 0, 0, 0, 0, 0, 0, 0, 0, 1] 8020) = ''[fe80::1]:8020''"
  by (subst IPv6_text)
    (simp_all add: IPv6_new_def IPv6_getPort_def byteswapOnLittleEndian_twice net_groups_def upt_rec word_of_be_def
      ipv6_text_def join_groups_def hex_def dec_def)

text \<open>
  C20. The comparison of addresses is a total order of their contents: of any two addresses whose length is within their
  structure exactly one is less or they are equal by \<^verbatim>\<open>operator==\<close>, and the comparison is the lexicographic order of the
  address bytes.  So are all IPv4, IPv6 and unknown addresses and the Unix addresses as they are constructed; when
  \<^verbatim>\<open>setAddrLen\<close> has made a length larger than the structure, the comparison is undefined exactly if the smaller of the two lengths
  reaches behind one of the structures.
\<close>

theorem address_order_total:
  "(if addr_within host l \<and> addr_within host r
    then address_less host l r = Inr (addr_bytes host l < addr_bytes host r) \<and>
      address_eq host l r = Inr (addr_bytes host l = addr_bytes host r) \<and>
      (address_eq host l r = Inr True \<longleftrightarrow> address_less host l r = Inr False \<and> address_less host r l = Inr False) \<and>
      \<not> (address_less host l r = Inr True \<and> address_less host r l = Inr True)
    else (address_less host l r = Inl Undefined) =
      (min (length (addr_object host l)) (length (addr_object host r)) < min (getAddrLen host l) (getAddrLen host r))) \<and>
   addr_within host (IPv4Address s4) \<and> addr_within host (IPv6Address s6) \<and> addr_within host (UnknownAddress f d) \<and>
   addr_within host (UnixAddress Unix_new) \<and> case_sum (\<lambda>e. True) (\<lambda>u. addr_within host (UnixAddress u)) (Unix_path path)"
proof -
  have "(address_less host l r = Inl Undefined) =
      (min (length (addr_object host l)) (length (addr_object host r)) < min (getAddrLen host l) (getAddrLen host r))"
    by (auto simp: address_less_def addr_memcmp_def Let_def min_less_iff_disj)
  then show ?thesis
    by (auto simp: address_less_bytes address_eq_bytes bytes_less_lex addr_within_cases split: sum.split)
qed

text \<open>
  The mask made for a prefix length is undefined for 0 and otherwise two below the mask of that
  many leading ones, so it is never the prefix mask; \<^verbatim>\<open>CountBytes\<close> counts the set bits of its argument.
\<close>

theorem CreateMask_deviation:
  assumes "bits \<le> 32"
  shows "CreateMask bits = (if bits = 0 then Inl Undefined else Inr (- (2 ^ (32 - bits)) - 2 :: u32)) \<and>
    CreateMask bits \<noteq> Inr (- (2 ^ (32 - bits)) :: u32)"
  using assms by (cases "bits = 0") (simp_all add: CreateMask_zero CreateMask_u32)

theorem CreateMask_deviation_witness:
  "CreateMask 24 = (Inr 0xFFFFFEFE :: cpp_error + u32) \<and> (0xFFFFFEFE :: u32) \<noteq> 0xFFFFFF00"
  using CreateMask_deviation [of 24] by simp

lemma CountBytes_of_prefix_mask: "CountBytes (0xFFFFFF00 :: u32) = 24"
  by code_simp

text \<open>
  The lookup of a host asks the resolver for the right node and service: \<^verbatim>\<open>node:port\<close> without other colons,
  \<^verbatim>\<open>[node]:port\<close>, and both without a port; all results are turned into addresses in their order.
\<close>

theorem Lookup_asks:
  assumes "node \<noteq> []" "NUL \<notin> set node" "NUL \<notin> set port" "CHR '']'' \<notin> set node"
  shows "(hd node \<noteq> CHR ''['' \<and> CHR '':'' \<notin> set node \<and> CHR '':'' \<notin> set port \<longrightarrow>
       Address_Lookup gai (node @ '':'' @ port) = map_option (map (\<lambda>s. Address_Create (Some s))) (gai node (Some port)) \<and>
       Address_Lookup gai node = map_option (map (\<lambda>s. Address_Create (Some s))) (gai node None)) \<and>
     Address_Lookup gai (''['' @ node @ '']:'' @ port) = map_option (map (\<lambda>s. Address_Create (Some s))) (gai node (Some port)) \<and>
     Address_Lookup gai (''['' @ node @ '']'') = map_option (map (\<lambda>s. Address_Create (Some s))) (gai node None)"
proof -
  have cstr: "cstr node = node" "cstr port = port"
    using assms(2,3) by (auto simp: cstr_def takeWhile_eq_all_conv)
  have lookup: "split_host h = (node, service) \<Longrightarrow> Address_Lookup gai h =
      map_option (map (\<lambda>s. Address_Create (Some s))) (gai node (map_option cstr service))" for h service
    by (simp add: Address_Lookup_def cstr split: option.split)
  show ?thesis
    using split_host_v4(1) [OF assms(1), of port] split_host_v4(2) [OF assms(1)]
      split_host_v6(1) [OF assms(1,4), of port] split_host_v6(2) [OF assms(1,4)]
    by (auto simp: cstr lookup)
qed

theorem Lookup_asks_witness:
  "Address_Lookup (\<lambda>n s. if n = ''::1'' \<and> s = Some ''80'' then Some [Sa_in6 (IPv6_new LINKO_BIG_ENDIAN (replicate 15 0 @ [1]) 80)] else None)
     ''[::1]:80'' = Some [Some (IPv6Address (IPv6_new LINKO_BIG_ENDIAN (replicate 15 0 @ [1]) 80))]"
  using Lookup_asks [of "''::1''" "''80''"
      "\<lambda>n s. if n = ''::1'' \<and> s = Some ''80'' then Some [Sa_in6 (IPv6_new LINKO_BIG_ENDIAN (replicate 15 0 @ [1]) 80)] else None"]
  by (simp add: Address_Create_def NUL_def)

section \<open>HTTP requests\<close>

text \<open>
  Method names and methods agree: the text of every method is read back as that method, and a
  buffer that starts with a method's text is taken for that method whatever follows.
\<close>

theorem method_names_roundtrip:
  assumes "m \<noteq> INVALID_METHOD"
  shows "StringToHttpMethod (HttpMethodToString m) = m \<and> CharsToHttpMethod (HttpMethodToString m @ rest) = m"
  using method_string_roundtrip CharsToHttpMethod_prefix [OF assms] by simp

theorem method_names_roundtrip_witness: "CharsToHttpMethod ''GETTER'' = GET \<and> StringToHttpMethod ''GETTER'' = INVALID_METHOD"
proof -
  have "CharsToHttpMethod (HttpMethodToString GET @ ''TER'') = GET" using method_names_roundtrip by simp
  moreover have "HttpMethodToString GET = ''GET''" by code_simp
  moreover have "StringToHttpMethod ''GETTER'' = INVALID_METHOD" by code_simp
  ultimately show ?thesis by simp
qed

text \<open>
  C21. The headers of a request are a finite map from case insensitive names: setting and deleting a
  header are map updates at the lower case name, reading is a lookup there, and both keep the order
  that the lookups rely on.
\<close>

theorem headers_refine_map:
  assumes "request_ok r"
  shows "header_map (rq_headers (setHeader k v r)) = (header_map (rq_headers r))(lower k \<mapsto> v) \<and>
     header_map (rq_headers (delHeader k r)) = (header_map (rq_headers r))(lower k := None) \<and>
     getHeader k def r = (case header_map (rq_headers r) (lower k) of None \<Rightarrow> def | Some w \<Rightarrow> w) \<and>
     request_ok (setHeader k v r) \<and> request_ok (delHeader k r)"
  using assms request_ok_set [OF assms]
  by (simp add: setHeader_def delHeader_def getHeader_def header_map_assign header_map_erase map_get_lower request_ok_def)

theorem headers_refine_map_witness:
  "getHeader ''HOST'' [] (setHeader ''Host'' ''a'' (new_HttpRequest 0x11 True)) = ''a''"
proof -
  have ok: "request_ok (setHeader ''Host'' ''a'' (new_HttpRequest 0x11 True))" by (simp add: request_ok_set)
  have "lower ''HOST'' = lower ''Host''" by code_simp
  then show ?thesis
    using headers_refine_map [OF ok, of "''HOST''" _ "[]"] headers_refine_map [of "new_HttpRequest 0x11 True" "''Host''" "''a''"] by simp
qed


definition example_request :: HttpRequest where
  "example_request = (new_HttpRequest 0x11 True)\<lparr>rq_method := POST, rq_path := ''/a%20b'', rq_query := ''q=1'',
     rq_headers := [(''Host'', ''x.org'')], rq_body := ''hi''\<rparr>"

lemma example_request_ok:
  "printable example_request" "request_ok example_request" "length (request_dump example_request) < 4096"
proof -
  have fields: "rq_method example_request = POST" "rq_version example_request = 0x11" "rq_path example_request = ''/a%20b''"
    "rq_query example_request = ''q=1''" "rq_fragment example_request = []" "rq_headers example_request = [(''Host'', ''x.org'')]"
    "rq_body example_request = ''hi''" "rq_close example_request"
    by (simp_all add: example_request_def new_HttpRequest_def)
  have "path_ok ''/a%20b''" "url_text query_char ''q=1''" "name_ok ''Host''" "value_ok ''x.org''" by code_simp+
  moreover have short: "length (request_dump example_request) < 4096"
    by (simp add: request_dump_def fields version_text_def dec_def HttpMethodToString_def HTTP_METHOD_MAP_def connection_line_def
        header_lines_def is_connection_def cstr_def NUL_def low_def body_text_def crlf_def)
  ultimately show "printable example_request" by (simp add: printable_def fields)
  show "request_ok example_request"
    by (simp add: request_ok_def example_request_def new_HttpRequest_def header_order.keys_sorted_def)
  show "length (request_dump example_request) < 4096" by (rule short)
qed


text \<open>
  C23. On any input the request parser's assertions hold: from a state of the machine, with the body
  offset within the buffer, an execution returns, consumes at most the input, leaves the parser in a
  state of the machine, and stops early only when the request is finished or in error.
\<close>

theorem http_parser_execute_total:
  assumes "0 < len" "len < 2 ^ 31" "len \<le> length buffer" "parser_cs ps \<le> 349" "body_start ps \<le> len"
  shows "\<exists>n ps' evs. http_parser_execute ps buffer len 0 = Inr (n, ps', evs) \<and> n \<le> len \<and> parser_cs ps' \<le> 349 \<and>
    (n < len \<longrightarrow> http_parser_finish ps' \<noteq> 0)"
  using http_parser_execute_ok [OF assms] by (fastforce simp: http_parser_finish_def)

theorem http_parser_execute_total_witness:
  "\<forall>memory. \<exists>n ps' evs. http_parser_execute (http_parser_init memory) ''xyz'' 3 0 = Inr (n, ps', evs) \<and> n \<le> 3"
  (is "\<forall>memory. ?P memory")
proof
  fix memory
  show "?P memory"
    using http_parser_execute_total [of 3 "''xyz''" "http_parser_init memory"]
    by (auto simp: http_parser_init_def http_parser_start_def)
qed

text \<open>
  C24. A request whose first read ends inside the method word is parsed as if that read had never been:
  for any split of a word of fewer than 20 method characters into two non-empty parts and anything behind it,
  the first read is consumed without error and without finishing, and from then on the second read, whatever
  follows the space behind the word, gives exactly what a new parser makes of it, in every part of the result:
  offset, buffer, parser, request and error.  The mark is reset to the start of the new buffer, so the method
  is taken from the second part alone.
\<close>

theorem split_request_forgotten:
  assumes "\<And>c. c \<in> set a \<Longrightarrow> method_char c" "a \<noteq> []" "\<And>c. c \<in> set b \<Longrightarrow> method_char c" "b \<noteq> []" "length (a @ b) < 20"
  shows "\<exists>data rp. request_execute a (length a) (new_HttpRequestParser memory) = Inr (length a, data, rp) \<and>
     request_isFinished rp = 0 \<and> \<not> request_hasError rp \<and>
     request_execute (b @ '' '' @ rest) (length (b @ '' '' @ rest)) rp =
       request_execute (b @ '' '' @ rest) (length (b @ '' '' @ rest)) (new_HttpRequestParser memory)"
  using assms by (rule request_split_in_method)

theorem split_request_forgotten_witness:
  "\<forall>memory. \<exists>data rp. request_execute ''UN'' (length ''UN'') (new_HttpRequestParser memory) = Inr (length ''UN'', data, rp) \<and>
     request_execute (''LOCK'' @ '' '' @ ''/ HTTP/1.1'') (length (''LOCK'' @ '' '' @ ''/ HTTP/1.1'')) rp =
       request_execute (''LOCK'' @ '' '' @ ''/ HTTP/1.1'') (length (''LOCK'' @ '' '' @ ''/ HTTP/1.1'')) (new_HttpRequestParser memory)"
proof -
  have "method_char c" if "c \<in> set ''UN''" for c using that by (auto simp: method_char_def schar_def)
  moreover have "''UN'' \<noteq> []" by simp
  moreover have "method_char c" if "c \<in> set ''LOCK''" for c using that by (auto simp: method_char_def schar_def)
  moreover have "''LOCK'' \<noteq> []" "length (''UN'' @ ''LOCK'') < 20" by simp_all
  ultimately show ?thesis using split_request_forgotten [of "''UN''" "''LOCK''"] by metis
qed


section \<open>Servlets\<close>

text \<open>
  C25. Dispatch follows the registrations: after any sequence of additions and removals on a new
  dispatcher, the servlet found for a path is the one of the last registration of exactly that path when
  that was not a removal, otherwise the first live pattern, in the order of their last registrations,
  that \<^verbatim>\<open>fnmatch\<close> accepts, otherwise the last default set, at first the 404 servlet.
\<close>

theorem dispatch_refines_registrations:
  "getMatchedServlet fnmatch uri (fold register ops new_ServletDispatch) = match_spec fnmatch ops uri"
  by (rule getMatchedServlet_spec)

section \<open>URIs\<close>




text \<open>
  C27. \<^verbatim>\<open>Create\<close> returns on every string, whatever bytes it holds, a URI or a null pointer, without reading
  through a null pointer, unless the string has a colon beyond its first that announces an empty port, at its
  end or before a slash, a question mark or a hash; there it can fail.
\<close>

theorem uri_create_returns:
  "(\<not> empty_port False str \<longrightarrow> (\<exists>r. Uri_Create str = Inr r)) \<and> Uri_Create ''http://h:/x'' = Inl Undefined"
  using Uri_Create_returns Uri_Create_empty_port by blast

theorem uri_create_returns_witness: "\<exists>r. Uri_Create ''http://[::1/'' = Inr r"
proof -
  have "\<not> empty_port False ''http://[::1/''" by code_simp
  then show ?thesis using uri_create_returns [of "''http://[::1/''"] by blast
qed

section \<open>Responses\<close>

text \<open>
  C28. The client's parser reads a response head.  The head is a status line with version 1.0 or 1.1, a code and a
  non-empty reason, any number of header lines and an empty line, below \<open>2 ^ 31\<close> characters with what follows.  A header has any
  name of the characters that the grammar allows, and any value without control characters that end it, with or without
  blanks after the colon; only the three names that the machine treats itself, in any case of letters, restrict their values
  (\<open>response_header_ok\<close>): a content length is a number, and \<open>connection\<close> and \<open>transfer-encoding\<close> are not empty and do not start with
  the letter of \<open>close\<close> and \<open>chunked\<close>.  Then the head is consumed exactly, without error, and gives a response with that version,
  code and reason, whose headers are the ones of the text without the blanks before the values, the last
  one of a name counting; what follows the head is left at the front of the buffer.
\<close>

theorem response_head_read:
  assumes "v = 0x10 \<or> v = 0x11" "reason_ok reason" "code < 2 ^ 31"
    and "\<And>n v. (n, v) \<in> set hs \<Longrightarrow> response_header_ok n v"
    and "length (response_head v code reason hs @ rest) < 2 ^ 31"
  shows "\<exists>data sp. response_execute (response_head v code reason hs @ rest @ NUL # behind)
       (length (response_head v code reason hs @ rest)) False (new_HttpResponseParser memory) =
       Inr (length (response_head v code reason hs), data, sp) \<and>
     response_isFinished sp = 1 \<and> \<not> response_hasError sp \<and> take (length rest) data = rest \<and>
     rs_version (sp_data sp) = v \<and> rs_status (sp_data sp) = int code \<and> rs_reason (sp_data sp) = reason \<and>
     header_map (rs_headers (sp_data sp)) = header_map (rev (map (\<lambda>(n, v). (n, dropWhile blank v)) hs))"
proof -
  obtain data sp where run: "response_execute (response_head v code reason hs @ rest @ NUL # behind)
       (length (response_head v code reason hs @ rest)) False (new_HttpResponseParser memory) =
       Inr (length (response_head v code reason hs), data, sp)"
    "response_isFinished sp = 1" "\<not> response_hasError sp" "take (length rest) data = rest"
    "sp_data sp = head_response v code reason hs"
    using response_head_parses [OF assms, of behind memory] by blast
  then show ?thesis using head_response_fields [of v code reason hs]
    by (auto simp: stripped_headers_def stripped_def [abs_def])
qed

definition example_headers :: "(string \<times> string) list" where
  "example_headers = [(''Content-Type'', '' text/html''), (''Connection'', '' keep-alive''), (''Content-Length'', '' 2'')]"

theorem response_head_read_witness:
  "\<forall>memory. \<exists>data sp. response_execute (response_head 0x11 404 ''Not Found'' example_headers @ ''hi'' @ [NUL])
       (length (response_head 0x11 404 ''Not Found'' example_headers @ ''hi'')) False (new_HttpResponseParser memory) =
       Inr (length (response_head 0x11 404 ''Not Found'' example_headers), data, sp) \<and> rs_status (sp_data sp) = 404 \<and>
       header_map (rs_headers (sp_data sp)) (lower ''content-type'') = Some ''text/html''"
  (is "\<forall>memory. ?P memory")
proof
  fix memory
  have ok: "reason_ok ''Not Found''" "list_all (\<lambda>(n, v). response_header_ok n v) example_headers" by code_simp+
  have v: "(0x11 :: byte) = 0x10 \<or> (0x11 :: byte) = 0x11" "(404 :: nat) < 2 ^ 31" by simp_all
  have hs: "response_header_ok n v" if "(n, v) \<in> set example_headers" for n v
    using ok(2) that by (auto simp: list_all_iff)
  have len: "length (response_head 0x11 404 ''Not Found'' example_headers @ ''hi'') < 2 ^ 31"
    by (simp add: response_head_def status_line_def version_text_def dec_def header_text_def crlf_def example_headers_def)
  have "header_map (rev (map (\<lambda>(n, v). (n, dropWhile blank v)) example_headers)) (lower ''content-type'') = Some ''text/html''"
    by code_simp
  with response_head_read [OF v(1) ok(1) v(2) hs len, of "[]" memory] show "?P memory" by fastforce
qed

text \<open>
  C29. The client of the library rejects every response that its server prints: the text starts with a
  blank and has no status code, and the parser of responses stops in its error state without consuming anything.
\<close>

theorem server_responses_rejected:
  assumes "length (response_dump r) < 2 ^ 31"
  shows "\<exists>data sp. response_execute (response_dump r @ NUL # behind) (length (response_dump r)) False
       (new_HttpResponseParser memory) = Inr (0, data, sp) \<and> response_hasError sp \<and> response_isFinished sp = - 1"
  by (rule server_response_rejected [OF assms])

theorem server_responses_rejected_witness:
  "\<forall>memory. \<exists>data sp. response_execute (response_dump (new_HttpResponse 0x11 True) @ [NUL])
       (length (response_dump (new_HttpResponse 0x11 True))) False (new_HttpResponseParser memory) = Inr (0, data, sp) \<and>
     response_hasError sp"
  (is "\<forall>memory. ?P memory")
proof
  fix memory
  have "length (response_dump (new_HttpResponse 0x11 True)) < 2 ^ 31"
    by (simp add: response_dump_def new_HttpResponse_def version_text_def dec_def HttpStatusToString_def HTTP_STATUS_MAP_def
        status_OK_def header_lines_def connection_line_def body_text_def crlf_def)
  from server_responses_rejected [OF this, of "[]" memory] show "?P memory" by auto
qed

section \<open>Streams and the server\<close>

text \<open>
  C30. \<^verbatim>\<open>readFixSize\<close> over a stream that delivers bytes in any portions and then ends: it returns the length and
  has consumed exactly that many bytes when at least so many are to come, and it never returns when fewer are,
  although its callers test for an error.
\<close>

theorem readFixSize_returns:
  assumes "stream_of rd ok pending" "ok w" "len < 2 ^ 31"
  shows "case readFixSize rd buffer len w of
      Some (n, buffer', w') \<Rightarrow> len \<le> length (pending w) \<and> n = int len \<and> pending w' = drop len (pending w) \<and> ok w'
    | None \<Rightarrow> length (pending w) < len"
proof (cases "len \<le> length (pending w)")
  case True
  have "int32_of (int len) = int len"
    using assms(3) by (simp add: int32_of_def signed_of_nat signed_take_bit_int_eq_self)
  then show ?thesis using fix_read_loop_returns [OF assms(1,2) True, of buffer] True assms(3) by (auto simp: readFixSize_def)
next
  case False
  have "fix_read_loop rd buffer len w = None"
    using fix_read_loop_needs [of rd buffer len w] assms False by (cases "fix_read_loop rd buffer len w") auto
  then show ?thesis using False by (simp add: readFixSize_def)
qed

theorem readFixSize_returns_witness:
  "readFixSize (\<lambda>n w. (int (min n (min 2 (length w))), take (min n 2) w, drop (min n 2) w)) ''......'' 6 ''abcde'' = None"
proof -
  let ?rd = "\<lambda>n w. (int (min n (min 2 (length w))), take (min n 2) w, drop (min n 2) w) :: int \<times> string \<times> string"
  have "stream_of ?rd (\<lambda>_. True) (\<lambda>w. w)"
    by (auto simp: stream_of_def stream_step_def min_def)
  from readFixSize_returns [OF this, where w = "''abcde''" and len = 6 and buffer = "''......''"] show ?thesis
    by (auto split: option.splits)
qed

text \<open>
  C31. A printed request that one read delivers is served: the dispatcher is given the request that was sent,
  its method, version, path, query, fragment and connection flag and every header apart from those two, with a body that is
  as many zero bytes as the body has, followed by the body; the response the servlet leaves is written, and when the connection
  is not kept it is closed.
\<close>

theorem request_is_served:
  assumes "printable r" "request_ok r" "rq_body r = [] \<Longrightarrow> hfind ''content-length'' (rq_headers r) = None"
    and "length (request_dump r) < unat (GetHttpRequestBufferSize sizes)" "length buffer = unat (GetHttpRequestBufferSize sizes)"
    and "unat (GetHttpRequestBufferSize sizes) < 2 ^ 31"
    and "rd (unat (GetHttpRequestBufferSize sizes)) w = (int (length (request_dump r)), request_dump r, w1)"
    and "lexical_cast (dec (length (rq_body r))) = Some (of_nat (length (rq_body r)))"
    and "\<And>req. rq_method req = rq_method r \<Longrightarrow> rq_version req = rq_version r \<Longrightarrow> rq_path req = rq_path r \<Longrightarrow>
      rq_query req = rq_query r \<Longrightarrow> rq_fragment req = rq_fragment r \<Longrightarrow> rq_close req = rq_close r \<Longrightarrow>
      (\<And>key def. lower key \<noteq> lower ''connection'' \<Longrightarrow> lower key \<noteq> lower ''content-length'' \<Longrightarrow> getHeader key def req = getHeader key def r) \<Longrightarrow>
      rq_body req = replicate (length (rq_body r)) NUL @ rq_body r \<Longrightarrow>
      \<exists>req'. dispatch_handle fnmatch call (m_dispatch server)
        (req, new_HttpResponse (rq_version r) (rq_close r \<or> \<not> m_isKeepalive server), w1) = (0, req', rsp, w2) \<and>
        (\<not> m_isKeepalive server \<or> rq_close req')"
    and "wr (response_dump rsp) (length (response_dump rsp)) w2 = (int (length (response_dump rsp)), w3)"
    and "length (response_dump rsp) < 2 ^ 64"
  shows "handleClient rd wr close lexical_cast sizes memory buffer fnmatch call server w = Some (Inr (close w3))"
proof -
  have header: "getHeader key def (served_request r) = getHeader key def r"
    if "lower key \<noteq> lower ''connection''" "lower key \<noteq> lower ''content-length''" for key def
    using parsed_request_other_header [OF assms(2) that] by (simp add: served_request_def getHeader_def setClose_def setBody_def)
  obtain req' where served: "dispatch_handle fnmatch call (m_dispatch server)
      (served_request r, new_HttpResponse (rq_version r) (rq_close r \<or> \<not> m_isKeepalive server), w1) = (0, req', rsp, w2)"
    "\<not> m_isKeepalive server \<or> rq_close req'"
    using assms(9) [OF served_request_fields(1-6) header served_request_fields(7)] by blast
  have recv: "recvRequest rd close lexical_cast sizes memory buffer w = Some (Inr (Some (served_request r), w1))"
    unfolding served_request_def by (rule recvRequest_once) (use assms(1-8) in auto)
  show ?thesis
    by (rule handleClient_once [where req = "served_request r" and req' = req' and rsp = rsp and ?w1.0 = w1 and ?w2.0 = w2])
      (simp_all only: recv served served_request_fields assms(10,11))
qed

theorem request_is_served_witness:
  "\<forall>memory. handleClient (\<lambda>n (i, out). (int (min n (length i)), take n i, (drop n i, out))) (\<lambda>b n (i, out). (int n, (i, out @ take n b))) id
     (\<lambda>_. Some 2) (RequestSizeIniter 4096 64 4096 64) memory (replicate 4096 NUL) (=) (\<lambda>_ x. (0, x)) (new_HttpServer False)
     (request_dump example_request, []) =
   Some (Inr ([], response_dump (NotFound_handle (new_HttpResponse 0x11 True))))"
  (is "\<forall>memory. ?P memory")
proof
  fix memory
  let ?rsp = "NotFound_handle (new_HttpResponse 0x11 True)"
  have fields: "rq_body example_request = ''hi''" "rq_version example_request = 0x11" "rq_close example_request"
    by (simp_all add: example_request_def new_HttpRequest_def)
  have size: "unat (GetHttpRequestBufferSize (RequestSizeIniter 4096 64 4096 64)) = 4096"
    by (simp add: GetHttpRequestBufferSize_def RequestSizeIniter_def)
  have cast: "word_of_nat (length (rq_body example_request)) = (2 :: u64)" by (simp add: fields)
  have keepalive: "\<not> m_isKeepalive (new_HttpServer False)" by (simp add: new_HttpServer_def)
  have served: "dispatch_handle (=) (\<lambda>_ x. (0, x)) (m_dispatch (new_HttpServer False)) (req, rsp, w) = (0, req, NotFound_handle rsp, w)"
    for req :: HttpRequest and rsp and w :: "string \<times> string"
    by (simp add: dispatch_handle_def new_HttpServer_def new_ServletDispatch_def getMatchedServlet_def servlet_handle_def)
  have printed: "length (response_dump ?rsp) < 2 ^ 64"
  proof -
    have "length (response_dump ?rsp) < 1000" by code_simp
    then show ?thesis by simp
  qed
  have "handleClient (\<lambda>n (i, out). (int (min n (length i)), take n i, (drop n i, out))) (\<lambda>b n (i, out). (int n, (i, out @ take n b))) id
     (\<lambda>_. Some 2) (RequestSizeIniter 4096 64 4096 64) memory (replicate 4096 NUL) (=) (\<lambda>_ x. (0, x)) (new_HttpServer False)
     (request_dump example_request, []) = Some (Inr (id ([], response_dump ?rsp)))"
    by (rule request_is_served [where r = example_request and rsp = ?rsp and sizes = "RequestSizeIniter 4096 64 4096 64" and ?w1.0 = "([], [])" and ?w2.0 = "([], [])", unfolded size])
     (use printed in \<open>simp_all add: example_request_ok less_imp_le served fields cast keepalive\<close>)
  then show "?P memory" by simp
qed

section \<open>Sockets\<close>


text \<open>A system with one free descriptor, 3, on which everything but \<^verbatim>\<open>accept\<close> succeeds.\<close>

definition example_sys :: "int list sys_calls" where
  "example_sys = \<lparr>sys_fds = \<lambda>_. (\<lparr>k_stat = \<lambda>_. None, k_flags = \<lambda>_. 0, k_setfl = linux_setfl\<rparr>, FdManager_new),
     sys_socket = \<lambda>f t p k. if 3 \<in> set k then (- 1, k) else (3, 3 # k), sys_bind = \<lambda>fd a k. (0, k),
     sys_connect = \<lambda>fd a k. (0, k), sys_connect_timeout = \<lambda>fd a t k. (0, k), sys_listen = \<lambda>fd n k. (0, k),
     sys_accept = \<lambda>fd k. (- 1, k), sys_close = \<lambda>fd k. removeAll fd k, sys_setsockopt = \<lambda>fd l opt v k. (0, k),
     sys_getsockopt = \<lambda>fd l opt k. (0, 0, k), sys_getpeername = \<lambda>fd k. None, sys_getsockname = \<lambda>fd k. None,
     sys_send = \<lambda>fd b fl k. (int (length b), k), sys_sendto = \<lambda>fd b fl a k. (int (length b), k),
     sys_sendmsg = \<lambda>fd b a fl k. (0, k), sys_recv = \<lambda>fd n fl k. (0, [], k), sys_recvfrom = \<lambda>fd n fl k. (0, [], id, k),
     sys_recvmsg = \<lambda>fd ns fl k. (2, ''ok'', id, k)\<rparr>"


definition example_address :: address where
  "example_address = IPv4Address (IPv4_new LINKO_LITTLE_ENDIAN 0 80)"



text \<open>
  C33. \<^verbatim>\<open>TcpServer::bind\<close> is all or nothing.  With a system in which a successful \<^verbatim>\<open>bind\<close> and \<^verbatim>\<open>listen\<close> make a descriptor
  bound and listening, and calls touch no descriptor but theirs: when it succeeds, the server has gained, in the order of the addresses, one
  socket for each, which is bound to that address and listens, all sockets have descriptors of their own, and those the server
  had before are bound and listening as before; when one address fails, the server has no socket, and no
  descriptor but those of the rest of the process is left open.
\<close>

theorem bind_all_or_nothing:
  assumes "fd_laws sys opened" "listen_laws sys view" "all_own opened others (m_socks srv) k"
    and "tcp_bind sys host backlog addrs fails (srv, k) = (ok, fails', srv', k')"
  shows "(ok \<longleftrightarrow> fails' = []) \<and>
     (if ok then all_own opened others (m_socks srv') k' \<and>
        (\<exists>new. m_socks srv' = m_socks srv @ new \<and> list_all2 (\<lambda>addr s. view k' (m_sock s) = (Some addr, True)) addrs new) \<and>
        map (\<lambda>s. view k' (m_sock s)) (m_socks srv) = map (\<lambda>s. view k (m_sock s)) (m_socks srv)
      else m_socks srv' = [] \<and> opened k' = others)"
proof -
  note o = tcp_bind_owns [OF assms(1,3,4)]
  show ?thesis
  proof (cases ok)
    case True
    then show ?thesis
      using o tcp_bind_serves [OF assms(1-3), of host backlog addrs fails fails' srv' k'] assms(4)
      by (auto simp: serves_def [abs_def])
  next
    case False
    then show ?thesis using o by (simp add: all_own_def)
  qed
qed

text \<open>A system with the descriptors 3 and 4, which says of an open one what it is bound to and whether it listens.\<close>

type_synonym listen_state = "int \<Rightarrow> (address option \<times> bool) option"

definition listen_sys :: "listen_state sys_calls" where
  "listen_sys = \<lparr>sys_fds = \<lambda>_. (\<lparr>k_stat = \<lambda>_. None, k_flags = \<lambda>_. 0, k_setfl = linux_setfl\<rparr>, FdManager_new),
     sys_socket = \<lambda>f t p k. if k 3 = None then (3, k(3 \<mapsto> (None, False))) else if k 4 = None then (4, k(4 \<mapsto> (None, False))) else (- 1, k),
     sys_bind = \<lambda>fd a k. (case k fd of None \<Rightarrow> (- 1, k) | Some (_, l) \<Rightarrow> (0, k(fd \<mapsto> (Some a, l)))),
     sys_connect = \<lambda>fd a k. (- 1, k), sys_connect_timeout = \<lambda>fd a t k. (- 1, k),
     sys_listen = \<lambda>fd n k. (case k fd of None \<Rightarrow> (- 1, k) | Some (b, _) \<Rightarrow> (0, k(fd \<mapsto> (b, True)))),
     sys_accept = \<lambda>fd k. (- 1, k), sys_close = \<lambda>fd k. k(fd := None), sys_setsockopt = \<lambda>fd l opt v k. (0, k),
     sys_getsockopt = \<lambda>fd l opt k. (0, 0, k), sys_getpeername = \<lambda>fd k. None, sys_getsockname = \<lambda>fd k. None,
     sys_send = \<lambda>fd b fl k. (- 1, k), sys_sendto = \<lambda>fd b fl a k. (- 1, k), sys_sendmsg = \<lambda>fd b a fl k. (- 1, k),
     sys_recv = \<lambda>fd n fl k. (0, [], k), sys_recvfrom = \<lambda>fd n fl k. (0, [], id, k), sys_recvmsg = \<lambda>fd ns fl k. (0, [], id, k)\<rparr>"

definition listen_view_of :: "listen_state \<Rightarrow> int \<Rightarrow> address option \<times> bool" where
  "listen_view_of k fd = (case k fd of None \<Rightarrow> (None, False) | Some v \<Rightarrow> v)"

lemma listen_sys_calls:
  "sys_socket listen_sys f t p k = (if k 3 = None then (3, k(3 \<mapsto> (None, False))) else if k 4 = None then (4, k(4 \<mapsto> (None, False))) else (- 1, k))"
  "sys_bind listen_sys fd a k = (case k fd of None \<Rightarrow> (- 1, k) | Some (_, l) \<Rightarrow> (0, k(fd \<mapsto> (Some a, l))))"
  "sys_listen listen_sys fd n k = (case k fd of None \<Rightarrow> (- 1, k) | Some (b, _) \<Rightarrow> (0, k(fd \<mapsto> (b, True))))"
  "sys_close listen_sys fd k = k(fd := None)" "sys_setsockopt listen_sys fd l opt v k = (0, k)"
  "sys_accept listen_sys fd k = (- 1, k)" "sys_connect listen_sys fd a k = (- 1, k)" "sys_connect_timeout listen_sys fd a tm k = (- 1, k)"
  "sys_getsockopt listen_sys fd l opt k = (0, 0, k)" "sys_send listen_sys fd bs fl k = (- 1, k)" "sys_sendto listen_sys fd bs fl a k = (- 1, k)"
  "sys_sendmsg listen_sys fd bss ao fl k = (- 1, k)" "sys_recv listen_sys fd len fl k = (0, [], k)"
  "sys_recvfrom listen_sys fd len fl k = (0, [], id, k)" "sys_recvmsg listen_sys fd lens fl k = (0, [], id, k)"
  "sys_getsockname listen_sys fd k = None"
  by (simp_all add: listen_sys_def)

lemma listen_sys_laws: "fd_laws listen_sys dom" "listen_laws listen_sys listen_view_of"
proof -
  have dom: "dom (k(fd \<mapsto> v)) = dom k" if "k fd = Some w" for k :: listen_state and fd v w
    using that by auto
  show "fd_laws listen_sys dom"
    unfolding fd_laws_def listen_sys_calls opens_def by (auto simp: dom split: option.split)
  show "listen_laws listen_sys listen_view_of"
    unfolding listen_laws_def listen_sys_calls by (auto simp: listen_view_of_def split: option.split)
qed

theorem bind_all_or_nothing_witness:
  "case tcp_bind listen_sys LINKO_LITTLE_ENDIAN 16 [example_address, example_address] [] (new_TcpServer, Map.empty) of
     (ok, fails', srv', k') \<Rightarrow> ok \<and> list_all2 (\<lambda>addr s. listen_view_of k' (m_sock s) = (Some addr, True))
       [example_address, example_address] (m_socks srv')"
proof -
  let ?s = "\<lambda>fd. (new_Socket 2 1 0)\<lparr>m_sock := fd\<rparr>" and ?a = example_address
  have create: "Socket_CreateTCP ?a = new_Socket 2 1 0"
    by (simp add: Socket_CreateTCP_def example_address_def getFamily_def IPv4_new_def AF_INET_def SOCK_STREAM_def)
  have bind: "socket_bind listen_sys LINKO_LITTLE_ENDIAN ?a (new_Socket 2 1 0, k) = (True, ?s fd, k(fd \<mapsto> (Some ?a, False)))"
    if "fd = 3 \<and> k 3 = None \<or> fd = 4 \<and> k 3 \<noteq> None \<and> k 4 = None" for k fd
    using that by (auto simp: socket_bind_def valid_socket_def isValid_def new_Socket_def newSock_def initSock_def setOption_def listen_sys_calls
      getLocalAddress_def example_address_def getFamily_def IPv4_new_def AF_INET_def SOCK_STREAM_def Let_def)
  have listens: "socket_listen listen_sys 16 (?s fd, k(fd \<mapsto> (Some ?a, False))) = (True, ?s fd, k(fd \<mapsto> (Some ?a, True)))"
    if "fd \<noteq> - 1" for k fd
    using that by (simp add: socket_listen_def isValid_def listen_sys_calls)
  obtain ok fails' srv' k' where run: "tcp_bind listen_sys LINKO_LITTLE_ENDIAN 16 [?a, ?a] [] (new_TcpServer, Map.empty) =
      (ok, fails', srv', k')" by (metis prod.exhaust)
  have ok
    using run create bind [of 3 Map.empty] listens [of 3 Map.empty] bind [of 4 "[3 \<mapsto> (Some ?a, True)]"] listens [of 4 "[3 \<mapsto> (Some ?a, True)]"]
    by (simp add: tcp_bind_def new_TcpServer_def)
  moreover have "all_own dom {} (m_socks new_TcpServer) Map.empty" by (simp add: all_own_def new_TcpServer_def)
  note bind_all_or_nothing [OF listen_sys_laws this run]
  ultimately show ?thesis using run by (auto simp: new_TcpServer_def)
qed

text \<open>
  C34. Reading from a socket into a byte buffer writes what arrived: when \<^verbatim>\<open>recvmsg\<close> puts bytes into the vectors that
  the buffer offers, for any block size, the buffer's data is overwritten by them from the position on, the position moves behind
  them, the representation invariant holds and the value is their number.
\<close>

theorem socket_read_fills_buffer:
  assumes "ba_inv ba" "m_socket st = Some s" "m_isConnected s" "0 < len"
    and "\<And>lens. sum_list lens = len \<Longrightarrow> sys_recvmsg sys (m_sock s) lens 0 k = (int (length bs), bs, fill, k')"
    and "bs \<noteq> []" "length bs \<le> len" "length bs < 2 ^ 31"
  shows "\<exists>ba'. stream_read_ba sys len ba (st, k) = (Inr (int (length bs)), ba', st, k') \<and> ba_inv ba' \<and>
     written ba' = take (m_position ba) (written ba) @ map of_char bs @ drop (m_position ba + length bs) (written ba) \<and>
     m_position ba' = m_position ba + length bs"
  by (rule stream_read_ba_ok [OF assms])

theorem socket_read_fills_buffer_witness:
  "\<exists>ba'. stream_read_ba example_sys 5 (ByteArray_new (\<lambda>_ _. 0) 1)
      (new_SocketStream (Some ((new_Socket 2 1 0)\<lparr>m_sock := 3, m_isConnected := True\<rparr>)) True, [3]) =
       (Inr 2, ba', new_SocketStream (Some ((new_Socket 2 1 0)\<lparr>m_sock := 3, m_isConnected := True\<rparr>)) True, [3]) \<and>
     written ba' = map of_char ''ok''"
proof -
  let ?ba = "ByteArray_new (\<lambda>_ _. 0) 1" and ?s = "(new_Socket 2 1 0)\<lparr>m_sock := 3, m_isConnected := True\<rparr>"
  have "ba_inv ?ba" by (rule ba_inv_new) simp
  moreover have "sys_recvmsg example_sys (m_sock ?s) lens 0 [3] = (int (length ''ok''), ''ok'', id, [3])" for lens
    by (simp add: example_sys_def)
  moreover have "written ?ba = []" "m_position ?ba = 0" by (simp_all add: written_def ByteArray_new_def)
  moreover have "m_socket (new_SocketStream (Some ?s) True) = Some ?s" "m_isConnected ?s" by (simp_all add: new_SocketStream_def)
  ultimately obtain ba' where
    "stream_read_ba example_sys 5 ?ba (new_SocketStream (Some ?s) True, [3]) =
       (Inr (int (length ''ok'')), ba', new_SocketStream (Some ?s) True, [3])" "written ba' = map of_char ''ok''"
    using socket_read_fills_buffer [of ?ba "new_SocketStream (Some ?s) True" ?s 5 example_sys "[3]" "''ok''" id "[3]"] by auto
  then show ?thesis by (intro exI [of _ ba']) simp
qed

section \<open>The client\<close>

text \<open>
  C35. A body in chunks is put together: when each read of the client delivers one chunk, its size in hexadecimal, the
  data and the line end, and then the last chunk of size 0, the loop over the chunks ends with the data of all chunks in order, and the
  response the parser holds is unchanged.
\<close>

theorem chunked_body_read:
  assumes "bsize < 2 ^ 31" "\<forall>c \<in> set cs. c \<noteq> [] \<and> length (chunk_text c) < bsize" "length (chunk_text []) < bsize"
    and "length data = bsize" "sp_error sp = 0" "feeds rd bsize w (map chunk_text cs @ [chunk_text []]) w'"
  shows "\<exists>sp'. chunk_loop rd bsize data 0 [] sp w = Some (Inr (Some (concat cs, sp'), w')) \<and> sp_data sp' = sp_data sp"
  using chunk_loop_reads [OF assms(1,2,4,5,3,6), of "[]"] by simp

theorem chunked_body_read_witness:
  "\<forall>memory. \<exists>sp'. chunk_loop (\<lambda>n ts. case ts of [] \<Rightarrow> (0, [], []) | t # ts \<Rightarrow> (int (length t), t, ts)) 64 (replicate 64 NUL) 0 []
      (new_HttpResponseParser memory) [''3'' @ crlf @ ''abc'' @ crlf, ''1'' @ crlf @ ''d'' @ crlf, ''0'' @ crlf @ crlf] =
     Some (Inr (Some (''abcd'', sp'), []))"
proof
  fix memory
  let ?rd = "\<lambda>n ts. (case ts of [] \<Rightarrow> (0, [], []) | t # ts \<Rightarrow> (int (length t), t, ts)) :: int \<times> string \<times> string list"
  have t: "chunk_text ''abc'' = ''3'' @ crlf @ ''abc'' @ crlf" "chunk_text ''d'' = ''1'' @ crlf @ ''d'' @ crlf" "chunk_text [] = ''0'' @ crlf @ crlf"
    by (simp_all add: chunk_text_def chunk_head_def hex_def)
  have len: "length crlf = 2" by (simp add: crlf_def)
  have "\<exists>sp'. chunk_loop ?rd 64 (replicate 64 NUL) 0 [] (new_HttpResponseParser memory) (map chunk_text [''abc'', ''d''] @ [chunk_text []]) =
      Some (Inr (Some (concat [''abc'', ''d''], sp'), [])) \<and> sp_data sp' = sp_data (new_HttpResponseParser memory)"
    by (rule chunked_body_read) (simp_all add: t len new_HttpResponseParser_def)
  then show "\<exists>sp'. chunk_loop ?rd 64 (replicate 64 NUL) 0 [] (new_HttpResponseParser memory)
      [''3'' @ crlf @ ''abc'' @ crlf, ''1'' @ crlf @ ''d'' @ crlf, ''0'' @ crlf @ crlf] = Some (Inr (Some (''abcd'', sp'), []))"
    by (auto simp: t)
qed

text \<open>
  C36. The connection pool under any interleaving of its threads: no step deletes or uses a connection that is gone,
  every connection that exists is either in the list or held by one thread, and never by two, and \<^verbatim>\<open>m_total\<close> is the
  number of the connections, up to the additions and subtractions that threads are about to make.
\<close>

theorem pool_connections_unshared:
  assumes "pool_reachable (p, xs @ pc # ys)" "fresh_for fresh p"
  shows "distinct (pool_owned (p, xs @ pc # ys)) \<and> set (pool_owned (p, xs @ pc # ys)) = dom (pl_store p) \<and>
     pl_total p = of_nat (length (pl_conns p) + sum_list (map counted (xs @ pc # ys))) \<and>
     (\<exists>result. pool_move now_ms fresh p pc = Inr result)"
  using pool_reachable_inv [OF assms(1)] pool_move_ok [OF _ assms(2), of xs pc ys now_ms] by (fastforce simp: pool_inv_def)

theorem pool_connections_unshared_witness:
  "\<exists>p. pl_maxSize p = 1 \<and> pl_total p = 2 \<and> distinct (pool_owned (p, [Using 0, Using 1]))"
proof -
  obtain p where p: "pool_reachable (p, map Using [0..<2] @ replicate 0 Outside)" "pl_maxSize p = 1" "pl_total p = of_nat 2"
    using pool_unbounded [of 2 0 1] by blast
  then have "pool_reachable (p, [Using 0] @ Using 1 # [])" by (simp add: upt_rec)
  from pool_connections_unshared [OF this, of None] p show ?thesis by (auto simp: fresh_for_def)
qed

text \<open>
  C37. \<^verbatim>\<open>getConnection\<close> returns: from every reachable state of the pool a thread that enters it and runs on its own, at
  a time below \<open>2^63\<close> milliseconds, ends within five steps, and the pool keeps its invariant.  When the list has a connection that is
  connected and not past its life time, it ends with the first such one, still usable; otherwise the list is empty
  and it ends with the new connection, usable, when connecting succeeds (\<open>fresh\<close> is its address), and without a
  connection when connecting fails.
\<close>

theorem pool_get_returns:
  assumes "pool_reachable (p, xs @ Outside # ys)" "fresh_for fresh p" "now_ms < 2 ^ 63"
  shows "\<exists>p' pc'. pool_run 5 now_ms fresh p Outside = Inr (p', pc') \<and> pool_inv (p', xs @ pc' # ys) \<and>
     (case find (conn_usable now_ms p) (pl_conns p) of
        Some c \<Rightarrow> pc' = Using c \<and> conn_usable now_ms p' c
      | None \<Rightarrow> pl_conns p' = [] \<and>
          (case fresh of Some c \<Rightarrow> pc' = Using c \<and> conn_usable now_ms p' c | None \<Rightarrow> pc' = Outside))"
  using pool_get_part [OF _ assms(2,3)] pool_reachable_inv [OF assms(1)] unfolding pool_inv_part by blast

theorem pool_get_returns_witness:
  "(\<exists>p'. pool_run 5 1000 (Some 7) (new_HttpConnectionPool 1 60 10) Outside = Inr (p', Using 7) \<and> conn_usable 1000 p' 7) \<and>
   (\<exists>p'. pool_run 5 1000 None (new_HttpConnectionPool 1 60 10) Outside = Inr (p', Outside) \<and> pl_conns p' = [])"
proof -
  have start: "pool_reachable (new_HttpConnectionPool 1 60 10, [] @ Outside # [])" using Pool_start [of 1 60 10 "Suc 0"] by simp
  show ?thesis
    using pool_get_returns [OF start, of "Some 7" 1000] pool_get_returns [OF start, of None 1000]
    by (auto simp: new_HttpConnectionPool_def fresh_for_def)
qed

section \<open>Logging and configuration\<close>

text \<open>
  C38. The pattern of a formatter means what its letters say: for every pattern made of plain text, items and items
  with an argument in braces, where an item without braces is followed by its end or by a character that is
  neither alphanumeric nor a brace, the formatter has no error and writes for an event the text of each part in order.
\<close>

theorem log_pattern_formats:
  assumes "tokens_ok ts"
  shows "\<not> fm_error (new_LogFormatter (pattern_of ts)) \<and>
     formatter_format ftime (new_LogFormatter (pattern_of ts)) level e = concat (map (token_output ftime level e) ts)"
  using formatter_tokens [OF assms] by blast

definition example_event :: LogEvent where
  "example_event = \<lparr>ev_logger = ''root'', ev_level = INFO, ev_file = ''a.cc'', ev_line = 3, ev_elapse = 0, ev_threadId = 1, ev_fiberId = 2,
     ev_time = 0, ev_threadName = ''main'', ev_content = ''hello''\<rparr>"

lemma log_pattern_formats_witness:
  "formatter_format (\<lambda>f t. ''noon'') (new_LogFormatter ''%d{%H:%M}%T[%p] %c: %m'') WARN example_event =
     ''noon'' @ [CHR 9] @ ''[WARN] root: hello''"
proof -
  let ?ts = "[Braced CHR ''d'' ''%H:%M'', Item CHR ''T'', Plain ''['', Item CHR ''p'', Plain ''] '', Item CHR ''c'', Plain '': '', Item CHR ''m'']"
  have "tokens_ok ?ts" by (simp add: known_item_def ends_item_def isalnum_def Let_def)
  from log_pattern_formats [OF this, of "\<lambda>f t. ''noon''" WARN example_event] show ?thesis
    by (simp add: letter_output_def example_event_def level_ToString_def)
qed

text \<open>
  C39. Loading a configuration: when the conversions throw standard exceptions only and no listener throws, loading a
  tree returns, gives every variable the value of the last text under its dotted name that can be converted, or leaves
  its value when there is none, and changes nothing else of any variable; the registry still has each under its name.
  The dotted name of a node is the keys on the way to it, joined by dots (empty ones in front are left out), and \<open>texts_at\<close>
  collects the texts of the nodes that have a name, in the order of the tree.
\<close>

theorem config_load_values:
  assumes "config_inv m" "\<forall>key v. map_find (<) key m = Some v \<longrightarrow> quiet v"
  shows "\<exists>m' w'. LoadFromYaml emit root (m, w) = (Inr (), m', w') \<and> config_inv m' \<and>
     (\<forall>key. map_find (<) key m' =
        map_option (\<lambda>v. v\<lparr>cv_val := value_after (cv_from v) (texts_at emit key root) (cv_val v)\<rparr>) (map_find (<) key m))"
proof -
  have "string_order.keys_sorted m" using assms(1) by (simp add: config_inv_def)
  from load_all_values [OF this assms(2), of emit "ListAllMember [] root" w] obtain m' w' where
    *: "load_all emit (ListAllMember [] root) (m, w) = (Inr (), m', w')" "string_order.keys_sorted m'"
    "\<And>key. map_find (<) key m' = map_option (\<lambda>v. v\<lparr>cv_val := value_after (cv_from v)
        (texts_for emit key (ListAllMember [] root)) (cv_val v)\<rparr>) (map_find (<) key m)"
    by blast
  have "map_find (<) key m' = map_option (\<lambda>v. v\<lparr>cv_val := value_after (cv_from v) (texts_at emit key root) (cv_val v)\<rparr>)
      (map_find (<) key m)" for key
    using assms(1) *(3) [of key] texts_for_members [of key emit root]
    by (cases "map_find (<) key m") (auto simp: config_inv_def)
  moreover have "config_inv m'" by (rule load_keeps_inv [OF assms(1) *(2,3)])
  ultimately show ?thesis using * by (auto simp: LoadFromYaml_def)
qed

definition example_var :: "(nat, nat) ConfigVar" where
  "example_var = new_ConfigVar ''i'' (\<lambda>s. if s = ''five'' then Inr 5 else Inl Invalid_argument) (\<lambda>_. Inr []) ''tcp.timeout'' 1 []"

lemma config_load_values_witness:
  "\<exists>m' w'. LoadFromYaml (\<lambda>_. []) (Yaml_map [(''tcp'', Yaml_map [(''timeout'', Yaml_scalar ''five'')]), (''x'', Yaml_null)])
       ([(''tcp.timeout'', example_var)], 0) = (Inr (), m', w') \<and>
     map_find (<) ''tcp.timeout'' m' = Some (example_var\<lparr>cv_val := 5\<rparr>)"
proof -
  have inv: "config_inv [(''tcp.timeout'', example_var)]"
    by (auto simp: config_inv_def string_order.keys_sorted_def example_var_def new_ConfigVar_def tolower_valid valid_name_def split: if_splits)
  have "\<forall>key v. map_find (<) key [(''tcp.timeout'', example_var)] = Some v \<longrightarrow> quiet v"
    by (auto simp: example_var_def new_ConfigVar_def quiet_def is_exception_def split: if_splits)
  from config_load_values [OF inv this, of "\<lambda>_. []"
      "Yaml_map [(''tcp'', Yaml_map [(''timeout'', Yaml_scalar ''five'')]), (''x'', Yaml_null)]" 0]
  show ?thesis
    by (auto simp: yaml_paths.simps texts_at_def dotted_def value_after_def node_text_def example_var_def new_ConfigVar_def)
qed










end
